(* ===== verification/Prelude.thy ===== *)
theory Prelude
  imports Complex_Main "HOL-Library.AList"
begin

text \<open>
  Shared vocabulary of the development: Python's results and exceptions, its dictionaries, and the
  small state-and-exception programs in which the runtime is written, with the triples used to
  reason about them. Nothing here is specific to Sim Pilot.

  \<^item> An operation that can raise returns \<open>'e + 'a\<close>: \<open>Inl\<close> the exception, \<open>Inr\<close> the value.
  \<^item> A dictionary is an association list in insertion order; \<open>AList.update\<close> is Python's
    item assignment (an existing key keeps its position, a new key goes last).
  \<^item> A program over a world \<open>'w\<close> is a function \<open>'w \<Rightarrow> ('e + 'a) \<times> 'w\<close>: a raise keeps the effects
    that happened before it, as in Python.
\<close>

named_theorems result_simps "how the result combinators compute"
named_theorems triple_rules "one rule per program combinator, for proving triples"

section \<open>Results\<close>

type_synonym ('e, 'a) result = "'e + 'a"

abbreviation raise :: "'e \<Rightarrow> ('e, 'a) result" where
  "raise e \<equiv> Inl e"

abbreviation ok :: "'a \<Rightarrow> ('e, 'a) result" where
  "ok a \<equiv> Inr a"

fun rbind :: "('e, 'a) result \<Rightarrow> ('a \<Rightarrow> ('e, 'b) result) \<Rightarrow> ('e, 'b) result" where
  "rbind (Inl e) f = Inl e"
| "rbind (Inr a) f = f a"

definition rguard :: "bool \<Rightarrow> 'e \<Rightarrow> ('e, unit) result" where
  "rguard b e = (if b then Inr () else Inl e)"

fun is_ok :: "('e, 'a) result \<Rightarrow> bool" where
  "is_ok (Inl e) = False"
| "is_ok (Inr a) = True"

lemma rbind_Inr_iff [result_simps]:
  "rbind r f = Inr b \<longleftrightarrow> (\<exists>a. r = Inr a \<and> f a = Inr b)"
  by (cases r) auto

lemma rbind_Inl_iff [result_simps]:
  "rbind r f = Inl e \<longleftrightarrow> r = Inl e \<or> (\<exists>a. r = Inr a \<and> f a = Inl e)"
  by (cases r) auto

lemma rguard_Inr_iff [result_simps]: "rguard b e = Inr u \<longleftrightarrow> b"
  by (simp add: rguard_def)

lemma rguard_Inl_iff [result_simps]: "rguard b e = Inl e' \<longleftrightarrow> \<not> b \<and> e' = e"
  by (auto simp: rguard_def)

lemma rguard_True [simp]: "rguard True e = Inr ()"
  by (simp add: rguard_def)

lemma rguard_False [simp]: "rguard False e = Inl e"
  by (simp add: rguard_def)

lemma is_ok_iff: "is_ok r \<longleftrightarrow> (\<exists>a. r = Inr a)"
  by (cases r) auto

text \<open>A loop that validates or transforms one item at a time and stops at the first exception.\<close>

fun rfold :: "('a \<Rightarrow> 's \<Rightarrow> ('e, 's) result) \<Rightarrow> 'a list \<Rightarrow> 's \<Rightarrow> ('e, 's) result" where
  "rfold f [] s = Inr s"
| "rfold f (x # xs) s = rbind (f x s) (rfold f xs)"

lemma rfold_append: "rfold f (xs @ ys) s = rbind (rfold f xs s) (rfold f ys)"
proof (induction xs arbitrary: s)
  case (Cons x xs)
  then show ?case by (cases "f x s") auto
qed simp

lemma rfold_invariant:
  assumes "rfold f xs s = Inr t" and "P s"
    and "\<And>x s t. x \<in> set xs \<Longrightarrow> P s \<Longrightarrow> f x s = Inr t \<Longrightarrow> P t"
  shows "P t"
  using assms
proof (induction xs arbitrary: s)
  case (Cons x xs)
  from Cons.prems(1) obtain u where u: "f x s = Inr u" "rfold f xs u = Inr t"
    by (auto simp: result_simps)
  have "P u" using Cons.prems u by auto
  then show ?case using Cons.IH [OF u(2)] Cons.prems(3) by auto
qed simp

section \<open>Dictionaries\<close>

lemma dict_set_get: "map_of (AList.update k v d) k' = (if k' = k then Some v else map_of d k')"
  by (simp add: update_conv')

lemma dict_set_distinct: "distinct (map fst d) \<Longrightarrow> distinct (map fst (AList.update k v d))"
  by (rule distinct_update)

lemma dict_set_values:
  "p \<in> set (AList.update k v d) \<Longrightarrow> p = (k, v) \<or> p \<in> set d"
  by (induction d) (auto split: if_splits)

lemma dict_set_mem: "(k, v) \<in> set (AList.update k v d)"
  by (induction d) auto

lemma dict_set_keeps:
  "p \<in> set d \<Longrightarrow> fst p \<noteq> k \<Longrightarrow> p \<in> set (AList.update k v d)"
  by (induction d) auto

lemma dict_set_new: "map_of d k = None \<Longrightarrow> AList.update k v d = d @ [(k, v)]"
  by (induction d) (auto split: if_splits)

lemma dict_get_mem: "map_of d k = Some v \<Longrightarrow> (k, v) \<in> set d"
  by (rule map_of_SomeD)

lemma dict_mem_get: "distinct (map fst d) \<Longrightarrow> (k, v) \<in> set d \<Longrightarrow> map_of d k = Some v"
  by simp

section \<open>Programs with state and exceptions\<close>

type_synonym ('w, 'e, 'a) prog = "'w \<Rightarrow> ('e + 'a) \<times> 'w"

definition ret :: "'a \<Rightarrow> ('w, 'e, 'a) prog" where
  "ret a w = (Inr a, w)"

definition throw :: "'e \<Rightarrow> ('w, 'e, 'a) prog" where
  "throw e w = (Inl e, w)"

definition seq :: "('w, 'e, 'a) prog \<Rightarrow> ('a \<Rightarrow> ('w, 'e, 'b) prog) \<Rightarrow> ('w, 'e, 'b) prog" where
  "seq m f w = (case m w of (Inl e, w') \<Rightarrow> (Inl e, w') | (Inr a, w') \<Rightarrow> f a w')"

definition catch :: "('w, 'e, 'a) prog \<Rightarrow> ('e \<Rightarrow> ('w, 'e, 'a) prog) \<Rightarrow> ('w, 'e, 'a) prog" where
  "catch m h w = (case m w of (Inl e, w') \<Rightarrow> h e w' | (Inr a, w') \<Rightarrow> (Inr a, w'))"

definition gets :: "('w \<Rightarrow> 'a) \<Rightarrow> ('w, 'e, 'a) prog" where
  "gets f w = (Inr (f w), w)"

definition modify :: "('w \<Rightarrow> 'w) \<Rightarrow> ('w, 'e, unit) prog" where
  "modify f w = (Inr (), f w)"

definition lift_result :: "('e, 'a) result \<Rightarrow> ('w, 'e, 'a) prog" where
  "lift_result r w = (r, w)"

lemmas prog_defs = ret_def throw_def seq_def catch_def gets_def modify_def lift_result_def

lemma seq_ok: "seq m f s = (ok b, s') \<longleftrightarrow> (\<exists>a s1. m s = (ok a, s1) \<and> f a s1 = (ok b, s'))"
  by (auto simp: seq_def split: prod.splits sum.splits)

text \<open>
  A triple \<open>triple P m Q E\<close>: from a world in \<open>P\<close>, \<open>m\<close> ends in \<open>Q a\<close> when it returns \<open>a\<close> and in
  \<open>E e\<close> when it raises \<open>e\<close>. Programs are total functions, so the triple is about total correctness.
\<close>

definition triple ::
  "('w \<Rightarrow> bool) \<Rightarrow> ('w, 'e, 'a) prog \<Rightarrow> ('a \<Rightarrow> 'w \<Rightarrow> bool) \<Rightarrow> ('e \<Rightarrow> 'w \<Rightarrow> bool) \<Rightarrow> bool" where
  "triple P m Q E \<longleftrightarrow>
     (\<forall>w. P w \<longrightarrow> (case m w of (Inl e, w') \<Rightarrow> E e w' | (Inr a, w') \<Rightarrow> Q a w'))"

lemma tripleI:
  assumes "\<And>w a w'. P w \<Longrightarrow> m w = (Inr a, w') \<Longrightarrow> Q a w'"
    and "\<And>w e w'. P w \<Longrightarrow> m w = (Inl e, w') \<Longrightarrow> E e w'"
  shows "triple P m Q E"
  using assms by (auto simp: triple_def split: prod.splits sum.splits)

lemma triple_returns: "triple P m Q E \<Longrightarrow> P w \<Longrightarrow> m w = (Inr a, w') \<Longrightarrow> Q a w'"
  by (fastforce simp: triple_def)

lemma triple_raises: "triple P m Q E \<Longrightarrow> P w \<Longrightarrow> m w = (Inl e, w') \<Longrightarrow> E e w'"
  by (fastforce simp: triple_def)

lemma triple_ret [triple_rules]: "triple (Q a) (ret a) Q E"
  by (simp add: triple_def ret_def)

lemma triple_throw [triple_rules]: "triple (E e) (throw e) Q E"
  by (simp add: triple_def throw_def)

lemma triple_gets [triple_rules]: "triple (\<lambda>w. Q (f w) w) (gets f) Q E"
  by (simp add: triple_def gets_def)

lemma triple_modify [triple_rules]: "triple (\<lambda>w. Q () (f w)) (modify f) Q E"
  by (simp add: triple_def modify_def)

lemma triple_seq:
  assumes "triple P m R E" and "\<And>a. triple (R a) (f a) Q E"
  shows "triple P (seq m f) Q E"
  using assms by (fastforce simp: triple_def seq_def split: prod.splits sum.splits)

lemma triple_catch:
  assumes "triple P m Q R" and "\<And>e. triple (R e) (h e) Q E"
  shows "triple P (catch m h) Q E"
  using assms by (fastforce simp: triple_def catch_def split: prod.splits sum.splits)

lemma triple_conseq:
  assumes "triple P' m Q' E'" and "\<And>w. P w \<Longrightarrow> P' w"
    and "\<And>a w. Q' a w \<Longrightarrow> Q a w" and "\<And>e w. E' e w \<Longrightarrow> E e w"
  shows "triple P m Q E"
  using assms by (fastforce simp: triple_def split: prod.splits sum.splits)

lemma triple_pre: "triple P' m Q E \<Longrightarrow> (\<And>w. P w \<Longrightarrow> P' w) \<Longrightarrow> triple P m Q E"
  by (auto simp: triple_def)

lemma triple_if [triple_rules]:
  assumes "b \<Longrightarrow> triple P m Q E" and "\<not> b \<Longrightarrow> triple P m' Q E"
  shows "triple P (if b then m else m') Q E"
  using assms by simp

end
