(* ===== verification/Numeric.thy ===== *)
theory Numeric
  imports Prelude "HOL-Library.Log_Nat"
begin

text \<open>
  Python's inexact arithmetic. A finite \<open>float\<close> is the rational it denotes and every float
  operation is the exact operation followed by rounding to 53 significant bits, ties to even; a
  \<open>Decimal\<close> is the rational it denotes and every \<open>Decimal\<close> operation rounds to the 28 significant
  digits of the default context, ties to even. Both are one function, \<open>round_sig\<close>, in base 2 and
  in base 10. The exponent range is unbounded: overflow to infinity and subnormal floats are not
  modelled, and neither is NaN.

  The lemmas are the ones every range invariant of the simulation needs: rounding is monotone, it
  is exact on representable numbers (so every integer up to \<open>2 ^ 53\<close> is), and it keeps signs.
\<close>

named_theorems round_exact "numbers that rounding leaves alone"

section \<open>Rounding to an integer, ties to even\<close>

definition rhe :: "rat \<Rightarrow> int" where
  "rhe x = (let f = \<lfloor>x\<rfloor>; d = x - of_int f in
     if d < 1 / 2 then f
     else if 1 / 2 < d then f + 1
     else if even f then f else f + 1)"

lemma rhe_of_int [simp]: "rhe (of_int n) = n"
  by (simp add: rhe_def)

lemma rhe_numeral [simp]: "rhe (numeral n) = numeral n"
  using rhe_of_int [of "numeral n"] by simp

lemma rhe_bounds: "of_int (rhe x) \<le> x + 1 / 2" "x \<le> of_int (rhe x) + 1 / 2"
  unfolding rhe_def Let_def by (auto split: if_splits) linarith+

lemma rhe_cases: "rhe x = \<lfloor>x\<rfloor> \<or> rhe x = \<lfloor>x\<rfloor> + 1"
  by (simp add: rhe_def Let_def)

lemma rhe_mono: "x \<le> y \<Longrightarrow> rhe x \<le> rhe y"
proof -
  assume xy: "x \<le> y"
  then have "\<lfloor>x\<rfloor> \<le> \<lfloor>y\<rfloor>" by (rule floor_mono)
  then consider (eq) "\<lfloor>x\<rfloor> = \<lfloor>y\<rfloor>" | (less) "\<lfloor>x\<rfloor> + 1 \<le> \<lfloor>y\<rfloor>" by linarith
  then show ?thesis
  proof cases
    case eq
    then show ?thesis using xy by (auto simp: rhe_def Let_def)
  next
    case less
    then show ?thesis using rhe_cases [of x] rhe_cases [of y] by linarith
  qed
qed

lemma rhe_minus: "rhe (- x) = - rhe x"
proof (cases "of_int \<lfloor>x\<rfloor> = x")
  case True
  then obtain n where "x = of_int n" by metis
  then show ?thesis using rhe_of_int [of "- n"] by simp
next
  case False
  have "of_int \<lfloor>x\<rfloor> < x" using False of_int_floor_le [of x] by (simp add: less_le)
  moreover have "x < of_int \<lfloor>x\<rfloor> + 1" by linarith
  ultimately have neg: "\<lfloor>- x\<rfloor> = - \<lfloor>x\<rfloor> - 1" by (simp add: floor_unique)
  have "even (- \<lfloor>x\<rfloor> - 1) \<longleftrightarrow> odd \<lfloor>x\<rfloor>" by presburger
  then show ?thesis by (auto simp: rhe_def Let_def neg)
qed

section \<open>The exponent of a positive number\<close>

function ndigits :: "nat \<Rightarrow> int \<Rightarrow> nat" where
  "ndigits b n = (if n \<le> 0 \<or> b \<le> 1 then 0 else Suc (ndigits b (n div int b)))"
  by pat_completeness auto
termination
proof (relation "measure (\<lambda>(b, n). nat n)")
  fix b :: nat and n :: int
  assume "\<not> (n \<le> 0 \<or> b \<le> 1)"
  then have "n div int b < n" by (intro int_div_less_self) auto
  then show "((b, n div int b), b, n) \<in> measure (\<lambda>(b, n). nat n)"
    using \<open>\<not> (n \<le> 0 \<or> b \<le> 1)\<close> by simp
qed simp

declare ndigits.simps [simp del]

lemma ndigits_floorlog: "1 < b \<Longrightarrow> ndigits b n = floorlog b (nat n)"
proof (induction b n rule: ndigits.induct)
  case (1 b n)
  show ?case
  proof (cases "n \<le> 0")
    case False
    then have "nat (n div int b) = nat n div b" by (simp add: nat_div_distrib)
    then show ?thesis
      using 1 False by (subst ndigits.simps, subst compute_floorlog) auto
  qed (subst ndigits.simps, simp add: floorlog_def)
qed

definition ilog :: "nat \<Rightarrow> rat \<Rightarrow> int" where
  "ilog b x = (if 1 \<le> x then int (ndigits b \<lfloor>x\<rfloor>) - 1 else - int (ndigits b (\<lceil>1 / x\<rceil> - 1)))"

lemma floorlog_bounds_int:
  assumes "1 < b" and "0 < n"
  shows "int b ^ (floorlog b n - 1) \<le> int n" "int n < int b ^ floorlog b n"
  using floorlog_bounds [OF assms(2,1)] by (metis of_nat_le_iff of_nat_less_iff of_nat_power)+

lemma ilog_bounds:
  assumes b: "1 < b" and x: "0 < x"
  shows "of_nat b powi ilog b x \<le> x" and "x < of_nat b powi (ilog b x + 1)"
proof -
  let ?B = "of_nat b :: rat"
  have B: "1 < ?B" using b by simp
  have "?B powi ilog b x \<le> x \<and> x < ?B powi (ilog b x + 1)"
  proof (cases "1 \<le> x")
    case True
    define n where "n = nat \<lfloor>x\<rfloor>"
    have n: "0 < n" "int n = \<lfloor>x\<rfloor>" using True by (auto simp: n_def)
    obtain k where k: "floorlog b n = Suc k"
      using b n(1) by (cases "floorlog b n") (auto simp: floorlog_eq_zero_iff)
    have lo: "int b ^ k \<le> \<lfloor>x\<rfloor>" and hi: "\<lfloor>x\<rfloor> < int b ^ Suc k"
      using floorlog_bounds_int [OF b n(1)] k n(2) by auto
    have "of_int (int b ^ k) \<le> x" using lo by (simp add: le_floor_iff)
    moreover have "x < of_int (int b ^ Suc k)" using hi by (simp only: floor_less_iff)
    moreover have "ilog b x = int k" using True k b by (simp add: ilog_def n_def ndigits_floorlog)
    moreover have "?B powi (int k + 1) = ?B ^ Suc k"
      by (metis Suc_eq_plus1 of_nat_1 of_nat_add power_int_of_nat)
    ultimately show ?thesis by (simp add: power_int_of_nat)
  next
    case False
    then have inv: "1 < 1 / x" using x by (simp add: field_simps)
    define n where "n = nat (\<lceil>1 / x\<rceil> - 1)"
    have c: "1 < \<lceil>1 / x\<rceil>" using inv by (simp add: less_ceiling_iff)
    then have n: "0 < n" "int n = \<lceil>1 / x\<rceil> - 1" unfolding n_def by linarith+
    obtain k where k: "floorlog b n = Suc k"
      using b n(1) by (cases "floorlog b n") (auto simp: floorlog_eq_zero_iff)
    have lo: "int b ^ k < \<lceil>1 / x\<rceil>" and hi: "\<lceil>1 / x\<rceil> \<le> int b ^ Suc k"
      using floorlog_bounds_int [OF b n(1)] k n(2) by auto
    have "of_int (int b ^ k) < 1 / x" using lo by (simp only: less_ceiling_iff)
    then have 1: "x < inverse (?B ^ k)" using x B by (simp add: field_simps)
    have "1 / x \<le> of_int (int b ^ Suc k)" using hi by (simp only: ceiling_le_iff)
    then have 2: "inverse (?B ^ Suc k) \<le> x" using x B by (simp add: field_simps)
    have e: "ilog b x = - int (Suc k)" using False k b by (simp add: ilog_def n_def ndigits_floorlog)
    have "?B powi (ilog b x + 1) = inverse (?B ^ k)" by (simp add: e power_int_minus)
    moreover have "?B powi ilog b x = inverse (?B ^ Suc k)"
      by (simp only: e power_int_minus power_int_of_nat)
    ultimately show ?thesis using 1 2 by simp
  qed
  then show "?B powi ilog b x \<le> x" and "x < ?B powi (ilog b x + 1)" by auto
qed

lemma ilog_mono:
  assumes b: "1 < b" and x: "0 < x" and xy: "x \<le> y"
  shows "ilog b x \<le> ilog b y"
proof (rule ccontr)
  assume "\<not> ?thesis"
  then have "(of_nat b :: rat) powi (ilog b y + 1) \<le> of_nat b powi ilog b x"
    using b by (intro power_int_increasing) auto
  then show False using ilog_bounds [OF b x] ilog_bounds [OF b, of y] x xy by linarith
qed

section \<open>Rounding to significant digits\<close>

definition round_sig :: "nat \<Rightarrow> nat \<Rightarrow> rat \<Rightarrow> rat" where
  "round_sig b p x = (if x = 0 then 0 else
     let e = ilog b \<bar>x\<bar> + 1 - int p in of_int (rhe (x / of_nat b powi e)) * of_nat b powi e)"

lemma round_sig_0 [simp]: "round_sig b p 0 = 0"
  by (simp add: round_sig_def)

lemma round_sig_minus: "round_sig b p (- x) = - round_sig b p x"
  by (simp add: round_sig_def Let_def rhe_minus)

lemma round_sig_pos_bounds:
  assumes b: "1 < b" and p: "0 < p" and x: "0 < x"
  shows "of_nat b powi ilog b x \<le> round_sig b p x"
    and "round_sig b p x \<le> of_nat b powi (ilog b x + 1)"
proof -
  let ?B = "of_nat b :: rat"
  define e where "e = ilog b x + 1 - int p"
  have B: "0 < ?B" "?B \<noteq> 0" using b by auto
  have Be: "0 < ?B powi e" using B by simp
  have split: "?B powi ilog b x = ?B powi e * ?B ^ (p - 1)"
    "?B powi (ilog b x + 1) = ?B powi e * ?B ^ p"
  proof -
    have "ilog b x = e + int (p - 1)" "ilog b x + 1 = e + int p" using p by (auto simp: e_def)
    then show "?B powi ilog b x = ?B powi e * ?B ^ (p - 1)"
      "?B powi (ilog b x + 1) = ?B powi e * ?B ^ p"
      using B(2) by (metis power_int_add power_int_of_nat)+
  qed
  have "?B ^ (p - 1) \<le> x / ?B powi e" and "x / ?B powi e \<le> ?B ^ p"
    using ilog_bounds [OF b x] Be unfolding split by (auto simp: field_simps)
  then have "of_int (int b ^ (p - 1)) \<le> x / ?B powi e" and "x / ?B powi e \<le> of_int (int b ^ p)"
    by simp_all
  from this [THEN rhe_mono] have "int b ^ (p - 1) \<le> rhe (x / ?B powi e)"
    and "rhe (x / ?B powi e) \<le> int b ^ p"
    by (simp_all only: rhe_of_int)
  then have "of_int (int b ^ (p - 1)) \<le> (of_int (rhe (x / ?B powi e)) :: rat)"
    and "(of_int (rhe (x / ?B powi e)) :: rat) \<le> of_int (int b ^ p)"
    by (simp_all only: of_int_le_iff)
  then have lo: "?B ^ (p - 1) \<le> of_int (rhe (x / ?B powi e))"
    and hi: "of_int (rhe (x / ?B powi e)) \<le> ?B ^ p"
    by simp_all
  have r: "round_sig b p x = of_int (rhe (x / ?B powi e)) * ?B powi e"
    using x by (simp add: round_sig_def e_def Let_def)
  show "?B powi ilog b x \<le> round_sig b p x"
    using mult_right_mono [OF lo, of "?B powi e"] Be by (simp add: r split(1) mult.commute)
  show "round_sig b p x \<le> ?B powi (ilog b x + 1)"
    using mult_right_mono [OF hi, of "?B powi e"] Be by (simp add: r split(2) mult.commute)
qed

lemma round_sig_nonneg:
  assumes "1 < b" and "0 < p" and "0 \<le> x"
  shows "0 \<le> round_sig b p x"
proof (cases "x = 0")
  case False
  then have "0 < x" using assms by simp
  have "0 \<le> (of_nat b :: rat) powi ilog b x" by (simp add: power_int_def)
  then show ?thesis
    using round_sig_pos_bounds(1) [OF assms(1,2) \<open>0 < x\<close>] by (rule order_trans)
qed simp

lemma round_sig_mono_pos:
  assumes b: "1 < b" and p: "0 < p" and x: "0 < x" and xy: "x \<le> y"
  shows "round_sig b p x \<le> round_sig b p y"
proof -
  let ?B = "of_nat b :: rat"
  have y: "0 < y" using x xy by simp
  consider (eq) "ilog b x = ilog b y" | (less) "ilog b x + 1 \<le> ilog b y"
    using ilog_mono [OF b x xy] by linarith
  then show ?thesis
  proof cases
    case eq
    have Be: "0 < ?B powi (ilog b y + 1 - int p)" using b by simp
    have "x / ?B powi (ilog b y + 1 - int p) \<le> y / ?B powi (ilog b y + 1 - int p)"
      using Be xy by (simp add: divide_right_mono)
    from rhe_mono [OF this] show ?thesis
      using x y eq Be by (simp add: round_sig_def Let_def mult_right_mono)
  next
    case less
    then have "?B powi (ilog b x + 1) \<le> ?B powi ilog b y"
      using b by (intro power_int_increasing) auto
    then show ?thesis
      using round_sig_pos_bounds(2) [OF b p x] round_sig_pos_bounds(1) [OF b p y] by linarith
  qed
qed

lemma round_sig_mono:
  assumes b: "1 < b" and p: "0 < p" and xy: "x \<le> y"
  shows "round_sig b p x \<le> round_sig b p y"
proof -
  consider "0 < x" | "x \<le> 0" "0 \<le> y" | "y < 0" by linarith
  then show ?thesis
  proof cases
    case 1 then show ?thesis using round_sig_mono_pos [OF b p _ xy] by simp
  next
    case 2
    then have "0 \<le> round_sig b p (- x)" "0 \<le> round_sig b p y"
      using round_sig_nonneg [OF b p] by auto
    then show ?thesis by (simp add: round_sig_minus)
  next
    case 3
    then have "round_sig b p (- y) \<le> round_sig b p (- x)"
      using round_sig_mono_pos [OF b p, of "- y" "- x"] xy by simp
    then show ?thesis by (simp add: round_sig_minus)
  qed
qed

lemma round_sig_exact:
  assumes b: "1 < b" and p: "0 < p" and x: "x = of_int m * of_nat b powi e"
    and m: "\<bar>m\<bar> \<le> int b ^ p"
  shows "round_sig b p x = x"
proof (cases "m = 0")
  case False
  let ?B = "of_nat b :: rat"
  have B: "1 < ?B" "?B \<noteq> 0" using b by auto
  define E where "E = ilog b \<bar>x\<bar>"
  have pos: "0 < \<bar>x\<bar>" using False B by (simp add: x)
  have "\<bar>x\<bar> = of_int \<bar>m\<bar> * ?B powi e" by (simp add: x abs_mult)
  moreover have "(of_int \<bar>m\<bar> :: rat) \<le> of_int (int b ^ p)" using m by (simp only: of_int_le_iff)
  ultimately have up: "\<bar>x\<bar> \<le> ?B powi (e + int p)"
    using B by (simp add: power_int_add mult_right_mono mult.commute)
  have "?B powi E \<le> \<bar>x\<bar>" using ilog_bounds(1) [OF b pos] by (simp add: E_def)
  then have "?B powi E \<le> ?B powi (e + int p)" using up by simp
  then have "E \<le> e + int p"
    using power_int_strict_increasing [of "e + int p" E ?B] B by (meson not_le)
  define e' where "e' = E + 1 - int p"
  have "\<exists>n. x / ?B powi e' = of_int n"
  proof (cases "e' \<le> e")
    case True
    then have "e = e' + int (nat (e - e'))" by simp
    then have "?B powi e = ?B powi e' * ?B powi int (nat (e - e'))"
      using B by (metis power_int_add)
    then have "x / ?B powi e' = of_int (m * int b ^ nat (e - e'))"
      using B by (simp only: x power_int_of_nat) (simp add: field_simps)
    then show ?thesis by blast
  next
    case False
    then have E: "E = e + int p" using \<open>E \<le> e + int p\<close> by (simp add: e'_def)
    then have "\<bar>x\<bar> = ?B powi (e + int p)"
      using up \<open>?B powi E \<le> \<bar>x\<bar>\<close> by simp
    moreover have "?B powi (e + int p) = ?B powi e' * ?B ^ (p - 1)"
    proof -
      have "e + int p = e' + int (p - 1)" using E p by (simp add: e'_def)
      then show ?thesis using B by (metis power_int_add power_int_of_nat)
    qed
    ultimately have "\<bar>x\<bar> / ?B powi e' = of_int (int b ^ (p - 1))"
      using B by simp
    moreover have "x = \<bar>x\<bar> \<or> x = - \<bar>x\<bar>" by linarith
    ultimately have "x / ?B powi e' = of_int (int b ^ (p - 1))
      \<or> x / ?B powi e' = of_int (- (int b ^ (p - 1)))"
      by (metis minus_divide_left of_int_minus)
    then show ?thesis by blast
  qed
  then obtain n where n: "x / ?B powi e' = of_int n" by blast
  have "round_sig b p x = of_int (rhe (x / ?B powi e')) * ?B powi e'"
    using pos by (simp add: round_sig_def e'_def E_def Let_def)
  also have "\<dots> = x" using B by (simp only: n rhe_of_int) (simp add: n [symmetric])
  finally show ?thesis .
qed (simp add: x)

lemma round_sig_idem:
  assumes b: "1 < b" and p: "0 < p"
  shows "round_sig b p (round_sig b p x) = round_sig b p x"
proof -
  have pos: "round_sig b p (round_sig b p y) = round_sig b p y" if y: "0 < y" for y
  proof -
    let ?B = "of_nat b :: rat"
    define e where "e = ilog b y + 1 - int p"
    have B: "0 < ?B powi e" using b by simp
    have r: "round_sig b p y = of_int (rhe (y / ?B powi e)) * ?B powi e"
      using y by (simp add: round_sig_def e_def Let_def)
    have "?B powi (ilog b y + 1) = ?B ^ p * ?B powi e"
    proof -
      have "ilog b y + 1 = int p + e" by (simp add: e_def)
      then show ?thesis using b by (metis of_nat_0_eq_iff not_less_zero power_int_add power_int_of_nat)
    qed
    then have "of_int (rhe (y / ?B powi e)) * ?B powi e \<le> ?B ^ p * ?B powi e"
      using round_sig_pos_bounds(2) [OF b p y] r by simp
    then have "(of_int (rhe (y / ?B powi e)) :: rat) \<le> of_int (int b ^ p)"
      using B by (simp add: mult_le_cancel_right)
    then have "rhe (y / ?B powi e) \<le> int b ^ p" by (simp only: of_int_le_iff)
    moreover have "0 \<le> rhe (y / ?B powi e)"
      using rhe_mono [of 0 "y / ?B powi e"] y B rhe_of_int [of 0] by simp
    ultimately show ?thesis using round_sig_exact [OF b p r] by simp
  qed
  consider "x = 0" | "0 < x" | "0 < - x" by linarith
  then show ?thesis
  proof cases
    case 3
    then have "round_sig b p (round_sig b p (- x)) = round_sig b p (- x)" by (rule pos)
    then show ?thesis by (simp add: round_sig_minus)
  qed (auto simp: pos)
qed

section \<open>Floats\<close>

definition fl :: "rat \<Rightarrow> rat" where
  "fl x = round_sig 2 53 x"

definition fadd :: "rat \<Rightarrow> rat \<Rightarrow> rat" where
  "fadd x y = fl (x + y)"

definition fsub :: "rat \<Rightarrow> rat \<Rightarrow> rat" where
  "fsub x y = fl (x - y)"

definition fmul :: "rat \<Rightarrow> rat \<Rightarrow> rat" where
  "fmul x y = fl (x * y)"

definition fdiv :: "rat \<Rightarrow> rat \<Rightarrow> rat" where
  "fdiv x y = fl (x / y)"

text \<open>\<open>round(x, 6)\<close>: the exact value rounded half to even at six decimals, then read back as a float.\<close>

definition py_round6 :: "rat \<Rightarrow> rat" where
  "py_round6 x = fl (of_int (rhe (x * 1000000)) / 1000000)"

definition is_float :: "rat \<Rightarrow> bool" where
  "is_float x \<longleftrightarrow> fl x = x"

lemma fl_mono: "x \<le> y \<Longrightarrow> fl x \<le> fl y"
  by (simp add: fl_def round_sig_mono)

lemma fl_idem [simp]: "fl (fl x) = fl x"
  by (simp add: fl_def round_sig_idem)

lemma is_float_fl [simp]: "is_float (fl x)"
  by (simp add: is_float_def)

lemma fl_minus: "fl (- x) = - fl x"
  by (simp add: fl_def round_sig_minus)

lemma fl_dyadic [round_exact]: "\<bar>m\<bar> \<le> 2 ^ 53 \<Longrightarrow> fl (of_int m / 2 ^ k) = of_int m / 2 ^ k"
  using round_sig_exact [of 2 53 "of_int m / 2 ^ k" m "- int k"]
  by (simp add: fl_def power_int_minus field_simps)

lemma fl_of_int [round_exact]: "\<bar>m\<bar> \<le> 2 ^ 53 \<Longrightarrow> fl (of_int m) = of_int m"
  using fl_dyadic [of m 0] by simp

lemma fl_0 [simp]: "fl 0 = 0"
  by (simp add: fl_def)

lemma fl_1 [simp]: "fl 1 = 1"
  using fl_of_int [of 1] by simp

lemma fl_numeral [round_exact]: "(numeral n :: int) \<le> 2 ^ 53 \<Longrightarrow> fl (numeral n) = numeral n"
  using fl_of_int [of "numeral n"] by simp

lemma fl_nonneg: "0 \<le> x \<Longrightarrow> 0 \<le> fl x"
  using fl_mono [of 0 x] by simp

lemma fl_le_int: "x \<le> of_int m \<Longrightarrow> \<bar>m\<bar> \<le> 2 ^ 53 \<Longrightarrow> fl x \<le> of_int m"
  using fl_mono [of x "of_int m"] by (simp add: fl_of_int)

lemma fl_ge_int: "of_int m \<le> x \<Longrightarrow> \<bar>m\<bar> \<le> 2 ^ 53 \<Longrightarrow> of_int m \<le> fl x"
  using fl_mono [of "of_int m" x] by (simp add: fl_of_int)

lemma py_round6_mono: "x \<le> y \<Longrightarrow> py_round6 x \<le> py_round6 y"
  by (auto simp: py_round6_def intro!: fl_mono divide_right_mono rhe_mono mult_right_mono)

lemma py_round6_of_int: "\<bar>m\<bar> \<le> 2 ^ 53 \<Longrightarrow> py_round6 (of_int m) = of_int m"
proof -
  assume m: "\<bar>m\<bar> \<le> 2 ^ 53"
  have "rhe (of_int m * 1000000) = m * 1000000"
    using rhe_of_int [of "m * 1000000"] by simp
  then show ?thesis using fl_of_int [OF m] by (simp add: py_round6_def)
qed

lemma py_round6_0 [simp]: "py_round6 0 = 0"
  using py_round6_of_int [of 0] by simp

lemma py_round6_float [simp]: "is_float (py_round6 x)"
  by (simp add: py_round6_def)

lemma py_round6_nonneg: "0 \<le> x \<Longrightarrow> 0 \<le> py_round6 x"
  using py_round6_mono [of 0 x] by simp

lemma py_round6_le_int: "x \<le> of_int m \<Longrightarrow> \<bar>m\<bar> \<le> 2 ^ 53 \<Longrightarrow> py_round6 x \<le> of_int m"
  using py_round6_mono [of x "of_int m"] by (simp add: py_round6_of_int)

section \<open>Decimals\<close>

definition dec :: "rat \<Rightarrow> rat" where
  "dec x = round_sig 10 28 x"

definition dadd :: "rat \<Rightarrow> rat \<Rightarrow> rat" where
  "dadd x y = dec (x + y)"

definition dsub :: "rat \<Rightarrow> rat \<Rightarrow> rat" where
  "dsub x y = dec (x - y)"

lemma dec_mono: "x \<le> y \<Longrightarrow> dec x \<le> dec y"
  by (simp add: dec_def round_sig_mono)

lemma dec_0 [simp]: "dec 0 = 0"
  by (simp add: dec_def)

lemma dec_nonneg: "0 \<le> x \<Longrightarrow> 0 \<le> dec x"
  using dec_mono [of 0 x] by simp

lemma dec_of_int: "\<bar>m\<bar> \<le> 10 ^ 28 \<Longrightarrow> dec (of_int m) = of_int m"
  using round_sig_exact [of 10 28 "of_int m" m 0] by (simp add: dec_def)

text \<open>
  \<open>Decimal(str(x))\<close> of a float goes through \<open>repr\<close>: the shortest decimal that reads back as \<open>x\<close>
  and, among those of that length, the closest to \<open>x\<close>. \<open>repr_at n x\<close> tries \<open>n\<close> significant digits: the
  nearest candidate first, then the two neighbours (the nearest can miss at a power of two, where
  the floats below are twice as dense). Seventeen digits are enough for every float; \<open>x\<close> itself stands
  after them so that the function is total.
\<close>

definition repr_at :: "nat \<Rightarrow> rat \<Rightarrow> (int \<times> int) option" where
  "repr_at n x = (let e = ilog 10 \<bar>x\<bar> + 1 - int n; q = x / 10 powi e in
     List.find (\<lambda>(m, e). fl (of_int m * 10 powi e) = x)
       [(rhe q, e), (\<lfloor>q\<rfloor>, e), (\<lceil>q\<rceil>, e)])"

fun repr_search :: "nat list \<Rightarrow> rat \<Rightarrow> (int \<times> int) option" where
  "repr_search [] x = None"
| "repr_search (n # ns) x = (case repr_at n x of Some d \<Rightarrow> Some d | None \<Rightarrow> repr_search ns x)"

definition repr_lengths :: "nat list" where
  "repr_lengths = [1..<18]"

definition repr_dec :: "rat \<Rightarrow> rat" where
  "repr_dec x = (if x = 0 then 0 else
     case repr_search repr_lengths x of Some (m, e) \<Rightarrow> of_int m * 10 powi e | None \<Rightarrow> x)"

lemma repr_at_fl: "repr_at n x = Some (m, e) \<Longrightarrow> fl (of_int m * 10 powi e) = x"
  by (auto simp: repr_at_def Let_def split: if_splits)

lemma repr_search_at: "repr_search ns x = Some d \<Longrightarrow> \<exists>n \<in> set ns. repr_at n x = Some d"
  by (induction ns) (auto split: option.splits)

lemma repr_search_fl: "repr_search ns x = Some (m, e) \<Longrightarrow> fl (of_int m * 10 powi e) = x"
  using repr_search_at repr_at_fl by blast

lemma repr_dec_roundtrip: "is_float x \<Longrightarrow> fl (repr_dec x) = x"
  by (auto simp: repr_dec_def is_float_def repr_search_fl split: option.split)

lemma repr_dec_pos: "is_float x \<Longrightarrow> 0 < x \<Longrightarrow> 0 < repr_dec x"
  using repr_dec_roundtrip [of x] fl_mono [of "repr_dec x" 0] by fastforce

lemma repr_dec_nonneg: "is_float x \<Longrightarrow> 0 \<le> x \<Longrightarrow> 0 \<le> repr_dec x"
  using repr_dec_pos [of x] by (cases "x = 0") (auto simp: repr_dec_def)

text \<open>An integral float of moderate size is its own decimal.\<close>

lemma abs_le_int_round:
  assumes "\<bar>q\<bar> \<le> of_int N"
  shows "\<bar>\<lfloor>q\<rfloor>\<bar> \<le> N" "\<bar>\<lceil>q\<rceil>\<bar> \<le> N" "\<bar>rhe q\<bar> \<le> N"
proof -
  have b: "of_int (- N) \<le> q" "q \<le> of_int N" using assms by auto
  have f: "- N \<le> \<lfloor>q\<rfloor>" using b(1) by (simp only: le_floor_iff)
  have c: "\<lceil>q\<rceil> \<le> N" using b(2) by (simp only: ceiling_le_iff)
  have "\<lfloor>q\<rfloor> \<le> \<lceil>q\<rceil>" by (rule floor_le_ceiling)
  then show "\<bar>\<lfloor>q\<rfloor>\<bar> \<le> N" "\<bar>\<lceil>q\<rceil>\<bar> \<le> N" using f c by linarith+
  have "- N \<le> rhe q" using rhe_mono [OF b(1)] by (simp only: rhe_of_int)
  moreover have "rhe q \<le> N" using rhe_mono [OF b(2)] by (simp only: rhe_of_int)
  ultimately show "\<bar>rhe q\<bar> \<le> N" by simp
qed

lemma repr_at_int:
  assumes r: "repr_at n (of_int x) = Some (m, e)" and x: "\<bar>x\<bar> \<le> 10 ^ 14" and x0: "x \<noteq> 0"
  shows "of_int m * 10 powi e = (of_int x :: rat)"
proof -
  let ?q = "(of_int x :: rat) / 10 powi e"
  have pos: "0 < \<bar>of_int x :: rat\<bar>" using x0 by simp
  have e: "e = ilog 10 \<bar>of_int x\<bar> + 1 - int n" and m: "m \<in> {rhe ?q, \<lfloor>?q\<rfloor>, \<lceil>?q\<rceil>}"
    using r by (auto simp: repr_at_def Let_def split: if_splits)
  show ?thesis
  proof (cases "0 \<le> e")
    case False
    then have "(10 :: rat) powi e = inverse (10 ^ nat (- e))"
      by (simp add: power_int_def field_simps)
    then have "?q = of_int (x * 10 ^ nat (- e))" by (simp add: field_simps)
    then have "of_int m = ?q" using m by (auto simp only: rhe_of_int floor_of_int ceiling_of_int)
    then show ?thesis by simp
  next
    case True
    have up: "\<bar>of_int x :: rat\<bar> \<le> 10 powi (int n + e)"
      using ilog_bounds(2) [OF _ pos, of 10] e by simp
    have "\<bar>?q\<bar> \<le> of_int (10 ^ n)"
      using up by (simp add: abs_divide field_simps power_int_add)
    then have "\<bar>m\<bar> \<le> 10 ^ n" using m abs_le_int_round by auto
    then have "(of_int \<bar>m\<bar> :: rat) \<le> of_int (10 ^ n)" by (simp only: of_int_le_iff)
    then have "\<bar>of_int m * 10 powi e :: rat\<bar> \<le> 10 ^ n * 10 powi e"
      by (simp add: abs_mult mult_right_mono)
    also have "\<dots> = 10 powi (ilog 10 \<bar>of_int x\<bar> + 1)"
    proof -
      have "ilog 10 \<bar>of_int x\<bar> + 1 = int n + e" using e by simp
      then show ?thesis by (simp add: power_int_add)
    qed
    also have "\<dots> \<le> 10 * \<bar>of_int x\<bar>"
      using ilog_bounds(1) [OF _ pos, of 10] by (simp add: power_int_add)
    also have "\<dots> \<le> of_int (2 ^ 53)"
    proof -
      have "10 * \<bar>x\<bar> \<le> 2 ^ 53" using x by simp
      then have "of_int (10 * \<bar>x\<bar>) \<le> (of_int (2 ^ 53) :: rat)" by (simp only: of_int_le_iff)
      then show ?thesis by simp
    qed
    finally have b: "\<bar>of_int m * 10 powi e :: rat\<bar> \<le> of_int (2 ^ 53)" .
    have i: "of_int m * 10 powi e = (of_int (m * 10 ^ nat e) :: rat)"
      using True by (simp add: power_int_def)
    have "\<bar>m * 10 ^ nat e\<bar> \<le> 2 ^ 53"
      using b by (simp only: i of_int_abs [symmetric] of_int_le_iff)
    from fl_of_int [OF this] have "fl (of_int m * 10 powi e) = of_int m * 10 powi e"
      by (simp only: i)
    then show ?thesis using repr_at_fl [OF r] by simp
  qed
qed

lemma repr_dec_of_int: "\<bar>x\<bar> \<le> 10 ^ 14 \<Longrightarrow> repr_dec (of_int x) = of_int x"
  using repr_at_int by (auto simp: repr_dec_def split: option.splits dest!: repr_search_at)

lemma repr_dec_numeral: "(numeral n :: int) \<le> 10 ^ 14 \<Longrightarrow> repr_dec (numeral n) = numeral n"
  using repr_dec_of_int [of "numeral n"] by simp

lemma repr_dec_0 [simp]: "repr_dec 0 = 0"
  by (simp add: repr_dec_def)

end
