(* ===== verification/Json.thy ===== *)
theory Json
  imports Numeric "HOL-Library.List_Lexorder" "HOL-Library.Char_ord"
begin

text \<open>
  JSON values and Python's text. A dictionary keeps its insertion order; Python's \<open>==\<close> on such
  values is equality of the normal forms \<open>py_norm\<close> (\<open>True == 1 == 1.0\<close>, and the order of keys does
  not matter), while two values serialise to the same text with sorted keys exactly when their
  canonical forms \<open>canon\<close> agree, so a fingerprint made of that text is kept as the canonical form.
  Timestamps and decimals cross JSON as strings; they are kept as the scalars \<open>JTime\<close> (microseconds
  since the epoch) and \<open>JDec\<close>, so that reading back what was written is exact. Characters are the code
  points below 256, the values of \<open>char\<close>: text outside that range is not modelled.
\<close>

section \<open>Values\<close>

datatype json =
    JNull
  | JBool bool
  | JInt int
  | JFloat rat
  | JStr string
  | JTime int
  | JDec rat
  | JList "json list"
  | JObj "(string \<times> json) list"

type_synonym jobject = "(string \<times> json) list"

text \<open>\<open>d.get(k)\<close>: a missing key and an explicit null are the same \<open>None\<close>.\<close>

definition jget :: "jobject \<Rightarrow> string \<Rightarrow> json" where
  "jget d k = (case map_of d k of Some v \<Rightarrow> v | None \<Rightarrow> JNull)"

fun as_str :: "json \<Rightarrow> string option" where
  "as_str (JStr s) = Some s"
| "as_str _ = None"

fun as_bool :: "json \<Rightarrow> bool option" where
  "as_bool (JBool b) = Some b"
| "as_bool _ = None"

fun as_obj :: "json \<Rightarrow> jobject option" where
  "as_obj (JObj d) = Some d"
| "as_obj _ = None"

fun as_list :: "json \<Rightarrow> json list option" where
  "as_list (JList l) = Some l"
| "as_list _ = None"

text \<open>\<open>isinstance(v, int) and not isinstance(v, bool)\<close>\<close>

fun as_int :: "json \<Rightarrow> int option" where
  "as_int (JInt i) = Some i"
| "as_int _ = None"

text \<open>\<open>isinstance(v, (int, float)) and not isinstance(v, bool)\<close>, with the exact value\<close>

fun as_num :: "json \<Rightarrow> rat option" where
  "as_num (JInt i) = Some (of_int i)"
| "as_num (JFloat r) = Some r"
| "as_num _ = None"

text \<open>\<open>isinstance(v, (int, float))\<close> alone: \<open>bool\<close> is a subclass of \<open>int\<close>\<close>

fun as_num_or_bool :: "json \<Rightarrow> rat option" where
  "as_num_or_bool (JBool b) = Some (if b then 1 else 0)"
| "as_num_or_bool v = as_num v"

text \<open>\<open>Decimal(str(v))\<close> of a number: exact for an integer, through \<open>repr\<close> for a float.\<close>

fun as_decimal :: "json \<Rightarrow> rat option" where
  "as_decimal (JInt i) = Some (of_int i)"
| "as_decimal (JFloat r) = Some (repr_dec r)"
| "as_decimal _ = None"

fun is_null :: "json \<Rightarrow> bool" where
  "is_null JNull = True"
| "is_null _ = False"

fun opt_json :: "('a \<Rightarrow> json) \<Rightarrow> 'a option \<Rightarrow> json" where
  "opt_json f None = JNull"
| "opt_json f (Some a) = f a"

section \<open>Equality and canonical form\<close>

fun py_norm :: "json \<Rightarrow> json" where
  "py_norm (JBool b) = JFloat (if b then 1 else 0)"
| "py_norm (JInt i) = JFloat (of_int i)"
| "py_norm (JList l) = JList (map py_norm l)"
| "py_norm (JObj d) = JObj (sort_key fst (map (\<lambda>(k, v). (k, py_norm v)) d))"
| "py_norm v = v"

definition py_eq :: "json \<Rightarrow> json \<Rightarrow> bool" where
  "py_eq a b \<longleftrightarrow> py_norm a = py_norm b"

fun canon :: "json \<Rightarrow> json" where
  "canon (JList l) = JList (map canon l)"
| "canon (JObj d) = JObj (sort_key fst (map (\<lambda>(k, v). (k, canon v)) d))"
| "canon v = v"

lemma py_eq_refl [simp]: "py_eq a a"
  by (simp add: py_eq_def)

lemma py_eq_sym: "py_eq a b \<Longrightarrow> py_eq b a"
  by (simp add: py_eq_def)

lemma py_eq_trans: "py_eq a b \<Longrightarrow> py_eq b c \<Longrightarrow> py_eq a c"
  by (simp add: py_eq_def)

lemma py_eq_commute: "py_eq a b \<longleftrightarrow> py_eq b a"
  by (auto intro: py_eq_sym)

lemma py_eq_cong:
  "py_eq a a' \<Longrightarrow> py_eq b b' \<Longrightarrow> py_eq a b \<longleftrightarrow> py_eq a' b'"
  by (simp add: py_eq_def)

lemma sort_map_fst:
  "sort_key fst (map (\<lambda>(k, v). (k, f v)) d) = map (\<lambda>(k, v). (k, f v)) (sort_key fst d)"
proof -
  let ?m = "\<lambda>(k, v). (k, f v)"
  have ins: "insort_key fst (?m x) (map ?m ys) = map ?m (insort_key fst x ys)" for x ys
    by (induction ys) (auto split: prod.splits)
  show ?thesis
    by (induction d) (simp_all add: ins)
qed

text \<open>Values with the same serialised text are equal for Python; the converse fails on \<open>1 == 1.0\<close>.\<close>

lemma py_norm_canon: "py_norm (canon v) = py_norm v"
proof (induction v rule: canon.induct)
  case (2 d)
  let ?n = "\<lambda>(k, v). (k, py_norm v)" and ?c = "\<lambda>(k, v). (k, canon v)"
  have "map ?n (map ?c (sort_key fst d)) = map ?n (sort_key fst d)"
    using 2 by auto
  moreover have "sort_key fst (map ?n (sort_key fst d)) = map ?n (sort_key fst d)"
    by (simp add: sort_map_fst sort_key_id_if_sorted)
  ultimately have "sort_key fst (map ?n (sort_key fst (map ?c d))) = map ?n (sort_key fst d)"
    by (simp only: sort_map_fst)
  then show ?case by (simp add: sort_map_fst)
qed simp_all

lemma canon_py_eq: "canon a = canon b \<Longrightarrow> py_eq a b"
  by (metis py_eq_def py_norm_canon)

lemma map_of_sort_key: "distinct (map fst d) \<Longrightarrow> map_of (sort_key fst d) = map_of d"
  by (rule map_of_eqI) (auto simp: distinct_map)

section \<open>Text\<close>

definition digit_char :: "nat \<Rightarrow> char" where
  "digit_char d = char_of (48 + d)"

function digits_text :: "int \<Rightarrow> string" where
  "digits_text n = (if n < 10 then [digit_char (nat n)]
     else digits_text (n div 10) @ [digit_char (nat (n mod 10))])"
  by pat_completeness auto
termination
  by (relation "measure nat") auto

declare digits_text.simps [simp del]

definition int_text :: "int \<Rightarrow> string" where
  "int_text i = (if i < 0 then ''-'' @ digits_text (- i) else digits_text i)"

definition pad_zeros :: "nat \<Rightarrow> string \<Rightarrow> string" where
  "pad_zeros n s = replicate (n - length s) (CHR ''0'') @ s"

definition strip_zeros :: "string \<Rightarrow> string" where
  "strip_zeros s = rev (dropWhile (\<lambda>c. c = CHR ''0'') (rev s))"

definition exponent_text :: "int \<Rightarrow> string" where
  "exponent_text e = ''e'' @ (if e < 0 then ''-'' else ''+'') @ pad_zeros 2 (digits_text \<bar>e\<bar>)"

text \<open>
  Digits with a decimal exponent: \<open>ds\<close> are significant digits without trailing zeros and the
  leading one has weight \<open>10 ^ e\<close>.
\<close>

definition fixed_text :: "string \<Rightarrow> int \<Rightarrow> string" where
  "fixed_text ds e = (if e < 0 then ''0.'' @ replicate (nat (- e - 1)) (CHR ''0'') @ ds
     else let k = nat e + 1; whole = take k ds @ replicate (k - length ds) (CHR ''0'') in
       if length ds \<le> k then whole else whole @ ''.'' @ drop k ds)"

definition scientific_text :: "string \<Rightarrow> int \<Rightarrow> string" where
  "scientific_text ds e = (case ds of [] \<Rightarrow> '''' | d # rest \<Rightarrow>
     [d] @ (if rest = [] then '''' else ''.'' @ rest) @ exponent_text e)"

definition sign_text :: "rat \<Rightarrow> string" where
  "sign_text x = (if x < 0 then ''-'' else '''')"

text \<open>\<open>repr\<close> of a float: the shortest digits, positional for exponents from -4 to 15.\<close>

definition float_repr :: "rat \<Rightarrow> string" where
  "float_repr x = (if x = 0 then ''0.0'' else
     case repr_search repr_lengths \<bar>x\<bar> of
       None \<Rightarrow> ''nan''
     | Some (m, e) \<Rightarrow>
         let all = digits_text m; ds = strip_zeros all; top = e + int (length all) - 1 in
         sign_text x @
           (if -4 \<le> top \<and> top < 16
            then (let t = fixed_text ds top in if CHR ''.'' \<in> set t then t else t @ ''.0'')
            else scientific_text ds top))"

text \<open>\<open>format(x, "g")\<close>: six significant digits, positional for exponents from -4 to 5.\<close>

definition float_g :: "rat \<Rightarrow> string" where
  "float_g x = (if x = 0 then ''0'' else
     let e0 = ilog 10 \<bar>x\<bar>; m0 = rhe (\<bar>x\<bar> / 10 powi (e0 - 5));
         (m, e) = (if m0 = 1000000 then (100000, e0 + 1) else (m0, e0));
         ds = strip_zeros (digits_text m) in
     sign_text x @ (if -4 \<le> e \<and> e < 6 then fixed_text ds e else scientific_text ds e))"

text \<open>\<open>format(x, ".2f")\<close>\<close>

definition float_2f :: "rat \<Rightarrow> string" where
  "float_2f x = (let c = rhe (\<bar>x\<bar> * 100) in
     sign_text x @ digits_text (c div 100) @ ''.'' @ pad_zeros 2 (digits_text (c mod 100)))"

fun join :: "string \<Rightarrow> string list \<Rightarrow> string" where
  "join sep [] = ''''"
| "join sep [s] = s"
| "join sep (s # t # ss) = s @ sep @ join sep (t # ss)"

definition hex_char :: "nat \<Rightarrow> char" where
  "hex_char d = (if d < 10 then digit_char d else char_of (87 + d))"

definition repr_char :: "char \<Rightarrow> char \<Rightarrow> string" where
  "repr_char q c = (let n = (of_char c :: nat) in
     if c = q \<or> n = 92 then [CHR 0x5C, c]
     else if n = 10 then [CHR 0x5C, CHR ''n'']
     else if n = 13 then [CHR 0x5C, CHR ''r'']
     else if n = 9 then [CHR 0x5C, CHR ''t'']
     else if n < 32 \<or> (127 \<le> n \<and> n \<le> 160) \<or> n = 173 then [CHR 0x5C, CHR ''x'', hex_char (n div 16), hex_char (n mod 16)]
     else [c])"

definition str_repr :: "string \<Rightarrow> string" where
  "str_repr s = (let q = (if CHR 0x27 \<in> set s \<and> CHR 0x22 \<notin> set s then CHR 0x22 else CHR 0x27) in
     [q] @ concat (map (repr_char q) s) @ [q])"

fun py_repr :: "json \<Rightarrow> string" where
  "py_repr JNull = ''None''"
| "py_repr (JBool b) = (if b then ''True'' else ''False'')"
| "py_repr (JInt i) = int_text i"
| "py_repr (JFloat r) = float_repr r"
| "py_repr (JStr s) = str_repr s"
| "py_repr (JTime t) = str_repr (int_text t)"
| "py_repr (JDec r) = str_repr (float_repr r)"
| "py_repr (JList l) = ''['' @ join '', '' (map py_repr l) @ '']''"
| "py_repr (JObj d) = ''{'' @ join '', '' (map (\<lambda>(k, v). str_repr k @ '': '' @ py_repr v) d) @ ''}''"

text \<open>\<open>str(v)\<close>: text stays as it is.\<close>

fun py_str :: "json \<Rightarrow> string" where
  "py_str (JStr s) = s"
| "py_str v = py_repr v"

text \<open>White space among the code points below 256, and \<open>str.strip()\<close>.\<close>

definition is_space :: "char \<Rightarrow> bool" where
  "is_space c \<longleftrightarrow> (let n = (of_char c :: nat) in (9 \<le> n \<and> n \<le> 13) \<or> (28 \<le> n \<and> n \<le> 32) \<or>
     n = 133 \<or> n = 160)"

definition strip :: "string \<Rightarrow> string" where
  "strip s = rev (dropWhile is_space (rev (dropWhile is_space s)))"

definition stripped :: "string \<Rightarrow> bool" where
  "stripped s \<longleftrightarrow> s \<noteq> [] \<and> \<not> is_space (hd s) \<and> \<not> is_space (last s)"

lemma strip_stripped: "stripped s \<Longrightarrow> strip s = s"
proof -
  assume s: "stripped s"
  then have 1: "dropWhile is_space s = s"
    by (cases s) (auto simp: stripped_def)
  have "dropWhile is_space (rev s) = rev s"
    using s by (cases s rule: rev_cases) (auto simp: stripped_def)
  then show "strip s = s" by (simp add: strip_def 1)
qed

end
