(* ===== verification/Uuid.thy ===== *)
theory Uuid
  imports Json "HOL-Library.Word"
begin

text \<open>
  UUIDs: 128-bit values with their canonical text. \<open>uuid_parse\<close> is \<open>uuid.UUID(s)\<close>: it drops the
  \<open>urn:\<close> and \<open>uuid:\<close> markers, surrounding braces and all hyphens and wants 32 hexadecimal digits
  (the underscores and blanks that \<open>int(s, 16)\<close> would also tolerate are rejected here). The hash behind
  \<open>uuid5\<close> is a parameter of every definition that uses it.
\<close>

type_synonym uuid = "128 word"

fun hex_digits :: "nat \<Rightarrow> int \<Rightarrow> string" where
  "hex_digits 0 n = []"
| "hex_digits (Suc k) n = hex_digits k (n div 16) @ [hex_char (nat (n mod 16))]"

definition uuid_text :: "uuid \<Rightarrow> string" where
  "uuid_text u = (let h = hex_digits 32 (uint u) in
     take 8 h @ ''-'' @ take 4 (drop 8 h) @ ''-'' @ take 4 (drop 12 h) @ ''-'' @
     take 4 (drop 16 h) @ ''-'' @ drop 20 h)"

definition hex_value :: "char \<Rightarrow> int option" where
  "hex_value c = (let n = (of_char c :: int) in
     if 48 \<le> n \<and> n \<le> 57 then Some (n - 48)
     else if 97 \<le> n \<and> n \<le> 102 then Some (n - 87)
     else if 65 \<le> n \<and> n \<le> 70 then Some (n - 55)
     else None)"

fun hex_parse :: "int \<Rightarrow> string \<Rightarrow> int option" where
  "hex_parse acc [] = Some acc"
| "hex_parse acc (c # cs) =
     (case hex_value c of None \<Rightarrow> None | Some d \<Rightarrow> hex_parse (acc * 16 + d) cs)"

function remove_all :: "string \<Rightarrow> string \<Rightarrow> string" where
  "remove_all pat s = (case s of [] \<Rightarrow> [] | c # cs \<Rightarrow>
     if pat \<noteq> [] \<and> take (length pat) s = pat then remove_all pat (drop (length pat) s)
     else c # remove_all pat cs)"
  by pat_completeness auto
termination
  by (relation "measure (\<lambda>(p, s). length s)") auto

declare remove_all.simps [simp del]

definition strip_braces :: "string \<Rightarrow> string" where
  "strip_braces s = (let b = (\<lambda>c. c = CHR ''{'' \<or> c = CHR ''}'') in
     rev (dropWhile b (rev (dropWhile b s))))"

definition uuid_parse :: "string \<Rightarrow> uuid option" where
  "uuid_parse s =
     (let h = filter (\<lambda>c. c \<noteq> CHR ''-'') (strip_braces (remove_all ''uuid:'' (remove_all ''urn:'' s))) in
      if length h = 32 then map_option word_of_int (hex_parse 0 h) else None)"

lemma hex_char_code: "m < 16 \<Longrightarrow> (of_char (hex_char m) :: nat) = (if m < 10 then 48 + m else 87 + m)"
  by (simp add: hex_char_def digit_char_def)

lemma hex_value_char: "0 \<le> n \<Longrightarrow> n < 16 \<Longrightarrow> hex_value (hex_char (nat n)) = Some n"
proof -
  assume n: "0 \<le> n" "n < 16"
  have "(of_char (hex_char (nat n)) :: int) = int (of_char (hex_char (nat n)))"
    by (simp only: of_nat_of_char)
  also have "\<dots> = (if n < 10 then 48 + n else 87 + n)"
    using n by (simp add: hex_char_code nat_less_iff)
  finally show ?thesis using n by (auto simp: hex_value_def Let_def)
qed

lemma hex_digits_length [simp]: "length (hex_digits k n) = k"
  by (induction k n rule: hex_digits.induct) auto

lemma hex_parse_append:
  "hex_parse a (xs @ ys) = (case hex_parse a xs of None \<Rightarrow> None | Some b \<Rightarrow> hex_parse b ys)"
  by (induction xs arbitrary: a) (auto split: option.split)

lemma hex_parse_digits:
  "0 \<le> n \<Longrightarrow> hex_parse 0 (hex_digits k n) = Some (n mod 16 ^ k)"
proof (induction k n rule: hex_digits.induct)
  case (2 k n)
  have "n mod 16 ^ Suc k = n div 16 mod 16 ^ k * 16 + n mod 16"
    by (simp add: zmod_zmult2_eq mult.commute)
  then show ?case using 2 by (simp add: hex_parse_append hex_value_char)
qed simp

lemma hex_char_range: "n < 16 \<Longrightarrow> hex_char n \<notin> {CHR ''u'', CHR ''{'', CHR ''}'', CHR ''-''}"
proof
  assume n: "n < 16" and "hex_char n \<in> {CHR ''u'', CHR ''{'', CHR ''}'', CHR ''-''}"
  then have "(of_char (hex_char n) :: nat) \<in> {117, 123, 125, 45}" by auto
  with n show False by (auto simp: hex_char_code split: if_splits)
qed

lemma hex_digits_chars:
  "set (hex_digits k n) \<inter> {CHR ''u'', CHR ''{'', CHR ''}'', CHR ''-''} = {}"
proof (induction k n rule: hex_digits.induct)
  case (2 k n)
  have "nat (n mod 16) < 16" by simp
  from hex_char_range [OF this] 2 show ?case by auto
qed simp

lemma remove_all_absent: "hd pat \<notin> set s \<Longrightarrow> remove_all pat s = s"
proof (induction s)
  case (Cons c cs)
  have "take (length pat) (c # cs) \<noteq> pat" if "pat \<noteq> []"
    using Cons.prems that by (cases pat) auto
  then show ?case using Cons by (subst remove_all.simps) (auto simp del: take_Cons')
qed (simp add: remove_all.simps)

lemma strip_braces_absent:
  assumes "CHR ''{'' \<notin> set s" and "CHR ''}'' \<notin> set s"
  shows "strip_braces s = s"
proof -
  have "dropWhile (\<lambda>c. c = CHR ''{'' \<or> c = CHR ''}'') t = t" if "set t \<subseteq> set s" for t
    using that assms by (cases t) auto
  from this [of s] this [of "rev s"] show ?thesis by (simp add: strip_braces_def)
qed

theorem uuid_roundtrip [simp]: "uuid_parse (uuid_text u) = Some u"
proof -
  define h where "h = hex_digits 32 (uint u)"
  have len: "length h = 32" by (simp add: h_def)
  have chars: "set h \<inter> {CHR ''u'', CHR ''{'', CHR ''}'', CHR ''-''} = {}"
    by (simp only: h_def hex_digits_chars)
  have t: "set (uuid_text u) \<subseteq> set h \<union> {CHR ''-''}"
    by (auto simp: uuid_text_def Let_def h_def [symmetric] dest: in_set_takeD in_set_dropD)
  then have no: "CHR ''u'' \<notin> set (uuid_text u)" "CHR ''{'' \<notin> set (uuid_text u)"
    "CHR ''}'' \<notin> set (uuid_text u)"
    using chars by auto
  have same: "strip_braces (remove_all ''uuid:'' (remove_all ''urn:'' (uuid_text u))) = uuid_text u"
    using no by (simp add: remove_all_absent strip_braces_absent)
  have keep: "filter (\<lambda>c. c \<noteq> CHR ''-'') xs = xs" if "set xs \<subseteq> set h" for xs
    using that chars by (auto simp: filter_id_conv)
  have "filter (\<lambda>c. c \<noteq> CHR ''-'') (uuid_text u) =
      take 8 h @ take 4 (drop 8 h) @ take 4 (drop 12 h) @ take 4 (drop 16 h) @ drop 20 h"
    by (simp add: uuid_text_def Let_def h_def [symmetric] keep set_take_subset set_drop_subset
        order_trans [OF set_take_subset set_drop_subset])
  also have "\<dots> = h"
    using append_take_drop_id [of 8 h] append_take_drop_id [of 4 "drop 8 h"]
      append_take_drop_id [of 4 "drop 12 h"] append_take_drop_id [of 4 "drop 16 h"]
    by simp
  finally have f: "filter (\<lambda>c. c \<noteq> CHR ''-'') (uuid_text u) = h" .
  have "hex_parse 0 h = Some (uint u)"
    using hex_parse_digits [of "uint u" 32] uint_lt2p [of u] by (simp add: h_def)
  then show ?thesis by (simp add: uuid_parse_def same f len)
qed

lemma uuid_text_inject [simp]: "uuid_text u = uuid_text v \<longleftrightarrow> u = v"
  by (metis option.inject uuid_roundtrip)

end
