(* ===== verification/Domain.thy ===== *)
theory Domain
  imports Uuid "HOL-Library.Monad_Syntax"
begin

text \<open>
  The domain models of \<open>sim_pilot/domain/models.py\<close> and \<open>domain/types.py\<close>: a record per model, a
  datatype per enumeration, \<open>dump_\<close> for \<open>model_dump(mode="json")\<close> (fields in declaration order,
  \<open>schema_version\<close> first) and \<open>load_\<close> for \<open>model_validate_json\<close> under the models' configuration
  (\<open>extra="forbid"\<close>, \<open>strict=True\<close>). The field and model validators are the \<open>valid_\<close> predicates; a
  value that meets its predicate survives the round trip through JSON.

  A \<open>Decimal\<close> is its rational value: two spellings of one value (\<open>1.0\<close> and \<open>1.00\<close>) are not told apart.
  Timestamps are microseconds since the epoch, all in UTC.
\<close>

section \<open>Validating JSON\<close>

definition only_keys :: "string list \<Rightarrow> jobject \<Rightarrow> bool" where
  "only_keys ks d \<longleftrightarrow> (\<forall>k \<in> set (map fst d). k \<in> set ks)"

definition need :: "jobject \<Rightarrow> string \<Rightarrow> (json \<Rightarrow> 'a option) \<Rightarrow> 'a option" where
  "need d k f = (case map_of d k of None \<Rightarrow> None | Some v \<Rightarrow> f v)"

definition default_to :: "jobject \<Rightarrow> string \<Rightarrow> 'a \<Rightarrow> (json \<Rightarrow> 'a option) \<Rightarrow> 'a option" where
  "default_to d k a f = (case map_of d k of None \<Rightarrow> Some a | Some v \<Rightarrow> f v)"

definition nullable :: "(json \<Rightarrow> 'a option) \<Rightarrow> json \<Rightarrow> 'a option option" where
  "nullable f v = (if is_null v then Some None else map_option Some (f v))"

definition load_list :: "(json \<Rightarrow> 'a option) \<Rightarrow> json \<Rightarrow> 'a list option" where
  "load_list f v = (case as_list v of None \<Rightarrow> None | Some l \<Rightarrow> those (map f l))"

definition load_ge :: "int \<Rightarrow> json \<Rightarrow> int option" where
  "load_ge n v = (case as_int v of None \<Rightarrow> None | Some i \<Rightarrow> if n \<le> i then Some i else None)"

text \<open>\<open>StringConstraints(strip_whitespace=True, min_length=1)\<close>\<close>

definition load_nonempty :: "json \<Rightarrow> string option" where
  "load_nonempty v = (case as_str v of None \<Rightarrow> None
     | Some s \<Rightarrow> if strip s = '''' then None else Some (strip s))"

text \<open>A \<open>float\<close> field takes an integer too; a \<open>Decimal\<close> field takes the string that a dump writes or a number.\<close>

definition load_float_ge :: "rat \<Rightarrow> json \<Rightarrow> rat option" where
  "load_float_ge m v = (case as_num v of None \<Rightarrow> None
     | Some r \<Rightarrow> if m \<le> fl r then Some (fl r) else None)"

fun load_decimal :: "json \<Rightarrow> rat option" where
  "load_decimal (JDec r) = Some r"
| "load_decimal v = as_decimal v"

definition load_decimal_ge :: "rat \<Rightarrow> json \<Rightarrow> rat option" where
  "load_decimal_ge m v =
     (case load_decimal v of None \<Rightarrow> None | Some r \<Rightarrow> if m \<le> r then Some r else None)"

fun load_time :: "json \<Rightarrow> int option" where
  "load_time (JTime t) = Some t"
| "load_time _ = None"

lemma need_simps [simp]:
  "need ((k, v) # d) k' f = (if k' = k then f v else need d k' f)"
  "need [] k' f = None"
  by (simp_all add: need_def)

lemma default_to_simps [simp]:
  "default_to ((k, v) # d) k' a f = (if k' = k then f v else default_to d k' a f)"
  "default_to [] k' a f = Some a"
  by (simp_all add: default_to_def)

lemma only_keys_simps [simp]:
  "only_keys ks []"
  "only_keys ks ((k, v) # d) \<longleftrightarrow> k \<in> set ks \<and> only_keys ks d"
  by (auto simp: only_keys_def)

lemma nullable_opt_json [simp]:
  assumes "\<And>a. x = Some a \<Longrightarrow> f (g a) = Some a" and "\<And>a. x = Some a \<Longrightarrow> \<not> is_null (g a)"
  shows "nullable f (opt_json g x) = Some x"
  using assms by (cases x) (auto simp: nullable_def)

lemma load_list_map [simp]:
  "(\<And>a. a \<in> set xs \<Longrightarrow> f (g a) = Some a) \<Longrightarrow> load_list f (JList (map g xs)) = Some xs"
proof (induction xs)
  case (Cons x xs)
  then have "those (map (f \<circ> g) xs) = Some xs" by (auto simp: load_list_def)
  then show ?case using Cons.prems by (simp add: load_list_def)
qed (simp add: load_list_def)

lemma load_ge_int [simp]: "load_ge n (JInt i) = (if n \<le> i then Some i else None)"
  by (simp add: load_ge_def)

lemma load_nonempty_stripped [simp]: "stripped s \<Longrightarrow> load_nonempty (JStr s) = Some s"
  by (auto simp: load_nonempty_def strip_stripped stripped_def)

lemma load_nonempty_stripped_result: "load_nonempty v = Some s \<Longrightarrow> s \<noteq> ''''"
  by (auto simp: load_nonempty_def split: option.splits if_splits)

lemma load_float_ge_float [simp]:
  "is_float r \<Longrightarrow> m \<le> r \<Longrightarrow> load_float_ge m (JFloat r) = Some r"
  by (simp add: load_float_ge_def is_float_def)

lemma load_decimal_ge_dec [simp]: "load_decimal_ge m (JDec r) = (if m \<le> r then Some r else None)"
  by (simp add: load_decimal_ge_def)

section \<open>Enumerations\<close>

datatype task_status =
  Pending | Running | Completed | Blocked | WaitingForApproval | Failed | Cancelled

datatype adapter_id = AdReference | AdOpenTTD | AdRailRoute | AdSoftwareInc

datatype objective_type = ReachResource | MaintainResource | CompleteProject | RunUntil

datatype constraint_type =
  MaximumSpend | MinimumReserve | AllowedAction | ForbiddenAction | ResourceFloor

datatype decision_type = DExecute | DWait | DComplete | DApprovalRequired | DBlocked

fun task_status_value :: "task_status \<Rightarrow> string" where
  "task_status_value Pending = ''pending''"
| "task_status_value Running = ''running''"
| "task_status_value Completed = ''completed''"
| "task_status_value Blocked = ''blocked''"
| "task_status_value WaitingForApproval = ''waiting_for_approval''"
| "task_status_value Failed = ''failed''"
| "task_status_value Cancelled = ''cancelled''"

fun adapter_id_value :: "adapter_id \<Rightarrow> string" where
  "adapter_id_value AdReference = ''reference''"
| "adapter_id_value AdOpenTTD = ''openttd''"
| "adapter_id_value AdRailRoute = ''rail_route''"
| "adapter_id_value AdSoftwareInc = ''software_inc''"

fun objective_type_value :: "objective_type \<Rightarrow> string" where
  "objective_type_value ReachResource = ''reach_resource''"
| "objective_type_value MaintainResource = ''maintain_resource''"
| "objective_type_value CompleteProject = ''complete_project''"
| "objective_type_value RunUntil = ''run_until''"

fun constraint_type_value :: "constraint_type \<Rightarrow> string" where
  "constraint_type_value MaximumSpend = ''maximum_spend''"
| "constraint_type_value MinimumReserve = ''minimum_reserve''"
| "constraint_type_value AllowedAction = ''allowed_action''"
| "constraint_type_value ForbiddenAction = ''forbidden_action''"
| "constraint_type_value ResourceFloor = ''resource_floor''"

fun decision_type_value :: "decision_type \<Rightarrow> string" where
  "decision_type_value DExecute = ''execute''"
| "decision_type_value DWait = ''wait''"
| "decision_type_value DComplete = ''complete''"
| "decision_type_value DApprovalRequired = ''approval_required''"
| "decision_type_value DBlocked = ''blocked''"

text \<open>An enumeration parses from its value: the first member whose value is the text.\<close>

definition enum_parse :: "('a \<Rightarrow> string) \<Rightarrow> 'a list \<Rightarrow> string \<Rightarrow> 'a option" where
  "enum_parse value members s = find (\<lambda>m. value m = s) members"

lemma enum_parse_Some: "enum_parse value members s = Some m \<Longrightarrow> value m = s \<and> m \<in> set members"
  by (auto simp: enum_parse_def find_Some_iff)

definition decision_types :: "decision_type list" where
  "decision_types = [DExecute, DWait, DComplete, DApprovalRequired, DBlocked]"

lemma decision_type_parse: "enum_parse decision_type_value decision_types (decision_type_value t) = Some t"
  by (cases t) (simp_all add: enum_parse_def decision_types_def)

section \<open>Models\<close>

record objective =
  obj_version :: int
  obj_type :: objective_type
  obj_description :: string
  obj_parameters :: jobject

record constraint =
  con_version :: int
  con_type :: constraint_type
  con_description :: string
  con_parameters :: jobject

record authority_policy =
  auth_version :: int
  maximum_single_spend :: "rat option"
  maximum_total_spend :: "rat option"
  approval_actions :: "string list"
  forbidden_actions :: "string list"

record task_specification =
  spec_version :: int
  spec_adapter :: adapter_id
  spec_objective :: objective
  spec_constraints :: "constraint list"
  spec_authority :: authority_policy
  spec_notifications :: "string list"
  spec_stop_conditions :: "string list"

record observation =
  obs_version :: int
  obs_sequence :: int
  obs_timestamp :: int
  obs_tick :: int
  obs_summary :: string
  obs_state :: jobject

record action =
  act_version :: int
  act_type :: string
  act_parameters :: jobject
  act_effect :: string
  act_cost :: rat

record decision =
  dec_version :: int
  dec_type :: decision_type
  dec_reason :: string
  dec_action :: "action option"

record execution_result =
  res_version :: int
  res_success :: bool
  res_changed :: bool
  res_cost :: rat
  res_message :: string

record task =
  task_version :: int
  task_id :: uuid
  task_status :: task_status
  task_spec :: task_specification
  task_seq :: int
  task_spend :: rat
  task_created :: int
  task_updated :: int

section \<open>Validators\<close>

definition valid_objective :: "objective \<Rightarrow> bool" where
  "valid_objective ob \<longleftrightarrow> 1 \<le> obj_version ob \<and> stripped (obj_description ob)"

definition valid_constraint :: "constraint \<Rightarrow> bool" where
  "valid_constraint c \<longleftrightarrow> 1 \<le> con_version c \<and> stripped (con_description c)"

definition valid_authority :: "authority_policy \<Rightarrow> bool" where
  "valid_authority a \<longleftrightarrow> 1 \<le> auth_version a \<and>
     (case maximum_single_spend a of None \<Rightarrow> True | Some s \<Rightarrow> 0 \<le> s) \<and>
     (case maximum_total_spend a of None \<Rightarrow> True | Some t \<Rightarrow> 0 \<le> t) \<and>
     list_all stripped (approval_actions a) \<and> list_all stripped (forbidden_actions a) \<and>
     (case (maximum_single_spend a, maximum_total_spend a) of
        (Some s, Some t) \<Rightarrow> \<not> s > t | _ \<Rightarrow> True)"

definition valid_specification :: "task_specification \<Rightarrow> bool" where
  "valid_specification s \<longleftrightarrow> 1 \<le> spec_version s \<and> valid_objective (spec_objective s) \<and>
     list_all valid_constraint (spec_constraints s) \<and> valid_authority (spec_authority s) \<and>
     list_all stripped (spec_notifications s) \<and> list_all stripped (spec_stop_conditions s)"

definition valid_observation :: "observation \<Rightarrow> bool" where
  "valid_observation ob \<longleftrightarrow> 1 \<le> obs_version ob \<and> 0 \<le> obs_sequence ob \<and> 0 \<le> obs_tick ob \<and>
     stripped (obs_summary ob)"

definition valid_action :: "action \<Rightarrow> bool" where
  "valid_action a \<longleftrightarrow> 1 \<le> act_version a \<and> stripped (act_type a) \<and> stripped (act_effect a) \<and>
     0 \<le> act_cost a"

definition valid_decision :: "decision \<Rightarrow> bool" where
  "valid_decision d \<longleftrightarrow> 1 \<le> dec_version d \<and> stripped (dec_reason d) \<and>
     (case dec_action d of
        None \<Rightarrow> dec_type d \<notin> {DExecute, DApprovalRequired}
      | Some a \<Rightarrow> dec_type d \<in> {DExecute, DApprovalRequired} \<and> valid_action a)"

definition valid_result :: "execution_result \<Rightarrow> bool" where
  "valid_result r \<longleftrightarrow> 1 \<le> res_version r \<and> is_float (res_cost r) \<and> 0 \<le> res_cost r \<and>
     stripped (res_message r)"

definition valid_task :: "task \<Rightarrow> bool" where
  "valid_task t \<longleftrightarrow> 1 \<le> task_version t \<and> valid_specification (task_spec t) \<and> 0 \<le> task_seq t \<and>
     0 \<le> task_spend t \<and> \<not> task_updated t < task_created t"

section \<open>To JSON and back\<close>

definition dump_action :: "action \<Rightarrow> jobject" where
  "dump_action a =
     [(''schema_version'', JInt (act_version a)),
      (''type'', JStr (act_type a)),
      (''parameters'', JObj (act_parameters a)),
      (''expected_effect'', JStr (act_effect a)),
      (''estimated_cost'', JDec (act_cost a))]"

definition load_action :: "jobject \<Rightarrow> action option" where
  "load_action d = do {
     (if only_keys [''schema_version'', ''type'', ''parameters'', ''expected_effect'',
        ''estimated_cost''] d then Some () else None);
     version \<leftarrow> default_to d ''schema_version'' 1 (load_ge 1);
     type \<leftarrow> need d ''type'' load_nonempty;
     parameters \<leftarrow> default_to d ''parameters'' [] as_obj;
     effect \<leftarrow> need d ''expected_effect'' load_nonempty;
     cost \<leftarrow> default_to d ''estimated_cost'' 0 (load_decimal_ge 0);
     Some \<lparr>act_version = version, act_type = type, act_parameters = parameters,
       act_effect = effect, act_cost = cost\<rparr>
   }"

definition dump_observation :: "observation \<Rightarrow> jobject" where
  "dump_observation ob =
     [(''schema_version'', JInt (obs_version ob)),
      (''sequence'', JInt (obs_sequence ob)),
      (''timestamp'', JTime (obs_timestamp ob)),
      (''tick'', JInt (obs_tick ob)),
      (''summary'', JStr (obs_summary ob)),
      (''state'', JObj (obs_state ob))]"

definition load_observation :: "jobject \<Rightarrow> observation option" where
  "load_observation d = do {
     (if only_keys [''schema_version'', ''sequence'', ''timestamp'', ''tick'', ''summary'',
        ''state''] d then Some () else None);
     version \<leftarrow> default_to d ''schema_version'' 1 (load_ge 1);
     sequence \<leftarrow> need d ''sequence'' (load_ge 0);
     timestamp \<leftarrow> need d ''timestamp'' load_time;
     tick \<leftarrow> need d ''tick'' (load_ge 0);
     summary \<leftarrow> need d ''summary'' load_nonempty;
     state \<leftarrow> need d ''state'' as_obj;
     Some \<lparr>obs_version = version, obs_sequence = sequence, obs_timestamp = timestamp,
       obs_tick = tick, obs_summary = summary, obs_state = state\<rparr>
   }"

definition dump_decision :: "decision \<Rightarrow> jobject" where
  "dump_decision d =
     [(''schema_version'', JInt (dec_version d)),
      (''type'', JStr (decision_type_value (dec_type d))),
      (''reason'', JStr (dec_reason d)),
      (''action'', opt_json (\<lambda>a. JObj (dump_action a)) (dec_action d))]"

text \<open>A JSON value as an object, then validated.\<close>

definition load_object :: "(jobject \<Rightarrow> 'a option) \<Rightarrow> json \<Rightarrow> 'a option" where
  "load_object f v = (case as_obj v of None \<Rightarrow> None | Some d \<Rightarrow> f d)"

definition load_decision :: "jobject \<Rightarrow> decision option" where
  "load_decision d = do {
     (if only_keys [''schema_version'', ''type'', ''reason'', ''action''] d then Some () else None);
     version \<leftarrow> default_to d ''schema_version'' 1 (load_ge 1);
     type \<leftarrow> need d ''type''
       (\<lambda>v. Option.bind (as_str v) (enum_parse decision_type_value decision_types));
     reason \<leftarrow> need d ''reason'' load_nonempty;
     action \<leftarrow> default_to d ''action'' None (nullable (load_object load_action));
     (let result = \<lparr>dec_version = version, dec_type = type, dec_reason = reason,
        dec_action = action\<rparr> in
      if (action = None) = (type \<notin> {DExecute, DApprovalRequired}) then Some result else None)
   }"

definition dump_result :: "execution_result \<Rightarrow> jobject" where
  "dump_result r =
     [(''schema_version'', JInt (res_version r)),
      (''success'', JBool (res_success r)),
      (''state_changed'', JBool (res_changed r)),
      (''cost'', JFloat (res_cost r)),
      (''message'', JStr (res_message r))]"

definition load_result :: "jobject \<Rightarrow> execution_result option" where
  "load_result d = do {
     (if only_keys [''schema_version'', ''success'', ''state_changed'', ''cost'', ''message''] d
      then Some () else None);
     version \<leftarrow> default_to d ''schema_version'' 1 (load_ge 1);
     success \<leftarrow> need d ''success'' as_bool;
     changed \<leftarrow> need d ''state_changed'' as_bool;
     cost \<leftarrow> need d ''cost'' (load_float_ge 0);
     message \<leftarrow> need d ''message'' load_nonempty;
     Some \<lparr>res_version = version, res_success = success, res_changed = changed,
       res_cost = cost, res_message = message\<rparr>
   }"

definition dump_objective :: "objective \<Rightarrow> jobject" where
  "dump_objective ob =
     [(''schema_version'', JInt (obj_version ob)),
      (''type'', JStr (objective_type_value (obj_type ob))),
      (''description'', JStr (obj_description ob)),
      (''parameters'', JObj (obj_parameters ob))]"

definition dump_constraint :: "constraint \<Rightarrow> jobject" where
  "dump_constraint c =
     [(''schema_version'', JInt (con_version c)),
      (''type'', JStr (constraint_type_value (con_type c))),
      (''description'', JStr (con_description c)),
      (''parameters'', JObj (con_parameters c))]"

definition dump_authority :: "authority_policy \<Rightarrow> jobject" where
  "dump_authority a =
     [(''schema_version'', JInt (auth_version a)),
      (''maximum_single_spend'', opt_json JDec (maximum_single_spend a)),
      (''maximum_total_spend'', opt_json JDec (maximum_total_spend a)),
      (''approval_actions'', JList (map JStr (approval_actions a))),
      (''forbidden_actions'', JList (map JStr (forbidden_actions a)))]"

definition dump_specification :: "task_specification \<Rightarrow> jobject" where
  "dump_specification s =
     [(''schema_version'', JInt (spec_version s)),
      (''adapter_type'', JStr (adapter_id_value (spec_adapter s))),
      (''objective'', JObj (dump_objective (spec_objective s))),
      (''constraints'', JList (map (\<lambda>c. JObj (dump_constraint c)) (spec_constraints s))),
      (''authority'', JObj (dump_authority (spec_authority s))),
      (''notifications'', JList (map JStr (spec_notifications s))),
      (''stop_conditions'', JList (map JStr (spec_stop_conditions s)))]"

lemma load_dump_action [simp]: "valid_action a \<Longrightarrow> load_action (dump_action a) = Some a"
  by (simp add: load_action_def dump_action_def valid_action_def)

lemma load_dump_observation [simp]:
  "valid_observation ob \<Longrightarrow> load_observation (dump_observation ob) = Some ob"
  by (simp add: load_observation_def dump_observation_def valid_observation_def)

lemma load_dump_result [simp]: "valid_result r \<Longrightarrow> load_result (dump_result r) = Some r"
  by (simp add: load_result_def dump_result_def valid_result_def)

lemma load_dump_decision [simp]: "valid_decision d \<Longrightarrow> load_decision (dump_decision d) = Some d"
  by (auto simp: load_decision_def dump_decision_def valid_decision_def decision_type_parse
    load_object_def nullable_def split: option.splits)

lemma load_observation_valid_sequence:
  "load_observation d = Some ob \<Longrightarrow> 0 \<le> obs_sequence ob \<and> 0 \<le> obs_tick ob"
  by (auto simp: load_observation_def need_def load_ge_def
    split: if_splits option.splits bind_splits)

section \<open>Equality of models\<close>

text \<open>Pydantic models are equal when their fields are, and dictionaries by Python's \<open>==\<close>.\<close>

definition action_eq :: "action \<Rightarrow> action \<Rightarrow> bool" where
  "action_eq a b \<longleftrightarrow> act_version a = act_version b \<and> act_type a = act_type b \<and>
     py_eq (JObj (act_parameters a)) (JObj (act_parameters b)) \<and>
     act_effect a = act_effect b \<and> act_cost a = act_cost b"

lemma action_eq_refl [simp]: "action_eq a a"
  by (simp add: action_eq_def)

end
