(* ===== verification/RuntimeModels.thy ===== *)
theory RuntimeModels
  imports Domain
begin

text \<open>
  The runtime's own models (\<open>runtime/models.py\<close>), the adapter contract's data (\<open>adapters/base.py\<close>),
  the provider telemetry (\<open>provider_metadata.py\<close>) and the exceptions that cross the runtime's
  boundaries (\<open>runtime/errors.py\<close>, \<open>runtime/decision_errors.py\<close>, \<open>persistence/errors.py\<close>). The
  models carry \<open>schema_version: Literal[1]\<close>, which is not a field of the records here: it is written
  by every dump and checked by every load.
\<close>

section \<open>Exceptions\<close>

datatype exn_class =
    ValueErr
  | ValidationErr
  | RuntimeErr
  | RecordNotFound
  | DuplicateRecord
  | SequenceConflict
  | StaleUpdate
  | TransactionErr
  | UnsupportedSchemaVersion
  | InvalidPersistedPayload
  | DurablePersistence
  | ReconstructionConsistency
  | ScriptedDecisionExhausted
  | DecisionContextTooLarge
  | DecisionSemanticValidation
  | OtherDecisionProvider string
  | UnsupportedAdapterReconciliation
  | AdapterReconciliationMismatch
  | OtherException string
  | SimulatedCrash

datatype exn = Exn (exn_class: exn_class) (exn_text: string)

text \<open>\<open>except PersistenceError\<close>, \<open>except DecisionProviderError\<close>, \<open>except ValueError\<close>, \<open>except Exception\<close>\<close>

definition is_persistence_error :: "exn \<Rightarrow> bool" where
  "is_persistence_error e \<longleftrightarrow> exn_class e \<in> {RecordNotFound, DuplicateRecord, SequenceConflict,
     StaleUpdate, TransactionErr, UnsupportedSchemaVersion, InvalidPersistedPayload}"

fun is_decision_class :: "exn_class \<Rightarrow> bool" where
  "is_decision_class DecisionContextTooLarge = True"
| "is_decision_class DecisionSemanticValidation = True"
| "is_decision_class (OtherDecisionProvider n) = True"
| "is_decision_class _ = False"

definition is_decision_provider_error :: "exn \<Rightarrow> bool" where
  "is_decision_provider_error e \<longleftrightarrow> is_decision_class (exn_class e)"

definition is_application_error :: "exn \<Rightarrow> bool" where
  "is_application_error e \<longleftrightarrow> exn_class e \<noteq> SimulatedCrash"

text \<open>\<open>type(error).__name__\<close>\<close>

fun class_name :: "exn_class \<Rightarrow> string" where
  "class_name ValueErr = ''ValueError''"
| "class_name ValidationErr = ''ValidationError''"
| "class_name RuntimeErr = ''RuntimeError''"
| "class_name RecordNotFound = ''RecordNotFoundError''"
| "class_name DuplicateRecord = ''DuplicateRecordError''"
| "class_name SequenceConflict = ''SequenceConflictError''"
| "class_name StaleUpdate = ''StaleUpdateError''"
| "class_name TransactionErr = ''TransactionError''"
| "class_name UnsupportedSchemaVersion = ''UnsupportedSchemaVersionError''"
| "class_name InvalidPersistedPayload = ''InvalidPersistedPayloadError''"
| "class_name DurablePersistence = ''DurablePersistenceError''"
| "class_name ReconstructionConsistency = ''ReconstructionConsistencyError''"
| "class_name ScriptedDecisionExhausted = ''ScriptedDecisionExhaustedError''"
| "class_name DecisionContextTooLarge = ''DecisionContextTooLargeError''"
| "class_name DecisionSemanticValidation = ''DecisionSemanticValidationError''"
| "class_name (OtherDecisionProvider n) = n"
| "class_name UnsupportedAdapterReconciliation = ''UnsupportedAdapterReconciliationError''"
| "class_name AdapterReconciliationMismatch = ''AdapterReconciliationMismatchError''"
| "class_name (OtherException n) = n"
| "class_name SimulatedCrash = ''SimulatedCrash''"

section \<open>Evaluation, policy, verification\<close>

datatype evaluation_status = EvRunning | EvCompleted | EvBlocked

record evaluation =
  eval_status :: evaluation_status
  eval_complete :: bool
  eval_summary :: string
  eval_stop_met :: bool
  eval_blocked_reason :: "string option"

record policy_decision =
  pol_allowed :: bool
  pol_approval :: bool
  pol_reasons :: "string list"

record verification_result =
  ver_verified :: bool
  ver_reasons :: "string list"

fun evaluation_status_value :: "evaluation_status \<Rightarrow> string" where
  "evaluation_status_value EvRunning = ''running''"
| "evaluation_status_value EvCompleted = ''completed''"
| "evaluation_status_value EvBlocked = ''blocked''"

definition dump_evaluation :: "evaluation \<Rightarrow> jobject" where
  "dump_evaluation v =
     [(''schema_version'', JInt 1),
      (''current_status'', JStr (evaluation_status_value (eval_status v))),
      (''complete'', JBool (eval_complete v)),
      (''progress_summary'', JStr (eval_summary v)),
      (''stop_condition_met'', JBool (eval_stop_met v)),
      (''blocked_reason'', opt_json JStr (eval_blocked_reason v))]"

definition dump_policy :: "policy_decision \<Rightarrow> jobject" where
  "dump_policy p =
     [(''schema_version'', JInt 1),
      (''allowed'', JBool (pol_allowed p)),
      (''approval_required'', JBool (pol_approval p)),
      (''reasons'', JList (map JStr (pol_reasons p)))]"

definition dump_verification :: "verification_result \<Rightarrow> jobject" where
  "dump_verification v =
     [(''schema_version'', JInt 1),
      (''verified'', JBool (ver_verified v)),
      (''reasons'', JList (map JStr (ver_reasons v)))]"

definition load_one :: "json \<Rightarrow> int option" where
  "load_one v = (case as_int v of None \<Rightarrow> None | Some i \<Rightarrow> if i = 1 then Some i else None)"

definition load_verification :: "jobject \<Rightarrow> verification_result option" where
  "load_verification d = do {
     (if only_keys [''schema_version'', ''verified'', ''reasons''] d then Some () else None);
     default_to d ''schema_version'' 1 load_one;
     verified \<leftarrow> need d ''verified'' as_bool;
     reasons \<leftarrow> default_to d ''reasons'' [] (load_list as_str);
     Some \<lparr>ver_verified = verified, ver_reasons = reasons\<rparr>
   }"

lemma load_dump_verification [simp]: "load_verification (dump_verification v) = Some v"
  by (simp add: load_verification_def dump_verification_def load_one_def)

section \<open>Approvals, configuration, safeguards\<close>

datatype approval_status = ApPending | ApApproved | ApDenied

record approval_request =
  appr_id :: uuid
  appr_task :: uuid
  appr_action :: action
  appr_status :: approval_status
  appr_created :: int
  appr_resolved :: "int option"

record configuration =
  max_iterations :: int
  max_consecutive_failures :: int
  repeated_action_limit :: int
  repeated_state_limit :: int
  block_on_false_completion :: bool
  context_event_limit :: int
  context_max_bytes :: int

definition default_configuration :: configuration where
  "default_configuration = \<lparr>max_iterations = 100, max_consecutive_failures = 3,
     repeated_action_limit = 3, repeated_state_limit = 3, block_on_false_completion = False,
     context_event_limit = 20, context_max_bytes = 65536\<rparr>"

definition valid_configuration :: "configuration \<Rightarrow> bool" where
  "valid_configuration c \<longleftrightarrow> 0 < max_iterations c \<and> 0 < max_consecutive_failures c \<and>
     1 < repeated_action_limit c \<and> 1 < repeated_state_limit c \<and> 0 \<le> context_event_limit c \<and>
     0 < context_max_bytes c"

text \<open>
  A fingerprint of \<open>json.dumps(..., sort_keys=True)\<close> text is kept as the canonical value it spells.
\<close>

record safeguard_state =
  sg_iterations :: int
  sg_failures :: int
  sg_repeated_action :: int
  sg_repeated_state :: int
  sg_rejected :: int
  sg_last_action :: "json option"
  sg_last_state :: "json option"
  sg_approved_action :: "action option"
  sg_approved_id :: "uuid option"

definition initial_safeguards :: safeguard_state where
  "initial_safeguards = \<lparr>sg_iterations = 0, sg_failures = 0, sg_repeated_action = 0,
     sg_repeated_state = 0, sg_rejected = 0, sg_last_action = None, sg_last_state = None,
     sg_approved_action = None, sg_approved_id = None\<rparr>"

section \<open>Events and outcomes\<close>

datatype event_type =
    TaskCreated | TaskStarted | ObservationRecorded | EvaluationRecorded | DecisionGenerated
  | DecisionProviderFailed | PolicyValidated | ActionPrepared | ActionExecutionStarted
  | ActionExecutionConfirmed | ActionCheckpointCommitted | ActionReconciliationRequired
  | ActionReconciled | ActionAttemptFailed | ActionExecuted | ActionRejected
  | VerificationRecorded | ApprovalRequested | ApprovalGranted | ApprovalDenied
  | TaskCompleted | TaskBlocked | TaskFailed | TaskCancelled

fun event_type_value :: "event_type \<Rightarrow> string" where
  "event_type_value TaskCreated = ''task_created''"
| "event_type_value TaskStarted = ''task_started''"
| "event_type_value ObservationRecorded = ''observation_recorded''"
| "event_type_value EvaluationRecorded = ''evaluation_recorded''"
| "event_type_value DecisionGenerated = ''decision_generated''"
| "event_type_value DecisionProviderFailed = ''decision_provider_failed''"
| "event_type_value PolicyValidated = ''policy_validated''"
| "event_type_value ActionPrepared = ''action_prepared''"
| "event_type_value ActionExecutionStarted = ''action_execution_started''"
| "event_type_value ActionExecutionConfirmed = ''action_execution_confirmed''"
| "event_type_value ActionCheckpointCommitted = ''action_checkpoint_committed''"
| "event_type_value ActionReconciliationRequired = ''action_reconciliation_required''"
| "event_type_value ActionReconciled = ''action_reconciled''"
| "event_type_value ActionAttemptFailed = ''action_attempt_failed''"
| "event_type_value ActionExecuted = ''action_executed''"
| "event_type_value ActionRejected = ''action_rejected''"
| "event_type_value VerificationRecorded = ''verification_recorded''"
| "event_type_value ApprovalRequested = ''approval_requested''"
| "event_type_value ApprovalGranted = ''approval_granted''"
| "event_type_value ApprovalDenied = ''approval_denied''"
| "event_type_value TaskCompleted = ''task_completed''"
| "event_type_value TaskBlocked = ''task_blocked''"
| "event_type_value TaskFailed = ''task_failed''"
| "event_type_value TaskCancelled = ''task_cancelled''"

record event =
  ev_task :: uuid
  ev_sequence :: int
  ev_type :: event_type
  ev_time :: int
  ev_payload :: jobject

record outcome =
  out_task :: uuid
  out_status :: task_status
  out_spend :: rat
  out_iterations :: int
  out_reason :: "string option"
  out_approval :: "approval_request option"

section \<open>The adapter contract's data\<close>

record snapshot =
  snap_version :: int
  snap_adapter :: string
  snap_sim_version :: int
  snap_sequence :: int
  snap_seed :: string
  snap_state :: jobject

text \<open>\<open>adapter.snapshot() != context.adapter_snapshot()\<close> compares the states as dictionaries.\<close>

definition snapshot_eq :: "snapshot \<Rightarrow> snapshot \<Rightarrow> bool" where
  "snapshot_eq a b \<longleftrightarrow> snap_version a = snap_version b \<and> snap_adapter a = snap_adapter b \<and>
     snap_sim_version a = snap_sim_version b \<and> snap_sequence a = snap_sequence b \<and>
     snap_seed a = snap_seed b \<and> py_eq (JObj (snap_state a)) (JObj (snap_state b))"

datatype parameter_type = PInteger | PNumber | PString | PBoolean

fun parameter_type_value :: "parameter_type \<Rightarrow> string" where
  "parameter_type_value PInteger = ''integer''"
| "parameter_type_value PNumber = ''number''"
| "parameter_type_value PString = ''string''"
| "parameter_type_value PBoolean = ''boolean''"

record parameter_definition =
  pd_name :: string
  pd_type :: parameter_type
  pd_required :: bool
  pd_minimum :: "rat option"
  pd_maximum :: "rat option"
  pd_exclusive :: bool
  pd_allowed :: "json list"

record action_definition =
  ad_type :: string
  ad_parameters :: "parameter_definition list"
  ad_description :: string

definition dump_parameter :: "parameter_definition \<Rightarrow> jobject" where
  "dump_parameter p =
     [(''schema_version'', JInt 1),
      (''name'', JStr (pd_name p)),
      (''type'', JStr (parameter_type_value (pd_type p))),
      (''required'', JBool (pd_required p)),
      (''minimum'', opt_json JFloat (pd_minimum p)),
      (''maximum'', opt_json JFloat (pd_maximum p)),
      (''exclusive_minimum'', JBool (pd_exclusive p)),
      (''allowed_values'', JList (pd_allowed p))]"

definition dump_action_definition :: "action_definition \<Rightarrow> jobject" where
  "dump_action_definition a =
     [(''schema_version'', JInt 1),
      (''type'', JStr (ad_type a)),
      (''parameters'', JList (map (\<lambda>p. JObj (dump_parameter p)) (ad_parameters a))),
      (''description'', JStr (ad_description a))]"

record adapter_validation =
  av_valid :: bool
  av_message :: string
  av_cost :: rat
  av_stale :: bool

section \<open>Provider telemetry\<close>

record token_usage =
  tu_input :: int
  tu_cached :: "int option"
  tu_output :: int
  tu_total :: int

record provider_metadata =
  pm_provider :: string
  pm_invocation :: "string option"
  pm_surface :: "string option"
  pm_version :: "string option"
  pm_model :: "string option"
  pm_request :: "string option"
  pm_usage :: "token_usage option"
  pm_latency :: "rat option"
  pm_prompt :: "string option"
  pm_validation :: "string option"
  pm_notes :: "string list"
  pm_started :: "int option"
  pm_completed :: "int option"
  pm_exit_code :: "int option"

definition dump_usage :: "token_usage \<Rightarrow> jobject" where
  "dump_usage u =
     [(''schema_version'', JInt 1),
      (''input_tokens'', JInt (tu_input u)),
      (''cached_input_tokens'', opt_json JInt (tu_cached u)),
      (''output_tokens'', JInt (tu_output u)),
      (''total_tokens'', JInt (tu_total u))]"

definition dump_metadata :: "provider_metadata \<Rightarrow> jobject" where
  "dump_metadata m =
     [(''schema_version'', JInt 1),
      (''provider'', JStr (pm_provider m)),
      (''invocation_id'', opt_json JStr (pm_invocation m)),
      (''provider_surface'', opt_json JStr (pm_surface m)),
      (''provider_version'', opt_json JStr (pm_version m)),
      (''model'', opt_json JStr (pm_model m)),
      (''request_id'', opt_json JStr (pm_request m)),
      (''token_usage'', opt_json (\<lambda>u. JObj (dump_usage u)) (pm_usage m)),
      (''latency_ms'', opt_json JFloat (pm_latency m)),
      (''prompt_version'', opt_json JStr (pm_prompt m)),
      (''validation_result'', opt_json JStr (pm_validation m)),
      (''telemetry_notes'', JList (map JStr (pm_notes m))),
      (''started_at'', opt_json JTime (pm_started m)),
      (''completed_at'', opt_json JTime (pm_completed m)),
      (''subprocess_exit_code'', opt_json JInt (pm_exit_code m))]"

end
