(* ===== verification/Policy.thy ===== *)
theory Policy
  imports RuntimeModels
begin

text \<open>
  \<open>PolicyEngine.evaluate\<close> of \<open>runtime/policy.py\<close>: the loop over the constraints collects forbidden
  and allowed actions, reserves, floors and maxima, and the checks after it turn them into reasons.
  The abstract specification judges each constraint on its own (\<open>constraint_ok\<close>); the engine allows
  an action exactly when the specification does.
\<close>

section \<open>The engine\<close>

record policy_terms =
  pt_forbidden :: "string list"
  pt_allowed :: "string list list"
  pt_reserves :: "rat list"
  pt_floors :: "(string \<times> rat) list"
  pt_maximums :: "rat list"

text \<open>\<open>isinstance(values, list) and all(isinstance(item, str) for item in values)\<close>\<close>

definition string_items :: "json \<Rightarrow> string list option" where
  "string_items v = (case as_list v of None \<Rightarrow> None | Some l \<Rightarrow> those (map as_str l))"

definition collect_constraint :: "constraint \<Rightarrow> policy_terms \<Rightarrow> policy_terms" where
  "collect_constraint c t = (let p = jget (con_parameters c) in
     case con_type c of
       ForbiddenAction \<Rightarrow>
         (case as_str (p ''action'') of
            Some v \<Rightarrow> t\<lparr>pt_forbidden := pt_forbidden t @ [v]\<rparr> | None \<Rightarrow> t)
     | AllowedAction \<Rightarrow>
         (case string_items (p ''actions'') of
            Some vs \<Rightarrow> t\<lparr>pt_allowed := pt_allowed t @ [vs]\<rparr>
          | None \<Rightarrow>
              (case as_str (p ''action'') of
                 Some v \<Rightarrow> t\<lparr>pt_allowed := pt_allowed t @ [[v]]\<rparr> | None \<Rightarrow> t))
     | MinimumReserve \<Rightarrow>
         (case as_decimal (p ''amount'') of
            Some r \<Rightarrow> t\<lparr>pt_reserves := pt_reserves t @ [r]\<rparr> | None \<Rightarrow> t)
     | ResourceFloor \<Rightarrow>
         (case (as_str (p ''resource''), as_num (p ''floor'')) of
            (Some r, Some f) \<Rightarrow> t\<lparr>pt_floors := pt_floors t @ [(r, fl f)]\<rparr> | _ \<Rightarrow> t)
     | MaximumSpend \<Rightarrow>
         (case as_decimal (p ''amount'') of
            Some r \<Rightarrow> t\<lparr>pt_maximums := pt_maximums t @ [r]\<rparr> | None \<Rightarrow> t))"

definition collect_terms :: "task_specification \<Rightarrow> policy_terms" where
  "collect_terms spec = fold collect_constraint (spec_constraints spec)
     \<lparr>pt_forbidden = forbidden_actions (spec_authority spec), pt_allowed = [], pt_reserves = [],
      pt_floors = [], pt_maximums = []\<rparr>"

definition floor_reason :: "jobject \<Rightarrow> string \<times> rat \<Rightarrow> string list" where
  "floor_reason state rf = (case rf of (resource, lowest) \<Rightarrow>
     case as_num (jget state resource) of
       None \<Rightarrow> [''resource floor cannot be evaluated: '' @ resource]
     | Some v \<Rightarrow> if fl v < lowest then [''resource is below required floor: '' @ resource] else [])"

definition policy_evaluate ::
  "task_specification \<Rightarrow> action \<Rightarrow> observation \<Rightarrow> rat \<Rightarrow> adapter_validation \<Rightarrow> policy_decision" where
  "policy_evaluate spec action ob total_spend av =
     (let auth = spec_authority spec;
          t = collect_terms spec;
          cost = repr_dec (av_cost av);
          cash = as_decimal (jget (obs_state ob) ''cash'');
          reasons =
            (if \<not> av_valid av then [''adapter validation failed: '' @ av_message av] else []) @
            (if act_type action \<in> set (pt_forbidden t)
             then [''action is forbidden: '' @ act_type action] else []) @
            (if pt_allowed t \<noteq> [] \<and> (\<exists>vs \<in> set (pt_allowed t). act_type action \<notin> set vs)
             then [''action is not in the allowed set: '' @ act_type action] else []) @
            (case maximum_total_spend auth of
               Some m \<Rightarrow> if dadd total_spend cost > m
                 then [''action would exceed maximum total spend''] else []
             | None \<Rightarrow> []) @
            (if \<exists>m \<in> set (pt_maximums t). dadd total_spend cost > m
             then [''action would exceed maximum spend constraint''] else []) @
            (if pt_reserves t = [] then [] else
             case cash of
               None \<Rightarrow> [''cash is unavailable for reserve enforcement'']
             | Some c \<Rightarrow> if \<exists>r \<in> set (pt_reserves t). dsub c cost < r
                 then [''action would violate minimum reserve''] else []) @
            concat (map (floor_reason (obs_state ob)) (pt_floors t));
          approval = act_type action \<in> set (approval_actions auth) \<or>
            (case maximum_single_spend auth of None \<Rightarrow> False | Some m \<Rightarrow> cost > m)
      in \<lparr>pol_allowed = (reasons = []), pol_approval = (approval \<and> reasons = []),
          pol_reasons = reasons\<rparr>)"

section \<open>Specification\<close>

definition constraint_ok ::
  "action \<Rightarrow> jobject \<Rightarrow> rat \<Rightarrow> rat \<Rightarrow> constraint \<Rightarrow> bool" where
  "constraint_ok action state total_spend cost c = (let p = jget (con_parameters c) in
     case con_type c of
       ForbiddenAction \<Rightarrow> as_str (p ''action'') \<noteq> Some (act_type action)
     | AllowedAction \<Rightarrow>
         (case string_items (p ''actions'') of
            Some vs \<Rightarrow> act_type action \<in> set vs
          | None \<Rightarrow> (case as_str (p ''action'') of Some v \<Rightarrow> v = act_type action | None \<Rightarrow> True))
     | MinimumReserve \<Rightarrow>
         (case as_decimal (p ''amount'') of
            Some r \<Rightarrow> (case as_decimal (jget state ''cash'') of
               Some cash \<Rightarrow> r \<le> dsub cash cost | None \<Rightarrow> False)
          | None \<Rightarrow> True)
     | ResourceFloor \<Rightarrow>
         (case (as_str (p ''resource''), as_num (p ''floor'')) of
            (Some r, Some f) \<Rightarrow> (case as_num (jget state r) of Some v \<Rightarrow> fl f \<le> fl v | None \<Rightarrow> False)
          | _ \<Rightarrow> True)
     | MaximumSpend \<Rightarrow>
         (case as_decimal (p ''amount'') of
            Some m \<Rightarrow> dadd total_spend cost \<le> m | None \<Rightarrow> True))"

text \<open>What the collected terms ask for.\<close>

definition terms_ok :: "action \<Rightarrow> jobject \<Rightarrow> rat \<Rightarrow> rat \<Rightarrow> policy_terms \<Rightarrow> bool" where
  "terms_ok action state total_spend cost t \<longleftrightarrow>
     act_type action \<notin> set (pt_forbidden t) \<and>
     (\<forall>vs \<in> set (pt_allowed t). act_type action \<in> set vs) \<and>
     (\<forall>m \<in> set (pt_maximums t). dadd total_spend cost \<le> m) \<and>
     (\<forall>r \<in> set (pt_reserves t).
        (case as_decimal (jget state ''cash'') of Some c \<Rightarrow> r \<le> dsub c cost | None \<Rightarrow> False)) \<and>
     (\<forall>(r, f) \<in> set (pt_floors t).
        (case as_num (jget state r) of Some v \<Rightarrow> f \<le> fl v | None \<Rightarrow> False))"

lemma terms_ok_collect:
  "terms_ok a st sp cost (collect_constraint c t) \<longleftrightarrow>
     terms_ok a st sp cost t \<and> constraint_ok a st sp cost c"
proof (cases "con_type c")
  case MaximumSpend
  then show ?thesis by (cases "as_decimal (jget (con_parameters c) ''amount'')")
      (auto simp: collect_constraint_def constraint_ok_def terms_ok_def)
next
  case MinimumReserve
  then show ?thesis by (cases "as_decimal (jget (con_parameters c) ''amount'')")
      (auto simp: collect_constraint_def constraint_ok_def terms_ok_def)
next
  case AllowedAction
  then show ?thesis by (cases "string_items (jget (con_parameters c) ''actions'')";
      cases "as_str (jget (con_parameters c) ''action'')")
      (auto simp: collect_constraint_def constraint_ok_def terms_ok_def)
next
  case ForbiddenAction
  then show ?thesis by (cases "as_str (jget (con_parameters c) ''action'')")
      (auto simp: collect_constraint_def constraint_ok_def terms_ok_def)
next
  case ResourceFloor
  then show ?thesis by (cases "as_str (jget (con_parameters c) ''resource'')";
      cases "as_num (jget (con_parameters c) ''floor'')")
      (auto simp: collect_constraint_def constraint_ok_def terms_ok_def)
qed

lemma terms_ok_fold:
  "terms_ok a st sp cost (fold collect_constraint cs t) \<longleftrightarrow>
     terms_ok a st sp cost t \<and> list_all (constraint_ok a st sp cost) cs"
  by (induction cs arbitrary: t) (auto simp: terms_ok_collect)

lemma terms_ok_start:
  "terms_ok a st sp cost (collect_terms spec) \<longleftrightarrow>
     act_type a \<notin> set (forbidden_actions (spec_authority spec)) \<and>
     list_all (constraint_ok a st sp cost) (spec_constraints spec)"
  by (simp add: collect_terms_def terms_ok_fold) (simp add: terms_ok_def)

lemma policy_reasons_iff:
  "pol_reasons (policy_evaluate spec a ob sp av) = [] \<longleftrightarrow>
     av_valid av \<and>
     (\<forall>m. maximum_total_spend (spec_authority spec) = Some m \<longrightarrow> dadd sp (repr_dec (av_cost av)) \<le> m) \<and>
     terms_ok a (obs_state ob) sp (repr_dec (av_cost av)) (collect_terms spec)"
proof -
  have floors: "concat (map (floor_reason st) fs) = [] \<longleftrightarrow>
      (\<forall>(r, f) \<in> set fs. (case as_num (jget st r) of Some v \<Rightarrow> f \<le> fl v | None \<Rightarrow> False))" for st fs
    by (auto simp: floor_reason_def split: option.splits if_splits)
  have reserves: "(if rs = [] then [] else case x of None \<Rightarrow> [m1]
        | Some c \<Rightarrow> if \<exists>r \<in> set rs. dsub c k < r then [m2] else []) = [] \<longleftrightarrow>
      (\<forall>r \<in> set rs. (case x of Some c \<Rightarrow> r \<le> dsub c k | None \<Rightarrow> False))"
    for rs x k and m1 m2 :: string
    by (cases x) (force simp: not_less not_le)+
  have total: "(case x of Some m \<Rightarrow> if k > m then [t] else [] | None \<Rightarrow> []) = [] \<longleftrightarrow>
      (\<forall>m. x = Some m \<longrightarrow> k \<le> m)" for x and k :: rat and t :: string
    by (auto split: option.splits)
  have allowed: "\<not> (xs \<noteq> [] \<and> (\<exists>vs \<in> set xs. a \<notin> set vs)) \<longleftrightarrow> (\<forall>vs \<in> set xs. a \<in> set vs)"
    for a and xs :: "string list list"
    by (cases xs) auto
  have one: "(if P then [m] else []) = [] \<longleftrightarrow> \<not> P" for P and m :: string
    by simp
  show ?thesis
    unfolding policy_evaluate_def Let_def policy_decision.simps append_is_Nil_conv floors reserves
      total one allowed terms_ok_def
    by (simp add: not_less conj_ac)
qed

lemma policy_allowed_reasons:
  "pol_allowed (policy_evaluate spec a ob sp av) \<longleftrightarrow> pol_reasons (policy_evaluate spec a ob sp av) = []"
  by (simp add: policy_evaluate_def Let_def)

lemma policy_approval_allowed:
  "pol_approval (policy_evaluate spec a ob sp av) \<Longrightarrow> pol_allowed (policy_evaluate spec a ob sp av)"
  by (simp add: policy_evaluate_def Let_def)

end
