(* ===== verification/Evaluator.thy ===== *)
theory Evaluator
  imports RuntimeModels
begin

text \<open>
  \<open>runtime/evaluator.py\<close>: the scanner for stop conditions (the regular expression \<open>CONDITION\<close>, matched
  by hand and related to its grammar in RuntimeProperties), resource look-up, and
  \<open>ProgressEvaluator.evaluate\<close>, which alone decides that an objective is complete.
\<close>

section \<open>Stop conditions\<close>

datatype comparator = CGt | CGe | CLt | CLe | CEq

fun comparator_text :: "comparator \<Rightarrow> string" where
  "comparator_text CGt = ''>''"
| "comparator_text CGe = ''>=''"
| "comparator_text CLt = ''<''"
| "comparator_text CLe = ''<=''"
| "comparator_text CEq = ''==''"

fun compare :: "comparator \<Rightarrow> rat \<Rightarrow> rat \<Rightarrow> bool" where
  "compare CGt v t = (v > t)"
| "compare CGe v t = (v \<ge> t)"
| "compare CLt v t = (v < t)"
| "compare CLe v t = (v \<le> t)"
| "compare CEq v t = (v = t)"

definition is_digit :: "char \<Rightarrow> bool" where
  "is_digit c \<longleftrightarrow> (let n = (of_char c :: nat) in 48 \<le> n \<and> n \<le> 57)"

definition name_start :: "char \<Rightarrow> bool" where
  "name_start c \<longleftrightarrow> (let n = (of_char c :: nat) in
     (65 \<le> n \<and> n \<le> 90) \<or> (97 \<le> n \<and> n \<le> 122) \<or> n = 95)"

definition name_char :: "char \<Rightarrow> bool" where
  "name_char c \<longleftrightarrow> name_start c \<or> is_digit c"

fun scan_comparator :: "string \<Rightarrow> (comparator \<times> string) option" where
  "scan_comparator (c # d # s) =
     (if c = CHR ''>'' \<and> d = CHR ''='' then Some (CGe, s)
      else if c = CHR ''<'' \<and> d = CHR ''='' then Some (CLe, s)
      else if c = CHR ''='' \<and> d = CHR ''='' then Some (CEq, s)
      else if c = CHR ''>'' then Some (CGt, d # s)
      else if c = CHR ''<'' then Some (CLt, d # s)
      else None)"
| "scan_comparator _ = None"

text \<open>A numeral is its sign, its digits and the digits after the point.\<close>

type_synonym numeral_text = "bool \<times> string \<times> string"

definition numeral_text :: "numeral_text \<Rightarrow> string" where
  "numeral_text t = (case t of (neg, ds, fs) \<Rightarrow>
     (if neg then ''-'' else '''') @ ds @ (if fs = '''' then '''' else ''.'' @ fs))"

definition numeral_ok :: "numeral_text \<Rightarrow> bool" where
  "numeral_ok t = (case t of (neg, ds, fs) \<Rightarrow>
     ds \<noteq> '''' \<and> list_all is_digit ds \<and> list_all is_digit fs)"

definition scan_numeral :: "string \<Rightarrow> (numeral_text \<times> string) option" where
  "scan_numeral s =
     (let neg = (s \<noteq> [] \<and> hd s = CHR ''-''); r = (if neg then tl s else s);
          ds = takeWhile is_digit r; rest = dropWhile is_digit r in
      if ds = [] then None
      else if rest \<noteq> [] \<and> hd rest = CHR ''.'' \<and> takeWhile is_digit (tl rest) \<noteq> []
      then Some ((neg, ds, takeWhile is_digit (tl rest)), dropWhile is_digit (tl rest))
      else Some ((neg, ds, ''''), rest))"

definition scan_condition :: "string \<Rightarrow> (string \<times> comparator \<times> numeral_text) option" where
  "scan_condition s =
     (let s1 = dropWhile is_space s in
      if s1 = [] \<or> \<not> name_start (hd s1) then None
      else case scan_comparator (dropWhile is_space (dropWhile name_char s1)) of
        None \<Rightarrow> None
      | Some (cmp, s3) \<Rightarrow>
          (case scan_numeral (dropWhile is_space s3) of
             None \<Rightarrow> None
           | Some (t, s5) \<Rightarrow>
               if list_all is_space s5 then Some (takeWhile name_char s1, cmp, t) else None))"

definition digits_value :: "string \<Rightarrow> int" where
  "digits_value ds = foldl (\<lambda>a c. a * 10 + (of_char c - 48)) 0 ds"

definition numeral_value :: "numeral_text \<Rightarrow> rat" where
  "numeral_value t = (case t of (neg, ds, fs) \<Rightarrow>
     (let v = of_int (digits_value (ds @ fs)) / 10 ^ length fs in if neg then - v else v))"

text \<open>The language of \<open>CONDITION\<close>.\<close>

definition condition_text :: "string \<Rightarrow> string \<Rightarrow> string \<Rightarrow> comparator \<Rightarrow> string \<Rightarrow> numeral_text \<Rightarrow> string \<Rightarrow> string"
  where
  "condition_text w1 name w2 cmp w3 t w4 =
     w1 @ name @ w2 @ comparator_text cmp @ w3 @ numeral_text t @ w4"

definition condition_parts :: "string \<Rightarrow> string \<Rightarrow> string \<Rightarrow> string \<Rightarrow> numeral_text \<Rightarrow> string \<Rightarrow> bool" where
  "condition_parts w1 name w2 w3 t w4 \<longleftrightarrow>
     list_all is_space w1 \<and> list_all is_space w2 \<and> list_all is_space w3 \<and> list_all is_space w4 \<and>
     name \<noteq> [] \<and> name_start (hd name) \<and> list_all name_char name \<and> numeral_ok t"

lemma dropWhile_prefix:
  "list_all P xs \<Longrightarrow> (ys \<noteq> [] \<Longrightarrow> \<not> P (hd ys)) \<Longrightarrow> dropWhile P (xs @ ys) = ys"
  by (induction xs) (cases ys; auto)+

lemma takeWhile_prefix:
  "list_all P xs \<Longrightarrow> (ys \<noteq> [] \<Longrightarrow> \<not> P (hd ys)) \<Longrightarrow> takeWhile P (xs @ ys) = xs"
  by (induction xs) (cases ys; auto)+

lemma list_all_takeWhile: "list_all P (takeWhile P xs)"
  by (induction xs) auto

lemma hd_dropWhile: "dropWhile P xs \<noteq> [] \<Longrightarrow> \<not> P (hd (dropWhile P xs))"
  by (induction xs) auto

lemma name_char_not_space: "name_char c \<Longrightarrow> \<not> is_space c"
  by (auto simp: name_char_def name_start_def is_digit_def is_space_def Let_def)

lemma digit_not_space: "is_digit c \<Longrightarrow> \<not> is_space c"
  by (auto simp: is_digit_def is_space_def Let_def)

lemma comparator_chars:
  "c \<in> set (comparator_text cmp) \<Longrightarrow> \<not> is_space c \<and> \<not> name_char c \<and> \<not> is_digit c \<and> c \<noteq> CHR ''-''"
  by (cases cmp) (auto simp: name_char_def name_start_def is_digit_def is_space_def Let_def)

lemma minus_char: "\<not> is_space (CHR ''-'')" "\<not> is_digit (CHR ''-'')" "\<not> is_space (CHR ''.'')" "\<not> is_digit (CHR ''.'')"
  by (simp_all add: is_space_def is_digit_def)

lemma scan_comparator_text:
  "r \<noteq> [] \<Longrightarrow> hd r \<noteq> CHR ''='' \<Longrightarrow> scan_comparator (comparator_text cmp @ r) = Some (cmp, r)"
  by (cases r; cases cmp) auto

lemma scan_comparator_sound:
  "scan_comparator s = Some (cmp, r) \<Longrightarrow> s = comparator_text cmp @ r"
  by (induction s rule: scan_comparator.induct) (auto split: if_splits)

lemma numeral_text_hd:
  assumes "numeral_ok t"
  shows "numeral_text t \<noteq> [] \<and> (hd (numeral_text t @ w) = CHR ''-'' \<or> is_digit (hd (numeral_text t @ w)))"
proof -
  obtain neg ds fs where t: "t = (neg, ds, fs)" by (cases t)
  with assms show ?thesis by (cases ds) (auto simp: numeral_ok_def numeral_text_def)
qed

lemma scan_numeral_split:
  assumes "neg \<or> b = [] \<or> hd b \<noteq> CHR ''-''"
  shows "scan_numeral ((if neg then ''-'' else []) @ b) =
    (let ds = takeWhile is_digit b; rest = dropWhile is_digit b in
      if ds = [] then None
      else if rest \<noteq> [] \<and> hd rest = CHR ''.'' \<and> takeWhile is_digit (tl rest) \<noteq> []
      then Some ((neg, ds, takeWhile is_digit (tl rest)), dropWhile is_digit (tl rest))
      else Some ((neg, ds, []), rest))"
  using assms by (cases neg) (auto simp only: scan_numeral_def Let_def if_True if_False append.simps list.sel list.distinct simp_thms)

lemma scan_numeral_text:
  assumes t: "numeral_ok t" and w: "list_all is_space w"
  shows "scan_numeral (numeral_text t @ w) = Some (t, w)"
proof -
  obtain neg ds fs where t': "t = (neg, ds, fs)" by (cases t)
  have ds: "ds \<noteq> []" "list_all is_digit ds" and fs: "list_all is_digit fs"
    using t by (auto simp: numeral_ok_def t')
  have w_start: "w \<noteq> [] \<Longrightarrow> \<not> is_digit (hd w) \<and> hd w \<noteq> CHR ''.''"
    using w digit_not_space minus_char(3) by (cases w) auto
  define rest where "rest = (if fs = [] then [] else ''.'' @ fs) @ w"
  have rest_start: "rest \<noteq> [] \<Longrightarrow> \<not> is_digit (hd rest)"
    using w_start minus_char(4) by (auto simp: rest_def)
  have body: "takeWhile is_digit (ds @ rest) = ds" "dropWhile is_digit (ds @ rest) = rest"
    using ds rest_start by (auto intro: takeWhile_prefix dropWhile_prefix)
  have tail: "takeWhile is_digit (fs @ w) = fs" "dropWhile is_digit (fs @ w) = w"
    using fs w_start by (auto intro: takeWhile_prefix dropWhile_prefix)
  have sign: "neg \<or> ds @ rest = [] \<or> hd (ds @ rest) \<noteq> CHR ''-''"
    using ds minus_char(2) by (cases ds) auto
  have "numeral_text t @ w = (if neg then [CHR ''-''] else []) @ ds @ rest"
    by (simp add: numeral_text_def t' rest_def)
  moreover have "scan_numeral ((if neg then [CHR ''-''] else []) @ ds @ rest) = Some (t, w)"
  proof -
    have "scan_numeral ((if neg then [CHR ''-''] else []) @ ds @ rest) =
      (if ds = [] then None
       else if rest \<noteq> [] \<and> hd rest = CHR ''.'' \<and> takeWhile is_digit (tl rest) \<noteq> []
       then Some ((neg, ds, takeWhile is_digit (tl rest)), dropWhile is_digit (tl rest))
       else Some ((neg, ds, []), rest))"
      using scan_numeral_split [OF sign] unfolding Let_def body .
    also have "\<dots> = Some (t, w)"
    proof (cases "fs = []")
      case True
      then have "rest = w" by (simp add: rest_def)
      then show ?thesis using ds w_start True by (cases "w = []") (simp_all add: t')
    next
      case False
      then have "rest = CHR ''.'' # fs @ w" by (simp add: rest_def)
      then show ?thesis using ds False tail by (simp add: t')
    qed
    finally show ?thesis .
  qed
  ultimately show ?thesis by simp
qed

lemma if_Some_cases:
  "(if A then None else if B then Some x else Some y) = Some z \<Longrightarrow> \<not> A \<and> (B \<and> z = x \<or> \<not> B \<and> z = y)"
  by (auto split: if_splits)

lemma scan_numeral_sound:
  assumes "scan_numeral s = Some (t, r)"
  shows "s = numeral_text t @ r \<and> numeral_ok t"
proof -
  define neg where "neg \<longleftrightarrow> s \<noteq> [] \<and> hd s = CHR ''-''"
  define b where "b = (if neg then tl s else s)"
  define rest where "rest = dropWhile is_digit b"
  have sign: "s = (if neg then ''-'' else []) @ b" by (cases s) (auto simp: neg_def b_def)
  have body: "b = takeWhile is_digit b @ rest" by (simp add: rest_def)
  have point: "rest \<noteq> [] \<Longrightarrow> hd rest = CHR ''.'' \<Longrightarrow>
      rest = ''.'' @ takeWhile is_digit (tl rest) @ dropWhile is_digit (tl rest)"
    by (cases rest) auto
  have "neg \<or> b = [] \<or> hd b \<noteq> CHR ''-''" by (auto simp: neg_def b_def)
  note split = scan_numeral_split [OF this, folded sign, unfolded Let_def, folded rest_def]
  consider
      "t = (neg, takeWhile is_digit b, takeWhile is_digit (tl rest))" "r = dropWhile is_digit (tl rest)"
      "takeWhile is_digit b \<noteq> []" "takeWhile is_digit (tl rest) \<noteq> []" "rest \<noteq> []" "hd rest = CHR ''.''"
    | "t = (neg, takeWhile is_digit b, [])" "r = rest" "takeWhile is_digit b \<noteq> []"
    using if_Some_cases [OF assms [unfolded split]] by (auto simp only: prod.inject simp_thms)
  then show ?thesis
  proof cases
    case 1
    then have "s = numeral_text t @ r"
      using sign body point by (simp add: numeral_text_def)
    with 1 show ?thesis by (simp add: numeral_ok_def list_all_takeWhile)
  next
    case 2
    then have "s = numeral_text t @ r"
      using sign body by (simp add: numeral_text_def)
    with 2 show ?thesis by (simp add: numeral_ok_def list_all_takeWhile)
  qed
qed

lemma scan_condition_text:
  assumes "condition_parts w1 name w2 w3 t w4"
  shows "scan_condition (condition_text w1 name w2 cmp w3 t w4) = Some (name, cmp, t)"
proof -
  have w: "list_all is_space w1" "list_all is_space w2" "list_all is_space w3" "list_all is_space w4"
    and name: "name \<noteq> []" "name_start (hd name)" "list_all name_char name" and t: "numeral_ok t"
    using assms by (auto simp: condition_parts_def)
  have start: "\<not> is_space (hd name)"
    using name by (simp add: name_char_def name_char_not_space)
  define num where "num = numeral_text t @ w4"
  define oper where "oper = comparator_text cmp @ w3 @ num"
  have num: "num \<noteq> []" "\<not> is_space (hd num)" "hd num \<noteq> CHR ''=''"
    using numeral_text_hd [OF t, of w4] digit_not_space minus_char
    by (auto simp: is_digit_def num_def)
  have oper: "oper \<noteq> []" "\<not> is_space (hd oper)" "\<not> name_char (hd oper)"
    using comparator_chars [of "hd (comparator_text cmp)" cmp] by (cases cmp; simp add: oper_def)+
  have after: "w3 @ num \<noteq> []" "hd (w3 @ num) \<noteq> CHR ''=''"
    using num w(3) by (cases w3; auto simp: is_space_def)+
  have spaces: "w2 @ oper \<noteq> [] \<Longrightarrow> \<not> name_char (hd (w2 @ oper))"
    using oper w(2) name_char_not_space by (cases w2) auto
  have s1: "dropWhile is_space (w1 @ name @ w2 @ oper) = name @ w2 @ oper"
    using w(1) name start by (intro dropWhile_prefix) auto
  have s2: "dropWhile name_char (name @ w2 @ oper) = w2 @ oper"
       "takeWhile name_char (name @ w2 @ oper) = name"
    using name spaces by (auto intro!: dropWhile_prefix takeWhile_prefix)
  have s3: "dropWhile is_space (w2 @ oper) = oper"
    using w(2) oper by (intro dropWhile_prefix) auto
  have s4: "scan_comparator oper = Some (cmp, w3 @ num)"
    unfolding oper_def using after by (intro scan_comparator_text)
  have s5: "dropWhile is_space (w3 @ num) = num"
    using w(3) num by (intro dropWhile_prefix) auto
  have s6: "scan_numeral num = Some (t, w4)"
    unfolding num_def using t w(4) by (rule scan_numeral_text)
  have hd: "name @ w2 @ oper \<noteq> []" "hd (name @ w2 @ oper) = hd name" using name by auto
  have "condition_text w1 name w2 cmp w3 t w4 = w1 @ name @ w2 @ oper"
    by (simp add: condition_text_def oper_def num_def)
  then show ?thesis
    using name w(4) hd by (simp add: scan_condition_def Let_def s1 s2 s3 s4 s5 s6)
qed

lemma scan_condition_sound:
  assumes "scan_condition s = Some (name, cmp, t)"
  shows "\<exists>w1 w2 w3 w4. condition_parts w1 name w2 w3 t w4 \<and>
    s = condition_text w1 name w2 cmp w3 t w4"
proof -
  define s1 where "s1 = dropWhile is_space s"
  define s2 where "s2 = dropWhile name_char s1"
  define s3 where "s3 = dropWhile is_space s2"
  from assms obtain s4 s6 where
    start: "s1 \<noteq> []" "name_start (hd s1)" and
    op: "scan_comparator s3 = Some (cmp, s4)" and
    num: "scan_numeral (dropWhile is_space s4) = Some (t, s6)" and
    fin: "list_all is_space s6" and name: "name = takeWhile name_char s1"
    by (auto simp: scan_condition_def Let_def s1_def s2_def s3_def split: option.splits if_splits)
  have "s = takeWhile is_space s @ s1" "s1 = name @ s2" "s2 = takeWhile is_space s2 @ s3"
      "s4 = takeWhile is_space s4 @ dropWhile is_space s4"
    by (simp_all add: s1_def s2_def s3_def name)
  moreover have "s3 = comparator_text cmp @ s4" by (rule scan_comparator_sound [OF op])
  moreover have "dropWhile is_space s4 = numeral_text t @ s6" and t: "numeral_ok t"
    using scan_numeral_sound [OF num] by auto
  ultimately have "s = condition_text (takeWhile is_space s) name (takeWhile is_space s2) cmp
      (takeWhile is_space s4) t s6"
    unfolding condition_text_def by (metis append.assoc)
  moreover have "name \<noteq> [] \<and> name_start (hd name)"
    using start by (cases s1) (auto simp: name name_char_def)
  then have "condition_parts (takeWhile is_space s) name (takeWhile is_space s2)
      (takeWhile is_space s4) t s6"
    using fin t by (simp add: condition_parts_def list_all_takeWhile name)
  ultimately show ?thesis by blast
qed

section \<open>Resources\<close>

definition resource_value :: "observation \<Rightarrow> string \<Rightarrow> json" where
  "resource_value ob name = (let v = jget (obs_state ob) name in
     if is_null v then (case jget (obs_state ob) ''resources'' of JObj d \<Rightarrow> jget d name | _ \<Rightarrow> v)
     else v)"

definition numeric_resource :: "observation \<Rightarrow> string \<Rightarrow> rat option" where
  "numeric_resource ob name = map_option fl (as_num (resource_value ob name))"

section \<open>The evaluator\<close>

definition eval_result :: "bool \<Rightarrow> string \<Rightarrow> evaluation" where
  "eval_result reached summary =
     \<lparr>eval_status = (if reached then EvCompleted else EvRunning), eval_complete = reached,
      eval_summary = summary, eval_stop_met = False, eval_blocked_reason = None\<rparr>"

definition eval_blocked :: "string \<Rightarrow> evaluation" where
  "eval_blocked reason =
     \<lparr>eval_status = EvBlocked, eval_complete = False,
      eval_summary = ''Objective cannot be evaluated deterministically.'', eval_stop_met = False,
      eval_blocked_reason = Some reason\<rparr>"

definition is_project :: "string \<Rightarrow> json \<Rightarrow> bool" where
  "is_project project_type v =
     (case v of JObj d \<Rightarrow> py_eq (jget d ''type'') (JStr project_type) | _ \<Rightarrow> False)"

definition has_active_project :: "observation \<Rightarrow> string \<Rightarrow> bool" where
  "has_active_project ob project_type =
     (case jget (obs_state ob) ''active_projects'' of
        JList ps \<Rightarrow> list_ex (is_project project_type) ps | _ \<Rightarrow> False)"

text \<open>\<open>target\<close> of an equality objective: a string or a number, not a bool.\<close>

fun is_scalar_target :: "json \<Rightarrow> bool" where
  "is_scalar_target (JStr s) = True"
| "is_scalar_target (JInt i) = True"
| "is_scalar_target (JFloat r) = True"
| "is_scalar_target _ = False"

text \<open>\<open>direction not in {"above", "below"}\<close> hashes the value: a list or a dictionary raises.\<close>

fun direction_above :: "json \<Rightarrow> (exn, bool option) result" where
  "direction_above (JStr s) =
     ok (if s = ''above'' then Some True else if s = ''below'' then Some False else None)"
| "direction_above (JList l) =
     raise (Exn (OtherException ''TypeError'') (''unhashable type: '' @ str_repr ''list''))"
| "direction_above (JObj d) =
     raise (Exn (OtherException ''TypeError'') (''unhashable type: '' @ str_repr ''dict''))"
| "direction_above _ = ok None"

definition evaluate_resource_objective ::
  "task_specification \<Rightarrow> observation \<Rightarrow> (exn, evaluation) result" where
  "evaluate_resource_objective spec ob =
     (let objective = spec_objective spec; params = obj_parameters objective;
          target = jget params ''target'' in
      case as_str (jget params ''resource'') of
        None \<Rightarrow> ok (eval_blocked ''objective requires a resource'')
      | Some resource \<Rightarrow>
          if obj_type objective = RunUntil \<and> jget params ''direction'' = JStr ''equal'' then
            (if \<not> is_scalar_target target
             then ok (eval_blocked ''equal objective requires a scalar target'')
             else let v = resource_value ob resource in
               if is_null v then ok (eval_blocked (''resource is missing: '' @ resource))
               else ok (eval_result (py_eq v target)
                 (resource @ ''='' @ py_repr v @ ''; target='' @ py_repr target @ ''.'')))
          else (case as_num target of
            None \<Rightarrow> ok (eval_blocked ''objective requires numeric target and resource'')
          | Some tgt \<Rightarrow>
              (case numeric_resource ob resource of
                 None \<Rightarrow> ok (eval_blocked (''resource is not numeric or missing: '' @ resource))
               | Some v \<Rightarrow>
                   (let result = (\<lambda>reached. ok (eval_result reached
                          (resource @ ''='' @ float_g v @ ''; target='' @ float_g (fl tgt) @ ''.'')))
                    in if obj_type objective = ReachResource then result (v \<ge> fl tgt)
                       else rbind (direction_above
                                (case map_of params ''direction'' of None \<Rightarrow> JStr ''above'' | Some d \<Rightarrow> d))
                              (\<lambda>dir. case dir of
                                 None \<Rightarrow> ok (eval_blocked ''direction must be above or below'')
                               | Some up \<Rightarrow> result (if up then v \<ge> fl tgt else v \<le> fl tgt))))))"

definition stop_met :: "string \<Rightarrow> evaluation" where
  "stop_met condition =
     \<lparr>eval_status = EvBlocked, eval_complete = False,
      eval_summary = ''Stop condition met: '' @ condition @ ''.'', eval_stop_met = True,
      eval_blocked_reason = Some (''stop condition met: '' @ condition)\<rparr>"

fun evaluate_stop_conditions :: "string list \<Rightarrow> observation \<Rightarrow> evaluation option" where
  "evaluate_stop_conditions [] ob = None"
| "evaluate_stop_conditions (condition # rest) ob =
     (case scan_condition condition of
        None \<Rightarrow> Some (eval_blocked (''unsupported stop condition: '' @ condition))
      | Some (resource, cmp, t) \<Rightarrow>
          (case numeric_resource ob resource of
             None \<Rightarrow> Some (eval_blocked (''resource is not numeric or missing: '' @ resource))
           | Some v \<Rightarrow>
               if compare cmp v (fl (numeral_value t)) then Some (stop_met condition)
               else evaluate_stop_conditions rest ob))"

definition evaluate_project_objective ::
  "task_specification \<Rightarrow> observation \<Rightarrow> observation list \<Rightarrow> evaluation" where
  "evaluate_project_objective spec ob history =
     (case (as_str (jget (obj_parameters (spec_objective spec)) ''project_type''),
            as_list (jget (obs_state ob) ''active_projects'')) of
        (Some project_type, Some ps) \<Rightarrow>
          (let active = list_ex (is_project project_type) ps;
               observed = active \<or> list_ex (\<lambda>h. has_active_project h project_type) history in
           if observed \<and> \<not> active
           then eval_result True (''Project type '' @ project_type @ '' is complete.'')
           else eval_result False (''Project type '' @ project_type @
             (if active then '' is active.'' else '' has not started.'')))
      | _ \<Rightarrow> eval_blocked ''project_type or active_projects is unavailable'')"

text \<open>
  \<open>evaluate\<close>: a project objective that cannot be read returns at once, before the stop conditions; a
  resource objective that cannot be read gives way to a stop condition.
\<close>

definition project_unreadable :: "task_specification \<Rightarrow> observation \<Rightarrow> bool" where
  "project_unreadable spec ob \<longleftrightarrow> obj_type (spec_objective spec) = CompleteProject \<and>
     (as_str (jget (obj_parameters (spec_objective spec)) ''project_type'') = None \<or>
      as_list (jget (obs_state ob) ''active_projects'') = None)"

definition evaluate_progress ::
  "task_specification \<Rightarrow> observation \<Rightarrow> observation list \<Rightarrow> (exn, evaluation) result" where
  "evaluate_progress spec ob history =
     rbind (if obj_type (spec_objective spec) = CompleteProject
            then ok (evaluate_project_objective spec ob history)
            else evaluate_resource_objective spec ob)
       (\<lambda>objective_result.
          if project_unreadable spec ob \<or> eval_complete objective_result then ok objective_result
          else case evaluate_stop_conditions (spec_stop_conditions spec) ob of
            None \<Rightarrow> ok objective_result
          | Some stop \<Rightarrow> ok stop)"

lemma eval_simps [simp]:
  "eval_complete (eval_result b s) = b"
  "eval_status (eval_result b s) = (if b then EvCompleted else EvRunning)"
  "eval_complete (eval_blocked s) = False" "eval_status (eval_blocked s) = EvBlocked"
  "eval_complete (stop_met s) = False" "eval_status (stop_met s) = EvBlocked"
  by (simp_all add: eval_result_def eval_blocked_def stop_met_def)

lemma stop_conditions_blocked:
  "evaluate_stop_conditions cs ob = Some v \<Longrightarrow> eval_status v = EvBlocked \<and> \<not> eval_complete v"
  by (induction cs ob rule: evaluate_stop_conditions.induct)
    (auto split: option.splits if_splits prod.splits)

definition coherent :: "(exn, evaluation) result \<Rightarrow> bool" where
  "coherent r \<longleftrightarrow> (\<forall>v. r = ok v \<longrightarrow> eval_complete v = (eval_status v = EvCompleted))"

lemma coherent_rules:
  "coherent (ok (eval_result b s))" "coherent (ok (eval_blocked s))"
  "(b \<Longrightarrow> coherent m) \<Longrightarrow> (\<not> b \<Longrightarrow> coherent m') \<Longrightarrow> coherent (if b then m else m')"
  "coherent m \<Longrightarrow> (\<And>a. coherent (f a)) \<Longrightarrow> coherent (case x of None \<Rightarrow> m | Some a \<Rightarrow> f a)"
  "(\<And>a. coherent (g a)) \<Longrightarrow> coherent (rbind r g)"
  by (auto simp: coherent_def rbind_Inr_iff split: option.splits)

lemma resource_objective_status: "coherent (evaluate_resource_objective spec ob)"
  unfolding evaluate_resource_objective_def Let_def by (intro coherent_rules)

lemma project_objective_status:
  "eval_complete (evaluate_project_objective spec ob hs) \<longleftrightarrow>
     eval_status (evaluate_project_objective spec ob hs) = EvCompleted"
  by (auto simp: evaluate_project_objective_def Let_def split: option.splits if_splits)

text \<open>The complete flag and the status always agree.\<close>

lemma evaluate_progress_status:
  assumes "evaluate_progress spec ob hs = ok v"
  shows "eval_complete v \<longleftrightarrow> eval_status v = EvCompleted"
proof -
  define first where "first = (if obj_type (spec_objective spec) = CompleteProject
        then ok (evaluate_project_objective spec ob hs)
        else evaluate_resource_objective spec ob)"
  obtain r where r: "first = ok r"
    and v: "(if project_unreadable spec ob \<or> eval_complete r then ok r
       else case evaluate_stop_conditions (spec_stop_conditions spec) ob of
         None \<Rightarrow> ok r | Some stop \<Rightarrow> ok stop) = (ok v :: (exn, evaluation) result)"
    using assms unfolding evaluate_progress_def first_def [symmetric] rbind_Inr_iff by blast
  have "eval_complete r \<longleftrightarrow> eval_status r = EvCompleted"
  proof (cases "obj_type (spec_objective spec) = CompleteProject")
    case True
    then have "r = evaluate_project_objective spec ob hs" using r by (simp add: first_def)
    then show ?thesis by (simp only: project_objective_status)
  next
    case False
    then show ?thesis using r resource_objective_status [of spec ob] by (simp add: first_def coherent_def)
  qed
  then show ?thesis
    using v stop_conditions_blocked [of "spec_stop_conditions spec" ob v]
    by (cases "evaluate_stop_conditions (spec_stop_conditions spec) ob")
      (auto split: if_splits)
qed

end
