(* ===== verification/Verification.thy ===== *)
theory Verification
  imports RuntimeModels
begin

text \<open>
  \<open>ActionVerifier.verify\<close> of \<open>runtime/verification.py\<close>: the reported result of an action is compared
  with the observations before and after it. Each known action type has an effect that must be seen;
  an action of any other type never verifies when it reports success.
\<close>

definition state_differs :: "observation \<Rightarrow> observation \<Rightarrow> bool" where
  "state_differs before after \<longleftrightarrow>
     \<not> py_eq (JObj (obs_state before)) (JObj (obs_state after)) \<or> obs_tick before \<noteq> obs_tick after"

definition changed :: "observation \<Rightarrow> observation \<Rightarrow> string \<Rightarrow> bool" where
  "changed before after key \<longleftrightarrow> \<not> py_eq (jget (obs_state before) key) (jget (obs_state after) key)"

definition numeric_increased :: "observation \<Rightarrow> observation \<Rightarrow> string \<Rightarrow> bool" where
  "numeric_increased before after key =
     (case (as_num_or_bool (jget (obs_state before) key), as_num_or_bool (jget (obs_state after) key)) of
        (Some l, Some r) \<Rightarrow> r > l | _ \<Rightarrow> False)"

definition numeric_decreased :: "observation \<Rightarrow> observation \<Rightarrow> string \<Rightarrow> bool" where
  "numeric_decreased before after key =
     (case (as_num_or_bool (jget (obs_state before) key), as_num_or_bool (jget (obs_state after) key)) of
        (Some l, Some r) \<Rightarrow> r < l | _ \<Rightarrow> False)"

definition named_resource :: "observation \<Rightarrow> string \<Rightarrow> json" where
  "named_resource ob name = (case jget (obs_state ob) ''resources'' of
     JObj d \<Rightarrow> jget d name | _ \<Rightarrow> jget (obs_state ob) name)"

definition renamed :: "observation \<Rightarrow> action \<Rightarrow> observation \<Rightarrow> string \<Rightarrow> bool" where
  "renamed before action after resource =
     (case jget (act_parameters action) ''name'' of
        JStr requested \<Rightarrow> \<not> py_eq (named_resource before resource) (JStr requested) \<and>
          py_eq (named_resource after resource) (JStr requested)
      | _ \<Rightarrow> False)"

definition project_added :: "observation \<Rightarrow> observation \<Rightarrow> bool" where
  "project_added before after =
     (case (jget (obs_state before) ''active_projects'', jget (obs_state after) ''active_projects'') of
        (JList b, JList a) \<Rightarrow> length a = length b + 1 | _ \<Rightarrow> False)"

definition observed_effect :: "observation \<Rightarrow> action \<Rightarrow> observation \<Rightarrow> bool" where
  "observed_effect before action after = (let t = act_type action in
     if t = ''advance_time'' then obs_tick after > obs_tick before
     else if t = ''build_housing'' \<or> t = ''build_power'' then project_added before after
     else if t = ''repair'' then numeric_increased before after ''infrastructure''
     else if t = ''set_maintenance'' then changed before after ''maintenance_level''
     else if t = ''take_loan'' then numeric_increased before after ''debt''
     else if t = ''repay_loan'' then numeric_decreased before after ''debt''
     else if t = ''pause'' then jget (obs_state after) ''paused'' = JBool True
     else if t = ''resume'' then
       jget (obs_state before) ''paused'' = JBool True \<and> jget (obs_state after) ''paused'' = JBool False
     else if t = ''set_server_name'' then renamed before action after ''server_name''
     else if t = ''set_company_name'' then renamed before action after ''company_name''
     else False)"

definition verify ::
  "observation \<Rightarrow> action \<Rightarrow> execution_result \<Rightarrow> observation \<Rightarrow> rat \<Rightarrow> verification_result" where
  "verify before action result after expected_cost =
     (let differs = state_differs before after;
          first =
            (if res_changed result \<noteq> differs
             then [''reported state_changed does not match observations''] else []) @
            (if \<bar>fsub (res_cost result) expected_cost\<bar> > fl (1 / 1000000)
             then [''execution cost does not match validated cost''] else []) in
      if \<not> res_success result then
        (let reasons = first @
           (if differs then [''failed execution unexpectedly mutated state''] else []) in
         \<lparr>ver_verified = (reasons = []), ver_reasons = reasons\<rparr>)
      else
        (let reasons = first @
           (if \<not> differs then [''successful execution did not change state''] else []) @
           (if \<not> observed_effect before action after
            then [''expected effect was not observed for action: '' @ act_type action] else []) in
         \<lparr>ver_verified = (reasons = []), ver_reasons = reasons\<rparr>))"

lemma verify_iff:
  "ver_verified (verify before action result after expected_cost) \<longleftrightarrow>
     res_changed result = res_success result \<and> state_differs before after = res_success result \<and>
     \<bar>fsub (res_cost result) expected_cost\<bar> \<le> fl (1 / 1000000) \<and>
     (res_success result \<longrightarrow> observed_effect before action after)"
  by (cases "res_success result") (auto simp: verify_def Let_def)

lemma verify_reasons_iff:
  "ver_verified (verify before action result after cost) \<longleftrightarrow>
     ver_reasons (verify before action result after cost) = []"
  by (simp add: verify_def Let_def)

end
