(* ===== verification/Lifecycle.thy ===== *)
theory Lifecycle
  imports RuntimeModels
begin

text \<open>
  The task lifecycle of \<open>runtime/lifecycle.py\<close>, its transition table and \<open>transition\<close>, with the
  status helpers of \<open>runtime/engine_support.py\<close> (\<open>with_status\<close>, \<open>force_failed\<close>, \<open>is_terminal\<close>).
  A run of the table is a path of the step relation \<open>lifecycle_step\<close>.
\<close>

section \<open>The table\<close>

fun transitions :: "task_status \<Rightarrow> task_status list" where
  "transitions Pending = [Running, Cancelled]"
| "transitions Running = [Completed, Blocked, Failed, WaitingForApproval, Cancelled]"
| "transitions WaitingForApproval = [Running, Blocked, Cancelled]"
| "transitions Completed = []"
| "transitions Blocked = []"
| "transitions Failed = []"
| "transitions Cancelled = []"

definition transition :: "task_status \<Rightarrow> task_status \<Rightarrow> (exn, task_status) result" where
  "transition current target =
     (if target \<notin> set (transitions current)
      then raise (Exn ValueErr (''invalid task transition: '' @ task_status_value current @ '' -> '' @
        task_status_value target))
      else ok target)"

definition is_terminal :: "task_status \<Rightarrow> bool" where
  "is_terminal s \<longleftrightarrow> s \<in> {Completed, Blocked, Failed, Cancelled}"

definition with_status :: "task \<Rightarrow> task_status \<Rightarrow> (exn, task) result" where
  "with_status t s = rbind (transition (task_status t) s) (\<lambda>_. ok (t\<lparr>task_status := s\<rparr>))"

definition force_failed :: "task \<Rightarrow> (exn, task) result" where
  "force_failed t = rbind (if task_status t = Pending then transition Pending Running else ok Failed)
     (\<lambda>_. ok (t\<lparr>task_status := Failed\<rparr>))"

section \<open>Steps\<close>

inductive lifecycle_step :: "task_status \<Rightarrow> task_status \<Rightarrow> bool" where
  "transition s t = ok t \<Longrightarrow> lifecycle_step s t"

inductive_cases lifecycle_stepE: "lifecycle_step s t"

lemma transition_ok_iff: "transition s t = ok u \<longleftrightarrow> u = t \<and> t \<in> set (transitions s)"
  by (auto simp: transition_def)

lemma transitions_terminal: "transitions s = [] \<longleftrightarrow> is_terminal s"
  by (cases s) (simp_all add: is_terminal_def)

lemma with_status_ok_iff:
  "with_status t s = ok u \<longleftrightarrow> s \<in> set (transitions (task_status t)) \<and> u = t\<lparr>task_status := s\<rparr>"
  by (auto simp: with_status_def result_simps transition_ok_iff)

lemma with_status_ok:
  "s \<in> set (transitions (task_status t)) \<Longrightarrow> with_status t s = ok (t\<lparr>task_status := s\<rparr>)"
  by (simp add: with_status_ok_iff)

lemma force_failed_ok [simp]: "force_failed t = ok (t\<lparr>task_status := Failed\<rparr>)"
  by (simp add: force_failed_def transition_def)

lemma lifecycle_step_iff: "lifecycle_step s t \<longleftrightarrow> t \<in> set (transitions s)"
  by (auto simp: transition_ok_iff elim: lifecycle_stepE intro: lifecycle_step.intros)

text \<open>How far a status is from the end: an approval may be asked for any number of times.\<close>

lemma terminal_no_step: "is_terminal s \<Longrightarrow> \<not> lifecycle_step s t"
  by (simp add: lifecycle_step_iff transitions_terminal [symmetric])

lemma never_back_to_pending: "lifecycle_step s t \<Longrightarrow> t \<noteq> Pending"
  by (cases s) (auto simp: lifecycle_step_iff)

lemma reachable_terminal_stays: "lifecycle_step\<^sup>*\<^sup>* s t \<Longrightarrow> is_terminal s \<Longrightarrow> t = s"
  by (induction rule: rtranclp_induct) (auto dest: terminal_no_step)

end
