(* ===== verification/JsonText.thy ===== *)
theory JsonText
  imports Json
begin

text \<open>
  The text of JSON values as \<open>json.dumps\<close> writes it, of timestamps and decimals, and the text functions of the
  standard library that the Software Inc modules use.
\<close>

text \<open>The civil date of a day number counted from 1970-01-01.\<close>

definition civil_date :: "int \<Rightarrow> int \<times> int \<times> int" where
  "civil_date day =
     (let z = day + 719468; era = z div 146097; doe = z mod 146097;
          yoe = (doe - doe div 1460 + doe div 36524 - doe div 146096) div 365;
          doy = doe - (365 * yoe + yoe div 4 - yoe div 100);
          mp = (5 * doy + 2) div 153;
          d = doy - (153 * mp + 2) div 5 + 1;
          m = (if mp < 10 then mp + 3 else mp - 9)
      in (yoe + era * 400 + (if m \<le> 2 then 1 else 0), m, d))"

definition pad_int :: "nat \<Rightarrow> int \<Rightarrow> string" where
  "pad_int n i = pad_zeros n (digits_text i)"

definition iso_text :: "int \<Rightarrow> string" where
  "iso_text t =
     (let secs = t div 1000000; micro = t mod 1000000; day = secs div 86400; r = secs mod 86400 in
      case civil_date day of (y, m, d) \<Rightarrow>
        pad_int 4 y @ ''-'' @ pad_int 2 m @ ''-'' @ pad_int 2 d @ ''T'' @
        pad_int 2 (r div 3600) @ '':'' @ pad_int 2 (r div 60 mod 60) @ '':'' @ pad_int 2 (r mod 60) @
        (if micro = 0 then [] else ''.'' @ pad_int 6 micro) @ ''Z'')"

text \<open>A decimal with the fewest fraction digits that are exact, searching up to 28.\<close>

definition decimal_text :: "rat \<Rightarrow> string" where
  "decimal_text x =
     (case find (\<lambda>k. of_int \<lfloor>\<bar>x\<bar> * 10 ^ k\<rfloor> = \<bar>x\<bar> * 10 ^ k) [0..<29] of
        None \<Rightarrow> float_repr x
      | Some k \<Rightarrow>
          (let n = \<lfloor>\<bar>x\<bar> * 10 ^ k\<rfloor> in
           sign_text x @ (if k = 0 then digits_text n
             else digits_text (n div 10 ^ k) @ ''.'' @ pad_int k (n mod 10 ^ k))))"

definition json_char :: "char \<Rightarrow> string" where
  "json_char c = (let n = (of_char c :: nat) in
     if n = 34 \<or> n = 92 then [CHR 0x5C, c]
     else if n = 10 then [CHR 0x5C, CHR ''n'']
     else if n = 13 then [CHR 0x5C, CHR ''r'']
     else if n = 9 then [CHR 0x5C, CHR ''t'']
     else if n = 12 then [CHR 0x5C, CHR ''f'']
     else if n = 8 then [CHR 0x5C, CHR ''b'']
     else if n < 32 \<or> 127 \<le> n
     then [CHR 0x5C, CHR ''u'', CHR ''0'', CHR ''0'', hex_char (n div 16), hex_char (n mod 16)]
     else [c])"

definition json_string :: "string \<Rightarrow> string" where
  "json_string s = [CHR 0x22] @ concat (map json_char s) @ [CHR 0x22]"

fun json_text :: "json \<Rightarrow> string" where
  "json_text JNull = ''null''"
| "json_text (JBool b) = (if b then ''true'' else ''false'')"
| "json_text (JInt i) = int_text i"
| "json_text (JFloat r) = float_repr r"
| "json_text (JStr s) = json_string s"
| "json_text (JTime t) = json_string (iso_text t)"
| "json_text (JDec r) = json_string (decimal_text r)"
| "json_text (JList l) = ''['' @ join '','' (map json_text l) @ '']''"
| "json_text (JObj d) = ''{'' @ join '','' (map (\<lambda>(k, v). json_string k @ '':'' @ json_text v) d) @ ''}''"

text \<open>\<open>json.dumps(d, sort_keys=True)\<close> of a flat dictionary, with the default separators\<close>

definition spaced_text :: "jobject \<Rightarrow> string" where
  "spaced_text d = ''{'' @ join '', '' (map (\<lambda>(k, v). json_string k @ '': '' @ json_text v) (sort_key fst d)) @ ''}''"

text \<open>\<open>json.dumps(v, sort_keys=True, separators=(",", ":"))\<close>\<close>

definition compact_text :: "json \<Rightarrow> string" where
  "compact_text v = json_text (canon v)"

text \<open>\<open>format(x, ",.2f")\<close>: the digits of the whole part in groups of three\<close>

fun grouped :: "string \<Rightarrow> string" where
  "grouped (a # b # c # d # ds) = a # b # c # CHR '','' # grouped (d # ds)"
| "grouped ds = ds"

definition money_text :: "rat \<Rightarrow> string" where
  "money_text x = (let c = rhe (\<bar>x\<bar> * 100) in
     sign_text x @ rev (grouped (rev (digits_text (c div 100)))) @ ''.'' @ pad_int 2 (c mod 100))"

text \<open>
  \<open>str.casefold()\<close> on the code points below 256. The micro sign, whose folding lies outside of them, is kept: no
  other character below 256 folds to the same, so that comparisons of folded texts come out the same.
\<close>

definition casefold :: "string \<Rightarrow> string" where
  "casefold s = concat (map (\<lambda>c. let n = (of_char c :: nat) in
     if (65 \<le> n \<and> n \<le> 90) \<or> (192 \<le> n \<and> n \<le> 222 \<and> n \<noteq> 215) then [char_of (n + 32)]
     else if n = 223 then ''ss'' else [c]) s)"

text \<open>\<open>tuple(part for part in value.split("|") if part)\<close>\<close>

fun split_bars :: "string \<Rightarrow> string \<Rightarrow> string list" where
  "split_bars part [] = (if part = [] then [] else [rev part])"
| "split_bars part (c # s) =
     (if c = CHR ''|'' then (if part = [] then [] else [rev part]) @ split_bars [] s else split_bars (c # part) s)"

text \<open>\<open>format(x, ".1f")\<close>\<close>

definition float_1f :: "rat \<Rightarrow> string" where
  "float_1f x = (let c = rhe (\<bar>x\<bar> * 10) in sign_text x @ digits_text (c div 10) @ ''.'' @ digits_text (c mod 10))"

end
