(* ===== verification/DecisionContext.thy ===== *)
theory DecisionContext
  imports RuntimeModels JsonText
begin

text \<open>
  The bounded input of one decision request, \<open>runtime/decision_context.py\<close>: the models, the projector
  that assembles them from the task, the observation and the journal, and the loop that drops the
  oldest events until the canonical JSON text fits. The text itself is \<open>json_text\<close>, so that its size
  is computed and not assumed.
\<close>

section \<open>Models\<close>

record event_summary =
  es_sequence :: int
  es_type :: event_type
  es_time :: int
  es_details :: jobject

record authority_summary =
  as_single :: "rat option"
  as_total :: "rat option"
  as_remaining :: "rat option"
  as_approval :: "string list"
  as_forbidden :: "string list"

record restrictions =
  re_forbidden :: "string list"
  re_allowed :: "string list"
  re_rejected :: "string list"
  re_denied :: "string list"
  re_failed :: "string list"

record execution_summary =
  ex_action :: action
  ex_result :: "execution_result option"
  ex_verification :: "verification_result option"

record safeguard_summary =
  ss_iterations :: int
  ss_failures :: int
  ss_repeated_action :: int
  ss_repeated_state :: int
  ss_rejected :: int
  ss_last_action :: "json option"

record decision_context =
  dc_task :: uuid
  dc_spec :: task_specification
  dc_observation :: observation
  dc_previous :: "observation option"
  dc_actions :: "action_definition list"
  dc_events :: "event_summary list"
  dc_spend :: rat
  dc_authority :: authority_summary
  dc_restrictions :: restrictions
  dc_execution :: "execution_summary option"
  dc_safeguards :: safeguard_summary
  dc_progress :: evaluation

record provider_result =
  pr_decision :: decision
  pr_metadata :: provider_metadata

definition strings_json :: "string list \<Rightarrow> json" where
  "strings_json xs = JList (map JStr xs)"

definition dump_event_summary :: "event_summary \<Rightarrow> jobject" where
  "dump_event_summary s =
     [(''schema_version'', JInt 1), (''sequence'', JInt (es_sequence s)),
      (''event_type'', JStr (event_type_value (es_type s))), (''timestamp'', JTime (es_time s)),
      (''details'', JObj (es_details s))]"

definition dump_authority_summary :: "authority_summary \<Rightarrow> jobject" where
  "dump_authority_summary a =
     [(''schema_version'', JInt 1),
      (''maximum_single_spend'', opt_json JDec (as_single a)),
      (''maximum_total_spend'', opt_json JDec (as_total a)),
      (''remaining_total_spend'', opt_json JDec (as_remaining a)),
      (''approval_actions'', strings_json (as_approval a)),
      (''forbidden_actions'', strings_json (as_forbidden a))]"

definition dump_restrictions :: "restrictions \<Rightarrow> jobject" where
  "dump_restrictions r =
     [(''schema_version'', JInt 1),
      (''forbidden_actions'', strings_json (re_forbidden r)),
      (''allowed_actions'', strings_json (re_allowed r)),
      (''rejected_actions'', strings_json (re_rejected r)),
      (''denied_actions'', strings_json (re_denied r)),
      (''recent_failed_strategies'', strings_json (re_failed r))]"

definition dump_execution_summary :: "execution_summary \<Rightarrow> jobject" where
  "dump_execution_summary e =
     [(''schema_version'', JInt 1),
      (''action'', JObj (dump_action (ex_action e))),
      (''result'', opt_json (\<lambda>r. JObj (dump_result r)) (ex_result e)),
      (''verification'', opt_json (\<lambda>v. JObj (dump_verification v)) (ex_verification e))]"

text \<open>
  \<open>last_action_fingerprint\<close> is itself JSON text; the fingerprint is kept as the value it spells.
\<close>

definition dump_safeguards :: "safeguard_summary \<Rightarrow> jobject" where
  "dump_safeguards s =
     [(''schema_version'', JInt 1),
      (''iterations'', JInt (ss_iterations s)),
      (''consecutive_failures'', JInt (ss_failures s)),
      (''repeated_action_count'', JInt (ss_repeated_action s)),
      (''repeated_state_count'', JInt (ss_repeated_state s)),
      (''rejected_action_count'', JInt (ss_rejected s)),
      (''last_action_fingerprint'', opt_json (\<lambda>v. JStr (json_text v)) (ss_last_action s))]"

definition dump_context :: "decision_context \<Rightarrow> jobject" where
  "dump_context c =
     [(''schema_version'', JInt 1),
      (''task_id'', JStr (uuid_text (dc_task c))),
      (''specification'', JObj (dump_specification (dc_spec c))),
      (''observation'', JObj (dump_observation (dc_observation c))),
      (''previous_observation'', opt_json (\<lambda>ob. JObj (dump_observation ob)) (dc_previous c)),
      (''available_actions'', JList (map (\<lambda>a. JObj (dump_action_definition a)) (dc_actions c))),
      (''recent_events'', JList (map (\<lambda>s. JObj (dump_event_summary s)) (dc_events c))),
      (''accumulated_spend'', JDec (dc_spend c)),
      (''remaining_authority'', JObj (dump_authority_summary (dc_authority c))),
      (''pending_restrictions'', JObj (dump_restrictions (dc_restrictions c))),
      (''previous_execution'', opt_json (\<lambda>e. JObj (dump_execution_summary e)) (dc_execution c)),
      (''safeguards'', JObj (dump_safeguards (dc_safeguards c))),
      (''progress'', JObj (dump_evaluation (dc_progress c)))]"

definition canonical_json :: "decision_context \<Rightarrow> string" where
  "canonical_json c = json_text (canon (JObj (dump_context c)))"

section \<open>The projector\<close>

definition is_relevant :: "event \<Rightarrow> bool" where
  "is_relevant e \<longleftrightarrow> ev_type e \<in> {DecisionGenerated, PolicyValidated, ActionPrepared, ActionExecuted,
     ActionRejected, VerificationRecorded, ApprovalRequested, ApprovalGranted, ApprovalDenied,
     ActionAttemptFailed, ActionReconciliationRequired, ActionReconciled}"

text \<open>Python's \<open>xs[-n:]\<close>; for \<open>n = 0\<close> it is \<open>xs[0:]\<close>, the whole list.\<close>

definition slice_last :: "int \<Rightarrow> 'a list \<Rightarrow> 'a list" where
  "slice_last n xs = (if n = 0 then xs else drop (length xs - nat n) xs)"

definition summarize :: "event \<Rightarrow> event_summary" where
  "summarize e = \<lparr>es_sequence = ev_sequence e, es_type = ev_type e, es_time = ev_time e,
     es_details = ev_payload e\<rparr>"

fun previous_observation :: "event list \<Rightarrow> int \<Rightarrow> observation option" where
  "previous_observation [] n = None"
| "previous_observation (e # newest_first) n =
     (if ev_type e \<noteq> ObservationRecorded then previous_observation newest_first n
      else case load_observation (ev_payload e) of
        None \<Rightarrow> previous_observation newest_first n
      | Some ob \<Rightarrow> if obs_sequence ob < n then Some ob else previous_observation newest_first n)"

fun previous_execution ::
  "event list \<Rightarrow> execution_result option \<Rightarrow> verification_result option \<Rightarrow> execution_summary option" where
  "previous_execution [] result verification = None"
| "previous_execution (e # newest_first) result verification =
     (if result = None \<and> ev_type e = ActionExecuted
      then previous_execution newest_first (load_result (ev_payload e)) verification
      else if verification = None \<and> ev_type e = VerificationRecorded
      then previous_execution newest_first result (load_verification (ev_payload e))
      else if ev_type e = ActionPrepared then
        (case jget (ev_payload e) ''action'' of
           JObj d \<Rightarrow>
             (case load_action d of
                None \<Rightarrow> None
              | Some a \<Rightarrow> Some \<lparr>ex_action = a, ex_result = result, ex_verification = verification\<rparr>)
         | _ \<Rightarrow> previous_execution newest_first result verification)
      else previous_execution newest_first result verification)"

definition constraint_forbids :: "constraint \<Rightarrow> string list" where
  "constraint_forbids c = (if con_type c = ForbiddenAction
     then (case jget (con_parameters c) ''action'' of JStr v \<Rightarrow> [v] | _ \<Rightarrow> []) else [])"

definition constraint_allows :: "constraint \<Rightarrow> string list" where
  "constraint_allows c = (if con_type c = AllowedAction
     then (case jget (con_parameters c) ''action'' of JStr v \<Rightarrow> [v] | _ \<Rightarrow> []) @
       (case jget (con_parameters c) ''actions'' of
          JList vs \<Rightarrow> List.map_filter as_str vs | _ \<Rightarrow> []) else [])"

record restriction_scan =
  rs_rejected :: "string list"
  rs_denied :: "string list"
  rs_failed :: "string list"
  rs_approvals :: "(string \<times> string) list"

definition scan_restriction :: "event \<Rightarrow> restriction_scan \<Rightarrow> restriction_scan" where
  "scan_restriction e r = (let p = jget (ev_payload e) in
     if ev_type e = ApprovalRequested then
       (case (as_str (p ''approval_id''), as_str (p ''action_type'')) of
          (Some i, Some a) \<Rightarrow> r\<lparr>rs_approvals := AList.update i a (rs_approvals r)\<rparr> | _ \<Rightarrow> r)
     else if ev_type e = ApprovalDenied then
       (case as_str (p ''approval_id'') of
          Some i \<Rightarrow> (case map_of (rs_approvals r) i of
            Some a \<Rightarrow> r\<lparr>rs_denied := rs_denied r @ [a]\<rparr> | None \<Rightarrow> r)
        | None \<Rightarrow> r)
     else if ev_type e = ActionRejected then
       (case as_str (p ''action_type'') of
          Some a \<Rightarrow> r\<lparr>rs_rejected := rs_rejected r @ [a]\<rparr>
        | None \<Rightarrow> (case as_str (p ''reason'') of
            Some s \<Rightarrow> r\<lparr>rs_rejected := rs_rejected r @ [s]\<rparr> | None \<Rightarrow> r))
     else if ev_type e = ActionAttemptFailed then
       (case as_str (p ''reason'') of
          Some s \<Rightarrow> r\<lparr>rs_failed := rs_failed r @ [s]\<rparr> | None \<Rightarrow> r)
     else r)"

definition project_restrictions :: "task \<Rightarrow> event list \<Rightarrow> restrictions" where
  "project_restrictions t events =
     (let cs = spec_constraints (task_spec t);
          r = fold scan_restriction events
            \<lparr>rs_rejected = [], rs_denied = [], rs_failed = [], rs_approvals = []\<rparr> in
      \<lparr>re_forbidden = sort (remdups
         (forbidden_actions (spec_authority (task_spec t)) @ concat (map constraint_forbids cs))),
       re_allowed = sort (remdups (concat (map constraint_allows cs))),
       re_rejected = slice_last 5 (rs_rejected r),
       re_denied = slice_last 5 (rs_denied r),
       re_failed = slice_last 5 (rs_failed r)\<rparr>)"

definition build_context ::
  "task \<Rightarrow> observation \<Rightarrow> observation option \<Rightarrow> action_definition list \<Rightarrow> event_summary list \<Rightarrow>
   safeguard_state \<Rightarrow> evaluation \<Rightarrow> restrictions \<Rightarrow> execution_summary option \<Rightarrow> decision_context" where
  "build_context t ob previous actions summaries sg progress restr execution =
     (let auth = spec_authority (task_spec t) in
      \<lparr>dc_task = task_id t, dc_spec = task_spec t, dc_observation = ob, dc_previous = previous,
       dc_actions = actions, dc_events = summaries, dc_spend = task_spend t,
       dc_authority =
         \<lparr>as_single = maximum_single_spend auth, as_total = maximum_total_spend auth,
          as_remaining = map_option (\<lambda>m. max 0 (dsub m (task_spend t))) (maximum_total_spend auth),
          as_approval = approval_actions auth, as_forbidden = forbidden_actions auth\<rparr>,
       dc_restrictions = restr, dc_execution = execution,
       dc_safeguards =
         \<lparr>ss_iterations = sg_iterations sg, ss_failures = sg_failures sg,
          ss_repeated_action = sg_repeated_action sg, ss_repeated_state = sg_repeated_state sg,
          ss_rejected = sg_rejected sg, ss_last_action = sg_last_action sg\<rparr>,
       dc_progress = progress\<rparr>)"

text \<open>\<open>while summaries and len(...) > max_serialized_bytes\<close>: drop the oldest summary and try again.\<close>

fun shrink_context :: "int \<Rightarrow> event_summary list \<Rightarrow> decision_context \<Rightarrow> decision_context" where
  "shrink_context limit [] c = c"
| "shrink_context limit (s # summaries) c =
     (if int (length (canonical_json c)) > limit
      then shrink_context limit summaries (c\<lparr>dc_events := summaries\<rparr>) else c)"

definition project_context ::
  "int \<Rightarrow> int \<Rightarrow> task \<Rightarrow> observation \<Rightarrow> action_definition list \<Rightarrow> event list \<Rightarrow> safeguard_state \<Rightarrow>
   evaluation \<Rightarrow> (exn, decision_context) result" where
  "project_context max_events limit t ob actions events sg progress =
     (let relevant = filter is_relevant events;
          summaries = map summarize (slice_last max_events relevant);
          c = shrink_context limit summaries
            (build_context t ob (previous_observation (rev events) (obs_sequence ob)) actions summaries
               sg progress (project_restrictions t relevant) (previous_execution (rev events) None None))
      in if int (length (canonical_json c)) > limit
         then raise (Exn DecisionContextTooLarge
           (''decision context exceeds '' @ int_text limit @ '' bytes''))
         else ok c)"

section \<open>Lemmas\<close>

lemma dc_events_same: "dc_events c = summaries \<Longrightarrow> c\<lparr>dc_events := summaries\<rparr> = c"
  by (cases c) simp

lemma shrink_context_rest:
  "dc_events c = summaries \<Longrightarrow>
     \<exists>n. shrink_context limit summaries c = c\<lparr>dc_events := drop n summaries\<rparr>"
proof (induction limit summaries c rule: shrink_context.induct)
  case (2 limit s summaries c)
  show ?case
  proof (cases "int (length (canonical_json c)) > limit")
    case True
    with 2 obtain n where
      "shrink_context limit summaries (c\<lparr>dc_events := summaries\<rparr>) =
         c\<lparr>dc_events := summaries, dc_events := drop n summaries\<rparr>" by fastforce
    with True have "shrink_context limit (s # summaries) c = c\<lparr>dc_events := drop (Suc n) (s # summaries)\<rparr>"
      by simp
    then show ?thesis ..
  next
    case False
    with 2(2) have "shrink_context limit (s # summaries) c = c\<lparr>dc_events := drop 0 (s # summaries)\<rparr>"
      by simp
    then show ?thesis ..
  qed
qed (simp add: dc_events_same)

text \<open>The loop drops no more than it must: one summary more and the text would be too long.\<close>

lemma shrink_context_least:
  assumes "dc_events c = pre @ suf" and "pre \<noteq> []"
    and "shrink_context limit (pre @ suf) c = c\<lparr>dc_events := suf\<rparr>"
  shows "int (length (canonical_json (c\<lparr>dc_events := last pre # suf\<rparr>))) > limit"
  using assms
proof (induction pre arbitrary: c)
  case (Cons s pre)
  show ?case
  proof (cases "int (length (canonical_json c)) > limit")
    case True
    show ?thesis
    proof (cases "pre = []")
      case True
      with Cons.prems have "c\<lparr>dc_events := s # suf\<rparr> = c" by (intro dc_events_same) simp
      with True \<open>int (length (canonical_json c)) > limit\<close> show ?thesis by simp
    next
      case False
      have "shrink_context limit (pre @ suf) (c\<lparr>dc_events := pre @ suf\<rparr>) =
          (c\<lparr>dc_events := pre @ suf\<rparr>)\<lparr>dc_events := suf\<rparr>"
        using Cons.prems True by simp
      from Cons.IH [OF _ False this] False show ?thesis by simp
    qed
  next
    case False
    with Cons.prems have "c = c\<lparr>dc_events := suf\<rparr>" by simp
    then have "dc_events c = suf" by (metis decision_context.select_convs(6) decision_context.surjective
      decision_context.update_convs(6))
    with Cons.prems(1) show ?thesis by simp
  qed
qed simp

lemma project_context_ok:
  "project_context n limit t ob actions events sg v = ok c \<Longrightarrow> int (length (canonical_json c)) \<le> limit"
  by (auto simp: project_context_def Let_def split: if_splits)

end
