(* ===== verification/Attempts.thy ===== *)
theory Attempts
  imports RuntimeModels
begin

text \<open>
  \<open>runtime/action_attempts.py\<close>: the state of every external action attempt, derived from the
  append-only journal. \<open>action_attempts\<close> replays the journal and rejects malformed transitions;
  \<open>unresolved_action_attempt\<close> is the last attempt when it has not reached a final status. The
  fingerprints are the digests of canonical JSON text; the digest is a parameter (\<open>sha\<close>), a function
  of the canonical value.
\<close>

section \<open>Data\<close>

datatype attempt_status =
    AtPrepared | AtStarted | AtConfirmed | AtCommitted | AtReconciliationRequired | AtReconciled | AtFailed

datatype classification =
    DefinitelyNotExecuted | DefinitelyExecuted | Inferable | Ambiguous | AdapterUnavailable

datatype resolution =
    AcceptCurrent | MarkExecuted | MarkNotExecuted | Abandon | RestorePriorCheckpoint

fun attempt_status_value :: "attempt_status \<Rightarrow> string" where
  "attempt_status_value AtPrepared = ''prepared''"
| "attempt_status_value AtStarted = ''execution_started''"
| "attempt_status_value AtConfirmed = ''execution_confirmed''"
| "attempt_status_value AtCommitted = ''checkpoint_committed''"
| "attempt_status_value AtReconciliationRequired = ''reconciliation_required''"
| "attempt_status_value AtReconciled = ''reconciled''"
| "attempt_status_value AtFailed = ''failed''"

fun classification_value :: "classification \<Rightarrow> string" where
  "classification_value DefinitelyNotExecuted = ''definitely_not_executed''"
| "classification_value DefinitelyExecuted = ''definitely_executed''"
| "classification_value Inferable = ''inferable''"
| "classification_value Ambiguous = ''ambiguous''"
| "classification_value AdapterUnavailable = ''adapter_unavailable''"

definition classifications :: "classification list" where
  "classifications =
     [DefinitelyNotExecuted, DefinitelyExecuted, Inferable, Ambiguous, AdapterUnavailable]"

fun resolution_value :: "resolution \<Rightarrow> string" where
  "resolution_value AcceptCurrent = ''accept_current''"
| "resolution_value MarkExecuted = ''mark_executed''"
| "resolution_value MarkNotExecuted = ''mark_not_executed''"
| "resolution_value Abandon = ''abandon''"
| "resolution_value RestorePriorCheckpoint = ''restore_prior_checkpoint''"

record attempt =
  at_task :: uuid
  at_sequence :: int
  at_id :: uuid
  at_fingerprint :: string
  at_action :: action
  at_checkpoint :: "uuid option"
  at_observation :: string
  at_effect :: string
  at_cost :: rat
  at_status :: attempt_status
  at_prepared :: int
  at_updated :: int
  at_classification :: "classification option"
  at_reason :: "string option"

fun attempt_event_status :: "event_type \<Rightarrow> attempt_status option" where
  "attempt_event_status ActionPrepared = Some AtPrepared"
| "attempt_event_status ActionExecutionStarted = Some AtStarted"
| "attempt_event_status ActionExecutionConfirmed = Some AtConfirmed"
| "attempt_event_status ActionCheckpointCommitted = Some AtCommitted"
| "attempt_event_status ActionReconciliationRequired = Some AtReconciliationRequired"
| "attempt_event_status ActionReconciled = Some AtReconciled"
| "attempt_event_status ActionAttemptFailed = Some AtFailed"
| "attempt_event_status _ = None"

fun attempt_transitions :: "attempt_status \<Rightarrow> attempt_status list" where
  "attempt_transitions AtPrepared = [AtStarted, AtReconciled, AtFailed]"
| "attempt_transitions AtStarted = [AtConfirmed, AtReconciliationRequired, AtReconciled, AtFailed]"
| "attempt_transitions AtConfirmed = [AtCommitted]"
| "attempt_transitions AtReconciliationRequired = [AtReconciled, AtFailed]"
| "attempt_transitions AtCommitted = []"
| "attempt_transitions AtReconciled = []"
| "attempt_transitions AtFailed = []"

section \<open>Fingerprints\<close>

type_synonym digest = "json \<Rightarrow> string"

definition canonical_fingerprint :: "digest \<Rightarrow> json \<Rightarrow> string" where
  "canonical_fingerprint sha v = sha (canon v)"

definition action_fingerprint :: "digest \<Rightarrow> action \<Rightarrow> string" where
  "action_fingerprint sha a = canonical_fingerprint sha (JObj (dump_action a))"

definition observation_fingerprint :: "digest \<Rightarrow> observation \<Rightarrow> string" where
  "observation_fingerprint sha ob = canonical_fingerprint sha
     (JObj [(''sequence'', JInt (obs_sequence ob)), (''tick'', JInt (obs_tick ob)),
            (''state'', JObj (obs_state ob))])"

section \<open>Replaying the journal\<close>

definition inconsistent :: "string \<Rightarrow> exn" where
  "inconsistent msg = Exn ReconstructionConsistency msg"

text \<open>
  The prepared attempt, or \<open>None\<close> where the code catches \<open>KeyError\<close>, \<open>TypeError\<close> or \<open>ValueError\<close>: a missing key, an
  action that does not validate, a cost that is not a number or is negative, an identifier that does
  not parse, an empty fingerprint or effect. The detail that follows \<open>invalid action-prepared
  payload\<close> in the message is the library's and is left out.
\<close>

definition prepare_attempt :: "event \<Rightarrow> uuid \<Rightarrow> attempt option" where
  "prepare_attempt e identifier = do {
     action \<leftarrow> need (ev_payload e) ''action'' (load_object load_action);
     cost \<leftarrow> need (ev_payload e) ''estimated_cost'' as_num;
     fingerprint \<leftarrow> need (ev_payload e) ''action_fingerprint'' (\<lambda>v. Some (py_str v));
     checkpoint \<leftarrow> nullable (\<lambda>v. uuid_parse (py_str v)) (jget (ev_payload e) ''prior_checkpoint_id'');
     observed \<leftarrow> need (ev_payload e) ''prior_observation_fingerprint'' (\<lambda>v. Some (py_str v));
     effect \<leftarrow> need (ev_payload e) ''expected_effect'' (\<lambda>v. Some (py_str v));
     (if fingerprint \<noteq> [] \<and> observed \<noteq> [] \<and> effect \<noteq> [] \<and> 0 \<le> fl cost \<and> 1 \<le> ev_sequence e then Some
        \<lparr>at_task = ev_task e, at_sequence = ev_sequence e, at_id = identifier,
         at_fingerprint = fingerprint, at_action = action, at_checkpoint = checkpoint,
         at_observation = observed, at_effect = effect, at_cost = fl cost, at_status = AtPrepared,
         at_prepared = ev_time e, at_updated = ev_time e, at_classification = None,
         at_reason = None\<rparr>
      else None)
   }"

text \<open>The dictionary \<open>attempts\<close> keeps the order of preparation, so \<open>order\<close> is its list of keys.\<close>

type_synonym attempts = "(uuid \<times> attempt) list"

definition parse_classification ::
  "jobject \<Rightarrow> attempt \<Rightarrow> (exn, classification option) result" where
  "parse_classification payload a = (let v = jget payload ''classification'' in
     if is_null v then ok (at_classification a)
     else case enum_parse classification_value classifications (py_str v) of
       Some c \<Rightarrow> ok (Some c)
     | None \<Rightarrow> raise (inconsistent ''action-attempt reconciliation classification is invalid''))"

definition advance_attempt :: "event \<Rightarrow> attempt_status \<Rightarrow> attempt \<Rightarrow> (exn, attempt) result" where
  "advance_attempt e status a =
     (if status \<notin> set (attempt_transitions (at_status a))
      then raise (inconsistent (''invalid action-attempt transition: '' @
        attempt_status_value (at_status a) @ '' -> '' @ attempt_status_value status))
      else rbind (parse_classification (ev_payload e) a)
        (\<lambda>cls. ok (a\<lparr>at_status := status, at_updated := ev_time e, at_classification := cls,
           at_reason := (case jget (ev_payload e) ''reason'' of JStr s \<Rightarrow> Some s | _ \<Rightarrow> at_reason a)\<rparr>)))"

definition attempt_event :: "event \<Rightarrow> attempts \<Rightarrow> (exn, attempts) result" where
  "attempt_event e attempts =
     (case attempt_event_status (ev_type e) of
        None \<Rightarrow> ok attempts
      | Some status \<Rightarrow>
          (case jget (ev_payload e) ''action_id'' of
             JStr raw_id \<Rightarrow>
               (case uuid_parse raw_id of
                  None \<Rightarrow> raise (inconsistent ''action-attempt action_id is invalid'')
                | Some identifier \<Rightarrow>
                    if ev_type e = ActionPrepared then
                      (if identifier \<in> set (map fst attempts)
                       then raise (inconsistent ''action attempt was prepared more than once'')
                       else case prepare_attempt e identifier of
                         None \<Rightarrow> raise (inconsistent ''invalid action-prepared payload: '')
                       | Some a \<Rightarrow> ok (attempts @ [(identifier, a)]))
                    else
                      (case map_of attempts identifier of
                         None \<Rightarrow> raise (inconsistent ''action-attempt event precedes preparation'')
                       | Some a \<Rightarrow> rbind (advance_attempt e status a)
                           (\<lambda>b. ok (AList.update identifier b attempts))))
           | _ \<Rightarrow> raise (inconsistent ''action-attempt event has no action_id'')))"

definition action_attempts :: "event list \<Rightarrow> (exn, attempt list) result" where
  "action_attempts events = rbind (rfold attempt_event events []) (\<lambda>as. ok (map snd as))"

definition attempt_final :: "attempt_status \<Rightarrow> bool" where
  "attempt_final s \<longleftrightarrow> s \<in> {AtCommitted, AtReconciled, AtFailed}"

definition unresolved_action_attempt :: "event list \<Rightarrow> (exn, attempt option) result" where
  "unresolved_action_attempt events = rbind (action_attempts events)
     (\<lambda>as. if as = [] then ok None
           else if attempt_final (at_status (last as)) then ok None else ok (Some (last as)))"

section \<open>Lemmas\<close>

inductive attempt_step :: "attempt_status \<Rightarrow> attempt_status \<Rightarrow> bool" where
  "t \<in> set (attempt_transitions s) \<Longrightarrow> attempt_step s t"

inductive_simps attempt_step_iff: "attempt_step s t"

lemma attempt_final_iff: "attempt_final s \<longleftrightarrow> attempt_transitions s = []"
  by (cases s) (simp_all add: attempt_final_def)

lemma attempt_event_cases:
  assumes "attempt_event e as = ok bs"
  obtains (skipped) "attempt_event_status (ev_type e) = None" "bs = as"
    | (prepared) ident a where "ev_type e = ActionPrepared" "ident \<notin> set (map fst as)"
        "prepare_attempt e ident = Some a" "bs = as @ [(ident, a)]"
    | (advanced) ident status a b where "ev_type e \<noteq> ActionPrepared"
        "attempt_event_status (ev_type e) = Some status" "map_of as ident = Some a"
        "advance_attempt e status a = ok b" "bs = AList.update ident b as"
proof (cases "attempt_event_status (ev_type e)")
  case None
  then show thesis using assms skipped by (simp add: attempt_event_def)
next
  case (Some status)
  note status = this
  obtain raw where raw: "jget (ev_payload e) ''action_id'' = JStr raw"
    using assms status by (cases "jget (ev_payload e) ''action_id''") (simp_all add: attempt_event_def)
  obtain ident where ident: "uuid_parse raw = Some ident"
    using assms status raw by (cases "uuid_parse raw") (simp_all add: attempt_event_def)
  note unfolded = assms [unfolded attempt_event_def status raw, simplified, unfolded ident, simplified]
  show thesis
  proof (cases "ev_type e = ActionPrepared")
    case True
    with unfolded have "ident \<notin> set (map fst as)"
        "(case prepare_attempt e ident of
           None \<Rightarrow> raise (inconsistent ''invalid action-prepared payload: '')
         | Some a \<Rightarrow> ok (as @ [(ident, a)])) = ok bs"
      by (auto split: if_split_asm)
    with True show thesis
      by (cases "prepare_attempt e ident") (auto intro: prepared [unfolded set_map])
  next
    case False
    with unfolded obtain a where a: "map_of as ident = Some a"
      by (cases "map_of as ident") simp_all
    with False unfolded obtain b where "advance_attempt e status a = ok b" "bs = AList.update ident b as"
      by (auto simp: rbind_Inr_iff)
    with False status a show thesis by (rule advanced)
  qed
qed

lemma advance_attempt_ok:
  assumes "advance_attempt e status a = ok b"
  shows "at_status b = status \<and> attempt_step (at_status a) status \<and> at_task b = at_task a \<and>
    at_id b = at_id a \<and> at_action b = at_action a"
  using assms by (auto simp: advance_attempt_def attempt_step_iff rbind_Inr_iff split: if_split_asm)

lemma prepare_attempt_ok:
  assumes "prepare_attempt e identifier = Some a"
  shows "at_status a = AtPrepared \<and> at_id a = identifier \<and> at_task a = ev_task e \<and> 0 \<le> at_cost a \<and>
    at_sequence a = ev_sequence e"
  using assms by (auto simp: prepare_attempt_def split: bind_splits if_split_asm)

lemma advance_attempt_final: "attempt_final (at_status a) \<Longrightarrow> advance_attempt e s a \<noteq> ok b"
  by (auto simp: advance_attempt_def attempt_final_iff)

text \<open>What every event does to one attempt: it keeps it, or moves it along one transition.\<close>

lemma attempt_event_keeps:
  assumes "attempt_event e as = ok bs" and "map_of as k = Some a"
  shows "\<exists>b. map_of bs k = Some b \<and> at_action b = at_action a \<and>
    (b = a \<or> attempt_step (at_status a) (at_status b))"
  using assms(1)
proof (cases rule: attempt_event_cases)
  case skipped
  then show ?thesis using assms(2) by auto
next
  case (prepared ident a')
  then show ?thesis using assms(2) by (auto simp: map_add_def)
next
  case (advanced ident status a' b)
  then show ?thesis using assms(2) advance_attempt_ok [OF advanced(4)]
    by (cases "k = ident") (auto simp: dict_set_get)
qed

lemma attempt_replay_keeps:
  assumes "rfold attempt_event es as = ok bs" and "map_of as k = Some a"
  shows "\<exists>b. map_of bs k = Some b \<and> at_action b = at_action a \<and>
    (b = a \<or> attempt_step\<^sup>+\<^sup>+ (at_status a) (at_status b))"
  using assms
proof (induction es arbitrary: as a)
  case (Cons e es)
  from Cons.prems(1) obtain cs where e: "attempt_event e as = ok cs" and es: "rfold attempt_event es cs = ok bs"
    by (auto simp: rbind_Inr_iff)
  from attempt_event_keeps [OF e Cons.prems(2)] obtain c where
    c: "map_of cs k = Some c" "at_action c = at_action a" "c = a \<or> attempt_step (at_status a) (at_status c)"
    by blast
  from Cons.IH [OF es c(1)] c show ?case
    by (metis tranclp.r_into_trancl tranclp_into_tranclp2)
qed simp

text \<open>The replay names every attempt once, and each under its own identifier.\<close>

definition attempts_ok :: "attempts \<Rightarrow> bool" where
  "attempts_ok as \<longleftrightarrow> distinct (map fst as) \<and> (\<forall>(k, a) \<in> set as. at_id a = k)"

lemma attempt_event_ok:
  assumes "attempt_event e as = ok bs" and ok: "attempts_ok as"
  shows "attempts_ok bs"
  using assms(1)
proof (cases rule: attempt_event_cases)
  case (prepared ident a)
  then show ?thesis using prepare_attempt_ok [OF prepared(3)] ok by (auto simp: attempts_ok_def)
next
  case (advanced ident status a b)
  then have "at_id b = ident"
    using advance_attempt_ok [OF advanced(4)] dict_get_mem [OF advanced(3)] ok
    by (auto simp: attempts_ok_def)
  then show ?thesis using advanced(5) ok
    by (auto simp: attempts_ok_def distinct_update dest!: dict_set_values)
qed (use ok in simp)

lemma attempt_replay_ok: "rfold attempt_event es as = ok bs \<Longrightarrow> attempts_ok as \<Longrightarrow> attempts_ok bs"
  by (erule rfold_invariant [where P = attempts_ok]) (auto intro: attempt_event_ok)

lemma attempt_replay_start: "rfold attempt_event es [] = ok bs \<Longrightarrow> attempts_ok bs"
  by (erule attempt_replay_ok) (simp add: attempts_ok_def)

lemma attempts_final_stays: "attempt_step\<^sup>+\<^sup>+ s t \<Longrightarrow> \<not> attempt_final s"
  by (auto simp: attempt_step_iff attempt_final_iff dest: tranclpD)

end
