(* ===== verification/DecisionValidation.thy ===== *)
theory DecisionValidation
  imports DecisionContext Attempts
begin

text \<open>
  \<open>runtime/decision_validation.py\<close>: the deterministic checks on a provider's decision before the
  runtime sees it. A decision passes only when it claims no unconfirmed completion, does not repeat a
  rejected or denied action, and names an advertised action with parameters of its schema.
\<close>

definition semantic_error :: "string \<Rightarrow> exn" where
  "semantic_error msg = Exn DecisionSemanticValidation msg"

definition is_fingerprint :: "string \<Rightarrow> bool" where
  "is_fingerprint s \<longleftrightarrow> length s = 64 \<and>
     list_all (\<lambda>c. let n = (of_char c :: nat) in (48 \<le> n \<and> n \<le> 57) \<or> (97 \<le> n \<and> n \<le> 102)) s"

fun has_type :: "parameter_type \<Rightarrow> json \<Rightarrow> bool" where
  "has_type PInteger v = (as_int v \<noteq> None)"
| "has_type PNumber v = (as_num v \<noteq> None)"
| "has_type PString v = (as_str v \<noteq> None)"
| "has_type PBoolean v = (as_bool v \<noteq> None)"

definition validate_parameter :: "json \<Rightarrow> parameter_definition \<Rightarrow> (exn, unit) result" where
  "validate_parameter v schema =
     (let parameter = ''parameter '' @ pd_name schema in
      if \<not> has_type (pd_type schema) v
      then raise (semantic_error (parameter @ '' must be '' @ parameter_type_value (pd_type schema)))
      else if pd_allowed schema \<noteq> [] \<and> \<not> list_ex (py_eq v) (pd_allowed schema)
      then raise (semantic_error (parameter @ '' is not an allowed value''))
      else case as_num v of
        None \<Rightarrow> ok ()
      | Some x \<Rightarrow>
          rbind (case pd_minimum schema of
              None \<Rightarrow> ok ()
            | Some m \<Rightarrow> rguard (\<not> (if pd_exclusive schema then fl x \<le> m else fl x < m))
                (semantic_error (parameter @ '' must be '' @
                  (if pd_exclusive schema then ''greater than'' else ''at least'') @ '' '' @ float_g m)))
            (\<lambda>_. case pd_maximum schema of
              None \<Rightarrow> ok ()
            | Some m \<Rightarrow> rguard (\<not> fl x > m)
                (semantic_error (parameter @ '' must be at most '' @ float_g m))))"

text \<open>The dictionaries built from the definitions keep the last definition of a name.\<close>

definition find_parameter :: "action_definition \<Rightarrow> string \<Rightarrow> parameter_definition option" where
  "find_parameter d name = find (\<lambda>p. pd_name p = name) (rev (ad_parameters d))"

definition validate_parameters :: "jobject \<Rightarrow> action_definition \<Rightarrow> (exn, unit) result" where
  "validate_parameters params d =
     (let names = map fst params;
          missing = sort (map pd_name (filter (\<lambda>p. pd_required p \<and> pd_name p \<notin> set names) (ad_parameters d)));
          unknown = sort (filter (\<lambda>n. n \<notin> set (map pd_name (ad_parameters d))) names) in
      if missing \<noteq> []
      then raise (semantic_error (''action '' @ ad_type d @ '' is missing parameters: '' @ join '', '' missing))
      else if unknown \<noteq> []
      then raise (semantic_error (''action '' @ ad_type d @ '' has unknown parameters: '' @ join '', '' unknown))
      else rfold (\<lambda>(name, v) _. case find_parameter d name of
          Some schema \<Rightarrow> validate_parameter v schema | None \<Rightarrow> ok ()) params ())"

text \<open>A decimal here is a rational number, so that \<open>estimated_cost\<close> is always finite.\<close>

definition validate_provider_decision :: "digest \<Rightarrow> decision \<Rightarrow> decision_context \<Rightarrow> (exn, string) result"
  where
  "validate_provider_decision sha d c =
     (if dec_type d = DComplete \<and> \<not> eval_complete (dc_progress c)
      then raise (semantic_error ''completion is not confirmed by the deterministic evaluator'')
      else if dec_type d = DBlocked \<and> strip (dec_reason d) = []
      then raise (semantic_error ''blocked decision requires a reason'')
      else case dec_action d of
        None \<Rightarrow> ok ''no-action''
      | Some a \<Rightarrow>
          if act_type a \<in> set (re_rejected (dc_restrictions c)) \<union> set (re_denied (dc_restrictions c))
          then raise (semantic_error (''action was previously rejected or denied: '' @ act_type a))
          else case find (\<lambda>x. ad_type x = act_type a) (rev (dc_actions c)) of
            None \<Rightarrow> raise (semantic_error (''action is not advertised by the adapter: '' @ act_type a))
          | Some definition_found \<Rightarrow>
              rbind (validate_parameters (act_parameters a) definition_found)
                (\<lambda>_. let fingerprint = action_fingerprint sha a in
                  if is_fingerprint fingerprint then ok fingerprint
                  else raise (semantic_error ''action fingerprint is invalid'')))"

section \<open>Specification\<close>

definition parameter_ok :: "parameter_definition \<Rightarrow> json \<Rightarrow> bool" where
  "parameter_ok p v \<longleftrightarrow> has_type (pd_type p) v \<and>
     (pd_allowed p = [] \<or> (\<exists>x \<in> set (pd_allowed p). py_eq v x)) \<and>
     (\<forall>x. as_num v = Some x \<longrightarrow>
        (\<forall>m. pd_minimum p = Some m \<longrightarrow> (if pd_exclusive p then m < fl x else m \<le> fl x)) \<and>
        (\<forall>m. pd_maximum p = Some m \<longrightarrow> fl x \<le> m))"

definition parameters_ok :: "action_definition \<Rightarrow> jobject \<Rightarrow> bool" where
  "parameters_ok d params \<longleftrightarrow>
     (\<forall>p \<in> set (ad_parameters d). pd_required p \<longrightarrow> pd_name p \<in> set (map fst params)) \<and>
     (\<forall>(n, v) \<in> set params. \<exists>p. find_parameter d n = Some p \<and> parameter_ok p v)"

lemma validate_parameter_ok: "validate_parameter v p = ok u \<longleftrightarrow> parameter_ok p v"
proof (cases "as_num v")
  case None
  then show ?thesis
    by (auto simp: validate_parameter_def parameter_ok_def Let_def list_ex_iff)
next
  case (Some x)
  then show ?thesis
    by (auto simp: validate_parameter_def parameter_ok_def Let_def list_ex_iff result_simps not_less not_le
      split: option.splits)
qed

lemma find_parameter_None: "find_parameter d n = None \<longleftrightarrow> n \<notin> set (map pd_name (ad_parameters d))"
  by (auto simp: find_parameter_def find_None_iff)

lemma find_SomeD: "find P xs = Some x \<Longrightarrow> P x \<and> x \<in> set xs"
  by (induction xs) (auto split: if_splits)

lemma find_parameter_Some: "find_parameter d n = Some p \<Longrightarrow> p \<in> set (ad_parameters d) \<and> pd_name p = n"
  unfolding find_parameter_def by (drule find_SomeD) simp

lemma rfold_unit_ok: "rfold (\<lambda>x _. f x) xs () = ok () \<longleftrightarrow> (\<forall>x \<in> set xs. f x = ok ())"
  by (induction xs) (auto simp: result_simps)

lemma sort_Nil_iff: "sort xs = [] \<longleftrightarrow> xs = []"
  by (metis set_empty set_sort)

lemma validate_parameters_ok: "validate_parameters params d = ok () \<longleftrightarrow> parameters_ok d params"
proof -
  have each: "(case find_parameter d n of Some p \<Rightarrow> validate_parameter v p | None \<Rightarrow> ok ()) = ok () \<longleftrightarrow>
      (\<forall>p. find_parameter d n = Some p \<longrightarrow> parameter_ok p v)" for n v
    by (auto simp: validate_parameter_ok split: option.splits)
  have loop: "rfold (\<lambda>(name, v) _. case find_parameter d name of
        Some schema \<Rightarrow> validate_parameter v schema | None \<Rightarrow> ok ()) params () = ok () \<longleftrightarrow>
      (\<forall>(n, v) \<in> set params. \<forall>p. find_parameter d n = Some p \<longrightarrow> parameter_ok p v)"
    using rfold_unit_ok [of "\<lambda>(n, v). case find_parameter d n of
        Some schema \<Rightarrow> validate_parameter v schema | None \<Rightarrow> ok ()" params]
    by (simp add: case_prod_unfold each)
  have known: "filter (\<lambda>n. n \<notin> set (map pd_name (ad_parameters d))) (map fst params) = [] \<longleftrightarrow>
      (\<forall>(n, v) \<in> set params. find_parameter d n \<noteq> None)"
    by (auto simp: filter_empty_conv find_parameter_None)
  have present: "filter (\<lambda>p. pd_required p \<and> pd_name p \<notin> set (map fst params)) (ad_parameters d) = [] \<longleftrightarrow>
      (\<forall>p \<in> set (ad_parameters d). pd_required p \<longrightarrow> pd_name p \<in> set (map fst params))"
    by (auto simp: filter_empty_conv)
  have guards: "(if \<not> A then raise e1 else if \<not> B then raise e2 else r) = ok u \<longleftrightarrow> A \<and> B \<and> r = ok u"
    for A B and e1 e2 :: exn and r u
    by auto
  show ?thesis
    unfolding validate_parameters_def Let_def sort_Nil_iff map_is_Nil_conv known present guards loop
      parameters_ok_def
    by fastforce
qed

end
