(* ===== verification/Samples.thy ===== *)
theory Samples
  imports RuntimeModels
begin

text \<open>
  Concrete values of the domain on which the conditional properties are exercised: a specification that
  asks for a million in cash, with a reserve and a list of actions that need approval; an action, an
  observation and a pending task.
\<close>

definition sample_objective :: objective where
  "sample_objective = \<lparr>obj_version = 1, obj_type = ReachResource, obj_description = ''grow'',
     obj_parameters = [(''resource'', JStr ''cash''), (''target'', JInt 1000000)]\<rparr>"

definition sample_reserve :: constraint where
  "sample_reserve = \<lparr>con_version = 1, con_type = MinimumReserve, con_description = ''keep cash'',
     con_parameters = [(''amount'', JInt 1000)]\<rparr>"

definition sample_authority :: authority_policy where
  "sample_authority = \<lparr>auth_version = 1, maximum_single_spend = None, maximum_total_spend = Some 50000,
     approval_actions = [''take_loan''], forbidden_actions = [''build_power'']\<rparr>"

definition sample_spec :: task_specification where
  "sample_spec = \<lparr>spec_version = 1, spec_adapter = AdReference, spec_objective = sample_objective,
     spec_constraints = [sample_reserve], spec_authority = sample_authority, spec_notifications = [],
     spec_stop_conditions = []\<rparr>"

definition sample_action :: action where
  "sample_action = \<lparr>act_version = 1, act_type = ''advance_time'', act_parameters = [(''ticks'', JInt 1)],
     act_effect = ''time passes'', act_cost = 0\<rparr>"

definition sample_observation :: observation where
  "sample_observation = \<lparr>obs_version = 1, obs_sequence = 1, obs_timestamp = 10, obs_tick = 0,
     obs_summary = ''start'', obs_state = [(''tick'', JInt 0), (''cash'', JInt 500000)]\<rparr>"

definition sample_validation :: adapter_validation where
  "sample_validation = \<lparr>av_valid = True, av_message = ''Action is valid.'', av_cost = 0, av_stale = False\<rparr>"

definition sample_task :: task where
  "sample_task = \<lparr>task_version = 1, task_id = 7, task_status = Pending, task_spec = sample_spec,
     task_seq = 0, task_spend = 0, task_created = 10, task_updated = 10\<rparr>"

end
