(* ===== verification/RuntimeProperties.thy ===== *)
theory RuntimeProperties
  imports Policy Evaluator Verification Lifecycle DecisionValidation Samples
begin

text \<open>
  The properties of the runtime's deterministic components: the policy gate, the progress evaluator, the
  action verifier, the journal of action attempts, the lifecycle and the validator of provider decisions.
\<close>

section \<open>Policy\<close>

text \<open>
  C12. The policy engine is its specification: an action is allowed exactly when the adapter accepts it,
  the total spend stays within the authority's maximum, the authority does not forbid its type, and it
  satisfies every constraint of the task on its own.
\<close>

theorem policy_allows_iff:
  "pol_allowed (policy_evaluate spec a ob spent av) \<longleftrightarrow>
     av_valid av \<and>
     (case maximum_total_spend (spec_authority spec) of
        None \<Rightarrow> True | Some m \<Rightarrow> dadd spent (repr_dec (av_cost av)) \<le> m) \<and>
     act_type a \<notin> set (forbidden_actions (spec_authority spec)) \<and>
     list_all (constraint_ok a (obs_state ob) spent (repr_dec (av_cost av))) (spec_constraints spec)"
  by (simp add: policy_allowed_reasons policy_reasons_iff terms_ok_start split: option.split)

text \<open>
  Constraints only restrict: an action allowed under more constraints, in any order and with any
  repetition, is allowed under fewer.
\<close>

theorem policy_monotone:
  assumes "set (spec_constraints spec) \<subseteq> set (spec_constraints spec')"
    and "spec_authority spec' = spec_authority spec"
    and "pol_allowed (policy_evaluate spec' a ob spent av)"
  shows "pol_allowed (policy_evaluate spec a ob spent av)"
  using assms by (auto simp: policy_allowed_reasons policy_reasons_iff terms_ok_start list_all_iff)

lemma sample_policy_allows: "pol_allowed (policy_evaluate sample_spec sample_action sample_observation 0 sample_validation)"
proof -
  have "dadd 0 (repr_dec 0) = 0" by (simp add: dadd_def)
  moreover have "dsub 500000 (repr_dec 0) = 500000" using dec_of_int [of 500000] by (simp add: dsub_def)
  ultimately show ?thesis
    by (simp add: policy_allowed_reasons policy_reasons_iff
      terms_ok_start sample_spec_def sample_authority_def sample_validation_def sample_action_def
      sample_reserve_def constraint_ok_def sample_observation_def jget_def)
qed

theorem policy_monotone_witness:
  "pol_allowed (policy_evaluate (sample_spec\<lparr>spec_constraints := []\<rparr>) sample_action sample_observation 0
     sample_validation)"
  by (rule policy_monotone [OF _ _ sample_policy_allows]) (simp_all add: sample_spec_def)

section \<open>Evaluator\<close>

text \<open>
  The stop-condition scanner accepts exactly the language of its grammar, a name, a comparator and a
  decimal numeral with white space around each, and returns the parts.
\<close>

theorem scan_condition_iff:
  "scan_condition s = Some (name, cmp, t) \<longleftrightarrow>
     (\<exists>w1 w2 w3 w4. condition_parts w1 name w2 w3 t w4 \<and> s = condition_text w1 name w2 cmp w3 t w4)"
  using scan_condition_sound scan_condition_text by blast

text \<open>
  The evaluator confirms completion exactly by the completed status; a stop condition can only block,
  never complete, and never overrides an objective that is met.
\<close>

theorem evaluation_complete_iff:
  assumes "evaluate_progress spec ob hs = ok v"
  shows "eval_complete v \<longleftrightarrow> eval_status v = EvCompleted"
  using assms by (rule evaluate_progress_status)

lemma numeric_resource_field:
  "numeric_resource sample_observation ''cash'' = Some 500000"
  by code_simp

text \<open>
  A task to reach a resource level is evaluated without error, and is complete exactly when the
  observation shows a number at or above the target, whatever the stop conditions and the history say.
\<close>

theorem reach_resource_complete:
  assumes "obj_type (spec_objective spec) = ReachResource"
  shows "\<exists>v. evaluate_progress spec ob hs = ok v \<and>
    (eval_complete v \<longleftrightarrow>
      (case (as_str (jget (obj_parameters (spec_objective spec)) ''resource''),
             as_num (jget (obj_parameters (spec_objective spec)) ''target'')) of
         (Some r, Some target) \<Rightarrow>
           (case numeric_resource ob r of Some x \<Rightarrow> fl target \<le> x | None \<Rightarrow> False)
       | _ \<Rightarrow> False))"
proof -
  let ?p = "obj_parameters (spec_objective spec)"
  let ?goal = "case (as_str (jget ?p ''resource''), as_num (jget ?p ''target'')) of
      (Some r, Some target) \<Rightarrow> (case numeric_resource ob r of Some x \<Rightarrow> fl target \<le> x | None \<Rightarrow> False)
    | _ \<Rightarrow> False"
  have "\<exists>w. evaluate_resource_objective spec ob = ok w \<and> (eval_complete w \<longleftrightarrow> ?goal)"
  proof (cases "as_str (jget ?p ''resource'')")
    case (Some r)
    note r = this
    show ?thesis
    proof (cases "as_num (jget ?p ''target'')")
      case (Some target)
      then show ?thesis using r assms
        by (cases "numeric_resource ob r") (simp_all add: evaluate_resource_objective_def Let_def)
    qed (simp add: evaluate_resource_objective_def Let_def r assms)
  qed (simp add: evaluate_resource_objective_def Let_def)
  then obtain w where w: "evaluate_resource_objective spec ob = ok w" "eval_complete w \<longleftrightarrow> ?goal" by blast
  have "evaluate_progress spec ob hs = (if eval_complete w then ok w
      else case evaluate_stop_conditions (spec_stop_conditions spec) ob of None \<Rightarrow> ok w | Some stop \<Rightarrow> ok stop)"
    using assms w(1) by (simp add: evaluate_progress_def project_unreadable_def)
  then show ?thesis
    using w(2) stop_conditions_blocked [of "spec_stop_conditions spec" ob]
    by (cases "eval_complete w"; cases "evaluate_stop_conditions (spec_stop_conditions spec) ob") auto
qed

theorem reach_resource_complete_witness:
  "\<exists>v. evaluate_progress sample_spec sample_observation [] = ok v \<and> \<not> eval_complete v"
proof -
  have "obj_type (spec_objective sample_spec) = ReachResource"
    by (simp add: sample_spec_def sample_objective_def)
  from reach_resource_complete [OF this, of sample_observation "[]"] show ?thesis
    by (simp add: sample_spec_def sample_objective_def jget_def numeric_resource_field
      fl_of_int [of 1000000, simplified])
qed

theorem evaluation_complete_iff_witness:
  "\<exists>v. evaluate_progress sample_spec sample_observation [] = ok v \<and> eval_status v \<noteq> EvCompleted"
proof -
  have obj: "evaluate_resource_objective sample_spec sample_observation = ok (eval_result False
      (''cash'' @ ''='' @ float_g 500000 @ ''; target='' @ float_g 1000000 @ ''.''))"
    by (simp add: evaluate_resource_objective_def sample_spec_def sample_objective_def jget_def
      numeric_resource_field fl_of_int [of 1000000, simplified])
  have "\<exists>v. evaluate_progress sample_spec sample_observation [] = ok v \<and> \<not> eval_complete v"
    using obj by (simp add: evaluate_progress_def project_unreadable_def sample_spec_def sample_objective_def)
  then show ?thesis using evaluation_complete_iff by blast
qed

section \<open>Verifier\<close>

text \<open>
  The effect that each action has to show, one rule per kind of action. Values are those of the observations'
  states; a numeric value is an integer, a float or, as in Python, a boolean.
\<close>

definition number_at :: "observation \<Rightarrow> string \<Rightarrow> rat \<Rightarrow> bool" where
  "number_at ob key x \<longleftrightarrow> as_num_or_bool (jget (obs_state ob) key) = Some x"

text \<open>A resource is looked up among the resources, if the state has an object of them, and else in the state.\<close>

definition shows_resource :: "observation \<Rightarrow> string \<Rightarrow> string \<Rightarrow> bool" where
  "shows_resource ob name text \<longleftrightarrow>
     (\<exists>d. jget (obs_state ob) ''resources'' = JObj d \<and> jget d name = JStr text) \<or>
     ((\<forall>d. jget (obs_state ob) ''resources'' \<noteq> JObj d) \<and> jget (obs_state ob) name = JStr text)"

inductive effect_seen :: "observation \<Rightarrow> action \<Rightarrow> observation \<Rightarrow> bool" where
  time_passes: "act_type a = ''advance_time'' \<Longrightarrow> obs_tick before < obs_tick after \<Longrightarrow> effect_seen before a after"
| project_begins: "act_type a = ''build_housing'' \<or> act_type a = ''build_power'' \<Longrightarrow>
    jget (obs_state before) ''active_projects'' = JList old \<Longrightarrow>
    jget (obs_state after) ''active_projects'' = JList new \<Longrightarrow> length new = Suc (length old) \<Longrightarrow>
    effect_seen before a after"
| infrastructure_rises: "act_type a = ''repair'' \<Longrightarrow> number_at before ''infrastructure'' x \<Longrightarrow>
    number_at after ''infrastructure'' y \<Longrightarrow> x < y \<Longrightarrow> effect_seen before a after"
| maintenance_set: "act_type a = ''set_maintenance'' \<Longrightarrow>
    \<not> py_eq (jget (obs_state before) ''maintenance_level'') (jget (obs_state after) ''maintenance_level'') \<Longrightarrow>
    effect_seen before a after"
| debt_rises: "act_type a = ''take_loan'' \<Longrightarrow> number_at before ''debt'' x \<Longrightarrow> number_at after ''debt'' y \<Longrightarrow>
    x < y \<Longrightarrow> effect_seen before a after"
| debt_falls: "act_type a = ''repay_loan'' \<Longrightarrow> number_at before ''debt'' x \<Longrightarrow> number_at after ''debt'' y \<Longrightarrow>
    y < x \<Longrightarrow> effect_seen before a after"
| pauses: "act_type a = ''pause'' \<Longrightarrow> jget (obs_state after) ''paused'' = JBool True \<Longrightarrow> effect_seen before a after"
| resumes: "act_type a = ''resume'' \<Longrightarrow> jget (obs_state before) ''paused'' = JBool True \<Longrightarrow>
    jget (obs_state after) ''paused'' = JBool False \<Longrightarrow> effect_seen before a after"
| server_renamed: "act_type a = ''set_server_name'' \<Longrightarrow> jget (act_parameters a) ''name'' = JStr text \<Longrightarrow>
    \<not> shows_resource before ''server_name'' text \<Longrightarrow> shows_resource after ''server_name'' text \<Longrightarrow>
    effect_seen before a after"
| company_renamed: "act_type a = ''set_company_name'' \<Longrightarrow> jget (act_parameters a) ''name'' = JStr text \<Longrightarrow>
    \<not> shows_resource before ''company_name'' text \<Longrightarrow> shows_resource after ''company_name'' text \<Longrightarrow>
    effect_seen before a after"

lemma shows_resource_iff: "shows_resource ob name text \<longleftrightarrow> py_eq (named_resource ob name) (JStr text)"
proof -
  have "py_eq v (JStr text) \<longleftrightarrow> v = JStr text" for v
    by (cases v) (auto simp: py_eq_def)
  then show ?thesis by (auto simp: shows_resource_def named_resource_def split: json.splits)
qed

lemma number_rises: "numeric_increased before after key \<longleftrightarrow> (\<exists>x y. number_at before key x \<and> number_at after key y \<and> x < y)"
  by (auto simp: numeric_increased_def number_at_def split: option.splits)

lemma number_falls: "numeric_decreased before after key \<longleftrightarrow> (\<exists>x y. number_at before key x \<and> number_at after key y \<and> y < x)"
  by (auto simp: numeric_decreased_def number_at_def split: option.splits)

lemma project_added_iff: "project_added before after \<longleftrightarrow> (\<exists>old new.
    jget (obs_state before) ''active_projects'' = JList old \<and>
    jget (obs_state after) ''active_projects'' = JList new \<and> length new = Suc (length old))"
  by (auto simp: project_added_def split: json.splits)

lemma renamed_iff: "renamed before a after resource \<longleftrightarrow> (\<exists>text. jget (act_parameters a) ''name'' = JStr text \<and>
    \<not> shows_resource before resource text \<and> shows_resource after resource text)"
  by (auto simp: renamed_def shows_resource_iff split: json.splits)

lemma observed_effect_iff: "observed_effect before a after \<longleftrightarrow> effect_seen before a after"
  unfolding effect_seen.simps observed_effect_def Let_def number_rises number_falls project_added_iff renamed_iff
    changed_def
  by auto

text \<open>
  C37. The verifier is its specification. A result is verified exactly when it reports a change if and only if it
  reports success, the state or the tick of the two observations differ if and only if it reports success, its cost
  is the validated one up to a millionth, and, when it reports success, the effect of its kind of action is seen:
  a later tick, one more active project, a higher infrastructure, another maintenance level, a higher or a lower
  debt, a paused or a resumed game, or the requested name where another one was. No other action is ever verified
  as a success.
\<close>

theorem verify_characterised:
  "ver_verified (verify before action result after cost) \<longleftrightarrow>
     (res_changed result \<longleftrightarrow> res_success result) \<and>
     (\<not> py_eq (JObj (obs_state before)) (JObj (obs_state after)) \<or> obs_tick before \<noteq> obs_tick after
        \<longleftrightarrow> res_success result) \<and>
     \<bar>fsub (res_cost result) cost\<bar> \<le> fl (1 / 1000000) \<and>
     (res_success result \<longrightarrow> effect_seen before action after)"
  unfolding verify_iff state_differs_def observed_effect_iff by blast

definition debt_observation :: "int \<Rightarrow> int \<Rightarrow> observation" where
  "debt_observation n debt = \<lparr>obs_version = 1, obs_sequence = n, obs_timestamp = 10, obs_tick = 0,
     obs_summary = ''debt'', obs_state = [(''debt'', JInt debt)]\<rparr>"

definition loan_result :: execution_result where
  "loan_result = \<lparr>res_version = 1, res_success = True, res_changed = True, res_cost = 0,
     res_message = ''done''\<rparr>"

theorem verify_characterised_witness:
  "ver_verified (verify (debt_observation 1 5) (sample_action\<lparr>act_type := ''repay_loan''\<rparr>) loan_result
     (debt_observation 2 3) 0) \<and>
   \<not> ver_verified (verify (debt_observation 1 5) (sample_action\<lparr>act_type := ''take_loan''\<rparr>) loan_result
     (debt_observation 2 3) 0)"
proof -
  let ?b = "debt_observation 1 5" and ?a = "debt_observation 2 3"
  have read: "number_at ?b ''debt'' x \<longleftrightarrow> x = 5" "number_at ?a ''debt'' y \<longleftrightarrow> y = 3" for x y
    by (auto simp: number_at_def debt_observation_def jget_def fl_of_int [of 5, simplified] fl_of_int [of 3, simplified])
  have falls: "effect_seen ?b (sample_action\<lparr>act_type := ''repay_loan''\<rparr>) ?a"
    by (rule debt_falls [where x = 5 and y = 3]) (simp_all add: read)
  have rises: "\<not> effect_seen ?b (sample_action\<lparr>act_type := ''take_loan''\<rparr>) ?a"
    by (simp add: effect_seen.simps read)
  have differ: "\<not> py_eq (JObj (obs_state ?b)) (JObj (obs_state ?a))"
    by (simp add: py_eq_def debt_observation_def)
  have cost: "\<bar>fsub (res_cost loan_result) 0\<bar> \<le> fl (1 / 1000000)"
    by code_simp
  have result: "res_success loan_result" "res_changed loan_result" by (simp_all add: loan_result_def)
  show ?thesis
    unfolding verify_characterised using falls rises differ cost result by simp
qed

section \<open>Provider decisions\<close>

text \<open>
  The parameter validator is its specification: it accepts exactly the parameters that name every
  required parameter and no unknown one, each with a value of the declared type, range and set.
\<close>

theorem parameters_accepted_iff:
  "validate_parameters params d = ok () \<longleftrightarrow> parameters_ok d params"
  by (rule validate_parameters_ok)

text \<open>
  What the history says about rejections and denials, told from the events alone: a rejection names the action's
  type or, without one, its reason; a denial counts for the type that the latest request of its approval named.
\<close>

definition rejection_of :: "event \<Rightarrow> string option" where
  "rejection_of e =
     (if ev_type e \<noteq> ActionRejected then None
      else case as_str (jget (ev_payload e) ''action_type'') of
        Some t \<Rightarrow> Some t | None \<Rightarrow> as_str (jget (ev_payload e) ''reason''))"

definition request_of :: "event \<Rightarrow> (string \<times> string) option" where
  "request_of e =
     (if ev_type e \<noteq> ApprovalRequested then None
      else case (as_str (jget (ev_payload e) ''approval_id''), as_str (jget (ev_payload e) ''action_type'')) of
        (Some i, Some t) \<Rightarrow> Some (i, t) | _ \<Rightarrow> None)"

definition requested_type :: "event list \<Rightarrow> string \<Rightarrow> string option" where
  "requested_type events = map_of (rev (List.map_filter request_of events))"

definition denial_at :: "event list \<Rightarrow> nat \<Rightarrow> string option" where
  "denial_at events n =
     (if ev_type (events ! n) \<noteq> ApprovalDenied then None
      else Option.bind (as_str (jget (ev_payload (events ! n)) ''approval_id'')) (requested_type (take n events)))"

definition rejections :: "event list \<Rightarrow> string list" where
  "rejections events = List.map_filter rejection_of events"

definition denials :: "event list \<Rightarrow> string list" where
  "denials events = List.map_filter (denial_at events) [0..<length events]"

definition last_five :: "'a list \<Rightarrow> 'a list" where
  "last_five xs = rev (take 5 (rev xs))"

lemma map_filter_snoc:
  "List.map_filter f (xs @ [x]) = List.map_filter f xs @ (case f x of None \<Rightarrow> [] | Some y \<Rightarrow> [y])"
  by (simp add: List.map_filter_def split: option.split)

lemma map_filter_cong: "(\<And>x. x \<in> set xs \<Longrightarrow> f x = g x) \<Longrightarrow> List.map_filter f xs = List.map_filter g xs"
  by (induction xs) (simp_all split: option.split)

lemma denials_snoc:
  "denials (events @ [e]) = denials events @ (case denial_at (events @ [e]) (length events) of None \<Rightarrow> [] | Some t \<Rightarrow> [t])"
proof -
  have "List.map_filter (denial_at (events @ [e])) [0..<length events] = List.map_filter (denial_at events) [0..<length events]"
    by (rule map_filter_cong) (simp add: denial_at_def nth_append)
  then show ?thesis by (simp add: denials_def map_filter_snoc)
qed

text \<open>The scan of the projection collects exactly these lists.\<close>

lemma scan_collects:
  assumes "start = \<lparr>rs_rejected = [], rs_denied = [], rs_failed = [], rs_approvals = []\<rparr>"
  shows "rs_rejected (fold scan_restriction events start) = rejections events \<and>
    rs_denied (fold scan_restriction events start) = denials events \<and>
    map_of (rs_approvals (fold scan_restriction events start)) = requested_type events"
proof (induction events rule: rev_induct)
  case Nil
  then show ?case
    by (auto simp: assms rejections_def denials_def requested_type_def List.map_filter_def)
next
  case (snoc e events)
  then show ?case
    by (auto simp: scan_restriction_def Let_def rejections_def denials_snoc map_filter_snoc rejection_of_def
      denial_at_def requested_type_def request_of_def nth_append update_conv' split: option.split)
qed

lemma scan_relevant: "fold scan_restriction (filter is_relevant events) r = fold scan_restriction events r"
  by (induction events arbitrary: r) (auto simp: is_relevant_def scan_restriction_def Let_def)

lemma last_five_slice: "slice_last 5 xs = last_five xs"
  by (simp add: slice_last_def last_five_def rev_take)

lemma project_restrictions_lists:
  "re_rejected (project_restrictions t (filter is_relevant events)) = last_five (rejections events)"
  "re_denied (project_restrictions t (filter is_relevant events)) = last_five (denials events)"
  using scan_collects [OF refl, of events]
  by (simp_all add: project_restrictions_def Let_def scan_relevant last_five_slice)

text \<open>
  C39. From the projection of a context to an accepted decision. If a provider's decision passes the validation
  against the context projected from a task's events, the adapter's actions and the evaluation, then a claim of
  completion agrees with the evaluation, a blocked decision gives a reason, and an action of it is one that the
  adapter advertises, with parameters of the advertised schema and a valid fingerprint, whose type is neither among
  the last five rejections nor among the last five denials of the history. Older ones are not looked at.
\<close>

theorem provider_decision_sound:
  assumes "project_context max_events limit t ob actions events sg progress = ok c"
    and "validate_provider_decision sha d c = ok fp"
  shows "(dec_type d = DComplete \<longrightarrow> eval_complete progress) \<and>
    (dec_type d = DBlocked \<longrightarrow> strip (dec_reason d) \<noteq> []) \<and>
    (case dec_action d of
       None \<Rightarrow> fp = ''no-action''
     | Some a \<Rightarrow> (\<exists>x \<in> set actions. ad_type x = act_type a \<and> parameters_ok x (act_parameters a)) \<and>
         act_type a \<notin> set (last_five (rejections events)) \<and> act_type a \<notin> set (last_five (denials events)) \<and>
         fp = action_fingerprint sha a \<and> is_fingerprint fp)"
proof -
  define summaries where "summaries = map summarize (slice_last max_events (filter is_relevant events))"
  define c0 where "c0 = build_context t ob (previous_observation (rev events) (obs_sequence ob)) actions summaries
    sg progress (project_restrictions t (filter is_relevant events)) (previous_execution (rev events) None None)"
  have "dc_events c0 = summaries" by (simp add: c0_def build_context_def Let_def)
  from shrink_context_rest [OF this, of limit] obtain n where
    n: "shrink_context limit summaries c0 = c0\<lparr>dc_events := drop n summaries\<rparr>" by blast
  have "shrink_context limit summaries c0 = c"
    using assms(1) by (auto simp: project_context_def Let_def summaries_def c0_def split: if_split_asm)
  with n have c: "c = c0\<lparr>dc_events := drop n summaries\<rparr>" by simp
  have context_parts: "dc_progress c = progress" "dc_actions c = actions"
      "re_rejected (dc_restrictions c) = last_five (rejections events)"
      "re_denied (dc_restrictions c) = last_five (denials events)"
    by (simp_all add: c c0_def build_context_def Let_def project_restrictions_lists)
  show ?thesis
  proof (cases "dec_action d")
    case None
    then show ?thesis using assms(2) context_parts by (auto simp: validate_provider_decision_def split: if_split_asm)
  next
    case (Some a)
    note some = Some
    show ?thesis
    proof (cases "find (\<lambda>x. ad_type x = act_type a) (rev (dc_actions c))")
      case None
      then show ?thesis using assms(2) some by (auto simp: validate_provider_decision_def split: if_split_asm)
    next
      case (Some x)
      then have "ad_type x = act_type a" "x \<in> set actions" by (auto dest: find_SomeD simp: context_parts)
      then show ?thesis
        using assms(2) some Some context_parts
        by (auto simp: validate_provider_decision_def Let_def result_simps validate_parameters_ok
          split: if_split_asm)
    qed
  qed
qed

definition sample_evaluation :: evaluation where
  "sample_evaluation = eval_result False ''cash=500000; target=1000000.''"

definition sample_context :: decision_context where
  "sample_context = build_context sample_task sample_observation None [] [] initial_safeguards sample_evaluation
     (project_restrictions sample_task []) None"

definition advance_definition :: action_definition where
  "advance_definition = \<lparr>ad_type = ''advance_time'', ad_parameters =
     [\<lparr>pd_name = ''ticks'', pd_type = PInteger, pd_required = True, pd_minimum = Some 1, pd_maximum = None,
       pd_exclusive = False, pd_allowed = []\<rparr>], ad_description = ''pass time''\<rparr>"

definition rejected_loan :: event where
  "rejected_loan = \<lparr>ev_task = 7, ev_sequence = 3, ev_type = ActionRejected, ev_time = 11,
     ev_payload = [(''reason'', JStr ''reserve''), (''action_type'', JStr ''take_loan'')]\<rparr>"

definition choice :: "action \<Rightarrow> decision" where
  "choice a = \<lparr>dec_version = 1, dec_type = DExecute, dec_reason = ''go on'', dec_action = Some a\<rparr>"

definition history_context :: decision_context where
  "history_context = build_context sample_task sample_observation None [advance_definition] [summarize rejected_loan]
     initial_safeguards sample_evaluation (project_restrictions sample_task [rejected_loan]) None"

lemma history_context_length: "int (length (canonical_json history_context)) \<le> 6000"
  by code_simp

theorem provider_decision_sound_witness:
  "\<exists>c fp. project_context 20 6000 sample_task sample_observation [advance_definition] [rejected_loan]
       initial_safeguards sample_evaluation = ok c \<and>
     validate_provider_decision (\<lambda>_. replicate 64 CHR ''0'') (choice sample_action) c = ok fp \<and>
     act_type sample_action \<notin> set (last_five (rejections [rejected_loan])) \<and>
     rejections [rejected_loan] = [''take_loan''] \<and> length fp = 64"
proof -
  have "project_context 20 6000 sample_task sample_observation [advance_definition] [rejected_loan]
      initial_safeguards sample_evaluation = ok history_context"
    using history_context_length
    by (simp add: project_context_def Let_def slice_last_def history_context_def is_relevant_def rejected_loan_def)
  moreover have "validate_provider_decision (\<lambda>_. replicate 64 CHR ''0'') (choice sample_action) history_context =
      ok (replicate 64 CHR ''0'')"
    by code_simp
  ultimately show ?thesis
    using provider_decision_sound [of 20 6000 sample_task sample_observation "[advance_definition]" "[rejected_loan]"
      initial_safeguards sample_evaluation history_context "\<lambda>_. replicate 64 CHR ''0''" "choice sample_action"]
    by (auto simp: choice_def is_fingerprint_def rejections_def rejection_of_def rejected_loan_def
      List.map_filter_def jget_def)
qed

section \<open>Decision context\<close>

text \<open>
  C38. A projected context fits the configured limit, its events are the newest of the relevant ones, and
  no more of them were dropped than the limit asks for: one older event and the text would be too long.
\<close>

theorem projected_context_fits:
  assumes "project_context max_events limit t ob actions events sg progress = ok c"
  shows "int (length (canonical_json c)) \<le> limit \<and>
    (\<exists>older. map summarize (slice_last max_events (filter is_relevant events)) = older @ dc_events c \<and>
      (older = [] \<or> limit < int (length (canonical_json (c\<lparr>dc_events := last older # dc_events c\<rparr>)))))"
proof -
  define summaries where "summaries = map summarize (slice_last max_events (filter is_relevant events))"
  define c0 where "c0 = build_context t ob (previous_observation (rev events) (obs_sequence ob)) actions summaries
    sg progress (project_restrictions t (filter is_relevant events)) (previous_execution (rev events) None None)"
  have events0: "dc_events c0 = summaries" by (simp add: c0_def build_context_def Let_def)
  have c: "shrink_context limit summaries c0 = c"
    using assms by (auto simp: project_context_def Let_def summaries_def c0_def split: if_split_asm)
  obtain n where n: "c = c0\<lparr>dc_events := drop n summaries\<rparr>"
    using shrink_context_rest [OF events0, of limit] c by auto
  have "limit < int (length (canonical_json (c0\<lparr>dc_events := last (take n summaries) # drop n summaries\<rparr>)))"
    if "take n summaries \<noteq> []"
    using shrink_context_least [of c0 "take n summaries" "drop n summaries" limit] that events0 c n by simp
  then have "summaries = take n summaries @ dc_events c \<and>
      (take n summaries = [] \<or>
       limit < int (length (canonical_json (c\<lparr>dc_events := last (take n summaries) # dc_events c\<rparr>))))"
    unfolding n by auto
  with project_context_ok [OF assms] show ?thesis unfolding summaries_def by blast
qed

lemma sample_context_length: "int (length (canonical_json sample_context)) \<le> 6000"
  by code_simp

theorem projected_context_fits_witness:
  "\<exists>c. project_context 20 6000 sample_task sample_observation [] [] initial_safeguards sample_evaluation = ok c \<and>
     int (length (canonical_json c)) \<le> 6000"
proof -
  have "project_context 20 6000 sample_task sample_observation [] [] initial_safeguards sample_evaluation =
      ok sample_context"
    using sample_context_length by (simp add: project_context_def Let_def slice_last_def sample_context_def)
  from this projected_context_fits [OF this] show ?thesis by blast
qed

text \<open>
  An event limit of zero, which the configuration admits, does not leave the events out: it keeps all
  of them, because a slice from minus zero is the whole list.
\<close>

theorem zero_event_limit_keeps_all:
  "project_context 0 limit t ob actions events sg progress =
     project_context (int (length events) + 1) limit t ob actions events sg progress"
proof -
  have "length (filter is_relevant events) \<le> length events" by (rule length_filter_le)
  then have none: "length (filter is_relevant events) - nat (int (length events) + 1) = 0" by linarith
  have "slice_last (int (length events) + 1) (filter is_relevant events) = filter is_relevant events"
    unfolding slice_last_def none by simp
  moreover have "slice_last 0 (filter is_relevant events) = filter is_relevant events"
    by (simp add: slice_last_def)
  ultimately show ?thesis by (simp add: project_context_def)
qed

section \<open>Journal of action attempts\<close>

text \<open>
  The journal only moves forward: however a journal that replays is continued, every attempt is still
  there under its identifier with the same action, its status has not changed or has moved along the
  transitions, and an attempt that was final is unchanged.
\<close>

theorem attempt_journal_monotone:
  assumes "rfold attempt_event es [] = ok as" and "rfold attempt_event (es @ fs) [] = ok bs"
    and "map_of as k = Some a"
  shows "distinct (map fst bs) \<and> (\<exists>b. map_of bs k = Some b \<and> at_id b = k \<and> at_action b = at_action a \<and>
    (b = a \<or> \<not> attempt_final (at_status a) \<and> attempt_step\<^sup>+\<^sup>+ (at_status a) (at_status b)))"
proof -
  have "rfold attempt_event fs as = ok bs" using assms(1,2) by (simp add: rfold_append)
  from attempt_replay_keeps [OF this assms(3)] obtain b where
    b: "map_of bs k = Some b" "at_action b = at_action a" "b = a \<or> attempt_step\<^sup>+\<^sup>+ (at_status a) (at_status b)"
    by blast
  have "attempts_ok bs" using attempt_replay_start [OF assms(2)] .
  then have "distinct (map fst bs)" "at_id b = k"
    using dict_get_mem [OF b(1)] by (auto simp: attempts_ok_def)
  then show ?thesis using b attempts_final_stays by blast
qed

definition sample_prepared :: event where
  "sample_prepared = \<lparr>ev_task = 7, ev_sequence = 3, ev_type = ActionPrepared, ev_time = 11,
     ev_payload = [(''action_id'', JStr (uuid_text 9)), (''action'', JObj (dump_action sample_action)),
       (''estimated_cost'', JFloat 0), (''action_fingerprint'', JStr ''f''),
       (''prior_checkpoint_id'', JNull), (''prior_observation_fingerprint'', JStr ''g''),
       (''expected_effect'', JStr ''time passes'')]\<rparr>"

definition sample_started :: event where
  "sample_started = \<lparr>ev_task = 7, ev_sequence = 4, ev_type = ActionExecutionStarted, ev_time = 12,
     ev_payload = [(''action_id'', JStr (uuid_text 9))]\<rparr>"

theorem attempt_journal_monotone_witness:
  "\<exists>as bs a. rfold attempt_event [sample_prepared] [] = ok as \<and>
     rfold attempt_event [sample_prepared, sample_started] [] = ok bs \<and> map_of as 9 = Some a \<and>
     (\<exists>b. map_of bs 9 = Some b \<and> at_action b = at_action a)"
proof -
  have action: "valid_action sample_action"
    by (simp add: valid_action_def sample_action_def stripped_def strip_def is_space_def)
  have prepared: "\<exists>a. prepare_attempt sample_prepared 9 = Some a \<and> at_status a = AtPrepared"
    using action by (simp add: prepare_attempt_def sample_prepared_def load_object_def nullable_def jget_def)
  then obtain a where a: "prepare_attempt sample_prepared 9 = Some a" "at_status a = AtPrepared" by blast
  have first: "rfold attempt_event [sample_prepared] [] = ok [(9, a)]"
    using a by (simp add: attempt_event_def sample_prepared_def jget_def)
  have "\<exists>b. attempt_event sample_started [(9, a)] = ok b"
    using a by (simp add: attempt_event_def sample_started_def jget_def advance_attempt_def parse_classification_def)
  then obtain bs where "attempt_event sample_started [(9, a)] = ok bs" by blast
  then have "rfold attempt_event ([sample_prepared] @ [sample_started]) [] = ok bs"
    unfolding rfold_append first by simp
  with attempt_journal_monotone [OF first this, of 9 a] first show ?thesis by auto
qed

section \<open>Lifecycle\<close>

text \<open>
  A status change through the runtime's helper is one step of the lifecycle, changes nothing else of
  the task, never leads back to pending and never leaves a terminal status.
\<close>

theorem with_status_steps:
  assumes "with_status t st = ok t'"
  shows "lifecycle_step (task_status t) (task_status t') \<and> t' = t\<lparr>task_status := st\<rparr> \<and>
    st \<noteq> Pending \<and> \<not> is_terminal (task_status t)"
proof -
  have st: "st \<in> set (transitions (task_status t))" and t': "t' = t\<lparr>task_status := st\<rparr>"
    using assms by (simp_all add: with_status_ok_iff)
  then have "lifecycle_step (task_status t) st" by (simp add: lifecycle_step_iff)
  then show ?thesis using t' never_back_to_pending terminal_no_step by fastforce
qed

theorem with_status_steps_witness:
  "\<exists>t'. with_status sample_task Running = ok t' \<and> lifecycle_step Pending (task_status t')"
proof -
  have "with_status sample_task Running = ok (sample_task\<lparr>task_status := Running\<rparr>)"
    by (simp add: with_status_ok_iff sample_task_def)
  from this with_status_steps [OF this] show ?thesis by (simp add: sample_task_def)
qed

text \<open>
  The failure handler of an adapter that cannot be initialised does not follow the lifecycle: it fails a
  task that waits for approval, which is no step of the table.
\<close>

theorem force_failed_leaves_table:
  assumes "task_status t = WaitingForApproval"
  shows "force_failed t = ok (t\<lparr>task_status := Failed\<rparr>) \<and> \<not> lifecycle_step (task_status t) Failed \<and>
    \<not> is_ok (with_status t Failed)"
  using assms by (simp add: lifecycle_step_iff with_status_def transition_def)

theorem force_failed_leaves_table_witness:
  "\<not> is_ok (with_status (sample_task\<lparr>task_status := WaitingForApproval\<rparr>) Failed)"
  using force_failed_leaves_table [of "sample_task\<lparr>task_status := WaitingForApproval\<rparr>"] by simp

end
