(* ===== verification/RefSim.thy ===== *)
theory RefSim
  imports Domain
begin

text \<open>
  The reference simulation, \<open>sim_pilot/reference_simulation\<close>: state, projects, economy, the one-tick
  transition, action validation and execution. Amounts of money and infrastructure are Python floats
  (rounded rational numbers, \<open>round(x, 6)\<close> after every transition); the defaults of the initial state are
  written as integers in the source and stay integers until the first transition, which the type
  \<open>pynum\<close> keeps. \<open>valid_sim\<close> is what the state model validates.
\<close>

section \<open>State\<close>

datatype pynum = PInt int | PFloat rat

fun pval :: "pynum \<Rightarrow> rat" where
  "pval (PInt i) = of_int i"
| "pval (PFloat r) = r"

text \<open>The float that arithmetic with a float makes of it.\<close>

fun pfl :: "pynum \<Rightarrow> rat" where
  "pfl (PInt i) = fl (of_int i)"
| "pfl (PFloat r) = r"

fun pnum_json :: "pynum \<Rightarrow> json" where
  "pnum_json (PInt i) = JInt i"
| "pnum_json (PFloat r) = JFloat r"

datatype project_type = Housing | Power

fun project_type_value :: "project_type \<Rightarrow> string" where
  "project_type_value Housing = ''housing''"
| "project_type_value Power = ''power''"

record project =
  pj_id :: uuid
  pj_type :: project_type
  pj_amount :: int
  pj_progress :: int
  pj_duration :: int
  pj_remaining :: int
  pj_cost :: rat

record sim_state =
  s_tick :: int
  s_cash :: pynum
  s_debt :: pynum
  s_population :: int
  s_housing :: int
  s_power :: int
  s_usage :: int
  s_infra :: rat
  s_maintenance :: rat
  s_income :: pynum
  s_expense :: pynum
  s_paused :: bool
  s_failed :: bool
  s_projects :: "project list"

datatype sim_event_type =
    TickAdvanced | ProjectStarted | ProjectProgressed | ProjectCompleted | InfrastructureChanged
  | PopulationChanged | CashChanged | DebtChanged | MaintenanceChanged | SimulationPaused
  | SimulationResumed | SimulationFailed

record sim_event =
  sev_sequence :: int
  sev_tick :: int
  sev_type :: sim_event_type
  sev_details :: jobject

datatype failure_code = NegativeCash | InfrastructureDepleted | DebtLimitExceeded

fun failure_code_value :: "failure_code \<Rightarrow> string" where
  "failure_code_value NegativeCash = ''negative_cash''"
| "failure_code_value InfrastructureDepleted = ''infrastructure_depleted''"
| "failure_code_value DebtLimitExceeded = ''debt_limit_exceeded''"

fun failure_message :: "failure_code \<Rightarrow> string" where
  "failure_message NegativeCash = ''Cash fell below zero.''"
| "failure_message InfrastructureDepleted = ''Infrastructure reached zero.''"
| "failure_message DebtLimitExceeded = ''Debt exceeded the maximum of 2000000.''"

definition initial_state :: sim_state where
  "initial_state = \<lparr>s_tick = 0, s_cash = PInt 500000, s_debt = PInt 0, s_population = 500,
     s_housing = 600, s_power = 700, s_usage = 500, s_infra = 90, s_maintenance = 1 / 2,
     s_income = PInt 0, s_expense = PInt 0, s_paused = False, s_failed = False, s_projects = []\<rparr>"

definition maintenance_levels :: "rat list" where
  "maintenance_levels = [0, 1 / 2, 1]"

text \<open>\<open>Project.validate_progress\<close> and the fields' bounds\<close>

definition valid_project :: "project \<Rightarrow> bool" where
  "valid_project p \<longleftrightarrow> 0 < pj_amount p \<and> 0 \<le> pj_progress p \<and> 0 < pj_duration p \<and> 0 \<le> pj_remaining p \<and>
     is_float (pj_cost p) \<and> 0 < pj_cost p \<and> \<not> pj_progress p > pj_duration p \<and>
     pj_progress p + pj_remaining p = pj_duration p"

fun float_ok :: "pynum \<Rightarrow> bool" where
  "float_ok (PInt i) = True"
| "float_ok (PFloat r) = is_float r"

definition valid_sim :: "sim_state \<Rightarrow> bool" where
  "valid_sim s \<longleftrightarrow> 0 \<le> s_tick s \<and> float_ok (s_cash s) \<and> float_ok (s_debt s) \<and> 0 \<le> pval (s_debt s) \<and>
     0 \<le> s_population s \<and> 0 \<le> s_housing s \<and> 0 \<le> s_power s \<and> 0 \<le> s_usage s \<and>
     is_float (s_infra s) \<and> 0 \<le> s_infra s \<and> s_infra s \<le> 100 \<and>
     s_maintenance s \<in> set maintenance_levels \<and>
     float_ok (s_income s) \<and> 0 \<le> pval (s_income s) \<and> float_ok (s_expense s) \<and> 0 \<le> pval (s_expense s) \<and>
     \<not> (s_failed s \<and> \<not> s_paused s) \<and> s_usage s = s_population s \<and> \<not> length (s_projects s) > 5 \<and>
     list_all valid_project (s_projects s)"

section \<open>Economy and projects\<close>

definition progress_project :: "project \<Rightarrow> project" where
  "progress_project p = (let remaining = max (pj_remaining p - 1) 0 in
     p\<lparr>pj_progress := pj_duration p - remaining, pj_remaining := remaining\<rparr>)"

definition calculate_population_growth :: "sim_state \<Rightarrow> int" where
  "calculate_population_growth s =
     (if s_paused s \<or> s_failed s \<or> s_infra s < 40 \<or> s_power s < s_usage s \<or> s_housing s \<le> s_population s
      then 0
      else (let base_growth = \<lfloor>fmul (fl (of_int (s_population s))) (fl (1 / 100))\<rfloor>;
                available_housing = s_housing s - s_population s;
                available_power = max (s_power s - s_usage s) 0 in
            min base_growth (min available_housing available_power)))"

definition calculate_income :: "sim_state \<Rightarrow> rat" where
  "calculate_income s =
     (let base_income = fmul (fl (of_int (s_population s))) 20;
          infrastructure_multiplier = fdiv (s_infra s) 100;
          power_multiplier = (if s_power s \<ge> s_usage s then 1 else 1 / 2) in
      py_round6 (fmul (fmul base_income infrastructure_multiplier) power_multiplier))"

text \<open>\<open>MAINTENANCE_RULES\<close>; other levels are a \<open>KeyError\<close> in the code and do not occur in a valid state.\<close>

definition maintenance_cost :: "rat \<Rightarrow> rat" where
  "maintenance_cost level = (if level = 0 then 0 else if level = 1 / 2 then 2500 else 5000)"

definition infrastructure_degradation :: "rat \<Rightarrow> rat" where
  "infrastructure_degradation level = (if level = 0 then 2 else if level = 1 / 2 then 1 else 1 / 4)"

definition debt_expense :: "pynum \<Rightarrow> rat" where
  "debt_expense debt = py_round6 (fmul (pfl debt) (fl (1 / 1000)))"

section \<open>One tick\<close>

definition failure_for_state :: "sim_state \<Rightarrow> failure_code option" where
  "failure_for_state s =
     (if pval (s_cash s) < 0 then Some NegativeCash
      else if s_infra s \<le> 0 then Some InfrastructureDepleted
      else if pval (s_debt s) > 2000000 then Some DebtLimitExceeded
      else None)"

record tick_result =
  tk_state :: sim_state
  tk_events :: "sim_event list"
  tk_failure :: "failure_code option"

text \<open>\<open>emit\<close>: the events are numbered after the sequence that is passed in.\<close>

definition number_sim_events ::
  "int \<Rightarrow> int \<Rightarrow> (sim_event_type \<times> jobject) list \<Rightarrow> sim_event list" where
  "number_sim_events start tick ds =
     map (\<lambda>(i, (t, d)). \<lparr>sev_sequence = start + i, sev_tick = tick, sev_type = t, sev_details = d\<rparr>)
       (zip [1..int (length ds)] ds)"

text \<open>The loop over the active projects: what remains active, housing, power, and the events.\<close>

record project_loop =
  pl_active :: "project list"
  pl_housing :: int
  pl_power :: int
  pl_events :: "(sim_event_type \<times> jobject) list"

definition step_project :: "project \<Rightarrow> project_loop \<Rightarrow> project_loop" where
  "step_project p l =
     (let q = progress_project p; id_detail = (''project_id'', JStr (uuid_text (pj_id p)));
          progressed = (ProjectProgressed, [id_detail, (''remaining_ticks'', JInt (pj_remaining q))]) in
      if pj_remaining q = 0
      then l\<lparr>pl_housing := (if pj_type q = Housing then pl_housing l + pj_amount q else pl_housing l),
             pl_power := (if pj_type q = Housing then pl_power l else pl_power l + pj_amount q),
             pl_events := pl_events l @ [progressed, (ProjectCompleted,
               [id_detail, (''project_type'', JStr (project_type_value (pj_type q))),
                (''amount'', JInt (pj_amount q))])]\<rparr>
      else l\<lparr>pl_active := pl_active l @ [q], pl_events := pl_events l @ [progressed]\<rparr>)"

definition run_projects :: "sim_state \<Rightarrow> project_loop" where
  "run_projects s = fold step_project (s_projects s)
     \<lparr>pl_active = [], pl_housing = s_housing s, pl_power = s_power s, pl_events = []\<rparr>"

definition tick_state :: "sim_state \<Rightarrow> sim_state" where
  "tick_state s =
     (let tick = s_tick s + 1; l = run_projects s;
          growth_state = s\<lparr>s_tick := tick, s_housing := pl_housing l, s_power := pl_power l,
            s_usage := s_population s, s_projects := pl_active l\<rparr>;
          population = s_population s + calculate_population_growth growth_state;
          income = calculate_income (growth_state\<lparr>s_population := population\<rparr>);
          expense = py_round6 (fadd (maintenance_cost (s_maintenance s)) (debt_expense (s_debt s)));
          cash = py_round6 (fsub (fadd (pfl (s_cash s)) income) expense);
          infra = max 0 (py_round6 (fsub (s_infra s) (infrastructure_degradation (s_maintenance s)))) in
      \<lparr>s_tick = tick, s_cash = PFloat cash, s_debt = PFloat (pfl (s_debt s)), s_population = population,
       s_housing = pl_housing l, s_power = pl_power l, s_usage = population, s_infra = infra,
       s_maintenance = s_maintenance s, s_income = PFloat income, s_expense = PFloat expense,
       s_paused = False, s_failed = False, s_projects = pl_active l\<rparr>)"

definition tick_details :: "sim_state \<Rightarrow> sim_state \<Rightarrow> (sim_event_type \<times> jobject) list" where
  "tick_details s s' =
     (TickAdvanced, [(''tick'', JInt (s_tick s'))]) # pl_events (run_projects s) @
     (if s_population s' \<noteq> s_population s then [(PopulationChanged,
        [(''previous'', JInt (s_population s)), (''current'', JInt (s_population s')),
         (''growth'', JInt (s_population s' - s_population s))])] else []) @
     (if pval (s_cash s') \<noteq> pval (s_cash s) then [(CashChanged,
        [(''previous'', pnum_json (s_cash s)), (''current'', pnum_json (s_cash s')),
         (''income'', pnum_json (s_income s')), (''expense'', pnum_json (s_expense s'))])] else []) @
     (if s_infra s' \<noteq> s_infra s then [(InfrastructureChanged,
        [(''previous'', JFloat (s_infra s)), (''current'', JFloat (s_infra s'))])] else [])"

definition advance_tick :: "int \<Rightarrow> sim_state \<Rightarrow> (string, tick_result) result" where
  "advance_tick event_sequence s =
     (if s_paused s \<or> s_failed s then raise ''Cannot advance a paused or failed simulation.''
      else (let s' = tick_state s; failure = failure_for_state s' in
        ok \<lparr>tk_state = (if failure = None then s' else s'\<lparr>s_failed := True, s_paused := True\<rparr>),
            tk_events = number_sim_events event_sequence (s_tick s')
              (tick_details s s' @ (case failure of None \<Rightarrow> []
                 | Some c \<Rightarrow> [(SimulationFailed, [(''code'', JStr (failure_code_value c)),
                     (''message'', JStr (failure_message c))])])),
            tk_failure = failure\<rparr>))"

section \<open>Actions\<close>

datatype sim_action =
    AdvanceTime int
  | BuildHousing int
  | BuildPower int
  | RepairInfrastructure rat
  | SetMaintenance rat
  | TakeLoan rat
  | RepayLoan rat
  | Pause
  | Resume

fun valid_sim_action :: "sim_action \<Rightarrow> bool" where
  "valid_sim_action (AdvanceTime n) = (0 < n)"
| "valid_sim_action (BuildHousing n) = (0 < n)"
| "valid_sim_action (BuildPower n) = (0 < n)"
| "valid_sim_action (RepairInfrastructure x) = (is_float x \<and> 0 < x)"
| "valid_sim_action (SetMaintenance x) = (x \<in> set maintenance_levels)"
| "valid_sim_action (TakeLoan x) = (is_float x \<and> 0 < x)"
| "valid_sim_action (RepayLoan x) = (is_float x \<and> 0 < x)"
| "valid_sim_action Pause = True"
| "valid_sim_action Resume = True"

record sim_validation =
  sv_valid :: bool
  sv_message :: string
  sv_cost :: rat

definition sim_valid :: "rat \<Rightarrow> sim_validation" where
  "sim_valid cost = \<lparr>sv_valid = True, sv_message = ''Action is valid.'', sv_cost = cost\<rparr>"

definition sim_invalid :: "string \<Rightarrow> sim_validation" where
  "sim_invalid msg = \<lparr>sv_valid = False, sv_message = msg, sv_cost = 0\<rparr>"

definition validate_project :: "sim_state \<Rightarrow> rat \<Rightarrow> sim_validation" where
  "validate_project s cost =
     (if length (s_projects s) \<ge> 5 then sim_invalid ''The maximum of five active projects has been reached.''
      else if cost > pval (s_cash s) then sim_invalid ''Insufficient cash to start project.''
      else sim_valid cost)"

fun validate_sim_action :: "sim_state \<Rightarrow> sim_action \<Rightarrow> sim_validation" where
  "validate_sim_action s (AdvanceTime n) =
     (if s_failed s then sim_invalid ''Simulation has failed and cannot accept actions.''
      else if s_paused s then sim_invalid ''Cannot advance time while the simulation is paused.''
      else sim_valid 0)"
| "validate_sim_action s Pause =
     (if s_failed s then sim_invalid ''Simulation has failed and cannot accept actions.''
      else if s_paused s then sim_invalid ''Simulation is already paused.'' else sim_valid 0)"
| "validate_sim_action s Resume =
     (if s_failed s then sim_invalid ''Simulation has failed and cannot accept actions.''
      else if s_paused s then sim_valid 0 else sim_invalid ''Simulation is not paused.'')"
| "validate_sim_action s (BuildHousing n) =
     (if s_failed s then sim_invalid ''Simulation has failed and cannot accept actions.''
      else validate_project s (fmul (fl (of_int n)) 1000))"
| "validate_sim_action s (BuildPower n) =
     (if s_failed s then sim_invalid ''Simulation has failed and cannot accept actions.''
      else validate_project s (fmul (fl (of_int n)) 1500))"
| "validate_sim_action s (RepairInfrastructure x) =
     (if s_failed s then sim_invalid ''Simulation has failed and cannot accept actions.''
      else if s_infra s \<ge> 100 then sim_invalid ''Infrastructure is already at its maximum.''
      else if fmul x 2000 > pval (s_cash s) then sim_invalid ''Insufficient cash to repair infrastructure.''
      else sim_valid (fmul x 2000))"
| "validate_sim_action s (SetMaintenance x) =
     (if s_failed s then sim_invalid ''Simulation has failed and cannot accept actions.''
      else if x = s_maintenance s then sim_invalid ''Maintenance is already set to that level.''
      else sim_valid 0)"
| "validate_sim_action s (TakeLoan x) =
     (if s_failed s then sim_invalid ''Simulation has failed and cannot accept actions.''
      else if x < 10000 then sim_invalid ''Loan amount is below the minimum of 10000.''
      else if x > 500000 then sim_invalid ''Loan amount exceeds the per-action maximum of 500000.''
      else if fadd (pfl (s_debt s)) x > 2000000
      then sim_invalid ''Loan would exceed the total debt limit of 2000000.''
      else sim_valid 0)"
| "validate_sim_action s (RepayLoan x) =
     (if s_failed s then sim_invalid ''Simulation has failed and cannot accept actions.''
      else if x > pval (s_cash s) then sim_invalid ''Repayment exceeds available cash.''
      else if x > pval (s_debt s) then sim_invalid ''Repayment exceeds outstanding debt.''
      else sim_valid x)"

section \<open>The simulation object\<close>

record simulation =
  sim_state :: sim_state
  sim_seed :: string
  sim_events :: "sim_event list"
  sim_last_events :: "sim_event list"

definition new_simulation :: "sim_state \<Rightarrow> string \<Rightarrow> simulation" where
  "new_simulation s seed = \<lparr>sim_state = s, sim_seed = seed, sim_events = [], sim_last_events = []\<rparr>"

text \<open>\<open>for _ in range(action.ticks)\<close>, stopping at a failure; the count of events numbers the next ones.\<close>

fun advance_ticks :: "nat \<Rightarrow> int \<Rightarrow> sim_state \<Rightarrow> sim_state \<times> sim_event list" where
  "advance_ticks 0 n s = (s, [])"
| "advance_ticks (Suc k) n s =
     (case advance_tick n s of
        Inl _ \<Rightarrow> (s, [])
      | Inr r \<Rightarrow>
          if s_failed (tk_state r) then (tk_state r, tk_events r)
          else (case advance_ticks k (n + int (length (tk_events r))) (tk_state r) of
            (s', es) \<Rightarrow> (s', tk_events r @ es)))"

definition start_project ::
  "(string \<Rightarrow> uuid) \<Rightarrow> string \<Rightarrow> sim_state \<Rightarrow> project_type \<Rightarrow> int \<Rightarrow> rat \<Rightarrow> project" where
  "start_project uuid5 seed s t amount cost =
     (let duration = (if t = Housing then 5 else 8) in
      \<lparr>pj_id = uuid5 (''sim-pilot:'' @ seed @ '':'' @ int_text (s_tick s) @ '':'' @ project_type_value t @
         '':'' @ int_text (int (length (s_projects s))) @ '':'' @ int_text amount),
       pj_type = t, pj_amount = amount, pj_progress = 0, pj_duration = duration,
       pj_remaining = duration, pj_cost = cost\<rparr>)"

definition spend :: "sim_state \<Rightarrow> rat \<Rightarrow> pynum" where
  "spend s cost = PFloat (py_round6 (fsub (pfl (s_cash s)) cost))"

definition cash_change :: "sim_state \<Rightarrow> sim_state \<Rightarrow> sim_event_type \<times> jobject" where
  "cash_change s s' = (CashChanged, [(''previous'', pnum_json (s_cash s)), (''current'', pnum_json (s_cash s'))])"

definition debt_change :: "sim_state \<Rightarrow> sim_state \<Rightarrow> sim_event_type \<times> jobject" where
  "debt_change s s' = (DebtChanged, [(''previous'', pnum_json (s_debt s)), (''current'', pnum_json (s_debt s'))])"

definition build_effect ::
  "(string \<Rightarrow> uuid) \<Rightarrow> string \<Rightarrow> sim_state \<Rightarrow> project_type \<Rightarrow> int \<Rightarrow> rat \<Rightarrow>
   sim_state \<times> (sim_event_type \<times> jobject) list" where
  "build_effect uuid5 seed s t amount cost =
     (let p = start_project uuid5 seed s t amount cost;
          s' = s\<lparr>s_cash := spend s cost, s_projects := s_projects s @ [p]\<rparr> in
      (s', [(ProjectStarted, [(''project_id'', JStr (uuid_text (pj_id p))),
              (''project_type'', JStr (project_type_value t)), (''amount'', JInt amount),
              (''cost'', JFloat cost)]), cash_change s s']))"

text \<open>The branch of every action but \<open>AdvanceTime\<close>.\<close>

fun action_effect ::
  "(string \<Rightarrow> uuid) \<Rightarrow> string \<Rightarrow> sim_state \<Rightarrow> sim_action \<Rightarrow> rat \<Rightarrow> sim_state \<times> (sim_event_type \<times> jobject) list"
  where
  "action_effect uuid5 seed s (BuildHousing n) cost = build_effect uuid5 seed s Housing n cost"
| "action_effect uuid5 seed s (BuildPower n) cost = build_effect uuid5 seed s Power n cost"
| "action_effect uuid5 seed s (RepairInfrastructure x) cost =
     (let s' = s\<lparr>s_cash := spend s cost, s_infra := py_round6 (min 100 (fadd (s_infra s) x))\<rparr> in
      (s', [(InfrastructureChanged, [(''previous'', JFloat (s_infra s)), (''current'', JFloat (s_infra s'))]),
            cash_change s s']))"
| "action_effect uuid5 seed s (SetMaintenance x) cost =
     (s\<lparr>s_maintenance := x\<rparr>,
      [(MaintenanceChanged, [(''previous'', JFloat (s_maintenance s)), (''current'', JFloat x)])])"
| "action_effect uuid5 seed s (TakeLoan x) cost =
     (let s' = s\<lparr>s_cash := PFloat (py_round6 (fadd (pfl (s_cash s)) x)),
                 s_debt := PFloat (py_round6 (fadd (pfl (s_debt s)) x))\<rparr> in
      (s', [cash_change s s', debt_change s s']))"
| "action_effect uuid5 seed s (RepayLoan x) cost =
     (let s' = s\<lparr>s_cash := spend s x, s_debt := PFloat (py_round6 (fsub (pfl (s_debt s)) x))\<rparr> in
      (s', [cash_change s s', debt_change s s']))"
| "action_effect uuid5 seed s Pause cost =
     (s\<lparr>s_paused := True\<rparr>, [(SimulationPaused, [(''paused'', JBool True)])])"
| "action_effect uuid5 seed s Resume cost =
     (s\<lparr>s_paused := False\<rparr>, [(SimulationResumed, [(''paused'', JBool False)])])"
| "action_effect uuid5 seed s (AdvanceTime n) cost = (s, [])"

text \<open>Pydantic equality compares numbers by value.\<close>

definition state_eq :: "sim_state \<Rightarrow> sim_state \<Rightarrow> bool" where
  "state_eq a b \<longleftrightarrow> pval (s_cash a) = pval (s_cash b) \<and> pval (s_debt a) = pval (s_debt b) \<and>
     pval (s_income a) = pval (s_income b) \<and> pval (s_expense a) = pval (s_expense b) \<and>
     b\<lparr>s_cash := s_cash a, s_debt := s_debt a, s_income := s_income a, s_expense := s_expense a\<rparr> = a"

definition sim_result :: "bool \<Rightarrow> bool \<Rightarrow> rat \<Rightarrow> string \<Rightarrow> execution_result" where
  "sim_result success changed cost msg = \<lparr>res_version = 1, res_success = success, res_changed = changed,
     res_cost = cost, res_message = msg\<rparr>"

definition sim_execute ::
  "(string \<Rightarrow> uuid) \<Rightarrow> sim_action \<Rightarrow> simulation \<Rightarrow> execution_result \<times> simulation" where
  "sim_execute uuid5 a sim =
     (let s = sim_state sim; v = validate_sim_action s a in
      if \<not> sv_valid v
      then (sim_result False False 0 (sv_message v), sim\<lparr>sim_last_events := []\<rparr>)
      else
        (let n = int (length (sim_events sim));
             (s', new_events) = (case a of
               AdvanceTime k \<Rightarrow> advance_ticks (nat k) n s
             | _ \<Rightarrow> (case action_effect uuid5 (sim_seed sim) s a (sv_cost v) of
                 (s', ds) \<Rightarrow> (s', number_sim_events n (s_tick s') ds))) in
         (sim_result True (\<not> state_eq s' s) (sv_cost v)
            (if s_failed s' \<and> \<not> s_failed s then ''Action executed; simulation entered terminal failure.''
             else ''Action executed successfully.''),
          sim\<lparr>sim_state := s', sim_last_events := new_events, sim_events := sim_events sim @ new_events\<rparr>)))"

section \<open>JSON\<close>

definition dump_project :: "project \<Rightarrow> jobject" where
  "dump_project p =
     [(''schema_version'', JInt 1),
      (''id'', JStr (uuid_text (pj_id p))),
      (''type'', JStr (project_type_value (pj_type p))),
      (''amount'', JInt (pj_amount p)),
      (''progress'', JInt (pj_progress p)),
      (''duration'', JInt (pj_duration p)),
      (''remaining_ticks'', JInt (pj_remaining p)),
      (''total_cost'', JFloat (pj_cost p))]"

definition dump_state :: "sim_state \<Rightarrow> jobject" where
  "dump_state s =
     [(''schema_version'', JInt 1),
      (''tick'', JInt (s_tick s)),
      (''cash'', pnum_json (s_cash s)),
      (''debt'', pnum_json (s_debt s)),
      (''population'', JInt (s_population s)),
      (''housing'', JInt (s_housing s)),
      (''power_capacity'', JInt (s_power s)),
      (''power_usage'', JInt (s_usage s)),
      (''infrastructure'', JFloat (s_infra s)),
      (''maintenance_level'', JFloat (s_maintenance s)),
      (''income_per_tick'', pnum_json (s_income s)),
      (''expense_per_tick'', pnum_json (s_expense s)),
      (''paused'', JBool (s_paused s)),
      (''failed'', JBool (s_failed s)),
      (''active_projects'', JList (map (\<lambda>p. JObj (dump_project p)) (s_projects s)))]"

definition load_version :: "json \<Rightarrow> int option" where
  "load_version v = (case as_int v of Some i \<Rightarrow> if i = 1 then Some i else None | None \<Rightarrow> None)"

definition load_float :: "json \<Rightarrow> rat option" where
  "load_float v = map_option fl (as_num v)"

definition load_project_type :: "json \<Rightarrow> project_type option" where
  "load_project_type v = Option.bind (as_str v) (enum_parse project_type_value [Housing, Power])"

definition load_project :: "jobject \<Rightarrow> project option" where
  "load_project d = do {
     (if only_keys [''schema_version'', ''id'', ''type'', ''amount'', ''progress'', ''duration'',
        ''remaining_ticks'', ''total_cost''] d then Some () else None);
     default_to d ''schema_version'' 1 load_version;
     ident \<leftarrow> need d ''id'' (\<lambda>v. Option.bind (as_str v) uuid_parse);
     type \<leftarrow> need d ''type'' load_project_type;
     amount \<leftarrow> need d ''amount'' (load_ge 1);
     progress \<leftarrow> need d ''progress'' (load_ge 0);
     duration \<leftarrow> need d ''duration'' (load_ge 1);
     remaining \<leftarrow> need d ''remaining_ticks'' (load_ge 0);
     cost \<leftarrow> need d ''total_cost'' load_float;
     (let p = \<lparr>pj_id = ident, pj_type = type, pj_amount = amount, pj_progress = progress,
        pj_duration = duration, pj_remaining = remaining, pj_cost = cost\<rparr> in
      if valid_project p then Some p else None)
   }"

definition load_state :: "jobject \<Rightarrow> sim_state option" where
  "load_state d = do {
     (if only_keys [''schema_version'', ''tick'', ''cash'', ''debt'', ''population'', ''housing'',
        ''power_capacity'', ''power_usage'', ''infrastructure'', ''maintenance_level'', ''income_per_tick'',
        ''expense_per_tick'', ''paused'', ''failed'', ''active_projects''] d then Some () else None);
     default_to d ''schema_version'' 1 load_version;
     tick \<leftarrow> default_to d ''tick'' 0 (load_ge 0);
     cash \<leftarrow> default_to d ''cash'' (PInt 500000) (\<lambda>v. map_option PFloat (load_float v));
     debt \<leftarrow> default_to d ''debt'' (PInt 0) (\<lambda>v. map_option PFloat (load_float v));
     population \<leftarrow> default_to d ''population'' 500 (load_ge 0);
     housing \<leftarrow> default_to d ''housing'' 600 (load_ge 0);
     power \<leftarrow> default_to d ''power_capacity'' 700 (load_ge 0);
     usage \<leftarrow> default_to d ''power_usage'' 500 (load_ge 0);
     infra \<leftarrow> default_to d ''infrastructure'' 90 load_float;
     level \<leftarrow> default_to d ''maintenance_level'' (1 / 2) load_float;
     income \<leftarrow> default_to d ''income_per_tick'' (PInt 0) (\<lambda>v. map_option PFloat (load_float v));
     expense \<leftarrow> default_to d ''expense_per_tick'' (PInt 0) (\<lambda>v. map_option PFloat (load_float v));
     paused \<leftarrow> default_to d ''paused'' False as_bool;
     failed \<leftarrow> default_to d ''failed'' False as_bool;
     projects \<leftarrow> default_to d ''active_projects'' [] (load_list (load_object load_project));
     (let s = \<lparr>s_tick = tick, s_cash = cash, s_debt = debt, s_population = population,
        s_housing = housing, s_power = power, s_usage = usage, s_infra = infra, s_maintenance = level,
        s_income = income, s_expense = expense, s_paused = paused, s_failed = failed,
        s_projects = projects\<rparr> in
      if valid_sim s then Some s else None)
   }"

end
