(* ===== verification/RefSimSafety.thy ===== *)
theory RefSimSafety
  imports RefSim
begin

text \<open>
  What the reference simulation guarantees. \<open>sim_sound\<close> is the invariant of a simulation that was started
  from a sound state and only ever changed by \<open>sim_execute\<close>: the state model validates, the population
  has housing and power, a simulation that is not failed is solvent, a failed one shows a failure
  condition, and the events are numbered from one without a gap.
\<close>

section \<open>Arithmetic on money\<close>

lemma pfl_float [simp]: "float_ok n \<Longrightarrow> is_float (pfl n)"
  by (cases n) (auto simp: is_float_def)

lemma pfl_mono: "is_float x \<Longrightarrow> x \<le> pval n \<Longrightarrow> x \<le> pfl n"
  by (cases n) (auto simp: is_float_def dest: fl_mono)

lemma pfl_nonneg: "0 \<le> pval n \<Longrightarrow> 0 \<le> pfl n"
  by (cases n) (auto intro: fl_nonneg)

lemma pfl_le_int: "pval n \<le> of_int m \<Longrightarrow> \<bar>m\<bar> \<le> 2 ^ 53 \<Longrightarrow> pfl n \<le> of_int m"
  by (cases n) (auto intro: fl_le_int)

lemma fadd_ge: "is_float x \<Longrightarrow> 0 \<le> y \<Longrightarrow> x \<le> fadd x y"
  unfolding fadd_def is_float_def by (metis fl_mono le_add_same_cancel1)

lemma fsub_nonneg: "y \<le> x \<Longrightarrow> 0 \<le> fsub x y"
  by (simp add: fsub_def fl_nonneg)

lemma fadd_nonneg: "0 \<le> x \<Longrightarrow> 0 \<le> y \<Longrightarrow> 0 \<le> fadd x y"
  by (simp add: fadd_def fl_nonneg)

lemma fmul_nonneg: "0 \<le> x \<Longrightarrow> 0 \<le> y \<Longrightarrow> 0 \<le> fmul x y"
  by (simp add: fmul_def fl_nonneg)

lemma fdiv_nonneg: "0 \<le> x \<Longrightarrow> 0 \<le> y \<Longrightarrow> 0 \<le> fdiv x y"
  by (simp add: fdiv_def fl_nonneg)

lemma is_float_ops [simp]: "is_float (fadd x y)" "is_float (fsub x y)" "is_float (fmul x y)" "is_float (fdiv x y)"
  by (simp_all add: fadd_def fsub_def fmul_def fdiv_def)

lemma fmul_int_pos:
  assumes "0 < n" and "0 < k" and "k \<le> 2 ^ 53"
  shows "0 < fmul (fl (of_int n)) (of_int k)"
proof -
  have "(1 :: rat) \<le> fl (of_int n)" using assms(1) fl_ge_int [of 1 "of_int n"] by simp
  then have "of_int k \<le> fl (of_int n) * (of_int k :: rat)" using assms(2) by simp
  then have "of_int k \<le> fmul (fl (of_int n)) (of_int k)"
    unfolding fmul_def using assms by (intro fl_ge_int) auto
  moreover have "(0 :: rat) < of_int k" using assms(2) by simp
  ultimately show ?thesis by linarith
qed

lemma debt_expense_nonneg: "0 \<le> pval n \<Longrightarrow> 0 \<le> debt_expense n"
  unfolding debt_expense_def by (intro py_round6_nonneg fmul_nonneg pfl_nonneg) (auto intro: fl_nonneg)

lemma calculate_income_nonneg: "0 \<le> s_population s \<Longrightarrow> 0 \<le> s_infra s \<Longrightarrow> 0 \<le> calculate_income s"
  unfolding calculate_income_def Let_def
  by (intro py_round6_nonneg fmul_nonneg fdiv_nonneg) (auto intro: fl_nonneg)

section \<open>Projects\<close>

lemma progress_project_valid:
  assumes "valid_project p"
  shows "valid_project (progress_project p)" and "pj_amount (progress_project p) = pj_amount p"
  using assms by (auto simp: valid_project_def progress_project_def Let_def)

lemma step_project_effect:
  assumes "valid_project p" and "list_all valid_project (pl_active l)"
  shows "list_all valid_project (pl_active (step_project p l))"
    and "pl_housing l \<le> pl_housing (step_project p l)" and "pl_power l \<le> pl_power (step_project p l)"
    and "length (pl_active (step_project p l)) \<le> Suc (length (pl_active l))"
  using progress_project_valid [OF assms(1)] assms
  by (auto simp: step_project_def Let_def valid_project_def)

lemma fold_step_project:
  assumes "list_all valid_project ps" and "list_all valid_project (pl_active l)"
  shows "list_all valid_project (pl_active (fold step_project ps l)) \<and>
    pl_housing l \<le> pl_housing (fold step_project ps l) \<and> pl_power l \<le> pl_power (fold step_project ps l) \<and>
    length (pl_active (fold step_project ps l)) \<le> length ps + length (pl_active l)"
  using assms
proof (induction ps arbitrary: l)
  case (Cons p ps)
  have p: "valid_project p" using Cons.prems by simp
  note step = step_project_effect [OF p Cons.prems(2)]
  from Cons.IH [OF _ step(1)] Cons.prems step show ?case by force
qed simp

lemma run_projects_effect:
  assumes "list_all valid_project (s_projects s)"
  shows "list_all valid_project (pl_active (run_projects s))"
    and "s_housing s \<le> pl_housing (run_projects s)" and "s_power s \<le> pl_power (run_projects s)"
    and "length (pl_active (run_projects s)) \<le> length (s_projects s)"
  using fold_step_project [OF assms, of "\<lparr>pl_active = [], pl_housing = s_housing s, pl_power = s_power s, pl_events = []\<rparr>"]
  by (auto simp: run_projects_def)

lemma growth_bounds:
  assumes "0 \<le> s_population s"
  shows "0 \<le> calculate_population_growth s"
    and "s_population s \<le> s_housing s \<Longrightarrow> s_population s + calculate_population_growth s \<le> s_housing s"
    and "s_usage s \<le> s_power s \<Longrightarrow> s_usage s + calculate_population_growth s \<le> s_power s"
proof -
  have "0 \<le> \<lfloor>fmul (fl (of_int (s_population s))) (fl (1 / 100))\<rfloor>"
    using assms by (simp add: fmul_nonneg fl_nonneg)
  then show "0 \<le> calculate_population_growth s"
    by (auto simp: calculate_population_growth_def Let_def)
qed (auto simp: calculate_population_growth_def Let_def)

section \<open>The state invariant\<close>

text \<open>
  A rounding to six places leaves nothing between zero and a millionth; the power of two below it is
  a bound that every later float operation respects.
\<close>

definition min_infra :: rat where
  "min_infra = 1 / 2 ^ 20"

definition solvent :: "sim_state \<Rightarrow> bool" where
  "solvent s \<longleftrightarrow> 0 \<le> pval (s_cash s) \<and> min_infra \<le> s_infra s \<and> pval (s_debt s) \<le> 2000000"

definition sound_state :: "sim_state \<Rightarrow> bool" where
  "sound_state s \<longleftrightarrow> valid_sim s \<and> s_population s \<le> s_housing s \<and> s_population s \<le> s_power s \<and>
     (if s_failed s then failure_for_state s \<noteq> None else solvent s)"

lemma py_round6_millionth: "1 / 2000000 < x \<Longrightarrow> min_infra \<le> py_round6 x"
proof -
  assume x: "1 / 2000000 < x"
  have "1 \<le> rhe (x * 1000000)"
  proof (rule ccontr)
    assume "\<not> ?thesis"
    then have "rhe (x * 1000000) \<le> 0" by simp
    then have "(of_int (rhe (x * 1000000)) :: rat) \<le> 0" by simp
    then show False using rhe_bounds(2) [of "x * 1000000"] x by linarith
  qed
  then have "(1 :: rat) \<le> of_int (rhe (x * 1000000))" by simp
  then have "(1 / 2 ^ 20 :: rat) \<le> of_int (rhe (x * 1000000)) / 1000000" by simp
  from fl_mono [OF this] show ?thesis
    using fl_dyadic [of 1 20] by (simp add: py_round6_def min_infra_def)
qed

lemma py_round6_min: "min_infra \<le> x \<Longrightarrow> min_infra \<le> py_round6 x"
  by (rule py_round6_millionth) (simp add: min_infra_def)

lemma py_round6_pos: "0 < py_round6 x \<Longrightarrow> min_infra \<le> py_round6 x"
proof (rule ccontr)
  assume pos: "0 < py_round6 x" and small: "\<not> min_infra \<le> py_round6 x"
  then have "x \<le> 1 / 2000000" using py_round6_millionth by force
  then have "py_round6 x \<le> py_round6 (1 / 2000000)" by (rule py_round6_mono)
  moreover have "\<lfloor>1 / 2 :: rat\<rfloor> = 0" by (simp add: floor_eq_iff)
  then have "py_round6 (1 / 2000000) = 0" by (simp add: py_round6_def rhe_def Let_def)
  ultimately show False using pos by simp
qed

lemma solvent_failure: "solvent s \<Longrightarrow> failure_for_state s = None"
  by (auto simp: solvent_def failure_for_state_def min_infra_def)

lemma sound_failed_iff: "sound_state s \<Longrightarrow> s_failed s \<longleftrightarrow> failure_for_state s \<noteq> None"
  by (auto simp: sound_state_def solvent_failure split: if_splits)

lemma initial_state_sound: "sound_state initial_state"
  by (simp add: sound_state_def initial_state_def valid_sim_def solvent_def min_infra_def maintenance_levels_def
    is_float_def round_exact fl_dyadic [of 1 1, simplified])

lemma tick_state_valid:
  assumes s: "sound_state s" and run: "\<not> s_paused s"
  shows "valid_sim (tick_state s) \<and> s_population (tick_state s) \<le> s_housing (tick_state s) \<and>
    s_population (tick_state s) \<le> s_power (tick_state s)"
proof -
  from s have v: "valid_sim s" and cap: "s_population s \<le> s_housing s" "s_population s \<le> s_power s"
    by (auto simp: sound_state_def)
  note projects = run_projects_effect [of s]
  let ?g = "s\<lparr>s_tick := s_tick s + 1, s_housing := pl_housing (run_projects s), s_power := pl_power (run_projects s),
    s_usage := s_population s, s_projects := pl_active (run_projects s)\<rparr>"
  have pop: "0 \<le> s_population s" using v by (simp add: valid_sim_def)
  have ps: "list_all valid_project (s_projects s)" using v by (simp add: valid_sim_def)
  have growth: "0 \<le> calculate_population_growth ?g"
    "s_population s + calculate_population_growth ?g \<le> pl_housing (run_projects s)"
    "s_population s + calculate_population_growth ?g \<le> pl_power (run_projects s)"
    using growth_bounds [of ?g] pop cap projects(2,3) [OF ps] by auto
  have infra: "0 \<le> s_infra (tick_state s)" "s_infra (tick_state s) \<le> 100" "is_float (s_infra (tick_state s))"
  proof -
    have "fsub (s_infra s) (infrastructure_degradation (s_maintenance s)) \<le> of_int 100"
      unfolding fsub_def by (rule fl_le_int) (use v in \<open>auto simp: valid_sim_def infrastructure_degradation_def\<close>)
    then have "py_round6 (fsub (s_infra s) (infrastructure_degradation (s_maintenance s))) \<le> of_int 100"
      by (rule py_round6_le_int) simp
    then show "0 \<le> s_infra (tick_state s)" "s_infra (tick_state s) \<le> 100" "is_float (s_infra (tick_state s))"
      by (auto simp: tick_state_def Let_def max_def is_float_def [of 0])
  qed
  have income: "0 \<le> pval (s_income (tick_state s))"
    unfolding tick_state_def Let_def
    using calculate_income_nonneg [of "?g\<lparr>s_population := s_population s + calculate_population_growth ?g\<rparr>"] pop growth(1) v
    by (simp add: valid_sim_def)
  have expense: "0 \<le> pval (s_expense (tick_state s))"
    unfolding tick_state_def Let_def
    by (simp, intro py_round6_nonneg fadd_nonneg debt_expense_nonneg)
      (use v in \<open>auto simp: maintenance_cost_def valid_sim_def\<close>)
  have floats: "float_ok (s_cash (tick_state s))" "float_ok (s_debt (tick_state s))"
    "float_ok (s_income (tick_state s))" "float_ok (s_expense (tick_state s))" "0 \<le> pval (s_debt (tick_state s))"
    using v by (auto simp: tick_state_def Let_def calculate_income_def valid_sim_def pfl_nonneg)
  have rest: "s_tick (tick_state s) = s_tick s + 1" "s_population (tick_state s) = s_population s + calculate_population_growth ?g"
    "s_usage (tick_state s) = s_population (tick_state s)" "s_housing (tick_state s) = pl_housing (run_projects s)"
    "s_power (tick_state s) = pl_power (run_projects s)" "s_maintenance (tick_state s) = s_maintenance s"
    "\<not> s_failed (tick_state s)" "s_projects (tick_state s) = pl_active (run_projects s)"
    by (simp_all add: tick_state_def Let_def)
  show ?thesis
    using infra income expense floats rest growth v projects [OF ps] pop cap
    by (simp add: valid_sim_def)
qed

lemma failure_for_state_flags [simp]:
  "failure_for_state (s\<lparr>s_failed := f, s_paused := p\<rparr>) = failure_for_state s"
  by (simp add: failure_for_state_def)

lemma tick_state_solvent: "failure_for_state (tick_state s) = None \<Longrightarrow> solvent (tick_state s)"
proof -
  assume none: "failure_for_state (tick_state s) = None"
  then have "0 \<le> pval (s_cash (tick_state s))" "0 < s_infra (tick_state s)" "pval (s_debt (tick_state s)) \<le> 2000000"
    by (auto simp: failure_for_state_def split: if_splits)
  moreover from this(2) have "min_infra \<le> s_infra (tick_state s)"
    using py_round6_pos [of "fsub (s_infra s) (infrastructure_degradation (s_maintenance s))"]
    by (auto simp: tick_state_def Let_def max_def split: if_splits)
  ultimately show ?thesis by (simp add: solvent_def)
qed

lemma advance_tick_ok:
  "advance_tick n s = ok r \<longleftrightarrow> \<not> s_paused s \<and> \<not> s_failed s \<and>
     r = (let s' = tick_state s; failure = failure_for_state s' in
        \<lparr>tk_state = (if failure = None then s' else s'\<lparr>s_failed := True, s_paused := True\<rparr>),
         tk_events = number_sim_events n (s_tick s')
              (tick_details s s' @ (case failure of None \<Rightarrow> []
                 | Some c \<Rightarrow> [(SimulationFailed, [(''code'', JStr (failure_code_value c)),
                     (''message'', JStr (failure_message c))])])),
         tk_failure = failure\<rparr>)"
  unfolding advance_tick_def Let_def by (cases "s_paused s \<or> s_failed s") auto

lemma advance_tick_sound:
  assumes s: "sound_state s" and r: "advance_tick n s = ok r"
  shows "sound_state (tk_state r)"
proof -
  from r have run: "\<not> s_paused s" and state: "tk_state r = (if failure_for_state (tick_state s) = None
      then tick_state s else (tick_state s)\<lparr>s_failed := True, s_paused := True\<rparr>)"
    by (simp_all add: advance_tick_ok Let_def)
  note valid = tick_state_valid [OF s run]
  show ?thesis
  proof (cases "failure_for_state (tick_state s) = None")
    case True
    have "\<not> s_failed (tick_state s)" by (simp add: tick_state_def Let_def)
    moreover have "tk_state r = tick_state s" using state True by simp
    ultimately show ?thesis using valid tick_state_solvent [OF True] by (simp add: sound_state_def)
  next
    case False
    then have "tk_state r = (tick_state s)\<lparr>s_failed := True, s_paused := True\<rparr>" using state by (simp only: if_False)
    then show ?thesis using valid False by (simp add: sound_state_def valid_sim_def)
  qed
qed

lemma advance_ticks_sound: "sound_state s \<Longrightarrow> sound_state (fst (advance_ticks k n s))"
proof (induction k arbitrary: n s)
  case (Suc k)
  show ?case
  proof (cases "advance_tick n s")
    case (Inr r)
    then show ?thesis
      using advance_tick_sound [OF Suc.prems Inr]
        Suc.IH [of "tk_state r" "n + int (length (tk_events r))"]
      by (simp add: case_prod_beta)
  qed (simp add: Suc.prems)
qed simp

section \<open>Actions keep the state sound\<close>

lemma sim_valid_simps [simp]:
  "sv_valid (sim_valid c)" "sv_cost (sim_valid c) = c" "\<not> sv_valid (sim_invalid m)" "sv_cost (sim_invalid m) = 0"
  by (simp_all add: sim_valid_def sim_invalid_def)

lemma accepted_not_failed: "sv_valid (validate_sim_action s a) \<Longrightarrow> \<not> s_failed s"
  by (cases a) (auto split: if_splits)

lemma spend_sound:
  assumes "is_float c" and "c \<le> pval (s_cash s)" and "0 \<le> c"
  shows "0 \<le> pval (spend s c)" and "float_ok (spend s c)"
  using assms by (auto simp: spend_def intro!: py_round6_nonneg fsub_nonneg pfl_mono)

lemma start_project_valid:
  assumes "0 < n" and "is_float c" and "0 < c"
  shows "valid_project (start_project uuid5 seed s t n c)"
  using assms by (simp add: start_project_def valid_project_def Let_def)

lemma build_sound:
  assumes s: "sound_state s" and c: "is_float c" "0 < c" and n: "0 < n" and run: "\<not> s_failed s"
    and v: "sv_valid (validate_project s c)"
  shows "sound_state (fst (build_effect uuid5 seed s t n c))"
proof -
  from v have room: "length (s_projects s) < 5" and cash: "c \<le> pval (s_cash s)"
    by (auto simp: validate_project_def split: if_splits)
  note spend = spend_sound [OF c(1) cash less_imp_le [OF c(2)]]
  show ?thesis
    using s run room spend start_project_valid [OF n c]
    by (simp add: build_effect_def Let_def sound_state_def valid_sim_def solvent_def)
qed

lemma repair_sound:
  assumes s: "sound_state s" and x: "is_float x" "0 < x" and run: "\<not> s_failed s"
    and cash: "fmul x 2000 \<le> pval (s_cash s)"
  shows "sound_state (fst (action_effect uuid5 seed s (RepairInfrastructure x) (fmul x 2000)))"
proof -
  have sol: "solvent s" and v: "valid_sim s" using s run by (auto simp: sound_state_def)
  have cost: "0 \<le> fmul x 2000" using x by (simp add: fmul_nonneg)
  have up: "s_infra s \<le> fadd (s_infra s) x" using v x by (intro fadd_ge) (auto simp: valid_sim_def)
  have "min_infra \<le> min 100 (fadd (s_infra s) x)" using sol up v by (auto simp: solvent_def min_infra_def)
  then have low: "min_infra \<le> py_round6 (min 100 (fadd (s_infra s) x))" by (rule py_round6_min)
  have "py_round6 (min 100 (fadd (s_infra s) x)) \<le> of_int 100" by (rule py_round6_le_int) auto
  with low have infra: "0 \<le> py_round6 (min 100 (fadd (s_infra s) x))" "py_round6 (min 100 (fadd (s_infra s) x)) \<le> 100"
    by (auto simp: min_infra_def)
  show ?thesis
    using s run sol spend_sound [OF _ cash cost] low infra
    by (simp add: Let_def sound_state_def valid_sim_def solvent_def)
qed

lemma loan_sound:
  assumes s: "sound_state s" and x: "is_float x" "0 < x" and run: "\<not> s_failed s"
    and debt: "fadd (pfl (s_debt s)) x \<le> 2000000"
  shows "sound_state (fst (action_effect uuid5 seed s (TakeLoan x) c))"
proof -
  have sol: "solvent s" and v: "valid_sim s" using s run by (auto simp: sound_state_def)
  have "py_round6 (fadd (pfl (s_debt s)) x) \<le> of_int 2000000" by (rule py_round6_le_int) (use debt in auto)
  moreover have "0 \<le> py_round6 (fadd (pfl (s_debt s)) x)" "0 \<le> py_round6 (fadd (pfl (s_cash s)) x)"
    using v sol x by (auto intro!: py_round6_nonneg fadd_nonneg pfl_nonneg simp: valid_sim_def solvent_def)
  ultimately show ?thesis
    using s run sol by (simp add: Let_def sound_state_def valid_sim_def solvent_def)
qed

lemma repay_sound:
  assumes s: "sound_state s" and x: "is_float x" "0 < x" and run: "\<not> s_failed s"
    and cash: "x \<le> pval (s_cash s)" and debt: "x \<le> pval (s_debt s)"
  shows "sound_state (fst (action_effect uuid5 seed s (RepayLoan x) c))"
proof -
  have sol: "solvent s" and v: "valid_sim s" using s run by (auto simp: sound_state_def)
  have "fsub (pfl (s_debt s)) x \<le> of_int 2000000"
    unfolding fsub_def using pfl_le_int [of "s_debt s" 2000000] sol x
    by (intro fl_le_int) (auto simp: solvent_def)
  then have "py_round6 (fsub (pfl (s_debt s)) x) \<le> of_int 2000000" by (rule py_round6_le_int) simp
  moreover have "0 \<le> py_round6 (fsub (pfl (s_debt s)) x)"
    using pfl_mono [OF x(1) debt] by (intro py_round6_nonneg fsub_nonneg)
  ultimately show ?thesis
    using s run sol spend_sound [OF x(1) cash] x by (simp add: Let_def sound_state_def valid_sim_def solvent_def)
qed

lemma action_effect_sound:
  assumes s: "sound_state s" and a: "valid_sim_action a" and v: "sv_valid (validate_sim_action s a)"
  shows "sound_state (fst (action_effect uuid5 seed s a (sv_cost (validate_sim_action s a))))"
proof -
  note run = accepted_not_failed [OF v]
  show ?thesis
  proof (cases a)
    case (BuildHousing n)
    then show ?thesis
      using build_sound [OF s _ _ _ run, of "fmul (fl (of_int n)) 1000"] a v run fmul_int_pos [of n 1000]
      by (auto simp: validate_project_def split: if_splits)
  next
    case (BuildPower n)
    then show ?thesis
      using build_sound [OF s _ _ _ run, of "fmul (fl (of_int n)) 1500"] a v run fmul_int_pos [of n 1500]
      by (auto simp: validate_project_def split: if_splits)
  next
    case (RepairInfrastructure x)
    then show ?thesis using repair_sound [OF s _ _ run] a v run by (auto split: if_splits)
  next
    case (SetMaintenance x)
    then show ?thesis using s a run by (simp add: sound_state_def valid_sim_def solvent_def)
  next
    case (TakeLoan x)
    then show ?thesis using loan_sound [OF s _ _ run] a v run by (auto split: if_splits)
  next
    case (RepayLoan x)
    then show ?thesis using repay_sound [OF s _ _ run] a v run by (auto split: if_splits)
  qed (use s run in \<open>auto simp: sound_state_def valid_sim_def solvent_def\<close>)
qed

section \<open>Event numbers\<close>

definition numbered :: "sim_event list \<Rightarrow> bool" where
  "numbered es \<longleftrightarrow> map sev_sequence es = [1..int (length es)]"

lemma number_sim_events_length [simp]: "length (number_sim_events n t ds) = length ds"
  by (simp add: number_sim_events_def)

lemma number_sim_events_sequences:
  "map sev_sequence (number_sim_events n t ds) = [n + 1..n + int (length ds)]"
proof (rule nth_equalityI)
  fix i assume "i < length (map sev_sequence (number_sim_events n t ds))"
  then show "map sev_sequence (number_sim_events n t ds) ! i = [n + 1..n + int (length ds)] ! i"
    by (simp add: number_sim_events_def case_prod_beta nth_upto)
qed simp

lemma advance_tick_sequences:
  assumes "advance_tick n s = ok r"
  shows "map sev_sequence (tk_events r) = [n + 1..n + int (length (tk_events r))]"
  using assms by (simp add: advance_tick_ok Let_def number_sim_events_sequences)

lemma upto_join: "0 \<le> a \<Longrightarrow> 0 \<le> b \<Longrightarrow> [n + 1..n + a] @ [n + a + 1..n + a + b] = [n + 1..n + (a + b)]"
  using upto_split2 [of "n + 1" "n + a" "n + a + b"] by (cases "a = 0") (auto simp: add.assoc)

lemma advance_ticks_sequences:
  "map sev_sequence (snd (advance_ticks k n s)) = [n + 1..n + int (length (snd (advance_ticks k n s)))]"
proof (induction k arbitrary: n s)
  case (Suc k)
  show ?case
  proof (cases "advance_tick n s")
    case (Inr r)
    let ?m = "n + int (length (tk_events r))"
    show ?thesis
      using Suc.IH [of ?m "tk_state r"] advance_tick_sequences [OF Inr]
        upto_join [of "int (length (tk_events r))" "int (length (snd (advance_ticks k ?m (tk_state r))))" n] Inr
      by (simp add: case_prod_beta)
  qed simp
qed simp

section \<open>Executing actions\<close>

definition sim_sound :: "simulation \<Rightarrow> bool" where
  "sim_sound sim \<longleftrightarrow> sound_state (sim_state sim) \<and> numbered (sim_events sim)"

text \<open>The new state and the new events of an accepted action.\<close>

definition sim_step :: "(string \<Rightarrow> uuid) \<Rightarrow> sim_action \<Rightarrow> simulation \<Rightarrow> sim_state \<times> sim_event list" where
  "sim_step uuid5 a sim = (case a of
     AdvanceTime k \<Rightarrow> advance_ticks (nat k) (int (length (sim_events sim))) (sim_state sim)
   | _ \<Rightarrow> (case action_effect uuid5 (sim_seed sim) (sim_state sim) a
            (sv_cost (validate_sim_action (sim_state sim) a)) of
       (s', ds) \<Rightarrow> (s', number_sim_events (int (length (sim_events sim))) (s_tick s') ds)))"

lemma sim_execute_rejected:
  "\<not> sv_valid (validate_sim_action (sim_state sim) a) \<Longrightarrow> sim_execute uuid5 a sim =
     (sim_result False False 0 (sv_message (validate_sim_action (sim_state sim) a)), sim\<lparr>sim_last_events := []\<rparr>)"
  by (simp add: sim_execute_def Let_def)

lemma sim_execute_step:
  assumes "sv_valid (validate_sim_action (sim_state sim) a)"
  shows "sim_execute uuid5 a sim =
    (sim_result True (\<not> state_eq (fst (sim_step uuid5 a sim)) (sim_state sim))
       (sv_cost (validate_sim_action (sim_state sim) a))
       (if s_failed (fst (sim_step uuid5 a sim)) \<and> \<not> s_failed (sim_state sim)
        then ''Action executed; simulation entered terminal failure.'' else ''Action executed successfully.''),
     sim\<lparr>sim_state := fst (sim_step uuid5 a sim), sim_last_events := snd (sim_step uuid5 a sim),
       sim_events := sim_events sim @ snd (sim_step uuid5 a sim)\<rparr>)"
  using assms unfolding sim_execute_def sim_step_def Let_def
  by (simp only: not_not not_True_eq_False if_False case_prod_beta)

lemma sim_execute_accepted:
  assumes "sv_valid (validate_sim_action (sim_state sim) a)"
  shows "snd (sim_execute uuid5 a sim) = sim\<lparr>sim_state := fst (sim_step uuid5 a sim),
      sim_last_events := snd (sim_step uuid5 a sim),
      sim_events := sim_events sim @ snd (sim_step uuid5 a sim)\<rparr>"
    and "res_success (fst (sim_execute uuid5 a sim))"
  by (simp_all add: sim_execute_step [OF assms] sim_result_def)

lemma sim_step_sound:
  assumes s: "sound_state (sim_state sim)" and a: "valid_sim_action a"
    and v: "sv_valid (validate_sim_action (sim_state sim) a)"
  shows "sound_state (fst (sim_step uuid5 a sim))"
    and "map sev_sequence (snd (sim_step uuid5 a sim)) = [int (length (sim_events sim)) + 1..
      int (length (sim_events sim)) + int (length (snd (sim_step uuid5 a sim)))]"
proof -
  show "sound_state (fst (sim_step uuid5 a sim))"
    using advance_ticks_sound [OF s] action_effect_sound [OF s a v]
    by (cases a) (simp_all only: sim_step_def sim_action.case case_prod_beta fst_conv)
  show "map sev_sequence (snd (sim_step uuid5 a sim)) = [int (length (sim_events sim)) + 1..
      int (length (sim_events sim)) + int (length (snd (sim_step uuid5 a sim)))]"
    by (cases a) (simp_all only: sim_step_def sim_action.case case_prod_beta snd_conv
        advance_ticks_sequences number_sim_events_sequences number_sim_events_length)
qed

lemma sim_execute_sound:
  assumes "sim_sound sim" and a: "valid_sim_action a"
  shows "sim_sound (snd (sim_execute uuid5 a sim))"
proof (cases "sv_valid (validate_sim_action (sim_state sim) a)")
  case True
  have s: "sound_state (sim_state sim)" and n: "numbered (sim_events sim)"
    using assms(1) by (simp_all add: sim_sound_def)
  note step = sim_step_sound [OF s a True]
  show ?thesis
    using step n upto_join [of "int (length (sim_events sim))" _ 0]
    by (simp add: sim_sound_def sim_execute_accepted(1) [OF True] numbered_def)
next
  case False
  then show ?thesis using assms by (simp add: sim_execute_rejected sim_sound_def)
qed

section \<open>Runs\<close>

primrec run_actions :: "(string \<Rightarrow> uuid) \<Rightarrow> sim_action list \<Rightarrow> simulation \<Rightarrow> simulation" where
  "run_actions uuid5 [] sim = sim"
| "run_actions uuid5 (a # as) sim = run_actions uuid5 as (snd (sim_execute uuid5 a sim))"

lemma run_actions_sound: "sim_sound sim \<Longrightarrow> list_all valid_sim_action as \<Longrightarrow> sim_sound (run_actions uuid5 as sim)"
  by (induction as arbitrary: sim) (auto intro: sim_execute_sound)

lemma run_actions_failed:
  "s_failed (sim_state sim) \<Longrightarrow> sim_state (run_actions uuid5 as sim) = sim_state sim \<and>
     sim_events (run_actions uuid5 as sim) = sim_events sim"
proof (induction as arbitrary: sim)
  case (Cons a as)
  then have "snd (sim_execute uuid5 a sim) = sim\<lparr>sim_last_events := []\<rparr>"
    by (metis accepted_not_failed sim_execute_rejected snd_conv)
  then show ?case using Cons by simp
qed simp

lemma advance_ticks_stopped: "s_paused s \<or> s_failed s \<Longrightarrow> advance_ticks k n s = (s, [])"
  by (cases k) (auto simp: advance_tick_def)

lemma advance_ticks_add:
  "advance_ticks (j + k) n s = (case advance_ticks j n s of (s1, es1) \<Rightarrow>
     (case advance_ticks k (n + int (length es1)) s1 of (s2, es2) \<Rightarrow> (s2, es1 @ es2)))"
proof (induction j arbitrary: n s)
  case (Suc j)
  show ?case
  proof (cases "advance_tick n s")
    case (Inl e)
    then have "s_paused s \<or> s_failed s" by (auto simp: advance_tick_def Let_def split: if_splits)
    then show ?thesis using Inl by (simp add: advance_ticks_stopped)
  next
    case (Inr r)
    show ?thesis
    proof (cases "s_failed (tk_state r)")
      case True
      then show ?thesis using Inr by (simp add: advance_ticks_stopped)
    next
      case False
      then show ?thesis
        using Inr Suc.IH [of "n + int (length (tk_events r))" "tk_state r"]
        by (simp add: case_prod_beta add.assoc)
    qed
  qed
qed (simp add: case_prod_beta)

lemma advance_execute:
  "sim_state (snd (sim_execute uuid5 (AdvanceTime k) sim)) =
     fst (advance_ticks (nat k) (int (length (sim_events sim))) (sim_state sim)) \<and>
   sim_events (snd (sim_execute uuid5 (AdvanceTime k) sim)) =
     sim_events sim @ snd (advance_ticks (nat k) (int (length (sim_events sim))) (sim_state sim))"
proof (cases "sv_valid (validate_sim_action (sim_state sim) (AdvanceTime k))")
  case True
  then show ?thesis by (simp add: sim_execute_accepted(1) sim_step_def)
next
  case False
  then have "s_paused (sim_state sim) \<or> s_failed (sim_state sim)" by (auto split: if_splits)
  then show ?thesis by (simp add: sim_execute_rejected [OF False] advance_ticks_stopped)
qed

section \<open>What one tick does to the projects\<close>

definition due :: "project_type \<Rightarrow> project \<Rightarrow> bool" where
  "due t p \<longleftrightarrow> pj_type p = t \<and> pj_remaining p \<le> 1"

lemma fold_step_project_amounts:
  "pl_housing (fold step_project ps l) = pl_housing l + (\<Sum>p\<leftarrow>filter (due Housing) ps. pj_amount p) \<and>
   pl_power (fold step_project ps l) = pl_power l + (\<Sum>p\<leftarrow>filter (due Power) ps. pj_amount p) \<and>
   pl_active (fold step_project ps l) = pl_active l @
      map (\<lambda>p. p\<lparr>pj_progress := pj_duration p - pj_remaining p + 1, pj_remaining := pj_remaining p - 1\<rparr>)
        (filter (\<lambda>p. 1 < pj_remaining p) ps)"
proof (induction ps arbitrary: l)
  case (Cons p ps)
  show ?case
  proof (cases "pj_remaining p \<le> 1")
    case True
    then show ?thesis
      using Cons.IH [of "step_project p l"]
      by (cases "pj_type p") (simp_all add: step_project_def progress_project_def Let_def due_def)
  next
    case False
    then show ?thesis
      using Cons.IH [of "step_project p l"]
      by (simp add: step_project_def progress_project_def Let_def due_def)
  qed
qed simp

end
