(* ===== verification/Recovery.thy ===== *)
theory Recovery
  imports Attempts
begin

text \<open>
  \<open>runtime/recovery.py\<close>: the crash points, the report of a reconciliation, and the dispatcher that
  picks a reconciler strictly by the adapter type of the persisted checkpoint.
\<close>

datatype crash_point =
  AfterPrepared | BeforeExecution | AfterExecution | AfterObservation | AfterVerification | AfterCommit

record report =
  rp_attempt :: attempt
  rp_class :: classification
  rp_reason :: string
  rp_prior :: snapshot
  rp_current :: "snapshot option"
  rp_expected :: "snapshot option"
  rp_result :: "execution_result option"

type_synonym reconciler = "attempt \<Rightarrow> snapshot \<Rightarrow> snapshot option \<Rightarrow> (exn, report) result"

type_synonym dispatcher = "(string \<times> reconciler) list"

definition dispatcher_register :: "string \<Rightarrow> reconciler \<Rightarrow> dispatcher \<Rightarrow> (exn, dispatcher) result" where
  "dispatcher_register adapter_type f d = (let key = strip adapter_type in
     if key = [] then raise (Exn ValueErr ''reconciliation adapter type must not be empty'')
     else if map_of d key \<noteq> None
     then raise (Exn ValueErr (''reconciler already registered for adapter type '' @ str_repr key))
     else ok (AList.update key f d))"

definition dispatcher_create :: "(string \<times> reconciler) list \<Rightarrow> (exn, dispatcher) result" where
  "dispatcher_create registrations = rfold (\<lambda>(t, f). dispatcher_register t f) registrations []"

definition dispatcher_types :: "dispatcher \<Rightarrow> string list" where
  "dispatcher_types d = sort (map fst d)"

definition dispatcher_reconcile ::
  "dispatcher \<Rightarrow> attempt \<Rightarrow> snapshot \<Rightarrow> snapshot option \<Rightarrow> (exn, report) result" where
  "dispatcher_reconcile d a prior current =
     (if case current of None \<Rightarrow> False | Some c \<Rightarrow> snap_adapter c \<noteq> snap_adapter prior
      then raise (Exn AdapterReconciliationMismatch
        ''current adapter snapshot type does not match the persisted checkpoint'')
      else case map_of d (snap_adapter prior) of
        None \<Rightarrow> raise (Exn UnsupportedAdapterReconciliation
          (''no reconciler registered for adapter type '' @ str_repr (snap_adapter prior)))
      | Some f \<Rightarrow> f a prior current)"

lemma dispatcher_reconcile_ok:
  "dispatcher_reconcile d a prior current = ok r \<Longrightarrow>
     (\<exists>f. map_of d (snap_adapter prior) = Some f \<and> f a prior current = ok r) \<and>
     (\<forall>c. current = Some c \<longrightarrow> snap_adapter c = snap_adapter prior)"
  by (auto simp: dispatcher_reconcile_def split: option.splits if_splits)

end
