(* ===== verification/Persistence.thy ===== *)
theory Persistence
  imports RuntimeModels "HOL-Library.Product_Lexorder"
begin

text \<open>
  The durable records of \<open>persistence/models.py\<close> and the transactional in-memory repositories of
  \<open>persistence/in_memory.py\<close>. The store has the four dictionaries of \<open>InMemoryPersistenceState\<close>; each
  repository method is a program over it, with the persistence errors it raises. A unit of work
  takes a copy of the store when it begins and puts it back when it rolls back. \<open>store_ok\<close> is the
  integrity that the repositories keep between them.
\<close>

section \<open>Records\<close>

record task_record =
  tr_task :: task
  tr_cancel :: bool
  tr_state :: safeguard_state

record event_record =
  er_id :: uuid
  er_event :: event

record approval_record =
  ar_approval :: approval_request
  ar_reason :: "string option"

record checkpoint_metadata =
  cm_id :: uuid
  cm_task :: uuid
  cm_sequence :: int
  cm_tick :: int
  cm_sim_version :: int
  cm_adapter :: string
  cm_adapter_version :: int
  cm_obs_sequence :: int
  cm_seed :: string
  cm_created :: int

record checkpoint =
  cp_meta :: checkpoint_metadata
  cp_state :: jobject

text \<open>\<open>ApprovalRecord.validate_resolution\<close>\<close>

definition valid_approval_record :: "approval_record \<Rightarrow> bool" where
  "valid_approval_record r \<longleftrightarrow>
     (appr_status (ar_approval r) = ApPending) = (appr_resolved (ar_approval r) = None)"

section \<open>The store\<close>

record store =
  st_tasks :: "(uuid \<times> task_record) list"
  st_events :: "(uuid \<times> event_record list) list"
  st_approvals :: "(uuid \<times> approval_record) list"
  st_checkpoints :: "(uuid \<times> checkpoint list) list"

definition empty_store :: store where
  "empty_store = \<lparr>st_tasks = [], st_events = [], st_approvals = [], st_checkpoints = []\<rparr>"

type_synonym 'a store_op = "(store, exn, 'a) prog"

definition stream_of :: "(uuid \<times> 'r list) list \<Rightarrow> uuid \<Rightarrow> 'r list" where
  "stream_of d k = (case map_of d k of None \<Rightarrow> [] | Some rs \<Rightarrow> rs)"

definition last_opt :: "'r list \<Rightarrow> 'r option" where
  "last_opt rs = (if rs = [] then None else Some (last rs))"

section \<open>Tasks\<close>

definition task_missing :: "uuid \<Rightarrow> exn" where
  "task_missing k = Exn RecordNotFound (''task '' @ uuid_text k @ '' was not found'')"

definition task_create :: "task_record \<Rightarrow> unit store_op" where
  "task_create r s = (let k = task_id (tr_task r) in
     if map_of (st_tasks s) k \<noteq> None
     then (raise (Exn DuplicateRecord (''task '' @ uuid_text k @ '' already exists'')), s)
     else (ok (), s\<lparr>st_tasks := AList.update k r (st_tasks s)\<rparr>))"

definition task_get :: "uuid \<Rightarrow> task_record store_op" where
  "task_get k s = (case map_of (st_tasks s) k of
     None \<Rightarrow> (raise (task_missing k), s) | Some r \<Rightarrow> (ok r, s))"

definition task_update :: "task_record \<Rightarrow> unit store_op" where
  "task_update r = (let k = task_id (tr_task r) in
     seq (task_get k) (\<lambda>current.
       if task_seq (tr_task r) < task_seq (tr_task current) \<or>
          task_updated (tr_task r) < task_updated (tr_task current)
       then throw (Exn StaleUpdate (''task '' @ uuid_text k @ '' update is stale''))
       else modify (\<lambda>s. s\<lparr>st_tasks := AList.update k r (st_tasks s)\<rparr>)))"

definition task_list :: "store \<Rightarrow> task_record list" where
  "task_list s = sort_key (\<lambda>r. (task_created (tr_task r), uuid_text (task_id (tr_task r))))
     (map snd (st_tasks s))"

section \<open>Events\<close>

fun dict_ids :: "(uuid \<times> event_record list) list \<Rightarrow> uuid list" where
  "dict_ids [] = []"
| "dict_ids ((k, rs) # d) = map er_id rs @ dict_ids d"

definition event_ids :: "store \<Rightarrow> uuid list" where
  "event_ids s = dict_ids (st_events s)"

text \<open>The first loop of \<open>append_many\<close>, with \<open>expected_by_task\<close> and \<open>pending_identifiers\<close>.\<close>

definition check_append ::
  "store \<Rightarrow> event_record \<Rightarrow> (uuid \<times> int) list \<times> uuid list \<Rightarrow> (exn, (uuid \<times> int) list \<times> uuid list) result"
  where
  "check_append s r acc = (case acc of (expected_by_task, pending) \<Rightarrow>
     (let k = ev_task (er_event r);
          expected = (case map_of expected_by_task k of
            Some n \<Rightarrow> n | None \<Rightarrow> int (length (stream_of (st_events s) k)) + 1) in
      if map_of (st_tasks s) k = None then raise (task_missing k)
      else if er_id r \<in> set (event_ids s) \<or> er_id r \<in> set pending
      then raise (Exn DuplicateRecord (''event '' @ uuid_text (er_id r) @ '' already exists''))
      else if ev_sequence (er_event r) \<noteq> expected
      then raise (Exn SequenceConflict (''expected event sequence '' @ int_text expected @
        '', received '' @ int_text (ev_sequence (er_event r))))
      else ok (AList.update k (expected + 1) expected_by_task, er_id r # pending)))"

definition push_event :: "event_record \<Rightarrow> store \<Rightarrow> store" where
  "push_event r s = (let k = ev_task (er_event r) in
     s\<lparr>st_events := AList.update k (stream_of (st_events s) k @ [r]) (st_events s)\<rparr>)"

definition event_append_many :: "event_record list \<Rightarrow> unit store_op" where
  "event_append_many rs s = (case rfold (check_append s) rs ([], []) of
     Inl e \<Rightarrow> (raise e, s)
   | Inr _ \<Rightarrow> (ok (), fold push_event rs s))"

definition event_append :: "event_record \<Rightarrow> unit store_op" where
  "event_append r = event_append_many [r]"

definition event_list :: "uuid \<Rightarrow> store \<Rightarrow> event_record list" where
  "event_list k s = stream_of (st_events s) k"

definition event_latest :: "uuid \<Rightarrow> store \<Rightarrow> event_record option" where
  "event_latest k s = last_opt (stream_of (st_events s) k)"

definition event_get_by_sequence :: "uuid \<Rightarrow> int \<Rightarrow> event_record store_op" where
  "event_get_by_sequence k n s = (let rs = stream_of (st_events s) k in
     if n < 1 \<or> n > int (length rs)
     then (raise (Exn RecordNotFound (''event '' @ uuid_text k @ ''/'' @ int_text n @ '' was not found'')), s)
     else (ok (rs ! nat (n - 1)), s))"

section \<open>Approvals\<close>

definition is_pending :: "approval_record \<Rightarrow> bool" where
  "is_pending r \<longleftrightarrow> appr_status (ar_approval r) = ApPending"

text \<open>\<open>model_dump_json\<close> of two actions is the same text; the order of the parameters counts.\<close>

definition approval_create :: "approval_record \<Rightarrow> unit store_op" where
  "approval_create r s = (let a = ar_approval r in
     if map_of (st_tasks s) (appr_task a) = None then (raise (task_missing (appr_task a)), s)
     else if map_of (st_approvals s) (appr_id a) \<noteq> None
     then (raise (Exn DuplicateRecord (''approval '' @ uuid_text (appr_id a) @ '' already exists'')), s)
     else if appr_status a = ApPending \<and>
       (\<exists>x \<in> set (map snd (st_approvals s)). appr_task (ar_approval x) = appr_task a \<and> is_pending x \<and>
          dump_action (appr_action (ar_approval x)) = dump_action (appr_action a))
     then (raise (Exn DuplicateRecord ''a pending approval already exists for this action''), s)
     else (ok (), s\<lparr>st_approvals := AList.update (appr_id a) r (st_approvals s)\<rparr>))"

definition approval_get :: "uuid \<Rightarrow> approval_record store_op" where
  "approval_get k s = (case map_of (st_approvals s) k of
     None \<Rightarrow> (raise (Exn RecordNotFound (''approval '' @ uuid_text k @ '' was not found'')), s)
   | Some r \<Rightarrow> (ok r, s))"

definition approval_order :: "approval_record \<Rightarrow> int \<times> string" where
  "approval_order r = (appr_created (ar_approval r), uuid_text (appr_id (ar_approval r)))"

definition approval_pending :: "uuid \<Rightarrow> store \<Rightarrow> approval_record option" where
  "approval_pending k s = (case sort_key approval_order
       (filter (\<lambda>r. appr_task (ar_approval r) = k \<and> is_pending r) (map snd (st_approvals s))) of
     [] \<Rightarrow> None | r # _ \<Rightarrow> Some r)"

definition approval_update :: "approval_record \<Rightarrow> unit store_op" where
  "approval_update r = (let k = appr_id (ar_approval r) in
     seq (approval_get k) (\<lambda>current.
       if \<not> is_pending current
       then throw (Exn StaleUpdate (''approval '' @ uuid_text k @ '' is already resolved''))
       else if appr_created (ar_approval r) \<noteq> appr_created (ar_approval current)
       then throw (Exn StaleUpdate (''approval '' @ uuid_text k @ '' creation data is immutable''))
       else modify (\<lambda>s. s\<lparr>st_approvals := AList.update k r (st_approvals s)\<rparr>)))"

definition approval_list :: "uuid \<Rightarrow> store \<Rightarrow> approval_record list" where
  "approval_list k s = sort_key approval_order
     (filter (\<lambda>r. appr_task (ar_approval r) = k) (map snd (st_approvals s)))"

section \<open>Checkpoints\<close>

text \<open>\<open>setdefault\<close> has already made the empty stream when the sequence or the identifier is refused.\<close>

definition checkpoint_save :: "checkpoint \<Rightarrow> unit store_op" where
  "checkpoint_save c s = (let m = cp_meta c; k = cm_task m in
     if cm_sim_version m \<noteq> 1
     then (raise (Exn UnsupportedSchemaVersion ''simulation checkpoint schema version is unsupported''), s)
     else if map_of (st_tasks s) k = None then (raise (task_missing k), s)
     else
       (let cs = stream_of (st_checkpoints s) k;
            s' = s\<lparr>st_checkpoints := AList.update k cs (st_checkpoints s)\<rparr>;
            latest = (if cs = [] then -1 else cm_sequence (cp_meta (last cs))) in
        if cm_sequence m \<le> latest
        then (raise (Exn StaleUpdate (''checkpoint sequence '' @ int_text (cm_sequence m) @
               '' is not newer than '' @ int_text latest)), s')
        else if \<exists>(j, xs) \<in> set (st_checkpoints s'). \<exists>x \<in> set xs. cm_id (cp_meta x) = cm_id m
        then (raise (Exn DuplicateRecord (''checkpoint '' @ uuid_text (cm_id m) @ '' already exists'')), s')
        else (ok (), s\<lparr>st_checkpoints := AList.update k (cs @ [c]) (st_checkpoints s)\<rparr>)))"

definition checkpoint_latest :: "uuid \<Rightarrow> store \<Rightarrow> checkpoint option" where
  "checkpoint_latest k s = last_opt (stream_of (st_checkpoints s) k)"

definition checkpoint_by_sequence :: "uuid \<Rightarrow> int \<Rightarrow> checkpoint store_op" where
  "checkpoint_by_sequence k n s =
     (case find (\<lambda>c. cm_sequence (cp_meta c) = n) (stream_of (st_checkpoints s) k) of
        Some c \<Rightarrow> (ok c, s)
      | None \<Rightarrow> (raise (Exn RecordNotFound
          (''checkpoint '' @ uuid_text k @ ''/'' @ int_text n @ '' was not found'')), s))"

section \<open>Unit of work\<close>

record unit_of_work =
  uow_state :: store
  uow_snapshot :: "store option"

definition uow_begin :: "(unit_of_work, exn, unit) prog" where
  "uow_begin u = (if uow_snapshot u \<noteq> None
     then (raise (Exn TransactionErr ''unit of work is already active''), u)
     else (ok (), u\<lparr>uow_snapshot := Some (uow_state u)\<rparr>))"

definition uow_commit :: "(unit_of_work, exn, unit) prog" where
  "uow_commit u = (if uow_snapshot u = None
     then (raise (Exn TransactionErr ''unit of work is not active''), u)
     else (ok (), u\<lparr>uow_snapshot := None\<rparr>))"

definition uow_rollback :: "(unit_of_work, exn, unit) prog" where
  "uow_rollback u = (case uow_snapshot u of
     None \<Rightarrow> (raise (Exn TransactionErr ''unit of work is not active''), u)
   | Some s \<Rightarrow> (ok (), u\<lparr>uow_state := s, uow_snapshot := None\<rparr>))"

definition uow_do :: "'a store_op \<Rightarrow> (unit_of_work, exn, 'a) prog" where
  "uow_do m u = (case m (uow_state u) of (r, s) \<Rightarrow> (r, u\<lparr>uow_state := s\<rparr>))"

text \<open>\<open>with uow: body\<close>: commit when the body returns, roll back and raise again when it raises.\<close>

definition uow_with :: "'a store_op \<Rightarrow> (unit_of_work, exn, 'a) prog" where
  "uow_with body = seq uow_begin (\<lambda>_.
     seq (catch (uow_do body) (\<lambda>e. seq uow_rollback (\<lambda>_. throw e))) (\<lambda>a.
       seq uow_commit (\<lambda>_. ret a)))"

text \<open>A transaction on the shared store: a fresh unit of work around the body.\<close>

definition transaction :: "'a store_op \<Rightarrow> 'a store_op" where
  "transaction body s = (case uow_with body \<lparr>uow_state = s, uow_snapshot = None\<rparr> of
     (r, u) \<Rightarrow> (r, uow_state u))"

lemma transaction_eq:
  "transaction body s = (case body s of (Inl e, s') \<Rightarrow> (Inl e, s) | (Inr a, s') \<Rightarrow> (Inr a, s'))"
  by (auto simp: transaction_def uow_with_def uow_begin_def uow_do_def uow_commit_def uow_rollback_def
    prog_defs split: prod.splits sum.splits)

lemma transaction_raise: "transaction body s = (Inl e, s') \<Longrightarrow> s' = s"
  by (auto simp: transaction_eq split: prod.splits sum.splits)

lemma transaction_return: "transaction body s = (Inr a, s') \<longleftrightarrow> body s = (Inr a, s')"
  by (auto simp: transaction_eq split: prod.splits sum.splits)

end
