(* ===== verification/EventLog.thy ===== *)
theory EventLog
  imports Persistence
begin

text \<open>
  What the runtime relies on in an event log, as an interface: a successful append puts the record at
  the end of its task's stream and its sequence is the next one; a refused append leaves every stream.
  The contract gives contiguous, append-only streams. The in-memory store of \<open>runtime/events.py\<close> and
  the event repository of \<open>persistence/in_memory.py\<close> both meet it.
\<close>

section \<open>The interface\<close>

definition contiguous :: "('r \<Rightarrow> int) \<Rightarrow> 'r list \<Rightarrow> bool" where
  "contiguous number rs \<longleftrightarrow> map number rs = [1..int (length rs)]"

lemma contiguous_Nil [simp]: "contiguous number []"
  by (simp add: contiguous_def)

lemma contiguous_snoc [simp]:
  "contiguous number (rs @ [r]) \<longleftrightarrow> contiguous number rs \<and> number r = int (length rs) + 1"
proof -
  have "[1..int (length rs) + 1] = [1..int (length rs)] @ [int (length rs) + 1]"
    using upto_rec2 [of 1 "int (length rs) + 1"] by simp
  then show ?thesis by (auto simp: contiguous_def add.commute)
qed

lemma contiguous_nth: "contiguous number rs \<Longrightarrow> i < length rs \<Longrightarrow> number (rs ! i) = int i + 1"
  by (metis (no_types, lifting) add.commute contiguous_def length_map nth_map nth_upto
    of_nat_less_iff zle_iff_zadd zless_imp_add1_zle)

locale event_log =
  fixes add :: "'r \<Rightarrow> 's \<Rightarrow> (exn + unit) \<times> 's"
    and stream :: "'s \<Rightarrow> uuid \<Rightarrow> 'r list"
    and owner :: "'r \<Rightarrow> uuid"
    and number :: "'r \<Rightarrow> int"
  assumes add_stream: "add r s = (ok (), s') \<Longrightarrow>
      stream s' k = (if k = owner r then stream s k @ [r] else stream s k)"
    and add_number: "add r s = (ok (), s') \<Longrightarrow> number r = int (length (stream s (owner r))) + 1"
    and add_refused: "add r s = (raise e, s') \<Longrightarrow> stream s' k = stream s k"
begin

text \<open>A log is well formed for a task when its stream is that task's and is numbered from one.\<close>

lemma add_keeps_contiguous:
  assumes "add r s = (res, s')" and "contiguous number (stream s k)"
  shows "contiguous number (stream s' k)"
  using assms add_stream [of r s s' k] add_number [of r s s'] add_refused [of r s _ s' k]
  by (cases res) (auto split: if_splits)

lemma add_keeps_owner:
  assumes "add r s = (res, s')" and "\<forall>x \<in> set (stream s k). owner x = k"
  shows "\<forall>x \<in> set (stream s' k). owner x = k"
  using assms add_stream [of r s s' k] add_refused [of r s _ s' k]
  by (cases res) (auto split: if_splits)

lemma add_prefix: "add r s = (res, s') \<Longrightarrow> \<exists>t. stream s' k = stream s k @ t"
  using add_stream [of r s s' k] add_refused [of r s _ s' k]
  by (cases res) (auto split: if_splits)

text \<open>Appending several records one by one.\<close>

lemma adds_stream:
  assumes "fold (\<lambda>r p. case p of (Inr _, s) \<Rightarrow> add r s | _ \<Rightarrow> p) rs (ok (), s) = (res, s')"
  shows "(contiguous number (stream s k) \<longrightarrow> contiguous number (stream s' k)) \<and>
    (\<exists>t. stream s' k = stream s k @ t)"
proof -
  define f where "f = (\<lambda>r p. case p of (Inr _, s) \<Rightarrow> add r s | _ \<Rightarrow> p)"
  have step: "f r (q, s1) = (if is_ok q then add r s1 else (q, s1))" for r q s1
    by (cases q) (simp_all add: f_def)
  have "fold f rs (q, s1) = (res, s') \<Longrightarrow>
      (contiguous number (stream s1 k) \<longrightarrow> contiguous number (stream s' k)) \<and>
      (\<exists>t. stream s' k = stream s1 k @ t)" for q s1
  proof (induction rs arbitrary: q s1)
    case (Cons r rs)
    show ?case
    proof (cases "is_ok q")
      case True
      obtain q2 s2 where a: "add r s1 = (q2, s2)" by (cases "add r s1")
      with Cons.prems True have "fold f rs (q2, s2) = (res, s')" by (simp add: step)
      from Cons.IH [OF this] add_keeps_contiguous [OF a, of k] add_prefix [OF a, of k]
      show ?thesis by force
    next
      case False
      with Cons.prems have "fold f rs (q, s1) = (res, s')" by (simp add: step)
      from Cons.IH [OF this] show ?thesis .
    qed
  qed simp
  from this [of "ok ()" s] assms show ?thesis by (simp add: f_def)
qed

end

section \<open>The runtime's event store\<close>

text \<open>\<open>InMemoryEventStore\<close>: a defaultdict, so that looking a stream up to append makes it.\<close>

type_synonym event_store = "(uuid \<times> event list) list"

definition store_append :: "event \<Rightarrow> event_store \<Rightarrow> (exn + unit) \<times> event_store" where
  "store_append e d = (let k = ev_task e; rs = stream_of d k; expected = int (length rs) + 1 in
     if ev_sequence e \<noteq> expected
     then (raise (Exn ValueErr (''expected event sequence '' @ int_text expected @
       '', received '' @ int_text (ev_sequence e))), AList.update k rs d)
     else (ok (), AList.update k (rs @ [e]) d))"

definition store_list :: "event_store \<Rightarrow> uuid \<Rightarrow> event list" where
  "store_list d k = stream_of d k"

definition store_latest :: "event_store \<Rightarrow> uuid \<Rightarrow> event option" where
  "store_latest d k = last_opt (stream_of d k)"

lemma stream_of_update:
  "stream_of (AList.update k rs d) k' = (if k' = k then rs else stream_of d k')"
  by (simp add: stream_of_def dict_set_get)

interpretation runtime_log: event_log store_append store_list ev_task ev_sequence
  by unfold_locales (auto simp: store_append_def store_list_def Let_def stream_of_update split: if_splits)

section \<open>The event repository\<close>

definition record_owner :: "event_record \<Rightarrow> uuid" where
  "record_owner r = ev_task (er_event r)"

definition record_number :: "event_record \<Rightarrow> int" where
  "record_number r = ev_sequence (er_event r)"

definition repository_list :: "store \<Rightarrow> uuid \<Rightarrow> event_record list" where
  "repository_list s k = event_list k s"

lemma event_append_eq:
  "event_append r s = (case check_append s r ([], []) of Inl e \<Rightarrow> (raise e, s) | Inr _ \<Rightarrow> (ok (), push_event r s))"
  by (cases "check_append s r ([], [])") (auto simp: event_append_def event_append_many_def)

lemma push_event_stream:
  "stream_of (st_events (push_event r s)) k =
     (if k = record_owner r then stream_of (st_events s) k @ [r] else stream_of (st_events s) k)"
  by (simp add: push_event_def record_owner_def Let_def stream_of_update)

lemma check_append_ok:
  "check_append s r (ex, pend) = ok acc \<longleftrightarrow>
     map_of (st_tasks s) (record_owner r) \<noteq> None \<and> er_id r \<notin> set (event_ids s) \<and> er_id r \<notin> set pend \<and>
     record_number r = (case map_of ex (record_owner r) of
       Some n \<Rightarrow> n | None \<Rightarrow> int (length (stream_of (st_events s) (record_owner r))) + 1) \<and>
     acc = (AList.update (record_owner r) (record_number r + 1) ex, er_id r # pend)"
  unfolding record_owner_def record_number_def
  by (auto simp: check_append_def Let_def split: if_splits)

interpretation repository_log: event_log event_append repository_list record_owner record_number
proof
  fix r s s' k
  assume "event_append r s = (ok (), s')"
  then obtain acc where "check_append s r ([], []) = ok acc" and s': "s' = push_event r s"
    by (auto simp: event_append_eq split: sum.splits)
  then show "repository_list s' k = (if k = record_owner r then repository_list s k @ [r] else repository_list s k)"
    and "record_number r = int (length (repository_list s (record_owner r))) + 1"
    by (simp_all add: repository_list_def event_list_def push_event_stream check_append_ok)
next
  fix r s e s' k
  assume "event_append r s = (raise e, s')"
  then show "repository_list s' k = repository_list s k"
    by (auto simp: event_append_eq split: sum.splits)
qed

end
