(* ===== verification/Integrity.thy ===== *)
theory Integrity
  imports EventLog
begin

text \<open>
  The integrity of the store. A batch append is the same as appending one record after the other, but
  all or nothing (\<open>append_many_appends\<close>). \<open>store_ok\<close> says what the four dictionaries promise together;
  every repository method keeps it, whether it returns or raises, and so does every transaction.
\<close>

section \<open>A batch append is a sequence of appends\<close>

fun appends :: "event_record list \<Rightarrow> unit store_op" where
  "appends [] = ret ()"
| "appends (r # rs) = seq (event_append r) (\<lambda>_. appends rs)"

definition expected_next :: "store \<Rightarrow> (uuid \<times> int) list \<Rightarrow> uuid \<Rightarrow> int" where
  "expected_next s ex k =
     (case map_of ex k of Some n \<Rightarrow> n | None \<Rightarrow> int (length (stream_of (st_events s) k)) + 1)"

text \<open>Two stages of the checking loop that accept the same records.\<close>

definition same_stage ::
  "store \<Rightarrow> (uuid \<times> int) list \<times> uuid list \<Rightarrow> store \<Rightarrow> (uuid \<times> int) list \<times> uuid list \<Rightarrow> bool" where
  "same_stage s a s' a' \<longleftrightarrow> st_tasks s = st_tasks s' \<and>
     (\<forall>k. expected_next s (fst a) k = expected_next s' (fst a') k) \<and>
     set (event_ids s) \<union> set (snd a) = set (event_ids s') \<union> set (snd a')"

lemma check_append_eq:
  "check_append s r a =
     (if map_of (st_tasks s) (record_owner r) = None then raise (task_missing (record_owner r))
      else if er_id r \<in> set (event_ids s) \<union> set (snd a)
      then raise (Exn DuplicateRecord (''event '' @ uuid_text (er_id r) @ '' already exists''))
      else if record_number r \<noteq> expected_next s (fst a) (record_owner r)
      then raise (Exn SequenceConflict (''expected event sequence '' @
        int_text (expected_next s (fst a) (record_owner r)) @ '', received '' @ int_text (record_number r)))
      else ok (AList.update (record_owner r) (record_number r + 1) (fst a), er_id r # snd a))"
  by (cases a) (simp add: check_append_def Let_def record_owner_def record_number_def expected_next_def)

lemma expected_next_update:
  "expected_next s (AList.update k n ex) k' = (if k' = k then n else expected_next s ex k')"
  by (simp add: expected_next_def dict_set_get)

lemma same_stage_step:
  assumes "same_stage s a s' a'"
  shows "check_append s r a = raise e \<longleftrightarrow> check_append s' r a' = raise e"
    and "check_append s r a = ok b \<Longrightarrow> \<exists>b'. check_append s' r a' = ok b' \<and> same_stage s b s' b'"
proof -
  note same = assms [unfolded same_stage_def]
  have ids: "er_id r \<in> set (event_ids s) \<union> set (snd a) \<longleftrightarrow> er_id r \<in> set (event_ids s') \<union> set (snd a')"
    using same by blast
  show "check_append s r a = raise e \<longleftrightarrow> check_append s' r a' = raise e"
    unfolding check_append_eq ids using same by simp
  show "\<exists>b'. check_append s' r a' = ok b' \<and> same_stage s b s' b'" if "check_append s r a = ok b"
    using that same unfolding check_append_eq ids
    by (auto simp: same_stage_def expected_next_update split: if_splits)
qed

lemma same_stage_rfold:
  "same_stage s a s' a' \<Longrightarrow>
     (case rfold (check_append s) rs a of Inl e \<Rightarrow> Inl e | Inr _ \<Rightarrow> Inr ()) =
     (case rfold (check_append s') rs a' of Inl e \<Rightarrow> Inl e | Inr _ \<Rightarrow> Inr ())"
proof (induction rs arbitrary: a a')
  case (Cons r rs)
  note step = same_stage_step [OF Cons.prems]
  show ?case
  proof (cases "check_append s r a")
    case (Inl e)
    then have "check_append s' r a' = raise e" using step(1) by blast
    with Inl show ?thesis by simp
  next
    case (Inr b)
    from step(2) [OF this] obtain b' where "check_append s' r a' = ok b'" "same_stage s b s' b'" by blast
    with Inr Cons.IH show ?thesis by simp
  qed
qed simp

lemma dict_ids_new: "map_of d k = None \<Longrightarrow> dict_ids (AList.update k [r] d) = dict_ids d @ [er_id r]"
  by (induction d rule: dict_ids.induct) (auto split: if_splits)

lemma dict_ids_set:
  "map_of d k = Some xs \<Longrightarrow> set (dict_ids (AList.update k (xs @ [r]) d)) = insert (er_id r) (set (dict_ids d))"
  by (induction d rule: dict_ids.induct) (auto split: if_splits)

lemma dict_ids_distinct:
  "map_of d k = Some xs \<Longrightarrow> distinct (dict_ids d) \<Longrightarrow> er_id r \<notin> set (dict_ids d) \<Longrightarrow>
     distinct (dict_ids (AList.update k (xs @ [r]) d))"
  by (induction d rule: dict_ids.induct) (auto simp: dict_ids_set split: if_splits)

lemma event_ids_push: "set (event_ids (push_event r s)) = insert (er_id r) (set (event_ids s))"
  by (auto simp: event_ids_def push_event_def Let_def stream_of_def dict_ids_new dict_ids_set split: option.split)

lemma event_ids_distinct_push:
  "distinct (event_ids s) \<Longrightarrow> er_id r \<notin> set (event_ids s) \<Longrightarrow> distinct (event_ids (push_event r s))"
  by (auto simp: event_ids_def push_event_def Let_def stream_of_def dict_ids_new dict_ids_distinct
    split: option.split)

lemma append_many_Cons:
  "event_append_many (r # rs) s =
     (case event_append r s of (Inl e, s1) \<Rightarrow> (raise e, s)
      | (Inr _, s1) \<Rightarrow> (case event_append_many rs s1 of (Inl e, _) \<Rightarrow> (raise e, s) | (Inr _, s2) \<Rightarrow> (ok (), s2)))"
proof (cases "check_append s r ([], [])")
  case (Inl e)
  then show ?thesis by (simp add: event_append_many_def event_append_eq)
next
  case (Inr a)
  have "same_stage s a (push_event r s) ([], [])"
    using Inr unfolding check_append_eq
    by (auto simp: same_stage_def expected_next_update event_ids_push push_event_stream split: if_splits)
       (auto simp: push_event_def Let_def expected_next_def push_event_stream stream_of_update record_owner_def)
  from same_stage_rfold [OF this, of rs] show ?thesis
    using Inr by (auto simp: event_append_many_def event_append_eq split: sum.splits)
qed

lemma append_many_appends:
  "fst (event_append_many rs s) = fst (appends rs s) \<and>
   snd (event_append_many rs s) = (if is_ok (fst (appends rs s)) then snd (appends rs s) else s)"
proof (induction rs arbitrary: s)
  case Nil
  then show ?case by (simp add: event_append_many_def ret_def)
next
  case (Cons r rs)
  obtain q s1 where a: "event_append r s = (q, s1)" by (cases "event_append r s")
  show ?case
  proof (cases q)
    case (Inl e)
    with a show ?thesis by (simp add: append_many_Cons seq_def)
  next
    case (Inr u)
    obtain q2 s2 where b: "event_append_many rs s1 = (q2, s2)" by (cases "event_append_many rs s1")
    with Cons.IH [of s1] Inr a show ?thesis
      by (cases q2; cases "appends rs s1") (auto simp: append_many_Cons seq_def)
  qed
qed

section \<open>Integrity\<close>

definition tasks_ok :: "store \<Rightarrow> bool" where
  "tasks_ok s \<longleftrightarrow> distinct (map fst (st_tasks s)) \<and> (\<forall>(k, r) \<in> set (st_tasks s). task_id (tr_task r) = k)"

definition events_ok :: "store \<Rightarrow> bool" where
  "events_ok s \<longleftrightarrow> distinct (map fst (st_events s)) \<and> distinct (event_ids s) \<and>
     (\<forall>k. contiguous record_number (repository_list s k) \<and>
       (\<forall>r \<in> set (repository_list s k). record_owner r = k) \<and>
       (repository_list s k \<noteq> [] \<longrightarrow> map_of (st_tasks s) k \<noteq> None))"

definition approvals_ok :: "store \<Rightarrow> bool" where
  "approvals_ok s \<longleftrightarrow> distinct (map fst (st_approvals s)) \<and>
     (\<forall>(k, r) \<in> set (st_approvals s). appr_id (ar_approval r) = k)"

definition checkpoint_number :: "checkpoint \<Rightarrow> int" where
  "checkpoint_number c = cm_sequence (cp_meta c)"

definition checkpoints_ok :: "store \<Rightarrow> bool" where
  "checkpoints_ok s \<longleftrightarrow> distinct (map fst (st_checkpoints s)) \<and>
     (\<forall>k. sorted_wrt (<) (map checkpoint_number (stream_of (st_checkpoints s) k)) \<and>
       (\<forall>c \<in> set (stream_of (st_checkpoints s) k). cm_task (cp_meta c) = k \<and> cm_sim_version (cp_meta c) = 1) \<and>
       (stream_of (st_checkpoints s) k \<noteq> [] \<longrightarrow> map_of (st_tasks s) k \<noteq> None))"

definition store_ok :: "store \<Rightarrow> bool" where
  "store_ok s \<longleftrightarrow> tasks_ok s \<and> events_ok s \<and> approvals_ok s \<and> checkpoints_ok s"

definition keeps_ok :: "'a store_op \<Rightarrow> bool" where
  "keeps_ok m \<longleftrightarrow> (\<forall>s. store_ok s \<longrightarrow> store_ok (snd (m s)))"

lemma keeps_okI: "(\<And>s r s'. store_ok s \<Longrightarrow> m s = (r, s') \<Longrightarrow> store_ok s') \<Longrightarrow> keeps_ok m"
  unfolding keeps_ok_def by (metis prod.collapse)

lemma keeps_okD: "keeps_ok m \<Longrightarrow> store_ok s \<Longrightarrow> m s = (r, s') \<Longrightarrow> store_ok s'"
  unfolding keeps_ok_def by (metis snd_conv)

named_theorems keeps_rules "programs that keep the store's integrity"

lemma keeps_ret [keeps_rules]: "keeps_ok (ret a)"
  by (simp add: keeps_ok_def ret_def)

lemma keeps_throw [keeps_rules]: "keeps_ok (throw e)"
  by (simp add: keeps_ok_def throw_def)

lemma keeps_seq [keeps_rules]: "keeps_ok m \<Longrightarrow> (\<And>a. keeps_ok (f a)) \<Longrightarrow> keeps_ok (seq m f)"
  by (auto simp: keeps_ok_def seq_def split: prod.splits sum.splits)

lemma keeps_gets [keeps_rules]: "keeps_ok (gets f)"
  by (simp add: keeps_ok_def gets_def)

lemma keeps_if [keeps_rules]: "keeps_ok m \<Longrightarrow> keeps_ok m' \<Longrightarrow> keeps_ok (if b then m else m')"
  by simp

lemma keeps_case_option [keeps_rules]:
  "keeps_ok m \<Longrightarrow> (\<And>a. keeps_ok (f a)) \<Longrightarrow> keeps_ok (case x of None \<Rightarrow> m | Some a \<Rightarrow> f a)"
  by (cases x) simp_all

lemma keeps_transaction [keeps_rules]: "keeps_ok m \<Longrightarrow> keeps_ok (transaction m)"
  by (auto simp: keeps_ok_def transaction_eq split: prod.splits sum.splits)

lemma store_ok_tasks:
  assumes "store_ok s" and "task_id (tr_task r) = k"
  shows "store_ok (s\<lparr>st_tasks := AList.update k r (st_tasks s)\<rparr>)"
  using assms
  by (auto simp: store_ok_def tasks_ok_def events_ok_def approvals_ok_def checkpoints_ok_def
    distinct_update dict_set_get event_ids_def repository_list_def event_list_def dest!: dict_set_values)

lemma task_create_keeps [keeps_rules]: "keeps_ok (task_create r)"
  by (rule keeps_okI) (auto simp: task_create_def Let_def store_ok_tasks split: if_splits)

lemma task_get_keeps [keeps_rules]: "keeps_ok (task_get k)"
  by (rule keeps_okI) (auto simp: task_get_def split: option.splits)

lemma task_update_keeps [keeps_rules]: "keeps_ok (task_update r)"
  unfolding task_update_def Let_def
  by (intro keeps_rules) (simp add: keeps_ok_def modify_def store_ok_tasks)

lemma event_append_keeps [keeps_rules]: "keeps_ok (event_append r)"
proof (rule keeps_okI)
  fix s q s' assume s: "store_ok s" and a: "event_append r s = (q, s')"
  show "store_ok s'"
  proof (cases q)
    case (Inl e)
    with a s show ?thesis by (auto simp: event_append_eq split: sum.splits)
  next
    case (Inr u)
    then obtain acc where c: "check_append s r ([], []) = ok acc" and s': "s' = push_event r s"
      using a by (auto simp: event_append_eq split: sum.splits)
    have same: "st_tasks s' = st_tasks s" "st_approvals s' = st_approvals s"
        "st_checkpoints s' = st_checkpoints s"
      by (simp_all add: s' push_event_def Let_def)
    have ev: "events_ok s" using s by (simp add: store_ok_def)
    have streams: "contiguous record_number (repository_list s' k)"
        "\<forall>x \<in> set (repository_list s' k). record_owner x = k" for k
      using repository_log.add_keeps_contiguous [OF a, of k] repository_log.add_keeps_owner [OF a, of k] ev
      by (simp_all add: events_ok_def)
    have nonempty: "repository_list s' k \<noteq> [] \<longrightarrow> map_of (st_tasks s') k \<noteq> None" for k
      unfolding same using ev c
      by (auto simp: events_ok_def check_append_ok s' repository_list_def event_list_def
        push_event_stream split: if_splits)
    have keys: "distinct (map fst (st_events s'))"
      using ev by (simp add: s' push_event_def Let_def events_ok_def distinct_update)
    have ids: "distinct (event_ids s')"
      using ev c by (simp add: s' event_ids_distinct_push events_ok_def check_append_ok)
    have "events_ok s'" unfolding events_ok_def using streams nonempty keys ids by blast
    then show ?thesis using s
      unfolding store_ok_def tasks_ok_def approvals_ok_def checkpoints_ok_def same by blast
  qed
qed

lemma appends_keeps: "keeps_ok (appends rs)"
  by (induction rs) (auto intro: keeps_rules)

lemma event_append_many_keeps [keeps_rules]: "keeps_ok (event_append_many rs)"
  using appends_keeps [of rs] by (simp add: keeps_ok_def append_many_appends)

lemma store_ok_approvals:
  assumes "store_ok s" and "appr_id (ar_approval r) = k"
  shows "store_ok (s\<lparr>st_approvals := AList.update k r (st_approvals s)\<rparr>)"
  using assms
  by (auto simp: store_ok_def tasks_ok_def events_ok_def approvals_ok_def checkpoints_ok_def
    distinct_update event_ids_def repository_list_def event_list_def dest!: dict_set_values)

lemma approval_create_keeps [keeps_rules]: "keeps_ok (approval_create r)"
  by (rule keeps_okI) (auto simp: approval_create_def Let_def store_ok_approvals split: if_splits)

lemma approval_get_keeps [keeps_rules]: "keeps_ok (approval_get k)"
  by (rule keeps_okI) (auto simp: approval_get_def split: option.splits)

lemma approval_update_keeps [keeps_rules]: "keeps_ok (approval_update r)"
  unfolding approval_update_def Let_def
  by (intro keeps_rules) (simp add: keeps_ok_def modify_def store_ok_approvals)

lemma store_ok_checkpoints:
  assumes s: "store_ok s" and "map_of (st_tasks s) k \<noteq> None"
    and "sorted_wrt (<) (map checkpoint_number cs)"
    and "\<forall>c \<in> set cs. cm_task (cp_meta c) = k \<and> cm_sim_version (cp_meta c) = 1"
  shows "store_ok (s\<lparr>st_checkpoints := AList.update k cs (st_checkpoints s)\<rparr>)"
  using assms
  by (auto simp: store_ok_def tasks_ok_def events_ok_def approvals_ok_def checkpoints_ok_def
    distinct_update event_ids_def repository_list_def event_list_def stream_of_update)

lemma sorted_snoc:
  "sorted_wrt (<) (map f xs) \<Longrightarrow> (xs \<noteq> [] \<Longrightarrow> f (last xs) < (f x :: int)) \<Longrightarrow> sorted_wrt (<) (map f (xs @ [x]))"
  by (cases xs rule: rev_cases) (auto simp: sorted_wrt_append intro: less_trans)

lemma store_ok_if:
  "(b \<Longrightarrow> store_ok s) \<Longrightarrow> (\<not> b \<Longrightarrow> store_ok (snd p)) \<Longrightarrow> store_ok (snd (if b then (x, s) else p))"
  by simp

lemma store_ok_snd: "store_ok s \<Longrightarrow> store_ok (snd (x, s))"
  by simp

lemma checkpoint_save_keeps [keeps_rules]: "keeps_ok (checkpoint_save c)"
  unfolding keeps_ok_def
proof (intro allI impI)
  fix s assume s: "store_ok s"
  let ?k = "cm_task (cp_meta c)"
  let ?cs = "stream_of (st_checkpoints s) ?k"
  have cs: "sorted_wrt (<) (map checkpoint_number ?cs)"
      "\<forall>x \<in> set ?cs. cm_task (cp_meta x) = ?k \<and> cm_sim_version (cp_meta x) = 1"
    using s by (auto simp: store_ok_def checkpoints_ok_def)
  have touched: "store_ok (s\<lparr>st_checkpoints := AList.update ?k ?cs (st_checkpoints s)\<rparr>)"
    if "map_of (st_tasks s) ?k \<noteq> None"
    using s that cs by (rule store_ok_checkpoints)
  have saved: "store_ok (s\<lparr>st_checkpoints := AList.update ?k (?cs @ [c]) (st_checkpoints s)\<rparr>)"
    if "map_of (st_tasks s) ?k \<noteq> None" "\<not> cm_sim_version (cp_meta c) \<noteq> 1"
      "\<not> cm_sequence (cp_meta c) \<le> (if ?cs = [] then -1 else cm_sequence (cp_meta (last ?cs)))"
  proof (rule store_ok_checkpoints [OF s that(1)])
    show "sorted_wrt (<) (map checkpoint_number (?cs @ [c]))"
      using cs(1) that(3) by (intro sorted_snoc) (auto simp: checkpoint_number_def)
  qed (use cs(2) that(2) in auto)
  show "store_ok (snd (checkpoint_save c s))"
    unfolding checkpoint_save_def Let_def
    by (intro store_ok_if store_ok_snd) ((rule saved, assumption+) | (rule touched, assumption) | rule s)+
qed

lemma empty_store_ok: "store_ok empty_store"
  by (simp add: store_ok_def tasks_ok_def events_ok_def approvals_ok_def checkpoints_ok_def empty_store_def
    event_ids_def repository_list_def event_list_def stream_of_def)

end
