(* ===== verification/World.thy ===== *)
theory World
  imports Integrity DecisionContext Recovery
begin

text \<open>
  The world that the runtime acts on and the parties that it calls. The world holds the shared store,
  the number of clock readings, cancellation checks and crash points so far, and the states of the
  adapter and of the decision provider. The environment holds what is not the runtime's own code: the
  clock, \<open>uuid5\<close>, the digest, the adapter's and the provider's operations, the cancellation check, the
  crash hook and the reconcilers. All of them are arbitrary here.
\<close>

section \<open>Parties\<close>

text \<open>The adapter contract of \<open>adapters/base.py\<close>; an observation is stamped with the time it is given.\<close>

record 'a adapter =
  adp_fresh :: bool
  adp_type :: string
  adp_initialize :: "'a \<Rightarrow> (exn, unit) result \<times> 'a"
  adp_observe :: "int \<Rightarrow> 'a \<Rightarrow> (exn, observation) result \<times> 'a"
  adp_available :: "'a \<Rightarrow> (exn, action_definition list) result \<times> 'a"
  adp_validate :: "action \<Rightarrow> 'a \<Rightarrow> (exn, adapter_validation) result \<times> 'a"
  adp_execute :: "action \<Rightarrow> 'a \<Rightarrow> (exn, execution_result) result \<times> 'a"
  adp_shutdown :: "'a \<Rightarrow> (exn, unit) result \<times> 'a"
  adp_snapshot :: "('a \<Rightarrow> (exn, snapshot) result) option"

record ('a, 'p) env =
  env_clock :: "nat \<Rightarrow> int"
  env_uuid5 :: "string \<Rightarrow> uuid"
  env_sha :: digest
  env_config :: configuration
  env_adapter :: "'a adapter"
  env_decide :: "decision_context \<Rightarrow> 'p \<Rightarrow> (exn, provider_result) result \<times> 'p"
  env_cancelled :: "uuid \<Rightarrow> nat \<Rightarrow> bool"
  env_crash :: "crash_point \<Rightarrow> nat \<Rightarrow> exn option"
  env_reconcilers :: dispatcher

record ('a, 'p) world =
  w_store :: store
  w_clock :: nat
  w_checks :: nat
  w_points :: nat
  w_adapter :: 'a
  w_provider :: 'p

type_synonym ('a, 'p, 'x) run = "(('a, 'p) world, exn, 'x) prog"

section \<open>Access\<close>

definition on_store :: "'x store_op \<Rightarrow> ('a, 'p, 'x) run" where
  "on_store m w = (case m (w_store w) of (r, s) \<Rightarrow> (r, w\<lparr>w_store := s\<rparr>))"

definition now :: "('a, 'p) env \<Rightarrow> ('a, 'p, int) run" where
  "now E w = (ok (env_clock E (w_clock w)), w\<lparr>w_clock := Suc (w_clock w)\<rparr>)"

definition on_adapter :: "('a \<Rightarrow> (exn, 'x) result \<times> 'a) \<Rightarrow> ('a, 'p, 'x) run" where
  "on_adapter m w = (case m (w_adapter w) of (r, a) \<Rightarrow> (r, w\<lparr>w_adapter := a\<rparr>))"

definition ask_provider :: "('a, 'p) env \<Rightarrow> decision_context \<Rightarrow> ('a, 'p, provider_result) run" where
  "ask_provider E c w = (case env_decide E c (w_provider w) of (r, p) \<Rightarrow> (r, w\<lparr>w_provider := p\<rparr>))"

definition cancellation_check :: "('a, 'p) env \<Rightarrow> uuid \<Rightarrow> ('a, 'p, bool) run" where
  "cancellation_check E k w = (ok (env_cancelled E k (w_checks w)), w\<lparr>w_checks := Suc (w_checks w)\<rparr>)"

text \<open>\<open>RuntimeEngine._crash\<close>: the hook may raise.\<close>

definition crash :: "('a, 'p) env \<Rightarrow> crash_point \<Rightarrow> ('a, 'p, unit) run" where
  "crash E p w = (case env_crash E p (w_points w) of
     None \<Rightarrow> (ok (), w\<lparr>w_points := Suc (w_points w)\<rparr>)
   | Some e \<Rightarrow> (raise e, w\<lparr>w_points := Suc (w_points w)\<rparr>))"

definition observe :: "('a, 'p) env \<Rightarrow> ('a, 'p, observation) run" where
  "observe E = seq (now E) (\<lambda>t. on_adapter (adp_observe (env_adapter E) t))"

section \<open>Programs that keep the store\<close>

text \<open>\<open>keeps_store\<close>: the store is the same after the program, however it ends.\<close>

definition keeps_store :: "('a, 'p, 'x) run \<Rightarrow> bool" where
  "keeps_store m \<longleftrightarrow> (\<forall>w. w_store (snd (m w)) = w_store w)"

named_theorems store_rules "programs that do not touch the store"

lemma keeps_storeD: "keeps_store m \<Longrightarrow> m w = (r, w') \<Longrightarrow> w_store w' = w_store w"
  unfolding keeps_store_def by (metis snd_conv)

lemma keeps_store_basic [store_rules]:
  "keeps_store (now E)" "keeps_store (on_adapter f)" "keeps_store (ask_provider E c)"
  "keeps_store (cancellation_check E k)" "keeps_store (crash E p)" "keeps_store (ret x)"
  "keeps_store (throw e)" "keeps_store (gets g)" "keeps_store (lift_result r)"
  by (auto simp: keeps_store_def now_def on_adapter_def ask_provider_def cancellation_check_def crash_def
    prog_defs split: prod.splits option.splits)

lemma keeps_store_seq [store_rules]:
  "keeps_store m \<Longrightarrow> (\<And>a. keeps_store (f a)) \<Longrightarrow> keeps_store (seq m f)"
  unfolding keeps_store_def seq_def
  by (auto split: prod.splits sum.splits) (metis snd_conv)+

lemma keeps_store_observe [store_rules]: "keeps_store (observe E)"
  unfolding observe_def by (intro store_rules)

section \<open>Predicates on the store\<close>

text \<open>
  \<open>maintains P m\<close>: whatever way the program ends, a store in \<open>P\<close> stays in \<open>P\<close>. With \<open>P\<close> the integrity of
  the store this is inherited from the repositories.
\<close>

definition maintains :: "(store \<Rightarrow> bool) \<Rightarrow> ('a, 'p, 'x) run \<Rightarrow> bool" where
  "maintains P m \<longleftrightarrow> (\<forall>w. P (w_store w) \<longrightarrow> P (w_store (snd (m w))))"

lemma maintains_snd: "maintains P m \<Longrightarrow> P (w_store w) \<Longrightarrow> P (w_store (snd (m w)))"
  by (simp add: maintains_def)

named_theorems maintain_rules "programs that maintain a predicate on the store"

lemma maintainsD: "maintains P m \<Longrightarrow> P (w_store w) \<Longrightarrow> m w = (r, w') \<Longrightarrow> P (w_store w')"
  unfolding maintains_def by (metis snd_conv)

lemma maintains_keeps: "keeps_store m \<Longrightarrow> maintains P m"
  by (simp add: maintains_def keeps_store_def)

lemma maintains_seq [maintain_rules]:
  "maintains P m \<Longrightarrow> (\<And>a. maintains P (f a)) \<Longrightarrow> maintains P (seq m f)"
  unfolding maintains_def seq_def
  by (auto split: prod.splits sum.splits)

lemma maintains_catch [maintain_rules]:
  "maintains P m \<Longrightarrow> (\<And>e. maintains P (h e)) \<Longrightarrow> maintains P (catch m h)"
  unfolding maintains_def catch_def
  by (auto split: prod.splits sum.splits)

lemma maintains_if [maintain_rules]:
  "maintains P m \<Longrightarrow> maintains P m' \<Longrightarrow> maintains P (if b then m else m')"
  by simp

lemma maintains_case_option [maintain_rules]:
  "maintains P m \<Longrightarrow> (\<And>a. maintains P (f a)) \<Longrightarrow> maintains P (case x of None \<Rightarrow> m | Some a \<Rightarrow> f a)"
  by (cases x) simp_all

lemma maintains_basic [maintain_rules]:
  "maintains P (now E)" "maintains P (on_adapter f)" "maintains P (ask_provider E c)"
  "maintains P (cancellation_check E k)" "maintains P (crash E p)" "maintains P (ret x)"
  "maintains P (throw e)" "maintains P (gets g)" "maintains P (lift_result r)" "maintains P (observe E)"
  by (intro maintains_keeps store_rules)+

end
