(* ===== verification/RefAdapter.thy ===== *)
theory RefAdapter
  imports RefSim Recovery World
begin

text \<open>
  The adapter of the reference simulation (\<open>adapters/reference/adapter.py\<close>) and its reconciler
  (\<open>reconciliation/reference.py\<close>). The adapter parses a domain action into a typed simulation action,
  reports observations of the whole state, and can be captured as a snapshot and restored from it.
\<close>

section \<open>Adapter\<close>

record ref_adapter =
  ra_sim :: simulation
  ra_forbidden :: "string list"
  ra_initialized :: bool
  ra_sequence :: int

definition new_adapter :: "simulation \<Rightarrow> string list \<Rightarrow> ref_adapter" where
  "new_adapter sim forbidden =
     \<lparr>ra_sim = sim, ra_forbidden = forbidden, ra_initialized = False, ra_sequence = 0\<rparr>"

definition parameter :: "string \<Rightarrow> parameter_type \<Rightarrow> rat option \<Rightarrow> rat option \<Rightarrow> bool \<Rightarrow> json list \<Rightarrow> parameter_definition"
  where
  "parameter name type lo hi exclusive allowed =
     \<lparr>pd_name = name, pd_type = type, pd_required = True, pd_minimum = lo, pd_maximum = hi,
      pd_exclusive = exclusive, pd_allowed = allowed\<rparr>"

definition action_definitions :: "action_definition list" where
  "action_definitions =
     [\<lparr>ad_type = ''advance_time'', ad_parameters = [parameter ''ticks'' PInteger (Some 1) None False []],
       ad_description = ''Advance the simulation by one or more ticks.''\<rparr>,
      \<lparr>ad_type = ''build_housing'', ad_parameters = [parameter ''units'' PInteger (Some 1) None False []],
       ad_description = ''Start a housing construction project.''\<rparr>,
      \<lparr>ad_type = ''build_power'', ad_parameters = [parameter ''capacity'' PInteger (Some 1) None False []],
       ad_description = ''Start a power construction project.''\<rparr>,
      \<lparr>ad_type = ''repair'', ad_parameters = [parameter ''amount'' PNumber (Some 0) None True []],
       ad_description = ''Repair infrastructure immediately.''\<rparr>,
      \<lparr>ad_type = ''set_maintenance'', ad_parameters =
         [parameter ''level'' PNumber None None False [JFloat 0, JFloat (1 / 2), JFloat 1]],
       ad_description = ''Set the recurring maintenance level.''\<rparr>,
      \<lparr>ad_type = ''take_loan'', ad_parameters =
         [parameter ''amount'' PNumber (Some 10000) (Some 500000) False []],
       ad_description = ''Take a loan within the debt limits.''\<rparr>,
      \<lparr>ad_type = ''repay_loan'', ad_parameters = [parameter ''amount'' PNumber (Some 0) None True []],
       ad_description = ''Repay outstanding debt from cash.''\<rparr>,
      \<lparr>ad_type = ''pause'', ad_parameters = [], ad_description = ''Pause simulation progression.''\<rparr>,
      \<lparr>ad_type = ''resume'', ad_parameters = [], ad_description = ''Resume simulation progression.''\<rparr>]"

text \<open>
  \<open>{"type": action.type, **action.parameters}\<close>, validated strictly against the union of the action
  models; each forbids other keys. The detail of a validation error is left out.
\<close>

definition action_payload :: "action \<Rightarrow> jobject" where
  "action_payload a = fold (\<lambda>(k, v) d. AList.update k v d) (act_parameters a) [(''type'', JStr (act_type a))]"

definition load_positive :: "json \<Rightarrow> rat option" where
  "load_positive v = (case load_float v of Some x \<Rightarrow> if 0 < x then Some x else None | None \<Rightarrow> None)"

definition load_level :: "json \<Rightarrow> rat option" where
  "load_level v = (case load_float v of Some x \<Rightarrow> if x \<in> set maintenance_levels then Some x else None | None \<Rightarrow> None)"

definition parse_sim_action :: "jobject \<Rightarrow> sim_action option" where
  "parse_sim_action d =
     (let arg = (\<lambda>key f (make :: _ \<Rightarrow> sim_action).
            if only_keys [''type'', key] d then map_option make (need d key f) else None);
          bare = (\<lambda>a. if only_keys [''type''] d then Some a else None);
          t = jget d ''type'' in
      if t = JStr ''advance_time'' then
        (if only_keys [''type'', ''ticks''] d then map_option AdvanceTime (need d ''ticks'' (load_ge 1)) else None)
      else if t = JStr ''build_housing'' then
        (if only_keys [''type'', ''units''] d then map_option BuildHousing (need d ''units'' (load_ge 1)) else None)
      else if t = JStr ''build_power'' then
        (if only_keys [''type'', ''capacity''] d then map_option BuildPower (need d ''capacity'' (load_ge 1)) else None)
      else if t = JStr ''repair'' then arg ''amount'' load_positive RepairInfrastructure
      else if t = JStr ''set_maintenance'' then arg ''level'' load_level SetMaintenance
      else if t = JStr ''take_loan'' then arg ''amount'' load_positive TakeLoan
      else if t = JStr ''repay_loan'' then arg ''amount'' load_positive RepayLoan
      else if t = JStr ''pause'' then bare Pause
      else if t = JStr ''resume'' then bare Resume
      else None)"

definition adapter_uninitialized :: exn where
  "adapter_uninitialized = Exn RuntimeErr ''Reference simulation adapter is not initialized.''"

definition ref_initialize :: "ref_adapter \<Rightarrow> (exn, unit) result \<times> ref_adapter" where
  "ref_initialize a = (ok (), a\<lparr>ra_initialized := True\<rparr>)"

definition ref_shutdown :: "ref_adapter \<Rightarrow> (exn, unit) result \<times> ref_adapter" where
  "ref_shutdown a = (ok (), a\<lparr>ra_initialized := False\<rparr>)"

definition bool_text :: "bool \<Rightarrow> string" where
  "bool_text b = (if b then ''true'' else ''false'')"

definition state_summary :: "sim_state \<Rightarrow> string" where
  "state_summary s = ''Tick '' @ int_text (s_tick s) @ '': cash='' @ float_2f (pval (s_cash s)) @
     '', population='' @ int_text (s_population s) @ '', infrastructure='' @ float_2f (s_infra s) @
     '', projects='' @ int_text (int (length (s_projects s))) @ '', paused='' @ bool_text (s_paused s) @
     '', failed='' @ bool_text (s_failed s)"

definition ref_observe :: "int \<Rightarrow> ref_adapter \<Rightarrow> (exn, observation) result \<times> ref_adapter" where
  "ref_observe time a =
     (if \<not> ra_initialized a then (raise adapter_uninitialized, a)
      else (let n = ra_sequence a + 1; s = sim_state (ra_sim a) in
        (ok \<lparr>obs_version = 1, obs_sequence = n, obs_timestamp = time, obs_tick = s_tick s,
             obs_summary = state_summary s, obs_state = dump_state s\<rparr>, a\<lparr>ra_sequence := n\<rparr>)))"

definition ref_available :: "ref_adapter \<Rightarrow> (exn, action_definition list) result \<times> ref_adapter" where
  "ref_available a = (if \<not> ra_initialized a then (raise adapter_uninitialized, a) else (ok action_definitions, a))"

definition validation_of :: "sim_validation \<Rightarrow> adapter_validation" where
  "validation_of v = \<lparr>av_valid = sv_valid v, av_message = sv_message v, av_cost = sv_cost v, av_stale = False\<rparr>"

definition malformed :: sim_validation where
  "malformed = sim_invalid ''Malformed action parameters: ''"

definition ref_check :: "action \<Rightarrow> ref_adapter \<Rightarrow> sim_validation" where
  "ref_check act a =
     (if act_type act \<in> set (ra_forbidden a)
      then sim_invalid (''Action '' @ [CHR 0x27] @ act_type act @ [CHR 0x27] @ '' is forbidden by adapter constraints.'')
      else case parse_sim_action (action_payload act) of
        None \<Rightarrow> malformed | Some sa \<Rightarrow> validate_sim_action (sim_state (ra_sim a)) sa)"

definition ref_validate :: "action \<Rightarrow> ref_adapter \<Rightarrow> (exn, adapter_validation) result \<times> ref_adapter" where
  "ref_validate act a =
     (if \<not> ra_initialized a then (raise adapter_uninitialized, a) else (ok (validation_of (ref_check act a)), a))"

definition ref_execute ::
  "(string \<Rightarrow> uuid) \<Rightarrow> action \<Rightarrow> ref_adapter \<Rightarrow> (exn, execution_result) result \<times> ref_adapter" where
  "ref_execute uuid5 act a =
     (if \<not> ra_initialized a then (raise adapter_uninitialized, a)
      else (let v = ref_check act a in
        if \<not> sv_valid v then (ok (sim_result False False 0 (sv_message v)), a)
        else case parse_sim_action (action_payload act) of
          None \<Rightarrow> (ok (sim_result False False 0 (sv_message malformed)), a)
        | Some sa \<Rightarrow> (case sim_execute uuid5 sa (ra_sim a) of (r, sim) \<Rightarrow> (ok r, a\<lparr>ra_sim := sim\<rparr>))))"

definition ref_snapshot :: "ref_adapter \<Rightarrow> snapshot" where
  "ref_snapshot a = \<lparr>snap_version = 1, snap_adapter = ''reference'', snap_sim_version = 1,
     snap_sequence = ra_sequence a, snap_seed = sim_seed (ra_sim a),
     snap_state = dump_state (sim_state (ra_sim a))\<rparr>"

definition ref_from_snapshot :: "snapshot \<Rightarrow> string list \<Rightarrow> (exn, ref_adapter) result" where
  "ref_from_snapshot snap forbidden =
     (if snap_adapter snap \<noteq> ''reference'' \<or> snap_version snap \<noteq> 1
      then raise (Exn ValueErr ''unsupported reference adapter snapshot'')
      else if snap_sim_version snap \<noteq> 1
      then raise (Exn ValueErr ''unsupported reference simulation schema version'')
      else case load_state (snap_state snap) of
        None \<Rightarrow> raise (Exn ValidationErr ''SimulationState'')
      | Some s \<Rightarrow> ok ((new_adapter (new_simulation s (snap_seed snap)) forbidden)
          \<lparr>ra_sequence := snap_sequence snap\<rparr>))"

text \<open>The operations as the runtime's adapter interface.\<close>

definition reference_adapter :: "(string \<Rightarrow> uuid) \<Rightarrow> ref_adapter adapter" where
  "reference_adapter uuid5 =
     \<lparr>adp_fresh = False, adp_type = ''reference'', adp_initialize = ref_initialize,
      adp_observe = ref_observe, adp_available = ref_available, adp_validate = ref_validate,
      adp_execute = ref_execute uuid5, adp_shutdown = ref_shutdown,
      adp_snapshot = Some (\<lambda>a. ok (ref_snapshot a))\<rparr>"

section \<open>Reconciliation\<close>

definition effect_keys :: "string \<Rightarrow> string list option" where
  "effect_keys t = map_of
     [(''advance_time'', [''tick'', ''cash'', ''population'', ''active_projects'']),
      (''build_housing'', [''cash'', ''active_projects'']),
      (''build_power'', [''cash'', ''active_projects'']),
      (''repair'', [''cash'', ''infrastructure'']),
      (''set_maintenance'', [''maintenance_level'']),
      (''take_loan'', [''cash'', ''debt'']),
      (''repay_loan'', [''cash'', ''debt'']),
      (''pause'', [''paused'']),
      (''resume'', [''paused''])] t"

definition effect_signature_matches :: "string \<Rightarrow> jobject \<Rightarrow> jobject \<Rightarrow> jobject \<Rightarrow> bool" where
  "effect_signature_matches t before expected current =
     (case effect_keys t of
        None \<Rightarrow> False
      | Some keys \<Rightarrow>
          (let changed_keys = filter (\<lambda>k. \<not> py_eq (jget before k) (jget expected k)) keys in
           changed_keys \<noteq> [] \<and> list_all (\<lambda>k. py_eq (jget current k) (jget expected k)) changed_keys))"

definition reconcile_reference :: "(string \<Rightarrow> uuid) \<Rightarrow> reconciler" where
  "reconcile_reference uuid5 a prior current =
     (if at_status a = AtPrepared
      then ok \<lparr>rp_attempt = a, rp_class = DefinitelyNotExecuted,
        rp_reason = ''execution boundary was never entered'', rp_prior = prior, rp_current = current,
        rp_expected = None, rp_result = None\<rparr>
      else case current of
        None \<Rightarrow> ok \<lparr>rp_attempt = a, rp_class = AdapterUnavailable,
          rp_reason = ''current adapter state is not independently observable'', rp_prior = prior,
          rp_current = None, rp_expected = None, rp_result = None\<rparr>
      | Some cur \<Rightarrow>
          rbind (ref_from_snapshot prior []) (\<lambda>adapter0.
          case ref_execute uuid5 (at_action a) (snd (ref_initialize adapter0)) of (executed, adapter1) \<Rightarrow>
          rbind executed (\<lambda>expected_result.
          let expected = ref_snapshot adapter1;
              same = (\<lambda>x y. py_eq (JObj x) (JObj y));
              (cls, reason) =
                (if same (snap_state cur) (snap_state prior)
                 then (DefinitelyNotExecuted, ''current state exactly matches the prior checkpoint'')
                 else if same (snap_state cur) (snap_state expected)
                 then (DefinitelyExecuted, ''current state exactly matches deterministic action replay'')
                 else if effect_signature_matches (act_type (at_action a)) (snap_state prior)
                   (snap_state expected) (snap_state cur)
                 then (Inferable, ''action-specific effect matches, but unrelated state also differs'')
                 else (Ambiguous, ''current state matches neither the prior nor deterministic expected state'')) in
          ok \<lparr>rp_attempt = a, rp_class = cls, rp_reason = reason, rp_prior = prior, rp_current = Some cur,
              rp_expected = Some expected, rp_result = Some expected_result\<rparr>)))"

end
