(* ===== verification/RuntimePersistence.thy ===== *)
theory RuntimePersistence
  imports World
begin

text \<open>
  \<open>runtime/persistence.py\<close>: the atomic commits of the runtime. Every change of durable state is one
  \<open>commit_iteration\<close> (or \<open>create_task\<close>): the task's record, a batch of events numbered after the task's
  sequence, at most one approval change and at most one checkpoint, in one transaction.
\<close>

record draft =
  dr_type :: event_type
  dr_payload :: jobject

abbreviation draft :: "event_type \<Rightarrow> jobject \<Rightarrow> draft" where
  "draft t p \<equiv> \<lparr>dr_type = t, dr_payload = p\<rparr>"

record iteration_commit =
  ic_record :: task_record
  ic_events :: "event list"
  ic_checkpoint :: "checkpoint option"

section \<open>Building records\<close>

definition event_record_for :: "('a, 'p) env \<Rightarrow> event \<Rightarrow> event_record" where
  "event_record_for E e = \<lparr>er_id = env_uuid5 E
     (''sim-pilot:'' @ uuid_text (ev_task e) @ '':event:'' @ int_text (ev_sequence e)), er_event = e\<rparr>"

text \<open>\<open>TaskRecord.validate_utc_timestamps\<close>: the record is of schema version 1, and so must the task be.\<close>

definition make_task_record :: "task \<Rightarrow> bool \<Rightarrow> safeguard_state \<Rightarrow> (exn, task_record) result" where
  "make_task_record t c sg =
     (if task_version t \<noteq> 1
      then raise (Exn ValidationErr ''task schema version does not match its durable record'')
      else ok \<lparr>tr_task = t, tr_cancel = c, tr_state = sg\<rparr>)"

definition make_checkpoint ::
  "('a, 'p) env \<Rightarrow> uuid \<Rightarrow> int \<Rightarrow> int \<Rightarrow> snapshot \<Rightarrow> (exn, checkpoint) result" where
  "make_checkpoint E k runtime_sequence created_at snap =
     (case (case map_of (snap_state snap) ''tick'' of None \<Rightarrow> Some 0 | Some v \<Rightarrow> as_int v) of
        None \<Rightarrow> raise (Exn ValueErr ''adapter snapshot tick must be an integer'')
      | Some tick \<Rightarrow>
          if tick < 0 then raise (Exn ValidationErr ''simulation_tick'')
          else ok \<lparr>cp_meta =
              \<lparr>cm_id = env_uuid5 E (''sim-pilot:'' @ uuid_text k @ '':checkpoint:'' @ int_text runtime_sequence),
               cm_task = k, cm_sequence = runtime_sequence, cm_tick = tick,
               cm_sim_version = snap_sim_version snap, cm_adapter = snap_adapter snap,
               cm_adapter_version = snap_version snap, cm_obs_sequence = snap_sequence snap,
               cm_seed = snap_seed snap, cm_created = created_at\<rparr>,
            cp_state = snap_state snap\<rparr>)"

definition number_events :: "uuid \<Rightarrow> int \<Rightarrow> int \<Rightarrow> draft list \<Rightarrow> event list" where
  "number_events k start time drafts =
     map (\<lambda>(i, d). \<lparr>ev_task = k, ev_sequence = start + i, ev_type = dr_type d, ev_time = time,
       ev_payload = dr_payload d\<rparr>) (zip [1..int (length drafts)] drafts)"

definition copy_checkpoint_for_terminal :: "checkpoint option \<Rightarrow> snapshot option" where
  "copy_checkpoint_for_terminal c = map_option (\<lambda>c. let m = cp_meta c in
     \<lparr>snap_version = 1, snap_adapter = cm_adapter m, snap_sim_version = cm_sim_version m,
      snap_sequence = cm_obs_sequence m, snap_seed = cm_seed m, snap_state = cp_state c\<rparr>) c"

section \<open>Commits\<close>

text \<open>\<open>except PersistenceError as error: raise DurablePersistenceError(...)\<close>\<close>

definition durable :: "string \<Rightarrow> ('a, 'p, 'x) run \<Rightarrow> ('a, 'p, 'x) run" where
  "durable msg m = catch m (\<lambda>e. throw
     (if is_persistence_error e then Exn DurablePersistence (msg @ exn_text e) else e))"

definition create_body :: "task_record \<Rightarrow> event_record \<Rightarrow> unit store_op" where
  "create_body r e = seq (task_create r) (\<lambda>_. event_append e)"

definition create_task_record :: "('a, 'p) env \<Rightarrow> task \<Rightarrow> ('a, 'p, task_record) run" where
  "create_task_record E t =
     seq (lift_result (make_task_record (t\<lparr>task_seq := 1\<rparr>) False initial_safeguards)) (\<lambda>r.
     seq (durable ''task creation was not persisted: ''
       (on_store (transaction (create_body r (event_record_for E
          \<lparr>ev_task = task_id t, ev_sequence = 1, ev_type = TaskCreated, ev_time = task_created t,
           ev_payload = []\<rparr>))))) (\<lambda>_. ret r))"

definition optionally :: "('b \<Rightarrow> unit store_op) \<Rightarrow> 'b option \<Rightarrow> unit store_op" where
  "optionally f x = (case x of None \<Rightarrow> ret () | Some b \<Rightarrow> f b)"

definition commit_body ::
  "task_record \<Rightarrow> event_record list \<Rightarrow> approval_record option \<Rightarrow> approval_record option \<Rightarrow>
   checkpoint option \<Rightarrow> unit store_op" where
  "commit_body r es approval_new approval_changed cp =
     seq (task_update r) (\<lambda>_. seq (event_append_many es) (\<lambda>_.
     seq (optionally approval_create approval_new) (\<lambda>_.
     seq (optionally approval_update approval_changed) (\<lambda>_. optionally checkpoint_save cp))))"

text \<open>The keyword arguments of \<open>commit_iteration\<close> that have defaults.\<close>

record commit_options =
  co_cancel :: "bool option"
  co_create :: "approval_record option"
  co_update :: "approval_record option"
  co_snapshot :: "snapshot option"

definition no_options :: commit_options where
  "no_options = \<lparr>co_cancel = None, co_create = None, co_update = None, co_snapshot = None\<rparr>"

definition commit_iteration ::
  "('a, 'p) env \<Rightarrow> task_record \<Rightarrow> task \<Rightarrow> safeguard_state \<Rightarrow> draft list \<Rightarrow> commit_options \<Rightarrow>
   ('a, 'p, iteration_commit) run" where
  "commit_iteration E current t sg drafts opts =
     (if drafts = []
      then throw (Exn ValueErr ''an atomic runtime iteration must contain at least one event'')
      else seq (now E) (\<lambda>time.
        let events = number_events (task_id t) (task_seq (tr_task current)) time drafts;
            last_sequence = ev_sequence (last events);
            updated = t\<lparr>task_seq := last_sequence, task_updated := time\<rparr> in
        seq (lift_result (make_task_record updated
          (case co_cancel opts of None \<Rightarrow> tr_cancel current | Some c \<Rightarrow> c) sg)) (\<lambda>r.
        seq (case co_snapshot opts of
            None \<Rightarrow> ret None
          | Some snap \<Rightarrow> lift_result (rbind (make_checkpoint E (task_id updated) last_sequence time snap)
              (\<lambda>c. ok (Some c)))) (\<lambda>cp.
        seq (durable ''runtime iteration was not persisted: ''
          (on_store (transaction (commit_body r (map (event_record_for E) events)
            (co_create opts) (co_update opts) cp)))) (\<lambda>_.
        ret \<lparr>ic_record = r, ic_events = events, ic_checkpoint = cp\<rparr>)))))"

text \<open>\<open>RepositoryEventView\<close>: reads inside a unit of work that is always rolled back.\<close>

definition read_only :: "(store \<Rightarrow> 'x) \<Rightarrow> ('a, 'p, 'x) run" where
  "read_only f = gets (\<lambda>w. f (w_store w))"

definition view_events :: "uuid \<Rightarrow> ('a, 'p, event list) run" where
  "view_events k = read_only (\<lambda>s. map er_event (event_list k s))"

definition view_latest :: "uuid \<Rightarrow> ('a, 'p, event option) run" where
  "view_latest k = read_only (\<lambda>s. map_option er_event (event_latest k s))"

section \<open>Lemmas\<close>

lemma number_events_length [simp]: "length (number_events k n t ds) = length ds"
  by (simp add: number_events_def)

lemma number_events_nth:
  "i < length ds \<Longrightarrow> number_events k n t ds ! i =
     \<lparr>ev_task = k, ev_sequence = n + int i + 1, ev_type = dr_type (ds ! i), ev_time = t,
      ev_payload = dr_payload (ds ! i)\<rparr>"
  by (simp add: number_events_def)

lemma number_events_last:
  assumes "ds \<noteq> []"
  shows "last (number_events k n t ds) =
     \<lparr>ev_task = k, ev_sequence = n + int (length ds), ev_type = dr_type (last ds), ev_time = t,
      ev_payload = dr_payload (last ds)\<rparr>"
proof -
  have ne: "number_events k n t ds \<noteq> []"
    using assms number_events_length [of k n t ds] by (metis length_0_conv)
  have l: "length ds - 1 < length ds" using assms by (cases ds) auto
  have "last (number_events k n t ds) = number_events k n t ds ! (length ds - 1)"
    by (simp add: last_conv_nth [OF ne])
  also have "\<dots> = \<lparr>ev_task = k, ev_sequence = n + int (length ds), ev_type = dr_type (last ds),
      ev_time = t, ev_payload = dr_payload (last ds)\<rparr>"
    unfolding number_events_nth [OF l] last_conv_nth [OF assms] using l by (simp add: of_nat_diff)
  finally show ?thesis .
qed

lemma keeps_optionally [keeps_rules]: "(\<And>b. keeps_ok (f b)) \<Longrightarrow> keeps_ok (optionally f x)"
  unfolding optionally_def by (intro keeps_rules)

lemma commit_body_keeps [keeps_rules]: "keeps_ok (commit_body r es a b c)"
  unfolding commit_body_def by (intro keeps_rules)

lemma create_body_keeps [keeps_rules]: "keeps_ok (create_body r e)"
  unfolding create_body_def by (intro keeps_rules)

lemma maintains_durable [maintain_rules]: "maintains P m \<Longrightarrow> maintains P (durable msg m)"
  unfolding durable_def by (intro maintain_rules)

lemma maintains_read_only [maintain_rules]: "maintains P (read_only f)"
  unfolding read_only_def by (intro maintain_rules)

lemma maintains_views [maintain_rules]: "maintains P (view_events k)" "maintains P (view_latest k)"
  unfolding view_events_def view_latest_def by (intro maintain_rules)+

text \<open>
  The interface between the commits and whoever reasons about the store: a predicate that the two
  transaction bodies keep is kept by every operation of the runtime, since nothing else writes.
\<close>

locale store_invariant =
  fixes P :: "store \<Rightarrow> bool"
  assumes commit_keeps: "P s \<Longrightarrow> commit_body r es a b c s = (ok u, s') \<Longrightarrow> P s'"
    and create_keeps: "P s \<Longrightarrow> create_body r e s = (ok u, s') \<Longrightarrow> P s'"
begin

lemma maintains_transaction:
  assumes "\<And>s u s'. P s \<Longrightarrow> body s = (ok u, s') \<Longrightarrow> P s'"
  shows "maintains P (on_store (transaction body))"
  using assms
  by (auto simp: maintains_def on_store_def transaction_eq split: prod.splits sum.splits)

lemma create_task_record_maintains [maintain_rules]: "maintains P (create_task_record E t)"
  unfolding create_task_record_def
  by (intro maintain_rules maintains_transaction) (rule create_keeps)

lemma commit_iteration_maintains [maintain_rules]:
  "maintains P (commit_iteration E current t sg drafts opts)"
  unfolding commit_iteration_def Let_def
  by (intro maintain_rules maintains_transaction) (rule commit_keeps)

end

interpretation integrity: store_invariant store_ok
  by unfold_locales (auto intro: keeps_okD [OF commit_body_keeps] keeps_okD [OF create_body_keeps])

text \<open>All or nothing: a commit that raises leaves the store as it was.\<close>

lemma on_store_transaction_raise:
  "on_store (transaction body) w = (raise e, w') \<Longrightarrow> w_store w' = w_store w"
  by (auto simp: on_store_def transaction_eq split: prod.splits sum.splits)

lemma commit_iteration_raise:
  "commit_iteration E current t sg drafts opts w = (raise e, w') \<Longrightarrow> w_store w' = w_store w"
  by (auto simp: commit_iteration_def Let_def prog_defs now_def durable_def make_task_record_def
      split: if_splits prod.splits sum.splits option.splits dest!: on_store_transaction_raise)

lemma create_task_record_raise:
  "create_task_record E t w = (raise e, w') \<Longrightarrow> w_store w' = w_store w"
  by (auto simp: create_task_record_def prog_defs durable_def
      split: if_splits prod.splits sum.splits dest!: on_store_transaction_raise)

end
