(* ===== verification/Reconstruction.thy ===== *)
theory Reconstruction
  imports RuntimePersistence Lifecycle
begin

text \<open>
  \<open>runtime/reconstruction.py\<close>: a task's context is rebuilt from its durable records and every
  inconsistent combination is rejected. \<open>validate_records\<close> is \<open>_validate\<close>, check by check;
  \<open>consistent\<close> is the condition that it decides.
\<close>

record runtime_context =
  rc_task :: task
  rc_cancel :: bool
  rc_state :: safeguard_state
  rc_events :: "event list"
  rc_approvals :: "approval_record list"
  rc_checkpoint :: "checkpoint option"
  rc_observation :: "observation option"
  rc_reason :: "string option"
  rc_attempt :: "attempt option"

fun terminal_event :: "task_status \<Rightarrow> event_type option" where
  "terminal_event Completed = Some TaskCompleted"
| "terminal_event Blocked = Some TaskBlocked"
| "terminal_event Failed = Some TaskFailed"
| "terminal_event Cancelled = Some TaskCancelled"
| "terminal_event _ = None"

definition context_snapshot :: "runtime_context \<Rightarrow> (exn, snapshot) result" where
  "context_snapshot c = (case rc_checkpoint c of
     None \<Rightarrow> raise (inconsistent ''task has no simulation checkpoint'')
   | Some cp \<Rightarrow> (let m = cp_meta cp in
       ok \<lparr>snap_version = 1, snap_adapter = cm_adapter m, snap_sim_version = cm_sim_version m,
           snap_sequence = (case rc_observation c of None \<Rightarrow> cm_obs_sequence m | Some ob \<Rightarrow> obs_sequence ob),
           snap_seed = cm_seed m, snap_state = cp_state cp\<rparr>))"

definition pending_record :: "runtime_context \<Rightarrow> approval_record option" where
  "pending_record c = find is_pending (rc_approvals c)"

section \<open>Loading\<close>

text \<open>The payload of the newest observation event; the detail of a validation error is left out.\<close>

fun latest_observation :: "event list \<Rightarrow> (exn, observation option) result" where
  "latest_observation [] = ok None"
| "latest_observation (e # newest_first) =
     (if ev_type e = ObservationRecorded
      then (case load_observation (ev_payload e) of
         Some ob \<Rightarrow> ok (Some ob)
       | None \<Rightarrow> raise (inconsistent ''persisted observation is invalid: ''))
      else latest_observation newest_first)"

definition check :: "bool \<Rightarrow> string \<Rightarrow> (exn, unit) result" where
  "check b msg = rguard b (inconsistent msg)"

definition approval_matches :: "safeguard_state \<Rightarrow> approval_record \<Rightarrow> bool" where
  "approval_matches sg r \<longleftrightarrow> Some (appr_id (ar_approval r)) = sg_approved_id sg \<and>
     appr_status (ar_approval r) = ApApproved \<and>
     (case sg_approved_action sg of None \<Rightarrow> False | Some a \<Rightarrow> action_eq (appr_action (ar_approval r)) a)"

definition requires_checkpoint :: "task_status \<Rightarrow> observation option \<Rightarrow> bool" where
  "requires_checkpoint st ob \<longleftrightarrow> st \<in> {Running, WaitingForApproval, Completed, Blocked} \<or>
     (st = Failed \<and> ob \<noteq> None)"

definition validate_approvals :: "task_status \<Rightarrow> safeguard_state \<Rightarrow> approval_record list \<Rightarrow> (exn, unit) result"
  where
  "validate_approvals st sg approvals =
     (let pending = filter is_pending approvals; approved_once = (sg_approved_action sg \<noteq> None) in
      rbind (check ((sg_approved_id sg = None) = (\<not> approved_once))
          ''approved-once action identity is incomplete'') (\<lambda>_.
      rbind (check (\<not> (pending \<noteq> [] \<and> st \<noteq> WaitingForApproval))
          ''pending approval requires waiting_for_approval status'') (\<lambda>_.
      rbind (check (\<not> (st = WaitingForApproval \<and> pending = [] \<and> \<not> approved_once))
          ''waiting task has neither pending nor granted approval'') (\<lambda>_.
      rbind (check (\<not> (terminal_event st \<noteq> None \<and> pending \<noteq> []))
          ''terminal task cannot retain a pending approval'') (\<lambda>_.
      check (approved_once \<longrightarrow> length (filter (approval_matches sg) approvals) = 1)
          ''approved-once authorization does not match approval history'')))))"

definition validate_checkpoint :: "task \<Rightarrow> checkpoint \<Rightarrow> observation option \<Rightarrow> (exn, unit) result" where
  "validate_checkpoint t cp ob = (let m = cp_meta cp; st = cp_state cp in
     rbind (check (cm_task m = task_id t) ''checkpoint belongs to another task'') (\<lambda>_.
     rbind (check (\<not> cm_sequence m > task_seq t) ''checkpoint is ahead of task sequence'') (\<lambda>_.
     rbind (check (cm_adapter_version m = 1) ''adapter checkpoint schema version is unsupported'') (\<lambda>_.
     rbind (check (is_null (jget st ''schema_version'') \<or>
         py_eq (jget st ''schema_version'') (JInt (cm_sim_version m)))
         ''checkpoint simulation schema versions disagree'') (\<lambda>_.
     rbind (check (is_null (jget st ''tick'') \<or> py_eq (jget st ''tick'') (JInt (cm_tick m)))
         ''checkpoint tick does not match serialized state'') (\<lambda>_.
     case ob of
       None \<Rightarrow> raise (inconsistent ''checkpoint has no corresponding observation'')
     | Some o1 \<Rightarrow>
         rbind (check (py_eq (JObj (obs_state o1)) (JObj st) \<and> obs_tick o1 = cm_tick m)
             ''latest observation and checkpoint state disagree'') (\<lambda>_.
         check (\<not> obs_sequence o1 < cm_obs_sequence m)
             ''adapter observation sequence is behind checkpoint'')))))))"

definition validate_records ::
  "task_record \<Rightarrow> event list \<Rightarrow> approval_record list \<Rightarrow> checkpoint option \<Rightarrow> observation option \<Rightarrow>
   (exn, unit) result" where
  "validate_records r events approvals cp ob = (let t = tr_task r in
     rbind (check (events \<noteq> [] \<and> ev_type (hd events) = TaskCreated)
         ''event history must begin with TaskCreated'') (\<lambda>_.
     rbind (check (list_all (\<lambda>e. ev_task e = task_id t) events)
         ''event history contains another task'') (\<lambda>_.
     rbind (check (map ev_sequence events = [1..int (length events)])
         ''event history is not contiguous'') (\<lambda>_.
     rbind (check (task_seq t = ev_sequence (last events))
         ''task current sequence does not match latest event'') (\<lambda>_.
     rbind (check (case terminal_event (task_status t) of None \<Rightarrow> True | Some et \<Rightarrow> ev_type (last events) = et)
         ''terminal task status does not match latest event'') (\<lambda>_.
     rbind (check (tr_cancel r = (task_status t = Cancelled))
         ''cancellation flag and task status disagree'') (\<lambda>_.
     rbind (validate_approvals (task_status t) (tr_state r) approvals) (\<lambda>_.
     rbind (check (\<not> (requires_checkpoint (task_status t) ob \<and> cp = None))
         ''initialized task has no simulation checkpoint'') (\<lambda>_.
     case cp of None \<Rightarrow> ok () | Some c \<Rightarrow> validate_checkpoint t c ob)))))))))"

definition load_context :: "uuid \<Rightarrow> store \<Rightarrow> (exn, runtime_context) result" where
  "load_context k s =
     (case map_of (st_tasks s) k of
        None \<Rightarrow> raise (task_missing k)
      | Some r \<Rightarrow>
          (let events = map er_event (event_list k s); approvals = approval_list k s;
               cp = checkpoint_latest k s in
           rbind (latest_observation (rev events)) (\<lambda>ob.
           rbind (validate_records r events approvals cp ob) (\<lambda>_.
           rbind (unresolved_action_attempt events) (\<lambda>attempt.
           ok \<lparr>rc_task = tr_task r, rc_cancel = tr_cancel r, rc_state = tr_state r, rc_events = events,
               rc_approvals = approvals, rc_checkpoint = cp, rc_observation = ob,
               rc_reason = (if events = [] then None else as_str (jget (ev_payload (last events)) ''reason'')),
               rc_attempt = attempt\<rparr>)))))"

definition reconstruct :: "uuid \<Rightarrow> ('a, 'p, runtime_context) run" where
  "reconstruct k = seq (read_only (load_context k)) lift_result"

section \<open>The condition decided\<close>

definition approvals_consistent :: "task_status \<Rightarrow> safeguard_state \<Rightarrow> approval_record list \<Rightarrow> bool" where
  "approvals_consistent st sg approvals \<longleftrightarrow>
     (sg_approved_id sg = None \<longleftrightarrow> sg_approved_action sg = None) \<and>
     (filter is_pending approvals \<noteq> [] \<longrightarrow> st = WaitingForApproval) \<and>
     (st = WaitingForApproval \<longrightarrow> filter is_pending approvals \<noteq> [] \<or> sg_approved_action sg \<noteq> None) \<and>
     (sg_approved_action sg \<noteq> None \<longrightarrow> length (filter (approval_matches sg) approvals) = 1)"

definition checkpoint_consistent :: "task \<Rightarrow> checkpoint \<Rightarrow> observation option \<Rightarrow> bool" where
  "checkpoint_consistent t cp ob \<longleftrightarrow> (let m = cp_meta cp; st = cp_state cp in
     cm_task m = task_id t \<and> cm_sequence m \<le> task_seq t \<and> cm_adapter_version m = 1 \<and>
     (is_null (jget st ''schema_version'') \<or> py_eq (jget st ''schema_version'') (JInt (cm_sim_version m))) \<and>
     (is_null (jget st ''tick'') \<or> py_eq (jget st ''tick'') (JInt (cm_tick m))) \<and>
     (\<exists>o1. ob = Some o1 \<and> py_eq (JObj (obs_state o1)) (JObj st) \<and> obs_tick o1 = cm_tick m \<and>
        cm_obs_sequence m \<le> obs_sequence o1))"

definition consistent ::
  "task_record \<Rightarrow> event list \<Rightarrow> approval_record list \<Rightarrow> checkpoint option \<Rightarrow> observation option \<Rightarrow> bool" where
  "consistent r events approvals cp ob \<longleftrightarrow> (let t = tr_task r in
     events \<noteq> [] \<and> ev_type (hd events) = TaskCreated \<and> (\<forall>e \<in> set events. ev_task e = task_id t) \<and>
     map ev_sequence events = [1..int (length events)] \<and> task_seq t = int (length events) \<and>
     (\<forall>et. terminal_event (task_status t) = Some et \<longrightarrow> ev_type (last events) = et) \<and>
     tr_cancel r = (task_status t = Cancelled) \<and>
     approvals_consistent (task_status t) (tr_state r) approvals \<and>
     (requires_checkpoint (task_status t) ob \<longrightarrow> cp \<noteq> None) \<and>
     (\<forall>c. cp = Some c \<longrightarrow> checkpoint_consistent t c ob))"

lemma check_ok [simp]: "check b msg = ok u \<longleftrightarrow> b"
  by (simp add: check_def result_simps)

lemma validate_approvals_ok:
  "validate_approvals st sg approvals = ok u \<longleftrightarrow> approvals_consistent st sg approvals"
  by (cases st) (auto simp: validate_approvals_def approvals_consistent_def Let_def rbind_Inr_iff)

lemma validate_checkpoint_ok:
  "validate_checkpoint t cp ob = ok u \<longleftrightarrow> checkpoint_consistent t cp ob"
  by (cases ob) (auto simp: validate_checkpoint_def checkpoint_consistent_def Let_def rbind_Inr_iff not_less)

lemma last_of_contiguous:
  "events \<noteq> [] \<Longrightarrow> map ev_sequence events = [1..int (length events)] \<Longrightarrow>
     ev_sequence (last events) = int (length events)"
  using contiguous_nth [of ev_sequence events "length events - 1"]
  by (simp add: contiguous_def last_conv_nth of_nat_diff Suc_leI)

lemma validate_records_ok:
  "validate_records r events approvals cp ob = ok u \<longleftrightarrow> consistent r events approvals cp ob"
proof -
  have cp: "(case cp of None \<Rightarrow> ok () | Some c \<Rightarrow> validate_checkpoint (tr_task r) c ob) = ok u \<longleftrightarrow>
      (\<forall>c. cp = Some c \<longrightarrow> checkpoint_consistent (tr_task r) c ob)"
    by (cases cp) (simp_all add: validate_checkpoint_ok)
  have te: "(case terminal_event st of None \<Rightarrow> True | Some et \<Rightarrow> x = et) \<longleftrightarrow>
      (\<forall>et. terminal_event st = Some et \<longrightarrow> x = et)" for st x
    by (cases "terminal_event st") auto
  show ?thesis
    unfolding validate_records_def Let_def rbind_Inr_iff check_ok validate_approvals_ok cp te
      consistent_def list_all_iff
    using last_of_contiguous [of events] by auto
qed

lemma load_context_ok:
  "load_context k s = ok c \<longleftrightarrow>
     (\<exists>r ob attempt. map_of (st_tasks s) k = Some r \<and>
        latest_observation (rev (map er_event (event_list k s))) = ok ob \<and>
        consistent r (map er_event (event_list k s)) (approval_list k s) (checkpoint_latest k s) ob \<and>
        unresolved_action_attempt (map er_event (event_list k s)) = ok attempt \<and>
        c = \<lparr>rc_task = tr_task r, rc_cancel = tr_cancel r, rc_state = tr_state r,
             rc_events = map er_event (event_list k s), rc_approvals = approval_list k s,
             rc_checkpoint = checkpoint_latest k s, rc_observation = ob,
             rc_reason = as_str (jget (ev_payload (last (map er_event (event_list k s)))) ''reason''),
             rc_attempt = attempt\<rparr>)"
proof (cases "map_of (st_tasks s) k")
  case (Some r)
  have ne: "consistent r [] a cp ob \<Longrightarrow> False" for a cp ob by (simp add: consistent_def)
  show ?thesis
    unfolding load_context_def Some option.case Let_def rbind_Inr_iff validate_records_ok
    using ne by auto
qed (simp add: load_context_def)

lemma reconstruct_ok:
  "reconstruct k w = (r, w') \<longleftrightarrow> w' = w \<and> r = load_context k (w_store w)"
  by (auto simp: reconstruct_def read_only_def prog_defs)

lemma maintains_reconstruct [maintain_rules]: "maintains P (reconstruct k)"
  unfolding reconstruct_def by (intro maintain_rules)

end
