(* ===== verification/Engine.thy ===== *)
theory Engine
  imports Reconstruction
begin

text \<open>
  The operations of \<open>RuntimeEngine\<close> (\<open>runtime/engine.py\<close>) other than running a task, with the helpers of
  \<open>runtime/engine_support.py\<close>: creating a task, approvals, cancellation, and recovery of an interrupted
  action. Each operation reconstructs the context, decides, and makes at most one commit.
\<close>

section \<open>Support\<close>

definition context_record :: "runtime_context \<Rightarrow> (exn, task_record) result" where
  "context_record c = make_task_record (rc_task c) (rc_cancel c) (rc_state c)"

definition observation_draft :: "observation \<Rightarrow> draft" where
  "observation_draft ob = draft ObservationRecorded (dump_observation ob)"

definition adapter_snapshot :: "('a, 'p) env \<Rightarrow> observation \<Rightarrow> ('a, 'p, snapshot) run" where
  "adapter_snapshot E ob =
     (case adp_snapshot (env_adapter E) of
        Some f \<Rightarrow> seq (gets (\<lambda>w. f (w_adapter w))) lift_result
      | None \<Rightarrow>
          (let version = (case map_of (obs_state ob) ''schema_version'' of
                 None \<Rightarrow> Some 1
               | Some (JInt i) \<Rightarrow> if 1 \<le> i then Some i else None
               | Some (JBool b) \<Rightarrow> None
               | Some _ \<Rightarrow> Some 1) in
           case version of
             None \<Rightarrow> throw (Exn ValidationErr ''simulation_schema_version'')
           | Some v \<Rightarrow> ret \<lparr>snap_version = 1, snap_adapter = adp_type (env_adapter E),
               snap_sim_version = v, snap_sequence = obs_sequence ob, snap_seed = ''0'',
               snap_state = obs_state ob\<rparr>))"

text \<open>\<open>json.dumps(..., sort_keys=True)\<close> of the action and the state, as a canonical value\<close>

definition action_state_fingerprint :: "action \<Rightarrow> observation \<Rightarrow> json" where
  "action_state_fingerprint a ob =
     canon (JObj [(''action'', JObj (dump_action a)), (''state'', JObj (obs_state ob))])"

definition state_fingerprint :: "observation \<Rightarrow> json" where
  "state_fingerprint ob = canon (JObj (obs_state ob))"

definition validate_restored_adapter :: "('a, 'p) env \<Rightarrow> runtime_context \<Rightarrow> ('a, 'p, unit) run" where
  "validate_restored_adapter E c =
     (case adp_snapshot (env_adapter E) of
        None \<Rightarrow> ret ()
      | Some f \<Rightarrow>
          seq (gets (\<lambda>w. f (w_adapter w))) (\<lambda>r. seq (lift_result r) (\<lambda>snap.
          seq (lift_result (context_snapshot c)) (\<lambda>expected.
            if snapshot_eq snap expected then ret ()
            else throw (inconsistent ''restored adapter does not match the latest durable checkpoint'')))))"

definition runtime_outcome ::
  "task \<Rightarrow> safeguard_state \<Rightarrow> string option \<Rightarrow> runtime_context option \<Rightarrow> outcome" where
  "runtime_outcome t sg reason c =
     \<lparr>out_task = task_id t, out_status = task_status t, out_spend = fl (task_spend t),
      out_iterations = sg_iterations sg, out_reason = reason,
      out_approval = Option.bind c (\<lambda>c. map_option ar_approval (pending_record c))\<rparr>"

text \<open>\<open>_commit_with_drafts\<close> and \<open>_commit_terminal\<close>\<close>

definition commit_with_drafts ::
  "('a, 'p) env \<Rightarrow> task_record \<Rightarrow> task \<Rightarrow> safeguard_state \<Rightarrow> draft list \<Rightarrow> snapshot option \<Rightarrow>
   ('a, 'p, task_record) run" where
  "commit_with_drafts E current t sg drafts snap =
     seq (commit_iteration E current t sg drafts (no_options\<lparr>co_snapshot := snap\<rparr>)) (\<lambda>c. ret (ic_record c))"

definition reason_payload :: "string \<Rightarrow> jobject" where
  "reason_payload reason = [(''reason'', JStr reason)]"

definition commit_terminal ::
  "('a, 'p) env \<Rightarrow> task_record \<Rightarrow> safeguard_state \<Rightarrow> observation \<Rightarrow> task_status \<Rightarrow> string \<Rightarrow> draft list \<Rightarrow>
   ('a, 'p, task_record \<times> string) run" where
  "commit_terminal E current sg ob status reason prefix =
     (case (if status = Cancelled then None else terminal_event status) of
        None \<Rightarrow> throw (Exn (OtherException ''KeyError'') (task_status_value status))
      | Some et \<Rightarrow>
          seq (lift_result (with_status (tr_task current) status)) (\<lambda>t.
          seq (adapter_snapshot E ob) (\<lambda>snap.
          seq (commit_with_drafts E current t sg (prefix @ [draft et (reason_payload reason)]) (Some snap))
            (\<lambda>r. ret (r, reason)))))"

section \<open>Tasks and approvals\<close>

definition create_task :: "('a, 'p) env \<Rightarrow> task \<Rightarrow> ('a, 'p, task) run" where
  "create_task E t =
     (if task_status t \<noteq> Pending \<or> task_seq t \<noteq> 0
      then throw (Exn ValueErr ''new task must be pending with sequence zero'')
      else seq (create_task_record E t) (\<lambda>r. ret (tr_task r)))"

definition pending_approval :: "uuid \<Rightarrow> ('a, 'p, approval_request option) run" where
  "pending_approval k =
     catch (seq (reconstruct k) (\<lambda>c. ret (map_option ar_approval (pending_record c))))
       (\<lambda>e. if exn_class e = RecordNotFound then ret None else throw e)"

definition approve :: "('a, 'p) env \<Rightarrow> uuid \<Rightarrow> ('a, 'p, approval_request) run" where
  "approve E k = seq (reconstruct k) (\<lambda>c.
     case pending_record c of
       None \<Rightarrow> throw (Exn ValueErr ''no pending approval exists for task'')
     | Some pending \<Rightarrow>
         seq (now E) (\<lambda>time.
         let approved = (ar_approval pending)\<lparr>appr_status := ApApproved, appr_resolved := Some time\<rparr>;
             sg = (rc_state c)\<lparr>sg_approved_action := Some (appr_action approved),
                    sg_approved_id := Some (appr_id approved)\<rparr> in
         seq (lift_result (context_record c)) (\<lambda>current.
         seq (commit_iteration E current (rc_task c) sg
                [draft ApprovalGranted [(''approval_id'', JStr (uuid_text (appr_id approved)))]]
                (no_options\<lparr>co_update := Some \<lparr>ar_approval = approved, ar_reason = Some ''approval granted''\<rparr>\<rparr>))
           (\<lambda>_. ret approved))))"

definition deny :: "('a, 'p) env \<Rightarrow> uuid \<Rightarrow> ('a, 'p, approval_request) run" where
  "deny E k = seq (reconstruct k) (\<lambda>c.
     case pending_record c of
       None \<Rightarrow> throw (Exn ValueErr ''no pending approval exists for task'')
     | Some pending \<Rightarrow>
         seq (now E) (\<lambda>time.
         let denied = (ar_approval pending)\<lparr>appr_status := ApDenied, appr_resolved := Some time\<rparr> in
         seq (lift_result (with_status (rc_task c) Blocked)) (\<lambda>blocked.
         seq (lift_result (context_record c)) (\<lambda>current.
         seq (commit_iteration E current blocked (rc_state c)
                [draft ApprovalDenied [(''approval_id'', JStr (uuid_text (appr_id denied)))],
                 draft TaskBlocked (reason_payload ''approval denied'')]
                (no_options\<lparr>co_update := Some \<lparr>ar_approval = denied, ar_reason = Some ''approval denied''\<rparr>,
                   co_snapshot := copy_checkpoint_for_terminal (rc_checkpoint c)\<rparr>))
           (\<lambda>_. ret denied)))))"

definition cancel :: "('a, 'p) env \<Rightarrow> uuid \<Rightarrow> ('a, 'p, unit) run" where
  "cancel E k = seq (reconstruct k) (\<lambda>c.
     if is_terminal (task_status (rc_task c)) then ret ()
     else seq (lift_result (with_status (rc_task c) Cancelled)) (\<lambda>cancelled.
       seq (lift_result (context_record c)) (\<lambda>current.
       seq (commit_iteration E current cancelled (rc_state c)
              [draft TaskCancelled (reason_payload ''cancellation requested'')]
              (no_options\<lparr>co_cancel := Some True,
                 co_snapshot := copy_checkpoint_for_terminal (rc_checkpoint c)\<rparr>))
         (\<lambda>_. ret ()))))"

definition load_or_create :: "('a, 'p) env \<Rightarrow> task \<Rightarrow> ('a, 'p, runtime_context) run" where
  "load_or_create E t = catch (reconstruct (task_id t))
     (\<lambda>e. if exn_class e = RecordNotFound
          then seq (create_task E t) (\<lambda>_. reconstruct (task_id t)) else throw e)"

text \<open>\<open>_observation_history\<close>: the recorded observations that validate, in order\<close>

definition observation_history :: "uuid \<Rightarrow> ('a, 'p, observation list) run" where
  "observation_history k = seq (view_events k) (\<lambda>events.
     ret (List.map_filter (\<lambda>e. if ev_type e = ObservationRecorded then load_observation (ev_payload e) else None)
       events))"

section \<open>Recovery\<close>

definition inspect_recovery ::
  "('a, 'p) env \<Rightarrow> uuid \<Rightarrow> snapshot option \<Rightarrow> ('a, 'p, report option) run" where
  "inspect_recovery E k current = seq (reconstruct k) (\<lambda>c.
     case rc_attempt c of
       None \<Rightarrow> ret None
     | Some a \<Rightarrow> seq (lift_result (context_snapshot c)) (\<lambda>prior.
         seq (lift_result (dispatcher_reconcile (env_reconcilers E) a prior current)) (\<lambda>r. ret (Some r))))"

definition clear_approval :: "safeguard_state \<Rightarrow> safeguard_state" where
  "clear_approval sg = sg\<lparr>sg_approved_action := None, sg_approved_id := None\<rparr>"

text \<open>The observation of the current state that an accepting resolution records, and the new spend.\<close>

definition recovered_observation ::
  "('a, 'p) env \<Rightarrow> runtime_context \<Rightarrow> attempt \<Rightarrow> snapshot option \<Rightarrow> report \<Rightarrow>
   ('a, 'p, observation \<times> execution_result \<times> snapshot) run" where
  "recovered_observation E c a current r =
     (case (current, rp_result r) of
        (Some snap, Some result) \<Rightarrow>
          (case rc_observation c of
             None \<Rightarrow> throw (Exn ValueErr ''recovery requires a prior observation'')
           | Some previous \<Rightarrow>
               (case as_int (jget (snap_state snap) ''tick'') of
                  None \<Rightarrow> throw (Exn ValueErr ''current adapter snapshot has an invalid tick'')
                | Some tick \<Rightarrow> seq (now E) (\<lambda>time.
                    if tick < 0 then throw (Exn ValidationErr ''tick'')
                    else ret (\<lparr>obs_version = 1, obs_sequence = obs_sequence previous + 1, obs_timestamp = time,
                      obs_tick = tick,
                      obs_summary = ''Recovered state after action '' @ uuid_text (at_id a) @ ''.'',
                      obs_state = snap_state snap\<rparr>, result, snap))))
      | _ \<Rightarrow> throw (Exn ValueErr ''this resolution requires independently observed current state''))"

definition reconciled_payload :: "attempt \<Rightarrow> report \<Rightarrow> resolution \<Rightarrow> jobject" where
  "reconciled_payload a r res =
     [(''action_id'', JStr (uuid_text (at_id a))),
      (''classification'', JStr (classification_value (rp_class r))),
      (''resolution'', JStr (resolution_value res)),
      (''reason'', JStr (rp_reason r))]"

definition resolve_recovery ::
  "('a, 'p) env \<Rightarrow> uuid \<Rightarrow> resolution \<Rightarrow> snapshot option \<Rightarrow> ('a, 'p, unit) run" where
  "resolve_recovery E k res current_snapshot = seq (reconstruct k) (\<lambda>c.
     case rc_attempt c of
       None \<Rightarrow> throw (Exn ValueErr ''task has no unresolved action attempt'')
     | Some a \<Rightarrow>
         seq (lift_result (context_snapshot c)) (\<lambda>prior.
         seq (lift_result (dispatcher_reconcile (env_reconcilers E) a prior current_snapshot)) (\<lambda>r.
         let sg = clear_approval (rc_state c);
             reconciled = draft ActionReconciled (reconciled_payload a r res);
             commit = (\<lambda>t drafts snap.
               seq (lift_result (context_record c)) (\<lambda>current.
               seq (commit_iteration E current t sg drafts (no_options\<lparr>co_snapshot := snap\<rparr>)) (\<lambda>_. ret ()))) in
         if res \<in> {AcceptCurrent, MarkExecuted} then
           seq (recovered_observation E c a current_snapshot r) (\<lambda>(ob, result, snap).
             commit (if res_success result
                 then (rc_task c)\<lparr>task_spend := dadd (task_spend (rc_task c)) (repr_dec (res_cost result))\<rparr>
                 else rc_task c)
               [observation_draft ob, reconciled] (Some (snap\<lparr>snap_sequence := obs_sequence ob\<rparr>)))
         else if res = Abandon then
           seq (lift_result (with_status (rc_task c) Blocked)) (\<lambda>blocked.
             commit blocked [reconciled, draft TaskBlocked (reason_payload ''recovery abandoned'')]
               (copy_checkpoint_for_terminal (rc_checkpoint c)))
         else commit (rc_task c) [reconciled] None)))"

text \<open>\<open>_gate_recovery\<close>: an attempt that never started is closed; a started one is marked for an operator.\<close>

definition gate_recovery :: "('a, 'p) env \<Rightarrow> runtime_context \<Rightarrow> ('a, 'p, runtime_context) run" where
  "gate_recovery E c =
     (case rc_attempt c of
        None \<Rightarrow> ret c
      | Some a \<Rightarrow>
          seq (lift_result (context_record c)) (\<lambda>current.
          if at_status a = AtPrepared then
            seq (commit_iteration E current (rc_task c) (rc_state c)
              [draft ActionReconciled
                [(''action_id'', JStr (uuid_text (at_id a))),
                 (''classification'', JStr ''definitely_not_executed''),
                 (''resolution'', JStr ''mark_not_executed''),
                 (''reason'', JStr ''execution boundary was never entered'')]] no_options)
              (\<lambda>_. reconstruct (task_id (rc_task c)))
          else if at_status a \<noteq> AtReconciliationRequired then
            seq (commit_iteration E current (rc_task c) (rc_state c)
              [draft ActionReconciliationRequired
                [(''action_id'', JStr (uuid_text (at_id a))),
                 (''reason'', JStr ''execution began without a committed checkpoint'')]] no_options)
              (\<lambda>_. reconstruct (task_id (rc_task c)))
          else ret c))"

section \<open>What the operations keep\<close>

lemma maintains_case_prod [maintain_rules]:
  "(\<And>a b. maintains P (f a b)) \<Longrightarrow> maintains P (case p of (a, b) \<Rightarrow> f a b)"
  by (cases p) simp

lemma maintains_adapter_snapshot [maintain_rules]: "maintains P (adapter_snapshot E ob)"
  unfolding adapter_snapshot_def Let_def by (intro maintain_rules)

lemma maintains_validate_restored [maintain_rules]: "maintains P (validate_restored_adapter E c)"
  unfolding validate_restored_adapter_def by (intro maintain_rules)

context store_invariant
begin

lemma commit_with_drafts_maintains [maintain_rules]:
  "maintains P (commit_with_drafts E current t sg drafts snap)"
  unfolding commit_with_drafts_def by (intro maintain_rules)

lemma commit_terminal_maintains [maintain_rules]:
  "maintains P (commit_terminal E current sg ob status reason prefix)"
  unfolding commit_terminal_def by (intro maintain_rules)

lemma create_task_maintains [maintain_rules]: "maintains P (create_task E t)"
  unfolding create_task_def by (intro maintain_rules)

lemma approve_maintains [maintain_rules]: "maintains P (approve E k)"
  unfolding approve_def Let_def by (intro maintain_rules)

lemma deny_maintains [maintain_rules]: "maintains P (deny E k)"
  unfolding deny_def Let_def by (intro maintain_rules)

lemma cancel_maintains [maintain_rules]: "maintains P (cancel E k)"
  unfolding cancel_def by (intro maintain_rules)

lemma load_or_create_maintains [maintain_rules]: "maintains P (load_or_create E t)"
  unfolding load_or_create_def by (intro maintain_rules)

lemma observation_history_maintains [maintain_rules]: "maintains P (observation_history k)"
  unfolding observation_history_def by (intro maintain_rules)

lemma recovered_observation_maintains [maintain_rules]:
  "maintains P (recovered_observation E c a current r)"
  unfolding recovered_observation_def by (intro maintain_rules)

lemma resolve_recovery_maintains [maintain_rules]: "maintains P (resolve_recovery E k res snap)"
  unfolding resolve_recovery_def Let_def by (intro maintain_rules)

lemma gate_recovery_maintains [maintain_rules]: "maintains P (gate_recovery E c)"
  unfolding gate_recovery_def by (intro maintain_rules)

end

end
