(* ===== verification/RefRestore.thy ===== *)
theory RefRestore
  imports RefSimSafety RefAdapter Engine
begin

text \<open>
  Capturing the reference simulation and starting it again. Reading back a captured state gives the
  state with every amount as a float, \<open>to_floats\<close>; where the integer defaults are exact as floats this is
  the same state for Python's equality, and the restored simulation answers every action as the
  original would have.
\<close>

section \<open>Reading back a captured state\<close>

definition to_floats :: "sim_state \<Rightarrow> sim_state" where
  "to_floats s = s\<lparr>s_cash := PFloat (pfl (s_cash s)), s_debt := PFloat (pfl (s_debt s)),
     s_income := PFloat (pfl (s_income s)), s_expense := PFloat (pfl (s_expense s))\<rparr>"

lemma to_floats_literal:
  "to_floats s = \<lparr>s_tick = s_tick s, s_cash = PFloat (pfl (s_cash s)), s_debt = PFloat (pfl (s_debt s)),
     s_population = s_population s, s_housing = s_housing s, s_power = s_power s, s_usage = s_usage s,
     s_infra = s_infra s, s_maintenance = s_maintenance s, s_income = PFloat (pfl (s_income s)),
     s_expense = PFloat (pfl (s_expense s)), s_paused = s_paused s, s_failed = s_failed s,
     s_projects = s_projects s\<rparr>"
  by (simp add: to_floats_def)

lemma load_float_pnum [simp]: "float_ok n \<Longrightarrow> load_float (pnum_json n) = Some (pfl n)"
  by (cases n) (auto simp: load_float_def is_float_def)

lemma load_float_float [simp]: "is_float r \<Longrightarrow> load_float (JFloat r) = Some r"
  by (simp add: load_float_def is_float_def)

lemma load_version_1 [simp]: "load_version (JInt 1) = Some 1"
  by (simp add: load_version_def)

lemma load_project_type_value [simp]: "load_project_type (JStr (project_type_value t)) = Some t"
  by (cases t) (simp_all add: load_project_type_def enum_parse_def)

lemma load_dump_project [simp]: "valid_project p \<Longrightarrow> load_project (dump_project p) = Some p"
  by (simp add: load_project_def dump_project_def valid_project_def)

lemma levels_float: "x \<in> set maintenance_levels \<Longrightarrow> is_float x"
proof -
  have half: "fl (1 / 2) = 1 / 2" using fl_dyadic [of 1 1] by simp
  assume "x \<in> set maintenance_levels"
  then have "x = 0 \<or> x = 1 / 2 \<or> x = 1" by (simp add: maintenance_levels_def)
  then consider "x = 0" | "x = 1 / 2" | "x = 1" by blast
  then show "is_float x" by cases (simp_all only: half is_float_def fl_0 fl_1)
qed

lemma valid_to_floats: "valid_sim s \<Longrightarrow> valid_sim (to_floats s)"
  by (auto simp: valid_sim_def to_floats_def pfl_nonneg)

lemma load_dump_projects:
  "list_all valid_project ps \<Longrightarrow>
   load_list (load_object load_project) (JList (map (\<lambda>p. JObj (dump_project p)) ps)) = Some ps"
  using load_list_map [of ps "load_object load_project" "\<lambda>p. JObj (dump_project p)"]
  by (auto simp: load_object_def list_all_iff)

lemma load_dump_state:
  assumes v: "valid_sim s"
  shows "load_state (dump_state s) = Some (to_floats s)"
proof -
  have f: "float_ok (s_cash s)" "float_ok (s_debt s)" "float_ok (s_income s)" "float_ok (s_expense s)"
    "is_float (s_infra s)" "is_float (s_maintenance s)" "list_all valid_project (s_projects s)"
    "0 \<le> s_tick s" "0 \<le> s_population s" "0 \<le> s_housing s" "0 \<le> s_power s" "0 \<le> s_usage s"
    using v levels_float by (auto simp: valid_sim_def)
  show ?thesis
    using valid_to_floats [OF v] unfolding to_floats_literal
    by (simp add: load_state_def dump_state_def f load_dump_projects Let_def)
qed

section \<open>The restored simulation behaves as the original\<close>

text \<open>Every amount that is still an integer is one that a float represents.\<close>

fun exact_num :: "pynum \<Rightarrow> bool" where
  "exact_num (PInt i) \<longleftrightarrow> fl (of_int i) = of_int i"
| "exact_num (PFloat r) = True"

definition exact_state :: "sim_state \<Rightarrow> bool" where
  "exact_state s \<longleftrightarrow> exact_num (s_cash s) \<and> exact_num (s_debt s) \<and> exact_num (s_income s) \<and> exact_num (s_expense s)"

lemma exact_pfl: "exact_num n \<Longrightarrow> pfl n = pval n"
  by (cases n) auto

lemma to_floats_eq: "exact_state s \<Longrightarrow> state_eq (to_floats s) s"
  by (simp add: exact_state_def state_eq_def to_floats_def exact_pfl)

lemma to_floats_fields [simp]:
  "s_tick (to_floats s) = s_tick s" "s_population (to_floats s) = s_population s"
  "s_housing (to_floats s) = s_housing s" "s_power (to_floats s) = s_power s" "s_usage (to_floats s) = s_usage s"
  "s_infra (to_floats s) = s_infra s" "s_maintenance (to_floats s) = s_maintenance s"
  "s_paused (to_floats s) = s_paused s" "s_failed (to_floats s) = s_failed s"
  "s_projects (to_floats s) = s_projects s"
  "pfl (s_cash (to_floats s)) = pfl (s_cash s)" "pfl (s_debt (to_floats s)) = pfl (s_debt s)"
  by (simp_all add: to_floats_def)

lemma to_floats_values:
  assumes "exact_state s"
  shows "pval (s_cash (to_floats s)) = pval (s_cash s)" "pval (s_debt (to_floats s)) = pval (s_debt s)"
  using assms by (simp_all add: exact_state_def to_floats_def exact_pfl)

lemma validate_to_floats: "exact_state s \<Longrightarrow> validate_sim_action (to_floats s) a = validate_sim_action s a"
  by (cases a) (simp_all add: to_floats_values validate_project_def)

lemma run_projects_to_floats: "run_projects (to_floats s) = run_projects s"
  by (simp add: run_projects_def)

lemma tick_to_floats: "tick_state (to_floats s) = tick_state s"
proof -
  have "calculate_population_growth ((to_floats s)\<lparr>s_tick := t, s_housing := h, s_power := p, s_usage := u,
      s_projects := ps\<rparr>) = calculate_population_growth (s\<lparr>s_tick := t, s_housing := h, s_power := p,
      s_usage := u, s_projects := ps\<rparr>)" for t h p u ps
    by (simp add: calculate_population_growth_def)
  moreover have "calculate_income ((to_floats s)\<lparr>s_tick := t, s_housing := h, s_power := p, s_usage := u,
      s_projects := ps, s_population := n\<rparr>) = calculate_income (s\<lparr>s_tick := t, s_housing := h, s_power := p,
      s_usage := u, s_projects := ps, s_population := n\<rparr>)" for t h p u ps n
    by (simp add: calculate_income_def)
  moreover have "debt_expense (s_debt (to_floats s)) = debt_expense (s_debt s)"
    by (simp add: debt_expense_def)
  ultimately show ?thesis
    by (simp add: tick_state_def Let_def run_projects_to_floats)
qed

lemma to_floats_tick [simp]:
  "to_floats (tick_state s) = tick_state s"
  "to_floats ((tick_state s)\<lparr>s_failed := f, s_paused := p\<rparr>) = (tick_state s)\<lparr>s_failed := f, s_paused := p\<rparr>"
  by (simp_all add: to_floats_def tick_state_def Let_def)

lemma exact_tick [simp]:
  "exact_state (tick_state s)" "exact_state ((tick_state s)\<lparr>s_failed := f, s_paused := p\<rparr>)"
  by (simp_all add: exact_state_def tick_state_def Let_def)

lemma advance_tick_state:
  assumes "\<not> s_paused s" and "\<not> s_failed s"
  obtains r where "advance_tick n s = ok r" and "tk_state r = (if failure_for_state (tick_state s) = None
    then tick_state s else (tick_state s)\<lparr>s_failed := True, s_paused := True\<rparr>)"
  using assms by (simp add: advance_tick_def Let_def)

lemma advance_ticks_to_floats:
  assumes "exact_state s"
  shows "fst (advance_ticks k m (to_floats s)) = to_floats (fst (advance_ticks k n s))"
    and "exact_state (fst (advance_ticks k n s))"
proof -
  have "fst (advance_ticks k m (to_floats s)) = to_floats (fst (advance_ticks k n s)) \<and>
      exact_state (fst (advance_ticks k n s))"
    using assms
  proof (induction k arbitrary: m n s)
    case (Suc k)
    show ?case
    proof (cases "s_paused s \<or> s_failed s")
      case True
      then show ?thesis using Suc.prems by (simp add: advance_ticks_stopped del: advance_ticks.simps)
    next
      case False
      define s' where "s' = (if failure_for_state (tick_state s) = None then tick_state s
        else (tick_state s)\<lparr>s_failed := True, s_paused := True\<rparr>)"
      have s': "to_floats s' = s'" "exact_state s'" by (simp_all add: s'_def)
      from False obtain r where r: "advance_tick n s = ok r" "tk_state r = s'"
        unfolding s'_def by (auto intro: advance_tick_state [of s n])
      from False obtain q where q: "advance_tick m (to_floats s) = ok q" "tk_state q = s'"
        unfolding s'_def by (auto intro: advance_tick_state [of "to_floats s" m] simp: tick_to_floats)
      show ?thesis
        using Suc.IH [OF s'(2), of "m + int (length (tk_events q))" "n + int (length (tk_events r))"] r q s'
        by (simp add: case_prod_beta)
    qed
  qed simp
  then show "fst (advance_ticks k m (to_floats s)) = to_floats (fst (advance_ticks k n s))"
    and "exact_state (fst (advance_ticks k n s))" by simp_all
qed

lemma action_effect_to_floats:
  assumes "exact_state s"
  shows "fst (action_effect uuid5 seed (to_floats s) a c) = to_floats (fst (action_effect uuid5 seed s a c))"
    and "exact_state (fst (action_effect uuid5 seed s a c))"
  using assms
  by (cases a; simp add: Let_def build_effect_def start_project_def spend_def to_floats_def exact_state_def)+

lemma state_eq_fields:
  "state_eq a b \<longleftrightarrow> pval (s_cash a) = pval (s_cash b) \<and> pval (s_debt a) = pval (s_debt b) \<and>
     pval (s_income a) = pval (s_income b) \<and> pval (s_expense a) = pval (s_expense b) \<and>
     s_tick a = s_tick b \<and> s_population a = s_population b \<and> s_housing a = s_housing b \<and>
     s_power a = s_power b \<and> s_usage a = s_usage b \<and> s_infra a = s_infra b \<and>
     s_maintenance a = s_maintenance b \<and> s_paused a = s_paused b \<and> s_failed a = s_failed b \<and>
     s_projects a = s_projects b"
  by (cases a; cases b) (auto simp: state_eq_def)

lemma state_eq_to_floats:
  assumes "exact_state s" and "exact_state t"
  shows "state_eq (to_floats s) (to_floats t) \<longleftrightarrow> state_eq s t"
  using assms by (simp add: state_eq_fields to_floats_values) (simp add: to_floats_def exact_state_def exact_pfl)

text \<open>A restored simulation: the state as floats, the same seed, and a history of its own.\<close>

definition restored :: "simulation \<Rightarrow> simulation \<Rightarrow> bool" where
  "restored sim sim' \<longleftrightarrow> exact_state (sim_state sim) \<and> sim_state sim' = to_floats (sim_state sim) \<and>
     sim_seed sim' = sim_seed sim"

lemma sim_step_restored:
  assumes "restored sim sim'"
  shows "fst (sim_step uuid5 a sim') = to_floats (fst (sim_step uuid5 a sim)) \<and>
    exact_state (fst (sim_step uuid5 a sim))"
proof -
  have r: "exact_state (sim_state sim)" "sim_state sim' = to_floats (sim_state sim)" "sim_seed sim' = sim_seed sim"
    using assms by (simp_all add: restored_def)
  show ?thesis
    using advance_ticks_to_floats [OF r(1)] action_effect_to_floats [OF r(1)]
    by (cases a) (simp_all only: sim_step_def sim_action.case r(2,3) case_prod_beta fst_conv validate_to_floats [OF r(1)] simp_thms)
qed

lemma sim_execute_restored:
  assumes "restored sim sim'"
  shows "fst (sim_execute uuid5 a sim') = fst (sim_execute uuid5 a sim) \<and>
    restored (snd (sim_execute uuid5 a sim)) (snd (sim_execute uuid5 a sim'))"
proof -
  have r: "exact_state (sim_state sim)" "sim_state sim' = to_floats (sim_state sim)" "sim_seed sim' = sim_seed sim"
    using assms by (simp_all add: restored_def)
  have v: "validate_sim_action (sim_state sim') a = validate_sim_action (sim_state sim) a"
    by (simp only: r(2) validate_to_floats [OF r(1)])
  show ?thesis
  proof (cases "sv_valid (validate_sim_action (sim_state sim) a)")
    case True
    note step = sim_step_restored [OF assms, of uuid5 a]
    then show ?thesis
      using True r v state_eq_to_floats [OF _ r(1), of "fst (sim_step uuid5 a sim)"]
      by (simp add: restored_def sim_execute_step)
  next
    case False
    then show ?thesis using r v by (simp add: sim_execute_rejected restored_def)
  qed
qed

primrec action_results :: "(string \<Rightarrow> uuid) \<Rightarrow> sim_action list \<Rightarrow> simulation \<Rightarrow> execution_result list" where
  "action_results uuid5 [] sim = []"
| "action_results uuid5 (a # as) sim =
     fst (sim_execute uuid5 a sim) # action_results uuid5 as (snd (sim_execute uuid5 a sim))"

lemma action_results_restored:
  "restored sim sim' \<Longrightarrow> action_results uuid5 as sim' = action_results uuid5 as sim \<and>
     restored (run_actions uuid5 as sim) (run_actions uuid5 as sim')"
  by (induction as arbitrary: sim sim') (use sim_execute_restored in auto)

section \<open>Adapters that can be captured and restored\<close>

lemma py_eq_objI: "list_all2 (\<lambda>(k, v) (k', v'). k = k' \<and> py_eq v v') d d' \<Longrightarrow> py_eq (JObj d) (JObj d')"
proof -
  assume "list_all2 (\<lambda>(k, v) (k', v'). k = k' \<and> py_eq v v') d d'"
  then have "map (\<lambda>(k, v). (k, py_norm v)) d = map (\<lambda>(k, v). (k, py_norm v)) d'"
    by (induction rule: list_all2_induct) (auto simp: py_eq_def)
  then show ?thesis by (simp add: py_eq_def)
qed

lemma pnum_py_eq: "exact_num n \<Longrightarrow> py_eq (JFloat (pfl n)) (pnum_json n)"
  by (cases n) (simp_all add: py_eq_def)

lemma dump_state_to_floats:
  "exact_state s \<Longrightarrow> py_eq (JObj (dump_state (to_floats s))) (JObj (dump_state s))"
  unfolding dump_state_def
  by (rule py_eq_objI) (simp add: to_floats_def exact_state_def pnum_py_eq)

text \<open>
  The contract that the restart of a checkpointed adapter rests on: a captured adapter is restored from
  its snapshot, under whatever observation number the runtime has recorded since, to an adapter whose own
  snapshot is the one it was restored from.
\<close>

locale restorable =
  fixes take_snapshot :: "'a \<Rightarrow> snapshot"
    and restore :: "snapshot \<Rightarrow> (exn, 'a) result"
    and sound :: "'a \<Rightarrow> bool"
  assumes restore_snapshot: "sound a \<Longrightarrow> \<exists>b. restore ((take_snapshot a)\<lparr>snap_sequence := n\<rparr>) = ok b \<and> sound b \<and>
    snapshot_eq (take_snapshot b) ((take_snapshot a)\<lparr>snap_sequence := n\<rparr>)"
begin

lemma restart_accepted:
  assumes "sound a" and "context_snapshot c = ok ((take_snapshot a)\<lparr>snap_sequence := n\<rparr>)"
    and "adp_snapshot (env_adapter E) = Some (\<lambda>a. ok (take_snapshot a))"
  shows "\<exists>b. restore ((take_snapshot a)\<lparr>snap_sequence := n\<rparr>) = ok b \<and> sound b \<and>
    validate_restored_adapter E c (w\<lparr>w_adapter := b\<rparr>) = (ok (), w\<lparr>w_adapter := b\<rparr>)"
proof -
  obtain b where b: "restore ((take_snapshot a)\<lparr>snap_sequence := n\<rparr>) = ok b" "sound b"
    "snapshot_eq (take_snapshot b) ((take_snapshot a)\<lparr>snap_sequence := n\<rparr>)"
    using restore_snapshot [OF assms(1)] by blast
  have "validate_restored_adapter E c (w\<lparr>w_adapter := b\<rparr>) = (ok (), w\<lparr>w_adapter := b\<rparr>)"
    using b(3) by (simp add: validate_restored_adapter_def assms(2,3) prog_defs)
  then show ?thesis using b by blast
qed

lemma mismatch_rejected:
  assumes "context_snapshot c = ok snap" and "\<not> snapshot_eq (take_snapshot (w_adapter w)) snap"
    and "adp_snapshot (env_adapter E) = Some (\<lambda>a. ok (take_snapshot a))"
  shows "\<exists>e. validate_restored_adapter E c w = (raise e, w) \<and> exn_class e = ReconstructionConsistency"
  using assms by (simp add: validate_restored_adapter_def prog_defs inconsistent_def)

end

definition ref_sound :: "ref_adapter \<Rightarrow> bool" where
  "ref_sound a \<longleftrightarrow> valid_sim (sim_state (ra_sim a)) \<and> exact_state (sim_state (ra_sim a))"

lemma exact_to_floats: "exact_state (to_floats s)"
  by (simp add: exact_state_def to_floats_def)

lemma ref_restore_snapshot:
  assumes "ref_sound a"
  shows "\<exists>b. ref_from_snapshot ((ref_snapshot a)\<lparr>snap_sequence := n\<rparr>) forbidden = ok b \<and> ref_sound b \<and>
    snapshot_eq (ref_snapshot b) ((ref_snapshot a)\<lparr>snap_sequence := n\<rparr>)"
  using assms dump_state_to_floats [of "sim_state (ra_sim a)"]
  by (simp add: ref_from_snapshot_def ref_snapshot_def ref_sound_def load_dump_state new_adapter_def
    new_simulation_def valid_to_floats exact_to_floats snapshot_eq_def)

interpretation ref_restart: restorable ref_snapshot "\<lambda>snap. ref_from_snapshot snap forbidden" ref_sound
  for forbidden
  by unfold_locales (rule ref_restore_snapshot)

end
