(* ===== verification/RefVerified.thy ===== *)
theory RefVerified
  imports RefRestore Verification DecisionValidation
begin

text \<open>
  The reference adapter under the runtime's gates: what the runtime's parameter check accepts, the adapter
  can parse; and what the adapter accepts and executes, the runtime's verifier confirms from the
  observations before and after.
\<close>

section \<open>Observing a difference\<close>

lemma map_of_norm: "map_of (map (\<lambda>(k, v). (k, py_norm v)) d) k = map_option py_norm (map_of d k)"
  by (induction d) auto

lemma py_eq_field:
  assumes "py_eq (JObj d) (JObj e)" and "distinct (map fst d)" and "distinct (map fst e)"
  shows "py_eq (jget d k) (jget e k)"
proof -
  let ?n = "\<lambda>d. map (\<lambda>(k, v). (k, py_norm v)) d"
  have "sort_key fst (?n d) = sort_key fst (?n e)" using assms(1) by (simp add: py_eq_def)
  moreover have "distinct (map fst (?n d))" "distinct (map fst (?n e))"
    using assms(2,3) by (simp_all add: case_prod_beta comp_def)
  ultimately have "map_of (?n d) = map_of (?n e)" using map_of_sort_key by metis
  then have "map_option py_norm (map_of d k) = map_option py_norm (map_of e k)"
    by (metis map_of_norm)
  then show ?thesis by (auto simp: jget_def py_eq_def split: option.splits)
qed

lemma dump_state_keys: "distinct (map fst (dump_state s))"
  by (simp add: dump_state_def)

lemma dump_state_differs:
  "\<not> py_eq (jget (dump_state s) k) (jget (dump_state t) k) \<Longrightarrow> \<not> py_eq (JObj (dump_state s)) (JObj (dump_state t))"
  using py_eq_field dump_state_keys by blast

lemma dump_state_get [simp]:
  "jget (dump_state s) ''active_projects'' = JList (map (\<lambda>p. JObj (dump_project p)) (s_projects s))"
  "jget (dump_state s) ''infrastructure'' = JFloat (s_infra s)"
  "jget (dump_state s) ''maintenance_level'' = JFloat (s_maintenance s)"
  "jget (dump_state s) ''debt'' = pnum_json (s_debt s)"
  "jget (dump_state s) ''cash'' = pnum_json (s_cash s)"
  "jget (dump_state s) ''paused'' = JBool (s_paused s)"
  "jget (dump_state s) ''tick'' = JInt (s_tick s)"
  by (simp_all add: dump_state_def jget_def)

lemma pnum_as_num [simp]: "as_num (pnum_json n) = Some (pval n)" "as_num_or_bool (pnum_json n) = Some (pval n)"
  by (cases n; simp)+

lemma pnum_py_eq_iff: "py_eq (pnum_json m) (pnum_json n) \<longleftrightarrow> pval m = pval n"
  by (cases m; cases n) (simp_all add: py_eq_def)

section \<open>Amounts that are large enough to be seen\<close>

lemma py_round6_ge_int: "of_int m \<le> x \<Longrightarrow> \<bar>m\<bar> \<le> 2 ^ 53 \<Longrightarrow> of_int m \<le> py_round6 x"
  using py_round6_mono [of "of_int m" x] by (simp add: py_round6_of_int)

lemma fadd_passes_integer:
  assumes "0 \<le> x" and "x \<le> 2 ^ 40" and "1 \<le> y"
  shows "of_int (\<lfloor>x\<rfloor> + 1) \<le> fadd x y"
  unfolding fadd_def
proof (rule fl_ge_int)
  have "\<lfloor>x\<rfloor> \<le> 2 ^ 40" using assms(2) by (simp add: floor_le_iff)
  then show "\<bar>\<lfloor>x\<rfloor> + 1\<bar> \<le> 2 ^ 53" using assms(1) by simp
qed (use assms(3) in linarith)

lemma round6_fadd_increases:
  assumes "0 \<le> x" and "x \<le> 2 ^ 40" and "1 \<le> y"
  shows "x < py_round6 (fadd x y)"
proof -
  have "\<lfloor>x\<rfloor> \<le> 2 ^ 40" using assms(2) by (simp add: floor_le_iff)
  then have "\<bar>\<lfloor>x\<rfloor> + 1\<bar> \<le> 2 ^ 53" using assms(1) by simp
  from py_round6_ge_int [OF fadd_passes_integer [OF assms] this] show ?thesis by linarith
qed

lemma round6_fsub_decreases:
  assumes "0 \<le> x" and "x \<le> 2 ^ 40" and "1 \<le> y" and "y \<le> x"
  shows "py_round6 (fsub x y) < x"
proof -
  have c: "\<lceil>x\<rceil> \<le> 2 ^ 40" "0 \<le> \<lceil>x\<rceil>" using assms(1,2) by (simp_all add: ceiling_le_iff)
  moreover have "(2 :: int) ^ 40 \<le> 2 ^ 53" "(1 :: int) \<le> 2 ^ 53" by simp_all
  ultimately have small: "\<bar>\<lceil>x\<rceil> - 1\<bar> \<le> 2 ^ 53" by linarith
  have "x - y \<le> of_int (\<lceil>x\<rceil> - 1)" using assms(3) by linarith
  then have "fsub x y \<le> of_int (\<lceil>x\<rceil> - 1)" unfolding fsub_def using small by (rule fl_le_int)
  then have "py_round6 (fsub x y) \<le> of_int (\<lceil>x\<rceil> - 1)" using small by (rule py_round6_le_int)
  then show ?thesis by linarith
qed

text \<open>What an observer sees of an accepted action.\<close>

fun visible_amount :: "sim_action \<Rightarrow> bool" where
  "visible_amount (AdvanceTime k) = (0 < k)"
| "visible_amount (RepairInfrastructure x) = (1 \<le> x)"
| "visible_amount (RepayLoan x) = (1 \<le> x)"
| "visible_amount _ = True"

section \<open>Parsing\<close>

fun sim_action_type :: "sim_action \<Rightarrow> string" where
  "sim_action_type (AdvanceTime k) = ''advance_time''"
| "sim_action_type (BuildHousing n) = ''build_housing''"
| "sim_action_type (BuildPower n) = ''build_power''"
| "sim_action_type (RepairInfrastructure x) = ''repair''"
| "sim_action_type (SetMaintenance x) = ''set_maintenance''"
| "sim_action_type (TakeLoan x) = ''take_loan''"
| "sim_action_type (RepayLoan x) = ''repay_loan''"
| "sim_action_type Pause = ''pause''"
| "sim_action_type Resume = ''resume''"

lemma need_Some: "need d k f = Some x \<Longrightarrow> \<exists>v. map_of d k = Some v \<and> f v = Some x"
  by (auto simp: need_def split: option.splits)

lemma load_values:
  "load_ge n v = Some i \<Longrightarrow> n \<le> i"
  "load_positive v = Some x \<Longrightarrow> is_float x \<and> 0 < x"
  "load_level v = Some x \<Longrightarrow> x \<in> set maintenance_levels"
  by (auto simp: load_ge_def load_positive_def load_level_def load_float_def split: option.splits if_splits)

lemma parse_sim_action_cases:
  assumes "parse_sim_action d = Some sa"
  shows "jget d ''type'' = JStr (sim_action_type sa) \<and> valid_sim_action sa"
proof -
  define t where "t = jget d ''type''"
  have "t = JStr (sim_action_type sa) \<and> valid_sim_action sa"
    using assms unfolding parse_sim_action_def Let_def t_def [symmetric]
    by (auto dest!: need_Some load_values split: if_split_asm)
  then show ?thesis by (simp add: t_def)
qed

lemma fold_update_other:
  "k \<notin> set (map fst ps) \<Longrightarrow> map_of (fold (\<lambda>(k, v) d. AList.update k v d) ps d) k = map_of d k"
  by (induction ps arbitrary: d) (auto simp: dict_set_get)

lemma action_payload_type:
  "''type'' \<notin> set (map fst (act_parameters a)) \<Longrightarrow> jget (action_payload a) ''type'' = JStr (act_type a)"
  using fold_update_other [of "''type''" "act_parameters a" "[(''type'', JStr (act_type a))]"]
  by (simp add: action_payload_def jget_def)

section \<open>The effect of an accepted action\<close>

definition visible_effect :: "sim_action \<Rightarrow> sim_state \<Rightarrow> sim_state \<Rightarrow> bool" where
  "visible_effect a s s' = (case a of
     AdvanceTime k \<Rightarrow> s_tick s < s_tick s'
   | BuildHousing n \<Rightarrow> length (s_projects s') = length (s_projects s) + 1
   | BuildPower n \<Rightarrow> length (s_projects s') = length (s_projects s) + 1
   | RepairInfrastructure x \<Rightarrow> s_infra s < s_infra s'
   | SetMaintenance x \<Rightarrow> s_maintenance s' \<noteq> s_maintenance s
   | TakeLoan x \<Rightarrow> pval (s_debt s) < pval (s_debt s')
   | RepayLoan x \<Rightarrow> pval (s_debt s') < pval (s_debt s)
   | Pause \<Rightarrow> \<not> s_paused s \<and> s_paused s'
   | Resume \<Rightarrow> s_paused s \<and> \<not> s_paused s')"

lemma advance_ticks_tick:
  "s_tick s \<le> s_tick (fst (advance_ticks k n s))"
proof (induction k arbitrary: n s)
  case (Suc k)
  show ?case
  proof (cases "advance_tick n s")
    case (Inr r)
    then have "s_tick (tk_state r) = s_tick s + 1"
      by (auto simp: advance_tick_ok Let_def tick_state_def)
    then show ?thesis
      using Inr Suc.IH [of "tk_state r" "n + int (length (tk_events r))"] by (simp add: case_prod_beta)
  qed simp
qed simp

lemma advance_ticks_runs:
  assumes "0 < k" and "\<not> s_paused s" and "\<not> s_failed s"
  shows "s_tick s < s_tick (fst (advance_ticks k n s))"
proof -
  obtain j where k: "k = Suc j" using assms(1) by (cases k) auto
  obtain r where r: "advance_tick n s = ok r" using assms(2,3) by (auto simp: advance_tick_def Let_def)
  then have "s_tick (tk_state r) = s_tick s + 1"
    by (auto simp: advance_tick_ok Let_def tick_state_def)
  then show ?thesis
    using k r advance_ticks_tick [of "tk_state r" j "n + int (length (tk_events r))"]
    by (simp add: case_prod_beta)
qed

lemma sim_step_visible:
  assumes s: "sound_state (sim_state sim)" and e: "exact_state (sim_state sim)"
    and v: "sv_valid (validate_sim_action (sim_state sim) a)" and big: "visible_amount a"
  shows "visible_effect a (sim_state sim) (fst (sim_step uuid5 a sim))"
proof -
  note run = accepted_not_failed [OF v]
  have debt: "pfl (s_debt (sim_state sim)) = pval (s_debt (sim_state sim))" "0 \<le> pval (s_debt (sim_state sim))"
    "pval (s_debt (sim_state sim)) \<le> 2 ^ 40"
    using e s run by (auto simp: exact_state_def exact_pfl sound_state_def valid_sim_def solvent_def)
  have infra: "0 \<le> s_infra (sim_state sim)" using s by (simp add: sound_state_def valid_sim_def)
  show ?thesis
  proof (cases a)
    case (AdvanceTime k)
    then show ?thesis using advance_ticks_runs v big by (simp add: visible_effect_def sim_step_def split: if_splits)
  next
    case (RepairInfrastructure x)
    have "s_infra (sim_state sim) < 100" using v RepairInfrastructure by (auto split: if_splits)
    then have small: "\<bar>\<lfloor>s_infra (sim_state sim)\<rfloor> + 1\<bar> \<le> 2 ^ 53" using infra by (simp add: floor_less_iff)
    have floor: "s_infra (sim_state sim) < of_int (\<lfloor>s_infra (sim_state sim)\<rfloor> + 1)" by linarith
    have "of_int (\<lfloor>s_infra (sim_state sim)\<rfloor> + 1) \<le> min 100 (fadd (s_infra (sim_state sim)) x)"
      using fadd_passes_integer [OF infra, of x] big RepairInfrastructure \<open>s_infra (sim_state sim) < 100\<close>
      by (simp add: floor_less_iff)
    then have "s_infra (sim_state sim) < py_round6 (min 100 (fadd (s_infra (sim_state sim)) x))"
      using py_round6_ge_int [OF _ small] floor less_le_trans by blast
    then show ?thesis using RepairInfrastructure
      by (simp add: visible_effect_def sim_step_def case_prod_beta Let_def)
  next
    case (TakeLoan x)
    then have "1 \<le> x" using v by (auto split: if_splits)
    then show ?thesis
      using TakeLoan round6_fadd_increases [OF debt(2,3)] debt(1)
      by (simp add: visible_effect_def sim_step_def case_prod_beta Let_def)
  next
    case (RepayLoan x)
    then have "x \<le> pval (s_debt (sim_state sim))" using v by (auto split: if_splits)
    then show ?thesis
      using RepayLoan round6_fsub_decreases [OF debt(2,3)] debt(1) big
      by (simp add: visible_effect_def sim_step_def case_prod_beta Let_def)
  qed (use v in \<open>auto simp: visible_effect_def sim_step_def case_prod_beta Let_def build_effect_def split: if_splits\<close>)
qed

lemma visible_effect_changes:
  assumes "visible_effect a s s'"
  shows "\<not> state_eq s' s"
  using assms by (cases a) (auto simp: visible_effect_def state_eq_fields)

lemma py_eq_scalars [simp]:
  "py_eq (JInt i) (JInt j) \<longleftrightarrow> i = j" "py_eq (JFloat x) (JFloat y) \<longleftrightarrow> x = y"
  "py_eq (JBool b) (JBool c) \<longleftrightarrow> b = c"
  by (auto simp: py_eq_def)

lemma py_eq_list_length: "py_eq (JList xs) (JList ys) \<Longrightarrow> length xs = length ys"
  by (auto simp: py_eq_def dest: map_eq_imp_length_eq)

lemma visible_effect_dump:
  assumes "visible_effect a s s'"
  shows "\<not> py_eq (JObj (dump_state s)) (JObj (dump_state s'))"
proof -
  have "\<exists>k. \<not> py_eq (jget (dump_state s) k) (jget (dump_state s') k)"
  proof (cases a)
    case (BuildHousing n)
    then show ?thesis using assms
      by (intro exI [of _ "''active_projects''"]) (auto simp: visible_effect_def dest!: py_eq_list_length)
  next
    case (BuildPower n)
    then show ?thesis using assms
      by (intro exI [of _ "''active_projects''"]) (auto simp: visible_effect_def dest!: py_eq_list_length)
  next
    case (AdvanceTime k)
    then show ?thesis using assms by (intro exI [of _ "''tick''"]) (simp add: visible_effect_def)
  next
    case (RepairInfrastructure x)
    then show ?thesis using assms by (intro exI [of _ "''infrastructure''"]) (simp add: visible_effect_def)
  next
    case (SetMaintenance x)
    then show ?thesis using assms by (intro exI [of _ "''maintenance_level''"]) (auto simp: visible_effect_def)
  next
    case (TakeLoan x)
    then show ?thesis using assms
      by (intro exI [of _ "''debt''"]) (auto simp: visible_effect_def pnum_py_eq_iff)
  next
    case (RepayLoan x)
    then show ?thesis using assms
      by (intro exI [of _ "''debt''"]) (auto simp: visible_effect_def pnum_py_eq_iff)
  qed (use assms in \<open>auto intro!: exI [of _ "''paused''"] simp: visible_effect_def\<close>)
  then show ?thesis using dump_state_differs by blast
qed

text \<open>The effect as the verifier looks for it in the two observations.\<close>

lemma visible_effect_observed:
  assumes "visible_effect a s s'" and "act_type act = sim_action_type a"
    and "obs_state before = dump_state s" and "obs_state after = dump_state s'"
    and "obs_tick before = s_tick s" and "obs_tick after = s_tick s'"
  shows "observed_effect before act after"
  using assms
  by (cases a) (auto simp: visible_effect_def observed_effect_def Let_def project_added_def
    numeric_increased_def numeric_decreased_def changed_def)

lemma fsub_self: "fsub x x = 0"
  by (simp add: fsub_def)

lemma ref_observe_ok:
  "ref_observe time a = (ok ob, a') \<Longrightarrow>
     obs_state ob = dump_state (sim_state (ra_sim a)) \<and> obs_tick ob = s_tick (sim_state (ra_sim a)) \<and>
     ra_sim a' = ra_sim a"
  by (auto simp: ref_observe_def Let_def split: if_splits)

lemma ref_execute_ok:
  assumes "ra_initialized a" and "parse_sim_action (action_payload act) = Some sa"
    and "sv_valid (ref_check act a)"
  shows "sv_valid (validate_sim_action (sim_state (ra_sim a)) sa)"
    and "ref_check act a = validate_sim_action (sim_state (ra_sim a)) sa"
    and "ref_execute uuid5 act a =
      (ok (fst (sim_execute uuid5 sa (ra_sim a))), a\<lparr>ra_sim := snd (sim_execute uuid5 sa (ra_sim a))\<rparr>)"
  using assms by (auto simp: ref_check_def ref_execute_def Let_def case_prod_beta split: if_splits)

lemma accepted_action_verified:
  assumes init: "ra_initialized a" and s: "sound_state (sim_state (ra_sim a))"
    and e: "exact_state (sim_state (ra_sim a))"
    and parse: "parse_sim_action (action_payload act) = Some sa" and plain: "''type'' \<notin> set (map fst (act_parameters act))"
    and valid: "sv_valid (ref_check act a)" and big: "visible_amount sa"
    and run: "ref_execute uuid5 act a = (ok result, a')"
    and before: "obs_state before = dump_state (sim_state (ra_sim a))" "obs_tick before = s_tick (sim_state (ra_sim a))"
    and after: "obs_state after = dump_state (sim_state (ra_sim a'))" "obs_tick after = s_tick (sim_state (ra_sim a'))"
  shows "ver_verified (verify before act result after (av_cost (validation_of (ref_check act a))))"
proof -
  let ?s = "sim_state (ra_sim a)" and ?s' = "fst (sim_step uuid5 sa (ra_sim a))"
  note check = ref_execute_ok [OF init parse valid]
  have result: "result = fst (sim_execute uuid5 sa (ra_sim a))" "sim_state (ra_sim a') = ?s'"
    using run check(3) by (auto simp: sim_execute_step [OF check(1)])
  have effect: "visible_effect sa ?s ?s'" by (rule sim_step_visible [OF s e check(1) big])
  have "act_type act = sim_action_type sa"
    using parse_sim_action_cases [OF parse] action_payload_type [OF plain] by simp
  from visible_effect_observed [OF effect this] before after result(2)
  have "observed_effect before act after" by simp
  moreover have "state_differs before after"
    using visible_effect_dump [OF effect] before after result(2) by (simp add: state_differs_def)
  moreover have "res_success result" "res_changed result" "res_cost result = sv_cost (ref_check act a)"
    using visible_effect_changes [OF effect]
    by (simp_all add: result(1) sim_execute_step [OF check(1)] sim_result_def check(2))
  ultimately show ?thesis
    using fl_nonneg [of "1 / 1000000"] by (simp add: verify_iff validation_of_def fsub_self)
qed

section \<open>Accepted parameters parse\<close>

lemma parameters_single:
  assumes "parameters_ok d ps" and "ad_parameters d = [p]" and "pd_required p" and "distinct (map fst ps)"
  shows "\<exists>v. ps = [(pd_name p, v)] \<and> parameter_ok p v"
proof -
  have names: "fst x = pd_name p" if "x \<in> set ps" for x
    using assms(1,2) that by (fastforce simp: parameters_ok_def find_parameter_def split: if_splits)
  have one: "pd_name p \<in> set (map fst ps)" using assms(1-3) by (simp add: parameters_ok_def)
  then obtain n v qs where ps: "ps = (n, v) # qs" by (cases ps) auto
  then have "n = pd_name p" using names [of "(n, v)"] by simp
  moreover have "qs = []"
  proof (cases qs)
    case (Cons y ys)
    then have "fst y = n" using names [of y] ps \<open>n = pd_name p\<close> by simp
    then show ?thesis using assms(4) ps Cons by simp
  qed
  moreover have "parameter_ok p v"
    using assms(1,2) ps \<open>n = pd_name p\<close> by (auto simp: parameters_ok_def find_parameter_def)
  ultimately show ?thesis using ps by simp
qed

lemma parameters_none: "parameters_ok d ps \<Longrightarrow> ad_parameters d = [] \<Longrightarrow> ps = []"
  by (cases ps) (auto simp: parameters_ok_def find_parameter_def)

lemma integer_parameter_loads:
  "parameter_ok (parameter n PInteger (Some 1) None False []) v \<Longrightarrow> \<exists>i. load_ge 1 v = Some i"
proof -
  assume p: "parameter_ok (parameter n PInteger (Some 1) None False []) v"
  then obtain i where v: "v = JInt i" "1 \<le> fl (of_int i)"
    by (cases v) (auto simp: parameter_ok_def parameter_def)
  then have "1 \<le> i" using fl_le_int [of "of_int i" 0] by (cases "1 \<le> i") auto
  then show ?thesis using v by simp
qed

lemma number_parameter_loads:
  "parameter_ok (parameter n PNumber (Some 0) None True []) v \<Longrightarrow> \<exists>x. load_positive v = Some x"
  "parameter_ok (parameter n PNumber (Some 10000) (Some 500000) False []) v \<Longrightarrow> \<exists>x. load_positive v = Some x"
  by (cases v; force simp: parameter_ok_def parameter_def load_positive_def load_float_def)+

lemma level_parameter_loads:
  "parameter_ok (parameter n PNumber None None False [JFloat 0, JFloat (1 / 2), JFloat 1]) v \<Longrightarrow>
     \<exists>x. load_level v = Some x"
proof -
  assume p: "parameter_ok (parameter n PNumber None None False [JFloat 0, JFloat (1 / 2), JFloat 1]) v"
  then obtain x where x: "as_num v = Some x" "x = 0 \<or> x = 1 / 2 \<or> x = 1"
    by (cases v) (auto simp: parameter_ok_def parameter_def py_eq_def)
  have half: "fl (1 / 2) = 1 / 2" using fl_dyadic [of 1 1] by simp
  from x(2) have "fl x = x" using half by (elim disjE) (simp_all only: fl_0 fl_1)
  then show ?thesis using x by (auto simp: load_level_def load_float_def maintenance_levels_def)
qed

lemma parse_payloads:
  "load_ge 1 v = Some i \<Longrightarrow> parse_sim_action [(''type'', JStr ''advance_time''), (''ticks'', v)] = Some (AdvanceTime i)"
  "load_ge 1 v = Some i \<Longrightarrow> parse_sim_action [(''type'', JStr ''build_housing''), (''units'', v)] = Some (BuildHousing i)"
  "load_ge 1 v = Some i \<Longrightarrow> parse_sim_action [(''type'', JStr ''build_power''), (''capacity'', v)] = Some (BuildPower i)"
  "load_positive v = Some x \<Longrightarrow> parse_sim_action [(''type'', JStr ''repair''), (''amount'', v)] = Some (RepairInfrastructure x)"
  "load_level v = Some x \<Longrightarrow> parse_sim_action [(''type'', JStr ''set_maintenance''), (''level'', v)] = Some (SetMaintenance x)"
  "load_positive v = Some x \<Longrightarrow> parse_sim_action [(''type'', JStr ''take_loan''), (''amount'', v)] = Some (TakeLoan x)"
  "load_positive v = Some x \<Longrightarrow> parse_sim_action [(''type'', JStr ''repay_loan''), (''amount'', v)] = Some (RepayLoan x)"
  "parse_sim_action [(''type'', JStr ''pause'')] = Some Pause"
  "parse_sim_action [(''type'', JStr ''resume'')] = Some Resume"
  by (simp_all add: parse_sim_action_def jget_def)

lemma single_parameter_parse:
  assumes "parameters_ok d (act_parameters act)" and "distinct (map fst (act_parameters act))"
    and "act_type act = ad_type d" and "ad_parameters d = [p]" and "pd_required p" and "pd_name p \<noteq> ''type''"
    and "\<And>v. parameter_ok p v \<Longrightarrow> \<exists>sa. parse_sim_action [(''type'', JStr (ad_type d)), (pd_name p, v)] = Some sa"
  shows "\<exists>sa. parse_sim_action (action_payload act) = Some sa \<and> ''type'' \<notin> set (map fst (act_parameters act))"
  using parameters_single [OF assms(1,4,5,2)] assms(3,6,7) by (auto simp: action_payload_def)

lemma no_parameter_parse:
  assumes "parameters_ok d (act_parameters act)" and "act_type act = ad_type d" and "ad_parameters d = []"
    and "parse_sim_action [(''type'', JStr (ad_type d))] = Some sa"
  shows "\<exists>sa. parse_sim_action (action_payload act) = Some sa \<and> ''type'' \<notin> set (map fst (act_parameters act))"
  using parameters_none [OF assms(1,3)] assms(2,4) by (simp add: action_payload_def)

lemma parameter_simps [simp]:
  "pd_name (parameter n t lo hi ex vs) = n" "pd_required (parameter n t lo hi ex vs)"
  by (simp_all add: parameter_def)

lemma accepted_parameters_parse:
  assumes d: "d \<in> set action_definitions" and t: "act_type act = ad_type d"
    and ps: "parameters_ok d (act_parameters act)" and keys: "distinct (map fst (act_parameters act))"
  shows "\<exists>sa. parse_sim_action (action_payload act) = Some sa \<and> ''type'' \<notin> set (map fst (act_parameters act))"
proof -
  note one = single_parameter_parse [OF ps keys t] and none = no_parameter_parse [OF ps t]
  note loads = integer_parameter_loads number_parameter_loads level_parameter_loads
  show ?thesis
    using d unfolding action_definitions_def
  proof (simp only: list.set insert_iff empty_iff simp_thms, elim disjE, goal_cases)
    case 1 show ?case by (rule one) (use 1 in \<open>auto dest!: loads simp: parse_payloads\<close>)
  next
    case 2 show ?case by (rule one) (use 2 in \<open>auto dest!: loads simp: parse_payloads\<close>)
  next
    case 3 show ?case by (rule one) (use 3 in \<open>auto dest!: loads simp: parse_payloads\<close>)
  next
    case 4 show ?case by (rule one) (use 4 in \<open>auto dest!: loads simp: parse_payloads\<close>)
  next
    case 5 show ?case by (rule one) (use 5 in \<open>auto dest!: loads simp: parse_payloads\<close>)
  next
    case 6 show ?case by (rule one) (use 6 in \<open>auto dest!: loads simp: parse_payloads\<close>)
  next
    case 7 show ?case by (rule one) (use 7 in \<open>auto dest!: loads simp: parse_payloads\<close>)
  qed (rule none; simp add: parse_payloads)+
qed

end
