(* ===== verification/RefProperties.thy ===== *)
theory RefProperties
  imports RefVerified Policy Samples
begin

text \<open>
  The properties of the reference simulation, its adapter and its reconciler, each over all action
  sequences and all states of the invariant of \<open>RefSimSafety\<close>.
\<close>

section \<open>Simulation\<close>

text \<open>
  C2. A simulation that starts from the initial state and executes any sequence of well-formed actions,
  accepted or not, stays sound: its state validates, the population never exceeds housing or power, it is
  marked failed exactly when it shows a failure condition (cash below zero, no infrastructure left, debt
  above two million), and its events are numbered from one without a gap.
\<close>

theorem simulation_sound:
  assumes "list_all valid_sim_action as"
  shows "let sim = run_actions uuid5 as (new_simulation initial_state seed); s = sim_state sim in
    valid_sim s \<and> s_population s \<le> s_housing s \<and> s_population s \<le> s_power s \<and>
    (s_failed s \<longleftrightarrow> failure_for_state s \<noteq> None) \<and>
    map sev_sequence (sim_events sim) = [1..int (length (sim_events sim))]"
proof -
  have "sim_sound (new_simulation initial_state seed)"
    by (simp add: sim_sound_def new_simulation_def numbered_def initial_state_sound)
  from run_actions_sound [OF this assms] have
    "sim_sound (run_actions uuid5 as (new_simulation initial_state seed))" .
  then have s: "sound_state (sim_state (run_actions uuid5 as (new_simulation initial_state seed)))"
    and n: "numbered (sim_events (run_actions uuid5 as (new_simulation initial_state seed)))"
    by (simp_all only: sim_sound_def)
  from sound_failed_iff [OF s] s n show ?thesis
    by (simp only: Let_def sound_state_def numbered_def simp_thms)
qed

theorem simulation_sound_witness:
  "valid_sim (sim_state (run_actions (\<lambda>_. 0) [Pause, TakeLoan 20000, AdvanceTime 3] (new_simulation initial_state ''0'')))"
proof -
  have "list_all valid_sim_action [Pause, TakeLoan 20000, AdvanceTime 3]"
    by (simp add: is_float_def round_exact)
  from simulation_sound [OF this, of "\<lambda>_. 0" "''0''"] show ?thesis by (simp only: Let_def simp_thms)
qed

text \<open>
  An action that the simulation accepts never overdraws: whatever the action other than letting time
  pass, cash stays at or above zero and debt at or below the maximum of two million.
\<close>

theorem accepted_action_solvent:
  assumes "sound_state (sim_state sim)" and "valid_sim_action a" and "\<forall>k. a \<noteq> AdvanceTime k"
    and "res_success (fst (sim_execute uuid5 a sim))"
  shows "0 \<le> pval (s_cash (sim_state (snd (sim_execute uuid5 a sim)))) \<and>
    pval (s_debt (sim_state (snd (sim_execute uuid5 a sim)))) \<le> 2000000 \<and>
    \<not> s_failed (sim_state (snd (sim_execute uuid5 a sim)))"
proof -
  have v: "sv_valid (validate_sim_action (sim_state sim) a)"
    using assms(4) sim_execute_rejected [of sim a uuid5] by (cases "sv_valid (validate_sim_action (sim_state sim) a)")
      (simp_all add: sim_result_def)
  let ?s' = "fst (sim_step uuid5 a sim)"
  have s': "sound_state ?s'" by (rule sim_step_sound(1) [OF assms(1,2) v])
  have "s_failed ?s' = s_failed (sim_state sim)"
    using assms(3) by (cases a) (simp_all add: sim_step_def case_prod_beta build_effect_def Let_def)
  with accepted_not_failed [OF v] have run: "\<not> s_failed ?s'" by simp
  with s' have "solvent ?s'" by (simp add: sound_state_def)
  then show ?thesis using run by (simp add: sim_execute_accepted(1) [OF v] solvent_def)
qed

theorem accepted_action_solvent_witness:
  "0 \<le> pval (s_cash (sim_state (snd (sim_execute (\<lambda>_. 0) Pause (new_simulation initial_state ''0'')))))"
proof -
  let ?sim = "new_simulation initial_state ''0''"
  have sound: "sound_state (sim_state ?sim)" by (simp add: new_simulation_def initial_state_sound)
  have "sv_valid (validate_sim_action (sim_state ?sim) Pause)" by (simp add: new_simulation_def initial_state_def)
  then have "res_success (fst (sim_execute (\<lambda>_. 0) Pause ?sim))" by (rule sim_execute_accepted(2))
  from accepted_action_solvent [OF sound _ _ this] show ?thesis by simp
qed

text \<open>
  A failed simulation is frozen: no sequence of actions changes its state or its events any more.
\<close>

theorem failed_simulation_frozen:
  assumes "s_failed (sim_state sim)"
  shows "sim_state (run_actions uuid5 as sim) = sim_state sim \<and> sim_events (run_actions uuid5 as sim) = sim_events sim"
  using assms by (rule run_actions_failed)

theorem failed_simulation_frozen_witness:
  "sim_state (run_actions (\<lambda>_. 0) [Resume, AdvanceTime 1]
     (new_simulation (initial_state\<lparr>s_failed := True, s_paused := True\<rparr>) ''0'')) =
   initial_state\<lparr>s_failed := True, s_paused := True\<rparr>"
proof -
  have "s_failed (sim_state (new_simulation (initial_state\<lparr>s_failed := True, s_paused := True\<rparr>) ''0''))"
    by (simp add: new_simulation_def)
  from failed_simulation_frozen [OF this, of "\<lambda>_. 0" "[Resume, AdvanceTime 1]"]
  show ?thesis by (simp only:) (simp add: new_simulation_def)
qed

text \<open>
  Advancing by \<open>j\<close> and then by \<open>k\<close> ticks is advancing by \<open>j + k\<close>: the same state and the same events
  with the same numbers, also when the simulation fails on the way or is paused from the start.
\<close>

theorem advance_composes:
  assumes "0 \<le> j" and "0 \<le> k"
  shows "let two = snd (sim_execute uuid5 (AdvanceTime k) (snd (sim_execute uuid5 (AdvanceTime j) sim)));
             one = snd (sim_execute uuid5 (AdvanceTime (j + k)) sim) in
    sim_state two = sim_state one \<and> sim_events two = sim_events one"
  using assms advance_ticks_add [of "nat j" "nat k" "int (length (sim_events sim))" "sim_state sim"]
  by (simp add: Let_def advance_execute nat_add_distrib case_prod_beta)

theorem advance_composes_witness:
  "sim_state (snd (sim_execute (\<lambda>_. 0) (AdvanceTime 2) (snd (sim_execute (\<lambda>_. 0) (AdvanceTime 3)
     (new_simulation initial_state ''0''))))) =
   sim_state (snd (sim_execute (\<lambda>_. 0) (AdvanceTime 5) (new_simulation initial_state ''0'')))"
  using advance_composes [of 3 2 "\<lambda>_. 0" "new_simulation initial_state ''0''"] by (simp only: Let_def) simp

text \<open>
  One tick completes exactly the projects with one tick left, adds their amounts to housing and power,
  and keeps the others in order with one tick less.
\<close>

theorem tick_completes_due_projects:
  "s_housing (tick_state s) = s_housing s + (\<Sum>p\<leftarrow>filter (due Housing) (s_projects s). pj_amount p) \<and>
   s_power (tick_state s) = s_power s + (\<Sum>p\<leftarrow>filter (due Power) (s_projects s). pj_amount p) \<and>
   s_projects (tick_state s) =
     map (\<lambda>p. p\<lparr>pj_progress := pj_duration p - pj_remaining p + 1, pj_remaining := pj_remaining p - 1\<rparr>)
       (filter (\<lambda>p. 1 < pj_remaining p) (s_projects s))"
  using fold_step_project_amounts [of "s_projects s"
    "\<lparr>pl_active = [], pl_housing = s_housing s, pl_power = s_power s, pl_events = []\<rparr>"]
  by (simp add: tick_state_def Let_def run_projects_def)

section \<open>Restart\<close>

text \<open>
  A captured state reads back: loading what the state model dumps gives the state with its amounts as
  floats, which equals the original whenever the amounts that are still integers are exact as floats.
\<close>

theorem state_roundtrip:
  assumes "valid_sim s"
  shows "\<exists>t. load_state (dump_state s) = Some t \<and> valid_sim t \<and> (if exact_state s then state_eq t s else True)"
  using load_dump_state [OF assms] valid_to_floats [OF assms] to_floats_eq by auto

lemma initial_state_exact: "exact_state initial_state"
  by (simp add: exact_state_def initial_state_def round_exact)

theorem state_roundtrip_witness:
  "\<exists>t. load_state (dump_state initial_state) = Some t \<and> state_eq t initial_state"
proof -
  have "valid_sim initial_state" using initial_state_sound by (simp add: sound_state_def)
  from state_roundtrip [OF this] show ?thesis using initial_state_exact by auto
qed

text \<open>
  A restart is invisible to the actions that follow: the simulation restored from a captured state gives
  every later action the result, success, change, cost and message, that the original would have given, and
  ends in an equal state.
\<close>

theorem restart_invisible:
  assumes "valid_sim (sim_state sim)" and "exact_state (sim_state sim)"
    and "load_state (dump_state (sim_state sim)) = Some t"
  shows "action_results uuid5 as (new_simulation t (sim_seed sim)) = action_results uuid5 as sim \<and>
    state_eq (sim_state (run_actions uuid5 as (new_simulation t (sim_seed sim)))) (sim_state (run_actions uuid5 as sim))"
proof -
  have "restored sim (new_simulation t (sim_seed sim))"
    using assms load_dump_state [OF assms(1)] by (simp add: restored_def new_simulation_def)
  from action_results_restored [OF this, of uuid5 as] show ?thesis
    using to_floats_eq by (auto simp: restored_def)
qed

theorem restart_invisible_witness:
  "\<exists>t. load_state (dump_state initial_state) = Some t \<and>
     action_results (\<lambda>_. 0) [TakeLoan 20000, AdvanceTime 2] (new_simulation t ''0'') =
     action_results (\<lambda>_. 0) [TakeLoan 20000, AdvanceTime 2] (new_simulation initial_state ''0'')"
proof -
  have v: "valid_sim initial_state" using initial_state_sound by (simp add: sound_state_def)
  have sim: "sim_state (new_simulation initial_state ''0'') = initial_state" "sim_seed (new_simulation initial_state ''0'') = ''0''"
    by (simp_all add: new_simulation_def)
  from restart_invisible [of "new_simulation initial_state ''0''" "to_floats initial_state" "\<lambda>_. 0"
      "[TakeLoan 20000, AdvanceTime 2]", unfolded sim, OF v initial_state_exact load_dump_state [OF v]]
  show ?thesis using load_dump_state [OF v] by blast
qed

text \<open>
  The runtime accepts a restored reference adapter: when the latest checkpoint is a snapshot that the
  adapter took in a valid, exact state, under any later observation number, restoring from it succeeds and
  the check of the restored adapter against the checkpoint passes.
\<close>

theorem restored_adapter_accepted:
  assumes "ref_sound a" and "context_snapshot c = ok ((ref_snapshot a)\<lparr>snap_sequence := n\<rparr>)"
    and "env_adapter E = reference_adapter uuid5"
  shows "\<exists>b. ref_from_snapshot ((ref_snapshot a)\<lparr>snap_sequence := n\<rparr>) forbidden = ok b \<and>
    validate_restored_adapter E c (w\<lparr>w_adapter := b\<rparr>) = (ok (), w\<lparr>w_adapter := b\<rparr>)"
  using ref_restart.restart_accepted [OF assms(1,2), of E forbidden w] assms(3)
  by (auto simp: reference_adapter_def)

definition sample_adapter :: ref_adapter where
  "sample_adapter = new_adapter (new_simulation initial_state ''0'') []"

definition sample_checkpoint :: checkpoint where
  "sample_checkpoint = \<lparr>cp_meta = \<lparr>cm_id = 1, cm_task = 7, cm_sequence = 3, cm_tick = 0, cm_sim_version = 1,
     cm_adapter = ''reference'', cm_adapter_version = 1, cm_obs_sequence = 0, cm_seed = ''0'', cm_created = 10\<rparr>,
     cp_state = dump_state initial_state\<rparr>"

definition sample_runtime_context :: runtime_context where
  "sample_runtime_context = \<lparr>rc_task = sample_task, rc_cancel = False, rc_state = initial_safeguards, rc_events = [],
     rc_approvals = [], rc_checkpoint = Some sample_checkpoint, rc_observation = Some sample_observation,
     rc_reason = None, rc_attempt = None\<rparr>"

definition sample_env :: "(ref_adapter, unit) env" where
  "sample_env = \<lparr>env_clock = int, env_uuid5 = (\<lambda>_. 0), env_sha = (\<lambda>_. ''''), env_config = default_configuration,
     env_adapter = reference_adapter (\<lambda>_. 0), env_decide = (\<lambda>c p. (raise (Exn RuntimeErr ''no provider''), p)),
     env_cancelled = (\<lambda>_ _. False), env_crash = (\<lambda>_ _. None), env_reconcilers = []\<rparr>"

definition sample_world :: "(ref_adapter, unit) world" where
  "sample_world = \<lparr>w_store = empty_store, w_clock = 0, w_checks = 0, w_points = 0, w_adapter = sample_adapter,
     w_provider = ()\<rparr>"

lemma sample_adapter_sound: "ref_sound sample_adapter"
  using initial_state_sound initial_state_exact
  by (simp add: ref_sound_def sample_adapter_def new_adapter_def new_simulation_def sound_state_def)

theorem restored_adapter_accepted_witness:
  "\<exists>b. ref_from_snapshot ((ref_snapshot sample_adapter)\<lparr>snap_sequence := 1\<rparr>) [] = ok b \<and>
     fst (validate_restored_adapter sample_env sample_runtime_context (sample_world\<lparr>w_adapter := b\<rparr>)) = ok ()"
proof -
  have "context_snapshot sample_runtime_context = ok ((ref_snapshot sample_adapter)\<lparr>snap_sequence := 1\<rparr>)"
    by (simp add: context_snapshot_def sample_runtime_context_def sample_checkpoint_def sample_observation_def
      ref_snapshot_def sample_adapter_def new_adapter_def new_simulation_def)
  from restored_adapter_accepted [OF sample_adapter_sound this, of sample_env "\<lambda>_. 0" "[]" sample_world]
  show ?thesis by (auto simp: sample_env_def)
qed

text \<open>
  A restart is not invisible to the repetition safeguard: the initial state's amounts are integers and
  come back as floats, so that the restored adapter observes an equal state whose fingerprint differs.
\<close>

theorem restart_changes_fingerprint:
  "\<exists>b ob. ref_from_snapshot (ref_snapshot sample_adapter) [] = ok b \<and>
     fst (ref_observe 20 (snd (ref_initialize b))) = ok ob \<and>
     py_eq (JObj (obs_state ob)) (JObj (dump_state initial_state)) \<and>
     state_fingerprint ob \<noteq> canon (JObj (dump_state initial_state))"
proof -
  have v: "valid_sim initial_state" using initial_state_sound by (simp add: sound_state_def)
  have "canon (JObj (dump_state (to_floats initial_state))) \<noteq> canon (JObj (dump_state initial_state))"
    by code_simp
  then show ?thesis
    using dump_state_to_floats [OF initial_state_exact]
    by (simp add: ref_from_snapshot_def ref_snapshot_def sample_adapter_def new_adapter_def new_simulation_def
      load_dump_state [OF v] ref_initialize_def ref_observe_def Let_def state_fingerprint_def)
qed

section \<open>Verification and validation of actions\<close>

lemma ref_check_sequence: "ref_check act (a\<lparr>ra_sequence := n\<rparr>) = ref_check act a"
  by (cases "parse_sim_action (action_payload act)") (simp_all add: ref_check_def)

text \<open>
  C4. What the reference adapter accepts and executes, the runtime's verifier confirms. From an initialised
  adapter whose state is sound (valid, within housing and power, failed exactly on a failure condition) and exact
  (its amounts are exact as floats), an action that the adapter accepts, whose parameters have no key \<open>type\<close> of
  their own, and whose amount is visible (at least one tick of time, at least one unit of a repair or a repayment,
  anything else), is verified, at the cost the adapter quoted, against the observations before and after it. The bound on the amount is needed:
  \<open>tiny_repair_refused\<close> executes a smaller repair that the verifier refuses.
\<close>

theorem executed_action_verified:
  assumes "ra_initialized a" and "sound_state (sim_state (ra_sim a))" and "exact_state (sim_state (ra_sim a))"
    and "parse_sim_action (action_payload act) = Some sa" and "''type'' \<notin> set (map fst (act_parameters act))"
    and "sv_valid (ref_check act a)" and "visible_amount sa"
    and "ref_observe t1 a = (ok before, a1)" and "ref_execute uuid5 act a1 = (ok result, a2)"
    and "ref_observe t2 a2 = (ok after, a3)"
  shows "ver_verified (verify before act result after (av_cost (validation_of (ref_check act a))))"
proof -
  have a1: "a1 = a\<lparr>ra_sequence := ra_sequence a + 1\<rparr>" using assms(1,8) by (auto simp: ref_observe_def Let_def)
  then have "ref_check act a1 = ref_check act a" "ra_sim a1 = ra_sim a" "ra_initialized a1"
    using assms(1) by (simp_all add: ref_check_sequence)
  then show ?thesis
    using accepted_action_verified [of a1 act sa uuid5 result a2 before after] assms(2-7,9)
      ref_observe_ok [OF assms(8)] ref_observe_ok [OF assms(10)] by simp
qed

definition sample_pause :: action where
  "sample_pause = \<lparr>act_version = 1, act_type = ''pause'', act_parameters = [], act_effect = ''paused'', act_cost = 0\<rparr>"

theorem executed_action_verified_witness:
  "\<exists>before a1 result a2 after a3. ref_observe 1 (sample_adapter\<lparr>ra_initialized := True\<rparr>) = (ok before, a1) \<and>
     ref_execute (\<lambda>_. 0) sample_pause a1 = (ok result, a2) \<and> ref_observe 2 a2 = (ok after, a3) \<and>
     ver_verified (verify before sample_pause result after 0)"
proof -
  let ?a = "sample_adapter\<lparr>ra_initialized := True\<rparr>"
  have sim: "sim_state (ra_sim sample_adapter) = initial_state"
    by (simp add: sample_adapter_def new_adapter_def new_simulation_def)
  have parse: "parse_sim_action (action_payload sample_pause) = Some Pause"
    by (simp add: action_payload_def sample_pause_def parse_payloads)
  have check: "ref_check sample_pause ?a = sim_valid 0"
    using parse by (simp add: ref_check_def sim sample_adapter_def new_adapter_def new_simulation_def initial_state_def)
  obtain before a1 where b: "ref_observe 1 ?a = (ok before, a1)" "ra_initialized a1"
    by (auto simp: ref_observe_def Let_def)
  then have a1: "a1 = ?a\<lparr>ra_sequence := ra_sequence ?a + 1\<rparr>" by (auto simp: ref_observe_def Let_def)
  then have "ref_check sample_pause a1 = sim_valid 0" using check by (simp only: ref_check_sequence)
  then obtain result a2 where x: "ref_execute (\<lambda>_. 0) sample_pause a1 = (ok result, a2)" "ra_initialized a2"
    using ref_execute_ok(3) [OF b(2) parse, of "\<lambda>_. 0"] b(2) by auto
  then obtain after a3 where y: "ref_observe 2 a2 = (ok after, a3)" by (auto simp: ref_observe_def Let_def)
  from executed_action_verified [OF _ _ _ parse _ _ _ b(1) x(1) y] check
  have "ver_verified (verify before sample_pause result after 0)"
    using initial_state_sound initial_state_exact
    by (auto simp: sim sample_pause_def validation_of_def)
  with b(1) x(1) y show ?thesis by blast
qed

text \<open>
  C40. Whatever parameters the runtime accepts against the reference adapter's own action definitions, the
  adapter parses: to a well-formed simulation action of the type that was asked for.
\<close>

theorem accepted_parameters_parse_to_type:
  assumes "d \<in> set action_definitions" and "act_type act = ad_type d"
    and "validate_parameters (act_parameters act) d = ok ()" and "distinct (map fst (act_parameters act))"
  shows "\<exists>sa. parse_sim_action (action_payload act) = Some sa \<and> valid_sim_action sa \<and> sim_action_type sa = act_type act"
proof -
  have "parameters_ok d (act_parameters act)" using assms(3) by (simp add: validate_parameters_ok)
  from accepted_parameters_parse [OF assms(1,2) this assms(4)] show ?thesis
    using parse_sim_action_cases action_payload_type by fastforce
qed

theorem accepted_parameters_parse_to_type_witness:
  "\<exists>sa. parse_sim_action (action_payload sample_action) = Some sa \<and> sim_action_type sa = ''advance_time''"
proof -
  let ?d = "hd action_definitions"
  have "?d \<in> set action_definitions" "act_type sample_action = ad_type ?d" "distinct (map fst (act_parameters sample_action))"
    by (simp_all add: action_definitions_def sample_action_def)
  moreover have "validate_parameters (act_parameters sample_action) ?d = ok ()"
    by (simp add: validate_parameters_ok parameters_ok_def find_parameter_def parameter_ok_def action_definitions_def
      sample_action_def parameter_def)
  ultimately show ?thesis
    using accepted_parameters_parse_to_type [of ?d sample_action] by (auto simp: sample_action_def)
qed

definition tiny_amount :: rat where
  "tiny_amount = fl (1 / 10000000000)"

definition sample_repair :: action where
  "sample_repair = \<lparr>act_version = 1, act_type = ''repair'', act_parameters = [(''amount'', JFloat tiny_amount)],
     act_effect = ''infrastructure rises'', act_cost = 0\<rparr>"

lemma tiny_execution:
  "fst (sim_execute (\<lambda>_. 0) (RepairInfrastructure tiny_amount) (new_simulation initial_state ''0'')) =
   sim_result True False (fmul tiny_amount 2000) ''Action executed successfully.''"
  "0 < tiny_amount" "fl tiny_amount = tiny_amount"
  "sv_valid (validate_sim_action initial_state (RepairInfrastructure tiny_amount))"
  unfolding tiny_amount_def by code_simp+

text \<open>
  The visibility bound cannot be dropped: a repair by a ten-billionth is accepted and succeeds, changes
  nothing after rounding, and is then refused by the verifier, which makes the runtime fail the task.
\<close>

theorem tiny_repair_refused:
  "sv_valid (ref_check sample_repair sample_adapter) \<and>
   (\<exists>result. fst (ref_execute (\<lambda>_. 0) sample_repair (sample_adapter\<lparr>ra_initialized := True\<rparr>)) = ok result \<and>
      res_success result \<and> \<not> ver_verified (verify before sample_repair result after cost))"
proof -
  have parse: "parse_sim_action (action_payload sample_repair) = Some (RepairInfrastructure tiny_amount)"
    using tiny_execution(2,3) by (simp add: action_payload_def sample_repair_def parse_payloads load_positive_def load_float_def)
  have sim: "ra_sim sample_adapter = new_simulation initial_state ''0''" "ra_forbidden sample_adapter = []"
    by (simp_all add: sample_adapter_def new_adapter_def)
  have state: "sim_state (new_simulation initial_state ''0'') = initial_state" by (simp add: new_simulation_def)
  have check: "ref_check sample_repair (sample_adapter\<lparr>ra_initialized := i\<rparr>) =
      validate_sim_action initial_state (RepairInfrastructure tiny_amount)" for i
    unfolding ref_check_def parse by (simp add: sim state)
  have "ref_check sample_repair sample_adapter = validate_sim_action initial_state (RepairInfrastructure tiny_amount)"
    using check [of "ra_initialized sample_adapter"] by simp
  moreover have "fst (ref_execute (\<lambda>_. 0) sample_repair (sample_adapter\<lparr>ra_initialized := True\<rparr>)) =
      ok (sim_result True False (fmul tiny_amount 2000) ''Action executed successfully.'')"
    using ref_execute_ok(3) [OF _ parse, of "sample_adapter\<lparr>ra_initialized := True\<rparr>" "\<lambda>_. 0"] check [of True]
      tiny_execution(1,4) sim by simp
  ultimately show ?thesis using tiny_execution(4) by (simp add: verify_iff sim_result_def)
qed

definition smuggled_loan :: action where
  "smuggled_loan = \<lparr>act_version = 1, act_type = ''pause'',
     act_parameters = [(''type'', JStr ''take_loan''), (''amount'', JInt 20000)],
     act_effect = ''paused'', act_cost = 0\<rparr>"

definition loan_free_spec :: task_specification where
  "loan_free_spec = sample_spec\<lparr>spec_authority := sample_authority\<lparr>forbidden_actions := [''take_loan'']\<rparr>\<rparr>"

lemma smuggled_effect:
  "pval (s_debt (sim_state (snd (sim_execute (\<lambda>_. 0) (TakeLoan 20000) (new_simulation initial_state ''0''))))) = 20000"
  "sv_valid (validate_sim_action initial_state (TakeLoan 20000))"
  by code_simp+

lemma smuggled_loan_type: "act_type smuggled_loan = ''pause''"
  by (simp add: smuggled_loan_def)

lemma no_approval_needed:
  "act_type a \<notin> set (approval_actions (spec_authority spec)) \<Longrightarrow> maximum_single_spend (spec_authority spec) = None \<Longrightarrow>
     \<not> pol_approval (policy_evaluate spec a ob spent av)"
  by (simp add: policy_evaluate_def Let_def)

text \<open>
  A parameter named type overrides the type of the action: with loans forbidden by the task and by the
  adapter, an action of type pause with that parameter passes the policy and takes a loan.
\<close>

theorem type_parameter_bypasses_policy:
  "let a = (new_adapter (new_simulation initial_state ''0'') [''take_loan''])\<lparr>ra_initialized := True\<rparr>;
       av = validation_of (ref_check smuggled_loan a) in
   pol_allowed (policy_evaluate loan_free_spec smuggled_loan sample_observation 0 av) \<and>
   \<not> pol_approval (policy_evaluate loan_free_spec smuggled_loan sample_observation 0 av) \<and>
   pval (s_debt (sim_state (ra_sim (snd (ref_execute (\<lambda>_. 0) smuggled_loan a))))) = 20000"
proof -
  let ?a = "(new_adapter (new_simulation initial_state ''0'') [''take_loan''])\<lparr>ra_initialized := True\<rparr>"
  have parse: "parse_sim_action (action_payload smuggled_loan) = Some (TakeLoan 20000)"
    using parse_payloads(6) [of "JInt 20000" 20000]
    by (simp add: action_payload_def smuggled_loan_def load_positive_def load_float_def round_exact)
  have state: "sim_state (new_simulation initial_state ''0'') = initial_state" by (simp add: new_simulation_def)
  have check: "ref_check smuggled_loan ?a = validate_sim_action initial_state (TakeLoan 20000)"
    unfolding ref_check_def parse by (simp add: new_adapter_def state) (simp add: smuggled_loan_def)
  have cost: "sv_cost (validate_sim_action initial_state (TakeLoan 20000)) = 0"
    using smuggled_effect(2) by (auto split: if_splits)
  have loan: "pval (s_debt (sim_state (ra_sim (snd (ref_execute (\<lambda>_. 0) smuggled_loan ?a))))) = 20000"
    using ref_execute_ok(3) [OF _ parse, of ?a "\<lambda>_. 0"] check smuggled_effect
    by (simp add: new_adapter_def)
  have "dadd 0 (repr_dec 0) = 0" "dsub 500000 (repr_dec 0) = 500000"
    using dec_of_int [of 500000] by (simp_all add: dadd_def dsub_def)
  then show ?thesis
    using smuggled_effect(2) cost loan
    by (simp add: Let_def check validation_of_def policy_allowed_reasons policy_reasons_iff terms_ok_start
      no_approval_needed loan_free_spec_def sample_spec_def sample_authority_def sample_reserve_def
      constraint_ok_def smuggled_loan_type sample_observation_def jget_def)
qed

section \<open>Recovery\<close>

lemma ref_from_own_snapshot:
  assumes "ref_sound a"
  shows "ref_from_snapshot ((ref_snapshot a)\<lparr>snap_sequence := n\<rparr>) fs =
    ok ((new_adapter (new_simulation (to_floats (sim_state (ra_sim a))) (sim_seed (ra_sim a))) fs)\<lparr>ra_sequence := n\<rparr>)"
  using assms by (simp add: ref_from_snapshot_def ref_snapshot_def ref_sound_def load_dump_state)

lemma replayed_execution:
  assumes a: "ref_sound a" "ra_initialized a" and parse: "parse_sim_action (action_payload act) = Some sa"
    and valid: "sv_valid (ref_check act a)" and run: "ref_execute uuid5 act a = (ok result, a')"
    and b: "ra_initialized b" "ra_forbidden b = []"
      "ra_sim b = new_simulation (to_floats (sim_state (ra_sim a))) (sim_seed (ra_sim a))"
  shows "\<exists>b'. ref_execute uuid5 act b = (ok result, b') \<and>
    sim_state (ra_sim b') = to_floats (sim_state (ra_sim a')) \<and> exact_state (sim_state (ra_sim a'))"
proof -
  have r: "restored (ra_sim a) (ra_sim b)"
    using a(1) b(3) by (simp add: restored_def ref_sound_def new_simulation_def)
  have "ref_check act b = validate_sim_action (sim_state (ra_sim b)) sa"
    using b(2) parse by (simp add: ref_check_def)
  then have "sv_valid (ref_check act b)"
    using ref_execute_ok(1,2) [OF a(2) parse valid] a(1) r
    by (simp add: restored_def validate_to_floats)
  from ref_execute_ok(3) [OF b(1) parse this, of uuid5] ref_execute_ok(3) [OF a(2) parse valid, of uuid5] run
    sim_execute_restored [OF r, of uuid5 sa]
  show ?thesis by (auto simp: restored_def)
qed

text \<open>
  C34. Recovery classifies both sides of a crash around the execution correctly. Let the prior checkpoint be
  the snapshot of an initialised adapter with a sound and exact state, and let the attempt be past its
  preparation, with an action that the adapter accepts and whose amount is visible (at least one tick of time, at
  least one unit of a repair or a repayment, anything else). If the current state is still that of the checkpoint, the attempt is classified as definitely not
  executed; if it is the one after the execution, as definitely executed, with the very result that the execution
  had.
\<close>

theorem crash_classified:
  assumes "ref_sound a" and "ra_initialized a" and "sound_state (sim_state (ra_sim a))"
    and "parse_sim_action (action_payload (at_action t)) = Some sa" and "visible_amount sa"
    and "sv_valid (ref_check (at_action t) a)" and "at_status t \<noteq> AtPrepared"
    and "ref_execute uuid5 (at_action t) a = (ok result, a')"
  shows "(\<exists>r. reconcile_reference uuid5 t ((ref_snapshot a)\<lparr>snap_sequence := n\<rparr>) (Some (ref_snapshot a)) = ok r \<and>
      rp_class r = DefinitelyNotExecuted) \<and>
    (\<exists>r. reconcile_reference uuid5 t ((ref_snapshot a)\<lparr>snap_sequence := n\<rparr>) (Some (ref_snapshot a')) = ok r \<and>
      rp_class r = DefinitelyExecuted \<and> rp_result r = Some result)"
proof -
  let ?b = "(new_adapter (new_simulation (to_floats (sim_state (ra_sim a))) (sim_seed (ra_sim a))) [])
    \<lparr>ra_sequence := n, ra_initialized := True\<rparr>"
  let ?eq = "\<lambda>s t. py_eq (JObj (dump_state s)) (JObj (dump_state t))"
  obtain b' where b': "ref_execute uuid5 (at_action t) ?b = (ok result, b')"
    "sim_state (ra_sim b') = to_floats (sim_state (ra_sim a'))" "exact_state (sim_state (ra_sim a'))"
    using replayed_execution [OF assms(1,2,4,6,8), of ?b] by (auto simp: new_adapter_def)
  note check = ref_execute_ok [OF assms(2,4,6)]
  have "sim_state (ra_sim a') = fst (sim_step uuid5 sa (ra_sim a))"
    using assms(8) check(3) by (auto simp: sim_execute_step [OF check(1)])
  then have changed: "\<not> ?eq (sim_state (ra_sim a)) (sim_state (ra_sim a'))"
    using visible_effect_dump [OF sim_step_visible [OF assms(3) _ check(1) assms(5)]] assms(1)
    by (simp add: ref_sound_def)
  have same: "?eq (sim_state (ra_sim a')) (to_floats (sim_state (ra_sim a')))"
    using dump_state_to_floats [OF b'(3)] by (rule py_eq_sym)
  have start: "(ref_initialize ((new_adapter (new_simulation (to_floats (sim_state (ra_sim a))) (sim_seed (ra_sim a))) [])
      \<lparr>ra_sequence := n\<rparr>)) = (ok (), ?b)"
    by (simp add: ref_initialize_def)
  show ?thesis
    using assms(7) changed same b'
    by (simp add: reconcile_reference_def ref_from_own_snapshot [OF assms(1)] start Let_def)
      (auto simp: ref_snapshot_def dest: py_eq_sym)
qed

definition sample_attempt :: attempt where
  "sample_attempt = \<lparr>at_task = 7, at_sequence = 3, at_id = 9, at_fingerprint = ''f'', at_action = sample_pause,
     at_checkpoint = None, at_observation = ''g'', at_effect = ''paused'', at_cost = 0,
     at_status = AtStarted, at_prepared = 1, at_updated = 1, at_classification = None, at_reason = None\<rparr>"

theorem crash_classified_witness:
  "\<exists>result a' r r'. ref_execute (\<lambda>_. 0) sample_pause (sample_adapter\<lparr>ra_initialized := True\<rparr>) = (ok result, a') \<and>
     reconcile_reference (\<lambda>_. 0) sample_attempt ((ref_snapshot sample_adapter)\<lparr>snap_sequence := 1\<rparr>)
       (Some (ref_snapshot sample_adapter)) = ok r \<and> rp_class r = DefinitelyNotExecuted \<and>
     reconcile_reference (\<lambda>_. 0) sample_attempt ((ref_snapshot sample_adapter)\<lparr>snap_sequence := 1\<rparr>)
       (Some (ref_snapshot a')) = ok r' \<and> rp_class r' = DefinitelyExecuted \<and> rp_result r' = Some result"
proof -
  let ?a = "sample_adapter\<lparr>ra_initialized := True\<rparr>"
  have sim: "sim_state (ra_sim sample_adapter) = initial_state" "ra_forbidden sample_adapter = []"
    by (simp_all add: sample_adapter_def new_adapter_def new_simulation_def)
  have sound: "ref_sound ?a" using sample_adapter_sound by (simp add: ref_sound_def)
  have act: "at_action sample_attempt = sample_pause" "at_status sample_attempt \<noteq> AtPrepared"
    by (simp_all add: sample_attempt_def)
  have parse: "parse_sim_action (action_payload (at_action sample_attempt)) = Some Pause"
    by (simp add: action_payload_def sample_pause_def parse_payloads act)
  have valid: "sv_valid (ref_check (at_action sample_attempt) ?a)"
    using parse by (simp add: ref_check_def sim initial_state_def)
  obtain result a' where x: "ref_execute (\<lambda>_. 0) (at_action sample_attempt) ?a = (ok result, a')"
    using ref_execute_ok(3) [OF _ parse valid, of "\<lambda>_. 0"] by auto
  have snap: "ref_snapshot ?a = ref_snapshot sample_adapter" by (simp add: ref_snapshot_def)
  have "visible_amount Pause" by simp
  moreover have "sound_state (sim_state (ra_sim ?a))" using initial_state_sound by (simp add: sim)
  ultimately have "(\<exists>r. reconcile_reference (\<lambda>_. 0) sample_attempt ((ref_snapshot ?a)\<lparr>snap_sequence := 1\<rparr>) (Some (ref_snapshot ?a)) = ok r \<and>
      rp_class r = DefinitelyNotExecuted) \<and>
    (\<exists>r. reconcile_reference (\<lambda>_. 0) sample_attempt ((ref_snapshot ?a)\<lparr>snap_sequence := 1\<rparr>) (Some (ref_snapshot a')) = ok r \<and>
      rp_class r = DefinitelyExecuted \<and> rp_result r = Some result)"
    using parse valid act(2) x by (intro crash_classified [OF sound _ _ parse _ valid act(2) x]) simp_all
  with x show ?thesis unfolding snap act(1) by blast
qed

end
