(* ===== verification/ActionExecution.thy ===== *)
theory ActionExecution
  imports Engine Verification
begin

text \<open>
  \<open>execute_action_transaction\<close> of \<open>runtime/action_execution.py\<close>: one validated action is journalled as
  prepared, journalled as started, executed, observed, verified and committed together with its
  checkpoint, with a crash point between any two of these. The frame is the local state of the run,
  which survives an exception: \<open>ActionExecutionState\<close> and the variables of \<open>run_iterations\<close> that it is
  copied back to.
\<close>

record ('a, 'p) frame =
  fr_world :: "('a, 'p) world"
  fr_current :: task_record
  fr_sg :: safeguard_state
  fr_observation :: observation
  fr_drafts :: "draft list"
  fr_reason :: "string option"
  fr_active :: "uuid option"
  fr_terminal :: "task_status option"
  fr_committed :: int

type_synonym ('a, 'p, 'x) local_run = "(('a, 'p) frame, exn, 'x) prog"

definition lift_run :: "('a, 'p, 'x) run \<Rightarrow> ('a, 'p, 'x) local_run" where
  "lift_run m fr = (case m (fr_world fr) of (r, w) \<Rightarrow> (r, fr\<lparr>fr_world := w\<rparr>))"

definition add_draft :: "draft \<Rightarrow> ('a, 'p, unit) local_run" where
  "add_draft d = modify (\<lambda>fr. fr\<lparr>fr_drafts := fr_drafts fr @ [d]\<rparr>)"

definition set_reason :: "string option \<Rightarrow> ('a, 'p, unit) local_run" where
  "set_reason r = modify (\<lambda>fr. fr\<lparr>fr_reason := r\<rparr>)"

text \<open>\<open>current = services.commit_with_drafts(current, task, runtime_state, drafts, snapshot)\<close>\<close>

definition commit_frame :: "('a, 'p) env \<Rightarrow> task \<Rightarrow> draft list \<Rightarrow> snapshot option \<Rightarrow> ('a, 'p, unit) local_run" where
  "commit_frame E t drafts snap =
     seq (gets (\<lambda>fr. (fr_current fr, fr_sg fr))) (\<lambda>(current, sg).
     seq (lift_run (commit_with_drafts E current t sg drafts snap)) (\<lambda>r.
     modify (\<lambda>fr. fr\<lparr>fr_current := r\<rparr>)))"

definition observe_frame :: "('a, 'p) env \<Rightarrow> ('a, 'p, observation) local_run" where
  "observe_frame E = seq (lift_run (observe E)) (\<lambda>ob.
     seq (modify (\<lambda>fr. fr\<lparr>fr_observation := ob\<rparr>)) (\<lambda>_. ret ob))"

definition attempt_id :: "('a, 'p) env \<Rightarrow> task \<Rightarrow> int \<Rightarrow> uuid" where
  "attempt_id E t attempt_sequence = env_uuid5 E
     (''sim-pilot:'' @ uuid_text (task_id t) @ '':action-attempt:'' @ int_text attempt_sequence)"

definition action_id_payload :: "uuid \<Rightarrow> jobject" where
  "action_id_payload k = [(''action_id'', JStr (uuid_text k))]"

definition prepared_payload ::
  "('a, 'p) env \<Rightarrow> uuid \<Rightarrow> action \<Rightarrow> checkpoint option \<Rightarrow> observation \<Rightarrow> adapter_validation \<Rightarrow> jobject" where
  "prepared_payload E k a cp before av =
     [(''action_id'', JStr (uuid_text k)),
      (''action_fingerprint'', JStr (action_fingerprint (env_sha E) a)),
      (''action'', JObj (dump_action a)),
      (''prior_checkpoint_id'', opt_json (\<lambda>c. JStr (uuid_text (cm_id (cp_meta c)))) cp),
      (''prior_observation_fingerprint'', JStr (observation_fingerprint (env_sha E) before)),
      (''expected_effect'', JStr (act_effect a)),
      (''estimated_cost'', JFloat (av_cost av))]"

text \<open>Everything between verification and the final commit: safeguards, spend, reason, terminal status.\<close>

definition repeated_state :: "safeguard_state \<Rightarrow> json \<Rightarrow> int" where
  "repeated_state sg fingerprint =
     (if sg_last_state sg = Some fingerprint then sg_repeated_state sg + 1 else 1)"

definition settle_result ::
  "configuration \<Rightarrow> execution_result \<Rightarrow> verification_result \<Rightarrow> task \<Rightarrow> safeguard_state \<Rightarrow>
   task \<times> safeguard_state \<times> (string \<times> task_status) option" where
  "settle_result cfg result verification t sg0 =
     (let sg = clear_approval sg0 in
      if \<not> ver_verified verification
      then (t, sg, Some (join ''; '' (ver_reasons verification), Failed))
      else if \<not> res_success result
      then (let failures = sg_failures sg + 1 in
        (t, sg\<lparr>sg_failures := failures\<rparr>,
         if failures \<ge> max_consecutive_failures cfg then Some (res_message result, Blocked) else None))
      else (t\<lparr>task_spend := dadd (task_spend t) (repr_dec (res_cost result))\<rparr>, sg\<lparr>sg_failures := 0\<rparr>, None))"

definition settle_action ::
  "configuration \<Rightarrow> execution_result \<Rightarrow> verification_result \<Rightarrow> observation \<Rightarrow> task \<Rightarrow> safeguard_state \<Rightarrow>
   task \<times> safeguard_state \<times> (string \<times> task_status) option" where
  "settle_action cfg result verification ob t sg0 =
     (case settle_result cfg result verification t sg0 of (t', sg, stop) \<Rightarrow>
        (let fingerprint = state_fingerprint ob; repeated = repeated_state sg fingerprint;
             sg' = sg\<lparr>sg_last_state := Some fingerprint, sg_repeated_state := repeated\<rparr>;
             stop1 = (if stop = None \<and> repeated \<ge> repeated_state_limit cfg
                then Some (''repeated state detected'', Blocked) else stop);
             stop2 = (if stop1 = None \<and> jget (obs_state ob) ''failed'' = JBool True
                then Some (''simulation entered terminal failure'', Failed) else stop1)
         in (t', sg', stop2)))"

definition stop_event :: "task_status \<Rightarrow> event_type" where
  "stop_event st = (if st = Blocked then TaskBlocked else TaskFailed)"

definition prepare_action ::
  "('a, 'p) env \<Rightarrow> action \<Rightarrow> adapter_validation \<Rightarrow> ('a, 'p, uuid) local_run" where
  "prepare_action E a av =
     seq (gets (\<lambda>fr. (fr_observation fr, tr_task (fr_current fr), fr_drafts fr))) (\<lambda>(before, t, drafts).
     seq (lift_run (reconstruct (task_id t))) (\<lambda>c.
     let k = attempt_id E t (task_seq t + int (length drafts) + 1) in
     seq (modify (\<lambda>fr. fr\<lparr>fr_active := Some k\<rparr>)) (\<lambda>_.
     seq (add_draft (draft ActionPrepared (prepared_payload E k a (rc_checkpoint c) before av))) (\<lambda>_.
     seq (gets fr_drafts) (\<lambda>ds. seq (commit_frame E t ds None) (\<lambda>_.
     seq (modify (\<lambda>fr. fr\<lparr>fr_drafts := []\<rparr>)) (\<lambda>_. ret k)))))))"

definition perform_action ::
  "('a, 'p) env \<Rightarrow> action \<Rightarrow> adapter_validation \<Rightarrow> observation \<Rightarrow>
   ('a, 'p, execution_result \<times> verification_result \<times> observation) local_run" where
  "perform_action E a av before =
     seq (lift_run (on_adapter (adp_execute (env_adapter E) a))) (\<lambda>result.
     seq (lift_run (crash E AfterExecution)) (\<lambda>_.
     seq (add_draft (draft ActionExecuted (dump_result result))) (\<lambda>_.
     seq (observe_frame E) (\<lambda>after.
     seq (lift_run (crash E AfterObservation)) (\<lambda>_.
     seq (add_draft (observation_draft after)) (\<lambda>_.
     let verification = verify before a result after (av_cost av) in
     seq (add_draft (draft VerificationRecorded (dump_verification verification))) (\<lambda>_.
     seq (lift_run (crash E AfterVerification)) (\<lambda>_. ret (result, verification, after)))))))))"

definition finish_action ::
  "('a, 'p) env \<Rightarrow> uuid \<Rightarrow> execution_result \<Rightarrow> verification_result \<Rightarrow> observation \<Rightarrow> ('a, 'p, unit) local_run"
  where
  "finish_action E k result verification after =
     seq (gets (\<lambda>fr. settle_action (env_config E) result verification after (tr_task (fr_current fr)) (fr_sg fr)))
       (\<lambda>(t', sg', stop).
     seq (modify (\<lambda>fr. fr\<lparr>fr_sg := sg', fr_reason := map_option fst stop, fr_terminal := map_option snd stop\<rparr>))
       (\<lambda>_.
     seq (case stop of None \<Rightarrow> ret t' | Some (_, st) \<Rightarrow> lift_result (with_status t' st)) (\<lambda>task_next.
     seq (add_draft (draft ActionExecutionConfirmed (action_id_payload k @
            [(''success'', JBool (res_success result)), (''verified'', JBool (ver_verified verification))])))
       (\<lambda>_.
     seq (add_draft (draft ActionCheckpointCommitted (action_id_payload k))) (\<lambda>_.
     seq (case stop of None \<Rightarrow> ret ()
          | Some (reason, st) \<Rightarrow> add_draft (draft (stop_event st) (reason_payload reason))) (\<lambda>_.
     seq (if res_changed result \<or> stop \<noteq> None
          then seq (lift_run (adapter_snapshot E after)) (\<lambda>s. ret (Some s)) else ret None) (\<lambda>snap.
     seq (gets fr_drafts) (\<lambda>drafts. commit_frame E task_next drafts snap))))))))"

definition execute_action_transaction ::
  "('a, 'p) env \<Rightarrow> action \<Rightarrow> adapter_validation \<Rightarrow> ('a, 'p, unit) local_run" where
  "execute_action_transaction E a av =
     seq (modify (\<lambda>fr. fr\<lparr>fr_reason := None, fr_active := None, fr_terminal := None\<rparr>)) (\<lambda>_.
     seq (gets fr_observation) (\<lambda>before.
     seq (prepare_action E a av) (\<lambda>k.
     seq (lift_run (crash E AfterPrepared)) (\<lambda>_.
     seq (gets (\<lambda>fr. tr_task (fr_current fr))) (\<lambda>t.
     seq (commit_frame E t [draft ActionExecutionStarted (action_id_payload k)] None) (\<lambda>_.
     seq (lift_run (crash E BeforeExecution)) (\<lambda>_.
     seq (perform_action E a av before) (\<lambda>(result, verification, after).
     seq (finish_action E k result verification after) (\<lambda>_.
     seq (modify (\<lambda>fr. fr\<lparr>fr_active := None\<rparr>)) (\<lambda>_.
     lift_run (crash E AfterCommit)))))))))))"

section \<open>What local programs keep\<close>

text \<open>\<open>preserves I m\<close>: the predicate \<open>I\<close> of the frame survives \<open>m\<close>, however it ends.\<close>

definition preserves :: "(('a, 'p) frame \<Rightarrow> bool) \<Rightarrow> ('a, 'p, 'x) local_run \<Rightarrow> bool" where
  "preserves I m \<longleftrightarrow> (\<forall>fr. I fr \<longrightarrow> I (snd (m fr)))"

named_theorems preserve_rules "local programs that preserve a predicate of the frame"

lemma preservesD: "preserves I m \<Longrightarrow> I fr \<Longrightarrow> m fr = (r, fr') \<Longrightarrow> I fr'"
  unfolding preserves_def by (metis snd_conv)

lemma preserves_seq [preserve_rules]:
  "preserves I m \<Longrightarrow> (\<And>a. preserves I (f a)) \<Longrightarrow> preserves I (seq m f)"
  by (auto simp: preserves_def seq_def split: prod.splits sum.splits)

lemma preserves_catch [preserve_rules]:
  "preserves I m \<Longrightarrow> (\<And>e. preserves I (h e)) \<Longrightarrow> preserves I (catch m h)"
  by (auto simp: preserves_def catch_def split: prod.splits sum.splits)

lemma preserves_basic [preserve_rules]:
  "preserves I (ret a)" "preserves I (throw e)" "preserves I (gets f)" "preserves I (lift_result r)"
  by (simp_all add: preserves_def prog_defs)

lemma preserves_if [preserve_rules]:
  "preserves I m \<Longrightarrow> preserves I m' \<Longrightarrow> preserves I (if b then m else m')"
  by simp

lemma preserves_case_option [preserve_rules]:
  "preserves I m \<Longrightarrow> (\<And>a. preserves I (f a)) \<Longrightarrow> preserves I (case x of None \<Rightarrow> m | Some a \<Rightarrow> f a)"
  by (cases x) simp_all

lemma preserves_case_prod [preserve_rules]:
  "(\<And>a b. preserves I (f a b)) \<Longrightarrow> preserves I (case p of (a, b) \<Rightarrow> f a b)"
  by (cases p) simp

lemma preserves_case_sum [preserve_rules]:
  "(\<And>a. preserves I (f a)) \<Longrightarrow> (\<And>b. preserves I (g b)) \<Longrightarrow> preserves I (case x of Inl a \<Rightarrow> f a | Inr b \<Rightarrow> g b)"
  by (cases x) simp_all

text \<open>Two predicates of this kind: a predicate of the store, and the count of iterations.\<close>

definition store_inv :: "(store \<Rightarrow> bool) \<Rightarrow> ('a, 'p) frame \<Rightarrow> bool" where
  "store_inv P fr \<longleftrightarrow> P (w_store (fr_world fr))"

definition count_inv :: "int \<Rightarrow> ('a, 'p) frame \<Rightarrow> bool" where
  "count_inv n fr \<longleftrightarrow> sg_iterations (fr_sg fr) = n"

definition modify_keeps :: "(('a, 'p) frame \<Rightarrow> bool) \<Rightarrow> (('a, 'p) frame \<Rightarrow> ('a, 'p) frame) \<Rightarrow> bool" where
  "modify_keeps I f \<longleftrightarrow> (\<forall>fr. I fr \<longrightarrow> I (f fr))"

lemma preserves_modify [preserve_rules]: "modify_keeps I f \<Longrightarrow> preserves I (modify f)"
  by (simp add: preserves_def modify_def modify_keeps_def)

lemma modify_keeps_store [preserve_rules]:
  "modify_keeps (store_inv P) (\<lambda>fr. fr\<lparr>fr_reason := a, fr_active := b, fr_terminal := c\<rparr>)"
  "modify_keeps (store_inv P) (\<lambda>fr. fr\<lparr>fr_sg := g, fr_reason := a, fr_terminal := c\<rparr>)"
  "modify_keeps (store_inv P) (\<lambda>fr. fr\<lparr>fr_active := b\<rparr>)" "modify_keeps (store_inv P) (\<lambda>fr. fr\<lparr>fr_reason := a\<rparr>)"
  "modify_keeps (store_inv P) (\<lambda>fr. fr\<lparr>fr_drafts := ds\<rparr>)" "modify_keeps (store_inv P) (\<lambda>fr. fr\<lparr>fr_current := r\<rparr>)"
  "modify_keeps (store_inv P) (\<lambda>fr. fr\<lparr>fr_observation := ob\<rparr>)" "modify_keeps (store_inv P) (\<lambda>fr. fr\<lparr>fr_sg := g\<rparr>)"
  "modify_keeps (store_inv P) (\<lambda>fr. fr\<lparr>fr_drafts := fr_drafts fr @ [d]\<rparr>)"
  by (simp_all add: modify_keeps_def store_inv_def)

lemma modify_keeps_count [preserve_rules]:
  "modify_keeps (count_inv n) (\<lambda>fr. fr\<lparr>fr_reason := a, fr_active := b, fr_terminal := c\<rparr>)"
  "modify_keeps (count_inv n) (\<lambda>fr. fr\<lparr>fr_active := b\<rparr>)" "modify_keeps (count_inv n) (\<lambda>fr. fr\<lparr>fr_reason := a\<rparr>)"
  "modify_keeps (count_inv n) (\<lambda>fr. fr\<lparr>fr_drafts := ds\<rparr>)" "modify_keeps (count_inv n) (\<lambda>fr. fr\<lparr>fr_current := r\<rparr>)"
  "modify_keeps (count_inv n) (\<lambda>fr. fr\<lparr>fr_observation := ob\<rparr>)"
  "modify_keeps (count_inv n) (\<lambda>fr. fr\<lparr>fr_drafts := fr_drafts fr @ [d]\<rparr>)"
  by (simp_all add: modify_keeps_def count_inv_def)

lemma lift_run_store [preserve_rules]: "maintains P m \<Longrightarrow> preserves (store_inv P) (lift_run m)"
  by (auto simp: preserves_def lift_run_def store_inv_def maintains_def split: prod.splits)

lemma lift_run_count [preserve_rules]: "preserves (count_inv n) (lift_run m)"
  by (auto simp: preserves_def lift_run_def count_inv_def split: prod.splits)

lemma local_basic_store [preserve_rules]:
  "preserves (store_inv P) (add_draft d)" "preserves (store_inv P) (set_reason r)"
  "preserves (store_inv P) (observe_frame E)"
  unfolding add_draft_def set_reason_def observe_frame_def
  by (intro preserve_rules maintain_rules)+

lemma local_basic_count [preserve_rules]:
  "preserves (count_inv n) (add_draft d)" "preserves (count_inv n) (set_reason r)"
  "preserves (count_inv n) (commit_frame E t ds snap)" "preserves (count_inv n) (observe_frame E)"
  unfolding add_draft_def set_reason_def commit_frame_def observe_frame_def
  by (intro preserve_rules)+

lemma settle_count:
  "settle_action cfg result v ob t sg = (t', sg', stop) \<Longrightarrow> sg_iterations sg' = sg_iterations sg"
  by (auto simp: settle_action_def settle_result_def Let_def clear_approval_def split: if_splits prod.splits)

lemma prepare_action_preserves [preserve_rules]: "preserves (count_inv n) (prepare_action E a av)"
  unfolding prepare_action_def Let_def by (intro preserve_rules)

lemma perform_action_preserves [preserve_rules]:
  "preserves (store_inv P) (perform_action E a av before)"
  "preserves (count_inv n) (perform_action E a av before)"
  unfolding perform_action_def Let_def by (intro preserve_rules maintain_rules)+

lemma finish_action_count [preserve_rules]: "preserves (count_inv n) (finish_action E k result v after)"
  unfolding preserves_def
proof (intro allI impI)
  fix fr :: "('a, 'b) frame" assume n: "count_inv n fr"
  obtain t' sg' stop where
    s: "settle_action (env_config E) result v after (tr_task (fr_current fr)) (fr_sg fr) = (t', sg', stop)"
    by (cases "settle_action (env_config E) result v after (tr_task (fr_current fr)) (fr_sg fr)") auto
  define fr1 where "fr1 = fr\<lparr>fr_sg := sg', fr_reason := map_option fst stop, fr_terminal := map_option snd stop\<rparr>"
  have n1: "count_inv n fr1" using n settle_count [OF s] by (simp add: count_inv_def fr1_def)
  define rest :: "('a, 'b, unit) local_run" where "rest = seq (case stop of None \<Rightarrow> ret t' | Some (_, st) \<Rightarrow> lift_result (with_status t' st)) (\<lambda>task_next.
     seq (add_draft (draft ActionExecutionConfirmed (action_id_payload k @
            [(''success'', JBool (res_success result)), (''verified'', JBool (ver_verified v))])))
       (\<lambda>_.
     seq (add_draft (draft ActionCheckpointCommitted (action_id_payload k))) (\<lambda>_.
     seq (case stop of None \<Rightarrow> ret ()
          | Some (reason, st) \<Rightarrow> add_draft (draft (stop_event st) (reason_payload reason))) (\<lambda>_.
     seq (if res_changed result \<or> stop \<noteq> None
          then seq (lift_run (adapter_snapshot E after)) (\<lambda>s. ret (Some s)) else ret None) (\<lambda>snap.
     seq (gets fr_drafts) (\<lambda>drafts. commit_frame E task_next drafts snap))))))"
  have "preserves (count_inv n) rest" unfolding rest_def by (intro preserve_rules)
  moreover have "finish_action E k result v after fr = rest fr1"
    by (simp add: finish_action_def rest_def fr1_def s seq_def [of "gets _"] seq_def [of "modify _"] gets_def
      modify_def)
  ultimately show "count_inv n (snd (finish_action E k result v after fr))"
    using n1 by (simp add: preserves_def)
qed

lemma transaction_count [preserve_rules]:
  "preserves (count_inv n) (execute_action_transaction E a av)"
  unfolding execute_action_transaction_def by (intro preserve_rules)

context store_invariant
begin

lemma commit_frame_store [preserve_rules]: "preserves (store_inv P) (commit_frame E t ds snap)"
  unfolding commit_frame_def by (intro preserve_rules maintain_rules)

lemma prepare_action_store [preserve_rules]: "preserves (store_inv P) (prepare_action E a av)"
  unfolding prepare_action_def Let_def by (intro preserve_rules maintain_rules)

lemma finish_action_store [preserve_rules]: "preserves (store_inv P) (finish_action E k result v after)"
  unfolding finish_action_def by (intro preserve_rules maintain_rules)

lemma transaction_store [preserve_rules]: "preserves (store_inv P) (execute_action_transaction E a av)"
  unfolding execute_action_transaction_def by (intro preserve_rules maintain_rules)

end

end
