(* ===== verification/Iteration.thy ===== *)
theory Iteration
  imports ActionExecution Policy Evaluator
begin

text \<open>
  \<open>run_iterations\<close> of \<open>runtime/iteration.py\<close>: the evaluate, decide, validate, execute, verify and commit
  loop. One pass through the loop body is \<open>iteration\<close>, which says whether the loop goes on; \<open>run_loop\<close>
  is the loop itself, which ends because every pass that goes on has counted an iteration against the
  maximum; \<open>run_iterations\<close> adds the handler that records an unexpected exception.
\<close>

datatype flow = Continue | Break

text \<open>A stage of the body either decides how the loop goes on or hands a value to the next stage.\<close>

type_synonym ('a, 'p, 'x) stage = "('a, 'p, flow + 'x) local_run"

definition next_stage :: "('a, 'p, 'x) stage \<Rightarrow> ('x \<Rightarrow> ('a, 'p, flow) local_run) \<Rightarrow> ('a, 'p, flow) local_run" where
  "next_stage m f = seq m (\<lambda>r. case r of Inl c \<Rightarrow> ret c | Inr x \<Rightarrow> f x)"

definition append_drafts :: "draft list \<Rightarrow> ('a, 'p, unit) local_run" where
  "append_drafts ds = modify (\<lambda>fr. fr\<lparr>fr_drafts := fr_drafts fr @ ds\<rparr>)"

definition snapshot_frame :: "('a, 'p) env \<Rightarrow> ('a, 'p, snapshot) local_run" where
  "snapshot_frame E = seq (gets fr_observation) (\<lambda>ob. lift_run (adapter_snapshot E ob))"

definition commit_drafts :: "('a, 'p) env \<Rightarrow> task \<Rightarrow> snapshot option \<Rightarrow> ('a, 'p, unit) local_run" where
  "commit_drafts E t snap = seq (gets fr_drafts) (\<lambda>ds. commit_frame E t ds snap)"

text \<open>The recurring ending: a terminal draft, the status, a snapshot, the commit, and out of the loop.\<close>

definition stop_task ::
  "('a, 'p) env \<Rightarrow> draft list \<Rightarrow> task_status \<Rightarrow> string \<Rightarrow> ('a, 'p, flow) local_run" where
  "stop_task E ds st reason =
     seq (append_drafts ds) (\<lambda>_.
     seq (set_reason (Some reason)) (\<lambda>_.
     seq (gets (\<lambda>fr. tr_task (fr_current fr))) (\<lambda>t.
     seq (lift_result (with_status t st)) (\<lambda>t'.
     seq (snapshot_frame E) (\<lambda>snap.
     seq (commit_drafts E t' (Some snap)) (\<lambda>_. ret Break))))))"

definition block_task :: "('a, 'p) env \<Rightarrow> string \<Rightarrow> ('a, 'p, flow) local_run" where
  "block_task E reason = stop_task E [draft TaskBlocked (reason_payload reason)] Blocked reason"

text \<open>
  An iteration that commits and goes on unless it blocks: a false completion, a wait, a rejected action.
\<close>

definition commit_or_block ::
  "('a, 'p) env \<Rightarrow> bool \<Rightarrow> string \<Rightarrow> bool \<Rightarrow> ('a, 'p, flow) local_run" where
  "commit_or_block E blocks reason refresh =
     seq (gets (\<lambda>fr. tr_task (fr_current fr))) (\<lambda>t.
     seq (if blocks then
            seq (append_drafts [draft TaskBlocked (reason_payload reason)]) (\<lambda>_.
            seq (lift_result (with_status t Blocked)) (\<lambda>t'.
            seq (snapshot_frame E) (\<lambda>snap. ret (t', Some snap))))
          else seq (if refresh then seq (snapshot_frame E) (\<lambda>snap. ret (Some snap)) else ret None)
            (\<lambda>snap. ret (t, snap))) (\<lambda>(t', snap).
     seq (commit_drafts E t' snap) (\<lambda>_.
     seq (modify (\<lambda>fr. fr\<lparr>fr_committed := fr_committed fr + 1\<rparr>)) (\<lambda>_.
     ret (if blocks then Break else Continue)))))"

section \<open>The stages\<close>

definition check_budget :: "int option \<Rightarrow> ('a, 'p, unit) stage" where
  "check_budget budget = seq (gets fr_committed) (\<lambda>n.
     if (case budget of None \<Rightarrow> False | Some b \<Rightarrow> n \<ge> b)
     then seq (set_reason (Some ''execution slice complete'')) (\<lambda>_. ret (Inl Break))
     else ret (Inr ()))"

definition check_cancelled :: "('a, 'p) env \<Rightarrow> ('a, 'p, unit) stage" where
  "check_cancelled E = seq (gets (\<lambda>fr. (fr_current fr, fr_sg fr))) (\<lambda>(current, sg).
     seq (if tr_cancel current then ret True
          else lift_run (cancellation_check E (task_id (tr_task current)))) (\<lambda>requested.
     if \<not> requested then ret (Inr ())
     else seq (lift_result (with_status (tr_task current) Cancelled)) (\<lambda>t.
       seq (snapshot_frame E) (\<lambda>snap.
       seq (lift_run (commit_iteration E current t sg
              [draft TaskCancelled (reason_payload ''cancellation requested'')]
              (no_options\<lparr>co_cancel := Some True, co_snapshot := Some snap\<rparr>))) (\<lambda>c.
       seq (modify (\<lambda>fr. fr\<lparr>fr_current := ic_record c\<rparr>)) (\<lambda>_.
       seq (set_reason (Some ''cancellation requested'')) (\<lambda>_. ret (Inl Break))))))))"

definition check_iterations :: "('a, 'p) env \<Rightarrow> ('a, 'p, unit) stage" where
  "check_iterations E = seq (gets (\<lambda>fr. (fr_current fr, fr_sg fr, fr_observation fr))) (\<lambda>(current, sg, ob).
     if sg_iterations sg \<ge> max_iterations (env_config E)
     then seq (lift_run (commit_terminal E current sg ob Blocked ''maximum iterations reached''
            [draft EvaluationRecorded [(''safeguard'', JStr ''iterations'')]])) (\<lambda>(r, reason).
          seq (modify (\<lambda>fr. fr\<lparr>fr_current := r\<rparr>)) (\<lambda>_.
          seq (set_reason (Some reason)) (\<lambda>_. ret (Inl Break))))
     else ret (Inr ()))"

definition count_iteration :: "('a, 'p, unit) local_run" where
  "count_iteration = modify (\<lambda>fr. fr\<lparr>fr_sg := (fr_sg fr)\<lparr>sg_iterations := sg_iterations (fr_sg fr) + 1\<rparr>,
     fr_drafts := []\<rparr>)"

text \<open>\<open>evaluation.blocked_reason or evaluation.progress_summary\<close>\<close>

definition blocked_text :: "evaluation \<Rightarrow> string" where
  "blocked_text v = (case eval_blocked_reason v of
     Some r \<Rightarrow> if r = [] then eval_summary v else r | None \<Rightarrow> eval_summary v)"

definition evaluate_stage :: "('a, 'p) env \<Rightarrow> ('a, 'p, evaluation) stage" where
  "evaluate_stage E = seq (gets (\<lambda>fr. (tr_task (fr_current fr), fr_observation fr))) (\<lambda>(t, ob).
     seq (lift_run (observation_history (task_id t))) (\<lambda>history.
     seq (lift_result (evaluate_progress (task_spec t) ob history)) (\<lambda>v.
     seq (append_drafts [draft EvaluationRecorded (dump_evaluation v)]) (\<lambda>_.
     case eval_status v of
       EvCompleted \<Rightarrow> seq (stop_task E [draft TaskCompleted (reason_payload (eval_summary v))] Completed
         (eval_summary v)) (\<lambda>c. ret (Inl c))
     | EvBlocked \<Rightarrow> seq (block_task E (blocked_text v)) (\<lambda>c. ret (Inl c))
     | EvRunning \<Rightarrow> ret (Inr v)))))"

text \<open>The \<open>try\<close> block around the provider; its errors become a value.\<close>

definition ask_decision :: "('a, 'p) env \<Rightarrow> evaluation \<Rightarrow> ('a, 'p, exn + provider_result) local_run" where
  "ask_decision E v = catch
     (seq (gets (\<lambda>fr. (tr_task (fr_current fr), fr_observation fr, fr_sg fr))) (\<lambda>(t, ob, sg).
      seq (lift_run (on_adapter (adp_available (env_adapter E)))) (\<lambda>actions.
      seq (lift_run (view_events (task_id t))) (\<lambda>events.
      seq (lift_result (project_context (context_event_limit (env_config E)) (context_max_bytes (env_config E))
             t ob actions events sg v)) (\<lambda>c.
      seq (lift_run (ask_provider E c)) (\<lambda>r. ret (Inr r)))))))
     (\<lambda>e. if exn_class e = ScriptedDecisionExhausted \<or> is_decision_provider_error e
          then ret (Inl e) else throw e)"

definition provider_failed :: "('a, 'p) env \<Rightarrow> exn \<Rightarrow> ('a, 'p, flow) local_run" where
  "provider_failed E e = (let reason = exn_text e in
     if exn_class e = ScriptedDecisionExhausted then block_task E reason
     else stop_task E
       [draft DecisionProviderFailed [(''error_type'', JStr (class_name (exn_class e))), (''reason'', JStr reason)],
        draft TaskFailed (reason_payload reason)] Failed reason)"

definition count_rejection :: "safeguard_state \<Rightarrow> safeguard_state" where
  "count_rejection sg = sg\<lparr>sg_failures := sg_failures sg + 1, sg_rejected := sg_rejected sg + 1\<rparr>"

definition update_sg :: "(safeguard_state \<Rightarrow> safeguard_state) \<Rightarrow> ('a, 'p, unit) local_run" where
  "update_sg f = modify (\<lambda>fr. fr\<lparr>fr_sg := f (fr_sg fr)\<rparr>)"

definition false_completion :: "('a, 'p) env \<Rightarrow> ('a, 'p, flow) local_run" where
  "false_completion E =
     (let reason = ''decision provider claimed completion before evaluator confirmation'' in
      seq (set_reason (Some reason)) (\<lambda>_.
      seq (append_drafts [draft ActionRejected (reason_payload reason)]) (\<lambda>_.
      seq (update_sg count_rejection) (\<lambda>_.
      seq (gets fr_sg) (\<lambda>sg.
      commit_or_block E (block_on_false_completion (env_config E) \<or>
        sg_failures sg \<ge> max_consecutive_failures (env_config E)) reason False)))))"

definition note_state :: "json \<Rightarrow> safeguard_state \<Rightarrow> safeguard_state" where
  "note_state fingerprint sg =
     sg\<lparr>sg_repeated_state := repeated_state sg fingerprint, sg_last_state := Some fingerprint\<rparr>"

definition wait_iteration :: "('a, 'p) env \<Rightarrow> ('a, 'p, flow) local_run" where
  "wait_iteration E =
     (let refresh = adp_fresh (env_adapter E) in
      seq (if refresh then seq (observe_frame E) (\<lambda>ob. append_drafts [observation_draft ob]) else ret ()) (\<lambda>_.
      seq (gets fr_observation) (\<lambda>ob.
      seq (update_sg (note_state (state_fingerprint ob))) (\<lambda>_.
      seq (gets fr_sg) (\<lambda>sg.
      let blocks = sg_repeated_state sg \<ge> repeated_state_limit (env_config E) in
      seq (if blocks then set_reason (Some ''repeated state detected'') else ret ()) (\<lambda>_.
      commit_or_block E blocks ''repeated state detected'' refresh))))))"

definition decision_payload :: "provider_result \<Rightarrow> jobject" where
  "decision_payload r = dump_decision (pr_decision r) @
     [(''provider_metadata'', JObj (dump_metadata (pr_metadata r)))]"

text \<open>The action of a decision, and whether the decision asks for approval.\<close>

definition decide_stage :: "('a, 'p) env \<Rightarrow> evaluation \<Rightarrow> ('a, 'p, action \<times> bool) stage" where
  "decide_stage E v = seq (ask_decision E v) (\<lambda>answer. case answer of
     Inl e \<Rightarrow> seq (provider_failed E e) (\<lambda>c. ret (Inl c))
   | Inr r \<Rightarrow>
       seq (append_drafts [draft DecisionGenerated (decision_payload r)]) (\<lambda>_.
       let d = pr_decision r in
       if dec_type d = DComplete then seq (false_completion E) (\<lambda>c. ret (Inl c))
       else if dec_type d = DBlocked then seq (block_task E (dec_reason d)) (\<lambda>c. ret (Inl c))
       else if dec_type d = DWait then seq (wait_iteration E) (\<lambda>c. ret (Inl c))
       else case dec_action d of
         None \<Rightarrow> (let reason = ''decision requiring execution did not contain an action'' in
           seq (stop_task E [draft TaskFailed (reason_payload reason)] Failed reason) (\<lambda>c. ret (Inl c)))
       | Some a \<Rightarrow> ret (Inr (a, dec_type d = DApprovalRequired))))"

definition note_action :: "json \<Rightarrow> bool \<Rightarrow> safeguard_state \<Rightarrow> safeguard_state" where
  "note_action fingerprint was_approved sg =
     sg\<lparr>sg_last_action := Some fingerprint,
        sg_repeated_action :=
          (if was_approved then sg_repeated_action sg
           else if sg_last_action sg = Some fingerprint then sg_repeated_action sg + 1 else 1)\<rparr>"

definition repetition_stage :: "('a, 'p) env \<Rightarrow> action \<Rightarrow> bool \<Rightarrow> ('a, 'p, unit) stage" where
  "repetition_stage E a was_approved = seq (gets fr_observation) (\<lambda>ob.
     seq (update_sg (note_action (action_state_fingerprint a ob) was_approved)) (\<lambda>_.
     seq (gets fr_sg) (\<lambda>sg.
     if \<not> was_approved \<and> sg_repeated_action sg \<ge> repeated_action_limit (env_config E)
     then seq (block_task E ''repeated action detected'') (\<lambda>c. ret (Inl c))
     else ret (Inr ()))))"

definition reject_action ::
  "('a, 'p) env \<Rightarrow> action \<Rightarrow> adapter_validation \<Rightarrow> policy_decision \<Rightarrow> ('a, 'p, flow) local_run" where
  "reject_action E a av policy =
     (let reason = join ''; '' (pol_reasons policy) in
      seq (set_reason (Some reason)) (\<lambda>_.
      seq (append_drafts [draft ActionRejected
        [(''reason'', JStr reason), (''action_type'', JStr (act_type a)),
         (''action_fingerprint'', JStr (action_fingerprint (env_sha E) a))]]) (\<lambda>_.
      seq (update_sg count_rejection) (\<lambda>_.
      seq (if av_stale av then seq (observe_frame E) (\<lambda>ob. append_drafts [observation_draft ob]) else ret ())
        (\<lambda>_.
      seq (gets fr_sg) (\<lambda>sg.
      commit_or_block E (sg_failures sg \<ge> max_consecutive_failures (env_config E)) reason (av_stale av)))))))"

definition request_approval ::
  "('a, 'p) env \<Rightarrow> action \<Rightarrow> policy_decision \<Rightarrow> ('a, 'p, flow) local_run" where
  "request_approval E a policy =
     seq (gets (\<lambda>fr. (fr_current fr, fr_sg fr, fr_drafts fr))) (\<lambda>(current, sg, drafts).
     seq (lift_run (now E)) (\<lambda>time.
     let t = tr_task current;
         request = \<lparr>appr_id = env_uuid5 E (''sim-pilot:'' @ uuid_text (task_id t) @ '':approval:'' @
             int_text (task_seq t + int (length drafts) + 1)),
           appr_task = task_id t, appr_action = a, appr_status = ApPending, appr_created = time,
           appr_resolved = None\<rparr>;
         requested = draft ApprovalRequested
           [(''approval_id'', JStr (uuid_text (appr_id request))), (''action_type'', JStr (act_type a))] in
     seq (lift_result (with_status t WaitingForApproval)) (\<lambda>waiting.
     seq (lift_run (commit_iteration E current waiting sg (drafts @ [requested])
            (no_options\<lparr>co_create := Some \<lparr>ar_approval = request,
               ar_reason = Some (if pol_reasons policy = [] then ''approval required''
                 else join ''; '' (pol_reasons policy))\<rparr>\<rparr>))) (\<lambda>c.
     seq (modify (\<lambda>fr. fr\<lparr>fr_current := ic_record c\<rparr>)) (\<lambda>_.
     seq (set_reason (Some ''approval required'')) (\<lambda>_. ret Break))))))"

definition execute_stage :: "('a, 'p) env \<Rightarrow> action \<Rightarrow> adapter_validation \<Rightarrow> ('a, 'p, flow) local_run" where
  "execute_stage E a av =
     seq (execute_action_transaction E a av) (\<lambda>_.
     seq (modify (\<lambda>fr. fr\<lparr>fr_committed := fr_committed fr + 1\<rparr>)) (\<lambda>_.
     seq (gets fr_terminal) (\<lambda>terminal. ret (if terminal \<noteq> None then Break else Continue))))"

definition act_stage :: "('a, 'p) env \<Rightarrow> action \<Rightarrow> bool \<Rightarrow> bool \<Rightarrow> ('a, 'p, flow) local_run" where
  "act_stage E a asks_approval was_approved =
     seq (lift_run (on_adapter (adp_validate (env_adapter E) a))) (\<lambda>av.
     seq (gets (\<lambda>fr. (tr_task (fr_current fr), fr_observation fr))) (\<lambda>(t, ob).
     let policy = policy_evaluate (task_spec t) a ob (task_spend t) av in
     seq (append_drafts [draft PolicyValidated (dump_policy policy)]) (\<lambda>_.
     if \<not> pol_allowed policy then reject_action E a av policy
     else if (pol_approval policy \<or> asks_approval) \<and> \<not> was_approved then request_approval E a policy
     else execute_stage E a av)))"

section \<open>The loop\<close>

definition iteration :: "('a, 'p) env \<Rightarrow> int option \<Rightarrow> ('a, 'p, flow) local_run" where
  "iteration E budget =
     next_stage (check_budget budget) (\<lambda>_.
     next_stage (check_cancelled E) (\<lambda>_.
     next_stage (check_iterations E) (\<lambda>_.
     seq count_iteration (\<lambda>_.
     next_stage (evaluate_stage E) (\<lambda>v.
     seq (gets (\<lambda>fr. sg_approved_action (fr_sg fr))) (\<lambda>approved.
     next_stage (case approved of None \<Rightarrow> decide_stage E v | Some a \<Rightarrow> ret (Inr (a, False)))
       (\<lambda>(a, asks_approval).
     next_stage (repetition_stage E a (approved \<noteq> None)) (\<lambda>_.
     act_stage E a asks_approval (approved \<noteq> None)))))))))"

lemma preserves_next_stage [preserve_rules]:
  "preserves I m \<Longrightarrow> (\<And>x. preserves I (f x)) \<Longrightarrow> preserves I (next_stage m f)"
  unfolding next_stage_def by (intro preserve_rules)

lemma preserves_case_status [preserve_rules]:
  "preserves I a \<Longrightarrow> preserves I b \<Longrightarrow> preserves I c \<Longrightarrow>
     preserves I (case st of EvRunning \<Rightarrow> a | EvCompleted \<Rightarrow> b | EvBlocked \<Rightarrow> c)"
  by (cases st) simp_all

lemma append_drafts_preserves [preserve_rules]:
  "preserves (store_inv P) (append_drafts ds)" "preserves (count_inv n) (append_drafts ds)"
  by (simp_all add: append_drafts_def preserves_def modify_def store_inv_def count_inv_def)

lemma committed_preserves [preserve_rules]:
  "modify_keeps (store_inv P) (\<lambda>fr. fr\<lparr>fr_committed := fr_committed fr + 1\<rparr>)"
  "modify_keeps (count_inv n) (\<lambda>fr. fr\<lparr>fr_committed := fr_committed fr + 1\<rparr>)"
  by (simp_all add: modify_keeps_def store_inv_def count_inv_def)

lemma update_sg_store [preserve_rules]: "preserves (store_inv P) (update_sg f)"
  by (simp add: update_sg_def preserves_def modify_def store_inv_def)

lemma update_sg_count [preserve_rules]:
  "preserves (count_inv n) (update_sg count_rejection)"
  "preserves (count_inv n) (update_sg (note_state fp))"
  "preserves (count_inv n) (update_sg (note_action fp b))"
  by (simp_all add: update_sg_def preserves_def modify_def count_inv_def count_rejection_def note_state_def
    note_action_def)

lemma stage_count [preserve_rules]:
  "preserves (count_inv n) (snapshot_frame E)" "preserves (count_inv n) (commit_drafts E t snap)"
  "preserves (count_inv n) (stop_task E ds st reason)" "preserves (count_inv n) (block_task E reason)"
  "preserves (count_inv n) (commit_or_block E b reason refresh)"
  unfolding snapshot_frame_def commit_drafts_def stop_task_def block_task_def commit_or_block_def
  by (intro preserve_rules)+

lemma stages_count [preserve_rules]:
  "preserves (count_inv n) (check_budget budget)" "preserves (count_inv n) (check_cancelled E)"
  "preserves (count_inv n) (check_iterations E)" "preserves (count_inv n) (evaluate_stage E)"
  "preserves (count_inv n) (ask_decision E v)" "preserves (count_inv n) (provider_failed E e)"
  "preserves (count_inv n) (false_completion E)" "preserves (count_inv n) (wait_iteration E)"
  "preserves (count_inv n) (repetition_stage E a b)" "preserves (count_inv n) (reject_action E a av p)"
  "preserves (count_inv n) (request_approval E a p)" "preserves (count_inv n) (execute_stage E a av)"
  unfolding check_budget_def check_cancelled_def check_iterations_def evaluate_stage_def ask_decision_def
    provider_failed_def false_completion_def wait_iteration_def repetition_stage_def reject_action_def
    request_approval_def execute_stage_def Let_def
  by (intro preserve_rules)+

lemma decide_act_count [preserve_rules]:
  "preserves (count_inv n) (decide_stage E v)" "preserves (count_inv n) (act_stage E a x y)"
  unfolding decide_stage_def act_stage_def Let_def by (intro preserve_rules)+

text \<open>The part of the body after the count.\<close>

definition body_after_count :: "('a, 'p) env \<Rightarrow> ('a, 'p, flow) local_run" where
  "body_after_count E =
     next_stage (evaluate_stage E) (\<lambda>v.
     seq (gets (\<lambda>fr. sg_approved_action (fr_sg fr))) (\<lambda>approved.
     next_stage (case approved of None \<Rightarrow> decide_stage E v | Some a \<Rightarrow> ret (Inr (a, False)))
       (\<lambda>(a, asks_approval).
     next_stage (repetition_stage E a (approved \<noteq> None)) (\<lambda>_.
     act_stage E a asks_approval (approved \<noteq> None)))))"

lemma body_after_count_preserves:
  "preserves (count_inv n) (body_after_count E)"
  unfolding body_after_count_def by (intro preserve_rules)

text \<open>The checks before the count never go on to the next pass by themselves.\<close>

definition only_breaks :: "('a, 'p, 'x) stage \<Rightarrow> bool" where
  "only_breaks m \<longleftrightarrow> (\<forall>fr c fr'. m fr = (ok (Inl c), fr') \<longrightarrow> c = Break)"

lemma only_breaks_rules:
  "only_breaks (ret (Inl Break))" "only_breaks (ret (Inr x))" "only_breaks (throw e)"
  "(\<And>a. only_breaks (f a)) \<Longrightarrow> only_breaks (seq m f)"
  "only_breaks g \<Longrightarrow> only_breaks g' \<Longrightarrow> only_breaks (if b then g else g')"
  "(\<And>a b. only_breaks (h a b)) \<Longrightarrow> only_breaks (case p of (a, b) \<Rightarrow> h a b)"
  by (auto simp: only_breaks_def prog_defs split: prod.splits sum.splits)

lemma checks_only_break:
  "only_breaks (check_budget budget)" "only_breaks (check_cancelled E)" "only_breaks (check_iterations E)"
  unfolding check_budget_def check_cancelled_def check_iterations_def by (intro only_breaks_rules)+

lemma next_stage_Continue:
  assumes "next_stage m f fr = (ok Continue, fr')" and "only_breaks m"
  obtains x fr1 where "m fr = (ok (Inr x), fr1)" and "f x fr1 = (ok Continue, fr')"
  using assms
  by (auto simp: next_stage_def seq_def ret_def only_breaks_def split: prod.split_asm sum.split_asm)

lemma check_iterations_ok:
  "check_iterations E fr = (ok (Inr ()), fr1) \<Longrightarrow>
     fr1 = fr \<and> sg_iterations (fr_sg fr) < max_iterations (env_config E)"
  by (auto simp: check_iterations_def prog_defs split: if_splits prod.splits sum.splits)

lemma iteration_Continue:
  assumes "iteration E budget fr = (ok Continue, fr')"
  shows "sg_iterations (fr_sg fr) < max_iterations (env_config E) \<and>
    sg_iterations (fr_sg fr') = sg_iterations (fr_sg fr) + 1"
proof -
  let ?n = "sg_iterations (fr_sg fr)"
  have start: "count_inv ?n fr" by (simp add: count_inv_def)
  note it = assms [unfolded iteration_def, folded body_after_count_def]
  from next_stage_Continue [OF it checks_only_break(1)] obtain u1 fr1 where
    1: "check_budget budget fr = (ok (Inr u1), fr1)" and
    it1: "next_stage (check_cancelled E) (\<lambda>_. next_stage (check_iterations E) (\<lambda>_.
      seq count_iteration (\<lambda>_. body_after_count E))) fr1 = (ok Continue, fr')" by blast
  from next_stage_Continue [OF it1 checks_only_break(2)] obtain u2 fr2 where
    2: "check_cancelled E fr1 = (ok (Inr u2), fr2)" and
    it2: "next_stage (check_iterations E) (\<lambda>_. seq count_iteration (\<lambda>_. body_after_count E)) fr2 =
      (ok Continue, fr')" by blast
  from next_stage_Continue [OF it2 checks_only_break(3)] obtain u3 fr3 where
    3: "check_iterations E fr2 = (ok (Inr u3), fr3)" and
    it3: "seq count_iteration (\<lambda>_. body_after_count E) fr3 = (ok Continue, fr')" by blast
  have "count_inv ?n fr1" by (rule preservesD [OF stages_count(1) start 1])
  then have "count_inv ?n fr2" by (rule preservesD [OF stages_count(2) _ 2])
  moreover from 3 have "fr3 = fr2" "sg_iterations (fr_sg fr2) < max_iterations (env_config E)"
    using check_iterations_ok [of E fr2 fr3] by simp_all
  ultimately have fr3: "sg_iterations (fr_sg fr3) = ?n" "?n < max_iterations (env_config E)"
    by (simp_all add: count_inv_def)
  define fr4 where "fr4 = fr3\<lparr>fr_sg := (fr_sg fr3)\<lparr>sg_iterations := ?n + 1\<rparr>, fr_drafts := []\<rparr>"
  have "body_after_count E fr4 = (ok Continue, fr')"
    using it3 fr3 by (simp add: seq_def count_iteration_def modify_def fr4_def)
  moreover have "count_inv (?n + 1) fr4" by (simp add: count_inv_def fr4_def)
  ultimately have "count_inv (?n + 1) fr'"
    using preservesD [OF body_after_count_preserves] by blast
  with fr3 show ?thesis by (simp add: count_inv_def)
qed

text \<open>\<open>while current.task.status is TaskStatus.RUNNING\<close>\<close>

function run_loop :: "('a, 'p) env \<Rightarrow> int option \<Rightarrow> ('a, 'p) frame \<Rightarrow> (exn, unit) result \<times> ('a, 'p) frame" where
  "run_loop E budget fr =
     (if task_status (tr_task (fr_current fr)) \<noteq> Running then (ok (), fr)
      else case iteration E budget fr of
        (Inl e, fr') \<Rightarrow> (raise e, fr')
      | (Inr Break, fr') \<Rightarrow> (ok (), fr')
      | (Inr Continue, fr') \<Rightarrow> run_loop E budget fr')"
  by pat_completeness auto
termination
proof (relation "measure (\<lambda>(E, budget, fr). nat (max_iterations (env_config E) - sg_iterations (fr_sg fr)))",
    goal_cases)
  case (2 E budget fr)
  then show ?case by (auto dest!: iteration_Continue [OF sym])
qed auto

declare run_loop.simps [simp del]

text \<open>\<open>except Exception\<close> around the loop: the task fails, and an attempt in flight is recorded as failed.\<close>

definition iteration_failed :: "('a, 'p) env \<Rightarrow> exn \<Rightarrow> ('a, 'p, unit) local_run" where
  "iteration_failed E e =
     (let reason = ''runtime exception: '' @ exn_text e in
      seq (set_reason (Some reason)) (\<lambda>_.
      seq (gets (\<lambda>fr. (fr_current fr, fr_active fr))) (\<lambda>(current, active).
      if task_status (tr_task current) \<noteq> Running then ret ()
      else seq (lift_result (with_status (tr_task current) Failed)) (\<lambda>failed.
        seq (snapshot_frame E) (\<lambda>snap.
        commit_frame E failed
          ((case active of None \<Rightarrow> [] | Some k \<Rightarrow>
              [draft ActionAttemptFailed (action_id_payload k @ [(''reason'', JStr reason)])]) @
           [draft TaskFailed [(''reason'', JStr reason), (''error_type'', JStr (class_name (exn_class e))),
              (''phase'', JStr ''runtime_iteration'')]])
          (Some snap))))))"

definition run_iterations :: "('a, 'p) env \<Rightarrow> int option \<Rightarrow> ('a, 'p, unit) local_run" where
  "run_iterations E budget = catch (run_loop E budget)
     (\<lambda>e. if exn_class e = DurablePersistence \<or> \<not> is_application_error e then throw e
          else iteration_failed E e)"

context store_invariant
begin

lemma stage_store [preserve_rules]:
  "preserves (store_inv P) (snapshot_frame E)" "preserves (store_inv P) (commit_drafts E t snap)"
  "preserves (store_inv P) (stop_task E ds st reason)" "preserves (store_inv P) (block_task E reason)"
  "preserves (store_inv P) (commit_or_block E b reason refresh)"
  unfolding snapshot_frame_def commit_drafts_def stop_task_def block_task_def commit_or_block_def
  by (intro preserve_rules maintain_rules)+

lemma stages_store [preserve_rules]:
  "preserves (store_inv P) (check_budget budget)" "preserves (store_inv P) (check_cancelled E)"
  "preserves (store_inv P) (check_iterations E)" "preserves (store_inv P) (evaluate_stage E)"
  "preserves (store_inv P) (ask_decision E v)" "preserves (store_inv P) (provider_failed E e)"
  "preserves (store_inv P) (false_completion E)" "preserves (store_inv P) (wait_iteration E)"
  "preserves (store_inv P) (repetition_stage E a b)" "preserves (store_inv P) (reject_action E a av p)"
  "preserves (store_inv P) (request_approval E a p)" "preserves (store_inv P) (execute_stage E a av)"
  unfolding check_budget_def check_cancelled_def check_iterations_def evaluate_stage_def ask_decision_def
    provider_failed_def false_completion_def wait_iteration_def repetition_stage_def reject_action_def
    request_approval_def execute_stage_def Let_def
  by (intro preserve_rules maintain_rules)+

lemma decide_act_store [preserve_rules]:
  "preserves (store_inv P) (decide_stage E v)" "preserves (store_inv P) (act_stage E a x y)"
  "preserves (store_inv P) count_iteration"
  unfolding decide_stage_def act_stage_def Let_def
  by (intro preserve_rules maintain_rules | simp add: count_iteration_def preserves_def modify_def store_inv_def)+

lemma iteration_store [preserve_rules]: "preserves (store_inv P) (iteration E budget)"
  unfolding iteration_def by (intro preserve_rules)

lemma run_loop_store: "store_inv P fr \<Longrightarrow> run_loop E budget fr = (r, fr') \<Longrightarrow> store_inv P fr'"
proof (induction E budget fr arbitrary: r fr' rule: run_loop.induct)
  case (1 E budget fr)
  show ?case
  proof (cases "task_status (tr_task (fr_current fr)) = Running")
    case False
    with 1 show ?thesis by (simp add: run_loop.simps)
  next
    case True
    obtain q fr1 where it: "iteration E budget fr = (q, fr1)" by (cases "iteration E budget fr")
    have s1: "store_inv P fr1" by (rule preservesD [OF iteration_store 1(2) it])
    show ?thesis
    proof (cases q)
      case (Inl e)
      with 1 True it s1 show ?thesis by (simp add: run_loop.simps)
    next
      case (Inr c)
      with 1 True it s1 show ?thesis by (cases c) (simp_all add: run_loop.simps)
    qed
  qed
qed

lemma run_iterations_store: "preserves (store_inv P) (run_iterations E budget)"
proof -
  have "preserves (store_inv P) (run_loop E budget)"
    using run_loop_store unfolding preserves_def by (metis prod.collapse)
  moreover have "preserves (store_inv P) (iteration_failed E e)" for e
    unfolding iteration_failed_def Let_def by (intro preserve_rules maintain_rules)
  ultimately show ?thesis unfolding run_iterations_def by (intro preserve_rules)
qed

end

end
