(* ===== verification/Execution.thy ===== *)
theory Execution
  imports Iteration
begin

text \<open>
  \<open>run_runtime\<close> of \<open>runtime/execution.py\<close> and \<open>RuntimeEngine.run\<close> and \<open>resume\<close>: load or create the task,
  gate an interrupted action, initialise the adapter, run the loop, always shut the adapter down, and
  report. The session is the local state of \<open>run_runtime\<close>: it is not updated when the loop raises, while
  the world is.
\<close>

record ('a, 'p) session =
  ses_world :: "('a, 'p) world"
  ses_current :: task_record
  ses_sg :: safeguard_state
  ses_observation :: "observation option"
  ses_reason :: "string option"

type_synonym ('a, 'p, 'x) session_run = "(('a, 'p) session, exn, 'x) prog"

definition lift_session :: "('a, 'p, 'x) run \<Rightarrow> ('a, 'p, 'x) session_run" where
  "lift_session m s = (case m (ses_world s) of (r, w) \<Rightarrow> (r, s\<lparr>ses_world := w\<rparr>))"

definition set_current :: "task_record \<Rightarrow> ('a, 'p, unit) session_run" where
  "set_current r = modify (\<lambda>s. s\<lparr>ses_current := r\<rparr>)"

text \<open>\<open>try: body finally: fin\<close>\<close>

definition with_finally ::
  "('a, 'p, 'x) session_run \<Rightarrow> ('a, 'p, unit) session_run \<Rightarrow> ('a, 'p, 'x) session_run" where
  "with_finally body fin s = (case body s of (r, s1) \<Rightarrow>
     (case fin s1 of (Inl e, s2) \<Rightarrow> (raise e, s2) | (Inr _, s2) \<Rightarrow> (r, s2)))"

definition commit_session ::
  "('a, 'p) env \<Rightarrow> task \<Rightarrow> draft list \<Rightarrow> snapshot option \<Rightarrow> ('a, 'p, unit) session_run" where
  "commit_session E t drafts snap = seq (gets (\<lambda>s. (ses_current s, ses_sg s))) (\<lambda>(current, sg).
     seq (lift_session (commit_iteration E current t sg drafts (no_options\<lparr>co_snapshot := snap\<rparr>))) (\<lambda>c.
     set_current (ic_record c)))"

definition observe_session :: "('a, 'p) env \<Rightarrow> ('a, 'p, observation) session_run" where
  "observe_session E = seq (lift_session (observe E)) (\<lambda>ob.
     seq (modify (\<lambda>s. s\<lparr>ses_observation := Some ob\<rparr>)) (\<lambda>_. ret ob))"

definition fresh_observation :: "('a, 'p) env \<Rightarrow> ('a, 'p, unit) session_run" where
  "fresh_observation E = seq (observe_session E) (\<lambda>ob.
     seq (lift_session (adapter_snapshot E ob)) (\<lambda>snap.
     seq (gets ses_current) (\<lambda>current.
     commit_session E (tr_task current) [observation_draft ob] (Some snap))))"

definition start_session :: "('a, 'p) env \<Rightarrow> task \<Rightarrow> ('a, 'p, observation) session_run" where
  "start_session E t =
     seq (lift_session (on_adapter (adp_initialize (env_adapter E)))) (\<lambda>_.
     seq (if task_status t = Pending then
            seq (lift_result (with_status t Running)) (\<lambda>running.
            seq (observe_session E) (\<lambda>ob.
            seq (lift_session (adapter_snapshot E ob)) (\<lambda>snap.
            commit_session E running [draft TaskStarted [], observation_draft ob] (Some snap))))
          else if task_status t = WaitingForApproval then
            seq (lift_result (with_status t Running)) (\<lambda>running.
            seq (commit_session E running [draft TaskStarted []] None) (\<lambda>_.
            if adp_fresh (env_adapter E) then fresh_observation E else ret ()))
          else if task_status t \<noteq> Running
          then throw (Exn ValueErr (''task cannot run from '' @ task_status_value (task_status t)))
          else if adp_fresh (env_adapter E) then fresh_observation E else ret ()) (\<lambda>_.
     seq (gets ses_observation) (\<lambda>ob. case ob of
       None \<Rightarrow> throw (Exn ValueErr ''running task has no reconstructed observation'')
     | Some o1 \<Rightarrow> ret o1)))"

definition start_failed :: "('a, 'p) env \<Rightarrow> exn \<Rightarrow> ('a, 'p, outcome) session_run" where
  "start_failed E e =
     (let reason = ''runtime exception: '' @ exn_text e;
          failure = draft TaskFailed [(''reason'', JStr reason), (''error_type'', JStr (class_name (exn_class e))),
            (''phase'', JStr ''adapter_initialization'')] in
      seq (gets (\<lambda>s. tr_task (ses_current s))) (\<lambda>t.
      seq (lift_result (force_failed t)) (\<lambda>failed.
      seq (commit_session E failed
        (if task_status t = Pending then [draft TaskStarted [], failure] else [failure]) None) (\<lambda>_.
      seq (gets (\<lambda>s. (ses_current s, ses_sg s))) (\<lambda>(current, sg).
      ret (runtime_outcome (tr_task current) sg (Some reason) None))))))"

text \<open>The body of the outer \<open>try\<close>: an early outcome, or the end of the loop.\<close>

definition run_session :: "('a, 'p) env \<Rightarrow> task \<Rightarrow> int option \<Rightarrow> ('a, 'p, outcome option) session_run" where
  "run_session E t budget =
     seq (catch (seq (start_session E t) (\<lambda>ob. ret (Inr ob)))
       (\<lambda>e. if exn_class e = DurablePersistence \<or> \<not> is_application_error e then throw e
            else seq (start_failed E e) (\<lambda>out. ret (Inl out)))) (\<lambda>r.
     case r of
       Inl out \<Rightarrow> ret (Some out)
     | Inr ob \<Rightarrow> (\<lambda>s.
         (case run_iterations E budget
             \<lparr>fr_world = ses_world s, fr_current = ses_current s, fr_sg = ses_sg s, fr_observation = ob,
              fr_drafts = [], fr_reason = None, fr_active = None, fr_terminal = None, fr_committed = 0\<rparr> of
            (Inl e, fr) \<Rightarrow> (raise e, s\<lparr>ses_world := fr_world fr\<rparr>)
          | (Inr _, fr) \<Rightarrow> (ok None, s\<lparr>ses_world := fr_world fr, ses_current := fr_current fr,
              ses_sg := fr_sg fr, ses_observation := Some (fr_observation fr), ses_reason := fr_reason fr\<rparr>))))"

definition shutdown_failed :: "('a, 'p) env \<Rightarrow> exn \<Rightarrow> ('a, 'p, unit) session_run" where
  "shutdown_failed E e = seq (gets (\<lambda>s. (tr_task (ses_current s), ses_observation s))) (\<lambda>(t, ob).
     if task_status t \<noteq> Running then ret ()
     else (let reason = ''adapter shutdown failed: '' @ exn_text e in
       seq (modify (\<lambda>s. s\<lparr>ses_reason := Some reason\<rparr>)) (\<lambda>_.
       seq (lift_result (with_status t Failed)) (\<lambda>failed.
       seq (case ob of None \<Rightarrow> ret None
            | Some o1 \<Rightarrow> seq (lift_session (adapter_snapshot E o1)) (\<lambda>snap. ret (Some snap))) (\<lambda>snap.
       commit_session E failed
         [draft TaskFailed [(''reason'', JStr reason), (''error_type'', JStr (class_name (exn_class e))),
            (''phase'', JStr ''adapter_shutdown'')]] snap)))))"

definition shutdown_session :: "('a, 'p) env \<Rightarrow> ('a, 'p, unit) session_run" where
  "shutdown_session E = catch (lift_session (on_adapter (adp_shutdown (env_adapter E))))
     (\<lambda>e. if is_application_error e then shutdown_failed E e else throw e)"

definition run_runtime :: "('a, 'p) env \<Rightarrow> task \<Rightarrow> int option \<Rightarrow> ('a, 'p, outcome) run" where
  "run_runtime E t budget =
     seq (load_or_create E t) (\<lambda>c0. seq (gate_recovery E c0) (\<lambda>c.
     let st = task_status (rc_task c) in
     if rc_attempt c \<noteq> None
     then ret (runtime_outcome (rc_task c) (rc_state c) (Some ''recovery intervention required'') (Some c))
     else if is_terminal st then ret (runtime_outcome (rc_task c) (rc_state c) (rc_reason c) (Some c))
     else if st = WaitingForApproval \<and> pending_record c \<noteq> None
     then ret (runtime_outcome (rc_task c) (rc_state c) (Some ''approval required'') (Some c))
     else seq (if st \<in> {Running, WaitingForApproval} then validate_restored_adapter E c else ret ()) (\<lambda>_.
       seq (lift_result (context_record c)) (\<lambda>current.
       (\<lambda>w. (case with_finally (run_session E (rc_task c) budget) (shutdown_session E)
             \<lparr>ses_world = w, ses_current = current, ses_sg = rc_state c, ses_observation = rc_observation c,
              ses_reason = None\<rparr> of
          (Inl e, s) \<Rightarrow> (raise e, ses_world s)
        | (Inr (Some out), s) \<Rightarrow> (ok out, ses_world s)
        | (Inr None, s) \<Rightarrow>
            seq (reconstruct (task_id (tr_task (ses_current s)))) (\<lambda>c'.
              ret (runtime_outcome (tr_task (ses_current s)) (ses_sg s) (ses_reason s) (Some c')))
              (ses_world s)))))))"

text \<open>\<open>RuntimeEngine.resume\<close>: the factory builds the adapter from the reconstructed context.\<close>

definition resume ::
  "('a, 'p) env \<Rightarrow> uuid \<Rightarrow> (runtime_context \<Rightarrow> (exn, 'a) result) \<Rightarrow> int option \<Rightarrow> ('a, 'p, outcome) run" where
  "resume E k adapter_factory budget =
     seq (reconstruct k) (\<lambda>c0. seq (gate_recovery E c0) (\<lambda>c.
     if rc_attempt c \<noteq> None
     then ret (runtime_outcome (rc_task c) (rc_state c) (Some ''recovery intervention required'') (Some c))
     else if is_terminal (task_status (rc_task c)) \<or>
       (task_status (rc_task c) = WaitingForApproval \<and> pending_record c \<noteq> None)
     then ret (runtime_outcome (rc_task c) (rc_state c) (rc_reason c) (Some c))
     else seq (lift_result (adapter_factory c)) (\<lambda>a.
       seq (modify (\<lambda>w. w\<lparr>w_adapter := a\<rparr>)) (\<lambda>_. run_runtime E (rc_task c) budget))))"

section \<open>What a run keeps\<close>

definition session_keeps :: "(store \<Rightarrow> bool) \<Rightarrow> ('a, 'p, 'x) session_run \<Rightarrow> bool" where
  "session_keeps P m \<longleftrightarrow> (\<forall>s. P (w_store (ses_world s)) \<longrightarrow> P (w_store (ses_world (snd (m s)))))"

named_theorems session_rules "session programs that keep the store's integrity"

lemma session_keepsD:
  "session_keeps P m \<Longrightarrow> P (w_store (ses_world s)) \<Longrightarrow> m s = (r, s') \<Longrightarrow> P (w_store (ses_world s'))"
  unfolding session_keeps_def by (metis snd_conv)

lemma session_seq [session_rules]:
  "session_keeps P m \<Longrightarrow> (\<And>a. session_keeps P (f a)) \<Longrightarrow> session_keeps P (seq m f)"
  by (auto simp: session_keeps_def seq_def split: prod.splits sum.splits)

lemma session_catch [session_rules]:
  "session_keeps P m \<Longrightarrow> (\<And>e. session_keeps P (h e)) \<Longrightarrow> session_keeps P (catch m h)"
  by (auto simp: session_keeps_def catch_def split: prod.splits sum.splits)

lemma session_finally [session_rules]:
  "session_keeps P m \<Longrightarrow> session_keeps P f \<Longrightarrow> session_keeps P (with_finally m f)"
  by (auto simp: session_keeps_def with_finally_def split: prod.splits sum.splits)

lemma session_basic [session_rules]:
  "session_keeps P (ret a)" "session_keeps P (throw e)" "session_keeps P (gets f)" "session_keeps P (lift_result r)"
  "session_keeps P (set_current c)" "session_keeps P (modify (\<lambda>s. s\<lparr>ses_observation := ob\<rparr>))"
  "session_keeps P (modify (\<lambda>s. s\<lparr>ses_reason := reason\<rparr>))"
  by (simp_all add: session_keeps_def prog_defs set_current_def)

lemma session_if [session_rules]:
  "session_keeps P m \<Longrightarrow> session_keeps P m' \<Longrightarrow> session_keeps P (if b then m else m')"
  by simp

lemma session_case_option [session_rules]:
  "session_keeps P m \<Longrightarrow> (\<And>a. session_keeps P (f a)) \<Longrightarrow> session_keeps P (case x of None \<Rightarrow> m | Some a \<Rightarrow> f a)"
  by (cases x) simp_all

lemma session_case_sum [session_rules]:
  "(\<And>a. session_keeps P (f a)) \<Longrightarrow> (\<And>b. session_keeps P (g b)) \<Longrightarrow>
     session_keeps P (case x of Inl a \<Rightarrow> f a | Inr b \<Rightarrow> g b)"
  by (cases x) simp_all

lemma session_case_prod [session_rules]:
  "(\<And>a b. session_keeps P (f a b)) \<Longrightarrow> session_keeps P (case p of (a, b) \<Rightarrow> f a b)"
  by (cases p) simp

lemma session_lift [session_rules]: "maintains P m \<Longrightarrow> session_keeps P (lift_session m)"
  by (auto simp: session_keeps_def lift_session_def maintains_def split: prod.splits)

context store_invariant
begin

lemma session_pieces [session_rules]:
  "session_keeps P (commit_session E t ds snap)" "session_keeps P (observe_session E)"
  unfolding commit_session_def observe_session_def
  by (intro session_rules maintain_rules)+

lemma session_parts [session_rules]:
  "session_keeps P (fresh_observation E)" "session_keeps P (start_failed E e)" "session_keeps P (shutdown_failed E e)"
  unfolding fresh_observation_def start_failed_def shutdown_failed_def Let_def
  by (intro session_rules maintain_rules)+

lemma session_start [session_rules]: "session_keeps P (start_session E t)" "session_keeps P (shutdown_session E)"
  unfolding start_session_def shutdown_session_def by (intro session_rules maintain_rules)+

lemma session_loop [session_rules]:
  "session_keeps P (\<lambda>s. case run_iterations E budget
       \<lparr>fr_world = ses_world s, fr_current = ses_current s, fr_sg = ses_sg s, fr_observation = ob,
        fr_drafts = [], fr_reason = None, fr_active = None, fr_terminal = None, fr_committed = 0\<rparr> of
      (Inl e, fr) \<Rightarrow> (raise e, s\<lparr>ses_world := fr_world fr\<rparr>)
    | (Inr _, fr) \<Rightarrow> (ok None, s\<lparr>ses_world := fr_world fr, ses_current := fr_current fr,
        ses_sg := fr_sg fr, ses_observation := Some (fr_observation fr), ses_reason := fr_reason fr\<rparr>))"
  using run_iterations_store [of E budget]
  by (auto simp: session_keeps_def preserves_def store_inv_def split: prod.splits sum.splits)
    (metis frame.select_convs(1) snd_conv)+

lemma session_run [session_rules]: "session_keeps P (run_session E t budget)"
  unfolding run_session_def by (intro session_rules)

lemma run_tail_maintains:
  assumes "session_keeps P body"
  shows "maintains P (\<lambda>w. case body
        \<lparr>ses_world = w, ses_current = current, ses_sg = sg, ses_observation = ob, ses_reason = None\<rparr> of
      (Inl e, s) \<Rightarrow> (raise e, ses_world s)
    | (Inr (Some out), s) \<Rightarrow> (ok out, ses_world s)
    | (Inr None, s) \<Rightarrow> seq (reconstruct (task_id (tr_task (ses_current s)))) (\<lambda>c'.
        ret (runtime_outcome (tr_task (ses_current s)) (ses_sg s) (ses_reason s) (Some c'))) (ses_world s))"
  unfolding maintains_def
proof (intro allI impI)
  fix w :: "('a, 'b) world" assume w: "P (w_store w)"
  obtain r s where b: "body \<lparr>ses_world = w, ses_current = current, ses_sg = sg, ses_observation = ob,
      ses_reason = None\<rparr> = (r, s)" by fastforce
  from session_keepsD [OF assms _ this] w have s: "P (w_store (ses_world s))" by simp
  have "maintains P (seq (reconstruct (task_id (tr_task (ses_current s)))) (\<lambda>c'.
        ret (runtime_outcome (tr_task (ses_current s)) (ses_sg s) (ses_reason s) (Some c')))
        :: ('a, 'b, outcome) run)"
    by (intro maintain_rules)
  with s b show "P (w_store (snd (case body
        \<lparr>ses_world = w, ses_current = current, ses_sg = sg, ses_observation = ob, ses_reason = None\<rparr> of
      (Inl e, s) \<Rightarrow> (raise e, ses_world s)
    | (Inr (Some out), s) \<Rightarrow> (ok out, ses_world s)
    | (Inr None, s) \<Rightarrow> seq (reconstruct (task_id (tr_task (ses_current s)))) (\<lambda>c'.
        ret (runtime_outcome (tr_task (ses_current s)) (ses_sg s) (ses_reason s) (Some c'))) (ses_world s))))"
    by (cases r) (auto simp: maintains_def split: option.splits)
qed

lemma run_runtime_maintains [maintain_rules]: "maintains P (run_runtime E t budget)"
  unfolding run_runtime_def Let_def
  by (intro maintain_rules run_tail_maintains session_rules)

lemma resume_maintains [maintain_rules]: "maintains P (resume E k f budget)"
proof -
  have "maintains P (modify (\<lambda>w. w\<lparr>w_adapter := a\<rparr>))" for a
    by (simp add: maintains_def modify_def)
  then show ?thesis unfolding resume_def by (intro maintain_rules)
qed

end

end
