(* ===== verification/History.thy ===== *)
theory History
  imports Execution
begin

text \<open>
  Durable history is never rewritten. \<open>store_extends s s'\<close> says that \<open>s'\<close> has everything that \<open>s\<close> has:
  tasks only move forward, event streams and checkpoint streams only grow at their end, and an approval
  that has been resolved stays as it is. The repositories' methods extend the store, so the predicate
  is an invariant of the commits and of everything built from them.
\<close>

definition tasks_extend :: "store \<Rightarrow> store \<Rightarrow> bool" where
  "tasks_extend s s' \<longleftrightarrow> (\<forall>k r. map_of (st_tasks s) k = Some r \<longrightarrow>
     (\<exists>r'. map_of (st_tasks s') k = Some r' \<and> task_seq (tr_task r) \<le> task_seq (tr_task r') \<and>
        task_updated (tr_task r) \<le> task_updated (tr_task r')))"

definition approvals_extend :: "store \<Rightarrow> store \<Rightarrow> bool" where
  "approvals_extend s s' \<longleftrightarrow> (\<forall>k r. map_of (st_approvals s) k = Some r \<longrightarrow>
     (\<exists>r'. map_of (st_approvals s') k = Some r' \<and> (is_pending r \<or> r' = r) \<and>
        appr_created (ar_approval r') = appr_created (ar_approval r)))"

definition streams_extend :: "(uuid \<times> 'r list) list \<Rightarrow> (uuid \<times> 'r list) list \<Rightarrow> bool" where
  "streams_extend d d' \<longleftrightarrow> (\<forall>k. \<exists>t. stream_of d' k = stream_of d k @ t)"

definition store_extends :: "store \<Rightarrow> store \<Rightarrow> bool" where
  "store_extends s s' \<longleftrightarrow> tasks_extend s s' \<and> approvals_extend s s' \<and>
     streams_extend (st_events s) (st_events s') \<and> streams_extend (st_checkpoints s) (st_checkpoints s')"

lemma streams_extend_refl [simp]: "streams_extend d d"
  by (simp add: streams_extend_def)

lemma streams_extend_trans: "streams_extend d d' \<Longrightarrow> streams_extend d' d'' \<Longrightarrow> streams_extend d d''"
  unfolding streams_extend_def by (metis append.assoc)

lemma tasks_extend_refl [simp]: "tasks_extend s s"
  by (auto simp: tasks_extend_def)

lemma tasks_extend_trans: "tasks_extend s s' \<Longrightarrow> tasks_extend s' s'' \<Longrightarrow> tasks_extend s s''"
  unfolding tasks_extend_def by (meson order_trans)

lemma approvals_extend_refl [simp]: "approvals_extend s s"
  by (auto simp: approvals_extend_def)

lemma approvals_extend_trans:
  assumes "approvals_extend s s'" and "approvals_extend s' s''"
  shows "approvals_extend s s''"
  unfolding approvals_extend_def
proof (intro allI impI)
  fix k r assume "map_of (st_approvals s) k = Some r"
  with assms(1) obtain r' where first: "map_of (st_approvals s') k = Some r'" "is_pending r \<or> r' = r"
    "appr_created (ar_approval r') = appr_created (ar_approval r)"
    unfolding approvals_extend_def by blast
  with assms(2) obtain r'' where "map_of (st_approvals s'') k = Some r''" "is_pending r' \<or> r'' = r'"
    "appr_created (ar_approval r'') = appr_created (ar_approval r')"
    unfolding approvals_extend_def by blast
  with first show "\<exists>r'. map_of (st_approvals s'') k = Some r' \<and> (is_pending r \<or> r' = r) \<and>
      appr_created (ar_approval r') = appr_created (ar_approval r)"
    by auto
qed

lemma store_extends_refl [simp]: "store_extends s s"
  by (simp add: store_extends_def)

lemma store_extends_trans: "store_extends s s' \<Longrightarrow> store_extends s' s'' \<Longrightarrow> store_extends s s''"
  unfolding store_extends_def
  by (elim conjE, intro conjI)
    (erule (1) tasks_extend_trans approvals_extend_trans streams_extend_trans)+

section \<open>Every method extends\<close>

definition extends_op :: "'a store_op \<Rightarrow> bool" where
  "extends_op m \<longleftrightarrow> (\<forall>s a s'. m s = (ok a, s') \<longrightarrow> store_extends s s')"

named_theorems extend_rules "store programs that only extend the store"

lemma extends_opD: "extends_op m \<Longrightarrow> m s = (ok a, s') \<Longrightarrow> store_extends s s'"
  by (auto simp: extends_op_def)

lemma extends_ret [extend_rules]: "extends_op (ret a)"
  by (auto simp: extends_op_def ret_def)

lemma extends_throw [extend_rules]: "extends_op (throw e)"
  by (auto simp: extends_op_def throw_def)

lemma extends_seq [extend_rules]:
  assumes "extends_op m" and "\<And>a. extends_op (f a)"
  shows "extends_op (seq m f)"
  unfolding extends_op_def seq_def
proof (intro allI impI)
  fix s b s'
  assume "(case m s of (Inl e, w) \<Rightarrow> (raise e, w) | (Inr a, w) \<Rightarrow> f a w) = (ok b, s')"
  then obtain a s1 where "m s = (ok a, s1)" "f a s1 = (ok b, s')"
    by (auto split: prod.splits sum.splits)
  then show "store_extends s s'"
    using extends_opD [OF assms(1)] extends_opD [OF assms(2)] store_extends_trans by blast
qed

lemma extends_optionally [extend_rules]: "(\<And>b. extends_op (f b)) \<Longrightarrow> extends_op (optionally f x)"
  unfolding optionally_def by (cases x) (auto intro: extend_rules)

lemma task_create_extends [extend_rules]: "extends_op (task_create r)"
  by (auto simp: extends_op_def task_create_def Let_def store_extends_def tasks_extend_def
    approvals_extend_def dict_set_get split: if_splits)

lemma task_update_extends [extend_rules]: "extends_op (task_update r)"
  by (auto simp: extends_op_def task_update_def task_get_def Let_def prog_defs store_extends_def
    tasks_extend_def approvals_extend_def dict_set_get not_less split: if_splits option.splits)

lemma push_event_extends: "store_extends s (push_event r s)"
  by (auto simp: store_extends_def streams_extend_def push_event_stream)
    (auto simp: push_event_def Let_def tasks_extend_def approvals_extend_def)

lemma fold_push_extends: "store_extends s (fold push_event rs s)"
  by (induction rs arbitrary: s) (auto intro: store_extends_trans push_event_extends)

lemma event_append_many_extends [extend_rules]: "extends_op (event_append_many rs)"
  by (auto simp: extends_op_def event_append_many_def fold_push_extends split: sum.splits)

lemma event_append_extends [extend_rules]: "extends_op (event_append r)"
  unfolding event_append_def by (rule extend_rules)

lemma approval_create_extends [extend_rules]: "extends_op (approval_create r)"
  by (auto simp: extends_op_def approval_create_def Let_def store_extends_def tasks_extend_def
    approvals_extend_def dict_set_get split: if_splits)

lemma approval_update_extends [extend_rules]: "extends_op (approval_update r)"
  by (auto simp: extends_op_def approval_update_def approval_get_def Let_def prog_defs store_extends_def
    tasks_extend_def approvals_extend_def dict_set_get split: if_splits option.splits)

lemma checkpoint_save_ok:
  assumes "checkpoint_save c s = (ok u, s')"
  shows "s' = s\<lparr>st_checkpoints := AList.update (cm_task (cp_meta c))
    (stream_of (st_checkpoints s) (cm_task (cp_meta c)) @ [c]) (st_checkpoints s)\<rparr>"
  using assms unfolding checkpoint_save_def Let_def by (auto split: if_split_asm)

lemma checkpoint_save_extends [extend_rules]: "extends_op (checkpoint_save c)"
  unfolding extends_op_def
proof (intro allI impI)
  fix s u s' assume "checkpoint_save c s = (ok u, s')"
  from checkpoint_save_ok [OF this] show "store_extends s s'"
    by (simp add: store_extends_def streams_extend_def stream_of_update tasks_extend_def approvals_extend_def)
qed

lemma commit_body_extends [extend_rules]: "extends_op (commit_body r es a b c)"
  unfolding commit_body_def by (intro extend_rules)

lemma create_body_extends [extend_rules]: "extends_op (create_body r e)"
  unfolding create_body_def by (intro extend_rules)

interpretation history: store_invariant "store_extends s0" for s0
  by unfold_locales
    (auto intro: store_extends_trans extends_opD [OF commit_body_extends] extends_opD [OF create_body_extends])

end
