(* ===== verification/StoreProperties.thy ===== *)
theory StoreProperties
  imports History Samples
begin

text \<open>
  The properties of the durable store and of the operations that write it: the repositories, the atomic
  commit, reconstruction, and the engine's operations in any order.
\<close>

section \<open>Operations in sequence\<close>

text \<open>What a client of the engine can ask for; a run brings the adapter and the provider of its environment.\<close>

datatype 'a command =
    CreateTask task
  | Approve uuid
  | Deny uuid
  | CancelTask uuid
  | ResolveRecovery uuid resolution "snapshot option"
  | RunTask task "int option"
  | ResumeTask uuid "runtime_context \<Rightarrow> (exn, 'a) result" "int option"

fun perform :: "('a, 'p) env \<Rightarrow> 'a command \<Rightarrow> ('a, 'p) world \<Rightarrow> ('a, 'p) world" where
  "perform E (CreateTask t) w = snd (create_task E t w)"
| "perform E (Approve k) w = snd (approve E k w)"
| "perform E (Deny k) w = snd (deny E k w)"
| "perform E (CancelTask k) w = snd (cancel E k w)"
| "perform E (ResolveRecovery k res snap) w = snd (resolve_recovery E k res snap w)"
| "perform E (RunTask t budget) w = snd (run_runtime E t budget w)"
| "perform E (ResumeTask k f budget) w = snd (resume E k f budget w)"

definition perform_all :: "(('a, 'p) env \<times> 'a command) list \<Rightarrow> ('a, 'p) world \<Rightarrow> ('a, 'p) world" where
  "perform_all cmds w = fold (\<lambda>(E, c). perform E c) cmds w"

context store_invariant
begin

lemma perform_keeps: "P (w_store w) \<Longrightarrow> P (w_store (perform E c w))"
  by (cases c)
    (simp_all add: maintains_snd [OF create_task_maintains] maintains_snd [OF approve_maintains]
       maintains_snd [OF deny_maintains] maintains_snd [OF cancel_maintains]
       maintains_snd [OF resolve_recovery_maintains] maintains_snd [OF run_runtime_maintains]
       maintains_snd [OF resume_maintains])

lemma perform_all_keeps: "P (w_store w) \<Longrightarrow> P (w_store (perform_all cmds w))"
  unfolding perform_all_def
  by (induction cmds arbitrary: w) (auto intro: perform_keeps)

end

text \<open>
  C1. The store is always intact: whatever operations are performed in whatever order, by whatever adapters,
  providers, clocks and crash hooks, and however each ends, tasks and approvals stay under their
  identifiers, every event stream is numbered from one without a gap by events of its own task, event
  identifiers are unique, and checkpoints are strictly newer one after the other.
\<close>

theorem store_always_intact:
  assumes "w_store w = empty_store"
  shows "store_ok (w_store (perform_all cmds w))"
  using integrity.perform_all_keeps [of w cmds] empty_store_ok assms by simp

text \<open>
  C3. Durable history is never rewritten: whatever is performed afterwards, in whatever order and however it
  ends, tasks only move forward, event and checkpoint streams only grow at their end, and an approval that
  was resolved stays as it is.
\<close>

theorem history_never_rewritten:
  "store_extends (w_store w) (w_store (perform_all cmds w))"
  by (rule history.perform_all_keeps) simp

definition sample_world0 :: "(unit, unit) world" where
  "sample_world0 = \<lparr>w_store = empty_store, w_clock = 0, w_checks = 0, w_points = 0, w_adapter = (), w_provider = ()\<rparr>"

definition idle_adapter :: "unit adapter" where
  "idle_adapter = \<lparr>adp_fresh = False, adp_type = ''idle'', adp_initialize = Pair (ok ()),
     adp_observe = (\<lambda>_. Pair (ok sample_observation)), adp_available = Pair (ok []),
     adp_validate = (\<lambda>_. Pair (ok sample_validation)),
     adp_execute = (\<lambda>_. Pair (raise (Exn RuntimeErr ''idle''))), adp_shutdown = Pair (ok ()), adp_snapshot = None\<rparr>"

definition idle_env :: "(unit, unit) env" where
  "idle_env = \<lparr>env_clock = (\<lambda>n. 100 + int n), env_uuid5 = (\<lambda>s. of_nat (length s)), env_sha = (\<lambda>_. ''''),
     env_config = default_configuration, env_adapter = idle_adapter,
     env_decide = (\<lambda>c p. (raise (Exn ScriptedDecisionExhausted ''script is exhausted''), p)),
     env_cancelled = (\<lambda>_ _. False), env_crash = (\<lambda>_ _. None), env_reconcilers = []\<rparr>"

theorem store_always_intact_witness:
  "store_ok (w_store (perform_all [(idle_env, CreateTask sample_task), (idle_env, RunTask sample_task None)] sample_world0))"
  by (rule store_always_intact) (simp add: sample_world0_def)

section \<open>Repositories and transactions\<close>

text \<open>
  Appending a batch of events is appending them one by one, all or nothing: the batch is refused with
  the exception of the first append that would be, and then changes nothing.
\<close>

theorem batch_append_is_sequence:
  "fst (event_append_many rs s) = fst (appends rs s) \<and>
   snd (event_append_many rs s) = (if is_ok (fst (appends rs s)) then snd (appends rs s) else s)"
  by (rule append_many_appends)

text \<open>
  The unit of work makes its body atomic: inside a fresh unit a body that raises leaves the store as it
  was and the exception goes on, and a body that returns commits exactly what it did.
\<close>

theorem unit_of_work_atomic:
  "transaction body s = (case body s of
     (Inl e, s') \<Rightarrow> (raise e, s)
   | (Inr a, s') \<Rightarrow> (ok a, s'))"
  by (rule transaction_eq)

section \<open>Reconstruction\<close>

text \<open>
  C26. The reconstructor is its specification: a task loads exactly when it exists, its latest observation
  parses, its records are consistent with one another, and its action journal replays; the context then
  holds these records.
\<close>

theorem load_iff_consistent:
  "is_ok (load_context k s) \<longleftrightarrow>
     (\<exists>r ob attempt. map_of (st_tasks s) k = Some r \<and>
        latest_observation (rev (map er_event (event_list k s))) = ok ob \<and>
        consistent r (map er_event (event_list k s)) (approval_list k s) (checkpoint_latest k s) ob \<and>
        unresolved_action_attempt (map er_event (event_list k s)) = ok attempt)"
  unfolding is_ok_iff load_context_ok by blast

section \<open>The loop\<close>

lemma next_stage_count:
  assumes "preserves (count_inv n) m" "count_inv n fr" "next_stage m f fr = (q, fr')"
  shows "count_inv n fr' \<or> (\<exists>x fr1. m fr = (ok (Inr x), fr1) \<and> count_inv n fr1 \<and> f x fr1 = (q, fr'))"
proof -
  obtain r fr1 where m: "m fr = (r, fr1)" by (cases "m fr")
  have c: "count_inv n fr1" by (rule preservesD [OF assms(1,2) m])
  show ?thesis
  proof (cases r)
    case (Inl e)
    with m c assms(3) show ?thesis by (simp add: next_stage_def seq_def)
  next
    case (Inr y)
    with m c assms(3) show ?thesis by (cases y) (auto simp: next_stage_def seq_def ret_def)
  qed
qed

text \<open>However a pass ends, the count is the old one, or one more than a count below the maximum.\<close>

lemma iteration_count:
  assumes "iteration E budget fr = (q, fr')"
  shows "count_inv (sg_iterations (fr_sg fr)) fr' \<or>
    sg_iterations (fr_sg fr) < max_iterations (env_config E) \<and> count_inv (sg_iterations (fr_sg fr) + 1) fr'"
proof -
  let ?n = "sg_iterations (fr_sg fr)"
  have start: "count_inv ?n fr" by (simp add: count_inv_def)
  note it = assms [unfolded iteration_def, folded body_after_count_def]
  show ?thesis
  proof (rule ccontr)
    assume neg: "\<not> ?thesis"
    from next_stage_count [OF stages_count(1) start it] neg obtain fr1 where
      1: "count_inv ?n fr1" and
      it1: "next_stage (check_cancelled E) (\<lambda>_. next_stage (check_iterations E) (\<lambda>_.
        seq count_iteration (\<lambda>_. body_after_count E))) fr1 = (q, fr')" by blast
    from next_stage_count [OF stages_count(2) 1 it1] neg obtain fr2 where
      2: "count_inv ?n fr2" and
      it2: "next_stage (check_iterations E) (\<lambda>_. seq count_iteration (\<lambda>_. body_after_count E)) fr2 = (q, fr')"
      by blast
    from next_stage_count [OF stages_count(3) 2 it2] neg obtain x fr3 where
      3: "check_iterations E fr2 = (ok (Inr x), fr3)" "count_inv ?n fr3" and
      it3: "seq count_iteration (\<lambda>_. body_after_count E) fr3 = (q, fr')" by blast
    have below: "?n < max_iterations (env_config E)"
      using check_iterations_ok [of E fr2 fr3] 3 by (simp add: count_inv_def)
    define fr4 where "fr4 = fr3\<lparr>fr_sg := (fr_sg fr3)\<lparr>sg_iterations := ?n + 1\<rparr>, fr_drafts := []\<rparr>"
    have "body_after_count E fr4 = (q, fr')"
      using it3 3 by (simp add: seq_def count_iteration_def modify_def fr4_def count_inv_def)
    moreover have "count_inv (?n + 1) fr4" by (simp add: count_inv_def fr4_def)
    ultimately have "count_inv (?n + 1) fr'"
      using preservesD [OF body_after_count_preserves] by blast
    with below neg show False by simp
  qed
qed

lemma iteration_bound:
  "sg_iterations (fr_sg fr) \<le> max_iterations (env_config E) \<Longrightarrow> iteration E budget fr = (q, fr') \<Longrightarrow>
     sg_iterations (fr_sg fr') \<le> max_iterations (env_config E)"
  using iteration_count [of E budget fr q fr'] by (auto simp: count_inv_def)

lemma run_loop_bound:
  assumes "sg_iterations (fr_sg fr) \<le> max_iterations (env_config E)" and "run_loop E budget fr = (r, fr')"
  shows "sg_iterations (fr_sg fr') \<le> max_iterations (env_config E)"
  using assms
proof (induction E budget fr arbitrary: r fr' rule: run_loop.induct)
  case (1 E budget fr)
  show ?case
  proof (cases "task_status (tr_task (fr_current fr)) = Running")
    case False
    with 1 show ?thesis by (simp add: run_loop.simps)
  next
    case True
    obtain q fr1 where it: "iteration E budget fr = (q, fr1)" by (cases "iteration E budget fr")
    show ?thesis
    proof (cases "q = ok Continue")
      case True
      with iteration_Continue [of E budget fr fr1] it have "sg_iterations (fr_sg fr1) \<le> max_iterations (env_config E)"
        by simp
      with 1 True it \<open>task_status (tr_task (fr_current fr)) = Running\<close> show ?thesis by (simp add: run_loop.simps)
    next
      case False
      then have "fr' = fr1" using 1(3) it True
        by (cases q; cases "projr q") (auto simp: run_loop.simps)
      then show ?thesis using iteration_bound [OF 1(2) it] by simp
    qed
  qed
qed

lemma iteration_failed_count [preserve_rules]: "preserves (count_inv n) (iteration_failed E e)"
  unfolding iteration_failed_def Let_def by (intro preserve_rules)

text \<open>
  C36. The iteration safeguard holds on every path: the loop and its exception handler, whatever adapter and
  provider they run against and however they end, never count more iterations than the configured maximum.
\<close>

theorem iterations_bounded:
  assumes "sg_iterations (fr_sg fr) \<le> max_iterations (env_config E)"
  shows "sg_iterations (fr_sg (snd (run_iterations E budget fr))) \<le> max_iterations (env_config E)"
proof -
  obtain r fr1 where loop: "run_loop E budget fr = (r, fr1)" by (cases "run_loop E budget fr")
  have bound: "sg_iterations (fr_sg fr1) \<le> max_iterations (env_config E)"
    by (rule run_loop_bound [OF assms loop])
  have "sg_iterations (fr_sg (snd (iteration_failed E e fr1))) = sg_iterations (fr_sg fr1)" for e
    using iteration_failed_count [of "sg_iterations (fr_sg fr1)" E e] by (simp add: preserves_def count_inv_def)
  with bound show ?thesis
    by (cases r) (simp_all add: run_iterations_def catch_def loop throw_def)
qed

definition sample_frame :: "(unit, unit) frame" where
  "sample_frame = \<lparr>fr_world = sample_world0,
     fr_current = \<lparr>tr_task = sample_task\<lparr>task_status := Running\<rparr>, tr_cancel = False, tr_state = initial_safeguards\<rparr>,
     fr_sg = initial_safeguards, fr_observation = sample_observation, fr_drafts = [], fr_reason = None,
     fr_active = None, fr_terminal = None, fr_committed = 0\<rparr>"

theorem iterations_bounded_witness:
  "sg_iterations (fr_sg (snd (run_iterations idle_env None sample_frame))) \<le> max_iterations (env_config idle_env)"
  by (rule iterations_bounded)
    (simp add: sample_frame_def idle_env_def initial_safeguards_def default_configuration_def)

end
