(* ===== verification/Commits.thy ===== *)
theory Commits
  imports History
begin

text \<open>
  What a commit does. A successful commit writes the task's record, appends exactly its drafts, numbered
  after the task's sequence, and at most one approval change and one checkpoint; the context of a task whose
  new events are quiet (no observation, nothing for the action journal) reloads from the result.
\<close>

section \<open>The effect of the transaction\<close>

lemma fold_push_events:
  "event_list k (fold push_event rs s) = event_list k s @ filter (\<lambda>r. record_owner r = k) rs"
  by (induction rs arbitrary: s) (simp_all add: event_list_def push_event_stream)

lemma fold_push_rest:
  "st_tasks (fold push_event rs s) = st_tasks s" "st_approvals (fold push_event rs s) = st_approvals s"
  "st_checkpoints (fold push_event rs s) = st_checkpoints s"
  by (induction rs arbitrary: s) (simp_all add: push_event_def Let_def)

lemma task_update_ok:
  "task_update r s = (ok u, s') \<Longrightarrow> s' = s\<lparr>st_tasks := AList.update (task_id (tr_task r)) r (st_tasks s)\<rparr> \<and>
     (\<exists>old. map_of (st_tasks s) (task_id (tr_task r)) = Some old)"
  by (auto simp: task_update_def task_get_def Let_def seq_ok prog_defs split: option.splits if_splits)

lemma event_append_many_ok: "event_append_many rs s = (ok u, s') \<Longrightarrow> s' = fold push_event rs s"
  by (auto simp: event_append_many_def split: sum.splits)

lemma approval_create_ok:
  "approval_create r s = (ok u, s') \<Longrightarrow>
     s' = s\<lparr>st_approvals := AList.update (appr_id (ar_approval r)) r (st_approvals s)\<rparr> \<and>
     map_of (st_approvals s) (appr_id (ar_approval r)) = None"
  by (auto simp: approval_create_def Let_def split: if_splits)

lemma approval_update_ok:
  "approval_update r s = (ok u, s') \<Longrightarrow>
     s' = s\<lparr>st_approvals := AList.update (appr_id (ar_approval r)) r (st_approvals s)\<rparr> \<and>
     (\<exists>old. map_of (st_approvals s) (appr_id (ar_approval r)) = Some old \<and> is_pending old \<and>
        appr_created (ar_approval r) = appr_created (ar_approval old))"
  by (auto simp: approval_update_def approval_get_def Let_def seq_ok prog_defs split: option.splits if_splits)

definition put_approval :: "approval_record option \<Rightarrow> (uuid \<times> approval_record) list \<Rightarrow> (uuid \<times> approval_record) list"
  where
  "put_approval a d = (case a of None \<Rightarrow> d | Some r \<Rightarrow> AList.update (appr_id (ar_approval r)) r d)"

lemma optionally_ok:
  "optionally f x s = (ok u, s') \<longleftrightarrow> (case x of None \<Rightarrow> s' = s | Some b \<Rightarrow> f b s = (ok (), s'))"
  by (cases x) (auto simp: optionally_def ret_def)

lemma create_optionally:
  "optionally approval_create a s = (ok u, s') \<Longrightarrow> s' = s\<lparr>st_approvals := put_approval a (st_approvals s)\<rparr>"
  by (cases a) (auto simp: optionally_ok put_approval_def dest!: approval_create_ok)

lemma update_optionally:
  "optionally approval_update a s = (ok u, s') \<Longrightarrow> s' = s\<lparr>st_approvals := put_approval a (st_approvals s)\<rparr>"
  by (cases a) (auto simp: optionally_ok put_approval_def dest!: approval_update_ok)

lemma save_optionally:
  "optionally checkpoint_save c s = (ok u, s') \<Longrightarrow>
     st_tasks s' = st_tasks s \<and> st_events s' = st_events s \<and> st_approvals s' = st_approvals s \<and>
     checkpoint_latest k s' = (case c of None \<Rightarrow> checkpoint_latest k s
       | Some x \<Rightarrow> if cm_task (cp_meta x) = k then Some x else checkpoint_latest k s)"
proof (cases c)
  case (Some x)
  moreover assume "optionally checkpoint_save c s = (ok u, s')"
  ultimately have "checkpoint_save x s = (ok (), s')" by (simp add: optionally_ok)
  from checkpoint_save_ok [OF this] Some show ?thesis
    by (simp add: checkpoint_latest_def stream_of_update last_opt_def)
qed (simp add: optionally_ok)

lemma commit_body_ok:
  assumes "commit_body r es a b c s = (ok u, s')"
  shows "st_tasks s' = AList.update (task_id (tr_task r)) r (st_tasks s)"
    and "event_list k s' = event_list k s @ filter (\<lambda>x. record_owner x = k) es"
    and "st_approvals s' = put_approval b (put_approval a (st_approvals s))"
    and "checkpoint_latest k s' = (case c of None \<Rightarrow> checkpoint_latest k s
       | Some x \<Rightarrow> if cm_task (cp_meta x) = k then Some x else checkpoint_latest k s)"
proof -
  from assms obtain s1 s2 s3 s4 where t: "task_update r s = (ok (), s1)"
    and e: "event_append_many es s1 = (ok (), s2)" and a: "optionally approval_create a s2 = (ok (), s3)"
    and b: "optionally approval_update b s3 = (ok (), s4)" and c: "optionally checkpoint_save c s4 = (ok (), s')"
    unfolding commit_body_def seq_ok by auto
  have s1: "s1 = s\<lparr>st_tasks := AList.update (task_id (tr_task r)) r (st_tasks s)\<rparr>"
    using task_update_ok [OF t] by simp
  note steps = s1 event_append_many_ok [OF e] create_optionally [OF a] update_optionally [OF b]
    save_optionally [OF c, of k]
  show "st_tasks s' = AList.update (task_id (tr_task r)) r (st_tasks s)"
    using steps by (simp add: fold_push_rest)
  have "event_list k s' = event_list k (fold push_event es s1)"
    using steps by (simp add: event_list_def)
  then show "event_list k s' = event_list k s @ filter (\<lambda>x. record_owner x = k) es"
    by (simp add: fold_push_events) (simp add: s1 event_list_def)
  show "st_approvals s' = put_approval b (put_approval a (st_approvals s))"
    using steps by (simp add: fold_push_rest)
  have "checkpoint_latest k s4 = checkpoint_latest k s"
    using steps by (simp add: checkpoint_latest_def fold_push_rest)
  with save_optionally [OF c, of k] show "checkpoint_latest k s' = (case c of None \<Rightarrow> checkpoint_latest k s
       | Some x \<Rightarrow> if cm_task (cp_meta x) = k then Some x else checkpoint_latest k s)"
    by (auto split: option.split)
qed

section \<open>The effect of a commit\<close>

lemma on_store_transaction_ok:
  "on_store (transaction body) w = (ok u, w') \<longleftrightarrow> (\<exists>s'. body (w_store w) = (ok u, s') \<and> w' = w\<lparr>w_store := s'\<rparr>)"
  by (cases "body (w_store w)"; cases "fst (body (w_store w))") (auto simp: on_store_def transaction_eq)

lemma durable_ok: "durable msg m w = (ok x, w') \<longleftrightarrow> m w = (ok x, w')"
  by (auto simp: durable_def prog_defs split: prod.splits sum.splits)

definition committed_record ::
  "task_record \<Rightarrow> task \<Rightarrow> safeguard_state \<Rightarrow> draft list \<Rightarrow> commit_options \<Rightarrow> int \<Rightarrow> task_record" where
  "committed_record current t sg drafts opts time =
     \<lparr>tr_task = t\<lparr>task_seq := task_seq (tr_task current) + int (length drafts), task_updated := time\<rparr>,
      tr_cancel = (case co_cancel opts of None \<Rightarrow> tr_cancel current | Some c \<Rightarrow> c), tr_state = sg\<rparr>"

lemma make_task_record_ok:
  "make_task_record t c sg = ok r \<longleftrightarrow> task_version t = 1 \<and> r = \<lparr>tr_task = t, tr_cancel = c, tr_state = sg\<rparr>"
  by (auto simp: make_task_record_def)

lemma commit_iteration_ok:
  assumes "commit_iteration E current t sg drafts opts w = (ok ic, w')"
  obtains time cp where "drafts \<noteq> []" and "task_version t = 1" and "time = env_clock E (w_clock w)"
    and "ic = \<lparr>ic_record = committed_record current t sg drafts opts time,
           ic_events = number_events (task_id t) (task_seq (tr_task current)) time drafts, ic_checkpoint = cp\<rparr>"
    and "case co_snapshot opts of None \<Rightarrow> cp = None
         | Some snap \<Rightarrow> \<exists>c. cp = Some c \<and> make_checkpoint E (task_id t) (task_seq (tr_task current) + int (length drafts))
             time snap = ok c"
    and "commit_body (committed_record current t sg drafts opts time)
           (map (event_record_for E) (number_events (task_id t) (task_seq (tr_task current)) time drafts))
           (co_create opts) (co_update opts) cp (w_store w) = (ok (), w_store w')"
proof -
  have ne: "drafts \<noteq> []" using assms by (auto simp: commit_iteration_def throw_def)
  let ?time = "env_clock E (w_clock w)"
  let ?w1 = "w\<lparr>w_clock := Suc (w_clock w)\<rparr>"
  let ?n = "task_seq (tr_task current) + int (length drafts)"
  let ?evs = "number_events (task_id t) (task_seq (tr_task current)) ?time drafts"
  let ?r = "committed_record current t sg drafts opts ?time"
  from assms obtain cp where v: "task_version t = 1" and snap:
      "(case co_snapshot opts of None \<Rightarrow> ret None
          | Some snap \<Rightarrow> lift_result (rbind (make_checkpoint E (task_id t) ?n ?time snap) (\<lambda>c. ok (Some c)))) ?w1
        = (ok cp, ?w1)"
    and body: "on_store (transaction (commit_body ?r (map (event_record_for E) ?evs) (co_create opts)
        (co_update opts) cp)) ?w1 = (ok (), w')"
    and ic: "ic = \<lparr>ic_record = ?r, ic_events = ?evs, ic_checkpoint = cp\<rparr>"
    using ne unfolding commit_iteration_def Let_def number_events_last [OF ne]
    by (auto simp: seq_ok now_def ret_def durable_ok lift_result_def make_task_record_ok committed_record_def
        split: option.splits)
  show thesis
  proof (rule that [OF ne v refl ic])
    show "case co_snapshot opts of None \<Rightarrow> cp = None
         | Some snap \<Rightarrow> \<exists>c. cp = Some c \<and> make_checkpoint E (task_id t) ?n ?time snap = ok c"
      using snap by (cases "co_snapshot opts") (auto simp: ret_def lift_result_def rbind_Inr_iff)
    show "commit_body ?r (map (event_record_for E) ?evs) (co_create opts) (co_update opts) cp (w_store w) =
        (ok (), w_store w')"
      using body by (auto simp: on_store_transaction_ok)
  qed
qed

lemma commit_approvals:
  "commit_iteration E current t sg drafts opts w = (ok ic, w') \<Longrightarrow>
     st_approvals (w_store w') = put_approval (co_update opts) (put_approval (co_create opts) (st_approvals (w_store w)))"
  by (erule commit_iteration_ok) (rule commit_body_ok(3))

section \<open>Reloading after a commit\<close>

definition quiet :: "event_type \<Rightarrow> bool" where
  "quiet t \<longleftrightarrow> t \<noteq> ObservationRecorded \<and> attempt_event_status t = None"

lemma quiet_simps [simp]:
  "quiet ApprovalGranted" "quiet ApprovalDenied" "quiet TaskBlocked" "quiet TaskCancelled"
  by (simp_all add: quiet_def)

lemma latest_observation_quiet:
  "\<forall>e \<in> set fs. quiet (ev_type e) \<Longrightarrow> latest_observation (rev (es @ fs)) = latest_observation (rev es)"
  by (induction fs rule: rev_induct) (auto simp: quiet_def)

lemma rfold_quiet: "\<forall>e \<in> set fs. quiet (ev_type e) \<Longrightarrow> rfold attempt_event fs as = ok as"
  by (induction fs) (auto simp: quiet_def attempt_event_def)

lemma unresolved_quiet:
  "\<forall>e \<in> set fs. quiet (ev_type e) \<Longrightarrow> unresolved_action_attempt (es @ fs) = unresolved_action_attempt es"
  unfolding unresolved_action_attempt_def action_attempts_def rfold_append
  by (cases "rfold attempt_event es []") (auto simp: rfold_quiet)

lemma number_events_append:
  "map ev_sequence (number_events k n time ds) = [n + 1..n + int (length ds)]"
  by (rule nth_equalityI) (auto simp: number_events_nth)

lemma number_events_owner: "e \<in> set (number_events k n time ds) \<Longrightarrow> ev_task e = k"
  by (auto simp: number_events_def)

lemma number_events_types: "map ev_type (number_events k n time ds) = map dr_type ds"
  by (rule nth_equalityI) (auto simp: number_events_nth)

lemma committed_events:
  "map er_event (filter (\<lambda>x. record_owner x = k) (map (event_record_for E) (number_events k n time ds))) =
     number_events k n time ds"
proof -
  have "filter (\<lambda>x. record_owner x = k) (map (event_record_for E) (number_events k n time ds)) =
      map (event_record_for E) (number_events k n time ds)"
    by (rule filter_True) (auto simp: record_owner_def event_record_for_def number_events_owner)
  then show ?thesis by (simp add: event_record_for_def comp_def)
qed

text \<open>A checkpoint whose tick is the one that its state records.\<close>

definition tick_recorded :: "checkpoint \<Rightarrow> bool" where
  "tick_recorded cp \<longleftrightarrow> (case map_of (cp_state cp) ''tick'' of
     None \<Rightarrow> cm_tick (cp_meta cp) = 0 | Some v \<Rightarrow> as_int v = Some (cm_tick (cp_meta cp)))"

lemma make_checkpoint_ok:
  assumes "make_checkpoint E k n time snap = ok c"
  shows "tick_recorded c \<and> 0 \<le> cm_tick (cp_meta c) \<and> cp_state c = snap_state snap \<and> cm_task (cp_meta c) = k \<and>
    cm_sequence (cp_meta c) = n \<and> cm_sim_version (cp_meta c) = snap_sim_version snap \<and>
    cm_adapter_version (cp_meta c) = snap_version snap \<and> cm_obs_sequence (cp_meta c) = snap_sequence snap"
  using assms
  by (auto simp: make_checkpoint_def tick_recorded_def Let_def split: option.splits if_splits)

text \<open>The terminal copy of a consistent checkpoint is consistent at the task's new sequence.\<close>

lemma copied_checkpoint_consistent:
  assumes "checkpoint_consistent t cp ob" and "tick_recorded cp"
    and "copy_checkpoint_for_terminal (Some cp) = Some snap"
    and "make_checkpoint E (task_id t) n time snap = ok c" and "task_id t' = task_id t" and "n \<le> task_seq t'"
  shows "checkpoint_consistent t' c ob"
proof -
  note c = make_checkpoint_ok [OF assms(4)]
  have snap: "snap_state snap = cp_state cp" "snap_sim_version snap = cm_sim_version (cp_meta cp)"
      "snap_version snap = 1" "snap_sequence snap = cm_obs_sequence (cp_meta cp)"
    using assms(3) by (auto simp: copy_checkpoint_for_terminal_def Let_def)
  have "cm_tick (cp_meta c) = cm_tick (cp_meta cp)"
    using c assms(2) snap by (auto simp: tick_recorded_def split: option.splits)
  with assms c snap show ?thesis by (auto simp: checkpoint_consistent_def Let_def)
qed

lemma upto_append: "0 \<le> n \<Longrightarrow> 0 \<le> m \<Longrightarrow> [1..n] @ [n + 1..n + m] = [1..n + (m :: int)]"
  by (cases "n = 0") (simp_all flip: upto_split2)

lemma consistent_events_append:
  assumes "consistent r events approvals cp ob" and "fs \<noteq> []" and "\<forall>e \<in> set fs. ev_task e = task_id (tr_task r)"
    and "map ev_sequence fs = [task_seq (tr_task r) + 1..task_seq (tr_task r) + int (length fs)]"
  shows "events @ fs \<noteq> []" and "ev_type (hd (events @ fs)) = TaskCreated"
    and "\<forall>e \<in> set (events @ fs). ev_task e = task_id (tr_task r)"
    and "map ev_sequence (events @ fs) = [1..int (length (events @ fs))]"
  using assms upto_append [of "int (length events)" "int (length fs)"]
  by (auto simp: consistent_def Let_def)

lemma consistent_length: "consistent r events approvals cp ob \<Longrightarrow> task_seq (tr_task r) = int (length events)"
  by (simp add: consistent_def Let_def)

lemma context_record_ok:
  "context_record c = ok r \<Longrightarrow> r = \<lparr>tr_task = rc_task c, tr_cancel = rc_cancel c, tr_state = rc_state c\<rparr>"
  by (auto simp: context_record_def make_task_record_ok)

lemma store_ok_task: "store_ok s \<Longrightarrow> map_of (st_tasks s) k = Some r \<Longrightarrow> task_id (tr_task r) = k"
  by (auto simp: store_ok_def tasks_ok_def dest!: map_of_SomeD)

lemma commit_reload:
  assumes load: "load_context k (w_store w) = ok c" and s_ok: "store_ok (w_store w)"
    and current: "context_record c = ok current" and t: "t = (rc_task c)\<lparr>task_status := st\<rparr>"
    and commit: "commit_iteration E current t sg drafts opts w = (ok ic, w')"
    and quiet: "\<forall>d \<in> set drafts. quiet (dr_type d)"
    and last: "\<forall>et. terminal_event st = Some et \<longrightarrow> dr_type (last drafts) = et"
    and cancel: "(case co_cancel opts of None \<Rightarrow> rc_cancel c | Some b \<Rightarrow> b) = (st = Cancelled)"
    and approvals: "approvals_consistent st sg (approval_list k (w_store w'))"
    and need: "requires_checkpoint st (rc_observation c) \<longrightarrow> rc_checkpoint c \<noteq> None"
    and snap: "co_snapshot opts = None \<or> co_snapshot opts = copy_checkpoint_for_terminal (rc_checkpoint c)"
    and tick: "\<forall>cp. co_snapshot opts \<noteq> None \<longrightarrow> rc_checkpoint c = Some cp \<longrightarrow> tick_recorded cp"
  obtains c' where "load_context k (w_store w') = ok c'" and "task_status (rc_task c') = st"
    and "task_seq (rc_task c') = task_seq (rc_task c) + int (length drafts)"
    and "rc_state c' = sg" and "rc_attempt c' = rc_attempt c" and "rc_observation c' = rc_observation c"
    and "map ev_type (rc_events c') = map ev_type (rc_events c) @ map dr_type drafts"
    and "rc_approvals c' = approval_list k (w_store w')"
proof -
  from load obtain r ob attempt where r: "map_of (st_tasks (w_store w)) k = Some r"
    and ob: "latest_observation (rev (map er_event (event_list k (w_store w)))) = ok ob"
    and cons: "consistent r (map er_event (event_list k (w_store w))) (approval_list k (w_store w))
        (checkpoint_latest k (w_store w)) ob"
    and attempt: "unresolved_action_attempt (map er_event (event_list k (w_store w))) = ok attempt"
    and c: "c = \<lparr>rc_task = tr_task r, rc_cancel = tr_cancel r, rc_state = tr_state r,
             rc_events = map er_event (event_list k (w_store w)), rc_approvals = approval_list k (w_store w),
             rc_checkpoint = checkpoint_latest k (w_store w), rc_observation = ob,
             rc_reason = as_str (jget (ev_payload (List.last (map er_event (event_list k (w_store w))))) ''reason''),
             rc_attempt = attempt\<rparr>"
    unfolding load_context_ok by blast
  have id: "task_id (rc_task c) = k" "task_id t = k" using store_ok_task [OF s_ok r] by (simp_all add: c t)
  have cur: "tr_task current = rc_task c" "tr_cancel current = rc_cancel c"
    using context_record_ok [OF current] by simp_all
  from commit obtain time cp where ne: "drafts \<noteq> []" and time: "time = env_clock E (w_clock w)"
    and snapped: "case co_snapshot opts of None \<Rightarrow> cp = None
         | Some snap \<Rightarrow> \<exists>c. cp = Some c \<and> make_checkpoint E (task_id t) (task_seq (tr_task current) + int (length drafts))
             time snap = ok c"
    and body: "commit_body (committed_record current t sg drafts opts time)
           (map (event_record_for E) (number_events (task_id t) (task_seq (tr_task current)) time drafts))
           (co_create opts) (co_update opts) cp (w_store w) = (ok (), w_store w')"
    by (rule commit_iteration_ok)
  let ?r' = "committed_record current t sg drafts opts time"
  let ?fs = "number_events k (task_seq (rc_task c)) time drafts"
  let ?old = "map er_event (event_list k (w_store w))"
  have task: "map_of (st_tasks (w_store w')) k = Some ?r'"
    using commit_body_ok(1) [OF body] id by (simp add: committed_record_def dict_set_get)
  have events: "map er_event (event_list k (w_store w')) = ?old @ ?fs"
    using commit_body_ok(2) [OF body, of k] id by (simp add: cur committed_events)
  have fs_quiet: "\<forall>e \<in> set ?fs. quiet (ev_type e)"
    using quiet number_events_types [of k "task_seq (rc_task c)" time drafts] by (metis (no_types) image_iff list.set_map)
  have fs: "?fs \<noteq> []" "\<forall>e \<in> set ?fs. ev_task e = task_id (tr_task r)"
      "map ev_sequence ?fs = [task_seq (tr_task r) + 1..task_seq (tr_task r) + int (length ?fs)]"
    using ne number_events_append [of k "task_seq (rc_task c)" time drafts] number_events_owner id
      number_events_length [of k "task_seq (rc_task c)" time drafts]
    by (auto simp: c simp flip: length_greater_0_conv)
  have last_type: "ev_type (List.last (?old @ ?fs)) = dr_type (List.last drafts)"
    using fs(1) ne number_events_last [OF ne, of k "task_seq (rc_task c)" time] by simp
  note appended = consistent_events_append [OF cons fs]
  have cp: "\<forall>x. checkpoint_latest k (w_store w') = Some x \<longrightarrow> checkpoint_consistent (tr_task ?r') x ob"
  proof (intro allI impI)
    fix x assume x: "checkpoint_latest k (w_store w') = Some x"
    have n: "task_seq (rc_task c) \<le> task_seq (tr_task ?r')" "task_id (tr_task ?r') = task_id (tr_task r)"
      by (simp_all add: committed_record_def cur t c)
    have old: "checkpoint_consistent (tr_task r) y ob" if "checkpoint_latest k (w_store w) = Some y" for y
      using cons that by (simp add: consistent_def Let_def)
    show "checkpoint_consistent (tr_task ?r') x ob"
    proof (cases "co_snapshot opts")
      case None
      with snapped commit_body_ok(4) [OF body, of k] x have "checkpoint_latest k (w_store w) = Some x" by simp
      from old [OF this] n show ?thesis
        by (auto simp: checkpoint_consistent_def Let_def c)
    next
      case (Some snap)
      with snap obtain y where y: "rc_checkpoint c = Some y"
        by (cases "rc_checkpoint c") (simp_all add: copy_checkpoint_for_terminal_def)
      from Some snapped obtain z where z: "cp = Some z" and made:
          "make_checkpoint E (task_id t) (task_seq (tr_task current) + int (length drafts)) time snap = ok z" by auto
      have "cm_task (cp_meta z) = k" using make_checkpoint_ok [OF made] id by simp
      with z x commit_body_ok(4) [OF body, of k] have "x = z" by simp
      moreover have "checkpoint_consistent (tr_task ?r') z ob"
      proof (rule copied_checkpoint_consistent [OF old])
        show "checkpoint_latest k (w_store w) = Some y" using y by (simp add: c)
        show "tick_recorded y" using tick y Some by simp
        show "copy_checkpoint_for_terminal (Some y) = Some snap" using snap Some y by simp
        show "make_checkpoint E (task_id (tr_task r)) (task_seq (tr_task ?r')) time snap = ok z"
          using made id by (simp add: committed_record_def cur c)
      qed (simp_all add: n)
      ultimately show ?thesis by simp
    qed
  qed
  have needed: "requires_checkpoint st ob \<longrightarrow> checkpoint_latest k (w_store w') \<noteq> None"
    using need commit_body_ok(4) [OF body, of k] by (auto simp: c split: option.splits)
  have same_id: "task_id (tr_task ?r') = task_id (tr_task r)"
    by (simp add: committed_record_def t c)
  have "consistent ?r' (?old @ ?fs) (approval_list k (w_store w')) (checkpoint_latest k (w_store w')) ob"
    unfolding consistent_def Let_def
  proof (intro conjI)
    show "?old @ ?fs \<noteq> []" by (rule appended(1))
    show "ev_type (hd (?old @ ?fs)) = TaskCreated" by (rule appended(2))
    show "\<forall>e \<in> set (?old @ ?fs). ev_task e = task_id (tr_task ?r')"
      using appended(3) unfolding same_id .
    show "map ev_sequence (?old @ ?fs) = [1..int (length (?old @ ?fs))]" by (rule appended(4))
    show "task_seq (tr_task ?r') = int (length (?old @ ?fs))"
      using consistent_length [OF cons] by (simp add: committed_record_def cur c)
    show "\<forall>et. terminal_event (task_status (tr_task ?r')) = Some et \<longrightarrow> ev_type (List.last (?old @ ?fs)) = et"
      unfolding last_type using last by (simp add: committed_record_def t)
    show "tr_cancel ?r' = (task_status (tr_task ?r') = Cancelled)"
      using cancel by (cases "co_cancel opts") (simp_all add: committed_record_def t cur)
    show "approvals_consistent (task_status (tr_task ?r')) (tr_state ?r') (approval_list k (w_store w'))"
      using approvals by (simp add: committed_record_def t)
    show "requires_checkpoint (task_status (tr_task ?r')) ob \<longrightarrow> checkpoint_latest k (w_store w') \<noteq> None"
      using needed by (simp add: committed_record_def t)
  qed (rule cp)
  moreover have "latest_observation (rev (?old @ ?fs)) = ok ob"
    using ob latest_observation_quiet [OF fs_quiet] by simp
  moreover have "unresolved_action_attempt (?old @ ?fs) = ok attempt"
    using attempt unresolved_quiet [OF fs_quiet] by simp
  ultimately obtain c' where c': "load_context k (w_store w') = ok c'" and fields: "rc_task c' = tr_task ?r'"
      "rc_state c' = tr_state ?r'" "rc_attempt c' = attempt" "rc_observation c' = ob" "rc_events c' = ?old @ ?fs"
      "rc_approvals c' = approval_list k (w_store w')"
    unfolding load_context_ok events using task by auto
  show thesis
    by (rule that [OF c'])
      (simp_all add: fields committed_record_def cur number_events_types, simp_all add: t c)
qed

section \<open>Resolving an approval\<close>

lemma insort_key_map: "f (g x) = f x \<Longrightarrow> \<forall>y \<in> set ys. f (g y) = f y \<Longrightarrow>
    insort_key f (g x) (map g ys) = map g (insort_key f x ys)"
  by (induction ys) auto

lemma sort_key_map: "\<forall>x \<in> set xs. f (g x) = f x \<Longrightarrow> sort_key f (map g xs) = map g (sort_key f xs)"
  by (induction xs) (simp_all add: insort_key_map)

lemma filter_map_same: "\<forall>x \<in> set xs. P (g x) = P x \<Longrightarrow> filter P (map g xs) = map g (filter P xs)"
  by (induction xs) auto

lemma dict_set_map:
  "distinct (map fst d) \<Longrightarrow> \<forall>(k, x) \<in> set d. ident x = k \<Longrightarrow> map_of d i = Some old \<Longrightarrow>
     map snd (AList.update i r d) = map (\<lambda>x. if ident x = i then r else x) (map snd d)"
proof (induction d)
  case (Cons p d)
  obtain k x where p: "p = (k, x)" by (cases p)
  show ?case
  proof (cases "k = i")
    case True
    then have "i \<notin> fst ` set d" using Cons.prems(1) p by simp
    then have "\<forall>y \<in> snd ` set d. ident y \<noteq> i" using Cons.prems(2) by force
    with True p Cons.prems(2) show ?thesis by (auto intro: map_idI [symmetric])
  next
    case False
    with Cons p show ?thesis by auto
  qed
qed simp

text \<open>Replacing a record by one of the same identifier, task and time replaces it in the task's list.\<close>

lemma approval_list_update:
  assumes "approvals_ok s" and i: "map_of (st_approvals s) i = Some old"
    and "st_approvals s' = AList.update i r (st_approvals s)" and "appr_id (ar_approval r) = i"
    and "appr_task (ar_approval r) = appr_task (ar_approval old)"
    and "appr_created (ar_approval r) = appr_created (ar_approval old)"
  shows "approval_list k s' = map (\<lambda>x. if appr_id (ar_approval x) = i then r else x) (approval_list k s)"
proof -
  let ?id = "\<lambda>x. appr_id (ar_approval x)"
  let ?g = "\<lambda>x. if ?id x = i then r else x"
  let ?P = "\<lambda>x. appr_task (ar_approval x) = k"
  have d: "distinct (map fst (st_approvals s))" "\<forall>(k, x) \<in> set (st_approvals s). ?id x = k"
    using assms(1) by (auto simp: approvals_ok_def)
  have "x = old" if "(j, x) \<in> set (st_approvals s)" "?id x = i" for j x
    using that d i dict_mem_get [OF d(1)] by fastforce
  then have same: "\<forall>x \<in> snd ` set (st_approvals s). ?P (?g x) = ?P x \<and> approval_order (?g x) = approval_order x"
    using assms by (auto simp: approval_order_def)
  have "map snd (st_approvals s') = map ?g (map snd (st_approvals s))"
    unfolding assms(3) by (rule dict_set_map [OF d i])
  then have "filter ?P (map snd (st_approvals s')) = map ?g (filter ?P (map snd (st_approvals s)))"
    using filter_map_same [of "map snd (st_approvals s)" ?P ?g] same by simp
  moreover have "\<forall>x \<in> set (filter ?P (map snd (st_approvals s))). approval_order (?g x) = approval_order x"
    using same unfolding set_filter set_map by blast
  ultimately show ?thesis
    unfolding approval_list_def by (simp only: sort_key_map)
qed

lemma load_context_fields:
  assumes "load_context k s = ok c" and "store_ok s"
  shows "rc_approvals c = approval_list k s" and "task_id (rc_task c) = k"
    and "approvals_consistent (task_status (rc_task c)) (rc_state c) (rc_approvals c)"
    and "rc_cancel c = (task_status (rc_task c) = Cancelled)"
    and "requires_checkpoint (task_status (rc_task c)) (rc_observation c) \<longrightarrow> rc_checkpoint c \<noteq> None"
  using assms store_ok_task unfolding load_context_ok by (auto simp: consistent_def Let_def)

lemma pending_record_ok:
  assumes "load_context k s = ok c" and "store_ok s" and "pending_record c = Some p"
  shows "p \<in> set (rc_approvals c)" and "is_pending p"
    and "map_of (st_approvals s) (appr_id (ar_approval p)) = Some p"
    and "appr_task (ar_approval p) = k" and "task_status (rc_task c) = WaitingForApproval"
proof -
  show p: "p \<in> set (rc_approvals c)" "is_pending p"
    using assms(3) by (auto simp: pending_record_def find_Some_iff)
  then have mem: "p \<in> set (approval_list k s)" using load_context_fields(1) [OF assms(1,2)] by simp
  then show "appr_task (ar_approval p) = k" by (auto simp: approval_list_def)
  have "approvals_ok s" using assms(2) by (simp add: store_ok_def)
  with mem show "map_of (st_approvals s) (appr_id (ar_approval p)) = Some p"
    by (auto simp: approval_list_def approvals_ok_def intro!: dict_mem_get)
  have "filter is_pending (rc_approvals c) \<noteq> []" using p by (auto simp: filter_empty_conv)
  then show "task_status (rc_task c) = WaitingForApproval"
    using load_context_fields(3) [OF assms(1,2)] by (simp add: approvals_consistent_def)
qed

lemma filter_unique: "distinct (map f xs) \<Longrightarrow> x \<in> set xs \<Longrightarrow> filter (\<lambda>y. f y = f x) xs = [x]"
proof (induction xs)
  case (Cons y ys)
  show ?case
  proof (cases "y = x")
    case True
    with Cons.prems show ?thesis by (auto simp: filter_empty_conv image_iff)
  next
    case False
    with Cons.prems have "x \<in> set ys" "f y \<noteq> f x" by (auto simp: image_iff)
    with Cons show ?thesis by simp
  qed
qed simp

lemma distinct_sort_filter: "distinct (map f xs) \<Longrightarrow> distinct (map f (sort_key h (filter P xs)))"
  by (simp add: distinct_map inj_on_def)

lemma approval_list_distinct:
  assumes "approvals_ok s"
  shows "distinct (map (\<lambda>x. appr_id (ar_approval x)) (approval_list k s))"
proof -
  have "map (\<lambda>x. appr_id (ar_approval x)) (map snd (st_approvals s)) = map fst (st_approvals s)"
    using assms by (auto simp: approvals_ok_def)
  then have "distinct (map (\<lambda>x. appr_id (ar_approval x)) (map snd (st_approvals s)))"
    using assms unfolding approvals_ok_def by (simp only:)
  then show ?thesis unfolding approval_list_def by (rule distinct_sort_filter)
qed

definition resolve_in :: "uuid \<Rightarrow> approval_record \<Rightarrow> approval_record list \<Rightarrow> approval_record list" where
  "resolve_in i r xs = map (\<lambda>x. if appr_id (ar_approval x) = i then r else x) xs"

text \<open>Granting the pending request of a waiting task authorises it once.\<close>

lemma approved_consistent:
  assumes "p \<in> set xs" and "distinct (map (\<lambda>x. appr_id (ar_approval x)) xs)"
    and "appr_id (ar_approval r) = appr_id (ar_approval p)" and "appr_status (ar_approval r) = ApApproved"
    and "sg_approved_action sg = Some (appr_action (ar_approval r))" and "sg_approved_id sg = Some (appr_id (ar_approval r))"
  shows "approvals_consistent WaitingForApproval sg (resolve_in (appr_id (ar_approval p)) r xs)"
proof -
  let ?i = "appr_id (ar_approval p)"
  let ?g = "\<lambda>x. if appr_id (ar_approval x) = ?i then r else x"
  have m: "approval_matches sg (?g x) \<longleftrightarrow> appr_id (ar_approval x) = ?i" for x
    using assms by (simp add: approval_matches_def)
  have "length (filter (approval_matches sg) (resolve_in ?i r xs)) = length (filter (\<lambda>x. appr_id (ar_approval x) = ?i) xs)"
    unfolding resolve_in_def filter_map comp_def length_map m ..
  then show ?thesis
    using assms filter_unique [OF assms(2,1)] by (simp add: approvals_consistent_def)
qed

text \<open>Denying the only pending request leaves nothing pending.\<close>

lemma denied_consistent:
  assumes "approvals_consistent WaitingForApproval sg xs" and "filter is_pending xs = [p]"
    and "distinct (map (\<lambda>x. appr_id (ar_approval x)) xs)" and "appr_status (ar_approval r) = ApDenied"
  shows "approvals_consistent Blocked sg (resolve_in (appr_id (ar_approval p)) r xs)"
proof -
  let ?i = "appr_id (ar_approval p)"
  let ?g = "\<lambda>x. if appr_id (ar_approval x) = ?i then r else x"
  have p: "p \<in> set xs" "is_pending p" using assms(2) by (auto dest: filter_eq_ConsD)
  have only: "x = p" if "x \<in> set xs" "appr_id (ar_approval x) = ?i" for x
    using that p(1) assms(3) by (auto simp: distinct_map inj_on_def)
  have pend: "x = p" if "x \<in> set xs" "is_pending x" for x
  proof -
    have "x \<in> set (filter is_pending xs)" using that by simp
    then show ?thesis unfolding assms(2) by simp
  qed
  have "filter is_pending (resolve_in ?i r xs) = []"
    using pend assms(4) by (auto simp: resolve_in_def filter_empty_conv is_pending_def)
  moreover have "filter (approval_matches sg) (map ?g xs) = map ?g (filter (approval_matches sg) xs)"
  proof (intro filter_map_same ballI)
    fix x assume x: "x \<in> set xs"
    show "approval_matches sg (?g x) = approval_matches sg x"
    proof (cases "appr_id (ar_approval x) = ?i")
      case True
      with only [OF x] p(2) assms(4) show ?thesis by (simp add: approval_matches_def is_pending_def)
    qed simp
  qed
  ultimately show ?thesis using assms(1)
    by (simp add: approvals_consistent_def resolve_in_def)
qed

end
