(* ===== verification/CommandProperties.thy ===== *)
theory CommandProperties
  imports Commits StoreProperties
begin

text \<open>
  The properties of the engine's commands between runs: what a commit writes, and that a task that was
  approved, denied or cancelled can be loaded again, with one exception.
\<close>

section \<open>A waiting task\<close>

definition sum_env :: "(unit, unit) env" where
  "sum_env = idle_env\<lparr>env_uuid5 := \<lambda>s. of_int (foldr (\<lambda>c n. n * 31 + of_char c) s 0)\<rparr>"

definition waiting_events :: "event list" where
  "waiting_events = number_events 7 0 10 [draft TaskCreated [], draft TaskStarted [],
     observation_draft sample_observation, draft ApprovalRequested [(''approval_id'', JStr ''5'')]]"

definition sample_approval :: approval_record where
  "sample_approval = \<lparr>ar_approval = \<lparr>appr_id = 5, appr_task = 7, appr_action = sample_action,
     appr_status = ApPending, appr_created = 10, appr_resolved = None\<rparr>, ar_reason = None\<rparr>"

definition sample_checkpoint :: checkpoint where
  "sample_checkpoint = \<lparr>cp_meta = \<lparr>cm_id = 1, cm_task = 7, cm_sequence = 4, cm_tick = 0, cm_sim_version = 1,
     cm_adapter = ''idle'', cm_adapter_version = 1, cm_obs_sequence = 1, cm_seed = ''0'', cm_created = 10\<rparr>,
     cp_state = obs_state sample_observation\<rparr>"

definition waiting_world :: "(unit, unit) world" where
  "waiting_world = sample_world0\<lparr>w_store :=
     \<lparr>st_tasks = [(7, \<lparr>tr_task = sample_task\<lparr>task_status := WaitingForApproval, task_seq := 4\<rparr>,
        tr_cancel = False, tr_state = initial_safeguards\<rparr>)],
      st_events = [(7, map (event_record_for sum_env) waiting_events)],
      st_approvals = [(5, sample_approval)], st_checkpoints = [(7, [sample_checkpoint])]\<rparr>\<rparr>"

section \<open>Commits\<close>

text \<open>
  C27. A commit is all or nothing, and writes exactly what it was given: when it raises, the store is as
  before; when it returns, the task's record is the one returned, its event stream has grown by the drafts,
  numbered without a gap after the task's sequence, which has moved with them, and no other stream has changed.
\<close>

theorem commit_exact:
  "case commit_iteration E current t sg drafts opts w of
     (Inl e, w') \<Rightarrow> w_store w' = w_store w
   | (Inr ic, w') \<Rightarrow>
       map_of (st_tasks (w_store w')) (task_id t) = Some (ic_record ic) \<and>
       task_seq (tr_task (ic_record ic)) = task_seq (tr_task current) + int (length drafts) \<and>
       event_list k (w_store w') = event_list k (w_store w) @
         (if k = task_id t then map (event_record_for E) (ic_events ic) else []) \<and>
       map ev_sequence (ic_events ic) =
         [task_seq (tr_task current) + 1..task_seq (tr_task current) + int (length drafts)] \<and>
       map (\<lambda>e. (ev_type e, ev_payload e)) (ic_events ic) = map (\<lambda>d. (dr_type d, dr_payload d)) drafts"
proof -
  obtain r w' where run: "commit_iteration E current t sg drafts opts w = (r, w')"
    by (cases "commit_iteration E current t sg drafts opts w")
  show ?thesis
  proof (cases r)
    case (Inl e)
    with run commit_iteration_raise [of E current t sg drafts opts w] show ?thesis by simp
  next
    case (Inr ic)
    with run obtain time cp where ic: "ic = \<lparr>ic_record = committed_record current t sg drafts opts time,
           ic_events = number_events (task_id t) (task_seq (tr_task current)) time drafts, ic_checkpoint = cp\<rparr>"
      and body: "commit_body (committed_record current t sg drafts opts time)
           (map (event_record_for E) (number_events (task_id t) (task_seq (tr_task current)) time drafts))
           (co_create opts) (co_update opts) cp (w_store w) = (ok (), w_store w')"
      by (auto elim: commit_iteration_ok)
    have "filter (\<lambda>x. record_owner x = k) (map (event_record_for E) (ic_events ic)) =
        (if k = task_id t then map (event_record_for E) (ic_events ic) else [])"
      by (auto simp: ic filter_empty_conv record_owner_def event_record_for_def number_events_owner intro!: filter_True)
    moreover have "map (\<lambda>e. (ev_type e, ev_payload e)) (ic_events ic) = map (\<lambda>d. (dr_type d, dr_payload d)) drafts"
      by (rule nth_equalityI) (auto simp: ic number_events_nth)
    ultimately show ?thesis
      using run Inr commit_body_ok(1) [OF body] commit_body_ok(2) [OF body, of k] number_events_append
      by (simp add: ic committed_record_def dict_set_get)
  qed
qed

section \<open>Approving and denying\<close>

text \<open>
  C33. Approving authorises exactly once: when it returns, a request was pending, the task loads again and
  still waits, its state authorises that request's action, the request is resolved in the history, every
  other request is as before, and one event was added.
\<close>

theorem approve_authorises:
  assumes "load_context k (w_store w) = ok c" and "store_ok (w_store w)" and "approve E k w = (ok req, w')"
  shows "\<exists>p c'. pending_record c = Some p \<and> load_context k (w_store w') = ok c' \<and>
    appr_id req = appr_id (ar_approval p) \<and> appr_action req = appr_action (ar_approval p) \<and>
    appr_status req = ApApproved \<and> task_status (rc_task c') = WaitingForApproval \<and>
    sg_approved_action (rc_state c') = Some (appr_action req) \<and> sg_approved_id (rc_state c') = Some (appr_id req) \<and>
    rc_approvals c' = resolve_in (appr_id req) \<lparr>ar_approval = req, ar_reason = Some ''approval granted''\<rparr>
      (rc_approvals c) \<and>
    map ev_type (rc_events c') = map ev_type (rc_events c) @ [ApprovalGranted]"
proof -
  note fields = load_context_fields [OF assms(1,2)]
  have recon: "reconstruct k w = (ok c, w)" by (simp add: reconstruct_ok assms(1))
  obtain p where p: "pending_record c = Some p"
    using assms(3) recon by (cases "pending_record c") (auto simp: approve_def seq_ok throw_def)
  note pend = pending_record_ok [OF assms(1,2) p]
  let ?time = "env_clock E (w_clock w)"
  let ?w = "w\<lparr>w_clock := Suc (w_clock w)\<rparr>"
  let ?req = "(ar_approval p)\<lparr>appr_status := ApApproved, appr_resolved := Some ?time\<rparr>"
  let ?sg = "(rc_state c)\<lparr>sg_approved_action := Some (appr_action ?req), sg_approved_id := Some (appr_id ?req)\<rparr>"
  let ?r = "\<lparr>ar_approval = ?req, ar_reason = Some ''approval granted''\<rparr>"
  let ?ds = "[draft ApprovalGranted [(''approval_id'', JStr (uuid_text (appr_id ?req)))]]"
  let ?opts = "no_options\<lparr>co_update := Some ?r\<rparr>"
  from assms(3) obtain current ic where current: "context_record c = ok current"
    and commit: "commit_iteration E current (rc_task c) ?sg ?ds ?opts ?w = (ok ic, w')" and req: "req = ?req"
    by (auto simp: approve_def seq_ok recon p now_def Let_def lift_result_def ret_def)
  have stored: "st_approvals (w_store w') = AList.update (appr_id (ar_approval p)) ?r (st_approvals (w_store w))"
    using commit_approvals [OF commit] by (simp add: no_options_def put_approval_def)
  have list: "approval_list k (w_store w') = resolve_in (appr_id (ar_approval p)) ?r (approval_list k (w_store w))"
    unfolding resolve_in_def
    by (rule approval_list_update [OF _ pend(3) stored]) (use assms(2) in \<open>simp_all add: store_ok_def\<close>)
  have "approvals_consistent WaitingForApproval ?sg (approval_list k (w_store w'))"
    unfolding list using pend(1) fields(1) assms(2)
    by (intro approved_consistent approval_list_distinct) (simp_all add: store_ok_def)
  note ok = this
  obtain c' where "load_context k (w_store w') = ok c'" and "task_status (rc_task c') = WaitingForApproval"
    and "rc_state c' = ?sg" and "rc_approvals c' = approval_list k (w_store w')"
    and "map ev_type (rc_events c') = map ev_type (rc_events c) @ [ApprovalGranted]"
  proof (rule commit_reload [OF _ _ current _ commit])
    show "load_context k (w_store ?w) = ok c" "store_ok (w_store ?w)" using assms by simp_all
    show "rc_task c = (rc_task c)\<lparr>task_status := WaitingForApproval\<rparr>" using pend(5) by simp
    show "(case co_cancel ?opts of None \<Rightarrow> rc_cancel c | Some b \<Rightarrow> b) = (WaitingForApproval = Cancelled)"
      using fields(4) pend(5) by (simp add: no_options_def)
    show "requires_checkpoint WaitingForApproval (rc_observation c) \<longrightarrow> rc_checkpoint c \<noteq> None"
      using fields(5) pend(5) by simp
  qed (use ok that in \<open>simp_all add: no_options_def\<close>)
  then show ?thesis
    using p fields(1) list by (simp add: req)
qed

lemma waiting_loads: "is_ok (load_context 7 (w_store waiting_world))"
  by code_simp

lemma waiting_numbers:
  "contiguous record_number (map (event_record_for sum_env) waiting_events)"
  "\<forall>r \<in> set (map (event_record_for sum_env) waiting_events). record_owner r = 7"
  by code_simp+

lemma waiting_store_ok: "store_ok (w_store waiting_world)"
proof -
  have ids: "distinct (event_ids (w_store waiting_world))" by code_simp
  have cp: "checkpoint_number sample_checkpoint = 4" "cm_task (cp_meta sample_checkpoint) = 7"
      "cm_sim_version (cp_meta sample_checkpoint) = 1"
    by (simp_all add: checkpoint_number_def sample_checkpoint_def)
  show ?thesis
    using ids waiting_numbers cp
    by (auto simp: store_ok_def tasks_ok_def events_ok_def approvals_ok_def checkpoints_ok_def
      repository_list_def event_list_def stream_of_def waiting_world_def sample_task_def sample_approval_def
      contiguous_def)
qed

theorem approve_authorises_witness:
  "\<exists>c'. load_context 7 (w_store (snd (approve sum_env 7 waiting_world))) = ok c' \<and>
     task_status (rc_task c') = WaitingForApproval \<and> map ev_type (rc_events c') \<noteq> []"
proof -
  have "is_ok (fst (approve sum_env 7 waiting_world))" by code_simp
  then obtain req w' where run: "approve sum_env 7 waiting_world = (ok req, w')"
    by (cases "approve sum_env 7 waiting_world") (auto simp: is_ok_iff)
  from waiting_loads obtain c where "load_context 7 (w_store waiting_world) = ok c" by (auto simp: is_ok_iff)
  from approve_authorises [OF this waiting_store_ok run] run show ?thesis by auto
qed

text \<open>
  Denying blocks the task for good: with one request pending, a denial that returns leaves a task that
  loads again, is blocked, has no pending request, and whose history ends with the denial and the block.
\<close>

theorem deny_blocks:
  assumes "load_context k (w_store w) = ok c" and "store_ok (w_store w)" and "deny E k w = (ok req, w')"
    and "filter is_pending (rc_approvals c) = [p]" and "\<forall>cp. rc_checkpoint c = Some cp \<longrightarrow> tick_recorded cp"
  shows "\<exists>c'. load_context k (w_store w') = ok c' \<and> task_status (rc_task c') = Blocked \<and>
    pending_record c' = None \<and> rc_state c' = rc_state c \<and>
    rc_approvals c' = resolve_in (appr_id req) \<lparr>ar_approval = req, ar_reason = Some ''approval denied''\<rparr>
      (rc_approvals c) \<and>
    map ev_type (rc_events c') = map ev_type (rc_events c) @ [ApprovalDenied, TaskBlocked]"
proof -
  note fields = load_context_fields [OF assms(1,2)]
  have recon: "reconstruct k w = (ok c, w)" by (simp add: reconstruct_ok assms(1))
  have p: "pending_record c = Some p"
  proof -
    have "pending_record c = Some q \<Longrightarrow> q \<in> set (filter is_pending (rc_approvals c))" for q
      by (auto simp: pending_record_def find_Some_iff)
    moreover have "p \<in> set (filter is_pending (rc_approvals c))" unfolding assms(4) by simp
    then have "pending_record c \<noteq> None" by (auto simp: pending_record_def find_None_iff)
    ultimately show ?thesis unfolding assms(4) by auto
  qed
  note pend = pending_record_ok [OF assms(1,2) p]
  let ?w = "w\<lparr>w_clock := Suc (w_clock w)\<rparr>"
  let ?req = "(ar_approval p)\<lparr>appr_status := ApDenied, appr_resolved := Some (env_clock E (w_clock w))\<rparr>"
  let ?r = "\<lparr>ar_approval = ?req, ar_reason = Some ''approval denied''\<rparr>"
  let ?ds = "[draft ApprovalDenied [(''approval_id'', JStr (uuid_text (appr_id ?req)))],
     draft TaskBlocked (reason_payload ''approval denied'')]"
  let ?opts = "no_options\<lparr>co_update := Some ?r, co_snapshot := copy_checkpoint_for_terminal (rc_checkpoint c)\<rparr>"
  from assms(3) obtain current ic where current: "context_record c = ok current"
    and commit: "commit_iteration E current ((rc_task c)\<lparr>task_status := Blocked\<rparr>) (rc_state c) ?ds ?opts ?w = (ok ic, w')"
    and req: "req = ?req"
    by (auto simp: deny_def seq_ok recon p now_def Let_def lift_result_def ret_def with_status_ok_iff)
  have stored: "st_approvals (w_store w') = AList.update (appr_id (ar_approval p)) ?r (st_approvals (w_store w))"
    using commit_approvals [OF commit] by (simp add: no_options_def put_approval_def)
  have list: "approval_list k (w_store w') = resolve_in (appr_id (ar_approval p)) ?r (approval_list k (w_store w))"
    unfolding resolve_in_def
    by (rule approval_list_update [OF _ pend(3) stored]) (use assms(2) in \<open>simp_all add: store_ok_def\<close>)
  have ok: "approvals_consistent Blocked (rc_state c) (approval_list k (w_store w'))"
    unfolding list using fields assms(2,4) pend(5)
    by (intro denied_consistent approval_list_distinct) (simp_all add: store_ok_def)
  obtain c' where "load_context k (w_store w') = ok c'" and "task_status (rc_task c') = Blocked"
    and "rc_state c' = rc_state c" and "rc_approvals c' = approval_list k (w_store w')"
    and "map ev_type (rc_events c') = map ev_type (rc_events c) @ [ApprovalDenied, TaskBlocked]"
  proof (rule commit_reload [OF _ _ current _ commit])
    show "load_context k (w_store ?w) = ok c" "store_ok (w_store ?w)" using assms by simp_all
    show "(rc_task c)\<lparr>task_status := Blocked\<rparr> = (rc_task c)\<lparr>task_status := Blocked\<rparr>" ..
    show "(case co_cancel ?opts of None \<Rightarrow> rc_cancel c | Some b \<Rightarrow> b) = (Blocked = Cancelled)"
      using fields(4) pend(5) by (simp add: no_options_def)
    show "requires_checkpoint Blocked (rc_observation c) \<longrightarrow> rc_checkpoint c \<noteq> None"
      using fields(5) pend(5) by (simp add: requires_checkpoint_def)
  qed (use ok assms(5) that in \<open>simp_all add: no_options_def\<close>)
  moreover have "filter is_pending (approval_list k (w_store w')) = []"
    using ok by (auto simp: approvals_consistent_def)
  ultimately show ?thesis
    using fields(1) list by (auto simp: req pending_record_def find_None_iff filter_empty_conv)
qed

theorem deny_blocks_witness:
  "\<exists>c'. load_context 7 (w_store (snd (deny sum_env 7 waiting_world))) = ok c' \<and> task_status (rc_task c') = Blocked"
proof -
  have "is_ok (fst (deny sum_env 7 waiting_world))" by code_simp
  then obtain req w' where run: "deny sum_env 7 waiting_world = (ok req, w')"
    by (cases "deny sum_env 7 waiting_world") (auto simp: is_ok_iff)
  from waiting_loads obtain c where c: "load_context 7 (w_store waiting_world) = ok c" by (auto simp: is_ok_iff)
  then have "rc_approvals c = [sample_approval]" "rc_checkpoint c = Some sample_checkpoint"
    by (auto simp: load_context_ok waiting_world_def approval_list_def checkpoint_latest_def stream_of_def
      last_opt_def sample_approval_def)
  then show ?thesis
    using deny_blocks [OF c waiting_store_ok run, of sample_approval] run
    by (auto simp: sample_approval_def is_pending_def tick_recorded_def sample_checkpoint_def
      sample_observation_def)
qed

section \<open>Cancelling\<close>

text \<open>
  C28. Cancelling strands a task that waits for approval: a task that is cancelled while it is not terminal
  loads again, as cancelled, exactly when no approval was pending. The pending request is not resolved, and
  the reconstructor refuses a pending request on a task that does not wait.
\<close>

theorem cancel_reloads_iff:
  assumes "load_context k (w_store w) = ok c" and "store_ok (w_store w)" and "cancel E k w = (ok u, w')"
    and "\<not> is_terminal (task_status (rc_task c))" and "\<forall>cp. rc_checkpoint c = Some cp \<longrightarrow> tick_recorded cp"
  shows "((\<exists>c'. load_context k (w_store w') = ok c' \<and> task_status (rc_task c') = Cancelled) \<longleftrightarrow>
      pending_record c = None) \<and>
    (is_ok (load_context k (w_store w')) \<longleftrightarrow> pending_record c = None)"
proof -
  note fields = load_context_fields [OF assms(1,2)]
  have recon: "reconstruct k w = (ok c, w)" by (simp add: reconstruct_ok assms(1))
  let ?t = "(rc_task c)\<lparr>task_status := Cancelled\<rparr>"
  let ?ds = "[draft TaskCancelled (reason_payload ''cancellation requested'')]"
  let ?opts = "no_options\<lparr>co_cancel := Some True, co_snapshot := copy_checkpoint_for_terminal (rc_checkpoint c)\<rparr>"
  from assms(3,4) obtain current ic where current: "context_record c = ok current"
    and commit: "commit_iteration E current ?t (rc_state c) ?ds ?opts w = (ok ic, w')"
    by (auto simp: cancel_def seq_ok recon lift_result_def ret_def with_status_ok_iff)
  have "st_approvals (w_store w') = st_approvals (w_store w)"
    using commit_approvals [OF commit] by (simp add: no_options_def put_approval_def)
  then have list: "approval_list k (w_store w') = rc_approvals c"
    using fields(1) by (simp add: approval_list_def)
  have none: "pending_record c = None \<longleftrightarrow> filter is_pending (rc_approvals c) = []"
    by (auto simp: pending_record_def find_None_iff filter_empty_conv)
  have status: "task_status (rc_task c') = Cancelled" if "load_context k (w_store w') = ok c'" for c'
  proof -
    from commit obtain time cp where "commit_body (committed_record current ?t (rc_state c) ?ds ?opts time)
        (map (event_record_for E) (number_events (task_id ?t) (task_seq (tr_task current)) time ?ds))
        (co_create ?opts) (co_update ?opts) cp (w_store w) = (ok (), w_store w')"
      by (rule commit_iteration_ok)
    from commit_body_ok(1) [OF this] fields(2) that show ?thesis
      by (auto simp: load_context_ok committed_record_def dict_set_get)
  qed
  have stays: "\<exists>c'. load_context k (w_store w') = ok c'" if "pending_record c = None"
  proof (rule commit_reload [OF assms(1,2) current refl commit])
    show "approvals_consistent Cancelled (rc_state c) (approval_list k (w_store w'))"
      using fields(3) that none list by (auto simp: approvals_consistent_def)
    show "\<forall>cp. co_snapshot ?opts \<noteq> None \<longrightarrow> rc_checkpoint c = Some cp \<longrightarrow> tick_recorded cp"
      using assms(5) by simp
  qed (auto simp: no_options_def requires_checkpoint_def)
  have strands: "pending_record c = None" if "load_context k (w_store w') = ok c'" for c'
  proof -
    have "store_ok (w_store w')"
      using maintains_snd [OF integrity.cancel_maintains, of w E k] assms(2,3) by simp
    from load_context_fields(1,3) [OF that this] status [OF that] list none show ?thesis
      by (simp add: approvals_consistent_def)
  qed
  show ?thesis using stays strands status by (auto simp: is_ok_iff)
qed

theorem cancel_reloads_iff_witness:
  "\<not> is_ok (load_context 7 (w_store (snd (cancel sum_env 7 waiting_world))))"
proof -
  have "is_ok (fst (cancel sum_env 7 waiting_world))" by code_simp
  then obtain u w' where run: "cancel sum_env 7 waiting_world = (ok u, w')"
    by (cases "cancel sum_env 7 waiting_world") (auto simp: is_ok_iff)
  from waiting_loads obtain c where c: "load_context 7 (w_store waiting_world) = ok c" by (auto simp: is_ok_iff)
  then have "pending_record c \<noteq> None" "rc_checkpoint c = Some sample_checkpoint"
      "task_status (rc_task c) = WaitingForApproval"
    by (auto simp: load_context_ok waiting_world_def approval_list_def checkpoint_latest_def stream_of_def
      last_opt_def sample_approval_def pending_record_def is_pending_def)
  then show ?thesis
    using cancel_reloads_iff [OF c waiting_store_ok run] run
    by (auto simp: tick_recorded_def sample_checkpoint_def sample_observation_def is_terminal_def)
qed

end
