(* ===== verification/Authority.thy ===== *)
theory Authority
  imports Commits
begin

text \<open>
  What a run may do to the simulation. \<open>divert B g E\<close> is the environment \<open>E\<close> in which executing an action
  \<open>a\<close> in an adapter state \<open>s\<close> with \<open>B a s\<close> does \<open>g\<close> instead. If \<open>B\<close> is what the task does not authorise,
  the loop cannot tell the two apart: no such execution ever happens. What is authorised is stated without
  the policy engine: the adapter has just validated this action, the quote is valid, and the specification
  permits the action at the quoted cost. The proof follows the loop with the invariant that the task's
  specification stays and that an approved action is only ever cleared, and follows the adapter state from
  the validation to the execution.
\<close>

definition divert ::
  "(action \<Rightarrow> 'a \<Rightarrow> bool) \<Rightarrow> (action \<Rightarrow> 'a \<Rightarrow> (exn, execution_result) result \<times> 'a) \<Rightarrow> ('a, 'p) env \<Rightarrow>
   ('a, 'p) env" where
  "divert B g E = E\<lparr>env_adapter := (env_adapter E)
     \<lparr>adp_execute := \<lambda>a s. if B a s then g a s else adp_execute (env_adapter E) a s\<rparr>\<rparr>"

text \<open>
  An action with a quote that may be executed: the quote is valid, neither the forbidden list nor a
  constraint rules the action's type out, and it is the approved action, or it needs no approval, neither
  for its type nor for the cost of this one action.
\<close>

definition quote_authorised :: "task_specification \<Rightarrow> action option \<Rightarrow> action \<Rightarrow> adapter_validation \<Rightarrow> bool" where
  "quote_authorised S approved a av \<longleftrightarrow> av_valid av \<and>
     act_type a \<notin> set (forbidden_actions (spec_authority S)) \<and>
     (\<forall>c \<in> set (spec_constraints S). con_type c = ForbiddenAction \<longrightarrow>
        as_str (jget (con_parameters c) ''action'') \<noteq> Some (act_type a)) \<and>
     (\<forall>c \<in> set (spec_constraints S). con_type c = AllowedAction \<longrightarrow>
        (case string_items (jget (con_parameters c) ''actions'') of
           Some listed \<Rightarrow> act_type a \<in> set listed
         | None \<Rightarrow> as_str (jget (con_parameters c) ''action'') \<in> {None, Some (act_type a)})) \<and>
     (approved = Some a \<or>
      act_type a \<notin> set (approval_actions (spec_authority S)) \<and>
      (\<forall>m. maximum_single_spend (spec_authority S) = Some m \<longrightarrow> repr_dec (av_cost av) \<le> m))"

text \<open>The adapter is not in a state that a validation of this action with such a quote has just left.\<close>

definition unauthorised ::
  "('a, 'p) env \<Rightarrow> task_specification \<Rightarrow> action option \<Rightarrow> action \<Rightarrow> 'a \<Rightarrow> bool" where
  "unauthorised E S approved a s \<longleftrightarrow>
     \<not> (\<exists>s0 av. adp_validate (env_adapter E) a s0 = (ok av, s) \<and> quote_authorised S approved a av)"

section \<open>What does not execute is the same\<close>

named_theorems divert_simps "programs that do not depend on the execution"

lemma divert_fields [divert_simps]:
  "env_clock (divert B g E) = env_clock E" "env_uuid5 (divert B g E) = env_uuid5 E"
  "env_sha (divert B g E) = env_sha E" "env_config (divert B g E) = env_config E"
  "env_decide (divert B g E) = env_decide E" "env_cancelled (divert B g E) = env_cancelled E"
  "env_crash (divert B g E) = env_crash E"
  "adp_fresh (env_adapter (divert B g E)) = adp_fresh (env_adapter E)"
  "adp_type (env_adapter (divert B g E)) = adp_type (env_adapter E)"
  "adp_observe (env_adapter (divert B g E)) = adp_observe (env_adapter E)"
  "adp_available (env_adapter (divert B g E)) = adp_available (env_adapter E)"
  "adp_validate (env_adapter (divert B g E)) = adp_validate (env_adapter E)"
  "adp_snapshot (env_adapter (divert B g E)) = adp_snapshot (env_adapter E)"
  "adp_execute (env_adapter (divert B g E)) a = (\<lambda>s. if B a s then g a s else adp_execute (env_adapter E) a s)"
  by (simp_all add: divert_def)

lemma divert_world [divert_simps]:
  "now (divert B g E) = now E" "ask_provider (divert B g E) = ask_provider E"
  "cancellation_check (divert B g E) = cancellation_check E" "crash (divert B g E) = crash E"
  "event_record_for (divert B g E) = event_record_for E" "make_checkpoint (divert B g E) = make_checkpoint E"
  "adapter_snapshot (divert B g E) = adapter_snapshot E" "attempt_id (divert B g E) = attempt_id E"
  unfolding now_def [abs_def] ask_provider_def [abs_def] cancellation_check_def [abs_def]
    crash_def [abs_def] event_record_for_def [abs_def] make_checkpoint_def [abs_def]
    adapter_snapshot_def [abs_def] attempt_id_def [abs_def] divert_simps
  by (rule refl)+

lemma divert_observe [divert_simps]: "observe (divert B g E) = observe E"
  unfolding observe_def [abs_def] divert_simps
  by (rule refl)+

lemma divert_commit [divert_simps]: "commit_iteration (divert B g E) = commit_iteration E"
  unfolding commit_iteration_def [abs_def] divert_simps
  by (rule refl)+

lemma divert_commits [divert_simps]:
  "commit_with_drafts (divert B g E) = commit_with_drafts E"
  "commit_terminal (divert B g E) = commit_terminal E"
  unfolding commit_with_drafts_def [abs_def] commit_terminal_def [abs_def] divert_simps
  by (rule refl)+

lemma divert_frames [divert_simps]:
  "commit_frame (divert B g E) = commit_frame E" "observe_frame (divert B g E) = observe_frame E"
  "prepared_payload (divert B g E) = prepared_payload E" "snapshot_frame (divert B g E) = snapshot_frame E"
  unfolding commit_frame_def [abs_def] observe_frame_def [abs_def] prepared_payload_def [abs_def]
    snapshot_frame_def [abs_def] divert_simps
  by (rule refl)+

lemma divert_commit_drafts [divert_simps]: "commit_drafts (divert B g E) = commit_drafts E"
  unfolding commit_drafts_def [abs_def] divert_simps
  by (rule refl)+

lemma divert_action [divert_simps]:
  "prepare_action (divert B g E) = prepare_action E" "finish_action (divert B g E) = finish_action E"
  unfolding prepare_action_def [abs_def] finish_action_def [abs_def] divert_simps
  by (rule refl)+

lemma divert_stop [divert_simps]: "stop_task (divert B g E) = stop_task E"
  unfolding stop_task_def [abs_def] divert_simps
  by (rule refl)+

lemma divert_endings [divert_simps]:
  "block_task (divert B g E) = block_task E" "commit_or_block (divert B g E) = commit_or_block E"
  unfolding block_task_def [abs_def] commit_or_block_def [abs_def] divert_simps
  by (rule refl)+

lemma divert_stages [divert_simps]:
  "check_cancelled (divert B g E) = check_cancelled E" "check_iterations (divert B g E) = check_iterations E"
  "evaluate_stage (divert B g E) = evaluate_stage E" "ask_decision (divert B g E) = ask_decision E"
  "provider_failed (divert B g E) = provider_failed E" "false_completion (divert B g E) = false_completion E"
  "wait_iteration (divert B g E) = wait_iteration E" "repetition_stage (divert B g E) = repetition_stage E"
  "reject_action (divert B g E) = reject_action E" "request_approval (divert B g E) = request_approval E"
  "iteration_failed (divert B g E) = iteration_failed E"
  unfolding check_cancelled_def [abs_def] check_iterations_def [abs_def] evaluate_stage_def [abs_def]
    ask_decision_def [abs_def] provider_failed_def [abs_def] false_completion_def [abs_def]
    wait_iteration_def [abs_def] repetition_stage_def [abs_def] reject_action_def [abs_def]
    request_approval_def [abs_def] iteration_failed_def [abs_def] divert_simps
  by (rule refl)+

lemma divert_decide [divert_simps]: "decide_stage (divert B g E) = decide_stage E"
  unfolding decide_stage_def [abs_def] divert_simps
  by (rule refl)+

section \<open>The authority of a frame\<close>

definition authority_inv :: "task_specification \<Rightarrow> action option \<Rightarrow> ('a, 'p) frame \<Rightarrow> bool" where
  "authority_inv S A fr \<longleftrightarrow> task_spec (tr_task (fr_current fr)) = S \<and>
     (sg_approved_action (fr_sg fr) = None \<or> sg_approved_action (fr_sg fr) = A)"

text \<open>\<open>yields I m Q\<close>: from \<open>I\<close>, \<open>m\<close> stays in \<open>I\<close>, and a value that it returns is in \<open>Q\<close>.\<close>

definition yields :: "(('a, 'p) frame \<Rightarrow> bool) \<Rightarrow> ('a, 'p, 'x) local_run \<Rightarrow> ('x \<Rightarrow> bool) \<Rightarrow> bool" where
  "yields I m Q \<longleftrightarrow> preserves I m \<and> (\<forall>fr x fr'. I fr \<longrightarrow> m fr = (ok x, fr') \<longrightarrow> Q x)"

lemma yieldsD: "yields I m Q \<Longrightarrow> I fr \<Longrightarrow> m fr = (ok x, fr') \<Longrightarrow> Q x \<and> I fr'"
  unfolding yields_def using preservesD by blast

lemma yields_seq:
  assumes "yields I m Q" and "\<And>a. Q a \<Longrightarrow> yields I (f a) R"
  shows "yields I (seq m f) R"
proof -
  have "I (snd (seq m f fr)) \<and> (\<forall>x fr'. seq m f fr = (ok x, fr') \<longrightarrow> R x)" if "I fr" for fr
  proof (cases "m fr")
    case (Pair r fr1)
    show ?thesis
    proof (cases r)
      case (Inl e)
      with Pair assms(1) that show ?thesis
        by (auto simp: seq_def yields_def preserves_def)
    next
      case (Inr a)
      with Pair yieldsD [OF assms(1) that] have "Q a" "I fr1" by auto
      with assms(2) [OF \<open>Q a\<close>] Pair Inr show ?thesis
        by (auto simp: seq_def yields_def preserves_def)
    qed
  qed
  then show ?thesis by (auto simp: yields_def preserves_def)
qed

lemma preserves_seq_value: "yields I m Q \<Longrightarrow> (\<And>a. Q a \<Longrightarrow> preserves I (f a)) \<Longrightarrow> preserves I (seq m f)"
  using yields_seq [of I m Q f "\<lambda>_. True"] by (simp add: yields_def)

lemma yields_gets: "yields I (gets f) (\<lambda>a. \<exists>fr. I fr \<and> a = f fr)"
  by (auto simp: yields_def preserves_def gets_def)

lemma yields_lift_result: "yields I (lift_result r) (\<lambda>a. r = ok a)"
  by (auto simp: yields_def preserves_def lift_result_def)

lemma yields_ret: "Q a \<Longrightarrow> yields I (ret a) Q"
  by (simp add: yields_def preserves_def ret_def)

lemma yields_any: "preserves I m \<Longrightarrow> yields I m (\<lambda>_. True)"
  by (simp add: yields_def)

lemma yields_if: "yields I m Q \<Longrightarrow> yields I m' Q \<Longrightarrow> yields I (if b then m else m') Q"
  by simp

lemma preserves_case_prod_value:
  "(\<And>a b. p = (a, b) \<Longrightarrow> preserves I (f a b)) \<Longrightarrow> preserves I (case p of (a, b) \<Rightarrow> f a b)"
  by (cases p) simp

text \<open>How a value is followed: the first rule that applies.\<close>

lemmas value_rules = preserves_seq_value yields_gets yields_lift_result

lemma authority_lift [preserve_rules]: "preserves (authority_inv S A) (lift_run m)"
  by (auto simp: preserves_def lift_run_def authority_inv_def split: prod.splits)

lemma authority_modifies [preserve_rules]:
  "modify_keeps (authority_inv S A) (\<lambda>fr. fr\<lparr>fr_reason := a, fr_active := b, fr_terminal := c\<rparr>)"
  "modify_keeps (authority_inv S A) (\<lambda>fr. fr\<lparr>fr_active := b\<rparr>)"
  "modify_keeps (authority_inv S A) (\<lambda>fr. fr\<lparr>fr_reason := r\<rparr>)"
  "modify_keeps (authority_inv S A) (\<lambda>fr. fr\<lparr>fr_drafts := ds\<rparr>)"
  "modify_keeps (authority_inv S A) (\<lambda>fr. fr\<lparr>fr_observation := ob\<rparr>)"
  "modify_keeps (authority_inv S A) (\<lambda>fr. fr\<lparr>fr_drafts := fr_drafts fr @ [d]\<rparr>)"
  "modify_keeps (authority_inv S A) (\<lambda>fr. fr\<lparr>fr_committed := fr_committed fr + 1\<rparr>)"
  by (simp_all add: modify_keeps_def authority_inv_def)

lemma authority_current: "task_spec (tr_task r) = S \<Longrightarrow> modify_keeps (authority_inv S A) (\<lambda>fr. fr\<lparr>fr_current := r\<rparr>)"
  by (simp add: modify_keeps_def authority_inv_def)

lemma authority_basic [preserve_rules]:
  "preserves (authority_inv S A) (add_draft d)" "preserves (authority_inv S A) (set_reason r)"
  "preserves (authority_inv S A) (append_drafts ds)" "preserves (authority_inv S A) (observe_frame E)"
  "preserves (authority_inv S A) (snapshot_frame E)" "preserves (authority_inv S A) count_iteration"
  "preserves (authority_inv S A) (update_sg count_rejection)"
  "preserves (authority_inv S A) (update_sg (note_state fp))"
  "preserves (authority_inv S A) (update_sg (note_action fp b))"
  by (auto simp: add_draft_def set_reason_def observe_frame_def snapshot_frame_def intro!: preserve_rules)
    (simp_all add: preserves_def append_drafts_def count_iteration_def update_sg_def modify_def authority_inv_def
      count_rejection_def note_state_def note_action_def)

text \<open>A commit of a task with the specification returns a record with it.\<close>

lemma yields_commit:
  assumes "task_spec t = S"
  shows "yields (authority_inv S A) (lift_run (commit_iteration E current t sg ds opts))
    (\<lambda>c. task_spec (tr_task (ic_record c)) = S)"
  unfolding yields_def
proof (intro conjI allI impI authority_lift)
  fix fr :: "('a, 'b) frame" and c fr'
  assume "lift_run (commit_iteration E current t sg ds opts) fr = (ok c, fr')"
  then obtain w' where "commit_iteration E current t sg ds opts (fr_world fr) = (ok c, w')"
    by (auto simp: lift_run_def split: prod.splits)
  then show "task_spec (tr_task (ic_record c)) = S"
    using assms by (elim commit_iteration_ok) (simp add: committed_record_def)
qed

lemma yields_commit_drafts:
  assumes "task_spec t = S"
  shows "yields (authority_inv S A) (lift_run (commit_with_drafts E current t sg ds snap))
    (\<lambda>r. task_spec (tr_task r) = S)"
  unfolding yields_def
proof (intro conjI allI impI authority_lift)
  fix fr :: "('a, 'b) frame" and r fr'
  assume "lift_run (commit_with_drafts E current t sg ds snap) fr = (ok r, fr')"
  then obtain w' c where "commit_iteration E current t sg ds (no_options\<lparr>co_snapshot := snap\<rparr>) (fr_world fr) = (ok c, w')"
      and "r = ic_record c"
    by (auto simp: lift_run_def commit_with_drafts_def seq_ok ret_def split: prod.splits)
  then show "task_spec (tr_task r) = S"
    using assms by (elim commit_iteration_ok) (simp add: committed_record_def)
qed

lemma authority_commit_frame: "task_spec t = S \<Longrightarrow> preserves (authority_inv S A) (commit_frame E t ds snap)"
  unfolding commit_frame_def
  by (intro preserves_seq_value [OF yields_gets] preserves_case_prod_value
      preserves_seq_value [OF yields_commit_drafts] preserves_modify authority_current)

lemma authority_commit_drafts: "task_spec t = S \<Longrightarrow> preserves (authority_inv S A) (commit_drafts E t snap)"
  unfolding commit_drafts_def by (intro preserve_rules authority_commit_frame)

section \<open>The stages keep the authority\<close>

lemma yields_commit_terminal:
  assumes "task_spec (tr_task current) = S"
  shows "yields (authority_inv S A) (lift_run (commit_terminal E current sg ob st reason prefix))
    (\<lambda>p. task_spec (tr_task (fst p)) = S)"
  unfolding yields_def
proof (intro conjI allI impI authority_lift)
  fix fr :: "('a, 'b) frame" and p fr'
  assume "lift_run (commit_terminal E current sg ob st reason prefix) fr = (ok p, fr')"
  then obtain t ds snap w1 w' c where "with_status (tr_task current) st = ok t"
      and "commit_iteration E current t sg ds (no_options\<lparr>co_snapshot := snap\<rparr>) w1 = (ok c, w')"
      and "fst p = ic_record c"
    by (auto simp: lift_run_def commit_terminal_def commit_with_drafts_def seq_ok throw_def lift_result_def ret_def
      split: prod.splits option.splits)
  then show "task_spec (tr_task (fst p)) = S"
    using assms by (elim commit_iteration_ok) (simp add: committed_record_def with_status_ok_iff)
qed

lemmas seq_value_rules = preserves_seq_value [OF yields_gets] preserves_seq_value [OF yields_lift_result]

lemma authority_stop_task [preserve_rules]: "preserves (authority_inv S A) (stop_task E ds st reason)"
  unfolding stop_task_def
  by (rule seq_value_rules preserve_rules authority_commit_drafts | (auto simp: authority_inv_def with_status_ok_iff)[1])+

lemma authority_block_task [preserve_rules]: "preserves (authority_inv S A) (block_task E reason)"
  unfolding block_task_def by (rule preserve_rules)

lemma authority_commit_or_block [preserve_rules]: "preserves (authority_inv S A) (commit_or_block E b reason refresh)"
  unfolding commit_or_block_def
proof (rule preserves_seq_value [OF yields_gets])
  fix t assume t: "\<exists>fr. authority_inv S A fr \<and> t = tr_task (fr_current fr)"
  let ?Q = "\<lambda>p. task_spec (fst p) = S"
  have blocked: "yields (authority_inv S A) (seq (append_drafts [draft TaskBlocked (reason_payload reason)]) (\<lambda>_.
      seq (lift_result (with_status t Blocked)) (\<lambda>t'. seq (snapshot_frame E) (\<lambda>snap. ret (t', Some snap))))) ?Q"
    using t
    by (intro yields_seq [OF yields_any [OF authority_basic(3)]] yields_seq [OF yields_lift_result]
        yields_seq [OF yields_any [OF authority_basic(5)]] yields_ret)
      (auto simp: with_status_ok_iff authority_inv_def)
  have goes_on: "yields (authority_inv S A) (seq (if refresh then seq (snapshot_frame E) (\<lambda>snap. ret (Some snap)) else ret None)
      (\<lambda>snap. ret (t, snap))) ?Q"
    using t
    by (intro yields_seq [OF yields_any] yields_ret preserve_rules) (auto simp: authority_inv_def)
  show "preserves (authority_inv S A)
     (seq (if b then
            seq (append_drafts [draft TaskBlocked (reason_payload reason)]) (\<lambda>_.
            seq (lift_result (with_status t Blocked)) (\<lambda>t'.
            seq (snapshot_frame E) (\<lambda>snap. ret (t', Some snap))))
          else seq (if refresh then seq (snapshot_frame E) (\<lambda>snap. ret (Some snap)) else ret None)
            (\<lambda>snap. ret (t, snap))) (\<lambda>(t', snap).
     seq (commit_drafts E t' snap) (\<lambda>_.
     seq (modify (\<lambda>fr. fr\<lparr>fr_committed := fr_committed fr + 1\<rparr>)) (\<lambda>_.
     ret (if b then Break else Continue)))))"
    by (rule preserves_seq_value [OF yields_if [OF blocked goes_on]])
      (intro preserves_case_prod_value preserve_rules authority_commit_drafts, simp)
qed

lemma authority_checks [preserve_rules]:
  "preserves (authority_inv S A) (check_budget budget)" "preserves (authority_inv S A) (check_cancelled E)"
  "preserves (authority_inv S A) (check_iterations E)" "preserves (authority_inv S A) (evaluate_stage E)"
  unfolding check_budget_def check_cancelled_def check_iterations_def evaluate_stage_def
  by (rule seq_value_rules preserves_seq_value [OF yields_commit] preserves_seq_value [OF yields_commit_terminal]
      preserves_case_prod_value preserve_rules authority_current
    | (auto simp: authority_inv_def with_status_ok_iff)[1])+

lemma authority_decisions [preserve_rules]:
  "preserves (authority_inv S A) (ask_decision E v)" "preserves (authority_inv S A) (provider_failed E e)"
  "preserves (authority_inv S A) (false_completion E)" "preserves (authority_inv S A) (wait_iteration E)"
  "preserves (authority_inv S A) (repetition_stage E a b)" "preserves (authority_inv S A) (reject_action E a av p)"
  unfolding ask_decision_def provider_failed_def false_completion_def wait_iteration_def repetition_stage_def
    reject_action_def Let_def
  by (intro preserve_rules)+

lemma authority_decide [preserve_rules]: "preserves (authority_inv S A) (decide_stage E v)"
  unfolding decide_stage_def Let_def by (intro preserve_rules)

lemma authority_request [preserve_rules]: "preserves (authority_inv S A) (request_approval E a p)"
  unfolding request_approval_def Let_def
  by (rule seq_value_rules preserves_seq_value [OF yields_commit] preserves_case_prod_value preserve_rules
      authority_current
    | (auto simp: authority_inv_def with_status_ok_iff)[1])+

lemma authority_prepare [preserve_rules]: "preserves (authority_inv S A) (prepare_action E a av)"
  unfolding prepare_action_def Let_def
  by (rule seq_value_rules preserves_case_prod_value preserve_rules authority_commit_frame
    | (auto simp: authority_inv_def)[1])+

lemma authority_perform [preserve_rules]: "preserves (authority_inv S A) (perform_action E a av before)"
  unfolding perform_action_def Let_def by (intro preserve_rules)

lemma settle_authority:
  "settle_action cfg result v ob t sg = (t', sg', stop) \<Longrightarrow>
     task_spec t' = task_spec t \<and> sg_approved_action sg' = None"
  by (auto simp: settle_action_def settle_result_def Let_def clear_approval_def split: if_splits prod.splits)

lemma authority_finish [preserve_rules]: "preserves (authority_inv S A) (finish_action E k result v after)"
  unfolding finish_action_def
proof (rule preserves_seq_value [OF yields_gets], rule preserves_case_prod_value, rule preserves_case_prod_value)
  fix p t' rest sg' stop
  assume "\<exists>fr. authority_inv S A fr \<and>
      p = settle_action (env_config E) result v after (tr_task (fr_current fr)) (fr_sg fr)"
    and "p = (t', rest)" and "rest = (sg', stop)"
  then have t': "task_spec t' = S" and sg': "sg_approved_action sg' = None"
    using settle_authority by (auto simp: authority_inv_def) metis+
  have settled: "modify_keeps (authority_inv S A)
      (\<lambda>fr. fr\<lparr>fr_sg := sg', fr_reason := map_option fst stop, fr_terminal := map_option snd stop\<rparr>)"
    using sg' by (simp add: modify_keeps_def authority_inv_def)
  have ending: "yields (authority_inv S A)
      (case stop of None \<Rightarrow> ret t' | Some (_, st) \<Rightarrow> lift_result (with_status t' st)) (\<lambda>t. task_spec t = S)"
    using t' by (cases stop) (auto simp: yields_def preserves_def prog_defs with_status_ok_iff)
  show "preserves (authority_inv S A)
     (seq (modify (\<lambda>fr. fr\<lparr>fr_sg := sg', fr_reason := map_option fst stop, fr_terminal := map_option snd stop\<rparr>))
       (\<lambda>_.
     seq (case stop of None \<Rightarrow> ret t' | Some (_, st) \<Rightarrow> lift_result (with_status t' st)) (\<lambda>task_next.
     seq (add_draft (draft ActionExecutionConfirmed (action_id_payload k @
            [(''success'', JBool (res_success result)), (''verified'', JBool (ver_verified v))])))
       (\<lambda>_.
     seq (add_draft (draft ActionCheckpointCommitted (action_id_payload k))) (\<lambda>_.
     seq (case stop of None \<Rightarrow> ret ()
          | Some (reason, st) \<Rightarrow> add_draft (draft (stop_event st) (reason_payload reason))) (\<lambda>_.
     seq (if res_changed result \<or> stop \<noteq> None
          then seq (lift_run (adapter_snapshot E after)) (\<lambda>s. ret (Some s)) else ret None) (\<lambda>snap.
     seq (gets fr_drafts) (\<lambda>drafts. commit_frame E task_next drafts snap))))))))"
    by (rule preserves_seq [OF preserves_modify [OF settled]], rule preserves_seq_value [OF ending])
      (intro preserve_rules authority_commit_frame)
qed

lemma authority_execute [preserve_rules]: "preserves (authority_inv S A) (execute_stage E a av)"
  unfolding execute_stage_def execute_action_transaction_def
  by (rule seq_value_rules preserves_case_prod_value preserve_rules authority_commit_frame
    | (auto simp: authority_inv_def)[1])+

lemma authority_act [preserve_rules]: "preserves (authority_inv S A) (act_stage E a x y)"
  unfolding act_stage_def Let_def by (intro preserve_rules)

lemma authority_iteration: "preserves (authority_inv S A) (iteration E budget)"
  unfolding iteration_def by (intro preserve_rules)

section \<open>Only what is authorised is executed\<close>

definition agree :: "(('a, 'p) frame \<Rightarrow> bool) \<Rightarrow> ('a, 'p, 'x) local_run \<Rightarrow> ('a, 'p, 'x) local_run \<Rightarrow> bool" where
  "agree I m m' \<longleftrightarrow> (\<forall>fr. I fr \<longrightarrow> m fr = m' fr)"

lemma agree_same: "agree I m m"
  by (simp add: agree_def)

lemma agree_seq:
  assumes "yields I m Q" and "\<And>a. Q a \<Longrightarrow> agree I (f a) (f' a)"
  shows "agree I (seq m f) (seq m f')"
  unfolding agree_def
proof (intro allI impI)
  fix fr assume fr: "I fr"
  obtain r fr1 where m: "m fr = (r, fr1)" by (cases "m fr")
  show "seq m f fr = seq m f' fr"
    using m assms(2) yieldsD [OF assms(1) fr] by (cases r) (auto simp: seq_def agree_def)
qed

lemma agree_next_stage:
  assumes "yields I m (\<lambda>r. case r of Inl c \<Rightarrow> True | Inr x \<Rightarrow> Q x)" and "\<And>x. Q x \<Longrightarrow> agree I (f x) (f' x)"
  shows "agree I (next_stage m f) (next_stage m f')"
  unfolding next_stage_def
  by (rule agree_seq [OF assms(1)]) (auto simp: agree_same assms(2) split: sum.split)

lemma agree_first: "agree I m m' \<Longrightarrow> agree I (seq m f) (seq m' f)"
  by (simp add: agree_def seq_def)

lemma preserves_both: "preserves I m \<Longrightarrow> preserves J m \<Longrightarrow> preserves (\<lambda>fr. I fr \<and> J fr) m"
  by (simp add: preserves_def)

text \<open>The adapter's state between the validation of an action and its execution.\<close>

definition adapter_is :: "'a \<Rightarrow> ('a, 'p) frame \<Rightarrow> bool" where
  "adapter_is s fr \<longleftrightarrow> w_adapter (fr_world fr) = s"

definition keeps_adapter :: "('a, 'p, 'x) run \<Rightarrow> bool" where
  "keeps_adapter m \<longleftrightarrow> (\<forall>w. w_adapter (snd (m w)) = w_adapter w)"

lemma keeps_adapter_seq:
  "keeps_adapter m \<Longrightarrow> (\<And>a. keeps_adapter (f a)) \<Longrightarrow> keeps_adapter (seq m f)"
  unfolding keeps_adapter_def seq_def by (auto split: prod.splits sum.splits) (metis snd_conv)+

lemma keeps_adapter_basic:
  "keeps_adapter (now E)" "keeps_adapter (crash E p)" "keeps_adapter (ret x)" "keeps_adapter (throw e)"
  "keeps_adapter (lift_result r)" "keeps_adapter (on_store m)" "keeps_adapter (read_only f)"
  by (auto simp: keeps_adapter_def now_def crash_def on_store_def read_only_def prog_defs
      split: prod.splits option.splits)

lemma keeps_adapter_durable: "keeps_adapter m \<Longrightarrow> keeps_adapter (durable msg m)"
  by (auto simp: keeps_adapter_def durable_def catch_def throw_def split: prod.splits sum.splits)
    (metis snd_conv)+

lemma keeps_adapter_commit: "keeps_adapter (commit_with_drafts E current t sg ds snap)"
  unfolding commit_with_drafts_def commit_iteration_def Let_def
  by (intro keeps_adapter_seq keeps_adapter_basic)
    (auto intro!: keeps_adapter_seq keeps_adapter_basic keeps_adapter_durable split: option.splits)

lemma adapter_lift: "keeps_adapter m \<Longrightarrow> preserves (adapter_is s) (lift_run m)"
  by (auto simp: preserves_def lift_run_def adapter_is_def keeps_adapter_def split: prod.splits)
    (metis snd_conv)

lemma adapter_modifies [preserve_rules]:
  "modify_keeps (adapter_is s) (\<lambda>fr. fr\<lparr>fr_reason := a, fr_active := b, fr_terminal := c\<rparr>)"
  "modify_keeps (adapter_is s) (\<lambda>fr. fr\<lparr>fr_active := b\<rparr>)"
  "modify_keeps (adapter_is s) (\<lambda>fr. fr\<lparr>fr_drafts := ds\<rparr>)"
  "modify_keeps (adapter_is s) (\<lambda>fr. fr\<lparr>fr_drafts := fr_drafts fr @ [d]\<rparr>)"
  "modify_keeps (adapter_is s) (\<lambda>fr. fr\<lparr>fr_current := r\<rparr>)"
  by (simp_all add: modify_keeps_def adapter_is_def)

lemma adapter_steps [preserve_rules]:
  "preserves (adapter_is s) (append_drafts ds)" "preserves (adapter_is s) (add_draft d)"
  "preserves (adapter_is s) (lift_run (crash E p))" "preserves (adapter_is s) (lift_run (reconstruct k))"
  "preserves (adapter_is s) (lift_run (commit_with_drafts E current t sg ds snap))"
proof -
  show "preserves (adapter_is s) (append_drafts ds)"
    by (simp add: append_drafts_def preserves_def modify_def adapter_is_def)
  show "preserves (adapter_is s) (add_draft d)"
    unfolding add_draft_def by (intro preserve_rules)
  show "preserves (adapter_is s) (lift_run (reconstruct k))"
    unfolding reconstruct_def by (intro adapter_lift keeps_adapter_seq keeps_adapter_basic)
qed (intro adapter_lift keeps_adapter_commit keeps_adapter_basic)+

lemma adapter_prepare [preserve_rules]:
  "preserves (adapter_is s) (commit_frame E t ds snap)" "preserves (adapter_is s) (prepare_action E a av)"
  unfolding prepare_action_def commit_frame_def Let_def by (intro preserve_rules)+

lemma agree_perform:
  assumes "\<not> B a s"
  shows "agree (adapter_is s) (perform_action (divert B g E) a av before) (perform_action E a av before)"
  unfolding perform_action_def divert_simps
  by (rule agree_first) (simp add: agree_def adapter_is_def lift_run_def on_adapter_def assms)

text \<open>From a state in which the action may be executed, executing it is not diverted.\<close>

lemma agree_execute:
  assumes "\<not> B a s"
  shows "agree (adapter_is s) (execute_stage (divert B g E) a av) (execute_stage E a av)"
  unfolding execute_stage_def execute_action_transaction_def divert_simps
  by (rule agree_first)
    (intro agree_seq [OF yields_any] preserve_rules agree_first agree_perform assms agree_same)

lemma policy_authority:
  assumes "pol_allowed p" and "p = policy_evaluate S a ob spent av" and "pol_approval p \<longrightarrow> A = Some a"
  shows "quote_authorised S A a av"
proof -
  have rules: "av_valid av" "act_type a \<notin> set (forbidden_actions (spec_authority S))"
      "\<forall>c \<in> set (spec_constraints S). constraint_ok a (obs_state ob) spent (repr_dec (av_cost av)) c"
    using assms(1,2) by (simp_all add: policy_allowed_reasons policy_reasons_iff terms_ok_start list_all_iff)
  have approval: "A = Some a \<or> act_type a \<notin> set (approval_actions (spec_authority S)) \<and>
      (\<forall>m. maximum_single_spend (spec_authority S) = Some m \<longrightarrow> repr_dec (av_cost av) \<le> m)"
    using assms by (auto simp: policy_evaluate_def Let_def not_le)
  have forbidding: "as_str (jget (con_parameters c) ''action'') \<noteq> Some (act_type a)"
    if "c \<in> set (spec_constraints S)" "con_type c = ForbiddenAction" for c
    using rules(3) that by (fastforce simp: constraint_ok_def Let_def)
  have allowing: "case string_items (jget (con_parameters c) ''actions'') of
      Some listed \<Rightarrow> act_type a \<in> set listed
    | None \<Rightarrow> as_str (jget (con_parameters c) ''action'') \<in> {None, Some (act_type a)}"
    if c: "c \<in> set (spec_constraints S)" "con_type c = AllowedAction" for c
  proof -
    have "constraint_ok a (obs_state ob) spent (repr_dec (av_cost av)) c" using rules(3) c(1) by blast
    with c(2) show ?thesis
      by (cases "string_items (jget (con_parameters c) ''actions'')";
          cases "as_str (jget (con_parameters c) ''action'')") (simp_all add: constraint_ok_def Let_def)
  qed
  show ?thesis
    unfolding quote_authorised_def using rules(1,2) approval forbidding allowing by blast
qed

lemma agree_act:
  assumes B: "B = unauthorised E S A" and y: "y \<longrightarrow> A = Some a"
  shows "agree (authority_inv S A) (act_stage (divert B g E) a x y) (act_stage E a x y)"
proof -
  have chosen: "agree (\<lambda>fr. authority_inv S A fr \<and> adapter_is s fr)
     (seq (gets (\<lambda>fr. (tr_task (fr_current fr), fr_observation fr))) (\<lambda>(t, ob).
      let policy = policy_evaluate (task_spec t) a ob (task_spend t) av in
      seq (append_drafts [draft PolicyValidated (dump_policy policy)]) (\<lambda>_.
       if \<not> pol_allowed policy then reject_action E a av policy
       else if (pol_approval policy \<or> x) \<and> \<not> y then request_approval E a policy
       else execute_stage (divert B g E) a av)))
     (seq (gets (\<lambda>fr. (tr_task (fr_current fr), fr_observation fr))) (\<lambda>(t, ob).
      let policy = policy_evaluate (task_spec t) a ob (task_spend t) av in
      seq (append_drafts [draft PolicyValidated (dump_policy policy)]) (\<lambda>_.
       if \<not> pol_allowed policy then reject_action E a av policy
       else if (pol_approval policy \<or> x) \<and> \<not> y then request_approval E a policy
       else execute_stage E a av)))"
    if quoted: "adp_validate (env_adapter E) a s0 = (ok av, s)" for s0 s av
  proof (rule agree_seq [OF yields_gets], clarify)
    fix fr :: "('a, 'b) frame"
    assume "authority_inv S A fr"
    then have S: "task_spec (tr_task (fr_current fr)) = S" by (simp add: authority_inv_def)
    let ?p = "policy_evaluate (task_spec (tr_task (fr_current fr))) a (fr_observation fr)
      (task_spend (tr_task (fr_current fr))) av"
    have "\<not> B a s" if "pol_allowed ?p" "\<not> (pol_approval ?p \<and> \<not> y)"
    proof -
      have "pol_approval ?p \<longrightarrow> A = Some a" using that(2) y by blast
      from policy_authority [OF that(1) _ this, of S] S have "quote_authorised S A a av" by blast
      with quoted show ?thesis unfolding B unauthorised_def by blast
    qed
    from agree_execute [of B a s g E av, OF this]
    show "agree (\<lambda>fr. authority_inv S A fr \<and> adapter_is s fr)
       (let policy = ?p in seq (append_drafts [draft PolicyValidated (dump_policy policy)]) (\<lambda>_.
         if \<not> pol_allowed policy then reject_action E a av policy
         else if (pol_approval policy \<or> x) \<and> \<not> y then request_approval E a policy
         else execute_stage (divert B g E) a av))
       (let policy = ?p in seq (append_drafts [draft PolicyValidated (dump_policy policy)]) (\<lambda>_.
         if \<not> pol_allowed policy then reject_action E a av policy
         else if (pol_approval policy \<or> x) \<and> \<not> y then request_approval E a policy
         else execute_stage E a av))"
      unfolding Let_def
      by (intro agree_seq [OF yields_any] preserves_both preserve_rules) (auto simp: agree_def)
  qed
  show ?thesis
    unfolding act_stage_def divert_simps agree_def
  proof (intro allI impI)
    fix fr :: "('a, 'b) frame"
    assume inv: "authority_inv S A fr"
    obtain r s where v: "adp_validate (env_adapter E) a (w_adapter (fr_world fr)) = (r, s)" by fastforce
    let ?fr = "fr\<lparr>fr_world := (fr_world fr)\<lparr>w_adapter := s\<rparr>\<rparr>"
    have m: "lift_run (on_adapter (adp_validate (env_adapter E) a)) fr = (r, ?fr)"
      by (simp add: lift_run_def on_adapter_def v)
    have "authority_inv S A ?fr \<and> adapter_is s ?fr"
      using inv by (simp add: authority_inv_def adapter_is_def)
    with chosen v m
    show "seq (lift_run (on_adapter (adp_validate (env_adapter E) a))) (\<lambda>av.
        seq (gets (\<lambda>fr. (tr_task (fr_current fr), fr_observation fr))) (\<lambda>(t, ob).
        let policy = policy_evaluate (task_spec t) a ob (task_spend t) av in
        seq (append_drafts [draft PolicyValidated (dump_policy policy)]) (\<lambda>_.
         if \<not> pol_allowed policy then reject_action E a av policy
         else if (pol_approval policy \<or> x) \<and> \<not> y then request_approval E a policy
         else execute_stage (divert B g E) a av))) fr =
      seq (lift_run (on_adapter (adp_validate (env_adapter E) a))) (\<lambda>av.
        seq (gets (\<lambda>fr. (tr_task (fr_current fr), fr_observation fr))) (\<lambda>(t, ob).
        let policy = policy_evaluate (task_spec t) a ob (task_spend t) av in
        seq (append_drafts [draft PolicyValidated (dump_policy policy)]) (\<lambda>_.
         if \<not> pol_allowed policy then reject_action E a av policy
         else if (pol_approval policy \<or> x) \<and> \<not> y then request_approval E a policy
         else execute_stage E a av))) fr"
      by (cases r) (simp_all add: seq_def [of "lift_run m" for m] agree_def)
  qed
qed

lemma agree_next: "preserves I m \<Longrightarrow> (\<And>x. agree I (f x) (f' x)) \<Longrightarrow> agree I (next_stage m f) (next_stage m f')"
  by (rule agree_next_stage [where Q = "\<lambda>_. True"]) (auto simp: yields_def split: sum.split)

lemma agree_iteration:
  assumes B: "B = unauthorised E S A"
  shows "agree (authority_inv S A) (iteration (divert B g E) budget) (iteration E budget)"
  unfolding iteration_def divert_simps
proof (rule agree_next [OF authority_checks(1)], rule agree_next [OF authority_checks(2)],
    rule agree_next [OF authority_checks(3)], rule agree_seq [OF yields_any [OF authority_basic(6)]],
    rule agree_next [OF authority_checks(4)], rule agree_seq [OF yields_gets])
  fix v approved
  assume "\<exists>fr. authority_inv S A fr \<and> approved = sg_approved_action (fr_sg fr)"
  then have approved: "approved = None \<or> approved = A" by (auto simp: authority_inv_def)
  let ?Q = "\<lambda>(a, asks :: bool). approved \<noteq> None \<longrightarrow> approved = Some a"
  have chosen: "yields (authority_inv S A)
      (case approved of None \<Rightarrow> decide_stage E v | Some a \<Rightarrow> ret (Inr (a, False)))
      (\<lambda>r. case r of Inl c \<Rightarrow> True | Inr x \<Rightarrow> ?Q x)"
    by (cases approved)
      (auto simp: yields_def preserves_basic intro: authority_decide split: sum.split simp: ret_def)
  show "agree (authority_inv S A)
     (next_stage (case approved of None \<Rightarrow> decide_stage E v | Some a \<Rightarrow> ret (Inr (a, False)))
       (\<lambda>(a, asks_approval). next_stage (repetition_stage E a (approved \<noteq> None))
         (\<lambda>_. act_stage (divert B g E) a asks_approval (approved \<noteq> None))))
     (next_stage (case approved of None \<Rightarrow> decide_stage E v | Some a \<Rightarrow> ret (Inr (a, False)))
       (\<lambda>(a, asks_approval). next_stage (repetition_stage E a (approved \<noteq> None))
         (\<lambda>_. act_stage E a asks_approval (approved \<noteq> None))))"
    by (rule agree_next_stage [OF chosen])
      (use approved in \<open>auto intro!: agree_next preserve_rules agree_act [OF B]\<close>)
qed

lemma run_loop_agree:
  assumes B: "B = unauthorised E S A" and "authority_inv S A fr"
  shows "run_loop (divert B g E) budget fr = run_loop E budget fr"
  using assms
proof (induction E budget fr rule: run_loop.induct)
  case (1 E budget fr)
  note same = agree_iteration [OF 1(2), of g budget, unfolded agree_def, rule_format, OF 1(3)]
  show ?case
  proof (cases "task_status (tr_task (fr_current fr)) = Running")
    case False
    then show ?thesis by (simp add: run_loop.simps)
  next
    case True
    obtain q fr1 where it: "iteration E budget fr = (q, fr1)" by (cases "iteration E budget fr")
    have inv: "authority_inv S A fr1" by (rule preservesD [OF authority_iteration 1(3) it])
    show ?thesis
    proof (cases q)
      case (Inl e)
      with it True same show ?thesis by (simp add: run_loop.simps)
    next
      case (Inr c)
      with it True same 1(1,2) inv show ?thesis by (cases c) (simp_all add: run_loop.simps)
    qed
  qed
qed

text \<open>
  C5. No unauthorised execution ever happens. Call executing an action in an adapter state authorised when
  a validation of that very action has just left the adapter in that state with a valid quote, neither the
  authority's forbidden list nor a forbidding or an allowing constraint rules the action's type out, and the
  action is the one approved for this run or needs no approval: its type is not on the approval list and its
  quoted cost is within the maximum of a single spend. Replace the adapter's execution, wherever it is not
  authorised, by anything whatsoever: the run, with its store, its adapter, its outcome and its exceptions,
  is the same, whatever the adapter observes and quotes, the provider decides, and wherever the process
  crashes. Limits on the running total, reserves and floors depend on more than the adapter's state and are
  the subject of the exactness of the policy (\<open>policy_allows_iff\<close>); an approval that only the provider's
  decision asks for is not part of this statement.
\<close>

theorem unauthorised_never_executed:
  "run_iterations
     (divert (unauthorised E (task_spec (tr_task (fr_current fr))) (sg_approved_action (fr_sg fr))) g E)
     budget fr =
   run_iterations E budget fr"
proof -
  have "authority_inv (task_spec (tr_task (fr_current fr))) (sg_approved_action (fr_sg fr)) fr"
    by (simp add: authority_inv_def)
  from run_loop_agree [OF refl this] show ?thesis
    unfolding run_iterations_def catch_def divert_simps by simp
qed

end
