(* ===== verification/IntentCompiler.thy ===== *)
theory IntentCompiler
  imports Policy Evaluator
begin

text \<open>
  The intent compiler: \<open>adapter_registry.py\<close>, the capability catalogs of \<open>intent_compiler/prompt.py\<close>,
  the models of \<open>intent_compiler/models.py\<close>, the semantic validation of \<open>intent_compiler/validation.py\<close>
  and the pipeline of \<open>intent_compiler/compiler.py\<close>. The provider is an argument. A Python set of strings
  is a list; where the code sorts a set, the list is stripped of repetitions and sorted.
\<close>

section \<open>Registry and catalogs\<close>

record registration =
  reg_adapter :: adapter_id
  reg_name :: string
  reg_flagship :: bool
  reg_frozen :: bool
  reg_discovery :: bool
  reg_compiler :: bool
  reg_runtime :: bool
  reg_observation :: bool
  reg_reconciliation :: bool
  reg_direct_ui :: "string list"
  reg_actions :: "string list"
  reg_unavailable :: "string option"

fun registrations :: "adapter_id \<Rightarrow> registration" where
  "registrations AdReference =
     \<lparr>reg_adapter = AdReference, reg_name = ''Deterministic reference simulation'', reg_flagship = False,
      reg_frozen = False, reg_discovery = True, reg_compiler = True, reg_runtime = True,
      reg_observation = True, reg_reconciliation = True, reg_direct_ui = [],
      reg_actions = [''advance_time'', ''build_housing'', ''build_power'', ''repair'', ''set_maintenance'',
        ''take_loan'', ''repay_loan'', ''pause'', ''resume''], reg_unavailable = None\<rparr>"
| "registrations AdOpenTTD =
     \<lparr>reg_adapter = AdOpenTTD, reg_name = ''OpenTTD'', reg_flagship = False,
      reg_frozen = False, reg_discovery = True, reg_compiler = True, reg_runtime = True,
      reg_observation = True, reg_reconciliation = True, reg_direct_ui = [],
      reg_actions = [''set_server_name'', ''set_company_name''], reg_unavailable = None\<rparr>"
| "registrations AdRailRoute =
     \<lparr>reg_adapter = AdRailRoute, reg_name = ''Rail Route reference integration'', reg_flagship = False,
      reg_frozen = False, reg_discovery = True, reg_compiler = False, reg_runtime = False,
      reg_observation = True, reg_reconciliation = False, reg_direct_ui = [],
      reg_actions = [''pause'', ''resume'', ''set_route_ui''],
      reg_unavailable = Some ''Rail Route control is not composed through the persisted task runtime''\<rparr>"
| "registrations AdSoftwareInc =
     \<lparr>reg_adapter = AdSoftwareInc, reg_name = ''Software Inc. frozen reference integration'',
      reg_flagship = False, reg_frozen = True, reg_discovery = True, reg_compiler = False,
      reg_runtime = False, reg_observation = True, reg_reconciliation = False,
      reg_direct_ui = [''open_manage_teams'', ''pause'', ''resume''], reg_actions = [],
      reg_unavailable = Some (''The game-specific roadmap is frozen and the generic persisted-task runtime is '' @
        ''unavailable; separately verified direct visible-UI actions remain available as '' @
        ''reference capability'')\<rparr>"

definition adapter_ids :: "adapter_id list" where
  "adapter_ids = [AdReference, AdOpenTTD, AdRailRoute, AdSoftwareInc]"

definition adapter_registration :: "string \<Rightarrow> (exn, registration) result" where
  "adapter_registration name =
     (case enum_parse adapter_id_value adapter_ids name of
        Some a \<Rightarrow> ok (registrations a)
      | None \<Rightarrow> raise (Exn ValueErr (''unsupported adapter type: '' @ str_repr name)))"

definition adapter_registrations :: "registration list" where
  "adapter_registrations = map registrations (sort_key adapter_id_value adapter_ids)"

record catalog =
  cat_name :: string
  cat_adapter :: adapter_id
  cat_resources :: "string list"
  cat_actions :: "string list"
  cat_strings :: "string list"
  cat_projects :: "string list"

definition supported_resources :: "string list" where
  "supported_resources = [''tick'', ''cash'', ''debt'', ''population'', ''housing'', ''power_capacity'',
     ''power_usage'', ''infrastructure'', ''maintenance_level'', ''income_per_tick'', ''expense_per_tick'']"

definition supported_actions :: "string list" where
  "supported_actions = [''advance_time'', ''build_housing'', ''build_power'', ''repair'', ''set_maintenance'',
     ''take_loan'', ''repay_loan'', ''pause'', ''resume'']"

definition reference_catalog :: catalog where
  "reference_catalog = \<lparr>cat_name = ''reference_simulation'', cat_adapter = AdReference,
     cat_resources = supported_resources, cat_actions = supported_actions, cat_strings = [],
     cat_projects = [''housing'', ''power'']\<rparr>"

definition openttd_catalog :: catalog where
  "openttd_catalog = \<lparr>cat_name = ''openttd_admin_network_v3_gamescript_v1'', cat_adapter = AdOpenTTD,
     cat_resources = [''cash'', ''debt'', ''company_value'', ''profit'', ''vehicle_count'', ''station_count'',
       ''date_raw'', ''server_name'', ''paused'', ''town_count'', ''industry_count'', ''company_name''],
     cat_actions = [''set_server_name'', ''set_company_name''],
     cat_strings = [''server_name'', ''company_name''], cat_projects = []\<rparr>"

fun catalogs :: "adapter_id \<Rightarrow> catalog" where
  "catalogs AdReference = reference_catalog"
| "catalogs AdOpenTTD = openttd_catalog"
| "catalogs AdRailRoute = \<lparr>cat_name = ''rail_route_reference_integration_unavailable_to_task_runtime'',
     cat_adapter = AdRailRoute, cat_resources = [], cat_actions = [], cat_strings = [], cat_projects = []\<rparr>"
| "catalogs AdSoftwareInc = \<lparr>cat_name = ''software_inc_prompt_1_discovery_only'',
     cat_adapter = AdSoftwareInc, cat_resources = [], cat_actions = [], cat_strings = [], cat_projects = []\<rparr>"

definition capability_catalog :: "string \<Rightarrow> (exn, catalog) result" where
  "capability_catalog name = rbind (adapter_registration name) (\<lambda>r. ok (catalogs (reg_adapter r)))"

section \<open>Validation\<close>

record compiler_error =
  ce_code :: string
  ce_message :: string
  ce_path :: "string option"

definition compiler_error :: "string \<Rightarrow> string \<Rightarrow> string \<Rightarrow> compiler_error" where
  "compiler_error code message path = \<lparr>ce_code = code, ce_message = message, ce_path = Some path\<rparr>"

definition missing_specification_error :: compiler_error where
  "missing_specification_error = compiler_error ''missing_specification''
     ''provider returned neither a specification nor a clarification or unsupported request'' ''specification''"

definition numeric :: "json \<Rightarrow> rat option" where
  "numeric v = map_option fl (as_num v)"

definition sorted_set :: "string list \<Rightarrow> string list" where
  "sorted_set xs = sort (remdups xs)"

definition validate_threshold :: "json \<Rightarrow> json \<Rightarrow> string \<Rightarrow> catalog \<Rightarrow> compiler_error list" where
  "validate_threshold resource v path cat =
     (case as_str resource of
        Some r \<Rightarrow>
          if r \<notin> set (cat_resources cat)
          then [compiler_error ''invalid_resource'' (''unsupported resource: '' @ py_repr resource) (path @ ''.resource'')]
          else (case numeric v of
            None \<Rightarrow> [compiler_error ''invalid_threshold'' ''threshold must be numeric'' (path @ ''.threshold'')]
          | Some x \<Rightarrow>
              (if x < 0 then [compiler_error ''invalid_threshold'' ''threshold must be non-negative'' (path @ ''.threshold'')]
               else []) @
              (if r \<in> {''infrastructure''} \<and> x > 100
               then [compiler_error ''impossible_objective'' (r @ '' cannot exceed 100'') (path @ ''.threshold'')] else []) @
              (if r \<in> {''maintenance_level''} \<and> x > 1
               then [compiler_error ''impossible_objective'' (r @ '' cannot exceed 1'') (path @ ''.threshold'')] else []))
      | None \<Rightarrow>
          [compiler_error ''invalid_resource'' (''unsupported resource: '' @ py_repr resource) (path @ ''.resource'')])"

definition extra_parameter_errors :: "jobject \<Rightarrow> string list \<Rightarrow> string \<Rightarrow> compiler_error list" where
  "extra_parameter_errors params expected path =
     map (\<lambda>name. compiler_error ''missing_parameter'' (''missing parameter: '' @ name) (path @ ''.'' @ name))
       (sorted_set (filter (\<lambda>k. k \<notin> set (map fst params)) expected)) @
     map (\<lambda>name. compiler_error ''unsupported_parameter'' (''unsupported parameter: '' @ name) (path @ ''.'' @ name))
       (sorted_set (filter (\<lambda>k. k \<notin> set expected) (map fst params)))"

definition directed :: "objective_type \<Rightarrow> bool" where
  "directed t \<longleftrightarrow> t \<in> {MaintainResource, RunUntil}"

text \<open>\<open>direction not in {"above", "below", "equal"}\<close> hashes the value: a list or a dictionary raises.\<close>

fun direction_known :: "json \<Rightarrow> (exn, bool) result" where
  "direction_known (JStr s) = ok (s \<in> {''above'', ''below'', ''equal''})"
| "direction_known (JList l) =
     raise (Exn (OtherException ''TypeError'') (''unhashable type: '' @ str_repr ''list''))"
| "direction_known (JObj d) =
     raise (Exn (OtherException ''TypeError'') (''unhashable type: '' @ str_repr ''dict''))"
| "direction_known _ = ok False"

definition direction_errors :: "objective_type \<Rightarrow> json \<Rightarrow> string \<Rightarrow> (exn, compiler_error list) result" where
  "direction_errors t d path =
     (if \<not> directed t then ok []
      else rbind (direction_known d) (\<lambda>known. ok (if known then [] else
        [compiler_error ''invalid_direction'' (''direction must be '' @ str_repr ''above'' @ '', '' @
           str_repr ''below'' @ '', or '' @ str_repr ''equal'') (path @ ''.direction'')])))"

definition string_equality :: "task_specification \<Rightarrow> catalog \<Rightarrow> string \<Rightarrow> bool" where
  "string_equality spec cat resource \<longleftrightarrow> (let params = obj_parameters (spec_objective spec) in
     resource \<in> set (cat_strings cat) \<and> obj_type (spec_objective spec) = RunUntil \<and>
     jget params ''direction'' = JStr ''equal'' \<and> as_str (jget params ''target'') \<noteq> None)"

definition validate_objective :: "task_specification \<Rightarrow> catalog \<Rightarrow> (exn, compiler_error list) result" where
  "validate_objective spec cat =
     (let objective = spec_objective spec; params = obj_parameters objective;
          path = ''specification.objective.parameters'' in
      if obj_type objective = CompleteProject then
        ok (extra_parameter_errors params [''project_type''] path @
          (if (case as_str (jget params ''project_type'') of Some p \<Rightarrow> p \<in> set (cat_projects cat) | None \<Rightarrow> False)
           then []
           else [compiler_error ''invalid_project_type''
             (''project_type must be one of '' @ py_repr (JList (map JStr (sort (cat_projects cat)))))
             (path @ ''.project_type'')]))
      else
        (let expected = [''resource'', ''target''] @ (if directed (obj_type objective) then [''direction''] else []);
             errors = extra_parameter_errors params expected path; resource = jget params ''resource'';
             unsupported = compiler_error ''invalid_resource'' (''unsupported resource: '' @ py_repr resource)
               (path @ ''.resource'') in
         case as_str resource of
           None \<Rightarrow> ok (errors @ [unsupported])
         | Some r \<Rightarrow>
             if r \<notin> set (cat_resources cat) then ok (errors @ [unsupported])
             else rbind (direction_errors (obj_type objective) (jget params ''direction'') path) (\<lambda>ds.
               ok (errors @
                 (if string_equality spec cat r then []
                  else validate_threshold resource (jget params ''target'') path cat) @ ds))))"

definition action_values :: "json \<Rightarrow> string list option" where
  "action_values v = (case as_str v of Some s \<Rightarrow> Some [s] | None \<Rightarrow> map_option remdups (string_items v))"

definition invalid_actions :: "string list \<Rightarrow> catalog \<Rightarrow> string list" where
  "invalid_actions actions cat = sorted_set (filter (\<lambda>a. a \<notin> set (cat_actions cat)) actions)"

definition unsupported_actions :: "string list \<Rightarrow> catalog \<Rightarrow> string \<Rightarrow> compiler_error list" where
  "unsupported_actions actions cat path =
     map (\<lambda>a. compiler_error ''invalid_action'' (''unsupported action: '' @ a) path) (invalid_actions actions cat)"

record constraint_terms =
  ct_errors :: "compiler_error list"
  ct_allowed :: "string list list"
  ct_forbidden :: "string list"
  ct_floors :: "(string \<times> rat) list"

definition validate_constraint :: "catalog \<Rightarrow> nat \<times> constraint \<Rightarrow> constraint_terms \<Rightarrow> constraint_terms" where
  "validate_constraint cat ic t = (case ic of (index, c) \<Rightarrow>
     let path = ''specification.constraints.'' @ int_text (int index) @ ''.parameters'';
         params = con_parameters c; errors = (\<lambda>es. t\<lparr>ct_errors := ct_errors t @ es\<rparr>) in
     case con_type c of
       ForbiddenAction \<Rightarrow>
         (let extra = extra_parameter_errors params [''action''] path in
          case action_values (jget params ''action'') of
            Some [a] \<Rightarrow>
              t\<lparr>ct_errors := ct_errors t @ extra @ unsupported_actions [a] cat (path @ ''.action''),
                ct_forbidden := ct_forbidden t @ [a]\<rparr>
          | _ \<Rightarrow> errors (extra @
              [compiler_error ''invalid_action'' ''forbidden_action requires one action'' (path @ ''.action'')]))
     | AllowedAction \<Rightarrow>
         (let key = (if map_of params ''actions'' \<noteq> None then ''actions'' else ''action'');
              extra = extra_parameter_errors params [key] path in
          case action_values (jget params key) of
            Some (a # as) \<Rightarrow>
              t\<lparr>ct_errors := ct_errors t @ extra @ unsupported_actions (a # as) cat (path @ ''.actions''),
                ct_allowed := ct_allowed t @ [a # as]\<rparr>
          | _ \<Rightarrow> errors (extra @
              [compiler_error ''invalid_action'' ''allowed_action requires actions'' (path @ ''.actions'')]))
     | ResourceFloor \<Rightarrow>
         (let extra = extra_parameter_errors params [''resource'', ''floor''] path @
                validate_threshold (jget params ''resource'') (jget params ''floor'') path cat in
          case (as_str (jget params ''resource''), numeric (jget params ''floor'')) of
            (Some r, Some x) \<Rightarrow> t\<lparr>ct_errors := ct_errors t @ extra, ct_floors := ct_floors t @ [(r, x)]\<rparr>
          | _ \<Rightarrow> errors extra)
     | _ \<Rightarrow> errors (extra_parameter_errors params [''amount''] path @
         (case numeric (jget params ''amount'') of
            Some x \<Rightarrow> if x < 0
              then [compiler_error ''invalid_threshold'' ''amount must be non-negative'' (path @ ''.amount'')] else []
          | None \<Rightarrow> [compiler_error ''invalid_threshold'' ''amount must be non-negative'' (path @ ''.amount'')])))"

definition validate_constraints :: "task_specification \<Rightarrow> catalog \<Rightarrow> constraint_terms" where
  "validate_constraints spec cat = fold (validate_constraint cat)
     (zip [0..<length (spec_constraints spec)] (spec_constraints spec))
     \<lparr>ct_errors = [], ct_allowed = [], ct_forbidden = forbidden_actions (spec_authority spec), ct_floors = []\<rparr>"

text \<open>\<open>allowed_sets[0].intersection(*allowed_sets[1:])\<close>\<close>

definition common_actions :: "string list list \<Rightarrow> string list" where
  "common_actions sets = (case sets of [] \<Rightarrow> []
     | s # ss \<Rightarrow> filter (\<lambda>a. \<forall>x \<in> set ss. a \<in> set x) s)"

definition contradiction_errors :: "task_specification \<Rightarrow> constraint_terms \<Rightarrow> compiler_error list" where
  "contradiction_errors spec t =
     (let auth = spec_authority spec;
          clash = sorted_set (filter (\<lambda>a. a \<in> set (ct_forbidden t)) (approval_actions auth));
          allowed = common_actions (ct_allowed t) in
      (if clash = [] then [] else [compiler_error ''contradictory_authority''
         (''actions cannot require approval and be forbidden: '' @ py_repr (JList (map JStr clash)))
         ''specification.authority'']) @
      (if ct_allowed t = [] then []
       else if allowed = [] then [compiler_error ''contradictory_constraints''
         ''allowed_action constraints have no action in common'' ''specification.constraints'']
       else if list_all (\<lambda>a. a \<in> set (ct_forbidden t)) allowed then [compiler_error ''contradictory_constraints''
         ''every allowed action is also forbidden'' ''specification.constraints'']
       else []))"

definition floor_errors :: "task_specification \<Rightarrow> constraint_terms \<Rightarrow> compiler_error list" where
  "floor_errors spec t =
     (let params = obj_parameters (spec_objective spec) in
      if obj_type (spec_objective spec) = RunUntil \<and> jget params ''direction'' = JStr ''below'' then
        (case (as_str (jget params ''resource''), numeric (jget params ''target'')) of
           (Some r, Some x) \<Rightarrow>
             if list_ex (\<lambda>(name, f). name = r \<and> f \<ge> x) (ct_floors t)
             then [compiler_error ''contradictory_constraints''
               (''resource floor prevents running '' @ r @ '' below '' @ float_g x) ''specification.constraints'']
             else []
         | _ \<Rightarrow> [])
      else [])"

definition stop_condition_errors :: "catalog \<Rightarrow> nat \<times> string \<Rightarrow> compiler_error list" where
  "stop_condition_errors cat ic = (case ic of (index, condition) \<Rightarrow>
     let path = ''specification.stop_conditions.'' @ int_text (int index) in
     case scan_condition condition of
       None \<Rightarrow> [compiler_error ''invalid_stop_condition'' (''unsupported stop condition: '' @ condition) path]
     | Some (resource, _) \<Rightarrow>
         if resource \<in> set (cat_resources cat) then []
         else [compiler_error ''invalid_resource'' (''unsupported stop-condition resource: '' @ resource) path])"

definition validate_specification ::
  "task_specification option \<Rightarrow> catalog \<Rightarrow> (exn, compiler_error list) result" where
  "validate_specification s cat = (case s of None \<Rightarrow> ok []
   | Some spec \<Rightarrow>
       rbind (validate_objective spec cat) (\<lambda>errors.
        let t = validate_constraints spec cat; auth = spec_authority spec in
        ok (errors @ ct_errors t @
          unsupported_actions (forbidden_actions auth) cat ''specification.authority.forbidden_actions'' @
          unsupported_actions (approval_actions auth) cat ''specification.authority.approval_actions'' @
          contradiction_errors spec t @ floor_errors spec t @
          concat (map (stop_condition_errors cat)
            (zip [0..<length (spec_stop_conditions spec)] (spec_stop_conditions spec))))))"

section \<open>The pipeline\<close>

datatype validation_status = VsValid | VsClarification | VsUnsupported | VsInvalid

record compiler_response =
  cr_specification :: "task_specification option"
  cr_assumptions :: "string list"
  cr_warnings :: "string list"
  cr_unsupported :: "string list"
  cr_ambiguities :: "string list"

record compiler_report =
  rep_prompt :: string
  rep_status :: validation_status
  rep_assumptions :: "string list"
  rep_warnings :: "string list"
  rep_unsupported :: "string list"
  rep_ambiguities :: "string list"
  rep_errors :: "compiler_error list"

record compilation =
  cl_instruction :: string
  cl_specification :: "task_specification option"
  cl_report :: compiler_report

definition compile_response :: "catalog \<Rightarrow> string \<Rightarrow> compiler_response \<Rightarrow> (exn, compilation) result" where
  "compile_response cat instruction response =
     (let spec = map_option (\<lambda>s. s\<lparr>spec_adapter := cat_adapter cat\<rparr>) (cr_specification response) in
      rbind (validate_specification spec cat) (\<lambda>errors.
      let (status, errors') =
            (if errors \<noteq> [] then (VsInvalid, errors)
             else if cr_unsupported response \<noteq> [] then (VsUnsupported, errors)
             else if cr_ambiguities response \<noteq> [] then (VsClarification, errors)
             else if spec = None then (VsInvalid, errors @ [missing_specification_error])
             else (VsValid, errors)) in
      ok \<lparr>cl_instruction = instruction, cl_specification = (if status = VsValid then spec else None),
       cl_report = \<lparr>rep_prompt = ''intent-compiler-v3'', rep_status = status,
         rep_assumptions = cr_assumptions response, rep_warnings = cr_warnings response,
         rep_unsupported = cr_unsupported response, rep_ambiguities = cr_ambiguities response,
         rep_errors = errors'\<rparr>\<rparr>))"

definition compile ::
  "catalog \<Rightarrow> (string \<Rightarrow> 'p \<Rightarrow> (exn, compiler_response) result \<times> 'p) \<Rightarrow> string \<Rightarrow> ('p, exn, compilation) prog" where
  "compile cat provider instruction =
     (let normalized = strip instruction in
      if normalized = [] then throw (Exn ValueErr ''instruction must not be empty'')
      else seq (provider normalized) (\<lambda>response. lift_result (compile_response cat normalized response)))"

end
