(* ===== verification/IntentProperties.thy ===== *)
theory IntentProperties
  imports IntentCompiler RefVerified Samples
begin

text \<open>
  The properties of the intent compiler, and where its validation and the runtime differ: a specification
  that validates can be evaluated and obeyed by the runtime's evaluator and policy engine, with exceptions
  that are theorems here too.
\<close>

section \<open>What a valid specification satisfies\<close>

lemma sorted_set_Nil [simp]: "sorted_set xs = [] \<longleftrightarrow> xs = []"
  by (simp add: sorted_set_def) (metis length_0_conv length_sort remdups_eq_nil_iff)

lemma extra_parameter_errors_Nil:
  "extra_parameter_errors params expected path = [] \<longleftrightarrow>
     set expected \<subseteq> set (map fst params) \<and> set (map fst params) \<subseteq> set expected"
  by (auto simp: extra_parameter_errors_def filter_empty_conv)

lemma validate_threshold_Nil:
  "validate_threshold resource v path cat = [] \<Longrightarrow>
     \<exists>r x. resource = JStr r \<and> r \<in> set (cat_resources cat) \<and> as_num v = Some x \<and> 0 \<le> fl x"
  by (cases resource; cases "as_num v")
    (auto simp: validate_threshold_def numeric_def split: if_splits)

lemma jget_key: "k \<in> set (map fst params) \<Longrightarrow> map_of params k = Some (jget params k)"
  by (cases "map_of params k") (auto simp: jget_def map_of_eq_None_iff)

lemma validate_objective_resource:
  assumes "validate_objective spec cat = ok []" and "obj_type (spec_objective spec) \<noteq> CompleteProject"
  defines "params \<equiv> obj_parameters (spec_objective spec)"
  obtains r where "jget params ''resource'' = JStr r" and "r \<in> set (cat_resources cat)"
    and "\<not> string_equality spec cat r \<Longrightarrow> \<exists>x. as_num (jget params ''target'') = Some x"
    and "directed (obj_type (spec_objective spec)) \<Longrightarrow>
      \<exists>d \<in> {''above'', ''below'', ''equal''}. map_of params ''direction'' = Some (JStr d)"
proof -
  let ?path = "''specification.objective.parameters''"
  let ?t = "obj_type (spec_objective spec)"
  obtain r where r: "jget params ''resource'' = JStr r"
    using assms(1,2) by (cases "jget params ''resource''") (auto simp: validate_objective_def Let_def params_def)
  note v = assms(1) [unfolded validate_objective_def Let_def, folded params_def]
  have mem: "r \<in> set (cat_resources cat)" using v assms(2) r by (auto split: if_splits)
  obtain ds where ds: "direction_errors ?t (jget params ''direction'') ?path = ok ds"
    and nil: "extra_parameter_errors params ([''resource'', ''target''] @ (if directed ?t then [''direction''] else [])) ?path = []"
      "(if string_equality spec cat r then []
        else validate_threshold (jget params ''resource'') (jget params ''target'') ?path cat) = []"
      "ds = []"
    using v assms(2) r mem by (auto simp: rbind_Inr_iff)
  show thesis
  proof (rule that [OF r mem])
    show "\<exists>x. as_num (jget params ''target'') = Some x" if "\<not> string_equality spec cat r"
      using nil(2) that r by (auto dest: validate_threshold_Nil)
    show "\<exists>d \<in> {''above'', ''below'', ''equal''}. map_of params ''direction'' = Some (JStr d)" if d: "directed ?t"
    proof -
      have "''direction'' \<in> set (map fst params)" using nil(1) d by (simp add: extra_parameter_errors_Nil)
      then have "map_of params ''direction'' = Some (jget params ''direction'')" by (rule jget_key)
      moreover have "direction_known (jget params ''direction'') = ok True"
        using ds nil(3) d by (cases "direction_known (jget params ''direction'')") (auto simp: direction_errors_def split: if_splits)
      ultimately show ?thesis by (cases "jget params ''direction''") auto
    qed
  qed
qed

lemma validate_specification_ok:
  assumes "validate_specification (Some spec) cat = ok []"
  shows "validate_objective spec cat = ok []" and "ct_errors (validate_constraints spec cat) = []"
    and "contradiction_errors spec (validate_constraints spec cat) = []"
    and "\<forall>condition \<in> set (spec_stop_conditions spec). \<exists>r rest. scan_condition condition = Some (r, rest) \<and>
      r \<in> set (cat_resources cat)"
proof -
  note v = assms [unfolded validate_specification_def option.case Let_def rbind_Inr_iff]
  show "validate_objective spec cat = ok []" "ct_errors (validate_constraints spec cat) = []"
    "contradiction_errors spec (validate_constraints spec cat) = []" using v by auto
  let ?conditions = "spec_stop_conditions spec"
  show "\<forall>condition \<in> set ?conditions. \<exists>r rest. scan_condition condition = Some (r, rest) \<and>
      r \<in> set (cat_resources cat)"
  proof
    fix condition assume "condition \<in> set ?conditions"
    then obtain i where i: "i < length ?conditions" "condition = ?conditions ! i" by (auto simp: in_set_conv_nth)
    then have "(i, condition) \<in> set (zip [0..<length ?conditions] ?conditions)"
      by (auto simp: in_set_zip intro!: exI [of _ i])
    with v have "stop_condition_errors cat (i, condition) = []" by auto
    then show "\<exists>r rest. scan_condition condition = Some (r, rest) \<and> r \<in> set (cat_resources cat)"
      by (auto simp: stop_condition_errors_def Let_def split: option.splits if_splits)
  qed
qed

section \<open>A valid task can be evaluated\<close>

lemma stop_conditions_readable:
  assumes "\<forall>condition \<in> set cs. \<exists>r rest. scan_condition condition = Some (r, rest) \<and> numeric_resource ob r \<noteq> None"
    and "evaluate_stop_conditions cs ob = Some v"
  shows "eval_stop_met v"
  using assms
  by (induction cs) (fastforce simp: stop_met_def split: prod.splits if_splits)+

lemma dump_state_resources:
  "obs_state ob = dump_state s \<Longrightarrow> r \<in> set supported_resources \<Longrightarrow> \<exists>x. as_num (jget (obs_state ob) r) = Some x"
  by (auto simp: supported_resources_def dump_state_def jget_def)

lemma reference_numeric:
  assumes "obs_state ob = dump_state s" and "r \<in> set supported_resources"
  shows "numeric_resource ob r \<noteq> None" and "\<not> is_null (resource_value ob r)"
proof -
  obtain x where x: "as_num (jget (obs_state ob) r) = Some x" using dump_state_resources [OF assms] by blast
  then have present: "\<not> is_null (jget (obs_state ob) r)" by (cases "jget (obs_state ob) r") auto
  then have "resource_value ob r = jget (obs_state ob) r" by (simp add: resource_value_def Let_def)
  with x present show "numeric_resource ob r \<noteq> None" "\<not> is_null (resource_value ob r)"
    by (auto simp: numeric_resource_def)
qed

lemma eval_result_ex [simp]: "\<exists>b why. eval_result x y = eval_result b why"
  by (intro exI) (rule refl)

text \<open>The one combination that validates and cannot be evaluated.\<close>

definition maintain_equal :: "task_specification \<Rightarrow> bool" where
  "maintain_equal spec \<longleftrightarrow> obj_type (spec_objective spec) = MaintainResource \<and>
     jget (obj_parameters (spec_objective spec)) ''direction'' = JStr ''equal''"

lemma valid_resource_objective:
  assumes "validate_objective spec reference_catalog = ok []" and "obj_type (spec_objective spec) \<noteq> CompleteProject"
    and "obs_state ob = dump_state s" and "\<not> maintain_equal spec"
  shows "\<exists>b why. evaluate_resource_objective spec ob = ok (eval_result b why)"
proof -
  let ?params = "obj_parameters (spec_objective spec)"
  let ?t = "obj_type (spec_objective spec)"
  obtain r where r: "jget ?params ''resource'' = JStr r" "r \<in> set supported_resources"
    and target: "\<exists>x. as_num (jget ?params ''target'') = Some x"
    and direction: "directed ?t \<Longrightarrow>
      \<exists>d \<in> {''above'', ''below'', ''equal''}. map_of ?params ''direction'' = Some (JStr d)"
    using validate_objective_resource [OF assms(1,2)]
    by (auto simp: reference_catalog_def string_equality_def Let_def)
  obtain x where x: "as_num (jget ?params ''target'') = Some x" using target by blast
  then have scalar: "is_scalar_target (jget ?params ''target'')"
    by (cases "jget ?params ''target''") auto
  obtain y where y: "numeric_resource ob r = Some y" using reference_numeric(1) [OF assms(3) r(2)] by blast
  note read = evaluate_resource_objective_def Let_def r(1) x y scalar reference_numeric(2) [OF assms(3) r(2)]
  show ?thesis
  proof (cases "?t = RunUntil \<and> jget ?params ''direction'' = JStr ''equal''")
    case True
    then show ?thesis by (auto simp: read)
  next
    case False
    show ?thesis
    proof (cases "?t = ReachResource")
      case True
      then show ?thesis by (auto simp: read)
    next
      case other: False
      then have "directed ?t" using assms(2) by (cases ?t) (auto simp: directed_def)
      from direction [OF this] obtain d where d: "map_of ?params ''direction'' = Some (JStr d)"
          "d \<in> {''above'', ''below'', ''equal''}" by blast
      then have "d \<noteq> ''equal''"
        using False assms(4) \<open>directed ?t\<close> by (auto simp: maintain_equal_def directed_def jget_def)
      with d False other show ?thesis by (auto simp: read)
    qed
  qed
qed

text \<open>
  C20. What the compiler accepts, the runtime can evaluate: a specification that validates against the
  reference catalog, and does not ask to maintain a resource at equality, is evaluated without error on every
  observation of the reference simulation and with any history, and blocks only when a stop condition is met.
\<close>

theorem compiled_task_evaluable:
  assumes "validate_specification (Some spec) reference_catalog = ok []" and "obs_state ob = dump_state s"
    and "\<not> maintain_equal spec"
  shows "\<exists>v. evaluate_progress spec ob hs = ok v \<and> (eval_status v \<noteq> EvBlocked \<or> eval_stop_met v)"
proof -
  note valid = validate_specification_ok [OF assms(1)]
  have stops: "eval_stop_met v" if "evaluate_stop_conditions (spec_stop_conditions spec) ob = Some v" for v
    using stop_conditions_readable [OF _ that] valid(4) reference_numeric(1) [OF assms(2)]
    by (fastforce simp: reference_catalog_def)
  show ?thesis
  proof (cases "obj_type (spec_objective spec) = CompleteProject")
    case False
    from valid_resource_objective [OF valid(1) this assms(2,3)] obtain b why where
      "evaluate_resource_objective spec ob = ok (eval_result b why)" by blast
    with False stops show ?thesis
      by (cases "evaluate_stop_conditions (spec_stop_conditions spec) ob") (auto simp: evaluate_progress_def)
  next
    case True
    then obtain p where p: "as_str (jget (obj_parameters (spec_objective spec)) ''project_type'') = Some p"
      using valid(1) by (cases "as_str (jget (obj_parameters (spec_objective spec)) ''project_type'')")
        (auto simp: validate_objective_def Let_def)
    have ps: "\<exists>ps. as_list (jget (obs_state ob) ''active_projects'') = Some ps"
      using assms(2) by (simp add: dump_state_def jget_def)
    have "\<exists>b why. evaluate_project_objective spec ob hs = eval_result b why"
      using p ps by (auto simp: evaluate_project_objective_def Let_def)
    then obtain b why where "evaluate_project_objective spec ob hs = eval_result b why" by blast
    with True stops show ?thesis
      by (cases "evaluate_stop_conditions (spec_stop_conditions spec) ob") (auto simp: evaluate_progress_def)
  qed
qed

definition started_observation :: observation where
  "started_observation = sample_observation\<lparr>obs_state := dump_state initial_state\<rparr>"

theorem compiled_task_evaluable_witness:
  "\<exists>v. evaluate_progress sample_spec started_observation [] = ok v \<and>
     (eval_status v \<noteq> EvBlocked \<or> eval_stop_met v)"
proof -
  have "validate_specification (Some sample_spec) reference_catalog = ok []" by code_simp
  moreover have "obs_state started_observation = dump_state initial_state" by (simp add: started_observation_def)
  moreover have "\<not> maintain_equal sample_spec" by code_simp
  ultimately show ?thesis by (rule compiled_task_evaluable)
qed

section \<open>The compiler and the policy engine read the constraints alike\<close>

text \<open>The parameters in the shape that the policy engine reads.\<close>

definition canonical_constraint :: "constraint \<Rightarrow> bool" where
  "canonical_constraint c \<longleftrightarrow> (let p = con_parameters c in
     case con_type c of
       ForbiddenAction \<Rightarrow> as_str (jget p ''action'') \<noteq> None
     | AllowedAction \<Rightarrow> string_items (jget p ''actions'') \<noteq> None \<or>
         (map_of p ''actions'' = None \<and> as_str (jget p ''action'') \<noteq> None)
     | _ \<Rightarrow> True)"

definition terms_agree :: "catalog \<Rightarrow> constraint_terms \<Rightarrow> policy_terms \<Rightarrow> bool" where
  "terms_agree cat t p \<longleftrightarrow> ct_forbidden t = pt_forbidden p \<and>
     map set (ct_allowed t) = map set (pt_allowed p) \<and> ct_floors t = pt_floors p \<and>
     (\<forall>s \<in> set (ct_allowed t). set s \<subseteq> set (cat_actions cat))"

lemma unsupported_actions_Nil: "unsupported_actions as cat path = [] \<longleftrightarrow> set as \<subseteq> set (cat_actions cat)"
  by (auto simp: unsupported_actions_def invalid_actions_def filter_empty_conv)

lemma validate_constraint_errors:
  "\<exists>es. ct_errors (validate_constraint cat ic t) = ct_errors t @ es"
  by (auto simp: validate_constraint_def Let_def split: prod.splits constraint_type.splits option.splits list.splits)

lemma string_items_cases:
  "string_items v = Some vs \<Longrightarrow> as_str v = None \<and> v \<noteq> JNull"
  by (cases v) (auto simp: string_items_def)

lemma validate_constraint_agrees:
  assumes "terms_agree cat t p" and "canonical_constraint c"
    and "ct_errors (validate_constraint cat (i, c) t) = []"
  shows "terms_agree cat (validate_constraint cat (i, c) t) (collect_constraint c p)"
proof (cases "con_type c")
  case ForbiddenAction
  with assms show ?thesis
    by (auto simp: validate_constraint_def collect_constraint_def canonical_constraint_def Let_def
      action_values_def terms_agree_def)
next
  case ResourceFloor
  with assms show ?thesis
    by (auto simp: validate_constraint_def collect_constraint_def Let_def numeric_def terms_agree_def
      split: option.splits)
next
  case AllowedAction
  show ?thesis
  proof (cases "string_items (jget (con_parameters c) ''actions'')")
    case (Some vs)
    then have "map_of (con_parameters c) ''actions'' \<noteq> None"
      by (auto simp: jget_def dest!: string_items_cases split: option.splits)
    moreover have read: "action_values (jget (con_parameters c) ''actions'') = Some (remdups vs)"
      using Some string_items_cases [OF Some] by (simp add: action_values_def)
    moreover obtain a as where vs: "remdups vs = a # as"
      using calculation AllowedAction assms(3) by (cases "remdups vs") (auto simp: validate_constraint_def Let_def)
    moreover have "set vs = insert a (set as)" using arg_cong [OF vs, of set] by simp
    ultimately show ?thesis
      using Some AllowedAction assms
      by (auto simp: validate_constraint_def collect_constraint_def Let_def terms_agree_def unsupported_actions_Nil)
  next
    case None
    with AllowedAction assms show ?thesis
      by (auto simp: validate_constraint_def collect_constraint_def canonical_constraint_def Let_def
        action_values_def terms_agree_def unsupported_actions_Nil)
  qed
qed (use assms in \<open>auto simp: validate_constraint_def collect_constraint_def Let_def terms_agree_def
  split: option.splits\<close>)

lemma validate_constraints_agree:
  assumes "\<forall>c \<in> set cs. canonical_constraint c" and "terms_agree cat t p" and "ct_errors t = []"
    and "ct_errors (fold (validate_constraint cat) (zip is cs) t) = []" and "length is = length cs"
  shows "terms_agree cat (fold (validate_constraint cat) (zip is cs) t) (fold collect_constraint cs p)"
  using assms
proof (induction cs arbitrary: "is" t p)
  case (Cons c cs)
  then obtain i js where is': "is = i # js" "length js = length cs" by (cases "is") auto
  let ?t = "validate_constraint cat (i, c) t"
  have grows: "\<exists>es. ct_errors (fold (validate_constraint cat) xs u) = ct_errors u @ es" for xs u
  proof (induction xs arbitrary: u)
    case (Cons x xs)
    obtain es fs where "ct_errors (validate_constraint cat x u) = ct_errors u @ es"
      "ct_errors (fold (validate_constraint cat) xs (validate_constraint cat x u)) =
        ct_errors (validate_constraint cat x u) @ fs"
      using validate_constraint_errors [of cat x u] Cons.IH [of "validate_constraint cat x u"] by blast
    then show ?case by simp
  qed simp
  have rest: "ct_errors (fold (validate_constraint cat) (zip js cs) ?t) = []" using Cons.prems(4) is' by simp
  with grows [of "zip js cs" ?t] have step: "ct_errors ?t = []" by auto
  have "terms_agree cat ?t (collect_constraint c p)"
    using Cons.prems by (intro validate_constraint_agrees step) simp_all
  from Cons.IH [OF _ this step rest is'(2)] Cons.prems(1) is' show ?case by simp
qed simp

text \<open>
  What the validation understands the constraints on actions and resources to permit, and what is left to the policy: the
  authority's maximum in total, and each reserve and each maximum spend among the constraints, on its own.
\<close>

definition compiler_permits :: "constraint_terms \<Rightarrow> action \<Rightarrow> jobject \<Rightarrow> bool" where
  "compiler_permits t a state \<longleftrightarrow> act_type a \<notin> set (ct_forbidden t) \<and> (\<forall>s \<in> set (ct_allowed t). act_type a \<in> set s) \<and>
     (\<forall>(r, lowest) \<in> set (ct_floors t).
        (case as_num (jget state r) of Some x \<Rightarrow> lowest \<le> fl x | None \<Rightarrow> False))"

definition money_permits :: "task_specification \<Rightarrow> action \<Rightarrow> jobject \<Rightarrow> rat \<Rightarrow> rat \<Rightarrow> bool" where
  "money_permits spec a state spent cost \<longleftrightarrow>
     (\<forall>m. maximum_total_spend (spec_authority spec) = Some m \<longrightarrow> dadd spent cost \<le> m) \<and>
     (\<forall>c \<in> set (spec_constraints spec). con_type c = MinimumReserve \<or> con_type c = MaximumSpend \<longrightarrow>
        constraint_ok a state spent cost c)"

definition money_terms_ok :: "jobject \<Rightarrow> rat \<Rightarrow> rat \<Rightarrow> policy_terms \<Rightarrow> bool" where
  "money_terms_ok state spent cost t \<longleftrightarrow> (\<forall>m \<in> set (pt_maximums t). dadd spent cost \<le> m) \<and>
     (\<forall>r \<in> set (pt_reserves t).
        (case as_decimal (jget state ''cash'') of Some c \<Rightarrow> r \<le> dsub c cost | None \<Rightarrow> False))"

lemma money_terms_collect:
  "money_terms_ok state spent cost (collect_constraint c t) \<longleftrightarrow> money_terms_ok state spent cost t \<and>
     (con_type c = MinimumReserve \<or> con_type c = MaximumSpend \<longrightarrow> constraint_ok a state spent cost c)"
  by (cases "con_type c")
    (auto simp: collect_constraint_def constraint_ok_def money_terms_ok_def Let_def split: option.splits)

lemma money_terms_fold:
  "money_terms_ok state spent cost (fold collect_constraint cs t) \<longleftrightarrow> money_terms_ok state spent cost t \<and>
     (\<forall>c \<in> set cs. con_type c = MinimumReserve \<or> con_type c = MaximumSpend \<longrightarrow> constraint_ok a state spent cost c)"
  by (induction cs arbitrary: t) (auto simp: money_terms_collect [where a = a])

lemma money_permits_terms:
  "money_permits spec a state spent cost \<longleftrightarrow>
     (\<forall>m. maximum_total_spend (spec_authority spec) = Some m \<longrightarrow> dadd spent cost \<le> m) \<and>
     money_terms_ok state spent cost (collect_terms spec)"
  by (simp add: money_permits_def collect_terms_def money_terms_fold [where a = a]) (simp add: money_terms_ok_def)

lemma policy_reads_terms:
  assumes "terms_agree cat t (collect_terms spec)"
  shows "pol_allowed (policy_evaluate spec a ob spent av) \<longleftrightarrow>
    av_valid av \<and> money_permits spec a (obs_state ob) spent (repr_dec (av_cost av)) \<and> compiler_permits t a (obs_state ob)"
proof -
  have agree: "ct_forbidden t = pt_forbidden (collect_terms spec)" "ct_floors t = pt_floors (collect_terms spec)"
    and sets: "set ` set (ct_allowed t) = set ` set (pt_allowed (collect_terms spec))"
    using assms unfolding terms_agree_def by (simp_all flip: set_map)
  have allowed: "(\<forall>s \<in> set (ct_allowed t). act_type a \<in> set s) \<longleftrightarrow>
      (\<forall>s \<in> set (pt_allowed (collect_terms spec)). act_type a \<in> set s)"
    using sets by (metis (no_types, lifting) image_iff)
  show ?thesis
    unfolding policy_allowed_reasons policy_reasons_iff money_permits_terms terms_ok_def money_terms_ok_def
      compiler_permits_def agree allowed
    by (auto split: option.splits)
qed

text \<open>
  C21. The compiler and the policy engine read the constraints of a task alike, when the constraints on actions have the
  shape that the policy reads (one name, or a list of names under \<open>actions\<close>). For a specification that validates, the
  forbidden actions, the allowed sets and the resource floors of the validation are those of the policy; the policy allows
  an action exactly when the adapter's quote is valid, the limits on money are kept, and the validation's reading permits
  the action; and when actions are restricted, some action of the catalog passes every restriction. The condition on the
  shape is needed: \<open>listed_restriction_not_enforced\<close> validates and is not enforced.
\<close>

theorem constraints_enforced_as_validated:
  assumes "validate_specification (Some spec) cat = ok []"
    and "\<forall>c \<in> set (spec_constraints spec). canonical_constraint c"
  shows "terms_agree cat (validate_constraints spec cat) (collect_terms spec) \<and>
    (pol_allowed (policy_evaluate spec a ob spent av) \<longleftrightarrow>
       av_valid av \<and> money_permits spec a (obs_state ob) spent (repr_dec (av_cost av)) \<and>
       compiler_permits (validate_constraints spec cat) a (obs_state ob)) \<and>
    (ct_allowed (validate_constraints spec cat) = [] \<or>
       (\<exists>b. b \<in> set (cat_actions cat) \<and> b \<notin> set (ct_forbidden (validate_constraints spec cat)) \<and>
         (\<forall>s \<in> set (ct_allowed (validate_constraints spec cat)). b \<in> set s)) \<and>
       (\<exists>b. b \<in> set (cat_actions cat) \<and> b \<notin> set (pt_forbidden (collect_terms spec)) \<and>
         (\<forall>s \<in> set (pt_allowed (collect_terms spec)). b \<in> set s)))"
proof -
  let ?t = "validate_constraints spec cat" and ?p = "collect_terms spec"
  note valid = validate_specification_ok [OF assms(1)]
  have agree: "terms_agree cat ?t ?p"
    using valid(2) unfolding validate_constraints_def collect_terms_def
    by (intro validate_constraints_agree assms(2)) (simp_all add: terms_agree_def)
  have sets: "set ` set (ct_allowed ?t) = set ` set (pt_allowed ?p)"
    using agree unfolding terms_agree_def by (metis list.set_map)
  have common: "ct_allowed ?t = [] \<or> (\<exists>b. b \<in> set (cat_actions cat) \<and> b \<notin> set (ct_forbidden ?t) \<and> (\<forall>x \<in> set ` set (ct_allowed ?t). b \<in> x))"
  proof (cases "ct_allowed ?t")
    case (Cons s ss)
    with valid(3) have "common_actions (ct_allowed ?t) \<noteq> []"
      "\<not> list_all (\<lambda>a. a \<in> set (ct_forbidden ?t)) (common_actions (ct_allowed ?t))"
      by (auto simp: contradiction_errors_def Let_def split: if_splits)
    then obtain b where b: "b \<in> set (common_actions (ct_allowed ?t))" "b \<notin> set (ct_forbidden ?t)"
      by (auto simp: list_all_iff)
    then have "b \<in> set s" and "\<forall>x \<in> set ` set (ct_allowed ?t). b \<in> x"
      unfolding Cons by (auto simp: common_actions_def)
    moreover have "set s \<subseteq> set (cat_actions cat)" using agree Cons by (simp add: terms_agree_def)
    ultimately show ?thesis using b(2) by blast
  qed simp
  have ct: "ct_allowed ?t = [] \<or> (\<exists>b. b \<in> set (cat_actions cat) \<and> b \<notin> set (ct_forbidden ?t) \<and>
      (\<forall>s \<in> set (ct_allowed ?t). b \<in> set s))"
    using common by auto
  have "ct_forbidden ?t = pt_forbidden ?p" using agree by (simp add: terms_agree_def)
  with common have pt: "ct_allowed ?t = [] \<or> (\<exists>b. b \<in> set (cat_actions cat) \<and> b \<notin> set (pt_forbidden ?p) \<and>
      (\<forall>s \<in> set (pt_allowed ?p). b \<in> set s))"
    unfolding sets by auto
  show ?thesis
    by (rule conjI [OF agree conjI [OF policy_reads_terms [OF agree]]]) (use ct pt in blast)
qed

definition restricted_spec :: "json \<Rightarrow> task_specification" where
  "restricted_spec v = sample_spec\<lparr>spec_constraints := [\<lparr>con_version = 1, con_type = ForbiddenAction,
     con_description = ''no loans'', con_parameters = [(''action'', v)]\<rparr>], spec_authority := sample_authority
     \<lparr>approval_actions := []\<rparr>\<rparr>"

definition loan_action :: action where
  "loan_action = \<lparr>act_version = 1, act_type = ''take_loan'', act_parameters = [(''amount'', JInt 1000)],
     act_effect = ''cash'', act_cost = 0\<rparr>"

theorem constraints_enforced_as_validated_witness:
  "\<not> pol_allowed (policy_evaluate (restricted_spec (JStr ''take_loan'')) loan_action started_observation 0 sample_validation) \<and>
   pol_allowed (policy_evaluate (restricted_spec (JStr ''take_loan'')) sample_action started_observation 0 sample_validation)"
proof -
  let ?spec = "restricted_spec (JStr ''take_loan'')"
  have valid: "validate_specification (Some ?spec) reference_catalog = ok []" by code_simp
  have shape: "\<forall>c \<in> set (spec_constraints ?spec). canonical_constraint c" by code_simp
  have "\<not> compiler_permits (validate_constraints ?spec reference_catalog) loan_action (obs_state started_observation)"
    "compiler_permits (validate_constraints ?spec reference_catalog) sample_action (obs_state started_observation)"
    by code_simp+
  moreover have "money_permits ?spec sample_action (obs_state started_observation) 0 (repr_dec (av_cost sample_validation))"
    by (simp add: money_permits_def restricted_spec_def sample_spec_def sample_authority_def sample_validation_def dadd_def)
  moreover have "av_valid sample_validation" by (simp add: sample_validation_def)
  ultimately show ?thesis
    using constraints_enforced_as_validated [OF valid shape, of loan_action started_observation 0 sample_validation]
      constraints_enforced_as_validated [OF valid shape, of sample_action started_observation 0 sample_validation] by blast
qed

text \<open>
  A restriction that validates is not always enforced: with the forbidden action written as a list of one name, which
  the compiler accepts without an error, the policy engine allows exactly that action, which it refuses when the same
  constraint names the action as a string.
\<close>

theorem listed_restriction_not_enforced:
  "validate_specification (Some (restricted_spec (JList [JStr ''take_loan'']))) reference_catalog = ok [] \<and>
   pol_allowed (policy_evaluate (restricted_spec (JList [JStr ''take_loan''])) loan_action started_observation 0 sample_validation) \<and>
   validate_specification (Some (restricted_spec (JStr ''take_loan''))) reference_catalog = ok [] \<and>
   \<not> pol_allowed (policy_evaluate (restricted_spec (JStr ''take_loan'')) loan_action started_observation 0 sample_validation)"
  by (intro conjI; code_simp)

end
