(* ===== verification/GameDate.thy ===== *)
theory GameDate
  imports Json
begin

text \<open>
  \<open>format_game_date\<close> and \<open>_is_leap_year\<close> of \<open>openttd/protocol.py\<close>: the conversion of OpenTTD's day number to a
  proleptic Gregorian date. The specification counts days the other way: \<open>day_number\<close> of a date is the number
  of days of the years and the months before it.
\<close>

section \<open>The conversion\<close>

definition is_leap_year :: "int \<Rightarrow> bool" where
  "is_leap_year year \<longleftrightarrow> year mod 4 = 0 \<and> (year mod 100 \<noteq> 0 \<or> year mod 400 = 0)"

definition year_length :: "int \<Rightarrow> int" where
  "year_length year = (if is_leap_year year then 366 else 365)"

lemma year_length_pos: "0 < year_length year"
  by (simp add: year_length_def)

text \<open>\<open>while remaining >= (366 if _is_leap_year(year) else 365)\<close>\<close>

function skip_years :: "int \<Rightarrow> int \<Rightarrow> int \<times> int" where
  "skip_years year remaining =
     (if remaining \<ge> year_length year then skip_years (year + 1) (remaining - year_length year)
      else (year, remaining))"
  by pat_completeness auto
termination
proof (relation "measure (\<lambda>(year, remaining). nat remaining)")
  fix year remaining :: int
  assume "year_length year \<le> remaining"
  with year_length_pos [of year]
  show "((year + 1, remaining - year_length year), year, remaining) \<in> measure (\<lambda>(year, remaining). nat remaining)"
    by simp
qed simp

declare skip_years.simps [simp del]

definition month_lengths :: "int \<Rightarrow> int list" where
  "month_lengths year =
     [31, if is_leap_year year then 29 else 28, 31, 30, 31, 30, 31, 31, 30, 31, 30, 31]"

text \<open>The loop over the months; \<open>None\<close> is the \<open>AssertionError\<close> after it.\<close>

fun find_month :: "int list \<Rightarrow> int \<Rightarrow> int \<Rightarrow> (int \<times> int) option" where
  "find_month [] month remaining = None"
| "find_month (l # ls) month remaining =
     (if remaining < l then Some (month, remaining + 1) else find_month ls (month + 1) (remaining - l))"

text \<open>The centuries after the first of a 400-year cycle, then the first four years of a century without leap
  day, then blocks of four years.\<close>

definition skip_centuries :: "int \<times> int \<Rightarrow> int \<times> int" where
  "skip_centuries p = (case p of (year, remaining) \<Rightarrow>
     if remaining \<ge> 365 * 100 + 25 then
       (let later = remaining - (365 * 100 + 25) in
        (year + 100 + 100 * (later div (365 * 100 + 24)), later mod (365 * 100 + 24)))
     else (year, remaining))"

definition skip_short_block :: "int \<times> int \<Rightarrow> int \<times> int" where
  "skip_short_block p = (case p of (year, remaining) \<Rightarrow>
     if \<not> is_leap_year year \<and> remaining \<ge> 365 * 4 then (year + 4, remaining - 365 * 4) else (year, remaining))"

definition skip_blocks :: "int \<times> int \<Rightarrow> int \<times> int" where
  "skip_blocks p = (case p of (year, remaining) \<Rightarrow>
     (year + 4 * (remaining div (365 * 4 + 1)), remaining mod (365 * 4 + 1)))"

definition game_year :: "int \<Rightarrow> int \<times> int" where
  "game_year date_raw =
     (let p = skip_blocks (skip_short_block (skip_centuries
        (400 * (date_raw div (365 * 400 + 97)), date_raw mod (365 * 400 + 97)))) in
      skip_years (fst p) (snd p))"

text \<open>\<open>None\<close> in the result is the \<open>ValueError\<close> of a negative date, or the \<open>AssertionError\<close>.\<close>

definition game_date :: "int \<Rightarrow> (int \<times> int \<times> int) option" where
  "game_date date_raw =
     (if date_raw < 0 then None
      else (let (year, remaining) = game_year date_raw in
        map_option (Pair year) (find_month (month_lengths year) 1 remaining)))"

abbreviation two_digits :: "int \<Rightarrow> string" where
  "two_digits n \<equiv> pad_zeros 2 (int_text n)"

definition format_game_date :: "int \<Rightarrow> string option" where
  "format_game_date date_raw =
     map_option (\<lambda>(year, month, day). int_text year @ ''-'' @ two_digits month @ ''-'' @ two_digits day)
       (game_date date_raw)"

section \<open>The calendar\<close>

definition leap_days :: "int \<Rightarrow> int" where
  "leap_days year = (year + 3) div 4 - (year + 99) div 100 + (year + 399) div 400"

definition days_before_year :: "int \<Rightarrow> int" where
  "days_before_year year = 365 * year + leap_days year"

definition valid_date :: "int \<times> int \<times> int \<Rightarrow> bool" where
  "valid_date date \<longleftrightarrow> (case date of (year, month, day) \<Rightarrow> 0 \<le> year \<and> 1 \<le> month \<and> month \<le> 12 \<and>
     1 \<le> day \<and> day \<le> month_lengths year ! nat (month - 1))"

definition day_number :: "int \<times> int \<times> int \<Rightarrow> int" where
  "day_number date = (case date of (year, month, day) \<Rightarrow>
     days_before_year year + sum_list (take (nat (month - 1)) (month_lengths year)) + day - 1)"

lemma div_add_pred:
  fixes n x :: int
  assumes "0 < n"
  shows "(x + (n - 1)) div n = x div n + of_bool (x mod n \<noteq> 0)"
proof -
  define r where "r = x mod n"
  have r: "0 \<le> r" "r < n" using assms by (simp_all add: r_def)
  have "(x + (n - 1)) div n = x div n + (r + (n - 1)) div n"
  proof -
    have "x + (n - 1) = (r + (n - 1)) + (x div n) * n" by (simp add: r_def)
    then have "(x + (n - 1)) div n = ((r + (n - 1)) + (x div n) * n) div n" by (rule arg_cong)
    also have "\<dots> = x div n + (r + (n - 1)) div n" using assms by (intro div_mult_self1) simp
    finally show ?thesis .
  qed
  moreover have "(r + (n - 1)) div n = of_bool (r \<noteq> 0)"
  proof (cases "r = 0")
    case False
    with r assms show ?thesis by (simp add: int_div_pos_eq [where q = 1 and r = "r - 1"])
  qed (use assms in \<open>simp add: div_pos_pos_trivial\<close>)
  ultimately show ?thesis by (simp add: r_def)
qed

lemma leap_days_next: "leap_days (year + 1) = leap_days year + of_bool (is_leap_year year)"
proof -
  have step: "(year + n) div n = (year + k) div n + of_bool (year mod n = 0)" if "0 < n" "k = n - 1" for n k :: int
    using that by (simp add: div_add_pred)
  have combine: "a' - b' + c' = a - b + c + of_bool (P \<and> (\<not> Q \<or> R))"
    if "a' = a + of_bool P" "b' = b + of_bool Q" "c' = c + of_bool R" "R \<Longrightarrow> Q" "Q \<Longrightarrow> P"
    for a a' b b' c c' :: int and P Q R
    using that by (cases P; cases Q; cases R) simp_all
  have "year + 1 + 3 = year + 4" "year + 1 + 99 = year + 100" "year + 1 + 399 = year + 400" by simp_all
  then have "leap_days (year + 1) = (year + 4) div 4 - (year + 100) div 100 + (year + 400) div 400"
    by (simp only: leap_days_def)
  also have "\<dots> = leap_days year + of_bool (is_leap_year year)"
    unfolding leap_days_def is_leap_year_def
  proof (rule combine)
    show "year mod 400 = 0 \<Longrightarrow> year mod 100 = 0" "year mod 100 = 0 \<Longrightarrow> year mod 4 = 0"
      unfolding mod_eq_0_iff_dvd by (auto intro: dvd_trans [of 100 400] dvd_trans [of 4 100])
  qed (rule step; simp)+
  finally show ?thesis .
qed

lemma days_before_next: "days_before_year (year + 1) = days_before_year year + year_length year"
  by (simp add: days_before_year_def leap_days_next year_length_def)

section \<open>The conversion is right\<close>

text \<open>Each step keeps the day number \<open>days_before_year year + remaining\<close>.\<close>

abbreviation counted :: "int \<times> int \<Rightarrow> int" where
  "counted p \<equiv> days_before_year (fst p) + snd p"

lemma skip_years_counts: "counted (skip_years year remaining) = days_before_year year + remaining"
proof (induction year remaining rule: skip_years.induct)
  case (1 year remaining)
  then show ?case by (simp add: skip_years.simps [of year remaining] days_before_next)
qed

lemma skip_years_range:
  "0 \<le> year \<Longrightarrow> 0 \<le> remaining \<Longrightarrow> 0 \<le> fst (skip_years year remaining) \<and>
     0 \<le> snd (skip_years year remaining) \<and>
     snd (skip_years year remaining) < year_length (fst (skip_years year remaining))"
proof (induction year remaining rule: skip_years.induct)
  case (1 year remaining)
  then show ?case by (simp add: skip_years.simps [of year remaining])
qed

lemma cycle_days: "days_before_year (400 * n) = 146097 * n"
  by (simp add: days_before_year_def leap_days_def)

lemma century_days:
  assumes "0 \<le> c" and "c \<le> 3"
  shows "days_before_year (400 * n + 100 * c) = 146097 * n + 36524 * c + of_bool (0 < c)"
proof -
  from assms consider "c = 0" | "c = 1" | "c = 2" | "c = 3" by linarith
  then show ?thesis by cases (simp_all add: days_before_year_def leap_days_def)
qed

text \<open>Within a century, after its first four years, every fourth year is a leap year.\<close>

lemma leap_days_in_century:
  assumes "0 \<le> c" and "0 < k" and "k \<le> 25"
  shows "leap_days (100 * c + 4 * k) = leap_days (100 * c) + (k - 1) + of_bool (is_leap_year (100 * c))"
proof -
  define q r where "q = c div 4" and "r = c mod 4"
  then have c: "c = 4 * q + r" "0 \<le> r" "r \<le> 3" using pos_mod_bound [of 4 c] by auto
  have far: "m div n = i + x div n" if "m = n * i + x" "0 < n" for m n i x :: int
    using that by (simp add: add.commute)
  have one: "x div n = 1" if "n \<le> x" "x < 2 * n" for n x :: int
    using that by (intro int_div_pos_eq [where r = "x - n"]) auto
  have "(100 * c + 4 * k + 3) div 4 = k + (100 * c + 3) div 4" by (rule far) simp_all
  moreover have "(100 * c + 4 * k + 99) div 100 = c + (4 * k + 99) div 100" "(100 * c + 99) div 100 = c + 99 div 100"
    by (rule far; simp)+
  moreover have "(4 * k + 99) div 100 = 1" by (rule one) (use assms in simp_all)
  moreover have "(100 * c + 4 * k + 399) div 400 = q + (100 * r + 4 * k + 399) div 400"
    "(100 * c + 399) div 400 = q + (100 * r + 399) div 400" by (rule far; simp add: c(1))+
  moreover have "(100 * r + 4 * k + 399) div 400 = 1" by (rule one) (use assms c in simp_all)
  moreover have "(100 * r + 399) div 400 = of_bool (r \<noteq> 0)"
    using one [of 400 "100 * r + 399"] c by (cases "r = 0") simp_all
  moreover have "is_leap_year (100 * c) \<longleftrightarrow> r = 0" using c(2,3) by (auto simp: is_leap_year_def c(1))
  then have "of_bool (r \<noteq> 0) = 1 - (of_bool (is_leap_year (100 * c)) :: int)" by simp
  moreover have "99 div 100 = (0 :: int)" by simp
  ultimately show ?thesis unfolding leap_days_def by linarith
qed

section \<open>The stages\<close>

lemma div_range:
  fixes x n k :: int
  assumes "0 < n" and "0 \<le> x" and "x < n * k"
  shows "0 \<le> x div n" and "x div n < k"
proof -
  show "0 \<le> x div n" using assms(1,2) by (simp add: pos_imp_zdiv_nonneg_iff)
  have "n * (x div n) \<le> x" using assms(1) by (simp add: mult.commute minus_mod_eq_mult_div [symmetric])
  then have "n * (x div n) < n * k" using assms(3) by linarith
  then show "x div n < k" using assms(1) by simp
qed

lemma skip_centuries_counts:
  fixes q r :: int
  assumes "0 \<le> r" and "r < 146097"
  defines "p \<equiv> skip_centuries (400 * q, r)"
  shows "counted p = 146097 * q + r \<and> (\<exists>c. fst p = 100 * c \<and> 4 * q \<le> c) \<and> 0 \<le> snd p \<and>
    snd p < 36524 + of_bool (is_leap_year (fst p))"
proof (cases "r \<ge> 36525")
  case False
  then have p: "p = (400 * q, r)" by (simp add: p_def skip_centuries_def)
  have "is_leap_year (400 * q)" by (simp add: is_leap_year_def)
  with False assms(1) cycle_days [of q] show ?thesis by (auto simp: p intro!: exI [of _ "4 * q"])
next
  case True
  define c where "c = 1 + (r - 36525) div 36524"
  have c: "1 \<le> c" "c \<le> 3" using True assms(2) div_range [of 36524 "r - 36525" 3] by (simp_all add: c_def)
  have p: "p = (400 * q + 100 * c, (r - 36525) mod 36524)"
    using True by (simp add: p_def skip_centuries_def Let_def c_def)
  have "r - 36525 = 36524 * (c - 1) + (r - 36525) mod 36524" by (simp add: c_def)
  with century_days [of c q] c have "counted p = 146097 * q + r" by (simp add: p)
  moreover have "\<not> is_leap_year (400 * q + 100 * c)" using c by (simp add: is_leap_year_def)
  ultimately show ?thesis using c by (auto simp: p intro!: exI [of _ "4 * q + c"])
qed

lemma skip_short_block_counts:
  fixes c r :: int
  assumes "0 \<le> c" and "0 \<le> r" and "r < 36524 + of_bool (is_leap_year (100 * c))"
  defines "p \<equiv> skip_short_block (100 * c, r)"
  shows "counted (skip_blocks p) = days_before_year (100 * c) + r \<and> 0 \<le> snd (skip_blocks p) \<and>
    100 * c \<le> fst (skip_blocks p)"
proof (cases "is_leap_year (100 * c) \<or> r < 1460")
  case True
  then have p: "p = (100 * c, r)" by (auto simp: p_def skip_short_block_def)
  define k where "k = r div 1461"
  have r: "r = 1461 * k + r mod 1461" by (simp add: k_def)
  have k: "0 \<le> k" "k \<le> 25" using assms(2,3) div_range [of 1461 r 26] by (simp_all add: k_def of_bool_def split: if_splits)
  have "days_before_year (100 * c + 4 * k) = days_before_year (100 * c) + 1461 * k"
  proof (cases "k = 0")
    case False
    then have "\<not> r < 1460" using div_pos_pos_trivial [of r 1461] assms(2) by (auto simp: k_def)
    then have "is_leap_year (100 * c)" using True by simp
    with leap_days_in_century [of c k] False k assms(1) show ?thesis by (simp add: days_before_year_def)
  qed simp
  then show ?thesis using r k by (auto simp: skip_blocks_def p simp flip: k_def)
next
  case False
  then have p: "p = (100 * c + 4, r - 1460)" by (auto simp: p_def skip_short_block_def)
  define k where "k = (r - 1460) div 1461"
  have r: "r - 1460 = 1461 * k + (r - 1460) mod 1461" by (simp add: k_def)
  have k: "0 \<le> k" "k \<le> 24" using False assms(3) div_range [of 1461 "r - 1460" 25] by (simp_all add: k_def)
  have "days_before_year (100 * c + 4 * (k + 1)) = days_before_year (100 * c) + 1460 + 1461 * k"
    using leap_days_in_century [of c "k + 1"] False k assms(1) by (simp add: days_before_year_def)
  then show ?thesis using r k by (auto simp: skip_blocks_def p algebra_simps simp flip: k_def)
qed

lemma game_year_counts:
  assumes "0 \<le> date_raw"
  defines "p \<equiv> game_year date_raw"
  shows "counted p = date_raw" and "0 \<le> fst p" and "0 \<le> snd p" and "snd p < year_length (fst p)"
proof -
  define q r where "q = date_raw div 146097" and "r = date_raw mod 146097"
  have qr: "date_raw = 146097 * q + r" "0 \<le> q" "0 \<le> r" "r < 146097"
    using assms(1) by (auto simp: q_def r_def pos_imp_zdiv_nonneg_iff)
  obtain c where c: "fst (skip_centuries (400 * q, r)) = 100 * c" "4 * q \<le> c"
    and century: "counted (skip_centuries (400 * q, r)) = 146097 * q + r" "0 \<le> snd (skip_centuries (400 * q, r))"
      "snd (skip_centuries (400 * q, r)) < 36524 + of_bool (is_leap_year (100 * c))"
    using skip_centuries_counts [OF qr(3,4), of q] by auto
  let ?b = "skip_blocks (skip_short_block (skip_centuries (400 * q, r)))"
  have "skip_centuries (400 * q, r) = (100 * c, snd (skip_centuries (400 * q, r)))" using c(1) by (metis prod.collapse)
  with skip_short_block_counts [OF _ century(2,3)] c qr(2) century(1)
  have b: "counted ?b = date_raw" "0 \<le> snd ?b" "0 \<le> fst ?b" by (auto simp: qr(1))
  have p: "p = skip_years (fst ?b) (snd ?b)" by (simp add: p_def game_year_def Let_def q_def r_def)
  show "counted p = date_raw" using b skip_years_counts [of "fst ?b" "snd ?b"] by (simp add: p)
  show "0 \<le> fst p" "0 \<le> snd p" "snd p < year_length (fst p)"
    using skip_years_range [OF b(3,2)] by (simp_all add: p)
qed

lemma find_month_found:
  "0 \<le> remaining \<Longrightarrow> remaining < sum_list ls \<Longrightarrow>
     \<exists>i day. find_month ls month remaining = Some (month + int i, day) \<and> i < length ls \<and>
       1 \<le> day \<and> day \<le> ls ! i \<and> sum_list (take i ls) + day - 1 = remaining"
proof (induction ls arbitrary: month remaining)
  case (Cons l ls)
  show ?case
  proof (cases "remaining < l")
    case True
    with Cons.prems show ?thesis by (intro exI [of _ 0] exI [of _ "remaining + 1"]) simp
  next
    case False
    with Cons.IH [of "remaining - l" "month + 1"] Cons.prems obtain i day where
      "find_month ls (month + 1) (remaining - l) = Some (month + 1 + int i, day)" "i < length ls"
      "1 \<le> day" "day \<le> ls ! i" "sum_list (take i ls) + day - 1 = remaining - l" by auto
    with False show ?thesis by (intro exI [of _ "Suc i"] exI [of _ day]) (simp add: add.assoc)
  qed
qed simp

lemma month_lengths_sum: "sum_list (month_lengths year) = year_length year" "length (month_lengths year) = 12"
  by (simp_all add: month_lengths_def year_length_def)

text \<open>
  C35. The date that OpenTTD's day number is shown as is the right one: for every day number from zero on, the
  conversion with its century, block, year and month steps ends (the \<open>AssertionError\<close> is unreachable), and its
  result is a valid date of the proleptic Gregorian calendar with exactly that many days before it.
\<close>

theorem game_date_correct:
  assumes "0 \<le> date_raw"
  shows "\<exists>date. game_date date_raw = Some date \<and> valid_date date \<and> day_number date = date_raw"
proof -
  obtain year remaining where p: "game_year date_raw = (year, remaining)" by fastforce
  note counts = game_year_counts [OF assms, unfolded p fst_conv snd_conv]
  from find_month_found [of remaining "month_lengths year" 1] counts(3,4)
  obtain i day where i: "find_month (month_lengths year) 1 remaining = Some (1 + int i, day)" "i < 12"
    "1 \<le> day" "day \<le> month_lengths year ! i" "sum_list (take i (month_lengths year)) + day - 1 = remaining"
    by (auto simp: month_lengths_sum)
  have "game_date date_raw = Some (year, 1 + int i, day)" using assms p i(1) by (simp add: game_date_def)
  moreover have "valid_date (year, 1 + int i, day)" using counts(2) i by (simp add: valid_date_def)
  moreover have "day_number (year, 1 + int i, day) = date_raw" using counts(1) i(5) by (simp add: day_number_def)
  ultimately show ?thesis by blast
qed

theorem game_date_correct_witness:
  "\<exists>date. game_date 712223 = Some date \<and> valid_date date \<and> day_number date = 712223"
  using game_date_correct [of 712223] by simp

end
