(* ===== verification/Utf8.thy ===== *)
theory Utf8
  imports Prelude "HOL-Library.Word"
begin

text \<open>
  UTF-8 as Python's strict codec has it, for the strings of the OpenTTD protocol. A Python string is here the
  list of its code points: these strings come from the game and are not restricted to the characters of HOL.
  Encoding fails on surrogates; decoding accepts exactly the well-formed sequences (shortest form, no surrogates,
  nothing above \<open>0x10FFFF\<close>).
\<close>

type_synonym byte = "8 word"
type_synonym bytes = "byte list"
type_synonym ustring = "int list"

definition ascii :: "string \<Rightarrow> ustring" where
  "ascii s = map of_char s"

definition byte_of :: "int \<Rightarrow> byte" where
  "byte_of n = word_of_int n"

section \<open>Encoding\<close>

definition scalar :: "int \<Rightarrow> bool" where
  "scalar c \<longleftrightarrow> 0 \<le> c \<and> c < 0x110000 \<and> \<not> (0xD800 \<le> c \<and> c < 0xE000)"

definition utf8_bytes :: "int \<Rightarrow> bytes" where
  "utf8_bytes c =
     (if c < 0x80 then [byte_of c]
      else if c < 0x800 then [byte_of (0xC0 + c div 64), byte_of (0x80 + c mod 64)]
      else if c < 0x10000 then
        [byte_of (0xE0 + c div 4096), byte_of (0x80 + c div 64 mod 64), byte_of (0x80 + c mod 64)]
      else [byte_of (0xF0 + c div 262144), byte_of (0x80 + c div 4096 mod 64),
        byte_of (0x80 + c div 64 mod 64), byte_of (0x80 + c mod 64)])"

text \<open>\<open>None\<close> is \<open>UnicodeEncodeError\<close>.\<close>

definition utf8_encode :: "ustring \<Rightarrow> bytes option" where
  "utf8_encode cs = (if list_all scalar cs then Some (concat (map utf8_bytes cs)) else None)"

section \<open>Decoding\<close>

definition continuation :: "byte \<Rightarrow> bool" where
  "continuation b \<longleftrightarrow> 0x80 \<le> uint b \<and> uint b < 0xC0"

abbreviation low_bits :: "byte \<Rightarrow> int" where
  "low_bits b \<equiv> uint b - 0x80"

text \<open>\<open>None\<close> is \<open>UnicodeDecodeError\<close>.\<close>

fun utf8_decode :: "bytes \<Rightarrow> ustring option" where
  "utf8_decode [] = Some []"
| "utf8_decode (a # bs) =
     (let x = uint a in
      if x < 0x80 then map_option ((#) x) (utf8_decode bs)
      else if 0xC2 \<le> x \<and> x < 0xE0 then
        (case bs of b # bs' \<Rightarrow>
           if continuation b
           then map_option ((#) ((x - 0xC0) * 64 + low_bits b)) (utf8_decode bs') else None
         | _ \<Rightarrow> None)
      else if 0xE0 \<le> x \<and> x < 0xF0 then
        (case bs of b # c # bs' \<Rightarrow>
           if continuation b \<and> continuation c \<and> (x = 0xE0 \<longrightarrow> 0xA0 \<le> uint b) \<and> (x = 0xED \<longrightarrow> uint b < 0xA0)
           then map_option ((#) ((x - 0xE0) * 4096 + low_bits b * 64 + low_bits c)) (utf8_decode bs') else None
         | _ \<Rightarrow> None)
      else if 0xF0 \<le> x \<and> x < 0xF5 then
        (case bs of b # c # d # bs' \<Rightarrow>
           if continuation b \<and> continuation c \<and> continuation d \<and> (x = 0xF0 \<longrightarrow> 0x90 \<le> uint b) \<and>
             (x = 0xF4 \<longrightarrow> uint b < 0x90)
           then map_option ((#) ((x - 0xF0) * 262144 + low_bits b * 4096 + low_bits c * 64 + low_bits d))
             (utf8_decode bs') else None
         | _ \<Rightarrow> None)
      else None)"

section \<open>The codec is exact\<close>

lemma uint_byte_of: "0 \<le> n \<Longrightarrow> n < 256 \<Longrightarrow> uint (byte_of n) = n"
  by (simp add: byte_of_def uint_word_of_int)

lemma base64_digits:
  fixes c :: int
  assumes "0 \<le> c"
  obtains q r where "c div 64 = q" "c mod 64 = r" "c = q * 64 + r" "0 \<le> q" "0 \<le> r" "r < 64"
proof (rule that [OF refl refl])
  show "c = c div 64 * 64 + c mod 64" by simp
  show "0 \<le> c div 64" using assms by (simp add: pos_imp_zdiv_nonneg_iff)
qed simp_all

lemma utf8_decode_bytes:
  assumes "scalar c"
  shows "utf8_decode (utf8_bytes c @ bs) = map_option ((#) c) (utf8_decode bs)"
proof -
  have range: "0 \<le> c" "c < 0x110000" "c < 0xD800 \<or> 0xE000 \<le> c" using assms by (auto simp: scalar_def)
  obtain q1 r1 where d1: "c div 64 = q1" "c mod 64 = r1" "c = q1 * 64 + r1" "0 \<le> q1" "0 \<le> r1" "r1 < 64"
    using base64_digits [OF range(1)] .
  obtain q2 r2 where d2: "q1 div 64 = q2" "q1 mod 64 = r2" "q1 = q2 * 64 + r2" "0 \<le> q2" "0 \<le> r2" "r2 < 64"
    using base64_digits [OF d1(4)] .
  obtain q3 r3 where d3: "q2 div 64 = q3" "q2 mod 64 = r3" "q2 = q3 * 64 + r3" "0 \<le> q3" "0 \<le> r3" "r3 < 64"
    using base64_digits [OF d2(4)] .
  have quotients: "c div 4096 = q2" "c div 262144 = q3"
    using zdiv_zmult2_eq [of 64 c 64] zdiv_zmult2_eq [of 64 c 4096] zdiv_zmult2_eq [of 64 q1 64] d1(1) d2(1) d3(1) by simp_all
  note digits = quotients d1(1,2) d2(1,2) d3(1,2)
  consider "c < 0x80" | "0x80 \<le> c" "c < 0x800" | "0x800 \<le> c" "c < 0x10000" | "0x10000 \<le> c" by linarith
  then show ?thesis
  proof cases
    case 1
    with range show ?thesis by (simp add: utf8_bytes_def uint_byte_of)
  next
    case 2
    then have "2 \<le> q1" "q1 < 32" using d1 by linarith+
    with 2 d1 show ?thesis by (simp add: utf8_bytes_def digits uint_byte_of continuation_def Let_def)
  next
    case 3
    then have "q2 < 16" "q2 = 0 \<Longrightarrow> 32 \<le> r2" "q2 = 13 \<Longrightarrow> r2 < 32" using d1(3,5,6) d2(3,5,6) range(3) by linarith+
    moreover have "utf8_bytes c = [byte_of (0xE0 + q2), byte_of (0x80 + r2), byte_of (0x80 + r1)]"
      using 3 unfolding utf8_bytes_def digits by simp
    moreover have "q2 * 4096 + r2 * 64 + r1 = c" using d1(3) d2(3) by simp
    ultimately show ?thesis
      using d1(5,6) d2(4,5,6) by (simp add: uint_byte_of continuation_def Let_def)
  next
    case 4
    then have "q3 < 5" "q3 = 0 \<Longrightarrow> 16 \<le> r3" "q3 = 4 \<Longrightarrow> r3 < 16"
      using d1(3,5,6) d2(3,5,6) d3(3,5,6) range(2) by linarith+
    moreover have "utf8_bytes c =
        [byte_of (0xF0 + q3), byte_of (0x80 + r3), byte_of (0x80 + r2), byte_of (0x80 + r1)]"
      using 4 unfolding utf8_bytes_def digits by simp
    moreover have "q3 * 262144 + r3 * 4096 + r2 * 64 + r1 = c" using d1(3) d2(3) d3(3) by simp
    ultimately show ?thesis
      using d1(5,6) d2(5,6) d3(4,5,6) by (simp add: uint_byte_of continuation_def Let_def)
  qed
qed

lemma utf8_decode_encode:
  "utf8_encode cs = Some bs \<Longrightarrow> utf8_decode bs = Some cs"
proof (induction cs arbitrary: bs)
  case (Cons c cs)
  then show ?case by (auto simp: utf8_encode_def utf8_decode_bytes split: if_splits)
qed (simp add: utf8_encode_def)

lemma byte_of_eqI: "uint a = n \<Longrightarrow> byte_of n = a"
  by (auto simp: byte_of_def)

lemma base64_join:
  fixes q r :: int
  assumes "0 \<le> r" and "r < 64"
  shows "(q * 64 + r) div 64 = q" and "(q * 64 + r) mod 64 = r"
  using assms by simp_all

lemma utf8_bytes_2:
  assumes "0xC2 \<le> uint a" and "uint a < 0xE0" and "continuation b"
  defines "n \<equiv> (uint a - 0xC0) * 64 + low_bits b"
  shows "scalar n \<and> utf8_bytes n = [a, b]"
proof -
  have b: "0 \<le> low_bits b" "low_bits b < 64" using assms(3) by (auto simp: continuation_def)
  then have "n div 64 = uint a - 0xC0" "n mod 64 = low_bits b" by (simp_all only: n_def base64_join)
  moreover have "0x80 \<le> n" "n < 0x800" using assms(1,2) b by (simp_all add: n_def)
  ultimately show ?thesis by (simp add: utf8_bytes_def scalar_def byte_of_eqI)
qed

lemma utf8_bytes_3:
  assumes "0xE0 \<le> uint a" and "uint a < 0xF0" and "continuation b" and "continuation c"
    and "uint a = 0xE0 \<longrightarrow> 0xA0 \<le> uint b" and "uint a = 0xED \<longrightarrow> uint b < 0xA0"
  defines "n \<equiv> (uint a - 0xE0) * 4096 + low_bits b * 64 + low_bits c"
  shows "scalar n \<and> utf8_bytes n = [a, b, c]"
proof -
  have b: "0 \<le> low_bits b" "low_bits b < 64" "0 \<le> low_bits c" "low_bits c < 64"
    using assms(3,4) by (auto simp: continuation_def)
  define q where "q = (uint a - 0xE0) * 64 + low_bits b"
  have q: "q div 64 = uint a - 0xE0" "q mod 64 = low_bits b" using b by (simp_all only: q_def base64_join)
  have n: "n = q * 64 + low_bits c" by (simp add: n_def q_def)
  have d: "n div 64 = q" "n mod 64 = low_bits c" using b by (simp_all only: n base64_join)
  then have "n div 4096 = uint a - 0xE0" using zdiv_zmult2_eq [of 64 n 64] q(1) by simp
  moreover have "n < 0xD800 \<or> 0xE000 \<le> n" 
    using assms(1,2,6) b 
    unfolding n_def by (cases "uint a = 0xED"; cases "uint a < 0xED"; simp?; linarith?)
  moreover have "0x800 \<le> n" using assms(1,5) b 
    unfolding n_def by (cases "uint a = 0xE0"; simp?; linarith?)
  moreover have "n < 0x10000" using assms(2) b unfolding n_def by simp
  ultimately show ?thesis using d q by (auto simp: utf8_bytes_def scalar_def byte_of_eqI)
qed

lemma utf8_bytes_4:
  assumes "0xF0 \<le> uint a" and "uint a < 0xF5" and "continuation b" and "continuation c" and "continuation d"
    and "uint a = 0xF0 \<longrightarrow> 0x90 \<le> uint b" and "uint a = 0xF4 \<longrightarrow> uint b < 0x90"
  defines "n \<equiv> (uint a - 0xF0) * 262144 + low_bits b * 4096 + low_bits c * 64 + low_bits d"
  shows "scalar n \<and> utf8_bytes n = [a, b, c, d]"
proof -
  have b: "0 \<le> low_bits b" "low_bits b < 64" "0 \<le> low_bits c" "low_bits c < 64" "0 \<le> low_bits d" "low_bits d < 64"
    using assms(3,4,5) by (auto simp: continuation_def)
  define p where "p = (uint a - 0xF0) * 64 + low_bits b"
  define q where "q = p * 64 + low_bits c"
  have p: "p div 64 = uint a - 0xF0" "p mod 64 = low_bits b" using b by (simp_all only: p_def base64_join)
  have q: "q div 64 = p" "q mod 64 = low_bits c" using b by (simp_all only: q_def base64_join)
  have n: "n = q * 64 + low_bits d" by (simp add: n_def p_def q_def)
  have d: "n div 64 = q" "n mod 64 = low_bits d" using b by (simp_all only: n base64_join)
  then have e: "n div 4096 = p" "n div 262144 = uint a - 0xF0"
    using zdiv_zmult2_eq [of 64 n 64] zdiv_zmult2_eq [of 64 n 4096] zdiv_zmult2_eq [of 64 q 64] p(1) q(1) by simp_all
  have low: "0x10000 \<le> n" using assms(1,6) b
    unfolding n_def by (cases "uint a = 0xF0"; simp?; linarith?)
  have high: "n < 0x110000" using assms(2,7) b
    unfolding n_def by (cases "uint a = 0xF4"; simp?; linarith?)
  have "utf8_bytes n = [byte_of (0xF0 + (uint a - 0xF0)), byte_of (0x80 + low_bits b), byte_of (0x80 + low_bits c),
      byte_of (0x80 + low_bits d)]"
    using low unfolding utf8_bytes_def e d p(2) q(2) by simp
  moreover have "scalar n" using low high by (simp add: scalar_def)
  ultimately show ?thesis by (simp add: byte_of_eqI)
qed

lemma utf8_encode_Cons:
  "scalar c \<Longrightarrow> utf8_encode cs = Some bs \<Longrightarrow> utf8_encode (c # cs) = Some (utf8_bytes c @ bs)"
  by (auto simp: utf8_encode_def split: if_splits)

lemma utf8_encode_decode: "utf8_decode bs = Some cs \<Longrightarrow> utf8_encode cs = Some bs"
proof (induction bs arbitrary: cs rule: utf8_decode.induct)
  case 1
  then show ?case by (simp add: utf8_encode_def)
next
  case (2 a bs)
  let ?x = "uint a"
  consider "?x < 0x80" | "0xC2 \<le> ?x \<and> ?x < 0xE0" | "0xE0 \<le> ?x \<and> ?x < 0xF0" | "0xF0 \<le> ?x \<and> ?x < 0xF5"
    using "2.prems" by (auto simp: Let_def split: if_splits)
  then show ?case
  proof cases
    case 1
    then have "scalar ?x" "utf8_bytes ?x = [a]" by (simp_all add: scalar_def utf8_bytes_def byte_of_eqI)
    with 1 "2.prems" "2.IH"(1) show ?thesis by (auto simp: utf8_encode_Cons)
  next
    case two: 2
    with "2.prems" obtain b bs' cs' where bs: "bs = b # bs'" "continuation b" "utf8_decode bs' = Some cs'"
      "cs = ((?x - 0xC0) * 64 + low_bits b) # cs'" by (auto simp: Let_def split: list.splits if_splits)
    with two "2.IH"(2) have "utf8_encode cs' = Some bs'" by auto
    with utf8_bytes_2 [of a b] two bs show ?thesis by (auto simp: utf8_encode_Cons)
  next
    case three: 3
    with "2.prems" obtain b c bs' cs' where bs: "bs = b # c # bs'" "continuation b" "continuation c"
      "?x = 0xE0 \<longrightarrow> 0xA0 \<le> uint b" "?x = 0xED \<longrightarrow> uint b < 0xA0" "utf8_decode bs' = Some cs'"
      "cs = ((?x - 0xE0) * 4096 + low_bits b * 64 + low_bits c) # cs'" by (auto simp: Let_def split: list.splits if_splits)
    with three "2.IH"(3) have "utf8_encode cs' = Some bs'" by auto
    with utf8_bytes_3 [of a b c] three bs show ?thesis by (auto simp: utf8_encode_Cons)
  next
    case four: 4
    with "2.prems" obtain b c d bs' cs' where bs: "bs = b # c # d # bs'" "continuation b" "continuation c" "continuation d"
      "?x = 0xF0 \<longrightarrow> 0x90 \<le> uint b" "?x = 0xF4 \<longrightarrow> uint b < 0x90" "utf8_decode bs' = Some cs'"
      "cs = ((?x - 0xF0) * 262144 + low_bits b * 4096 + low_bits c * 64 + low_bits d) # cs'"
      by (auto simp: Let_def split: list.splits if_splits)
    with four "2.IH"(4) have "utf8_encode cs' = Some bs'" by auto
    with utf8_bytes_4 [of a b c d] four bs show ?thesis by (auto simp: utf8_encode_Cons)
  qed
qed

end
