(* ===== verification/OpenTTDProtocol.thy ===== *)
theory OpenTTDProtocol
  imports Utf8 GameDate
begin

text \<open>
  The Admin Network codec \<open>openttd/protocol.py\<close>: the bounded \<open>PacketReader\<close> with its offset, the packets and
  their payloads, the encoders of the client and \<open>decode_packet\<close>. A reader method is a program over the reader's
  state; the exceptions are those of \<open>openttd/errors.py\<close> with the ones of Python and pydantic that this code lets
  out (\<open>ValueError\<close>, \<open>struct.error\<close>, a failed validation). \<open>UnsupportedVersion\<close> holds the expected and the received
  version instead of the message made of them.
\<close>

section \<open>Errors and packet types\<close>

datatype openttd_exn =
    ConnectionRefused string
  | ProtocolMismatch string
  | UnsupportedVersion ustring ustring
  | InvalidResponse string
  | Disconnected string
  | StateUnavailable string
  | OpenTTDTimeout string
  | BadValue string
  | ModelInvalid string
  | StructError

datatype packet_type =
    AdminJoin | AdminQuit | AdminUpdateFrequency | AdminPoll | AdminRcon | AdminGamescript
  | ServerFull | ServerBanned | ServerError | ServerProtocol | ServerWelcome | ServerNewgame | ServerShutdown
  | ServerDate | ServerCompanyNew | ServerCompanyInfo | ServerCompanyUpdate | ServerCompanyRemove
  | ServerCompanyEconomy | ServerCompanyStats | ServerRcon | ServerGamescript | ServerRconEnd

fun packet_code :: "packet_type \<Rightarrow> int" where
  "packet_code AdminJoin = 0"
| "packet_code AdminQuit = 1"
| "packet_code AdminUpdateFrequency = 2"
| "packet_code AdminPoll = 3"
| "packet_code AdminRcon = 5"
| "packet_code AdminGamescript = 6"
| "packet_code ServerFull = 100"
| "packet_code ServerBanned = 101"
| "packet_code ServerError = 102"
| "packet_code ServerProtocol = 103"
| "packet_code ServerWelcome = 104"
| "packet_code ServerNewgame = 105"
| "packet_code ServerShutdown = 106"
| "packet_code ServerDate = 107"
| "packet_code ServerCompanyNew = 113"
| "packet_code ServerCompanyInfo = 114"
| "packet_code ServerCompanyUpdate = 115"
| "packet_code ServerCompanyRemove = 116"
| "packet_code ServerCompanyEconomy = 117"
| "packet_code ServerCompanyStats = 118"
| "packet_code ServerRcon = 120"
| "packet_code ServerGamescript = 124"
| "packet_code ServerRconEnd = 125"

datatype update_type = UpdateDate | UpdateClientInfo | UpdateCompanyInfo | UpdateCompanyEconomy
  | UpdateCompanyStats | UpdateGamescript

fun update_code :: "update_type \<Rightarrow> int" where
  "update_code UpdateDate = 0"
| "update_code UpdateClientInfo = 1"
| "update_code UpdateCompanyInfo = 2"
| "update_code UpdateCompanyEconomy = 3"
| "update_code UpdateCompanyStats = 4"
| "update_code UpdateGamescript = 9"

datatype update_frequency = FrequencyPoll | FrequencyAutomatic

fun frequency_code :: "update_frequency \<Rightarrow> int" where
  "frequency_code FrequencyPoll = 1"
| "frequency_code FrequencyAutomatic = 64"

definition max_packet_size :: nat where
  "max_packet_size = 1460"

definition all_companies :: int where
  "all_companies = 0xFFFFFFFF"

section \<open>Payloads\<close>

record protocol_description =
  pd_version :: int
  pd_frequencies :: "(int \<times> int) list"

record server_welcome =
  wl_server_name :: ustring
  wl_version :: ustring
  wl_dedicated :: bool
  wl_map_name :: ustring
  wl_seed :: int
  wl_landscape :: int
  wl_start_date :: int
  wl_width :: int
  wl_height :: int

record company_info =
  ci_company :: int
  ci_name :: ustring
  ci_manager :: ustring
  ci_colour :: int
  ci_protected :: bool
  ci_inaugurated :: int
  ci_is_ai :: bool
  ci_bankruptcy :: int

record company_economy =
  ec_company :: int
  ec_cash :: int
  ec_loan :: int
  ec_net_income :: int
  ec_delivered_current :: int
  ec_value_last :: int
  ec_performance_last :: int
  ec_delivered_last :: int
  ec_value_previous :: int
  ec_performance_previous :: int
  ec_delivered_previous :: int

type_synonym counts = "int \<times> int \<times> int \<times> int \<times> int"

record company_stats =
  cs_company :: int
  cs_vehicles :: counts
  cs_stations :: counts

datatype payload =
    PProtocol protocol_description
  | PWelcome server_welcome
  | PInt int
  | PInfo company_info
  | PEconomy company_economy
  | PStats company_stats
  | PRcon int ustring
  | PText ustring
  | PRaw bytes

record packet =
  pk_type :: int
  pk_payload :: payload

section \<open>The packet reader\<close>

record reader =
  rd_data :: bytes
  rd_offset :: nat

type_synonym 'a reading = "(reader, openttd_exn, 'a) prog"

definition take_bytes :: "nat \<Rightarrow> bytes reading" where
  "take_bytes n r =
     (if rd_offset r + n > length (rd_data r)
      then (raise (InvalidResponse ''truncated OpenTTD Admin Network packet''), r)
      else (ok (take n (drop (rd_offset r) (rd_data r))), r\<lparr>rd_offset := rd_offset r + n\<rparr>))"

text \<open>\<open>struct.unpack\<close> of an unsigned little-endian value; the signed form reads the same bits as two's complement.\<close>

definition le_value :: "bytes \<Rightarrow> int" where
  "le_value bs = horner_sum uint 256 bs"

definition read_uint :: "nat \<Rightarrow> int reading" where
  "read_uint n = seq (take_bytes n) (\<lambda>bs. ret (le_value bs))"

abbreviation read_u8 :: "int reading" where
  "read_u8 \<equiv> read_uint 1"

abbreviation read_u16 :: "int reading" where
  "read_u16 \<equiv> read_uint 2"

abbreviation read_u32 :: "int reading" where
  "read_u32 \<equiv> read_uint 4"

abbreviation read_u64 :: "int reading" where
  "read_u64 \<equiv> read_uint 8"

definition read_i64 :: "int reading" where
  "read_i64 = seq (take_bytes 8) (\<lambda>bs. ret (sint (word_of_int (le_value bs) :: 64 word)))"

definition read_boolean :: "bool reading" where
  "read_boolean = seq read_u8 (\<lambda>v.
     if v \<notin> {0, 1} then throw (InvalidResponse ''invalid protocol boolean'') else ret (v = 1))"

definition read_string :: "ustring reading" where
  "read_string r =
     (let rest = drop (rd_offset r) (rd_data r); raw = takeWhile (\<lambda>b. b \<noteq> 0) rest in
      if length raw = length rest then (raise (InvalidResponse ''unterminated protocol string''), r)
      else (case utf8_decode raw of
              None \<Rightarrow> raise (InvalidResponse ''invalid UTF-8 protocol string'')
            | Some s \<Rightarrow> ok s, r\<lparr>rd_offset := rd_offset r + length raw + 1\<rparr>))"

definition read_counts :: "counts reading" where
  "read_counts = seq read_u16 (\<lambda>a. seq read_u16 (\<lambda>b. seq read_u16 (\<lambda>c. seq read_u16 (\<lambda>d.
     seq read_u16 (\<lambda>e. ret (a, b, c, d, e))))))"

section \<open>Decoding\<close>

text \<open>\<open>while reader.boolean()\<close>: every turn takes at least five bytes.\<close>

function read_frequencies :: "(int \<times> int) list \<Rightarrow> (int \<times> int) list reading" where
  "read_frequencies frequencies r =
     (case read_boolean r of
        (Inl e, r1) \<Rightarrow> (raise e, r1)
      | (Inr again, r1) \<Rightarrow>
          if \<not> again then (ok frequencies, r1)
          else (case seq read_u16 (\<lambda>kind. seq read_u16 (\<lambda>value. ret (kind, value))) r1 of
              (Inl e, r2) \<Rightarrow> (raise e, r2)
            | (Inr (kind, value), r2) \<Rightarrow> read_frequencies (AList.update kind value frequencies) r2))"
  by pat_completeness auto

lemma read_boolean_ok:
  "read_boolean r = (Inr b, r') \<Longrightarrow>
     rd_data r' = rd_data r \<and> rd_offset r' = rd_offset r + 1 \<and> rd_offset r' \<le> length (rd_data r)"
  by (auto simp: read_boolean_def read_uint_def take_bytes_def seq_def ret_def throw_def split: if_splits)

lemma read_pair_ok:
  "seq read_u16 (\<lambda>kind. seq read_u16 (\<lambda>value. ret (kind, value))) r = (Inr p, r') \<Longrightarrow>
     rd_data r' = rd_data r \<and> rd_offset r' = rd_offset r + 4 \<and> rd_offset r' \<le> length (rd_data r)"
  by (auto simp: read_uint_def take_bytes_def seq_def ret_def split: if_splits)

termination read_frequencies
proof (relation "measure (\<lambda>(fs, r). length (rd_data r) - rd_offset r)", goal_cases)
  case (2 fs r x r1 again y r2 pair kind v)
  with read_boolean_ok [of r again r1] read_pair_ok [of r1 "(kind, v)" r2] show ?case by auto
qed simp

declare read_frequencies.simps [simp del]

text \<open>Keyword arguments are evaluated in the order of the text, which is the order of the bytes.\<close>

definition read_protocol :: "payload reading" where
  "read_protocol = seq read_u8 (\<lambda>version. seq (read_frequencies []) (\<lambda>fs.
     ret (PProtocol \<lparr>pd_version = version, pd_frequencies = fs\<rparr>)))"

definition read_welcome :: "payload reading" where
  "read_welcome = seq read_string (\<lambda>server_name. seq read_string (\<lambda>version. seq read_boolean (\<lambda>dedicated.
     seq read_string (\<lambda>map_name. seq read_u32 (\<lambda>seed. seq read_u8 (\<lambda>landscape. seq read_u32 (\<lambda>start_date.
     seq read_u16 (\<lambda>width. seq read_u16 (\<lambda>height.
     ret (PWelcome \<lparr>wl_server_name = server_name, wl_version = version, wl_dedicated = dedicated,
       wl_map_name = map_name, wl_seed = seed, wl_landscape = landscape, wl_start_date = start_date,
       wl_width = width, wl_height = height\<rparr>))))))))))"

definition read_info :: "payload reading" where
  "read_info = seq read_u8 (\<lambda>company. seq read_string (\<lambda>name. seq read_string (\<lambda>manager. seq read_u8 (\<lambda>colour.
     seq read_boolean (\<lambda>protected. seq read_u32 (\<lambda>inaugurated. seq read_boolean (\<lambda>is_ai. seq read_u8 (\<lambda>bankruptcy.
     ret (PInfo \<lparr>ci_company = company, ci_name = name, ci_manager = manager, ci_colour = colour,
       ci_protected = protected, ci_inaugurated = inaugurated, ci_is_ai = is_ai,
       ci_bankruptcy = bankruptcy\<rparr>)))))))))"

definition read_economy :: "payload reading" where
  "read_economy = seq read_u8 (\<lambda>company. seq read_i64 (\<lambda>cash. seq read_u64 (\<lambda>loan. seq read_i64 (\<lambda>income.
     seq read_u16 (\<lambda>delivered. seq read_i64 (\<lambda>value_last. seq read_u16 (\<lambda>performance_last.
     seq read_u16 (\<lambda>delivered_last. seq read_i64 (\<lambda>value_previous. seq read_u16 (\<lambda>performance_previous.
     seq read_u16 (\<lambda>delivered_previous.
     ret (PEconomy \<lparr>ec_company = company, ec_cash = cash, ec_loan = loan, ec_net_income = income,
       ec_delivered_current = delivered, ec_value_last = value_last, ec_performance_last = performance_last,
       ec_delivered_last = delivered_last, ec_value_previous = value_previous,
       ec_performance_previous = performance_previous, ec_delivered_previous = delivered_previous\<rparr>))))))))))))"

definition read_stats :: "payload reading" where
  "read_stats = seq read_u8 (\<lambda>company. seq read_counts (\<lambda>vehicles. seq read_counts (\<lambda>stations.
     ret (PStats \<lparr>cs_company = company, cs_vehicles = vehicles, cs_stations = stations\<rparr>))))"

definition read_payload :: "int \<Rightarrow> payload reading" where
  "read_payload kind =
     (if kind = packet_code ServerProtocol then read_protocol
      else if kind = packet_code ServerWelcome then read_welcome
      else if kind = packet_code ServerDate then seq read_u32 (\<lambda>v. ret (PInt v))
      else if kind = packet_code ServerCompanyInfo then read_info
      else if kind = packet_code ServerCompanyEconomy then read_economy
      else if kind = packet_code ServerCompanyStats then read_stats
      else if kind = packet_code ServerRcon then seq read_u16 (\<lambda>colour. seq read_string (\<lambda>s. ret (PRcon colour s)))
      else if kind \<in> {packet_code ServerRconEnd, packet_code ServerGamescript}
        then seq read_string (\<lambda>s. ret (PText s))
      else if kind = packet_code ServerError then seq read_u8 (\<lambda>v. ret (PInt v))
      else (\<lambda>r. (ok (PRaw (rd_data r)), r)))"

definition decode_packet :: "int \<Rightarrow> bytes \<Rightarrow> (openttd_exn, packet) result" where
  "decode_packet kind data =
     rbind (fst (read_payload kind \<lparr>rd_data = data, rd_offset = 0\<rparr>))
       (\<lambda>p. ok \<lparr>pk_type = kind, pk_payload = p\<rparr>)"

section \<open>Encoding\<close>

fun le_bytes :: "nat \<Rightarrow> int \<Rightarrow> bytes" where
  "le_bytes 0 n = []"
| "le_bytes (Suc k) n = byte_of (n mod 256) # le_bytes k (n div 256)"

text \<open>\<open>struct.pack\<close> of an unsigned field refuses what does not fit.\<close>

definition pack_uint :: "nat \<Rightarrow> int \<Rightarrow> (openttd_exn, bytes) result" where
  "pack_uint k n = (if 0 \<le> n \<and> n < 256 ^ k then ok (le_bytes k n) else raise StructError)"

definition protocol_string :: "ustring \<Rightarrow> (openttd_exn, bytes) result" where
  "protocol_string s =
     (if 0 \<in> set s then raise (BadValue ''protocol strings cannot contain NUL'')
      else case utf8_encode s of None \<Rightarrow> raise (BadValue ''surrogates not allowed'')
        | Some bs \<Rightarrow> ok (bs @ [0]))"

definition encode_packet :: "packet_type \<Rightarrow> bytes \<Rightarrow> (openttd_exn, bytes) result" where
  "encode_packet kind payload =
     (let body = byte_of (packet_code kind) # payload; size = length body + 2 in
      if size > max_packet_size then raise (BadValue ''OpenTTD Admin Network packet is too large'')
      else rbind (pack_uint 2 (int size)) (\<lambda>header. ok (header @ body)))"

definition encode_join :: "ustring \<Rightarrow> ustring \<Rightarrow> ustring \<Rightarrow> (openttd_exn, bytes) result" where
  "encode_join password name version =
     rbind (protocol_string password) (\<lambda>p. rbind (protocol_string name) (\<lambda>n. rbind (protocol_string version) (\<lambda>v.
     encode_packet AdminJoin (p @ n @ v))))"

definition encode_poll :: "update_type \<Rightarrow> int \<Rightarrow> (openttd_exn, bytes) result" where
  "encode_poll kind identifier =
     rbind (pack_uint 1 (update_code kind)) (\<lambda>k. rbind (pack_uint 4 identifier) (\<lambda>i. encode_packet AdminPoll (k @ i)))"

definition encode_rcon :: "ustring \<Rightarrow> (openttd_exn, bytes) result" where
  "encode_rcon command = rbind (protocol_string command) (encode_packet AdminRcon)"

definition encode_update_frequency :: "update_type \<Rightarrow> update_frequency \<Rightarrow> (openttd_exn, bytes) result" where
  "encode_update_frequency kind frequency =
     rbind (pack_uint 2 (update_code kind)) (\<lambda>k. rbind (pack_uint 2 (frequency_code frequency)) (\<lambda>f.
     encode_packet AdminUpdateFrequency (k @ f)))"

definition encode_gamescript :: "ustring \<Rightarrow> (openttd_exn, bytes) result" where
  "encode_gamescript value = rbind (protocol_string value) (encode_packet AdminGamescript)"

end
