(* ===== verification/ProtocolProperties.thy ===== *)
theory ProtocolProperties
  imports OpenTTDProtocol
begin

text \<open>
  The Admin Network codec against the wire format: the format of every decoded packet is written down as a list
  of bytes, and decoding is exactly its inverse; frames written by the encoder are read back one by one.
\<close>

section \<open>The wire format\<close>

definition string_fits :: "ustring \<Rightarrow> bool" where
  "string_fits s \<longleftrightarrow> list_all scalar s \<and> 0 \<notin> set s"

definition uint_fits :: "nat \<Rightarrow> int \<Rightarrow> bool" where
  "uint_fits k n \<longleftrightarrow> 0 \<le> n \<and> n < 256 ^ k"

definition i64_fits :: "int \<Rightarrow> bool" where
  "i64_fits n \<longleftrightarrow> - (2 ^ 63) \<le> n \<and> n < 2 ^ 63"

definition string_wire :: "ustring \<Rightarrow> bytes" where
  "string_wire s = concat (map utf8_bytes s) @ [0]"

definition bool_wire :: "bool \<Rightarrow> bytes" where
  "bool_wire b = [if b then 1 else 0]"

fun frequencies_wire :: "(int \<times> int) list \<Rightarrow> bytes" where
  "frequencies_wire [] = bool_wire False"
| "frequencies_wire ((k, v) # fs) = bool_wire True @ le_bytes 2 k @ le_bytes 2 v @ frequencies_wire fs"

fun counts_wire :: "counts \<Rightarrow> bytes" where
  "counts_wire (a, b, c, d, e) = le_bytes 2 a @ le_bytes 2 b @ le_bytes 2 c @ le_bytes 2 d @ le_bytes 2 e"

fun counts_fit :: "counts \<Rightarrow> bool" where
  "counts_fit (a, b, c, d, e) \<longleftrightarrow>
     uint_fits 2 a \<and> uint_fits 2 b \<and> uint_fits 2 c \<and> uint_fits 2 d \<and> uint_fits 2 e"

fun payload_wire :: "int \<Rightarrow> payload \<Rightarrow> bytes" where
  "payload_wire kind (PProtocol p) = le_bytes 1 (pd_version p) @ frequencies_wire (pd_frequencies p)"
| "payload_wire kind (PWelcome w) =
     string_wire (wl_server_name w) @ string_wire (wl_version w) @ bool_wire (wl_dedicated w) @
     string_wire (wl_map_name w) @ le_bytes 4 (wl_seed w) @ le_bytes 1 (wl_landscape w) @
     le_bytes 4 (wl_start_date w) @ le_bytes 2 (wl_width w) @ le_bytes 2 (wl_height w)"
| "payload_wire kind (PInt n) = le_bytes (if kind = packet_code ServerDate then 4 else 1) n"
| "payload_wire kind (PInfo i) =
     le_bytes 1 (ci_company i) @ string_wire (ci_name i) @ string_wire (ci_manager i) @ le_bytes 1 (ci_colour i) @
     bool_wire (ci_protected i) @ le_bytes 4 (ci_inaugurated i) @ bool_wire (ci_is_ai i) @ le_bytes 1 (ci_bankruptcy i)"
| "payload_wire kind (PEconomy e) =
     le_bytes 1 (ec_company e) @ le_bytes 8 (ec_cash e) @ le_bytes 8 (ec_loan e) @ le_bytes 8 (ec_net_income e) @
     le_bytes 2 (ec_delivered_current e) @ le_bytes 8 (ec_value_last e) @ le_bytes 2 (ec_performance_last e) @
     le_bytes 2 (ec_delivered_last e) @ le_bytes 8 (ec_value_previous e) @ le_bytes 2 (ec_performance_previous e) @
     le_bytes 2 (ec_delivered_previous e)"
| "payload_wire kind (PStats s) = le_bytes 1 (cs_company s) @ counts_wire (cs_vehicles s) @ counts_wire (cs_stations s)"
| "payload_wire kind (PRcon colour s) = le_bytes 2 colour @ string_wire s"
| "payload_wire kind (PText s) = string_wire s"
| "payload_wire kind (PRaw bs) = bs"

fun payload_fits :: "int \<Rightarrow> payload \<Rightarrow> bool" where
  "payload_fits kind (PProtocol p) \<longleftrightarrow> kind = packet_code ServerProtocol \<and> uint_fits 1 (pd_version p) \<and>
     distinct (map fst (pd_frequencies p)) \<and> (\<forall>(k, v) \<in> set (pd_frequencies p). uint_fits 2 k \<and> uint_fits 2 v)"
| "payload_fits kind (PWelcome w) \<longleftrightarrow> kind = packet_code ServerWelcome \<and>
     string_fits (wl_server_name w) \<and> string_fits (wl_version w) \<and> string_fits (wl_map_name w) \<and>
     uint_fits 4 (wl_seed w) \<and> uint_fits 1 (wl_landscape w) \<and> uint_fits 4 (wl_start_date w) \<and>
     uint_fits 2 (wl_width w) \<and> uint_fits 2 (wl_height w)"
| "payload_fits kind (PInt n) \<longleftrightarrow> kind = packet_code ServerDate \<and> uint_fits 4 n \<or>
     kind = packet_code ServerError \<and> uint_fits 1 n"
| "payload_fits kind (PInfo i) \<longleftrightarrow> kind = packet_code ServerCompanyInfo \<and> uint_fits 1 (ci_company i) \<and>
     string_fits (ci_name i) \<and> string_fits (ci_manager i) \<and> uint_fits 1 (ci_colour i) \<and>
     uint_fits 4 (ci_inaugurated i) \<and> uint_fits 1 (ci_bankruptcy i)"
| "payload_fits kind (PEconomy e) \<longleftrightarrow> kind = packet_code ServerCompanyEconomy \<and> uint_fits 1 (ec_company e) \<and>
     i64_fits (ec_cash e) \<and> uint_fits 8 (ec_loan e) \<and> i64_fits (ec_net_income e) \<and>
     uint_fits 2 (ec_delivered_current e) \<and> i64_fits (ec_value_last e) \<and> uint_fits 2 (ec_performance_last e) \<and>
     uint_fits 2 (ec_delivered_last e) \<and> i64_fits (ec_value_previous e) \<and>
     uint_fits 2 (ec_performance_previous e) \<and> uint_fits 2 (ec_delivered_previous e)"
| "payload_fits kind (PStats s) \<longleftrightarrow> kind = packet_code ServerCompanyStats \<and> uint_fits 1 (cs_company s) \<and>
     counts_fit (cs_vehicles s) \<and> counts_fit (cs_stations s)"
| "payload_fits kind (PRcon colour s) \<longleftrightarrow> kind = packet_code ServerRcon \<and> uint_fits 2 colour \<and> string_fits s"
| "payload_fits kind (PText s) \<longleftrightarrow>
     kind \<in> {packet_code ServerRconEnd, packet_code ServerGamescript} \<and> string_fits s"
| "payload_fits kind (PRaw bs) \<longleftrightarrow> False"

section \<open>Reading what is there\<close>

abbreviation unread :: "reader \<Rightarrow> bytes" where
  "unread r \<equiv> drop (rd_offset r) (rd_data r)"

definition consumed :: "reader \<Rightarrow> nat \<Rightarrow> reader" where
  "consumed r n = r\<lparr>rd_offset := rd_offset r + n\<rparr>"

text \<open>\<open>reads m bs a\<close>: where \<open>bs\<close> is next, the method returns \<open>a\<close> and moves past it.\<close>

definition reads :: "'a reading \<Rightarrow> bytes \<Rightarrow> 'a \<Rightarrow> bool" where
  "reads m bs a \<longleftrightarrow> (\<forall>r post. rd_offset r \<le> length (rd_data r) \<and> unread r = bs @ post \<longrightarrow>
     m r = (ok a, consumed r (length bs)))"

named_theorems reads_rules "how the reader reads a piece of the wire format"

lemma unread_consumed:
  assumes "rd_offset r \<le> length (rd_data r)" and "unread r = bs @ post"
  shows "unread (consumed r (length bs)) = post"
    and "rd_offset (consumed r (length bs)) \<le> length (rd_data (consumed r (length bs)))"
proof -
  have "unread (consumed r (length bs)) = drop (length bs) (unread r)" by (simp add: consumed_def add.commute)
  then show "unread (consumed r (length bs)) = post" using assms(2) by simp
  have "length (rd_data r) - rd_offset r = length bs + length post"
    using arg_cong [OF assms(2), of length] by simp
  then show "rd_offset (consumed r (length bs)) \<le> length (rd_data (consumed r (length bs)))"
    using assms(1) by (simp add: consumed_def)
qed

lemma reads_ret [reads_rules]: "reads (ret a) [] a"
  by (simp add: reads_def ret_def consumed_def)

lemma reads_seq:
  assumes "reads m bs a" and "reads (f a) cs b"
  shows "reads (seq m f) (bs @ cs) b"
  unfolding reads_def
proof (intro allI impI, elim conjE)
  fix r post assume o: "rd_offset r \<le> length (rd_data r)" and "unread r = (bs @ cs) @ post"
  then have r: "unread r = bs @ (cs @ post)" by simp
  with assms(1) o have "m r = (ok a, consumed r (length bs))" by (simp add: reads_def)
  moreover have "f a (consumed r (length bs)) = (ok b, consumed (consumed r (length bs)) (length cs))"
    using assms(2) unread_consumed [OF o r] by (simp add: reads_def)
  ultimately show "seq m f r = (ok b, consumed r (length (bs @ cs)))"
    by (simp add: seq_def consumed_def add.assoc)
qed

lemma reads_last: "reads m bs a \<Longrightarrow> f a = ret b \<Longrightarrow> reads (seq m f) bs b"
  using reads_seq [of m bs a f "[]" b] reads_ret [of b] by simp

lemma length_le_bytes [simp]: "length (le_bytes k n) = k"
  by (induction k arbitrary: n) simp_all

lemma le_value_bytes: "le_value (le_bytes k n) = n mod 256 ^ k"
proof (induction k arbitrary: n)
  case (Suc k)
  have "n mod (256 * 256 ^ k) = 256 * (n div 256 mod 256 ^ k) + n mod 256" by (rule zmod_zmult2_eq) simp
  with Suc show ?case by (simp add: le_value_def uint_byte_of)
qed (simp add: le_value_def)

lemma reads_take: "reads (take_bytes (length bs)) bs bs"
  unfolding reads_def
proof (intro allI impI, elim conjE)
  fix r post assume o: "rd_offset r \<le> length (rd_data r)" and r: "unread r = bs @ post"
  then have "length (rd_data r) - rd_offset r = length bs + length post" by (metis length_append length_drop)
  with r o show "take_bytes (length bs) r = (ok bs, consumed r (length bs))"
    by (auto simp: take_bytes_def consumed_def)
qed

lemma reads_uint [reads_rules]: "uint_fits k n \<Longrightarrow> reads (read_uint k) (le_bytes k n) n"
  unfolding read_uint_def
  by (rule reads_last [OF reads_take [of "le_bytes k n", simplified]]) (simp add: le_value_bytes uint_fits_def)

lemma reads_i64 [reads_rules]: "i64_fits n \<Longrightarrow> reads read_i64 (le_bytes 8 n) n"
  unfolding read_i64_def
proof (rule reads_last [OF reads_take [of "le_bytes 8 n", simplified]])
  assume "i64_fits n"
  then have "sint (word_of_int n :: 64 word) = n" by (simp add: i64_fits_def sint_sbintrunc' signed_take_bit_int_eq_self)
  moreover have "word_of_int (n mod 256 ^ 8) = (word_of_int n :: 64 word)" by (simp add: word_of_int_eq_iff take_bit_eq_mod)
  ultimately show "ret (sint (word_of_int (le_value (le_bytes 8 n)) :: 64 word)) = ret n" by (simp add: le_value_bytes)
qed

lemma reads_boolean [reads_rules]: "reads read_boolean (bool_wire b) b"
  unfolding read_boolean_def
proof (rule reads_last)
  show "reads read_u8 (bool_wire b) (of_bool b)"
    using reads_uint [of 1 "of_bool b"] by (cases b) (simp_all add: bool_wire_def uint_fits_def byte_of_def)
qed simp

lemma decode_zero_byte: "utf8_decode bs = Some cs \<Longrightarrow> 0 \<in> set bs \<Longrightarrow> 0 \<in> set cs"
proof (induction bs arbitrary: cs rule: utf8_decode.induct)
  case (2 a bs)
  then show ?case
    by (auto simp: Let_def continuation_def split: if_splits list.splits)
qed simp

lemma string_fits_decode:
  assumes "string_fits s"
  shows "utf8_decode (concat (map utf8_bytes s)) = Some s" and "0 \<notin> set (concat (map utf8_bytes s))"
proof -
  show d: "utf8_decode (concat (map utf8_bytes s)) = Some s"
    using assms by (intro utf8_decode_encode) (simp add: string_fits_def utf8_encode_def)
  show "0 \<notin> set (concat (map utf8_bytes s))"
    using decode_zero_byte [OF d] assms by (auto simp: string_fits_def)
qed

lemma takeWhile_nonzero: "0 \<notin> set xs \<Longrightarrow> takeWhile (\<lambda>b. b \<noteq> 0) (xs @ 0 # ys) = xs"
  by (induction xs) auto

lemma reads_string [reads_rules]: "string_fits s \<Longrightarrow> reads read_string (string_wire s) s"
  unfolding reads_def string_wire_def
  by (auto simp: read_string_def Let_def takeWhile_nonzero string_fits_decode consumed_def simp del: set_concat)

lemma reads_counts [reads_rules]: "counts_fit c \<Longrightarrow> reads read_counts (counts_wire c) c"
  by (cases c) (auto simp: read_counts_def intro!: reads_seq [OF reads_uint] reads_last [OF reads_uint])

lemma reads_frequencies:
  "distinct (map fst (acc @ fs)) \<Longrightarrow> (\<forall>(k, v) \<in> set fs. uint_fits 2 k \<and> uint_fits 2 v) \<Longrightarrow>
     reads (read_frequencies acc) (frequencies_wire fs) (acc @ fs)"
proof (induction fs arbitrary: acc)
  case Nil
  show ?case
    unfolding reads_def
    using reads_boolean [of False, unfolded reads_def] by (auto simp: read_frequencies.simps)
next
  case (Cons f fs)
  obtain k v where f: "f = (k, v)" by (cases f)
  let ?pair = "seq read_u16 (\<lambda>kind. seq read_u16 (\<lambda>value. ret (kind, value)))"
  have pair: "reads ?pair (le_bytes 2 k @ le_bytes 2 v) (k, v)"
    using Cons.prems f by (auto intro!: reads_seq [OF reads_uint] reads_last [OF reads_uint])
  have "AList.update k v acc = acc @ [(k, v)]"
    using Cons.prems(1) f by (intro dict_set_new) (auto simp: map_of_eq_None_iff)
  then have IH: "reads (read_frequencies (AList.update k v acc)) (frequencies_wire fs) (acc @ f # fs)"
    using Cons.IH [of "acc @ [f]"] Cons.prems f by simp
  show ?case
    unfolding reads_def
  proof (intro allI impI, elim conjE)
    fix r post assume o: "rd_offset r \<le> length (rd_data r)" and u: "unread r = frequencies_wire (f # fs) @ post"
    let ?r1 = "consumed r (length (bool_wire True))"
    let ?r2 = "consumed ?r1 (length (le_bytes 2 k @ le_bytes 2 v))"
    have u0: "unread r = bool_wire True @ ((le_bytes 2 k @ le_bytes 2 v) @ frequencies_wire fs @ post)" using u f by simp
    then have 1: "read_boolean r = (ok True, ?r1)" using reads_boolean [of True] o unfolding reads_def by blast
    note r1 = unread_consumed [OF o u0]
    then have 2: "?pair ?r1 = (ok (k, v), ?r2)" using pair unfolding reads_def by blast
    note r2 = unread_consumed [OF r1(2,1)]
    then have 3: "read_frequencies (AList.update k v acc) ?r2 = (ok (acc @ f # fs), consumed ?r2 (length (frequencies_wire fs)))"
      using IH unfolding reads_def by blast
    show "read_frequencies acc r = (ok (acc @ f # fs), consumed r (length (frequencies_wire (f # fs))))"
      using 1 2 3 f by (simp add: read_frequencies.simps [of acc] consumed_def add.assoc)
  qed
qed

lemma reads_payload:
  assumes "payload_fits kind p"
  shows "reads (read_payload kind) (payload_wire kind p) p"
  using assms
  by (cases p)
    (auto simp del: One_nat_def le_bytes.simps simp: read_payload_def read_protocol_def read_welcome_def read_info_def read_economy_def read_stats_def
      intro!: reads_seq [OF reads_uint] reads_seq [OF reads_i64] reads_seq [OF reads_string] reads_seq [OF reads_boolean]
        reads_seq [OF reads_counts] reads_last [OF reads_uint] reads_last [OF reads_string] reads_last [OF reads_counts]
        reads_last [OF reads_frequencies [of "[]", simplified]] arg_cong [of _ _ ret] protocol_description.equality
        server_welcome.equality company_info.equality company_economy.equality company_stats.equality)

section \<open>What was read was there\<close>

lemma le_value_range: "0 \<le> le_value bs \<and> le_value bs < 256 ^ length bs"
proof (induction bs)
  case (Cons b bs)
  have "uint b < 256" using uint_lt2p [of b] by simp
  then have "uint b + 256 * le_value bs < 256 * (le_value bs + 1)" by simp
  also have "\<dots> \<le> 256 * 256 ^ length bs" using Cons by simp
  finally show ?case using Cons by (simp add: le_value_def)
qed (simp add: le_value_def)

lemma le_bytes_value: "le_bytes (length bs) (le_value bs) = bs"
proof (induction bs)
  case (Cons b bs)
  have b: "uint b < 256" using uint_lt2p [of b] by simp
  then have "(uint b + 256 * le_value bs) mod 256 = uint b" by simp
  moreover have "(uint b + 256 * le_value bs) div 256 = le_value bs" using b by simp
  ultimately show ?case using Cons by (simp add: le_value_def byte_of_def)
qed simp

lemma le_bytes_mod: "n mod 256 ^ k = m mod 256 ^ k \<Longrightarrow> le_bytes k n = le_bytes k m"
  by (metis le_value_bytes le_bytes_value length_le_bytes)

named_theorems found_rules "what a successful reader method found"

lemma found_take: "take_bytes n r = (ok bs, r') \<Longrightarrow> unread r = bs @ unread r' \<and> length bs = n"
  by (auto simp: take_bytes_def add.commute simp flip: drop_drop split: if_splits)

lemma found_uint [found_rules]:
  "read_uint k r = (ok n, r') \<Longrightarrow> uint_fits k n \<and> unread r = le_bytes k n @ unread r'"
  using le_value_range le_bytes_value
  by (fastforce simp: read_uint_def seq_ok ret_def uint_fits_def dest!: found_take)

lemma found_i64 [found_rules]:
  assumes "read_i64 r = (ok n, r')"
  shows "i64_fits n \<and> unread r = le_bytes 8 n @ unread r'"
proof -
  obtain bs where bs: "unread r = bs @ unread r'" "length bs = 8" "n = sint (word_of_int (le_value bs) :: 64 word)"
    using assms found_take by (fastforce simp: read_i64_def seq_ok ret_def)
  have range: "- (2 ^ (LENGTH(64) - 1)) \<le> n" "n < 2 ^ (LENGTH(64) - 1)"
    unfolding bs(3) by (rule sint_ge, rule sint_lt)
  have "n mod 2 ^ 64 = uint (word_of_int (le_value bs) :: 64 word)"
    unfolding bs(3) by (simp add: uint_sint take_bit_eq_mod)
  also have "\<dots> = le_value bs mod 256 ^ 8" by (simp add: uint_word_of_int)
  finally have "n mod 256 ^ 8 = le_value bs mod 256 ^ 8" by simp
  then have "le_bytes 8 n = le_bytes 8 (le_value bs)" by (rule le_bytes_mod)
  with bs range le_bytes_value [of bs] show ?thesis by (simp add: i64_fits_def)
qed

lemma found_boolean [found_rules]: "read_boolean r = (ok b, r') \<Longrightarrow> unread r = bool_wire b @ unread r'"
  by (auto simp: read_boolean_def seq_ok ret_def throw_def bool_wire_def byte_of_def dest!: found_uint split: if_splits)

lemma zero_byte_encoded: "0 \<in> set cs \<Longrightarrow> 0 \<in> set (concat (map utf8_bytes cs))"
proof -
  assume "0 \<in> set cs"
  moreover have "utf8_bytes 0 = [0]" by (simp add: utf8_bytes_def byte_of_def)
  ultimately show ?thesis by (auto intro!: bexI [of _ 0])
qed

lemma found_string [found_rules]:
  assumes "read_string r = (ok s, r')"
  shows "string_fits s \<and> unread r = string_wire s @ unread r'"
proof -
  let ?raw = "takeWhile (\<lambda>b. b \<noteq> 0) (unread r)"
  have raw: "length ?raw \<noteq> length (unread r)" "utf8_decode ?raw = Some s"
    "r' = r\<lparr>rd_offset := rd_offset r + length ?raw + 1\<rparr>"
    using assms by (auto simp: read_string_def Let_def split: if_splits option.splits)
  have split: "unread r = ?raw @ dropWhile (\<lambda>b. b \<noteq> 0) (unread r)" by simp
  then obtain z zs where z: "dropWhile (\<lambda>b. b \<noteq> 0) (unread r) = z # zs"
    using raw(1) by (cases "dropWhile (\<lambda>b. b \<noteq> 0) (unread r)") (metis append_Nil2, blast)
  then have "z = 0" using hd_dropWhile [of "\<lambda>b. b \<noteq> 0" "unread r"] by simp
  with split z have u: "unread r = ?raw @ 0 # zs" by simp
  have "utf8_encode s = Some ?raw" by (rule utf8_encode_decode [OF raw(2)])
  then have enc: "list_all scalar s" "concat (map utf8_bytes s) = ?raw" by (auto simp: utf8_encode_def split: if_splits)
  moreover have "0 \<notin> set ?raw" by (auto dest: set_takeWhileD)
  ultimately have "0 \<notin> set s" using zero_byte_encoded [of s] by auto
  moreover have "unread r' = drop (length ?raw + 1) (unread r)" by (simp add: raw(3) add.commute add.left_commute)
  then have "unread r' = zs" by (subst (asm) (2) u) simp
  ultimately show ?thesis using enc u by (simp add: string_fits_def string_wire_def)
qed

lemma found_counts [found_rules]:
  "read_counts r = (ok c, r') \<Longrightarrow> counts_fit c \<and> unread r = counts_wire c @ unread r'"
  by (cases c) (auto simp: read_counts_def seq_ok ret_def simp del: le_bytes.simps dest!: found_uint)

lemma found_payload:
  assumes "read_payload kind r = (ok p, r')" and "kind \<noteq> packet_code ServerProtocol" and "\<nexists>bs. p = PRaw bs"
  shows "payload_fits kind p \<and> unread r = payload_wire kind p @ unread r'"
  using assms
  by (auto simp: read_payload_def read_welcome_def read_info_def read_economy_def read_stats_def seq_ok ret_def
    simp del: le_bytes.simps One_nat_def dest!: found_rules split: if_splits)

text \<open>
  C22. Decoding an Admin Network packet is exactly the inverse of the wire format. Every payload whose fields fit
  their widths (strings without NUL and surrogates, signed money in two's complement, distinct frequency keys) is
  decoded from its bytes, whatever follows them; and whatever decodes to a payload other than raw bytes or a
  protocol description fits and starts with exactly its bytes.
\<close>

theorem decode_packet_exact:
  "(payload_fits kind p \<longrightarrow> decode_packet kind (payload_wire kind p @ trailing) = ok \<lparr>pk_type = kind, pk_payload = p\<rparr>) \<and>
   (decode_packet kind data = ok q \<and> kind \<noteq> packet_code ServerProtocol \<and> (\<nexists>bs. pk_payload q = PRaw bs) \<longrightarrow>
      pk_type q = kind \<and> payload_fits kind (pk_payload q) \<and> (\<exists>rest. data = payload_wire kind (pk_payload q) @ rest))"
proof (intro conjI impI)
  assume "payload_fits kind p"
  from reads_payload [OF this, unfolded reads_def, rule_format, of "\<lparr>rd_data = payload_wire kind p @ trailing, rd_offset = 0\<rparr>"]
  show "decode_packet kind (payload_wire kind p @ trailing) = ok \<lparr>pk_type = kind, pk_payload = p\<rparr>"
    by (simp add: decode_packet_def)
next
  assume d: "decode_packet kind data = ok q \<and> kind \<noteq> packet_code ServerProtocol \<and> (\<nexists>bs. pk_payload q = PRaw bs)"
  obtain a r' where run: "read_payload kind \<lparr>rd_data = data, rd_offset = 0\<rparr> = (a, r')" by fastforce
  with d obtain p' where a: "a = ok p'" and q: "q = \<lparr>pk_type = kind, pk_payload = p'\<rparr>"
    by (auto simp: decode_packet_def rbind_Inr_iff)
  from found_payload [OF run [unfolded a]] d q
  show "pk_type q = kind" "payload_fits kind (pk_payload q)" "\<exists>rest. data = payload_wire kind (pk_payload q) @ rest"
    by auto
qed

theorem decode_packet_exact_witness:
  "decode_packet 107 [65, 1, 0, 0] = ok \<lparr>pk_type = 107, pk_payload = PInt 321\<rparr>"
proof -
  have "payload_fits 107 (PInt 321)" by (simp add: uint_fits_def)
  moreover have "payload_wire 107 (PInt 321) = [65, 1, 0, 0]" by (simp add: numeral_eq_Suc byte_of_def)
  ultimately show ?thesis
    using conjunct1 [OF decode_packet_exact [of 107 "PInt 321" "[]" "[]" undefined]] by simp
qed

end
