(* ===== verification/OpenTTDClient.thy ===== *)
theory OpenTTDClient
  imports OpenTTDProtocol "HOL-Library.List_Lexorder" "HOL-Library.Char_ord"
begin

text \<open>
  \<open>OpenTTDAdminClient\<close> of \<open>openttd/client.py\<close> with the state models of \<open>openttd/models.py\<close> that it fills. The
  network is part of the client's state: the bytes that still arrive and the bytes written so far. What the code
  cannot see in advance is an argument: the event loop's clock, what happens when the bytes run out (the peer
  disconnects, or the wait times out and the bytes that did arrive stay in the buffer), whether a write fails, and
  what each new connection delivers.
\<close>

section \<open>State models\<close>

record connection_metadata =
  cm_protocol_version :: int
  cm_openttd_version :: ustring
  cm_server_name :: ustring
  cm_dedicated :: bool
  cm_connected :: bool

record map_metadata =
  mm_seed :: int
  mm_landscape :: int
  mm_start_date :: int
  mm_width :: int
  mm_height :: int

record vehicle_totals =
  vt_trains :: int
  vt_lorries :: int
  vt_buses :: int
  vt_aircraft :: int
  vt_ships :: int

definition vehicle_total :: "vehicle_totals \<Rightarrow> int" where
  "vehicle_total v = vt_trains v + vt_lorries v + vt_buses v + vt_aircraft v + vt_ships v"

record facility_counts =
  fc_train_stations :: int
  fc_lorry_stations :: int
  fc_bus_stops :: int
  fc_airports :: int
  fc_harbours :: int

definition facility_total :: "facility_counts \<Rightarrow> int" where
  "facility_total f = fc_train_stations f + fc_lorry_stations f + fc_bus_stops f + fc_airports f + fc_harbours f"

record company_state =
  cy_company :: int
  cy_name :: ustring
  cy_manager :: ustring
  cy_colour :: int
  cy_inaugurated :: int
  cy_is_ai :: bool
  cy_bankruptcy :: int
  cy_economy :: company_economy
  cy_vehicles :: vehicle_totals
  cy_facilities :: facility_counts

record openttd_state =
  os_connection :: connection_metadata
  os_map :: map_metadata
  os_date_raw :: int
  os_date :: string
  os_company :: company_state

record resource_mapping =
  rm_cash :: int
  rm_debt :: int
  rm_company_value :: int
  rm_profit :: int
  rm_vehicle_count :: int
  rm_station_count :: int
  rm_date :: string
  rm_date_raw :: int
  rm_server_name :: ustring
  rm_company_name :: ustring

definition resources_from_state :: "openttd_state \<Rightarrow> resource_mapping" where
  "resources_from_state state = (let company = os_company state; economy = cy_economy company in
     \<lparr>rm_cash = ec_cash economy, rm_debt = ec_loan economy, rm_company_value = ec_value_last economy,
      rm_profit = ec_net_income economy, rm_vehicle_count = vehicle_total (cy_vehicles company),
      rm_station_count = facility_total (cy_facilities company), rm_date = os_date state,
      rm_date_raw = os_date_raw state, rm_server_name = cm_server_name (os_connection state),
      rm_company_name = cy_name company\<rparr>)"

section \<open>Configuration, environment and client state\<close>

record admin_configuration =
  cf_password :: ustring
  cf_company :: int
  cf_version :: ustring
  cf_protocol :: int
  cf_connection_timeout :: rat
  cf_observation_timeout :: rat
  cf_action_timeout :: rat

record network =
  nw_clock :: "nat \<Rightarrow> rat"
  nw_stalls :: bool
  nw_write :: "nat \<Rightarrow> openttd_exn option"
  nw_open :: "nat \<Rightarrow> (openttd_exn, bytes) result"

record client =
  cl_connected :: bool
  cl_incoming :: bytes
  cl_outgoing :: bytes
  cl_ticks :: nat
  cl_sessions :: nat
  cl_metadata :: "connection_metadata option"
  cl_map :: "map_metadata option"
  cl_protocol :: "protocol_description option"

type_synonym 'a calling = "(client, openttd_exn, 'a) prog"

definition loop_time :: "network \<Rightarrow> rat calling" where
  "loop_time nw c = (ok (nw_clock nw (cl_ticks c)), c\<lparr>cl_ticks := cl_ticks c + 1\<rparr>)"

definition require_connected :: "unit calling" where
  "require_connected c =
     (if cl_connected c then ok () else raise (Disconnected ''OpenTTD client is not connected''), c)"

definition send :: "network \<Rightarrow> (openttd_exn, bytes) result \<Rightarrow> unit calling" where
  "send nw data = seq (lift_result data) (\<lambda>bs. seq require_connected (\<lambda>_ c.
     (case nw_write nw (length (cl_outgoing c)) of None \<Rightarrow> ok () | Some e \<Rightarrow> raise e,
      c\<lparr>cl_outgoing := cl_outgoing c @ bs\<rparr>)))"

section \<open>Reading packets\<close>

text \<open>\<open>reader.readexactly\<close> under \<open>wait_for\<close>: a stall leaves the buffer, a disconnect empties it.\<close>

definition read_exactly :: "network \<Rightarrow> nat \<Rightarrow> bytes calling" where
  "read_exactly nw n c =
     (if n \<le> length (cl_incoming c)
      then (ok (take n (cl_incoming c)), c\<lparr>cl_incoming := drop n (cl_incoming c)\<rparr>)
      else if nw_stalls nw then (raise (OpenTTDTimeout ''timed out waiting for OpenTTD state''), c)
      else (raise (Disconnected ''OpenTTD disconnected during a packet''), c\<lparr>cl_incoming := []\<rparr>))"

definition check_packet :: "packet \<Rightarrow> (openttd_exn, packet) result" where
  "check_packet p =
     (if pk_type p = packet_code ServerError
      then raise (InvalidResponse (''OpenTTD admin error code '' @
        (case pk_payload p of PInt n \<Rightarrow> int_text n | _ \<Rightarrow> [])))
      else if pk_type p \<in> {packet_code ServerFull, packet_code ServerBanned}
      then raise (ConnectionRefused ''OpenTTD rejected the admin connection'')
      else if pk_type p = packet_code ServerShutdown
      then raise (Disconnected ''OpenTTD server is shutting down'')
      else ok p)"

definition read_packet :: "network \<Rightarrow> packet calling" where
  "read_packet nw = seq require_connected (\<lambda>_. seq (read_exactly nw 2) (\<lambda>header.
     let n = le_value header in
     if n < 3 \<or> n > int max_packet_size
     then throw (InvalidResponse (''invalid protocol packet size: '' @ int_text n))
     else seq (read_exactly nw (nat n - 2)) (\<lambda>body.
       lift_result (rbind (decode_packet (uint (hd body)) (tl body)) check_packet))))"

lemma read_exactly_ok:
  "read_exactly nw n c = (ok bs, c') \<longleftrightarrow>
     n \<le> length (cl_incoming c) \<and> bs = take n (cl_incoming c) \<and> c' = c\<lparr>cl_incoming := drop n (cl_incoming c)\<rparr>"
  by (auto simp: read_exactly_def split: if_splits)

lemma read_packet_shrinks:
  "read_packet nw c = (ok p, c') \<Longrightarrow> length (cl_incoming c') < length (cl_incoming c)"
  by (auto simp: read_packet_def seq_ok read_exactly_ok require_connected_def throw_def lift_result_def Let_def
    split: if_splits)

text \<open>The loop of \<open>_receive_matching\<close>: packets of another type are skipped, and so are those of the right type that
  the predicate does not want. Every packet read shortens the input, so the loop ends whatever the clock does.\<close>

function receive_loop ::
  "network \<Rightarrow> packet_type \<Rightarrow> string \<Rightarrow> (payload \<Rightarrow> 'a option) \<Rightarrow> ('a \<Rightarrow> bool) \<Rightarrow> rat \<Rightarrow> 'a calling" where
  "receive_loop nw kind name as wanted deadline c =
     (let remaining = deadline - nw_clock nw (cl_ticks c); c0 = c\<lparr>cl_ticks := cl_ticks c + 1\<rparr> in
      if remaining \<le> 0 then (raise (OpenTTDTimeout (''timed out waiting for packet '' @ name)), c0)
      else (case read_packet nw c0 of
          (Inl e, c1) \<Rightarrow> (raise e, c1)
        | (Inr p, c1) \<Rightarrow>
            if pk_type p \<noteq> packet_code kind then receive_loop nw kind name as wanted deadline c1
            else (case as (pk_payload p) of
                None \<Rightarrow> (raise (InvalidResponse (''packet '' @ name @ '' has an invalid payload'')), c1)
              | Some v \<Rightarrow> if wanted v then (ok v, c1) else receive_loop nw kind name as wanted deadline c1)))"
  by pat_completeness auto
termination
  by (relation "measure (\<lambda>(nw, kind, name, as, wanted, deadline, c). length (cl_incoming c))")
    (auto dest!: read_packet_shrinks [OF sym])

declare receive_loop.simps [simp del]

definition receive_matching ::
  "network \<Rightarrow> packet_type \<Rightarrow> string \<Rightarrow> (payload \<Rightarrow> 'a option) \<Rightarrow> ('a \<Rightarrow> bool) \<Rightarrow> rat \<Rightarrow> 'a calling" where
  "receive_matching nw kind name as wanted timeout =
     seq (loop_time nw) (\<lambda>t. receive_loop nw kind name as wanted (t + timeout))"

fun as_protocol :: "payload \<Rightarrow> protocol_description option" where
  "as_protocol (PProtocol p) = Some p" | "as_protocol _ = None"

fun as_welcome :: "payload \<Rightarrow> server_welcome option" where
  "as_welcome (PWelcome w) = Some w" | "as_welcome _ = None"

fun as_integer :: "payload \<Rightarrow> int option" where
  "as_integer (PInt n) = Some n" | "as_integer _ = None"

fun as_info :: "payload \<Rightarrow> company_info option" where
  "as_info (PInfo i) = Some i" | "as_info _ = None"

fun as_economy :: "payload \<Rightarrow> company_economy option" where
  "as_economy (PEconomy e) = Some e" | "as_economy _ = None"

fun as_stats :: "payload \<Rightarrow> company_stats option" where
  "as_stats (PStats s) = Some s" | "as_stats _ = None"

section \<open>Connecting\<close>

definition version_matches :: "ustring \<Rightarrow> ustring \<Rightarrow> bool" where
  "version_matches actual expected \<longleftrightarrow>
     actual = expected \<or> take (length expected + 1) actual = expected @ ascii ''-''"

fun update_name :: "update_type \<Rightarrow> string" where
  "update_name UpdateDate = ''DATE''"
| "update_name UpdateClientInfo = ''CLIENT_INFO''"
| "update_name UpdateCompanyInfo = ''COMPANY_INFO''"
| "update_name UpdateCompanyEconomy = ''COMPANY_ECONOMY''"
| "update_name UpdateCompanyStats = ''COMPANY_STATS''"
| "update_name UpdateGamescript = ''GAMESCRIPT''"

text \<open>\<open>update_frequencies.get(update_type, 0)\<close>\<close>

definition frequency :: "protocol_description \<Rightarrow> update_type \<Rightarrow> int" where
  "frequency p u = (case map_of (pd_frequencies p) (update_code u) of None \<Rightarrow> 0 | Some f \<Rightarrow> f)"

definition required_polls :: "update_type list" where
  "required_polls = [UpdateDate, UpdateCompanyInfo, UpdateCompanyEconomy, UpdateCompanyStats]"

definition unsupported_polls :: "protocol_description \<Rightarrow> string list" where
  "unsupported_polls p = sort (map update_name (filter (\<lambda>u. even (frequency p u)) required_polls))"

definition join_names :: "string list \<Rightarrow> string" where
  "join_names names = (case names of [] \<Rightarrow> [] | n # ns \<Rightarrow> n @ concat (map (\<lambda>x. '', '' @ x) ns))"

definition make_metadata :: "int \<Rightarrow> server_welcome \<Rightarrow> (openttd_exn, connection_metadata) result" where
  "make_metadata version w =
     (if version < 1 \<or> wl_version w = [] \<or> wl_server_name w = [] then raise (ModelInvalid ''OpenTTDConnectionMetadata'')
      else ok \<lparr>cm_protocol_version = version, cm_openttd_version = wl_version w,
        cm_server_name = wl_server_name w, cm_dedicated = wl_dedicated w, cm_connected = True\<rparr>)"

definition make_map :: "server_welcome \<Rightarrow> (openttd_exn, map_metadata) result" where
  "make_map w =
     (if wl_landscape w > 3 \<or> wl_width w \<le> 0 \<or> wl_height w \<le> 0 then raise (ModelInvalid ''OpenTTDMapMetadata'')
      else ok \<lparr>mm_seed = wl_seed w, mm_landscape = wl_landscape w, mm_start_date = wl_start_date w,
        mm_width = wl_width w, mm_height = wl_height w\<rparr>)"

definition close :: "network \<Rightarrow> unit calling" where
  "close nw c =
     (let c' = c\<lparr>cl_connected := False, cl_incoming := [], cl_metadata := None, cl_map := None, cl_protocol := None\<rparr> in
      if \<not> cl_connected c then (ok (), c')
      else (case encode_packet AdminQuit [] of
          Inl e \<Rightarrow> (raise e, c')
        | Inr bs \<Rightarrow> (ok (), c'\<lparr>cl_outgoing := cl_outgoing c @ bs\<rparr>)))"

definition handshake :: "admin_configuration \<Rightarrow> network \<Rightarrow> unit calling" where
  "handshake cf nw =
     seq (send nw (encode_join (cf_password cf) (ascii ''sim-pilot'') (ascii ''6b''))) (\<lambda>_.
     seq (receive_matching nw ServerProtocol ''SERVER_PROTOCOL'' as_protocol (\<lambda>_. True) (cf_connection_timeout cf)) (\<lambda>p.
     if pd_version p \<noteq> cf_protocol cf
     then throw (ProtocolMismatch (''expected admin protocol '' @ int_text (cf_protocol cf) @ '', received '' @
       int_text (pd_version p)))
     else if unsupported_polls p \<noteq> []
     then throw (ProtocolMismatch (''admin protocol does not advertise polling for: '' @ join_names (unsupported_polls p)))
     else
     seq (modify (\<lambda>c. c\<lparr>cl_protocol := Some p\<rparr>)) (\<lambda>_.
     seq (receive_matching nw ServerWelcome ''SERVER_WELCOME'' as_welcome (\<lambda>_. True) (cf_connection_timeout cf)) (\<lambda>w.
     if \<not> version_matches (wl_version w) (cf_version cf) then throw (UnsupportedVersion (cf_version cf) (wl_version w))
     else
     seq (lift_result (make_metadata (pd_version p) w)) (\<lambda>m.
     seq (modify (\<lambda>c. c\<lparr>cl_metadata := Some m\<rparr>)) (\<lambda>_.
     seq (lift_result (make_map w)) (\<lambda>mm.
     modify (\<lambda>c. c\<lparr>cl_map := Some mm\<rparr>))))))))"

definition connect :: "admin_configuration \<Rightarrow> network \<Rightarrow> unit calling" where
  "connect cf nw c =
     (if cl_connected c then (ok (), c)
      else (case nw_open nw (cl_sessions c) of
          Inl e \<Rightarrow> (raise e, c\<lparr>cl_sessions := cl_sessions c + 1\<rparr>)
        | Inr stream \<Rightarrow>
            catch (handshake cf nw) (\<lambda>e. seq (close nw) (\<lambda>_. throw e))
              (c\<lparr>cl_sessions := cl_sessions c + 1, cl_connected := True, cl_incoming := stream\<rparr>)))"

definition reconnect :: "admin_configuration \<Rightarrow> network \<Rightarrow> unit calling" where
  "reconnect cf nw = seq (close nw) (\<lambda>_. connect cf nw)"

section \<open>Observing\<close>

definition make_company ::
  "company_info \<Rightarrow> company_economy \<Rightarrow> company_stats \<Rightarrow> (openttd_exn, company_state) result" where
  "make_company info economy stats =
     (if ec_company economy \<noteq> ci_company info \<or> cs_company stats \<noteq> ci_company info
      then raise (InvalidResponse ''company snapshot combines different company IDs'')
      else if ci_company info > 14 \<or> ci_name info = [] \<or> ci_manager info = []
      then raise (ModelInvalid ''OpenTTDCompanyState'')
      else (case (cs_vehicles stats, cs_stations stats) of ((v0, v1, v2, v3, v4), (s0, s1, s2, s3, s4)) \<Rightarrow>
        ok \<lparr>cy_company = ci_company info, cy_name = ci_name info, cy_manager = ci_manager info,
          cy_colour = ci_colour info, cy_inaugurated = ci_inaugurated info, cy_is_ai = ci_is_ai info,
          cy_bankruptcy = ci_bankruptcy info, cy_economy = economy,
          cy_vehicles = \<lparr>vt_trains = v0, vt_lorries = v1, vt_buses = v2, vt_aircraft = v3, vt_ships = v4\<rparr>,
          cy_facilities = \<lparr>fc_train_stations = s0, fc_lorry_stations = s1, fc_bus_stops = s2, fc_airports = s3,
            fc_harbours = s4\<rparr>\<rparr>))"

definition require_some :: "openttd_exn \<Rightarrow> 'a option \<Rightarrow> (openttd_exn, 'a) result" where
  "require_some e v = (case v of None \<Rightarrow> raise e | Some a \<Rightarrow> ok a)"

definition metadata :: "connection_metadata calling" where
  "metadata c = (require_some (Disconnected ''OpenTTD client is not connected'') (cl_metadata c), c)"

text \<open>\<open>except OpenTTDTimeoutError\<close> around the first answer\<close>

fun unavailable :: "admin_configuration \<Rightarrow> openttd_exn \<Rightarrow> openttd_exn" where
  "unavailable cf (OpenTTDTimeout m) = StateUnavailable
     (''company '' @ int_text (cf_company cf) @ '' is not available from the OpenTTD admin port'')"
| "unavailable cf e = e"

definition collect_state :: "admin_configuration \<Rightarrow> network \<Rightarrow> openttd_state calling" where
  "collect_state cf nw = (let company = cf_company cf; timeout = cf_observation_timeout cf in
     seq require_connected (\<lambda>_.
     seq (send nw (encode_poll UpdateCompanyInfo company)) (\<lambda>_.
     seq (catch (receive_matching nw ServerCompanyInfo ''SERVER_COMPANY_INFO'' as_info
         (\<lambda>v. ci_company v = company) timeout) (\<lambda>e. throw (unavailable cf e))) (\<lambda>info.
     seq (send nw (encode_poll UpdateDate all_companies)) (\<lambda>_.
     seq (receive_matching nw ServerDate ''SERVER_DATE'' as_integer (\<lambda>_. True) timeout) (\<lambda>date_raw.
     seq (send nw (encode_poll UpdateCompanyEconomy all_companies)) (\<lambda>_.
     seq (receive_matching nw ServerCompanyEconomy ''SERVER_COMPANY_ECONOMY'' as_economy
         (\<lambda>v. ec_company v = company) timeout) (\<lambda>economy.
     seq (send nw (encode_poll UpdateCompanyStats all_companies)) (\<lambda>_.
     seq (receive_matching nw ServerCompanyStats ''SERVER_COMPANY_STATS'' as_stats
         (\<lambda>v. cs_company v = company) timeout) (\<lambda>stats.
     seq (gets cl_map) (\<lambda>mm.
     seq (lift_result (require_some (InvalidResponse ''welcome metadata is unavailable'') mm)) (\<lambda>map_data.
     seq metadata (\<lambda>meta.
     seq (lift_result (require_some (BadValue ''OpenTTD date must be non-negative'') (format_game_date date_raw))) (\<lambda>date.
     seq (lift_result (make_company info economy stats)) (\<lambda>cy.
     ret \<lparr>os_connection = meta, os_map = map_data, os_date_raw = date_raw, os_date = date,
       os_company = cy\<rparr>)))))))))))))))"

section \<open>Remote console and GameScript\<close>

text \<open>Chat and other packets between the answers are skipped, as the loop does.\<close>

function rcon_loop :: "network \<Rightarrow> ustring \<Rightarrow> rat \<Rightarrow> ustring list \<Rightarrow> ustring list calling" where
  "rcon_loop nw command deadline output c =
     (let remaining = deadline - nw_clock nw (cl_ticks c); c0 = c\<lparr>cl_ticks := cl_ticks c + 1\<rparr> in
      if remaining \<le> 0 then (raise (OpenTTDTimeout ''timed out waiting for OpenTTD rcon completion''), c0)
      else (case read_packet nw c0 of
          (Inl e, c1) \<Rightarrow> (raise e, c1)
        | (Inr p, c1) \<Rightarrow>
            if pk_type p = packet_code ServerRcon then
              (case pk_payload p of
                 PRcon colour message \<Rightarrow> rcon_loop nw command deadline (output @ [message]) c1
               | _ \<Rightarrow> (raise (InvalidResponse ''invalid OpenTTD rcon response''), c1))
            else if pk_type p = packet_code ServerRconEnd then
              (if pk_payload p \<noteq> PText command
               then raise (InvalidResponse ''OpenTTD rcon completion command mismatch'') else ok output, c1)
            else rcon_loop nw command deadline output c1))"
  by pat_completeness auto
termination
  by (relation "measure (\<lambda>(nw, command, deadline, output, c). length (cl_incoming c))")
    (auto dest!: read_packet_shrinks [OF sym])

declare rcon_loop.simps [simp del]

definition execute_rcon :: "admin_configuration \<Rightarrow> network \<Rightarrow> ustring \<Rightarrow> ustring list calling" where
  "execute_rcon cf nw command =
     seq (send nw (encode_rcon command)) (\<lambda>_. seq (loop_time nw) (\<lambda>t.
     rcon_loop nw command (t + cf_action_timeout cf) []))"

definition subscribe_gamescript :: "network \<Rightarrow> unit calling" where
  "subscribe_gamescript nw =
     seq require_connected (\<lambda>_. seq (gets cl_protocol) (\<lambda>p.
     case p of None \<Rightarrow> throw (InvalidResponse ''admin protocol description is unavailable'')
     | Some protocol \<Rightarrow>
         if frequency protocol UpdateGamescript div 64 mod 2 = 0
         then throw (ProtocolMismatch ''admin protocol does not advertise automatic GameScript updates'')
         else send nw (encode_update_frequency UpdateGamescript FrequencyAutomatic)))"

definition send_gamescript :: "network \<Rightarrow> ustring \<Rightarrow> unit calling" where
  "send_gamescript nw value = send nw (encode_gamescript value)"

function gamescript_loop :: "network \<Rightarrow> rat \<Rightarrow> ustring calling" where
  "gamescript_loop nw deadline c =
     (let remaining = deadline - nw_clock nw (cl_ticks c); c0 = c\<lparr>cl_ticks := cl_ticks c + 1\<rparr> in
      if remaining \<le> 0 then (raise (OpenTTDTimeout ''timed out waiting for a GameScript bridge message''), c0)
      else (case read_packet nw c0 of
          (Inl e, c1) \<Rightarrow> (raise e, c1)
        | (Inr p, c1) \<Rightarrow>
            if pk_type p \<noteq> packet_code ServerGamescript then gamescript_loop nw deadline c1
            else (case pk_payload p of
                PText s \<Rightarrow> (ok s, c1)
              | _ \<Rightarrow> (raise (InvalidResponse ''invalid GameScript packet payload''), c1))))"
  by pat_completeness auto
termination
  by (relation "measure (\<lambda>(nw, deadline, c). length (cl_incoming c))") (auto dest!: read_packet_shrinks [OF sym])

declare gamescript_loop.simps [simp del]

text \<open>\<open>timeout or observation_timeout\<close>: a timeout of zero is no timeout given.\<close>

definition receive_gamescript :: "admin_configuration \<Rightarrow> network \<Rightarrow> rat option \<Rightarrow> ustring calling" where
  "receive_gamescript cf nw timeout =
     seq (loop_time nw) (\<lambda>t. gamescript_loop nw (t + (case timeout of None \<Rightarrow> cf_observation_timeout cf
       | Some x \<Rightarrow> if x = 0 then cf_observation_timeout cf else x)))"

end
