(* ===== verification/ClientProperties.thy ===== *)
theory ClientProperties
  imports ProtocolProperties OpenTTDClient
begin

text \<open>
  The properties of the OpenTTD client: frames are read back one by one, a console command returns the output of
  the server up to its end marker, observing sends nothing but polls, and connecting is all or nothing.
\<close>

section \<open>Frames\<close>

definition packet_bytes :: "int \<Rightarrow> bytes \<Rightarrow> bytes" where
  "packet_bytes kind payload = le_bytes 2 (int (length payload) + 3) @ byte_of kind # payload"

lemma encode_packet_frame:
  "encode_packet kind payload =
     (if length payload + 3 > max_packet_size then raise (BadValue ''OpenTTD Admin Network packet is too large'')
      else ok (packet_bytes (packet_code kind) payload))"
  by (auto simp: add.commute encode_packet_def Let_def pack_uint_def packet_bytes_def max_packet_size_def simp del: le_bytes.simps)

lemma read_frame:
  assumes "cl_connected c" and "cl_incoming c = packet_bytes kind payload @ rest" and "length payload + 3 \<le> max_packet_size"
    and "0 \<le> kind" and "kind < 256"
  shows "read_packet nw c = (rbind (decode_packet kind payload) check_packet, c\<lparr>cl_incoming := rest\<rparr>)"
proof -
  let ?n = "int (length payload) + 3"
  have n: "le_value (le_bytes 2 ?n) = ?n" "3 \<le> ?n" "?n \<le> int max_packet_size" "nat ?n - 2 = length payload + 1"
    using assms(3) by (simp_all add: le_value_bytes max_packet_size_def)
  have "read_exactly nw 2 c = (ok (le_bytes 2 ?n), c\<lparr>cl_incoming := byte_of kind # payload @ rest\<rparr>)"
    using assms(2) by (simp add: read_exactly_ok packet_bytes_def)
  moreover have "read_exactly nw (length payload + 1) (c\<lparr>cl_incoming := byte_of kind # payload @ rest\<rparr>) =
      (ok (byte_of kind # payload), c\<lparr>cl_incoming := rest\<rparr>)"
    by (simp add: read_exactly_ok)
  ultimately show ?thesis
    using n assms(1,4,5)
    by (simp add: read_packet_def seq_def require_connected_def Let_def lift_result_def uint_byte_of)
qed

text \<open>
  Framing round trip: a packet that the encoder produces, arriving at a connected client with anything after
  it, is read as exactly that packet's type and payload, and exactly the bytes after it stay in the stream.
\<close>

theorem frame_roundtrip:
  assumes "encode_packet kind payload = ok bytes" and "cl_connected c" and "cl_incoming c = bytes @ rest"
  shows "read_packet nw c =
    (rbind (decode_packet (packet_code kind) payload) check_packet, c\<lparr>cl_incoming := rest\<rparr>)"
proof (rule read_frame)
  show "cl_incoming c = packet_bytes (packet_code kind) payload @ rest" "length payload + 3 \<le> max_packet_size"
    using assms(1,3) by (auto simp: encode_packet_frame split: if_splits)
  show "0 \<le> packet_code kind" "packet_code kind < 256" by (cases kind; simp)+
qed (rule assms(2))

definition quiet_network :: network where
  "quiet_network = \<lparr>nw_clock = (\<lambda>_. 0), nw_stalls = True, nw_write = (\<lambda>_. None), nw_open = (\<lambda>_. ok [])\<rparr>"

definition sample_client :: "bytes \<Rightarrow> client" where
  "sample_client stream = \<lparr>cl_connected = True, cl_incoming = stream, cl_outgoing = [], cl_ticks = 0, cl_sessions = 1,
     cl_metadata = None, cl_map = None, cl_protocol = None\<rparr>"

definition sample_configuration :: admin_configuration where
  "sample_configuration = \<lparr>cf_password = [], cf_company = 2, cf_version = [], cf_protocol = 3, cf_connection_timeout = 5,
     cf_observation_timeout = 5, cf_action_timeout = 5\<rparr>"

theorem frame_roundtrip_witness:
  "read_packet quiet_network (sample_client [7, 0, 107, 65, 1, 0, 0, 9]) =
     (ok \<lparr>pk_type = 107, pk_payload = PInt 321\<rparr>, sample_client [9])"
proof -
  have "encode_packet ServerDate [65, 1, 0, 0] = ok [7, 0, 107, 65, 1, 0, 0]"
    by (simp add: encode_packet_frame max_packet_size_def packet_bytes_def numeral_eq_Suc byte_of_def)
  moreover have "rbind (decode_packet (packet_code ServerDate) [65, 1, 0, 0]) check_packet =
      ok \<lparr>pk_type = 107, pk_payload = PInt 321\<rparr>"
    by (simp add: decode_packet_def read_payload_def read_uint_def seq_def take_bytes_def ret_def le_value_def check_packet_def)
  ultimately show ?thesis
    using frame_roundtrip [of ServerDate "[65, 1, 0, 0]" "[7, 0, 107, 65, 1, 0, 0]"
        "sample_client [7, 0, 107, 65, 1, 0, 0, 9]" "[9]" quiet_network]
    by (simp add: sample_client_def)
qed

section \<open>Console commands\<close>

definition packet_frame :: "packet \<Rightarrow> bytes" where
  "packet_frame p = packet_bytes (pk_type p) (payload_wire (pk_type p) (pk_payload p))"

text \<open>A well-formed packet that does not end the session.\<close>

definition ordinary :: "packet \<Rightarrow> bool" where
  "ordinary p \<longleftrightarrow> payload_fits (pk_type p) (pk_payload p) \<and>
     length (payload_wire (pk_type p) (pk_payload p)) + 3 \<le> max_packet_size \<and> pk_type p \<noteq> packet_code ServerError"

lemma payload_fits_kind:
  "payload_fits kind p \<Longrightarrow> kind \<in> packet_code ` {ServerProtocol, ServerWelcome, ServerDate, ServerError, ServerCompanyInfo,
     ServerCompanyEconomy, ServerCompanyStats, ServerRcon, ServerRconEnd, ServerGamescript}"
  by (cases p) auto

lemma read_ordinary:
  assumes "ordinary p" and "cl_connected c" and "cl_incoming c = packet_frame p @ rest"
  shows "read_packet nw c = (ok p, c\<lparr>cl_incoming := rest\<rparr>)"
proof -
  have fits: "payload_fits (pk_type p) (pk_payload p)" using assms(1) by (simp add: ordinary_def)
  note kind = payload_fits_kind [OF fits]
  have "decode_packet (pk_type p) (payload_wire (pk_type p) (pk_payload p)) = ok p"
    using reads_payload [OF fits, unfolded reads_def, rule_format,
        of "\<lparr>rd_data = payload_wire (pk_type p) (pk_payload p), rd_offset = 0\<rparr>" "[]"]
    by (simp add: decode_packet_def)
  moreover have "check_packet p = ok p" using kind assms(1) by (auto simp: check_packet_def ordinary_def)
  moreover have "0 \<le> pk_type p" "pk_type p < 256" using kind by auto
  ultimately show ?thesis
    using read_frame [of c "pk_type p" "payload_wire (pk_type p) (pk_payload p)" rest nw] assms
    by (simp add: ordinary_def packet_frame_def)
qed

fun console_output :: "packet list \<Rightarrow> ustring list" where
  "console_output [] = []"
| "console_output (p # ps) = (case pk_payload p of PRcon colour m \<Rightarrow> m # console_output ps | _ \<Rightarrow> console_output ps)"

lemma rcon_loop_output:
  assumes "\<forall>n. nw_clock nw n < deadline" and "string_fits command" and "length (string_wire command) + 3 \<le> max_packet_size"
  shows "\<lbrakk>cl_connected c; cl_incoming c = concat (map packet_frame ps) @
      packet_frame \<lparr>pk_type = packet_code ServerRconEnd, pk_payload = PText command\<rparr> @ rest;
      \<forall>p \<in> set ps. ordinary p \<and> pk_type p \<noteq> packet_code ServerRconEnd\<rbrakk> \<Longrightarrow>
    rcon_loop nw command deadline acc c =
      (ok (acc @ console_output ps), c\<lparr>cl_incoming := rest, cl_ticks := cl_ticks c + length ps + 1\<rparr>)"
proof (induction ps arbitrary: acc c)
  case Nil
  let ?marker = "\<lparr>pk_type = packet_code ServerRconEnd, pk_payload = PText command\<rparr>"
  have "ordinary ?marker" using assms(2,3) by (simp add: ordinary_def)
  from read_ordinary [OF this, of "c\<lparr>cl_ticks := cl_ticks c + 1\<rparr>" rest nw] Nil
  show ?case using assms(1) by (simp add: rcon_loop.simps [of nw command deadline acc c] Let_def not_le)
next
  case (Cons p ps)
  let ?rest = "concat (map packet_frame ps) @
      packet_frame \<lparr>pk_type = packet_code ServerRconEnd, pk_payload = PText command\<rparr> @ rest"
  let ?c1 = "c\<lparr>cl_ticks := cl_ticks c + 1, cl_incoming := ?rest\<rparr>"
  have p: "ordinary p" "pk_type p \<noteq> packet_code ServerRconEnd" using Cons.prems(3) by simp_all
  have read: "read_packet nw (c\<lparr>cl_ticks := cl_ticks c + 1\<rparr>) = (ok p, ?c1)"
    using read_ordinary [OF p(1), of "c\<lparr>cl_ticks := cl_ticks c + 1\<rparr>" ?rest nw] Cons.prems(1,2) by simp
  have more: "rcon_loop nw command deadline out ?c1 =
      (ok (out @ console_output ps), c\<lparr>cl_incoming := rest, cl_ticks := cl_ticks c + length (p # ps) + 1\<rparr>)" for out
    using Cons.IH [of ?c1 out] Cons.prems by simp
  show ?case
  proof (cases "pk_type p = packet_code ServerRcon")
    case True
    then obtain colour m where "pk_payload p = PRcon colour m"
      using p(1) by (cases "pk_payload p") (auto simp: ordinary_def)
    with True read more assms(1) show ?thesis by (simp add: rcon_loop.simps [of nw command deadline acc c] Let_def not_le)
  next
    case False
    then have "console_output (p # ps) = console_output ps"
      using p(1) by (cases "pk_payload p") (auto simp: ordinary_def)
    with False p(2) read more assms(1) show ?thesis by (simp add: rcon_loop.simps [of nw command deadline acc c] Let_def not_le)
  qed
qed

text \<open>
  C23. A console command returns exactly what the server printed for it: if the server's packets up to the end marker
  of this command arrive in time, \<open>execute_rcon\<close> writes the command's packet, skips what is not console output, returns
  the messages of the console packets in their order and leaves whatever follows the marker unread.
\<close>

theorem console_command_output:
  assumes "cl_connected c" and "encode_rcon command = ok bytes" and "nw_write nw (length (cl_outgoing c)) = None"
    and "\<forall>n. nw_clock nw n < nw_clock nw (cl_ticks c) + cf_action_timeout cf"
    and "\<forall>p \<in> set ps. ordinary p \<and> pk_type p \<noteq> packet_code ServerRconEnd"
    and "cl_incoming c = concat (map packet_frame ps) @
      packet_frame \<lparr>pk_type = packet_code ServerRconEnd, pk_payload = PText command\<rparr> @ rest"
  shows "execute_rcon cf nw command c = (ok (console_output ps),
    c\<lparr>cl_incoming := rest, cl_outgoing := cl_outgoing c @ bytes, cl_ticks := cl_ticks c + length ps + 2\<rparr>)"
proof -
  obtain raw where raw: "protocol_string command = ok raw" "encode_packet AdminRcon raw = ok bytes"
    using assms(2) by (auto simp: encode_rcon_def rbind_Inr_iff)
  then have wire: "string_fits command" "raw = string_wire command"
    by (auto simp: protocol_string_def utf8_encode_def string_fits_def string_wire_def split: if_splits)
  then have small: "length (string_wire command) + 3 \<le> max_packet_size"
    using raw(2) by (auto simp: encode_packet_frame split: if_splits)
  let ?c = "c\<lparr>cl_outgoing := cl_outgoing c @ bytes, cl_ticks := cl_ticks c + 1\<rparr>"
  have "rcon_loop nw command (nw_clock nw (cl_ticks c) + cf_action_timeout cf) [] ?c =
      (ok ([] @ console_output ps), ?c\<lparr>cl_incoming := rest, cl_ticks := cl_ticks ?c + length ps + 1\<rparr>)"
    using assms by (intro rcon_loop_output [OF assms(4) wire(1) small]) simp_all
  then show ?thesis
    using assms(1-3)
    by (simp add: execute_rcon_def send_def seq_def lift_result_def require_connected_def loop_time_def)
qed

theorem console_command_output_witness:
  "\<exists>c'. execute_rcon sample_configuration quiet_network (ascii ''x'')
     (sample_client (packet_frame \<lparr>pk_type = 120, pk_payload = PRcon 1 (ascii ''hi'')\<rparr> @
        packet_frame \<lparr>pk_type = 125, pk_payload = PText (ascii ''x'')\<rparr>)) = (ok [ascii ''hi''], c')"
proof -
  let ?p = "\<lparr>pk_type = packet_code ServerRcon, pk_payload = PRcon 1 (ascii ''hi'')\<rparr>"
  have "encode_rcon (ascii ''x'') = ok (packet_bytes 5 (string_wire (ascii ''x'')))"
    by (simp add: encode_rcon_def protocol_string_def utf8_encode_def ascii_def scalar_def string_wire_def
      encode_packet_frame max_packet_size_def utf8_bytes_def)
  moreover have "ordinary ?p"
    by (simp add: ordinary_def uint_fits_def string_fits_def ascii_def scalar_def string_wire_def utf8_bytes_def
      max_packet_size_def)
  ultimately show ?thesis
    using console_command_output [of "sample_client (packet_frame ?p @
        packet_frame \<lparr>pk_type = packet_code ServerRconEnd, pk_payload = PText (ascii ''x'')\<rparr>)" "ascii ''x''" _ quiet_network
        "sample_configuration" "[?p]" "[]"]
    by (simp add: sample_client_def quiet_network_def sample_configuration_def)
qed

section \<open>Observing only polls\<close>

text \<open>What a client program may write: a prefix of the given packets, all of them when it succeeds.\<close>

definition writes :: "bytes list \<Rightarrow> 'a calling \<Rightarrow> bool" where
  "writes packets m \<longleftrightarrow> (\<forall>c r c'. m c = (r, c') \<longrightarrow>
     (\<exists>k \<le> length packets. cl_outgoing c' = cl_outgoing c @ concat (take k packets) \<and>
        (is_ok r \<longrightarrow> k = length packets)))"

lemma writes_none: "(\<And>c. cl_outgoing (snd (m c)) = cl_outgoing c) \<Longrightarrow> writes [] m"
  unfolding writes_def by (metis append_Nil2 concat.simps(1) le_refl list.size(3) snd_conv take_Nil)

lemma writes_seq:
  assumes m: "writes ps m" and f: "\<And>a. writes qs (f a)"
  shows "writes (ps @ qs) (seq m f)"
  unfolding writes_def
proof (intro allI impI)
  fix c r c' assume run: "seq m f c = (r, c')"
  obtain b c1 where b: "m c = (b, c1)" by fastforce
  from m [unfolded writes_def, rule_format, OF b] obtain k where
    k: "k \<le> length ps" "cl_outgoing c1 = cl_outgoing c @ concat (take k ps)" "is_ok b \<longrightarrow> k = length ps" by blast
  show "\<exists>k \<le> length (ps @ qs). cl_outgoing c' = cl_outgoing c @ concat (take k (ps @ qs)) \<and>
    (is_ok r \<longrightarrow> k = length (ps @ qs))"
  proof (cases b)
    case (Inl e)
    with run b have "r = Inl e" "c' = c1" by (simp_all add: seq_def)
    with k show ?thesis by (intro exI [of _ k]) auto
  next
    case (Inr a)
    with run b have "f a c1 = (r, c')" by (simp add: seq_def)
    from f [unfolded writes_def, rule_format, OF this] obtain j where
      "j \<le> length qs" "cl_outgoing c' = cl_outgoing c1 @ concat (take j qs)" "is_ok r \<longrightarrow> j = length qs" by blast
    with k Inr show ?thesis by (intro exI [of _ "length ps + j"]) auto
  qed
qed

lemma read_packet_outgoing [simp]: "cl_outgoing (snd (read_packet nw c)) = cl_outgoing c"
  by (auto simp: read_packet_def seq_def read_exactly_def require_connected_def throw_def lift_result_def Let_def
    split: prod.splits sum.splits if_splits)

lemma receive_loop_outgoing: "cl_outgoing (snd (receive_loop nw kind name as wanted deadline c)) = cl_outgoing c"
proof (induction nw kind name as wanted deadline c rule: receive_loop.induct)
  case (1 nw kind name as wanted deadline c)
  then show ?case
    using read_packet_outgoing [of nw "c\<lparr>cl_ticks := cl_ticks c + 1\<rparr>"]
    by (subst receive_loop.simps)
      (auto simp: Let_def simp del: read_packet_outgoing split: prod.splits sum.splits option.splits)
qed

lemma receive_matching_writes: "writes [] (receive_matching nw kind name as wanted timeout)"
  by (rule writes_none) (simp add: receive_matching_def seq_def loop_time_def receive_loop_outgoing)

lemma send_writes:
  assumes "data = ok bs"
  shows "writes [bs] (send nw data)"
  unfolding writes_def
proof (intro allI impI)
  fix c r c' assume "send nw data c = (r, c')"
  then consider "c' = c" "\<not> is_ok r" | "cl_outgoing c' = cl_outgoing c @ bs"
    by (auto simp: send_def assms seq_def lift_result_def require_connected_def split: if_splits)
  then show "\<exists>k \<le> length [bs]. cl_outgoing c' = cl_outgoing c @ concat (take k [bs]) \<and> (is_ok r \<longrightarrow> k = length [bs])"
    by cases (auto intro: exI [of _ 0] exI [of _ 1])
qed

lemma writes_skip: "writes [] m \<Longrightarrow> (\<And>a. writes qs (f a)) \<Longrightarrow> writes qs (seq m f)"
  using writes_seq [of "[]" m qs f] by simp

lemma writes_put: "writes [b] m \<Longrightarrow> (\<And>a. writes qs (f a)) \<Longrightarrow> writes (b # qs) (seq m f)"
  using writes_seq [of "[b]" m qs f] by simp

lemma writes_nothing:
  "writes [] require_connected" "writes [] (gets g)" "writes [] (lift_result x)" "writes [] metadata" "writes [] (ret a)"
  by (rule writes_none, simp add: require_connected_def gets_def lift_result_def metadata_def ret_def)+

lemma writes_catch: "writes [] m \<Longrightarrow> writes [] (catch m (\<lambda>e. throw (h e)))"
  by (rule writes_none) (auto simp: catch_def throw_def writes_def split: prod.splits sum.splits)

text \<open>The four packets of an observation.\<close>

definition poll_frame :: "update_type \<Rightarrow> int \<Rightarrow> bytes" where
  "poll_frame kind identifier = packet_bytes 3 (le_bytes 1 (update_code kind) @ le_bytes 4 identifier)"

definition polls :: "admin_configuration \<Rightarrow> bytes list" where
  "polls cf = [poll_frame UpdateCompanyInfo (cf_company cf), poll_frame UpdateDate all_companies,
     poll_frame UpdateCompanyEconomy all_companies, poll_frame UpdateCompanyStats all_companies]"

lemma length_polls: "length (polls cf) = 4"
  by (simp add: polls_def)

lemma encode_poll_frame: "0 \<le> i \<Longrightarrow> i < 256 ^ 4 \<Longrightarrow> encode_poll kind i = ok (poll_frame kind i)"
  by (cases kind)
    (simp_all add: encode_poll_def pack_uint_def encode_packet_frame max_packet_size_def poll_frame_def del: le_bytes.simps)

lemma collect_state_writes:
  assumes "0 \<le> cf_company cf" and "cf_company cf \<le> 14"
  shows "writes (polls cf) (collect_state cf nw)"
proof -
  have p: "writes [poll_frame k (cf_company cf)] (send nw (encode_poll k (cf_company cf)))"
    "writes [poll_frame k all_companies] (send nw (encode_poll k all_companies))" for k
    using assms by (auto intro!: send_writes encode_poll_frame simp: all_companies_def)
  show ?thesis
    unfolding collect_state_def polls_def Let_def
    by (rule writes_skip [OF writes_nothing(1)], rule writes_put [OF p(1)],
      rule writes_skip [OF writes_catch [OF receive_matching_writes]], rule writes_put [OF p(2)],
      rule writes_skip [OF receive_matching_writes], rule writes_put [OF p(2)],
      rule writes_skip [OF receive_matching_writes], rule writes_put [OF p(2)],
      rule writes_skip [OF receive_matching_writes],
      (rule writes_skip [OF writes_nothing(2)] writes_skip [OF writes_nothing(3)] writes_skip [OF writes_nothing(4)]
        writes_nothing(5))+)
qed

lemma receive_loop_wanted: "receive_loop nw kind name as wanted deadline c = (ok v, c') \<Longrightarrow> wanted v"
proof (induction "length (cl_incoming c)" arbitrary: c rule: less_induct)
  case less
  obtain a c1 where read: "read_packet nw (c\<lparr>cl_ticks := cl_ticks c + 1\<rparr>) = (a, c1)" by fastforce
  note step = less.prems [unfolded receive_loop.simps [of nw kind name as wanted deadline c] Let_def read prod.case]
  obtain p where a: "a = ok p" using step by (cases a) (auto split: if_splits)
  have "length (cl_incoming c1) < length (cl_incoming c)" using read_packet_shrinks [OF read [unfolded a]] by simp
  then have IH: "receive_loop nw kind name as wanted deadline c1 = (ok v, c') \<Longrightarrow> wanted v" by (rule less.hyps)
  show ?case using step IH unfolding a by (auto split: if_splits option.splits)
qed

lemma receive_matching_wanted: "receive_matching nw kind name as wanted timeout c = (ok v, c') \<Longrightarrow> wanted v"
  by (auto simp: receive_matching_def seq_ok loop_time_def dest: receive_loop_wanted)

lemma read_packet_fields:
  "cl_connected (snd (read_packet nw c)) = cl_connected c \<and> cl_protocol (snd (read_packet nw c)) = cl_protocol c \<and>
   cl_metadata (snd (read_packet nw c)) = cl_metadata c \<and> cl_map (snd (read_packet nw c)) = cl_map c"
  by (auto simp: read_packet_def seq_def read_exactly_def require_connected_def throw_def lift_result_def Let_def
    split: prod.splits sum.splits if_splits)

lemma receive_loop_fields:
  "cl_connected (snd (receive_loop nw kind name as wanted deadline c)) = cl_connected c \<and>
   cl_protocol (snd (receive_loop nw kind name as wanted deadline c)) = cl_protocol c \<and>
   cl_metadata (snd (receive_loop nw kind name as wanted deadline c)) = cl_metadata c \<and>
   cl_map (snd (receive_loop nw kind name as wanted deadline c)) = cl_map c"
proof (induction nw kind name as wanted deadline c rule: receive_loop.induct)
  case (1 nw kind name as wanted deadline c)
  then show ?case
    using read_packet_fields [of nw "c\<lparr>cl_ticks := cl_ticks c + 1\<rparr>"]
    by (subst (1 2 3 4) receive_loop.simps) (auto simp: Let_def split: prod.splits sum.splits option.splits)
qed

lemma receive_matching_fields:
  "receive_matching nw kind name as wanted timeout c = (r, c') \<Longrightarrow>
     cl_connected c' = cl_connected c \<and> cl_protocol c' = cl_protocol c \<and> cl_metadata c' = cl_metadata c \<and> cl_map c' = cl_map c"
  by (simp add: receive_matching_def seq_def loop_time_def) (metis snd_conv receive_loop_fields
    client.select_convs client.update_convs client.surjective)

lemma send_fields:
  "send nw data c = (r, c') \<Longrightarrow>
     cl_connected c' = cl_connected c \<and> cl_protocol c' = cl_protocol c \<and> cl_metadata c' = cl_metadata c \<and> cl_map c' = cl_map c"
  by (auto simp: send_def seq_def lift_result_def require_connected_def split: sum.splits if_splits)

text \<open>What a program returns while it leaves the session's metadata alone.\<close>

definition returns :: "connection_metadata option \<Rightarrow> 'a calling \<Rightarrow> ('a \<Rightarrow> bool) \<Rightarrow> bool" where
  "returns meta m Q \<longleftrightarrow> (\<forall>c a c'. cl_metadata c = meta \<and> m c = (ok a, c') \<longrightarrow> Q a \<and> cl_metadata c' = meta)"

lemma returns_seq: "returns meta m Q \<Longrightarrow> (\<And>a. Q a \<Longrightarrow> returns meta (f a) R) \<Longrightarrow> returns meta (seq m f) R"
  unfolding returns_def seq_ok by blast

lemma returns_matching: "returns meta (receive_matching nw kind name as wanted timeout) wanted"
  using receive_matching_wanted receive_matching_fields unfolding returns_def by metis

lemma returns_catch: "returns meta m Q \<Longrightarrow> returns meta (catch m (\<lambda>e. throw (h e))) Q"
  by (auto simp: returns_def catch_def throw_def split: prod.splits sum.splits)

lemma returns_company:
  "returns meta (lift_result (make_company info economy stats))
     (\<lambda>cy. cy_company cy = ci_company info \<and> ec_company (cy_economy cy) = ci_company info)"
  by (auto simp: returns_def lift_result_def make_company_def split: prod.splits if_splits)

lemma returns_metadata: "returns meta metadata (\<lambda>m. Some m = meta)"
  by (auto simp: returns_def metadata_def require_some_def split: option.splits)

lemma returns_other:
  "returns meta require_connected (\<lambda>_. True)" "returns meta (send nw data) (\<lambda>_. True)"
  "returns meta (gets g) (\<lambda>_. True)" "returns meta (lift_result x) (\<lambda>_. True)"
  using send_fields by (auto simp: returns_def require_connected_def gets_def lift_result_def)

lemma collect_state_company:
  "returns meta (collect_state cf nw)
     (\<lambda>s. cy_company (os_company s) = cf_company cf \<and> ec_company (cy_economy (os_company s)) = cf_company cf \<and>
        Some (os_connection s) = meta)"
  unfolding collect_state_def Let_def
  by ((rule returns_seq [OF returns_company] | rule returns_seq [OF returns_metadata] | rule returns_seq [OF returns_matching]
      | rule returns_seq [OF returns_catch [OF returns_matching]] | rule returns_seq [OF returns_other(1)]
      | rule returns_seq [OF returns_other(2)] | rule returns_seq [OF returns_other(3)] | rule returns_seq [OF returns_other(4)])+)
    (simp add: returns_def ret_def)

text \<open>
  Observing never touches the game: on every path of \<open>collect_state\<close>, timeouts, disconnects and malformed answers
  included, what the client writes is a prefix of the four poll packets of its company; when it returns a state it
  has written all four, the company and its economy in that state are the configured company's, and the server
  identity is the one that was received when the client connected.
\<close>

theorem observation_only_polls:
  assumes "0 \<le> cf_company cf" and "cf_company cf \<le> 14" and "collect_state cf nw c = (r, c')"
  shows "\<exists>k \<le> 4. cl_outgoing c' = cl_outgoing c @ concat (take k (polls cf)) \<and>
    (is_ok r \<longrightarrow> k = 4) \<and>
    (case r of Inl e \<Rightarrow> True | Inr s \<Rightarrow> cy_company (os_company s) = cf_company cf \<and>
       ec_company (cy_economy (os_company s)) = cf_company cf \<and> Some (os_connection s) = cl_metadata c)"
proof -
  from collect_state_writes [OF assms(1,2), of nw, unfolded writes_def, rule_format, OF assms(3)]
  obtain k where "k \<le> 4" "cl_outgoing c' = cl_outgoing c @ concat (take k (polls cf))" "is_ok r \<longrightarrow> k = 4"
    by (auto simp: length_polls)
  moreover have "cy_company (os_company s) = cf_company cf \<and> ec_company (cy_economy (os_company s)) = cf_company cf \<and>
      Some (os_connection s) = cl_metadata c" if "r = ok s" for s
    using collect_state_company [of "cl_metadata c" cf nw, unfolded returns_def] assms(3) that by blast
  then have "case r of Inl e \<Rightarrow> True | Inr s \<Rightarrow> cy_company (os_company s) = cf_company cf \<and>
       ec_company (cy_economy (os_company s)) = cf_company cf \<and> Some (os_connection s) = cl_metadata c"
    by (cases r) simp_all
  ultimately show ?thesis by blast
qed

theorem observation_only_polls_witness:
  "\<exists>k \<le> 4. cl_outgoing (snd (collect_state sample_configuration quiet_network (sample_client []))) =
     concat (take k (polls sample_configuration))"
proof -
  obtain r c' where run: "collect_state sample_configuration quiet_network (sample_client []) = (r, c')" by fastforce
  have "cl_outgoing (sample_client []) = []" by (simp add: sample_client_def)
  with observation_only_polls [OF _ _ run] show ?thesis unfolding run by (auto simp: sample_configuration_def)
qed

section \<open>Connecting\<close>

definition client_closed :: "client \<Rightarrow> bool" where
  "client_closed c \<longleftrightarrow> \<not> cl_connected c \<and> cl_metadata c = None \<and> cl_map c = None \<and> cl_protocol c = None"

definition negotiated :: "admin_configuration \<Rightarrow> client \<Rightarrow> bool" where
  "negotiated cf c \<longleftrightarrow> cl_connected c \<and> (\<exists>p m mm. cl_protocol c = Some p \<and> cl_metadata c = Some m \<and> cl_map c = Some mm \<and>
     pd_version p = cf_protocol cf \<and> cm_protocol_version m = cf_protocol cf \<and>
     version_matches (cm_openttd_version m) (cf_version cf) \<and> (\<forall>u \<in> set required_polls. odd (frequency p u)))"

lemma handshake_negotiates:
  assumes "handshake cf nw c = (ok u, c')" and "cl_connected c"
  shows "negotiated cf c'"
proof -
  obtain p w m mm c1 c2 c3 where run: "send nw (encode_join (cf_password cf) (ascii ''sim-pilot'') (ascii ''6b'')) c = (ok (), c1)"
    "receive_matching nw ServerProtocol ''SERVER_PROTOCOL'' as_protocol (\<lambda>_. True) (cf_connection_timeout cf) c1 = (ok p, c2)"
    "receive_matching nw ServerWelcome ''SERVER_WELCOME'' as_welcome (\<lambda>_. True) (cf_connection_timeout cf)
       (c2\<lparr>cl_protocol := Some p\<rparr>) = (ok w, c3)"
    and checks: "pd_version p = cf_protocol cf" "unsupported_polls p = []" "version_matches (wl_version w) (cf_version cf)"
      "make_metadata (pd_version p) w = ok m" "make_map w = ok mm"
    and c': "c' = c3\<lparr>cl_metadata := Some m, cl_map := Some mm\<rparr>"
    using assms(1)
    by (auto simp: handshake_def seq_ok modify_def lift_result_def throw_def split: if_splits)
  have "\<forall>u \<in> set required_polls. odd (frequency p u)"
    using checks(2) by (simp add: unsupported_polls_def filter_empty_conv flip: set_empty)
  moreover have "cm_protocol_version m = pd_version p" "cm_openttd_version m = wl_version w"
    using checks(4) by (auto simp: make_metadata_def split: if_splits)
  moreover have "cl_connected c3" "cl_protocol c3 = Some p"
    using send_fields [OF run(1)] receive_matching_fields [OF run(2)] receive_matching_fields [OF run(3)] assms(2) by auto
  ultimately show ?thesis using checks c' by (simp add: negotiated_def)
qed

lemma close_closes: "\<exists>c'. close nw c = (ok (), c') \<and> client_closed c'"
  by (simp add: close_def Let_def client_closed_def encode_packet_frame max_packet_size_def)

text \<open>
  C24. Connecting is all or nothing: from a closed client, \<open>connect\<close> either succeeds, and then protocol version and game
  version are the configured ones, all four required polls are advertised and every field is set, or it fails, for
  whatever reason and at whatever step, and then the client is closed again with every field cleared.
\<close>

theorem connect_all_or_nothing:
  assumes "client_closed c" and "connect cf nw c = (r, c')"
  shows "if is_ok r then negotiated cf c' else client_closed c'"
proof (cases "nw_open nw (cl_sessions c)")
  case (Inl e)
  then show ?thesis using assms by (auto simp: connect_def client_closed_def)
next
  case (Inr stream)
  let ?c = "c\<lparr>cl_sessions := cl_sessions c + 1, cl_connected := True, cl_incoming := stream\<rparr>"
  have run: "catch (handshake cf nw) (\<lambda>e. seq (close nw) (\<lambda>_. throw e)) ?c = (r, c')"
    using assms Inr by (simp add: connect_def client_closed_def)
  obtain h ch where h: "handshake cf nw ?c = (h, ch)" by fastforce
  show ?thesis
  proof (cases h)
    case (Inl e)
    obtain cc where "close nw ch = (ok (), cc)" "client_closed cc" using close_closes by blast
    with run h Inl show ?thesis by (auto simp: catch_def seq_def throw_def)
  next
    case (Inr u)
    with h handshake_negotiates [of cf nw ?c u ch] run show ?thesis by (auto simp: catch_def)
  qed
qed

theorem connect_all_or_nothing_witness:
  "client_closed (snd (connect sample_configuration quiet_network (sample_client [] \<lparr>cl_connected := False\<rparr>)))"
proof -
  let ?c = "sample_client [] \<lparr>cl_connected := False\<rparr>"
  obtain r c' where run: "connect sample_configuration quiet_network ?c = (r, c')" by fastforce
  have "client_closed ?c" by (simp add: client_closed_def sample_client_def)
  from connect_all_or_nothing [OF this run] have "if is_ok r then negotiated sample_configuration c' else client_closed c'" .
  moreover have "fst (connect sample_configuration quiet_network ?c) =
      Inl (OpenTTDTimeout ''timed out waiting for OpenTTD state'')" by code_simp
  then have "\<not> is_ok r" by (simp add: run)
  ultimately show ?thesis by (simp add: run)
qed

section \<open>A stalled packet\<close>

text \<open>
  A timeout inside a packet loses its header: when only the first three bytes of a date packet arrive before the
  timeout, the client stays connected, and once the remaining four bytes arrive the next read takes them for a
  header and rejects them, although the same seven bytes arriving together are a valid packet.
\<close>

theorem stalled_packet_desynchronises:
  "let (r, c) = read_packet quiet_network (sample_client [7, 0, 107]) in
     r = raise (OpenTTDTimeout ''timed out waiting for OpenTTD state'') \<and> cl_connected c \<and>
     fst (read_packet quiet_network (c\<lparr>cl_incoming := cl_incoming c @ [65, 1, 0, 0]\<rparr>)) =
       raise (InvalidResponse ''invalid protocol packet size: 16747'') \<and>
     fst (read_packet quiet_network (sample_client [7, 0, 107, 65, 1, 0, 0])) = ok \<lparr>pk_type = 107, pk_payload = PInt 321\<rparr>"
  by code_simp

end
