(* ===== verification/OpenTTDRecovery.thy ===== *)
theory OpenTTDRecovery
  imports RefAdapter
begin

text \<open>
  \<open>reconcile_openttd_action\<close> of \<open>reconciliation/openttd.py\<close> and the dispatcher of \<open>reconciliation/composition.py\<close>: an
  interrupted renaming is classified by comparing the name before, the requested name and the name observed now.
\<close>

section \<open>The reconciler\<close>

definition supported_action_resource :: "string \<Rightarrow> string option" where
  "supported_action_resource t = map_of
     [(''set_server_name'', ''server_name''), (''set_company_name'', ''company_name'')] t"

definition replace_underscores :: "char \<Rightarrow> string \<Rightarrow> string" where
  "replace_underscores c s = map (\<lambda>x. if x = CHR ''_'' then c else x) s"

definition nested_resource :: "jobject \<Rightarrow> string \<Rightarrow> json" where
  "nested_resource state name =
     (case jget state ''resources'' of JObj resources \<Rightarrow> jget resources name | _ \<Rightarrow> jget state name)"

definition bridge_identity :: "jobject \<Rightarrow> (json \<times> json \<times> json) option" where
  "bridge_identity state =
     (case jget state ''bridge'' of
        JObj bridge \<Rightarrow>
          (case jget bridge ''script_instance_id'' of
             JStr i \<Rightarrow> Some (JStr i, jget bridge ''active_company_context'', jget bridge ''capability_fingerprint'')
           | _ \<Rightarrow> None)
      | _ \<Rightarrow> None)"

definition bridge_identity_matches :: "jobject \<Rightarrow> jobject \<Rightarrow> bool" where
  "bridge_identity_matches prior current =
     (case (bridge_identity prior, bridge_identity current) of
        (Some (a, b, c), Some (a', b', c')) \<Rightarrow> py_eq a a' \<and> py_eq b b' \<and> py_eq c c'
      | _ \<Rightarrow> False)"

definition openttd_report ::
  "attempt \<Rightarrow> snapshot \<Rightarrow> snapshot option \<Rightarrow> classification \<Rightarrow> string \<Rightarrow> execution_result option \<Rightarrow> report" where
  "openttd_report a prior current cls reason result =
     \<lparr>rp_attempt = a, rp_class = cls, rp_reason = reason, rp_prior = prior, rp_current = current,
      rp_expected = None, rp_result = result\<rparr>"

definition renamed_result :: "string \<Rightarrow> execution_result" where
  "renamed_result message =
     \<lparr>res_version = 1, res_success = True, res_changed = True, res_cost = 0, res_message = message\<rparr>"

definition reconcile_openttd :: reconciler where
  "reconcile_openttd a prior current =
     (if at_status a = AtPrepared
      then ok (openttd_report a prior current DefinitelyNotExecuted ''execution boundary was never entered'' None)
      else case current of
        None \<Rightarrow> ok (openttd_report a prior None AdapterUnavailable ''current OpenTTD state is unavailable'' None)
      | Some cur \<Rightarrow>
      (case supported_action_resource (act_type (at_action a)) of
         None \<Rightarrow> ok (openttd_report a prior current Ambiguous
           (''OpenTTD action '' @ str_repr (act_type (at_action a)) @ '' has no registered state comparison'') None)
       | Some resource \<Rightarrow>
           if resource = ''company_name'' \<and> \<not> bridge_identity_matches (snap_state prior) (snap_state cur)
           then ok (openttd_report a prior current Ambiguous
             ''GameScript identity or company context changed across the crash boundary'' None)
           else
             (let words = replace_underscores (CHR '' '') resource;
                  observed = nested_resource (snap_state cur) resource in
              case (jget (act_parameters (at_action a)) ''name'', nested_resource (snap_state prior) resource) of
                (JStr requested, JStr before) \<Rightarrow>
                  if py_eq observed (JStr requested) \<and> before \<noteq> requested
                  then ok (openttd_report a prior current DefinitelyExecuted
                    (''fresh OpenTTD state contains the requested '' @ words)
                    (Some (renamed_result (''Reconciled '' @ resource @ '' from fresh OpenTTD state.''))))
                  else if py_eq observed (JStr before)
                  then ok (openttd_report a prior current DefinitelyNotExecuted
                    (''fresh OpenTTD state still contains the prior '' @ words)
                    (Some (renamed_result ''Expected result if the action is accepted as executed.'')))
                  else ok (openttd_report a prior current Ambiguous
                    (words @ '' matches neither the prior nor requested value'') None)
              | _ \<Rightarrow> ok (openttd_report a prior current Ambiguous
                  (''persisted '' @ replace_underscores (CHR ''-'') resource @ '' action or checkpoint is invalid'') None))))"

section \<open>The dispatcher of the application\<close>

definition legacy_openttd_type :: string where
  "legacy_openttd_type = ''sim_pilot.adapters.openttd.adapter.OpenTTDAdapter''"

definition default_dispatcher :: "(string \<Rightarrow> uuid) \<Rightarrow> (exn, dispatcher) result" where
  "default_dispatcher uuid5 = dispatcher_create
     [(''reference'', reconcile_reference uuid5), (''openttd'', reconcile_openttd),
      (legacy_openttd_type, reconcile_openttd)]"

lemma default_dispatcher_create:
  "default_dispatcher uuid5 = ok [(''reference'', reconcile_reference uuid5), (''openttd'', reconcile_openttd),
     (legacy_openttd_type, reconcile_openttd)]"
  by (simp add: default_dispatcher_def dispatcher_create_def dispatcher_register_def legacy_openttd_type_def strip_def
    is_space_def Let_def)

lemma py_eq_str: "py_eq v (JStr s) \<longleftrightarrow> v = JStr s"
  by (cases v) (auto simp: py_eq_def)

text \<open>The state after a renaming: the resource in the observed state holds the new name.\<close>

definition with_resource :: "string \<Rightarrow> string \<Rightarrow> jobject \<Rightarrow> jobject" where
  "with_resource resource name state =
     (case jget state ''resources'' of
        JObj resources \<Rightarrow> AList.update ''resources'' (JObj (AList.update resource (JStr name) resources)) state
      | _ \<Rightarrow> AList.update resource (JStr name) state)"

lemma nested_resource_renamed:
  assumes "resource \<noteq> ''resources''"
  shows "nested_resource (with_resource resource name state) resource = JStr name"
  using assms by (auto simp: nested_resource_def with_resource_def jget_def dict_set_get split: json.splits option.splits)

lemma bridge_identity_renamed:
  assumes "resource \<notin> {''bridge'', ''resources''}"
  shows "bridge_identity (with_resource resource name state) = bridge_identity state"
proof -
  have "jget (with_resource resource name state) ''bridge'' = jget state ''bridge''"
    using assms by (auto simp: with_resource_def jget_def dict_set_get split: json.splits)
  then show ?thesis by (simp add: bridge_identity_def)
qed

text \<open>
  A crash around an OpenTTD renaming is classified rightly by the application's dispatcher: for a started attempt
  of a supported renaming with a readable prior name (and, for the company, an identified bridge), a fresh state in
  which only the renaming can have happened is reported as definitely executed exactly when the renaming happened and
  changed the name, and as definitely not executed otherwise; it is never ambiguous.
\<close>

theorem openttd_crash_classified:
  assumes "default_dispatcher uuid5 = ok d" and "at_status a \<noteq> AtPrepared"
    and "supported_action_resource (act_type (at_action a)) = Some resource"
    and "jget (act_parameters (at_action a)) ''name'' = JStr requested"
    and "nested_resource (snap_state prior) resource = JStr before"
    and "resource = ''company_name'' \<longrightarrow> bridge_identity (snap_state prior) \<noteq> None"
    and "snap_adapter prior = ''openttd''"
    and "cur = prior\<lparr>snap_state := (if happened then with_resource resource requested (snap_state prior) else snap_state prior)\<rparr>"
  shows "\<exists>r. dispatcher_reconcile d a prior (Some cur) = ok r \<and> rp_prior r = prior \<and> rp_current r = Some cur \<and>
    rp_class r = (if happened \<and> before \<noteq> requested then DefinitelyExecuted else DefinitelyNotExecuted)"
proof -
  have resource: "resource \<in> {''server_name'', ''company_name''}"
    using assms(3) by (auto simp: supported_action_resource_def split: if_splits)
  then have now: "nested_resource (snap_state cur) resource = JStr (if happened then requested else before)"
    using assms(5) nested_resource_renamed [of resource requested "snap_state prior"] by (auto simp: assms(8))
  have same: "bridge_identity (snap_state cur) = bridge_identity (snap_state prior)"
    using resource bridge_identity_renamed [of resource requested "snap_state prior"] by (auto simp: assms(8))
  have bridge: "\<not> (resource = ''company_name'' \<and> \<not> bridge_identity_matches (snap_state prior) (snap_state cur))"
    using assms(6) by (auto simp: bridge_identity_matches_def same split: option.splits)
  have "d = [(''reference'', reconcile_reference uuid5), (''openttd'', reconcile_openttd),
     (legacy_openttd_type, reconcile_openttd)]"
    using assms(1) by (simp add: default_dispatcher_create)
  then have "dispatcher_reconcile d a prior (Some cur) = reconcile_openttd a prior (Some cur)"
    using assms(7,8) by (simp add: dispatcher_reconcile_def)
  then show ?thesis
    using assms(2,4,5) bridge now
    by (auto simp: reconcile_openttd_def assms(3) openttd_report_def Let_def py_eq_str)
qed

definition sample_rename :: attempt where
  "sample_rename = \<lparr>at_task = 7, at_sequence = 1, at_id = 8, at_fingerprint = [], at_action = \<lparr>act_version = 1,
     act_type = ''set_server_name'', act_parameters = [(''name'', JStr ''New'')], act_effect = [], act_cost = 0\<rparr>,
     at_checkpoint = None, at_observation = [], at_effect = [], at_cost = 0, at_status = AtStarted, at_prepared = 0,
     at_updated = 0, at_classification = None, at_reason = None\<rparr>"

definition openttd_snapshot :: "string \<Rightarrow> snapshot" where
  "openttd_snapshot adapter = \<lparr>snap_version = 1, snap_adapter = adapter, snap_sim_version = 1, snap_sequence = 1,
     snap_seed = ''0'', snap_state = [(''resources'', JObj [(''server_name'', JStr ''Old'')])]\<rparr>"

theorem openttd_crash_classified_witness:
  "\<exists>r. rbind (default_dispatcher (\<lambda>_. 0)) (\<lambda>d. dispatcher_reconcile d sample_rename (openttd_snapshot ''openttd'')
      (Some ((openttd_snapshot ''openttd'')\<lparr>snap_state := with_resource ''server_name'' ''New''
        (snap_state (openttd_snapshot ''openttd''))\<rparr>))) = ok r \<and> rp_class r = DefinitelyExecuted"
proof -
  obtain d where d: "default_dispatcher (\<lambda>_. 0) = ok d" by (simp add: default_dispatcher_create)
  from openttd_crash_classified [OF d, of sample_rename "''server_name''" "''New''" "openttd_snapshot ''openttd''" "''Old''"
      _ True, OF _ _ _ _ _ _ refl]
  show ?thesis
    by (auto simp: d sample_rename_def openttd_snapshot_def supported_action_resource_def nested_resource_def jget_def)
qed

text \<open>
  The persisted alias of the OpenTTD adapter cannot reconcile anything observed: a checkpoint with the legacy
  adapter type and a fresh snapshot of today's adapter are refused as belonging to different adapters, before the
  reconciler that is registered for the alias is called, whatever the attempt.
\<close>

theorem legacy_alias_unreachable:
  assumes "default_dispatcher uuid5 = ok d" and "snap_adapter prior = legacy_openttd_type"
    and "snap_adapter cur = ''openttd''"
  shows "map_of d (snap_adapter prior) = Some reconcile_openttd \<and>
    dispatcher_reconcile d a prior (Some cur) = raise (Exn AdapterReconciliationMismatch
      ''current adapter snapshot type does not match the persisted checkpoint'')"
  using assms by (auto simp: default_dispatcher_create dispatcher_reconcile_def legacy_openttd_type_def)

theorem legacy_alias_unreachable_witness:
  "rbind (default_dispatcher (\<lambda>_. 0)) (\<lambda>d. dispatcher_reconcile d sample_rename (openttd_snapshot legacy_openttd_type)
     (Some (openttd_snapshot ''openttd''))) = raise (Exn AdapterReconciliationMismatch
      ''current adapter snapshot type does not match the persisted checkpoint'')"
proof -
  obtain d where d: "default_dispatcher (\<lambda>_. 0) = ok d" by (simp add: default_dispatcher_create)
  from legacy_alias_unreachable [OF d, of "openttd_snapshot legacy_openttd_type" "openttd_snapshot ''openttd''" sample_rename]
  show ?thesis by (simp add: d openttd_snapshot_def)
qed

end
