(* ===== verification/OpenTTDActions.thy ===== *)
theory OpenTTDActions
  imports ClientProperties RuntimeModels
begin

text \<open>
  The two actions of \<open>adapters/openttd/adapter.py\<close>: the validation of \<open>SetServerNameOpenTTDAction\<close> and
  \<open>SetCompanyNameOpenTTDAction\<close> and the console command. The name is put between quotes in a command line that the game's
  console interprets, so what the validation lets through is what keeps the command one command.
\<close>

definition name_parameter :: "action \<Rightarrow> string \<Rightarrow> string \<Rightarrow> (exn, string) result" where
  "name_parameter a kind unsupported =
     (if act_type a \<noteq> kind then raise (Exn ValueErr (unsupported @ act_type a))
      else if set (map fst (act_parameters a)) \<noteq> {''name''}
      then raise (Exn ValueErr (kind @ '' requires exactly the '' @ str_repr ''name'' @ '' parameter''))
      else case jget (act_parameters a) ''name'' of
        JStr v \<Rightarrow> ok v
      | _ \<Rightarrow> raise (Exn ValueErr (kind @ '' name must be a string'')))"

definition control_character :: "char \<Rightarrow> bool" where
  "control_character c \<longleftrightarrow> (of_char c :: int) < 32"

definition unsafe_character :: "char \<Rightarrow> bool" where
  "unsafe_character c \<longleftrightarrow> c \<in> {CHR 0x22, CHR 0x5C, CHR '';''} \<or> control_character c"

definition utf8_length :: "string \<Rightarrow> nat" where
  "utf8_length s = (case utf8_encode (ascii s) of None \<Rightarrow> 0 | Some bs \<Rightarrow> length bs)"

definition set_server_name_from_action :: "action \<Rightarrow> (exn, string) result" where
  "set_server_name_from_action a =
     rbind (name_parameter a ''set_server_name'' ''unsupported OpenTTD action: '') (\<lambda>name.
     if name = [] then raise (Exn ValidationErr ''String should have at least 1 character'')
     else if name \<noteq> strip name
     then raise (Exn ValueErr ''server name must not have leading or trailing whitespace'')
     else if utf8_length name > 79 then raise (Exn ValueErr ''server name exceeds OpenTTD's 79-byte UTF-8 limit'')
     else if list_ex unsafe_character name
     then raise (Exn ValueErr ''server name contains an unsafe console character'')
     else ok name)"

definition server_name_command :: "string \<Rightarrow> string" where
  "server_name_command name = ''server_name '' @ CHR 0x22 # name @ [CHR 0x22]"

definition set_company_name_from_action :: "action \<Rightarrow> (exn, string) result" where
  "set_company_name_from_action a =
     rbind (name_parameter a ''set_company_name'' ''unsupported OpenTTD GameScript action: '') (\<lambda>name.
     if name = [] \<or> length name > 128 then raise (Exn ValidationErr ''String length out of range'')
     else if name \<noteq> strip name
     then raise (Exn ValueErr ''company name must not have leading or trailing whitespace'')
     else if list_ex control_character name
     then raise (Exn ValueErr ''company name contains a control character'')
     else ok name)"

lemma name_parameter_ok: "name_parameter a kind unsupported = ok v \<Longrightarrow> jget (act_parameters a) ''name'' = JStr v"
  unfolding name_parameter_def by (cases "jget (act_parameters a) ''name''") (simp_all split: if_split_asm)

lemma scalar_char: "scalar (of_char c)"
proof -
  have "(of_char c :: nat) < 256" by simp
  then have "(of_char c :: int) < 256" by (metis of_nat_less_numeral_iff of_nat_of_char)
  moreover have "0 \<le> (of_char c :: int)" by (metis of_nat_0_le_iff of_nat_of_char)
  ultimately show ?thesis by (simp add: scalar_def)
qed

lemma utf8_encode_ascii: "utf8_encode (ascii s) = Some (concat (map utf8_bytes (ascii s)))"
  by (auto simp: utf8_encode_def ascii_def list_all_iff scalar_char)

text \<open>
  C25. An accepted server name cannot break out of its console command: it contains no quote, backslash, semicolon
  or control character, so the command holds exactly the two quotes around the name and no separator; and the
  command always fits one console packet, so that sending it never fails in the encoder.
\<close>

theorem server_name_command_safe:
  assumes "set_server_name_from_action a = ok name"
  shows "jget (act_parameters a) ''name'' = JStr name \<and>
    filter (\<lambda>c. c \<in> {CHR 0x22, CHR 0x5C, CHR '';''} \<or> control_character c) (server_name_command name) = [CHR 0x22, CHR 0x22] \<and>
    (\<exists>packet. encode_rcon (ascii (server_name_command name)) = ok packet \<and> length packet \<le> 100)"
proof -
  obtain v where v: "name_parameter a ''set_server_name'' ''unsupported OpenTTD action: '' = ok v"
    and checks: "(if v = [] then raise (Exn ValidationErr ''String should have at least 1 character'')
     else if v \<noteq> strip v
     then raise (Exn ValueErr ''server name must not have leading or trailing whitespace'')
     else if utf8_length v > 79 then raise (Exn ValueErr ''server name exceeds OpenTTD's 79-byte UTF-8 limit'')
     else if list_ex unsafe_character v
     then raise (Exn ValueErr ''server name contains an unsafe console character'')
     else ok v) = ok name"
    using assms unfolding set_server_name_from_action_def rbind_Inr_iff by blast
  then have "v = name" and name: "utf8_length name \<le> 79" "\<not> list_ex unsafe_character name"
    by (simp_all split: if_split_asm)
  with v have parameter: "jget (act_parameters a) ''name'' = JStr name" by (simp add: name_parameter_ok)
  have safe: "filter (\<lambda>c. c \<in> {CHR 0x22, CHR 0x5C, CHR '';''} \<or> control_character c) name = []"
    using name(2) by (auto simp: list_ex_iff unsafe_character_def filter_empty_conv)
  then have quotes: "filter (\<lambda>c. c \<in> {CHR 0x22, CHR 0x5C, CHR '';''} \<or> control_character c) (server_name_command name) =
      [CHR 0x22, CHR 0x22]"
    by (simp add: server_name_command_def control_character_def)
  have nul: "0 \<notin> set (ascii name)"
  proof
    assume "0 \<in> set (ascii name)"
    then obtain c where c: "c \<in> set name" "(of_char c :: int) = 0" unfolding ascii_def by auto
    then have "unsafe_character c" by (simp add: unsafe_character_def control_character_def)
    with c(1) name(2) show False by (auto simp: list_ex_iff)
  qed
  let ?bytes = "concat (map utf8_bytes (ascii (server_name_command name)))"
  have "length ?bytes = 14 + utf8_length name"
    unfolding utf8_length_def utf8_encode_ascii option.case
    by (simp add: server_name_command_def ascii_def utf8_bytes_def)
  then have size: "length ?bytes \<le> 93" using name(1) by simp
  have "protocol_string (ascii (server_name_command name)) = ok (?bytes @ [0])"
    using nul by (auto simp: protocol_string_def utf8_encode_ascii) (auto simp: server_name_command_def ascii_def)
  then have "encode_rcon (ascii (server_name_command name)) = ok (packet_bytes 5 (?bytes @ [0]))"
    using size by (simp add: encode_rcon_def encode_packet_frame max_packet_size_def)
  moreover have "length (packet_bytes 5 (?bytes @ [0])) \<le> 100" using size by (simp add: packet_bytes_def)
  ultimately show ?thesis using parameter quotes by blast
qed

definition rename_server :: action where
  "rename_server = \<lparr>act_version = 1, act_type = ''set_server_name'', act_parameters = [(''name'', JStr ''My Game'')],
     act_effect = [], act_cost = 0\<rparr>"

theorem server_name_command_safe_witness:
  "\<exists>packet. encode_rcon (ascii (server_name_command ''My Game'')) = ok packet \<and> length packet \<le> 100"
proof -
  have "set_server_name_from_action rename_server = ok ''My Game''" by code_simp
  from server_name_command_safe [OF this] show ?thesis by blast
qed

end
