(* ===== verification/GameSnapshot.thy ===== *)
theory GameSnapshot
  imports JsonText Uuid "HOL-Library.Monad_Syntax"
begin

text \<open>
  The snapshots of a running game as \<open>game_bridge/models.py\<close> defines them, with the validators of the models, and
  the errors of the Software Inc modules (\<open>software_inc/errors.py\<close>). A timestamp is in microseconds. The message of
  a rejected model is the name of the model.
\<close>

section \<open>Errors\<close>

datatype ui_exn =
    UIObservationError string
  | UIValidationError string
  | UIVerificationError string
  | ModelRejected string
  | ControlFailed string
  | StoreFailed string

section \<open>Models\<close>

datatype platform = MacOS | Windows | Linux

datatype architecture = X86_64 | Arm64

datatype identity_status = IdentityObserved | IdentityUnavailable

fun identity_status_text :: "identity_status \<Rightarrow> string" where
  "identity_status_text IdentityObserved = ''observed''"
| "identity_status_text IdentityUnavailable = ''unavailable''"

record identity =
  id_status :: identity_status
  id_value :: "string option"
  id_label :: "string option"
  id_detail :: "string option"

definition bounded_text :: "nat \<Rightarrow> string \<Rightarrow> bool" where
  "bounded_text n s \<longleftrightarrow> 1 \<le> length s \<and> length s \<le> n"

definition bounded_opt :: "nat \<Rightarrow> string option \<Rightarrow> bool" where
  "bounded_opt n v = (case v of None \<Rightarrow> True | Some s \<Rightarrow> bounded_text n s)"

definition valid_identity :: "identity \<Rightarrow> bool" where
  "valid_identity i \<longleftrightarrow> bounded_opt 256 (id_value i) \<and> bounded_opt 256 (id_label i) \<and> bounded_opt 512 (id_detail i) \<and>
     (case id_status i of IdentityObserved \<Rightarrow> id_value i \<noteq> None | IdentityUnavailable \<Rightarrow> id_value i = None)"

datatype coverage_status =
  ObservedComplete | ObservedPartial | CoverageUnsupported | CoverageUnavailable | CoverageFailed

record field_coverage =
  fc_surface :: string
  fc_status :: coverage_status
  fc_fields :: "string list"
  fc_detail :: "string option"

text \<open>\<open>tuple(sorted(set(xs))) == xs\<close>\<close>

definition sorted_unique :: "string list \<Rightarrow> bool" where
  "sorted_unique xs \<longleftrightarrow> sorted_wrt (<) xs"

definition valid_coverage :: "field_coverage \<Rightarrow> bool" where
  "valid_coverage c \<longleftrightarrow> bounded_text 128 (fc_surface c) \<and> bounded_opt 1024 (fc_detail c) \<and> sorted_unique (fc_fields c)"

record entity =
  en_type :: string
  en_id :: string
  en_values :: jobject

definition entity_before :: "entity \<Rightarrow> entity \<Rightarrow> bool" where
  "entity_before a b \<longleftrightarrow> en_type a < en_type b \<or> en_type a = en_type b \<and> en_id a < en_id b"

record surface =
  su_coverage :: field_coverage
  su_entities :: "entity list"

definition valid_surface :: "surface \<Rightarrow> bool" where
  "valid_surface s \<longleftrightarrow> valid_coverage (su_coverage s) \<and>
     (\<forall>e \<in> set (su_entities s). bounded_text 128 (en_type e) \<and> bounded_text 256 (en_id e)) \<and>
     (fc_status (su_coverage s) \<in> {CoverageUnsupported, CoverageUnavailable, CoverageFailed} \<longrightarrow> su_entities s = []) \<and>
     sorted_wrt entity_before (su_entities s)"

record game_snapshot =
  gs_captured :: int
  gs_started :: string
  gs_completed :: string
  gs_sequence :: int
  gs_instance :: string
  gs_session :: string
  gs_game :: string
  gs_version :: string
  gs_adapter :: string
  gs_platform :: platform
  gs_architecture :: architecture
  gs_map :: identity
  gs_save :: identity
  gs_state :: jobject
  gs_surfaces :: "surface list"
  gs_warnings :: "string list"
  gs_limitations :: "string list"

definition valid_snapshot :: "game_snapshot \<Rightarrow> bool" where
  "valid_snapshot s \<longleftrightarrow>
     bounded_text 256 (gs_started s) \<and> bounded_text 256 (gs_completed s) \<and> 1 \<le> gs_sequence s \<and>
     (\<forall>t \<in> {gs_instance s, gs_session s, gs_game s, gs_version s, gs_adapter s}. bounded_text 128 t) \<and>
     valid_identity (gs_map s) \<and> valid_identity (gs_save s) \<and> (\<forall>u \<in> set (gs_surfaces s). valid_surface u) \<and>
     sorted_unique (map (\<lambda>u. fc_surface (su_coverage u)) (gs_surfaces s))"

section \<open>The identity of a save\<close>

text \<open>\<open>json.dumps(snapshot.save_identity.model_dump(mode="json"), sort_keys=True)\<close>\<close>

definition save_text :: "game_snapshot \<Rightarrow> string" where
  "save_text s = spaced_text
     [(''status'', JStr (identity_status_text (id_status (gs_save s)))), (''value'', opt_json JStr (id_value (gs_save s))),
      (''label'', opt_json JStr (id_label (gs_save s))), (''detail'', opt_json JStr (id_detail (gs_save s)))]"

section \<open>Looking things up\<close>

text \<open>Exactly one match, as every projection of the Software Inc modules requires.\<close>

definition the_one :: "'e \<Rightarrow> 'a list \<Rightarrow> ('e, 'a) result" where
  "the_one e xs = (case xs of [x] \<Rightarrow> ok x | _ \<Rightarrow> raise e)"

lemma the_one_ok: "the_one e xs = ok x \<longleftrightarrow> xs = [x]"
  by (auto simp: the_one_def split: list.splits)

lemma sorted_unique_one:
  assumes "sorted_unique (map f xs)" and "x \<in> set xs"
  shows "filter (\<lambda>y. f y = f x) xs = [x]"
  using assms
proof (induction xs)
  case (Cons y ys)
  have "z \<in> set ys \<Longrightarrow> f y < f z" for z using Cons.prems(1) by (auto simp: sorted_unique_def)
  then have "z \<in> set ys \<Longrightarrow> f z \<noteq> f y" for z by (metis less_irrefl)
  then show ?case
    using Cons by (auto simp: sorted_unique_def filter_empty_conv)
qed simp

text \<open>In a valid snapshot a surface is found by its name.\<close>

lemma surface_found:
  assumes "valid_snapshot s" and "u \<in> set (gs_surfaces s)"
  shows "the_one e (filter (\<lambda>v. fc_surface (su_coverage v) = fc_surface (su_coverage u)) (gs_surfaces s)) = ok u"
  using sorted_unique_one [of "\<lambda>u. fc_surface (su_coverage u)" "gs_surfaces s" u] assms
  by (simp add: the_one_ok valid_snapshot_def)

definition value_text :: "entity \<Rightarrow> string \<Rightarrow> bool \<Rightarrow> (ui_exn, string) result" where
  "value_text e field blank = (case as_str (jget (en_values e) field) of
     Some s \<Rightarrow> if blank \<or> strip s \<noteq> [] then ok s
               else raise (UIValidationError (en_id e @ ''.'' @ field @ '' is not observed text''))
   | None \<Rightarrow> raise (UIValidationError (en_id e @ ''.'' @ field @ '' is not observed text'')))"

definition value_decimal :: "entity \<Rightarrow> string \<Rightarrow> (ui_exn, rat) result" where
  "value_decimal e field = (case as_decimal (jget (en_values e) field) of
     Some x \<Rightarrow> ok x | None \<Rightarrow> raise (UIValidationError (en_id e @ ''.'' @ field @ '' is not observed numeric'')))"

definition value_integer :: "entity \<Rightarrow> string \<Rightarrow> (ui_exn, int) result" where
  "value_integer e field = (case as_int (jget (en_values e) field) of
     Some i \<Rightarrow> ok i | None \<Rightarrow> raise (UIValidationError (en_id e @ ''.'' @ field @ '' is not an integer'')))"

definition value_boolean :: "entity \<Rightarrow> string \<Rightarrow> (ui_exn, bool) result" where
  "value_boolean e field = (case as_bool (jget (en_values e) field) of
     Some b \<Rightarrow> ok b | None \<Rightarrow> raise (UIValidationError (en_id e @ ''.'' @ field @ '' is not boolean'')))"

definition named_surface :: "game_snapshot \<Rightarrow> string \<Rightarrow> (ui_exn, surface) result" where
  "named_surface s name = the_one (UIValidationError (name @ '' surface is missing or duplicated''))
     (filter (\<lambda>u. fc_surface (su_coverage u) = name) (gs_surfaces s))"

definition complete_surface :: "game_snapshot \<Rightarrow> string \<Rightarrow> (ui_exn, surface) result" where
  "complete_surface s name = rbind (named_surface s name) (\<lambda>u.
     if fc_status (su_coverage u) \<noteq> ObservedComplete
     then raise (UIValidationError (name @ '' is not completely observed: '' @
       (case fc_detail (su_coverage u) of None \<Rightarrow> ''None'' | Some d \<Rightarrow> d)))
     else ok u)"

definition typed_entities :: "string \<Rightarrow> surface \<Rightarrow> entity list" where
  "typed_entities t u = filter (\<lambda>e. en_type e = t) (su_entities u)"

end
