(* ===== verification/Training.thy ===== *)
theory Training
  imports GameSnapshot "HOL-Library.Product_Lexorder"
begin

text \<open>
  Education of one employee, \<open>software_inc/training/\<close>: the models, the projections from a snapshot
  (\<open>projection.py\<close>), the recommendation (\<open>policy.py\<close>) and the workflow with its approvals (\<open>workflow.py\<close>). SHA-256 and
  \<open>uuid5\<close> are the parameter \<open>naming\<close>; identifiers from \<open>uuid4\<close> and times are arguments.
\<close>

section \<open>Models\<close>

datatype training_status = Planned | WaitingForApproval | Active | TrainingBlocked | TrainingCompleted

record employee_training =
  et_id :: string
  et_name :: string
  et_team :: string
  et_role :: string
  et_specialization :: string
  et_level :: int
  et_skill :: rat
  et_salary :: rat
  et_taking :: bool
  et_courses :: "string list"
  et_cost :: rat

record training_candidate =
  tc_employee :: employee_training
  tc_target :: int
  tc_cost :: rat
  tc_projected :: rat
  tc_payroll :: rat
  tc_capacity_before :: int
  tc_capacity_during :: int
  tc_cash :: rat
  tc_cash_after :: rat
  tc_reserve :: rat
  tc_displaced :: "string list"
  tc_eligible :: bool
  tc_reasons :: "string list"

record training_recommendation =
  tr_id :: string
  tr_session :: string
  tr_save :: string
  tr_sequence :: int
  tr_fingerprint :: string
  tr_team :: string
  tr_recommended :: "training_candidate option"
  tr_alternatives :: "training_candidate list"
  tr_rejected :: int
  tr_rejections :: "string list"
  tr_unknowns :: "string list"
  tr_created :: int
  tr_expires :: int

record training_approval =
  ta_id :: uuid
  ta_workflow :: uuid
  ta_summary :: string
  ta_employee :: string
  ta_name :: string
  ta_team :: string
  ta_stage :: int
  ta_level_before :: int
  ta_level_after :: int
  ta_cost :: rat
  ta_payroll :: rat
  ta_cash_after :: rat
  ta_reserve :: rat
  ta_fingerprint :: string
  ta_approved :: "bool option"
  ta_created :: int
  ta_resolved :: "int option"

definition make_approval :: "training_approval \<Rightarrow> (ui_exn, training_approval) result" where
  "make_approval a =
     (if bounded_text 1024 (ta_summary a) \<and> 1 \<le> ta_stage a \<and> ta_stage a \<le> 3 \<and> 0 \<le> ta_level_before a \<and>
         ta_level_before a \<le> 2 \<and> 1 \<le> ta_level_after a \<and> ta_level_after a \<le> 3 \<and> 0 \<le> ta_cost a \<and>
         0 \<le> ta_payroll a \<and> 0 \<le> ta_reserve a \<and> (ta_approved a = None \<longleftrightarrow> ta_resolved a = None)
      then ok a else raise (ModelRejected ''TrainingApproval''))"

record training_workflow =
  tw_id :: uuid
  tw_session :: string
  tw_save :: string
  tw_employee :: string
  tw_name :: string
  tw_team :: string
  tw_completed :: int
  tw_projected :: rat
  tw_actual :: rat
  tw_payroll :: rat
  tw_reserve :: rat
  tw_initial_cash :: rat
  tw_initial_level :: int
  tw_level :: int
  tw_status :: training_status
  tw_approval :: "training_approval option"
  tw_fingerprint :: string
  tw_started :: "string option"
  tw_finished :: "string option"
  tw_sequence :: int
  tw_created :: int
  tw_updated :: int

definition requested_months :: int where "requested_months = 3"

definition course_months :: int where "course_months = 1"

definition target_level :: int where "target_level = 3"

section \<open>Projections\<close>

definition education_duration_months :: "game_snapshot \<Rightarrow> (ui_exn, int) result" where
  "education_duration_months s = rbind (complete_surface s ''education'') (\<lambda>u.
     rbind (the_one (UIValidationError ''education duration did not resolve exactly once'')
       (typed_entities ''education_rule'' u)) (\<lambda>rule. value_integer rule ''duration_months''))"

text \<open>A loop that skips an element or adds one result for it\<close>

fun rcollect :: "('a \<Rightarrow> ('e, 'b option) result) \<Rightarrow> 'a list \<Rightarrow> ('e, 'b list) result" where
  "rcollect f [] = ok []"
| "rcollect f (x # xs) = rbind (f x) (\<lambda>r. rbind (rcollect f xs) (\<lambda>rs.
     ok (case r of None \<Rightarrow> rs | Some y \<Rightarrow> y # rs)))"

lemma rcollect_all:
  assumes "rcollect f xs = ok ys"
  shows "y \<in> set ys \<longleftrightarrow> (\<exists>x \<in> set xs. f x = ok (Some y))"
  using assms
proof (induction xs arbitrary: ys)
  case (Cons x xs)
  then obtain r rs where f: "f x = ok r" and rs: "rcollect f xs = ok rs"
    and ys: "ys = (case r of None \<Rightarrow> rs | Some y \<Rightarrow> y # rs)"
    by (auto simp: rbind_Inr_iff)
  show ?case using Cons.IH [OF rs] by (auto simp: f ys split: option.splits)
qed simp

lemma rcollect_members: "rcollect f xs = ok ys \<Longrightarrow> x \<in> set xs \<Longrightarrow> \<exists>r. f x = ok r"
  by (induction xs arbitrary: ys) (auto simp: rbind_Inr_iff)

lemma first_of_sorted:
  fixes key :: "'a \<Rightarrow> 'b::linorder"
  assumes "sort_key key xs = c # cs"
  shows "c \<in> set xs \<and> (\<forall>d \<in> set xs. key c \<le> key d)"
proof -
  have "set xs = set (c # cs)" by (metis assms set_sort)
  moreover have "sorted (map key (c # cs))" by (metis assms sorted_sort_key)
  ultimately show ?thesis by auto
qed

definition check_employee :: "employee_training \<Rightarrow> (ui_exn, employee_training) result" where
  "check_employee e =
     (if 0 \<le> et_level e \<and> 0 \<le> et_skill e \<and> 0 \<le> et_salary e \<and> 0 \<le> et_cost e then ok e
      else raise (ModelRejected ''EmployeeTrainingObservation''))"

definition employee_by_id :: "surface \<Rightarrow> string \<Rightarrow> entity option" where
  "employee_by_id u i = map_of (rev (map (\<lambda>e. (en_id e, e)) (typed_entities ''employee'' u))) i"

definition read_employee ::
  "string \<Rightarrow> string \<Rightarrow> entity \<Rightarrow> string \<Rightarrow> entity \<Rightarrow> (ui_exn, employee_training) result" where
  "read_employee role specialization spec i employee =
     rbind (value_text employee ''courses'' True) (\<lambda>courses.
     rbind (value_text employee ''name'' False) (\<lambda>name.
     rbind (value_text employee ''team'' False) (\<lambda>team.
     rbind (value_integer spec ''level'') (\<lambda>level.
     rbind (value_decimal employee ''skill_designer'') (\<lambda>skill.
     rbind (value_decimal employee ''salary'') (\<lambda>salary.
     rbind (value_boolean employee ''taking_courses'') (\<lambda>taking.
     rbind (value_decimal spec ''one_time_cost'') (\<lambda>cost.
     check_employee \<lparr>et_id = i, et_name = name, et_team = team, et_role = role, et_specialization = specialization,
       et_level = level, et_skill = skill, et_salary = salary, et_taking = taking,
       et_courses = split_bars [] courses, et_cost = cost\<rparr>))))))))"

definition observe_candidate ::
  "surface \<Rightarrow> string \<Rightarrow> string \<Rightarrow> string \<Rightarrow> entity \<Rightarrow> (ui_exn, employee_training option) result" where
  "observe_candidate employees team_name role specialization spec =
     (if en_type spec \<noteq> ''employee_specialization'' then ok None
      else rbind (value_text spec ''team'' False) (\<lambda>team.
        if casefold team \<noteq> casefold team_name then ok None
        else rbind (value_text spec ''role'' False) (\<lambda>r.
        if casefold r \<noteq> casefold role then ok None
        else rbind (value_text spec ''specialization'' False) (\<lambda>s.
        if casefold s \<noteq> casefold specialization then ok None
        else rbind (value_text spec ''employee_id'' False) (\<lambda>i.
          case employee_by_id employees i of
            None \<Rightarrow> raise (UIValidationError ''education references an unknown employee'')
          | Some employee \<Rightarrow> rbind (read_employee role specialization spec i employee) (\<lambda>e. ok (Some e)))))))"

definition training_candidates ::
  "game_snapshot \<Rightarrow> string \<Rightarrow> string \<Rightarrow> string \<Rightarrow> (ui_exn, employee_training list) result" where
  "training_candidates s team_name role specialization =
     rbind (complete_surface s ''education'') (\<lambda>education.
     rbind (complete_surface s ''employees'') (\<lambda>employees.
     rbind (rcollect (observe_candidate employees team_name role specialization) (su_entities education)) (\<lambda>es.
     ok (sort_key et_id es))))"

definition employee_team :: "game_snapshot \<Rightarrow> string \<Rightarrow> (ui_exn, string) result" where
  "employee_team s i = rbind (complete_surface s ''employees'') (\<lambda>u.
     rbind (the_one (UIValidationError ''employee identity is stale or ambiguous'')
       (filter (\<lambda>e. en_id e = i) (typed_entities ''employee'' u))) (\<lambda>e. value_text e ''team'' False))"

definition exact_employee_training ::
  "game_snapshot \<Rightarrow> string \<Rightarrow> string \<Rightarrow> string \<Rightarrow> (ui_exn, employee_training) result" where
  "exact_employee_training s i role specialization =
     rbind (employee_team s i) (\<lambda>team.
     rbind (training_candidates s team role specialization) (\<lambda>es.
     the_one (UIValidationError ''exact employee education state is unavailable'') (filter (\<lambda>e. et_id e = i) es)))"

definition current_cash :: "game_snapshot \<Rightarrow> (ui_exn, rat) result" where
  "current_cash s = rbind (named_surface s ''finances'') (\<lambda>u.
     if fc_status (su_coverage u) \<notin> {ObservedComplete, ObservedPartial}
     then raise (UIValidationError ''current finances are not observed'')
     else rbind (the_one (UIValidationError ''current cash did not resolve exactly once'') (su_entities u)) (\<lambda>e.
       value_decimal e ''cash''))"

definition team_employee_count :: "game_snapshot \<Rightarrow> string \<Rightarrow> (ui_exn, int) result" where
  "team_employee_count s team_name = rbind (complete_surface s ''teams'') (\<lambda>u.
     rbind (rcollect (\<lambda>e. if en_type e \<noteq> ''team'' then ok None
        else rbind (value_text e ''name'' False) (\<lambda>n.
          ok (if casefold n = casefold team_name then Some e else None))) (su_entities u)) (\<lambda>matches.
     rbind (the_one (UIValidationError (''team '' @ str_repr team_name @ '' is unavailable or ambiguous'')) matches) (\<lambda>e.
       value_integer e ''employee_count'')))"

definition assigned_active_work :: "game_snapshot \<Rightarrow> string \<Rightarrow> (ui_exn, string list) result" where
  "assigned_active_work s team_name = rbind (complete_surface s ''work_items'') (\<lambda>u.
     rbind (rcollect (\<lambda>e. if en_type e \<noteq> ''work_item'' \<or> jget (en_values e) ''done'' = JBool True then ok None
        else rbind (value_text e ''assigned_teams'' True) (\<lambda>teams.
          if casefold team_name \<in> set (map casefold (split_bars [] teams))
          then rbind (value_text e ''name'' False) (\<lambda>n. ok (Some n)) else ok None)) (su_entities u)) (\<lambda>names.
     ok (sort (remdups names))))"

section \<open>The recommendation\<close>

record naming =
  na_sha :: "string \<Rightarrow> string"
  na_uuid5 :: "string \<Rightarrow> uuid"

definition training_ttl :: int where "training_ttl = 180000000"

definition maximum_level :: int where "maximum_level = 3"

definition course_costs :: "rat list" where "course_costs = [600, 2000, 5000]"

definition decimal_sum :: "rat list \<Rightarrow> rat" where
  "decimal_sum xs = foldl dadd 0 xs"

definition projected_cost :: "employee_training \<Rightarrow> rat" where
  "projected_cost e = (let target = et_level e + requested_months in
     if target \<le> maximum_level then decimal_sum (take (nat target - nat (et_level e)) (drop (nat (et_level e)) course_costs)) else 0)"

definition candidate_reasons :: "employee_training \<Rightarrow> string list \<Rightarrow> rat \<Rightarrow> rat \<Rightarrow> string list" where
  "candidate_reasons e displaced cash reserve =
     (if et_taking e \<or> et_courses e \<noteq> [] then [''employee already has an active education assignment''] else []) @
     (if et_level e + requested_months > maximum_level
      then [''employee is already System level '' @ int_text (et_level e) @ ''; three additional '' @
        ''one-month courses would exceed the maximum level '' @ int_text maximum_level]
      else if et_cost e \<noteq> course_costs ! nat (et_level e)
      then [''live current-course price does not match the version-pinned cost schedule''] else []) @
     (if displaced \<noteq> [] then [''current assigned work would be displaced: '' @ join '', '' displaced] else []) @
     (let cost = projected_cost e; after = dsub cash cost in
      if after < reserve
      then [''cash after $'' @ money_text cost @ '' projected education cost would be $'' @ money_text after @
        '', below the $'' @ money_text reserve @ '' reserve''] else [])"

definition make_candidate ::
  "rat \<Rightarrow> rat \<Rightarrow> int \<Rightarrow> string list \<Rightarrow> employee_training \<Rightarrow> (ui_exn, training_candidate) result" where
  "make_candidate cash reserve capacity displaced e =
     (let reasons = candidate_reasons e displaced cash reserve; cost = projected_cost e in
      if capacity < 0 then raise (ModelRejected ''TrainingCandidate'')
      else ok \<lparr>tc_employee = e, tc_target = min (et_level e + requested_months) maximum_level, tc_cost = et_cost e,
        tc_projected = cost, tc_payroll = dec (et_salary e * of_int requested_months), tc_capacity_before = capacity,
        tc_capacity_during = max 0 (capacity - 1), tc_cash = cash, tc_cash_after = dsub cash cost, tc_reserve = reserve,
        tc_displaced = displaced, tc_eligible = (reasons = []), tc_reasons = reasons\<rparr>)"

definition candidate_key :: "training_candidate \<Rightarrow> rat \<times> int \<times> rat \<times> string" where
  "candidate_key c = (dec (- et_skill (tc_employee c)), et_level (tc_employee c), tc_projected c, et_id (tc_employee c))"

definition employee_json :: "employee_training \<Rightarrow> json" where
  "employee_json e = JObj
     [(''employee_id'', JStr (et_id e)), (''employee_name'', JStr (et_name e)), (''team_name'', JStr (et_team e)),
      (''role'', JStr (et_role e)), (''specialization'', JStr (et_specialization e)), (''level'', JInt (et_level e)),
      (''base_skill'', JDec (et_skill e)), (''monthly_salary'', JDec (et_salary e)),
      (''taking_courses'', JBool (et_taking e)), (''active_courses'', JList (map JStr (et_courses e))),
      (''one_time_cost'', JDec (et_cost e))]"

definition candidate_json :: "training_candidate \<Rightarrow> json" where
  "candidate_json c = JObj
     [(''employee'', employee_json (tc_employee c)), (''requested_months'', JInt requested_months),
      (''course_duration_months'', JInt course_months), (''planned_courses'', JInt 3), (''target_level'', JInt (tc_target c)),
      (''current_course_cost'', JDec (tc_cost c)), (''projected_direct_cost'', JDec (tc_projected c)),
      (''payroll_during_training'', JDec (tc_payroll c)), (''team_capacity_before'', JInt (tc_capacity_before c)),
      (''team_capacity_during'', JInt (tc_capacity_during c)), (''observed_cash'', JDec (tc_cash c)),
      (''cash_after_projected_cost'', JDec (tc_cash_after c)), (''minimum_cash_reserve'', JDec (tc_reserve c)),
      (''displaced_work'', JList (map JStr (tc_displaced c))), (''eligible'', JBool (tc_eligible c)),
      (''reasons'', JList (map JStr (tc_reasons c)))]"

definition training_unknowns :: "string list" where
  "training_unknowns =
     [''The three-month objective is three sequential one-month courses in version 1.8.41; '' @
      ''each later course receives a fresh exact approval.'',
      ''Payroll during education is an indirect continuing cost, not a new charge.'',
      ''The bridge proves public skill and specialization levels but does not predict the '' @
      ''exact productivity gain of one level.'']"

definition ranked_candidates :: "training_candidate list \<Rightarrow> training_candidate list" where
  "ranked_candidates cs = sort_key candidate_key (filter tc_eligible cs)"

definition build_recommendation ::
  "naming \<Rightarrow> int \<Rightarrow> game_snapshot \<Rightarrow> string \<Rightarrow> rat \<Rightarrow> int \<Rightarrow> training_candidate list \<Rightarrow> training_recommendation" where
  "build_recommendation n now s team_name reserve duration cs =
     (let eligible = ranked_candidates cs; rejected = filter (\<lambda>c. \<not> tc_eligible c) cs;
          print = na_sha n (compact_text (JObj
            [(''adapter'', JStr (gs_adapter s)), (''game_session_id'', JStr (gs_session s)),
             (''save_identity'', JStr (save_text s)), (''sequence'', JInt (gs_sequence s)), (''team'', JStr team_name),
             (''reserve'', JStr (decimal_text reserve)), (''duration'', JInt duration),
             (''candidates'', JList (map candidate_json cs))])) in
      \<lparr>tr_id = ''training-recommendation:'' @ take 24 print, tr_session = gs_session s, tr_save = save_text s,
        tr_sequence = gs_sequence s, tr_fingerprint = print, tr_team = team_name,
        tr_recommended = (case eligible of [] \<Rightarrow> None | c # _ \<Rightarrow> Some c), tr_alternatives = take 2 (drop 1 eligible),
        tr_rejected = int (length rejected), tr_rejections = sort (remdups (concat (map tc_reasons rejected))),
        tr_unknowns = training_unknowns, tr_created = now, tr_expires = now + training_ttl\<rparr>)"

definition recommend_training ::
  "naming \<Rightarrow> int \<Rightarrow> game_snapshot \<Rightarrow> string \<Rightarrow> rat \<Rightarrow> int \<Rightarrow> (ui_exn, training_recommendation) result" where
  "recommend_training n now s team_name reserve months =
     (if reserve < 0 then raise (UIValidationError ''minimum cash reserve cannot be negative'')
      else rbind (education_duration_months s) (\<lambda>duration.
        if months \<noteq> 3 \<or> duration \<noteq> 1
        then raise (UIValidationError (''this milestone requires three sequential one-month courses; '' @
          ''the game reports '' @ int_text duration @ '' month(s) per course''))
        else rbind (team_employee_count s team_name) (\<lambda>capacity.
        rbind (current_cash s) (\<lambda>cash.
        rbind (assigned_active_work s team_name) (\<lambda>displaced.
        rbind (training_candidates s team_name ''Designer'' ''System'') (\<lambda>employees.
        rbind (rcollect (\<lambda>e. rbind (make_candidate cash reserve capacity displaced e) (\<lambda>c. ok (Some c))) employees) (\<lambda>cs.
        ok (build_recommendation n now s team_name reserve duration cs))))))))"

section \<open>The workflow\<close>

definition plan_material :: "game_snapshot \<Rightarrow> training_candidate \<Rightarrow> json" where
  "plan_material s c = JObj
     [(''game_session_id'', JStr (gs_session s)), (''save_identity'', JStr (save_text s)),
      (''employee_id'', JStr (et_id (tc_employee c))), (''role'', JStr (et_role (tc_employee c))),
      (''specialization'', JStr (et_specialization (tc_employee c))), (''requested_months'', JInt requested_months),
      (''course_duration_months'', JInt course_months), (''projected_cost'', JStr (decimal_text (tc_projected c))),
      (''reserve'', JStr (decimal_text (tc_reserve c))), (''initial_level'', JInt (et_level (tc_employee c)))]"

definition plan_fingerprint :: "naming \<Rightarrow> game_snapshot \<Rightarrow> training_candidate \<Rightarrow> string" where
  "plan_fingerprint n s c = na_sha n (compact_text (plan_material s c))"

definition first_summary :: "training_candidate \<Rightarrow> string" where
  "first_summary c = (let e = tc_employee c in
     ''Educate '' @ str_repr (et_name e) @ '' from '' @ et_team e @
     '' in Designer/System for course 1 of 3 (one in-game month), level '' @ int_text (et_level e) @ '' -> '' @
     int_text (et_level e + 1) @ ''; exact direct cost $'' @ money_text (tc_cost c) @
     '', one-month continuing payroll $'' @ money_text (et_salary e) @ '', cash after this course $'' @
     money_text (dsub (tc_cash c) (tc_cost c)) @ '', required reserve $'' @ money_text (tc_reserve c) @
     ''. The full three-course curriculum is projected to cost $'' @ money_text (tc_projected c) @
     ''; later courses require fresh approval.'')"

definition create_training_workflow ::
  "naming \<Rightarrow> uuid \<Rightarrow> int \<Rightarrow> game_snapshot \<Rightarrow> training_candidate \<Rightarrow> (ui_exn, training_workflow) result" where
  "create_training_workflow n fresh now s c =
     (if \<not> tc_eligible c then raise (UIValidationError ''an ineligible employee cannot start education'')
      else let e = tc_employee c; print = plan_fingerprint n s c;
          i = na_uuid5 n (''sim-pilot:software-inc:training:'' @ print) in
        rbind (make_approval
          \<lparr>ta_id = fresh, ta_workflow = i, ta_summary = first_summary c, ta_employee = et_id e, ta_name = et_name e,
           ta_team = et_team e, ta_stage = 1, ta_level_before = et_level e, ta_level_after = et_level e + 1,
           ta_cost = tc_cost c, ta_payroll = et_salary e, ta_cash_after = dsub (tc_cash c) (tc_cost c),
           ta_reserve = tc_reserve c, ta_fingerprint = print, ta_approved = None, ta_created = now, ta_resolved = None\<rparr>)
        (\<lambda>a. ok
          \<lparr>tw_id = i, tw_session = gs_session s, tw_save = save_text s, tw_employee = et_id e, tw_name = et_name e,
           tw_team = et_team e, tw_completed = 0, tw_projected = tc_projected c, tw_actual = 0,
           tw_payroll = tc_payroll c, tw_reserve = tc_reserve c, tw_initial_cash = tc_cash c,
           tw_initial_level = et_level e, tw_level = et_level e, tw_status = WaitingForApproval, tw_approval = Some a,
           tw_fingerprint = print, tw_started = None, tw_finished = None, tw_sequence = gs_sequence s,
           tw_created = now, tw_updated = now\<rparr>))"

definition resolve_training_approval ::
  "int \<Rightarrow> bool \<Rightarrow> training_workflow \<Rightarrow> (ui_exn, training_workflow) result" where
  "resolve_training_approval now approved w =
     (case tw_approval w of
        Some a \<Rightarrow>
          if ta_approved a \<noteq> None then raise (UIValidationError ''education workflow has no pending approval'')
          else ok (w\<lparr>tw_approval := Some (a\<lparr>ta_approved := Some approved, ta_resolved := Some now\<rparr>),
                 tw_status := (if approved then Planned else TrainingBlocked), tw_updated := now\<rparr>)
      | None \<Rightarrow> raise (UIValidationError ''education workflow has no pending approval''))"

definition next_summary :: "training_workflow \<Rightarrow> int \<Rightarrow> int \<Rightarrow> rat \<Rightarrow> rat \<Rightarrow> rat \<Rightarrow> string" where
  "next_summary w stage level cost payroll after =
     ''Continue '' @ str_repr (tw_name w) @ '' in Designer/System with course '' @ int_text stage @
     '' of 3 (one in-game month), level '' @ int_text level @ '' -> '' @ int_text (level + 1) @
     ''; exact direct cost $'' @ money_text cost @ '', one-month continuing payroll $'' @ money_text payroll @
     '', cash after this course $'' @ money_text after @ '', required reserve $'' @ money_text (tw_reserve w) @ ''.''"

definition next_stage_approval ::
  "uuid \<Rightarrow> int \<Rightarrow> training_workflow \<Rightarrow> int \<Rightarrow> rat \<Rightarrow> rat \<Rightarrow> int \<Rightarrow> (ui_exn, training_approval) result" where
  "next_stage_approval fresh now w level cost cash stage =
     (let payroll = dec (tw_payroll w / of_int requested_months); after = dsub cash cost in
      if after < tw_reserve w
      then raise (UIValidationError ''next education course would violate the persisted cash reserve'')
      else make_approval
        \<lparr>ta_id = fresh, ta_workflow = tw_id w, ta_summary = next_summary w stage level cost payroll after,
         ta_employee = tw_employee w, ta_name = tw_name w, ta_team = tw_team w, ta_stage = stage, ta_level_before = level,
         ta_level_after = level + 1, ta_cost = cost, ta_payroll = payroll, ta_cash_after = after,
         ta_reserve = tw_reserve w, ta_fingerprint = tw_fingerprint w, ta_approved = None, ta_created = now,
         ta_resolved = None\<rparr>)"

definition course_active :: "employee_training \<Rightarrow> bool" where
  "course_active e \<longleftrightarrow> (\<exists>c \<in> set (et_courses e). casefold c = ''designer:system'')"

definition same_save :: "training_workflow \<Rightarrow> game_snapshot \<Rightarrow> bool" where
  "same_save w s \<longleftrightarrow> tw_session w = gs_session s \<and> tw_save w = save_text s"

text \<open>What a synchronisation finds: the new status, courses, approval, and times of start and end\<close>

definition training_progress ::
  "uuid \<Rightarrow> int \<Rightarrow> training_workflow \<Rightarrow> game_snapshot \<Rightarrow> employee_training \<Rightarrow> (ui_exn, training_workflow) result" where
  "training_progress fresh asked w s e =
     (let observed = as_str (jget (gs_state s) ''current_time'') in
      if course_active e
      then ok (w\<lparr>tw_status := Active,
             tw_started := (case tw_started w of Some t \<Rightarrow> if t \<noteq> [] then Some t else observed | None \<Rightarrow> observed)\<rparr>)
      else if tw_status w \<noteq> Active then ok w
      else if et_level e \<noteq> tw_initial_level w + tw_completed w + 1
      then raise (UIValidationError
        ''education course disappeared without exactly one approved specialization gain'')
      else if et_level e \<ge> target_level
      then ok (w\<lparr>tw_completed := tw_completed w + 1, tw_status := TrainingCompleted, tw_finished := observed,
             tw_approval := None\<rparr>)
      else rbind (current_cash s) (\<lambda>cash.
        rbind (next_stage_approval fresh asked w (et_level e) (et_cost e) cash (tw_completed w + 1 + 1)) (\<lambda>a.
        ok (w\<lparr>tw_completed := tw_completed w + 1, tw_status := WaitingForApproval, tw_approval := Some a\<rparr>))))"

definition synchronize_training ::
  "uuid \<Rightarrow> int \<Rightarrow> int \<Rightarrow> training_workflow \<Rightarrow> game_snapshot \<Rightarrow> (ui_exn, training_workflow) result" where
  "synchronize_training fresh asked now w s =
     (if \<not> same_save w s then raise (UIValidationError ''education workflow save or session identity is stale'')
      else if gs_sequence s \<le> tw_sequence w
      then raise (UIValidationError ''education workflow requires a fresh bridge sequence'')
      else rbind (exact_employee_training s (tw_employee w) ''Designer'' ''System'') (\<lambda>e.
        rbind (training_progress fresh asked w s e) (\<lambda>w'.
        ok (w'\<lparr>tw_level := et_level e, tw_sequence := gs_sequence s, tw_updated := now\<rparr>))))"

end
