(* ===== verification/ScreenControl.thy ===== *)
theory ScreenControl
  imports GameSnapshot
begin

text \<open>
  The screen of a game under control: gestures and captured frames (\<open>computer_control/models.py\<close>), the synchronised
  observations (\<open>software_inc/ui/models.py\<close>), and the helpers with which the Software Inc operators observe, resolve a
  target, send one gesture and check that they still look at the same game. The desktop itself (observer, input backend,
  sleeping, clock, \<open>uuid4\<close> and the person who approves) is a record of operations over an opaque state \<open>'u\<close>.

  A world also holds the store of the workflow and a trace, newest first, of what was observed, sent and decided; the
  code does not keep the trace, it is there to speak about order.
\<close>

section \<open>Gestures and frames\<close>

record screen_point =
  sp_x :: int
  sp_y :: int

record window_bounds =
  wb_x :: int
  wb_y :: int
  wb_width :: int
  wb_height :: int

definition bounds_contain :: "window_bounds \<Rightarrow> screen_point \<Rightarrow> int \<Rightarrow> bool" where
  "bounds_contain b p margin \<longleftrightarrow> wb_x b + margin \<le> sp_x p \<and> sp_x p < wb_x b + wb_width b - margin \<and>
     wb_y b + margin \<le> sp_y p \<and> sp_y p < wb_y b + wb_height b - margin"

record desktop_frame =
  df_id :: string
  df_sequence :: int
  df_captured :: int
  df_process :: int
  df_window :: string
  df_title :: string
  df_bounds :: window_bounds
  df_content :: "window_bounds option"
  df_visible :: "window_bounds list"
  df_displays :: "string list"
  df_width :: int
  df_height :: int
  df_scale :: rat
  df_sha :: string

datatype gesture_kind = Click | RightClick | Move | Key | TextInput | Scroll

datatype key_modifier = Command | Control | OptionKey | Shift

record gesture =
  ge_kind :: gesture_kind
  ge_point :: "screen_point option"
  ge_key :: "int option"
  ge_modifiers :: "key_modifier list"
  ge_text :: "string option"
  ge_scroll_x :: "int option"
  ge_scroll_y :: "int option"
  ge_process :: int
  ge_window :: string
  ge_bounds :: window_bounds
  ge_frame :: string
  ge_scene :: string
  ge_target :: string
  ge_effect :: string
  ge_created :: int

definition within_opt :: "int \<Rightarrow> int \<Rightarrow> int option \<Rightarrow> bool" where
  "within_opt a b v = (case v of None \<Rightarrow> True | Some i \<Rightarrow> a \<le> i \<and> i \<le> b)"

definition gesture_shape :: "gesture \<Rightarrow> bool" where
  "gesture_shape g = (case ge_kind g of
       Key \<Rightarrow> ge_point g = None \<and> ge_key g \<noteq> None \<and> ge_text g = None \<and> ge_scroll_x g = None \<and> ge_scroll_y g = None
     | TextInput \<Rightarrow> ge_point g = None \<and> ge_key g = None \<and> ge_modifiers g = [] \<and> ge_text g \<noteq> None \<and>
         ge_scroll_x g = None \<and> ge_scroll_y g = None
     | Scroll \<Rightarrow> ge_point g \<noteq> None \<and> ge_key g = None \<and> ge_modifiers g = [] \<and> ge_text g = None \<and>
         ge_scroll_x g \<noteq> None \<and> ge_scroll_y g \<noteq> None \<and> (ge_scroll_x g \<noteq> Some 0 \<or> ge_scroll_y g \<noteq> Some 0)
     | _ \<Rightarrow> ge_point g \<noteq> None \<and> ge_key g = None \<and> ge_modifiers g = [] \<and> ge_text g = None \<and>
         ge_scroll_x g = None \<and> ge_scroll_y g = None)"

definition valid_gesture :: "gesture \<Rightarrow> bool" where
  "valid_gesture g \<longleftrightarrow> within_opt 0 255 (ge_key g) \<and> bounded_opt 256 (ge_text g) \<and>
     within_opt (-100) 100 (ge_scroll_x g) \<and> within_opt (-100) 100 (ge_scroll_y g) \<and> 1 \<le> ge_process g \<and>
     bounded_text 256 (ge_window g) \<and> bounded_text 128 (ge_scene g) \<and> bounded_text 256 (ge_target g) \<and>
     bounded_text 512 (ge_effect g) \<and> distinct (ge_modifiers g) \<and> gesture_shape g"

section \<open>Observations\<close>

datatype scene =
    GameplayPaused | GameplayRunning | PauseMenu | ManagementNavigation | ManageTeams | CreateTeamForm | HiringSetup
  | ApplicantList | HiringConfirmation | HiringComplete | EmployeeManagement | Education | RoleSelection
  | ServerManagement | BuildSearch | BuildMode | FurniturePlacement | RoomContextMenu | RoomTeamSelection
  | ContractBrowser | ContractTeamSelection | ContractReviewSetup | ContractReviewResult | ProductConfiguration
  | ProductTeamSelection | BlockingModal | UnknownScene

fun scene_text :: "scene \<Rightarrow> string" where
  "scene_text GameplayPaused = ''gameplay_paused''"
| "scene_text GameplayRunning = ''gameplay_running''"
| "scene_text PauseMenu = ''pause_menu''"
| "scene_text ManagementNavigation = ''management_navigation''"
| "scene_text ManageTeams = ''manage_teams''"
| "scene_text CreateTeamForm = ''create_team_form''"
| "scene_text HiringSetup = ''hiring_setup''"
| "scene_text ApplicantList = ''applicant_list''"
| "scene_text HiringConfirmation = ''hiring_confirmation''"
| "scene_text HiringComplete = ''hiring_complete''"
| "scene_text EmployeeManagement = ''employee_management''"
| "scene_text Education = ''education''"
| "scene_text RoleSelection = ''role_selection''"
| "scene_text ServerManagement = ''server_management''"
| "scene_text BuildSearch = ''build_search''"
| "scene_text BuildMode = ''build_mode''"
| "scene_text FurniturePlacement = ''furniture_placement''"
| "scene_text RoomContextMenu = ''room_context_menu''"
| "scene_text RoomTeamSelection = ''room_team_selection''"
| "scene_text ContractBrowser = ''contract_browser''"
| "scene_text ContractTeamSelection = ''contract_team_selection''"
| "scene_text ContractReviewSetup = ''contract_review_setup''"
| "scene_text ContractReviewResult = ''contract_review_result''"
| "scene_text ProductConfiguration = ''product_configuration''"
| "scene_text ProductTeamSelection = ''product_team_selection''"
| "scene_text BlockingModal = ''blocking_modal''"
| "scene_text UnknownScene = ''unknown''"

datatype modal_state = NoModal | ModalBlocking | ModalUnknown

fun modal_text :: "modal_state \<Rightarrow> string" where
  "modal_text NoModal = ''none''"
| "modal_text ModalBlocking = ''blocking''"
| "modal_text ModalUnknown = ''unknown''"

record visual_target =
  vt_id :: string
  vt_frame :: string
  vt_point :: "screen_point option"
  vt_region :: "window_bounds option"
  vt_scene :: scene
  vt_projection :: string
  vt_confidence :: rat
  vt_evidence :: "string list"
  vt_expires :: int

record ui_observation =
  ui_before :: game_snapshot
  ui_after :: game_snapshot
  ui_frame :: desktop_frame
  ui_scene :: scene
  ui_modal :: modal_state
  ui_projection :: string
  ui_targets :: "visual_target list"
  ui_started :: int
  ui_completed :: int

definition is_paused :: "ui_observation \<Rightarrow> bool" where
  "is_paused o' \<longleftrightarrow> jget (gs_state (ui_after o')) ''force_pause'' = JBool True \<or>
     jget (gs_state (ui_after o')) ''simulation_speed'' \<in> {JStr ''0'', JStr ''0.0''}"

section \<open>The desktop and the world of an operator\<close>

record 'u desktop =
  dt_observe :: "'u \<Rightarrow> (ui_exn, ui_observation) result \<times> 'u"
  dt_execute :: "gesture \<Rightarrow> 'u \<Rightarrow> (ui_exn, unit) result \<times> 'u"
  dt_foreground :: "'u \<Rightarrow> (ui_exn, unit) result \<times> 'u"
  dt_sleep :: "rat \<Rightarrow> 'u \<Rightarrow> (ui_exn, unit) result \<times> 'u"
  dt_now :: "'u \<Rightarrow> int \<times> 'u"
  dt_uuid :: "'u \<Rightarrow> uuid \<times> 'u"
  dt_ask :: "uuid \<Rightarrow> 'u \<Rightarrow> (ui_exn, bool) result \<times> 'u"

datatype interaction = Observed ui_observation | Sent gesture | Asked uuid bool

record ('u, 's) operating =
  ow_desktop :: 'u
  ow_store :: 's
  ow_trace :: "interaction list"

type_synonym ('u, 's, 'a) operation = "(('u, 's) operating, ui_exn, 'a) prog"

definition on_desktop :: "('u \<Rightarrow> 'a \<times> 'u) \<Rightarrow> ('a \<Rightarrow> (ui_exn, 'b) result) \<Rightarrow> ('b \<Rightarrow> interaction list) \<Rightarrow> ('u, 's, 'b) operation" where
  "on_desktop act res seen w = (case act (ow_desktop w) of (a, u) \<Rightarrow>
     (res a, w\<lparr>ow_desktop := u, ow_trace := (case res a of Inl _ \<Rightarrow> ow_trace w | Inr b \<Rightarrow> seen b @ ow_trace w)\<rparr>))"

definition read_clock :: "'u desktop \<Rightarrow> ('u, 's, int) operation" where
  "read_clock D = on_desktop (dt_now D) ok (\<lambda>_. [])"

definition uuid4 :: "'u desktop \<Rightarrow> ('u, 's, uuid) operation" where
  "uuid4 D = on_desktop (dt_uuid D) ok (\<lambda>_. [])"

definition observe :: "'u desktop \<Rightarrow> ('u, 's, ui_observation) operation" where
  "observe D = on_desktop (dt_observe D) id (\<lambda>o'. [Observed o'])"

definition ask :: "'u desktop \<Rightarrow> uuid \<Rightarrow> ('u, 's, bool) operation" where
  "ask D i = on_desktop (dt_ask D i) id (\<lambda>b. [Asked i b])"

definition settle_for :: "'u desktop \<Rightarrow> rat \<Rightarrow> ('u, 's, unit) operation" where
  "settle_for D seconds = on_desktop (dt_sleep D seconds) id (\<lambda>_. [])"

definition keep_foreground :: "'u desktop \<Rightarrow> ('u, 's, unit) operation" where
  "keep_foreground D = on_desktop (dt_foreground D) id (\<lambda>_. [])"

text \<open>Input counts as sent when the backend is called, whether or not the backend then fails.\<close>

definition send_gesture :: "'u desktop \<Rightarrow> gesture \<Rightarrow> ('u, 's, unit) operation" where
  "send_gesture D g w = on_desktop (dt_execute D g) id (\<lambda>_. []) (w\<lparr>ow_trace := Sent g # ow_trace w\<rparr>)"

text \<open>An update of the store that may be refused\<close>

definition on_store :: "('s \<Rightarrow> (ui_exn, 's) result) \<Rightarrow> ('u, 's, unit) operation" where
  "on_store f w = (case f (ow_store w) of Inl e \<Rightarrow> (raise e, w) | Inr st \<Rightarrow> (ok (), w\<lparr>ow_store := st\<rparr>))"

text \<open>\<open>try: m finally: cleanup\<close>: the value is the one of the clean-up, and an exception of the clean-up wins.\<close>

definition finally_do :: "('w, 'e, unit) prog \<Rightarrow> ('w, 'e, 'a) prog \<Rightarrow> ('w, 'e, 'a) prog" where
  "finally_do m cleanup w = (case m w of (r, w1) \<Rightarrow> (case cleanup w1 of
       (Inl e, w2) \<Rightarrow> (Inl e, w2)
     | (Inr a, w2) \<Rightarrow> (case r of Inl e \<Rightarrow> (Inl e, w2) | Inr _ \<Rightarrow> (Inr a, w2))))"

section \<open>Helpers of the operators\<close>

definition require_actionable :: "string \<Rightarrow> ui_observation \<Rightarrow> (ui_exn, unit) result" where
  "require_actionable subject o' =
     (if ui_modal o' \<noteq> NoModal
      then raise (UIObservationError (''cannot operate '' @ subject @ '' while modal state is '' @ modal_text (ui_modal o')))
      else if ui_scene o' \<in> {UnknownScene, BlockingModal}
      then raise (UIObservationError (''cannot operate '' @ subject @ '' from '' @ scene_text (ui_scene o')))
      else ok ())"

definition same_game :: "ui_observation \<Rightarrow> ui_observation \<Rightarrow> bool" where
  "same_game before after \<longleftrightarrow> (let l = ui_after before; r = ui_after after in
     gs_instance l = gs_instance r \<and> gs_session l = gs_session r \<and> gs_save l = gs_save r \<and>
     gs_sequence l < gs_sequence r \<and> df_process (ui_frame before) = df_process (ui_frame after) \<and>
     df_window (ui_frame before) = df_window (ui_frame after))"

definition require_continuity :: "ui_observation \<Rightarrow> ui_observation \<Rightarrow> (ui_exn, unit) result" where
  "require_continuity before after =
     (if same_game before after then ok ()
      else raise (UIVerificationError ''save, session, bridge, window, or sequence changed''))"

definition find_target :: "'u desktop \<Rightarrow> string \<Rightarrow> ui_observation \<Rightarrow> string \<Rightarrow> ('u, 's, visual_target) operation" where
  "find_target D subject o' i =
     seq (lift_result (the_one (UIValidationError (''fresh target '' @ str_repr i @ '' did not resolve exactly once''))
       (filter (\<lambda>t. vt_id t = i) (ui_targets o')))) (\<lambda>t.
     if vt_confidence t < fl (8 / 10) \<or> vt_frame t \<noteq> df_id (ui_frame o')
     then throw (UIValidationError (subject @ '' target is stale or ambiguous''))
     else seq (read_clock D) (\<lambda>time.
     if vt_expires t \<le> time then throw (UIValidationError (subject @ '' target is stale or ambiguous'')) else ret t))"

definition bound_gesture :: "ui_observation \<Rightarrow> string \<Rightarrow> string \<Rightarrow> int \<Rightarrow> gesture" where
  "bound_gesture o' i effect time = (let f = ui_frame o' in
     \<lparr>ge_kind = Click, ge_point = None, ge_key = None, ge_modifiers = [], ge_text = None, ge_scroll_x = None,
      ge_scroll_y = None, ge_process = df_process f, ge_window = df_window f, ge_bounds = df_bounds f,
      ge_frame = df_id f, ge_scene = scene_text (ui_scene o'), ge_target = i, ge_effect = effect, ge_created = time\<rparr>)"

text \<open>Send one gesture, let the game settle, observe again, and check that it is the same game.\<close>

definition perform_gesture :: "'u desktop \<Rightarrow> rat \<Rightarrow> ui_observation \<Rightarrow> gesture \<Rightarrow> ('u, 's, ui_observation) operation" where
  "perform_gesture D settle before g =
     (if \<not> valid_gesture g then throw (ModelRejected ''InputGesture'')
      else seq (send_gesture D g) (\<lambda>_. seq (settle_for D settle) (\<lambda>_. seq (observe D) (\<lambda>after.
        seq (lift_result (require_continuity before after)) (\<lambda>_. ret after)))))"

definition click_target ::
  "'u desktop \<Rightarrow> rat \<Rightarrow> ui_observation \<Rightarrow> visual_target \<Rightarrow> string \<Rightarrow> ('u, 's, ui_observation) operation" where
  "click_target D settle before t effect =
     (case vt_point t of None \<Rightarrow> throw (UIValidationError ''current-frame target has no click point'')
      | Some p \<Rightarrow> seq (read_clock D) (\<lambda>time.
          perform_gesture D settle before ((bound_gesture before (vt_id t) effect time)\<lparr>ge_point := Some p\<rparr>)))"

definition escape_key ::
  "'u desktop \<Rightarrow> rat \<Rightarrow> ui_observation \<Rightarrow> string \<Rightarrow> ('u, 's, ui_observation) operation" where
  "escape_key D settle before effect = seq (read_clock D) (\<lambda>time.
     perform_gesture D settle before ((bound_gesture before ''escape_to_gameplay'' effect time)\<lparr>ge_kind := Key, ge_key := Some 53\<rparr>))"

end
