(* ===== verification/TrainingOperator.thy ===== *)
theory TrainingOperator
  imports Training ScreenControl
begin

text \<open>
  The operator of education, \<open>software_inc/training/operator.py\<close>, over the desktop of ScreenControl, with the store of
  its workflows, \<open>software_inc/training/store.py\<close>: the rows of its two tables, and the effect of its SQL statements on
  them. \<open>start_training\<close> walks through the screens to the education window, asks for approval, commits and verifies;
  \<open>advance_training\<close> lets the game run for a bounded time and pauses it again.
\<close>

section \<open>The store\<close>

record training_event =
  te_id :: uuid
  te_workflow :: uuid
  te_sequence :: int
  te_type :: string
  te_bridge :: int
  te_action :: "string option"
  te_input_sent :: bool
  te_verified :: bool
  te_detail :: string
  te_recorded :: int

record training_store =
  ts_workflows :: "(uuid \<times> training_workflow) list"
  ts_events :: "training_event list"

definition is_open :: "training_workflow \<Rightarrow> bool" where
  "is_open w \<longleftrightarrow> tw_status w \<notin> {TrainingCompleted, TrainingBlocked}"

definition owns_save :: "string \<Rightarrow> string \<Rightarrow> training_workflow \<Rightarrow> bool" where
  "owns_save session save w \<longleftrightarrow> tw_session w = session \<and> tw_save w = save \<and> is_open w"

definition save_workflow :: "training_workflow \<Rightarrow> training_store \<Rightarrow> (ui_exn, training_store) result" where
  "save_workflow w st =
     (if is_open w \<and> (\<exists>(i, v) \<in> set (ts_workflows st). owns_save (tw_session w) (tw_save w) v \<and> i \<noteq> tw_id w)
      then raise (UIValidationError ''another open education workflow already owns the current save'')
      else ok (st\<lparr>ts_workflows := AList.update (tw_id w) w (ts_workflows st)\<rparr>))"

definition append_training_event :: "training_event \<Rightarrow> training_store \<Rightarrow> (ui_exn, training_store) result" where
  "append_training_event e st =
     (if (\<exists>d \<in> set (ts_events st). te_id d = te_id e \<or> te_workflow d = te_workflow e \<and> te_sequence d = te_sequence e) \<or>
         te_workflow e \<notin> fst ` set (ts_workflows st)
      then raise (StoreFailed ''constraint failed'')
      else ok (st\<lparr>ts_events := ts_events st @ [e]\<rparr>))"

definition current_workflow :: "string \<Rightarrow> string \<Rightarrow> training_store \<Rightarrow> (ui_exn, training_workflow option) result" where
  "current_workflow session save st =
     (case filter (owns_save session save) (map snd (ts_workflows st)) of
        [] \<Rightarrow> ok None
      | [w] \<Rightarrow> ok (Some w)
      | _ \<Rightarrow> raise (StoreFailed ''multiple open education workflows exist for the current save''))"

definition workflow_events :: "uuid \<Rightarrow> training_store \<Rightarrow> training_event list" where
  "workflow_events i st = sort_key te_sequence (filter (\<lambda>e. te_workflow e = i) (ts_events st))"

type_synonym ('u, 'a) training_operation = "('u, training_store, 'a) operation"

section \<open>Results and events\<close>

record training_result =
  rs_workflow :: "training_workflow option"
  rs_event :: "training_event option"
  rs_gestures :: int
  rs_verified :: bool
  rs_partial :: bool
  rs_message :: string
  rs_completed :: int

definition make_result ::
  "'u desktop \<Rightarrow> training_workflow \<Rightarrow> training_event option \<Rightarrow> nat \<Rightarrow> bool \<Rightarrow> bool \<Rightarrow> string \<Rightarrow> ('u, training_result) training_operation" where
  "make_result D plan event gestures verified partial message = seq (read_clock D) (\<lambda>time.
     if bounded_text 2048 message
     then ret \<lparr>rs_workflow = Some plan, rs_event = event, rs_gestures = int gestures, rs_verified = verified,
       rs_partial = partial, rs_message = message, rs_completed = time\<rparr>
     else throw (ModelRejected ''TrainingOperationResult''))"

definition append_event ::
  "'u desktop \<Rightarrow> training_workflow \<Rightarrow> string \<Rightarrow> int \<Rightarrow> string \<Rightarrow> string \<Rightarrow> ('u, training_event) training_operation" where
  "append_event D plan kind bridge action detail =
     seq (uuid4 D) (\<lambda>i.
     seq (gets (\<lambda>w. int (length (workflow_events (tw_id plan) (ow_store w))) + 1)) (\<lambda>number.
     seq (read_clock D) (\<lambda>time.
     let e = \<lparr>te_id = i, te_workflow = tw_id plan, te_sequence = number, te_type = kind, te_bridge = bridge,
       te_action = Some action, te_input_sent = True, te_verified = True, te_detail = detail, te_recorded = time\<rparr> in
     if \<not> bounded_text 64 kind \<or> bridge < 1 \<or> \<not> bounded_text 2048 detail
     then throw (ModelRejected ''TrainingCycleEvent'')
     else seq (on_store (append_training_event e)) (\<lambda>_. ret e))))"

section \<open>Reading the education window\<close>

definition education_state :: "ui_observation \<Rightarrow> (ui_exn, entity) result" where
  "education_state o' = the_one (UIValidationError ''education UI state is unavailable or ambiguous'')
     (concat (map (\<lambda>u. if fc_surface (su_coverage u) = ''education_ui''
        then filter (\<lambda>e. en_id e = ''current'') (typed_entities ''education_ui_state'' u) else [])
        (gs_surfaces (ui_after o'))))"

definition education_text :: "ui_observation \<Rightarrow> string \<Rightarrow> (ui_exn, string) result" where
  "education_text o' field = rbind (education_state o') (\<lambda>e.
     case as_str (jget (en_values e) field) of Some t \<Rightarrow> ok t
     | None \<Rightarrow> raise (UIValidationError (''education_ui.'' @ field @ '' is not observed text'')))"

definition education_decimal :: "ui_observation \<Rightarrow> string \<Rightarrow> (ui_exn, rat) result" where
  "education_decimal o' field = rbind (education_state o') (\<lambda>e.
     case as_decimal (jget (en_values e) field) of Some x \<Rightarrow> ok x
     | None \<Rightarrow> raise (UIValidationError (''education_ui.'' @ field @ '' is not observed numeric'')))"

definition education_integer :: "ui_observation \<Rightarrow> string \<Rightarrow> (ui_exn, int) result" where
  "education_integer o' field = rbind (education_state o') (\<lambda>e.
     case as_int (jget (en_values e) field) of Some i \<Rightarrow> ok i
     | None \<Rightarrow> raise (UIValidationError (''education_ui.'' @ field @ '' is not an integer'')))"

section \<open>Freshness of the plan\<close>

definition require_recommendation_current ::
  "'u desktop \<Rightarrow> training_recommendation \<Rightarrow> ui_observation \<Rightarrow> ('u, unit) training_operation" where
  "require_recommendation_current D r o' = (let s = ui_after o' in
     seq (read_clock D) (\<lambda>time.
     if tr_expires r \<le> time then throw (UIValidationError ''education recommendation expired'')
     else if tr_session r \<noteq> gs_session s \<or> tr_save r \<noteq> save_text s
     then throw (UIValidationError ''education recommendation save or session identity is stale'')
     else if gs_sequence s \<le> tr_sequence r
     then throw (UIValidationError ''education start requires a fresh bridge sequence'')
     else ret ()))"

definition require_workflow_current :: "training_workflow \<Rightarrow> ui_observation \<Rightarrow> (ui_exn, unit) result" where
  "require_workflow_current plan o' = (let s = ui_after o' in
     if \<not> same_save plan s then raise (UIValidationError ''education workflow save or session identity is stale'')
     else if gs_sequence s \<le> tw_sequence plan
     then raise (UIValidationError ''education continuation requires a fresh bridge sequence'') else ok ())"

definition observed_employee :: "ui_observation \<Rightarrow> string \<Rightarrow> (ui_exn, employee_training) result" where
  "observed_employee o' i = exact_employee_training (ui_after o') i ''Designer'' ''System''"

text \<open>An existing workflow that waits for the approval of its next course\<close>

definition resume_plan :: "training_workflow \<Rightarrow> ui_observation \<Rightarrow> (ui_exn, training_workflow) result" where
  "resume_plan plan o' =
     rbind (require_workflow_current plan o') (\<lambda>_.
     case tw_approval plan of
       None \<Rightarrow> raise (UIValidationError ''education workflow is not waiting for the next course approval'')
     | Some a \<Rightarrow>
       if tw_status plan \<noteq> WaitingForApproval
       then raise (UIValidationError ''education workflow is not waiting for the next course approval'')
       else rbind (observed_employee o' (tw_employee plan)) (\<lambda>e.
         if et_level e \<noteq> ta_level_before a \<or> et_cost e \<noteq> ta_cost a
         then raise (UIValidationError ''next education course employee, level, cost, or reserve changed'')
         else rbind (current_cash (ui_after o')) (\<lambda>cash.
           if dsub cash (ta_cost a) < tw_reserve plan
           then raise (UIValidationError ''next education course employee, level, cost, or reserve changed'')
           else ok plan)))"

text \<open>A recommendation: an open workflow for the same plan is taken up, otherwise one is created.\<close>

definition begin_plan ::
  "'u desktop \<Rightarrow> naming \<Rightarrow> training_recommendation \<Rightarrow> training_candidate \<Rightarrow> ui_observation \<Rightarrow>
     ('u, training_workflow) training_operation" where
  "begin_plan D n r c o' = (let s = ui_after o' in
     seq (require_recommendation_current D r o') (\<lambda>_.
     seq (lift_result (observed_employee o' (et_id (tc_employee c)))) (\<lambda>e.
     if et_level e \<noteq> et_level (tc_employee c) \<or> et_cost e \<noteq> tc_cost c
     then throw (UIValidationError ''education candidate, cost, or reserve changed'')
     else seq (lift_result (current_cash s)) (\<lambda>cash.
     if dsub cash (tc_projected c) < tc_reserve c
     then throw (UIValidationError ''education candidate, cost, or reserve changed'')
     else seq (gets (\<lambda>w. current_workflow (tr_session r) (tr_save r) (ow_store w))) (\<lambda>found.
     seq (lift_result found) (\<lambda>existing.
     case existing of
       Some plan \<Rightarrow>
         if tw_employee plan \<noteq> et_id (tc_employee c)
         then throw (UIValidationError ''another education workflow already owns this save'')
         else seq (read_clock D) (\<lambda>time. seq (uuid4 D) (\<lambda>fresh.
           seq (lift_result (create_training_workflow n fresh time s c)) (\<lambda>proposed.
           if tw_fingerprint plan \<noteq> tw_fingerprint proposed
           then throw (UIValidationError ''another education workflow already owns this save'')
           else ret plan)))
     | None \<Rightarrow>
         seq (read_clock D) (\<lambda>time. seq (uuid4 D) (\<lambda>fresh.
         seq (lift_result (create_training_workflow n fresh time s c)) (\<lambda>plan.
         seq (on_store (save_workflow plan)) (\<lambda>_. ret plan))))))))))"

section \<open>Starting a course\<close>

definition start_cycles :: nat where "start_cycles = 20"

definition settle_seconds :: rat where "settle_seconds = 1 / 10"

datatype setup_choice = Press string string "string option" | Commit

text \<open>What the next gesture of the set-up is, from the scene and the selections that the window shows\<close>

definition education_choice :: "training_workflow \<Rightarrow> string option \<Rightarrow> ui_observation \<Rightarrow> (ui_exn, setup_choice) result" where
  "education_choice plan selecting o' =
     rbind (education_text o' ''selected_employees'') (\<lambda>selected.
     rbind (education_text o' ''selected_role'') (\<lambda>role.
     rbind (education_text o' ''selected_specialization'') (\<lambda>specialization.
     ok (if selected \<noteq> tw_employee plan
         then Press (''education_employee_row_'' @ tw_employee plan)
           (''select exact education employee '' @ str_repr (tw_name plan)) selecting
         else if selecting = Some ''role'' \<and> casefold role \<noteq> ''designer''
         then Press ''label:designer'' ''select exact Designer education role'' None
         else if casefold role \<noteq> ''designer''
         then Press ''education_role_combo'' ''open the education role choices'' (Some ''role'')
         else if selecting = Some ''specialization'' \<and> casefold specialization \<noteq> ''system''
         then Press ''label:system'' ''select exact System specialization'' None
         else if casefold specialization \<noteq> ''system''
         then Press ''education_specialization_combo'' ''open the education specialization choices'' (Some ''specialization'')
         else Commit))))"

definition setup_choice_of :: "training_workflow \<Rightarrow> string option \<Rightarrow> ui_observation \<Rightarrow> (ui_exn, setup_choice) result" where
  "setup_choice_of plan selecting o' = (case ui_scene o' of
       GameplayRunning \<Rightarrow> ok (Press ''pause_button'' ''pause before education configuration'' selecting)
     | GameplayPaused \<Rightarrow> ok (Press ''open_employees'' ''open visible employee management'' selecting)
     | EmployeeManagement \<Rightarrow> rbind (education_text o' ''selected_employees'') (\<lambda>selected.
         ok (if selected \<noteq> tw_employee plan
             then Press (''employee_row_'' @ tw_employee plan) (''select exact employee '' @ str_repr (tw_name plan)) selecting
             else Press ''open_education'' ''open the visible Education window'' selecting))
     | Education \<Rightarrow> education_choice plan selecting o'
     | sc \<Rightarrow> raise (UIValidationError (''education cannot continue from scene '' @ scene_text sc @
         ''; close unrelated UI first'')))"

definition shows_commitment :: "training_workflow \<Rightarrow> training_approval \<Rightarrow> ui_observation \<Rightarrow> (ui_exn, bool) result" where
  "shows_commitment plan a o' =
     (if ui_scene o' \<noteq> Education then ok False
      else rbind (education_text o' ''selected_employees'') (\<lambda>selected.
        if selected \<noteq> tw_employee plan then ok False
        else rbind (education_text o' ''selected_role'') (\<lambda>role.
        if casefold role \<noteq> ''designer'' then ok False
        else rbind (education_text o' ''selected_specialization'') (\<lambda>specialization.
        if casefold specialization \<noteq> ''system'' then ok False
        else rbind (education_decimal o' ''selected_cost'') (\<lambda>cost. ok (cost = ta_cost a))))))"

text \<open>The commitment itself: observe once more, check, click, and verify the course and the cash.\<close>

definition commit_course ::
  "'u desktop \<Rightarrow> training_workflow \<Rightarrow> training_approval \<Rightarrow> ui_observation \<Rightarrow> nat \<Rightarrow> ('u, training_result) training_operation" where
  "commit_course D plan a o' gestures =
     seq (observe D) (\<lambda>fresh.
     seq (lift_result (require_continuity o' fresh)) (\<lambda>_.
     seq (lift_result (require_actionable ''education'' fresh)) (\<lambda>_.
     seq (lift_result (shows_commitment plan a fresh)) (\<lambda>matches.
     if \<not> matches
     then throw (UIValidationError ''education identity or exact commitment changed while approval was pending'')
     else
     seq (lift_result (current_cash (ui_after fresh))) (\<lambda>before_cash.
     seq (find_target D ''education'' fresh ''commit_education'') (\<lambda>t.
     seq (click_target D settle_seconds fresh t (ta_summary a)) (\<lambda>after.
     seq (lift_result (observed_employee after (tw_employee plan))) (\<lambda>e.
     seq (lift_result (current_cash (ui_after after))) (\<lambda>after_cash.
     if \<not> course_active e \<or> \<bar>dsub (dsub before_cash after_cash) (ta_cost a)\<bar> > 2 / 100
     then throw (UIVerificationError ''education commitment did not create the exact course and cash delta'')
     else
     seq (uuid4 D) (\<lambda>i. seq (read_clock D) (\<lambda>asked. seq (read_clock D) (\<lambda>time.
     seq (lift_result (synchronize_training i asked time
       (plan\<lparr>tw_actual := dadd (tw_actual plan) (ta_cost a)\<rparr>) (ui_after after))) (\<lambda>started.
     seq (on_store (save_workflow started)) (\<lambda>_.
     seq (append_event D started ''education_started'' (gs_sequence (ui_after after)) (ta_summary a)
       (''Designer:System active; cash $'' @ money_text before_cash @ '' -> $'' @ money_text after_cash)) (\<lambda>_.
     make_result D started None (gestures + 1) True False
       (''Started Designer/System course '' @ int_text (ta_stage a) @ '' of 3 for '' @ tw_name started @ ''; exact $'' @
        money_text (ta_cost a) @ '' cost and active one-month course verified.''))))))))))))))))"

text \<open>The approval: an earlier one is used again, otherwise the person is asked.\<close>

definition approve_and_commit ::
  "'u desktop \<Rightarrow> bool \<Rightarrow> bool \<Rightarrow> training_workflow \<Rightarrow> ui_observation \<Rightarrow> nat \<Rightarrow> ('u, training_result) training_operation" where
  "approve_and_commit D provider dry_run plan o' gestures =
     seq (lift_result (education_decimal o' ''selected_cost'')) (\<lambda>cost.
     seq (lift_result (education_integer o' ''duration_months'')) (\<lambda>duration.
     case tw_approval plan of
       None \<Rightarrow> throw (UIValidationError ''education approval is unavailable'')
     | Some a \<Rightarrow>
       if cost \<noteq> ta_cost a \<or> duration \<noteq> 1
       then throw (UIValidationError ''visible education cost or duration differs from the approved plan'')
       else if dry_run
       then make_result D plan None gestures False True
         (''Dry run: exact employee, Designer/System course '' @ int_text (ta_stage a) @
          '' of 3, one month, and cost are visible; the next step is exact approval.'')
       else if ta_approved a = Some True then commit_course D plan a o' gestures
       else if \<not> provider then make_result D plan None gestures False True (ta_summary a)
       else seq (ask D (ta_id a)) (\<lambda>approved.
         seq (read_clock D) (\<lambda>time.
         seq (lift_result (resolve_training_approval time approved plan)) (\<lambda>resolved.
         seq (on_store (save_workflow resolved)) (\<lambda>_.
         if tw_status resolved = TrainingBlocked
         then make_result D resolved None gestures False False
           ''Education spending was denied; no education commitment input was sent.''
         else commit_course D resolved a o' gestures))))))"

fun setup_course ::
  "nat \<Rightarrow> 'u desktop \<Rightarrow> bool \<Rightarrow> bool \<Rightarrow> training_workflow \<Rightarrow> string option \<Rightarrow> ui_observation \<Rightarrow> nat \<Rightarrow>
     ('u, training_result) training_operation" where
  "setup_course 0 D provider dry_run plan selecting o' gestures =
     throw (UIVerificationError ''education setup exceeded the bounded cycle limit'')"
| "setup_course (Suc cycles) D provider dry_run plan selecting o' gestures =
     seq (lift_result (require_actionable ''education'' o')) (\<lambda>_.
     seq (lift_result (setup_choice_of plan selecting o')) (\<lambda>choice.
     case choice of
       Commit \<Rightarrow> approve_and_commit D provider dry_run plan o' gestures
     | Press i effect selecting' \<Rightarrow>
         seq (find_target D ''education'' o' i) (\<lambda>t.
         if dry_run then make_result D plan None gestures False True (''Dry run: would '' @ effect @ ''.'')
         else seq (click_target D settle_seconds o' t effect) (\<lambda>after.
           setup_course cycles D provider dry_run plan selecting' after (gestures + 1)))))"

definition start_training ::
  "'u desktop \<Rightarrow> naming \<Rightarrow> training_recommendation option \<Rightarrow> bool \<Rightarrow> bool \<Rightarrow> training_workflow option \<Rightarrow>
     ('u, training_result) training_operation" where
  "start_training D n recommendation provider dry_run existing =
     (case (existing, Option.bind recommendation (\<lambda>r. map_option (Pair r) (tr_recommended r))) of
        (None, None) \<Rightarrow> throw (UIValidationError ''there is no eligible employee to educate'')
      | (_, chosen) \<Rightarrow>
        seq (observe D) (\<lambda>o'.
        seq (lift_result (require_actionable ''education'' o')) (\<lambda>_.
        seq (case existing of Some plan \<Rightarrow> lift_result (resume_plan plan o')
             | None \<Rightarrow> (case chosen of Some (r, c) \<Rightarrow> begin_plan D n r c o'
                 | None \<Rightarrow> throw (UIValidationError ''there is no eligible employee to educate''))) (\<lambda>plan.
        seq (lift_result (observed_employee o' (tw_employee plan))) (\<lambda>e.
        if course_active e
        then make_result D plan None 0 True False
          (tw_name plan @ '' is already in the approved Designer/System education; no input was sent.'')
        else setup_course start_cycles D provider dry_run plan None o' 0)))))"

section \<open>Advancing the game\<close>

definition pause_after_interval :: "'u desktop \<Rightarrow> ('u, ui_observation \<times> nat) training_operation" where
  "pause_after_interval D =
     seq (observe D) (\<lambda>o'.
     seq (lift_result (require_actionable ''education'' o')) (\<lambda>_.
     if is_paused o' then ret (o', 0)
     else seq (find_target D ''education'' o' ''pause_button'') (\<lambda>t.
       seq (click_target D settle_seconds o' t ''pause after bounded education time'') (\<lambda>after.
       if \<not> is_paused after
       then throw (UIVerificationError ''bounded education cleanup could not verify a paused game'')
       else ret (after, 1)))))"

text \<open>Back to paused gameplay, perhaps by closing a window; a dry run stops here with a result.\<close>

definition close_windows ::
  "'u desktop \<Rightarrow> bool \<Rightarrow> training_workflow \<Rightarrow> ui_observation \<Rightarrow>
     ('u, training_result + ui_observation \<times> nat) training_operation" where
  "close_windows D dry_run plan o' =
     (if ui_scene o' = GameplayPaused then ret (Inr (o', 0))
      else if \<not> is_paused o'
      then throw (UIValidationError ''education progression must begin from paused gameplay'')
      else if dry_run
      then seq (make_result D plan None 0 False True
        ''Dry run: would close the active management window with Escape.'') (\<lambda>r. ret (Inl r))
      else seq (escape_key D settle_seconds o' ''close reversible management UI'') (\<lambda>after.
        if ui_scene after \<noteq> GameplayPaused
        then throw (UIVerificationError ''Escape did not return to paused gameplay'')
        else ret (Inr (after, 1))))"

definition finish_advance ::
  "'u desktop \<Rightarrow> rat \<Rightarrow> training_workflow \<Rightarrow> ui_observation \<Rightarrow> nat \<Rightarrow> ('u, training_result) training_operation" where
  "finish_advance D seconds plan o' gestures =
     seq (uuid4 D) (\<lambda>i. seq (read_clock D) (\<lambda>asked. seq (read_clock D) (\<lambda>time.
     seq (lift_result (synchronize_training i asked time plan (ui_after o'))) (\<lambda>updated.
     seq (on_store (save_workflow updated)) (\<lambda>_.
     let complete = (tw_status updated = TrainingCompleted); waiting = (tw_status updated = WaitingForApproval) in
     seq (append_event D updated
       (if complete then ''education_completed'' else if waiting then ''education_course_completed''
        else ''education_advanced'') (gs_sequence (ui_after o')) ''bounded time progression''
       (''System level '' @ int_text (tw_initial_level updated) @ '' -> '' @ int_text (tw_level updated) @
        ''; game paused=true'')) (\<lambda>event.
     make_result D updated (Some event) gestures True (\<not> complete)
       (if complete
        then ''Education complete and paused; System specialization increased '' @
          int_text (tw_initial_level updated) @ '' -> '' @ int_text (tw_level updated) @ ''.''
        else if waiting
        then ''Course '' @ int_text (tw_completed updated) @ '' of 3 completed and game is paused; System is level '' @
          int_text (tw_level updated) @ ''. The next course requires fresh exact approval.''
        else ''Education remains active after '' @ float_1f seconds @ ''s; game is paused and System remains level '' @
          int_text (tw_level updated) @ ''.'')))))))"

definition run_interval ::
  "'u desktop \<Rightarrow> rat \<Rightarrow> training_workflow \<Rightarrow> ui_observation \<Rightarrow> nat \<Rightarrow> ('u, training_result) training_operation" where
  "run_interval D seconds plan o' gestures =
     seq (find_target D ''education'' o' ''resume_button'') (\<lambda>t.
     seq (click_target D settle_seconds o' t ''resume bounded education time'') (\<lambda>running.
     if is_paused running
     then throw (UIVerificationError ''education progression did not resume game time'')
     else seq (finally_do (seq (keep_foreground D) (\<lambda>_. settle_for D seconds)) (pause_after_interval D)) (\<lambda>(paused, more).
       finish_advance D seconds plan paused (gestures + 1 + more))))"

definition advance_training ::
  "'u desktop \<Rightarrow> rat \<Rightarrow> bool \<Rightarrow> training_workflow \<Rightarrow> ('u, training_result) training_operation" where
  "advance_training D seconds dry_run plan =
     (if seconds \<le> 0 \<or> 30 < seconds
      then throw (UIValidationError ''education run interval must be between 0 and 30 seconds'')
      else
      seq (observe D) (\<lambda>o'.
      seq (lift_result (require_actionable ''education'' o')) (\<lambda>_.
      seq (uuid4 D) (\<lambda>i. seq (read_clock D) (\<lambda>asked. seq (read_clock D) (\<lambda>time.
      seq (lift_result (synchronize_training i asked time plan (ui_after o'))) (\<lambda>current.
      if tw_status current = TrainingCompleted
      then seq (on_store (save_workflow current)) (\<lambda>_. make_result D current None 0 True False
        (''Education is complete; System specialization increased '' @ int_text (tw_initial_level current) @ '' -> '' @
         int_text (tw_level current) @ ''. No input was sent.''))
      else if tw_status current = WaitingForApproval
      then seq (on_store (save_workflow current)) (\<lambda>_.
        case tw_approval current of
          None \<Rightarrow> throw (ControlFailed ''AssertionError'')
        | Some a \<Rightarrow> make_result D current None 0 True True
            (''Course '' @ int_text (ta_stage a - 1) @ '' of 3 is complete; System is level '' @ int_text (tw_level current) @
             ''. Course '' @ int_text (ta_stage a) @ '' requires fresh exact approval; no input was sent.''))
      else seq (lift_result (observed_employee o' (tw_employee current))) (\<lambda>e.
        if \<not> course_active e
        then throw (UIValidationError ''the approved active education course is not observed'')
        else seq (close_windows D dry_run current o') (\<lambda>closed.
          case closed of
            Inl r \<Rightarrow> ret r
          | Inr (before, gestures) \<Rightarrow>
            if dry_run
            then make_result D current None gestures False True
              (''Dry run: would advance for '' @ float_1f seconds @ '' seconds and guarantee pause.'')
            else run_interval D seconds current before gestures)))))))))"

end
