(* ===== verification/InteractionTrace.thy ===== *)
theory InteractionTrace
  imports ScreenControl
begin

text \<open>
  Reasoning about what an operator of ScreenControl observed, sent and was told: triples over the trace, with one rule per
  operation of the desktop and per helper.
\<close>

section \<open>Triples over the trace\<close>

text \<open>
  \<open>tracing P S m R\<close>: from a world whose trace is in \<open>P\<close>, \<open>m\<close> either returns an \<open>a\<close> with the trace in \<open>R a\<close>, or raises with
  the trace in \<open>S\<close>. \<open>S\<close> is what has to hold of the trace at the end.
\<close>

definition tracing ::
  "(interaction list \<Rightarrow> bool) \<Rightarrow> (interaction list \<Rightarrow> bool) \<Rightarrow> ('u, 's, 'a) operation \<Rightarrow> ('a \<Rightarrow> interaction list \<Rightarrow> bool) \<Rightarrow> bool" where
  "tracing P S m R \<longleftrightarrow> triple (\<lambda>w. P (ow_trace w)) m (\<lambda>a w. R a (ow_trace w)) (\<lambda>_ w. S (ow_trace w))"

named_theorems tracing_rules "one rule per operation of the desktop and combinator"

lemmas tracing_defs = tracing_def triple_def on_desktop_def

lemma tracing_result:
  assumes "tracing P S m (\<lambda>_. S)" and "P (ow_trace w)" and "m w = (r, w')"
  shows "S (ow_trace w')"
  using assms by (cases r) (fastforce simp: tracing_defs)+

lemma tracing_pre: "tracing P' S m R \<Longrightarrow> (\<And>tr. P tr \<Longrightarrow> P' tr) \<Longrightarrow> tracing P S m R"
  by (auto simp: tracing_defs)

lemma tracing_post: "tracing P S m R' \<Longrightarrow> (\<And>a tr. R' a tr \<Longrightarrow> R a tr) \<Longrightarrow> tracing P S m R"
  by (fastforce simp: tracing_defs split: prod.splits sum.splits)

lemma tracing_error: "tracing P S' m R \<Longrightarrow> (\<And>tr. S' tr \<Longrightarrow> S tr) \<Longrightarrow> tracing P S m R"
  by (fastforce simp: tracing_defs split: prod.splits sum.splits)

lemma tracing_seq: "tracing P S m R \<Longrightarrow> (\<And>a. tracing (R a) S (f a) Q) \<Longrightarrow> tracing P S (seq m f) Q"
  unfolding tracing_def by (rule triple_seq)

lemma tracing_if [tracing_rules]:
  "(b \<Longrightarrow> tracing P S m R) \<Longrightarrow> (\<not> b \<Longrightarrow> tracing P S m' R) \<Longrightarrow> tracing P S (if b then m else m') R"
  by simp

lemma tracing_throw [tracing_rules]: "(\<And>tr. P tr \<Longrightarrow> S tr) \<Longrightarrow> tracing P S (throw e) R"
  by (simp add: tracing_defs throw_def)

lemma tracing_ret [tracing_rules]: "(\<And>tr. P tr \<Longrightarrow> R a tr) \<Longrightarrow> tracing P S (ret a) R"
  by (simp add: tracing_defs ret_def)

lemma tracing_lift [tracing_rules]:
  "(\<And>tr. P tr \<Longrightarrow> S tr) \<Longrightarrow> (\<And>a. r = ok a \<Longrightarrow> tracing P S (f a) R) \<Longrightarrow> tracing P S (seq (lift_result r) f) R"
  by (cases r) (simp_all add: tracing_defs lift_result_def seq_def)

text \<open>Facts about values\<close>

lemma tracing_facts:
  assumes "tracing P S m R" and "\<And>w a w'. m w = (ok a, w') \<Longrightarrow> F a"
  shows "tracing P S m (\<lambda>a tr. F a \<and> R a tr)"
  unfolding tracing_def
proof (rule tripleI)
  fix w a w'
  assume w: "P (ow_trace w)" and run: "m w = (Inr a, w')"
  from triple_returns [OF assms(1) [unfolded tracing_def] w run] assms(2) [OF run]
  show "F a \<and> R a (ow_trace w')" by simp
next
  fix w and e :: ui_exn and w'
  assume w: "P (ow_trace w)" and run: "m w = (Inl e, w')"
  from triple_raises [OF assms(1) [unfolded tracing_def] w run] show "S (ow_trace w')" .
qed

lemma tracing_fact: "(F \<Longrightarrow> tracing P S m R) \<Longrightarrow> tracing (\<lambda>tr. F \<and> P tr) S m R"
  by (cases F) (simp_all add: tracing_defs)

text \<open>Operations that leave no trace\<close>

definition silent :: "('u, 's, 'a) operation \<Rightarrow> bool" where
  "silent m \<longleftrightarrow> (\<forall>w. ow_trace (snd (m w)) = ow_trace w)"

lemma tracing_silent [tracing_rules]:
  assumes "silent m" and "\<And>tr. P tr \<Longrightarrow> S tr" and "\<And>a. tracing P S (f a) R"
  shows "tracing P S (seq m f) R"
proof (rule tracing_seq [OF _ assms(3)])
  show "tracing P S m (\<lambda>_. P)"
    using assms(1,2) by (auto simp: tracing_defs silent_def split: prod.splits sum.splits) (metis snd_conv)+
qed

lemma tracing_silent_end [tracing_rules]: "silent m \<Longrightarrow> (\<And>tr. P tr \<Longrightarrow> S tr) \<Longrightarrow> tracing P S m (\<lambda>_. S)"
  by (auto simp: tracing_defs silent_def split: prod.splits sum.splits) (metis snd_conv)+

lemma silent_basic [simp]:
  "silent (read_clock D)" "silent (uuid4 D)" "silent (settle_for D seconds)" "silent (keep_foreground D)"
  "silent (gets f)" "silent (on_store g)" "silent (ret a)" "silent (throw e)" "silent (lift_result r)"
  by (auto simp: silent_def read_clock_def uuid4_def settle_for_def keep_foreground_def on_desktop_def on_store_def prog_defs
    split: prod.splits sum.splits)

lemmas tracing_basic = silent_basic [THEN tracing_silent]

lemma silent_seq: "silent m \<Longrightarrow> (\<And>a. silent (f a)) \<Longrightarrow> silent (seq m f)"
  by (auto simp: silent_def seq_def split: prod.splits sum.splits) (metis snd_conv)+

lemma silent_if: "silent m \<Longrightarrow> silent m' \<Longrightarrow> silent (if b then m else m')"
  by simp

lemma silent_option: "silent m \<Longrightarrow> (\<And>a. silent (f a)) \<Longrightarrow> silent (case x of None \<Rightarrow> m | Some a \<Rightarrow> f a)"
  by (cases x) simp_all

lemma silent_pair: "(\<And>a b. silent (f a b)) \<Longrightarrow> silent (case p of (a, b) \<Rightarrow> f a b)"
  by (simp split: prod.split)

lemma tracing_observe [tracing_rules]:
  assumes "\<And>tr. P tr \<Longrightarrow> S tr" and "\<And>o'. tracing (\<lambda>tr. \<exists>rest. tr = Observed o' # rest \<and> P rest) S (f o') R"
  shows "tracing P S (seq (observe D) f) R"
  by (rule tracing_seq [OF _ assms(2)])
    (use assms(1) in \<open>auto simp: tracing_defs observe_def split: prod.splits sum.splits\<close>)

lemma tracing_ask [tracing_rules]:
  assumes "\<And>tr. P tr \<Longrightarrow> S tr" and "\<And>b. tracing (\<lambda>tr. \<exists>rest. tr = Asked i b # rest \<and> P rest) S (f b) R"
  shows "tracing P S (seq (ask D i) f) R"
  by (rule tracing_seq [OF _ assms(2)])
    (use assms(1) in \<open>auto simp: tracing_defs ask_def split: prod.splits sum.splits\<close>)

lemma silent_find_target [simp]: "silent (find_target D subject o' i)"
  unfolding find_target_def by (intro silent_seq silent_if silent_basic)

lemma find_target_id: "find_target D subject o' i w = (ok t, w') \<Longrightarrow> vt_id t = i \<and> t \<in> set (ui_targets o')"
  by (auto simp: find_target_def seq_ok lift_result_def throw_def ret_def the_one_ok filter_eq_Cons_iff
    split: if_split_asm)

lemma tracing_find [tracing_rules]:
  assumes "\<And>tr. P tr \<Longrightarrow> S tr" and "\<And>t. vt_id t = i \<Longrightarrow> tracing P S (f t) R"
  shows "tracing P S (seq (find_target D subject o' i) f) R"
proof (rule tracing_seq)
  show "tracing P S (find_target D subject o' i) (\<lambda>t tr. vt_id t = i \<and> P tr)"
    unfolding tracing_def
  proof (rule tripleI)
    fix w and t :: visual_target and w'
    assume w: "P (ow_trace w)" and run: "find_target D subject o' i w = (Inr t, w')"
    then have "ow_trace w' = ow_trace w" using silent_find_target unfolding silent_def by (metis snd_conv)
    with w find_target_id [OF run] show "vt_id t = i \<and> P (ow_trace w')" by simp
  next
    fix w and e :: ui_exn and w'
    assume w: "P (ow_trace w)" and run: "find_target D subject o' i w = (Inl e, w')"
    then have "ow_trace w' = ow_trace w" using silent_find_target unfolding silent_def by (metis snd_conv)
    with w assms(1) show "S (ow_trace w')" by simp
  qed
  show "tracing (\<lambda>tr. vt_id t = i \<and> P tr) S (f t) R" for t
  proof (cases "vt_id t = i")
    case True
    then show ?thesis using assms(2) by simp
  qed (simp add: tracing_defs)
qed

text \<open>A click: its gesture, and then what is seen, if it is seen\<close>

definition clicked :: "string \<Rightarrow> (interaction list \<Rightarrow> bool) \<Rightarrow> interaction list \<Rightarrow> bool" where
  "clicked i P tr \<longleftrightarrow> (\<exists>g rest. ge_target g = i \<and> P rest \<and>
     (tr = Sent g # rest \<or> (\<exists>o'. tr = Observed o' # Sent g # rest)))"

lemma tracing_perform:
  assumes "\<And>tr. P tr \<Longrightarrow> S tr" and "\<And>tr. clicked (ge_target g) P tr \<Longrightarrow> S tr"
  shows "tracing P S (perform_gesture D settle o' g) (\<lambda>_. clicked (ge_target g) P)"
proof -
  let ?sent = "\<lambda>tr. \<exists>rest. tr = Sent g # rest \<and> P rest"
  have send: "tracing P S (send_gesture D g) (\<lambda>_. ?sent)"
    using assms(2) by (fastforce simp: tracing_defs send_gesture_def clicked_def split: prod.splits sum.splits)
  have sent: "\<And>tr. ?sent tr \<Longrightarrow> clicked (ge_target g) P tr" by (auto simp: clicked_def)
  show ?thesis
    unfolding perform_gesture_def
    by (intro tracing_if tracing_throw tracing_seq [OF send] tracing_silent tracing_observe tracing_lift tracing_ret silent_basic)
      (use assms sent in \<open>auto simp: clicked_def\<close>)
qed

lemma tracing_click [tracing_rules]:
  assumes "\<And>tr. P tr \<Longrightarrow> S tr" and "\<And>tr. clicked (vt_id t) P tr \<Longrightarrow> S tr"
    and "\<And>o''. tracing (clicked (vt_id t) P) S (f o'') R"
  shows "tracing P S (seq (click_target D settle o' t effect) f) R"
proof (rule tracing_seq [OF _ assms(3)])
  show "tracing P S (click_target D settle o' t effect) (\<lambda>_. clicked (vt_id t) P)"
  proof (cases "vt_point t")
    case None
    then show ?thesis using assms(1) by (simp add: click_target_def tracing_throw)
  next
    case (Some p)
    have "ge_target ((bound_gesture o' (vt_id t) effect time)\<lparr>ge_point := Some p\<rparr>) = vt_id t" for time
      by (simp add: bound_gesture_def Let_def)
    then show ?thesis
      using tracing_perform [of P S "(bound_gesture o' (vt_id t) effect time)\<lparr>ge_point := Some p\<rparr>" D settle o' for time] assms(1,2)
      by (simp add: click_target_def Some) (rule tracing_silent, simp_all)
  qed
qed

lemma finally_keeps:
  assumes "tracing (\<lambda>_. True) (\<lambda>_. True) cleanup (\<lambda>_. R)"
  shows "tracing P (\<lambda>_. True) (finally_do m cleanup) (\<lambda>_. R)"
  using assms by (fastforce simp: tracing_defs finally_do_def split: prod.splits sum.splits)

definition sends_nothing :: "interaction list \<Rightarrow> bool" where
  "sends_nothing tr \<longleftrightarrow> (\<forall>g. Sent g \<notin> set tr)"

end
