(* ===== verification/ScriptedDesktop.thy ===== *)
theory ScriptedDesktop
  imports InteractionTrace
begin

text \<open>
  A desktop whose observations are a script and whose person approves everything, for running the operators on concrete
  inputs, and the frames, targets and surfaces such scripts are made of.
\<close>

definition observed_surface :: "string \<Rightarrow> entity list \<Rightarrow> surface" where
  "observed_surface name es =
     \<lparr>su_coverage = \<lparr>fc_surface = name, fc_status = ObservedComplete, fc_fields = [], fc_detail = None\<rparr>,
      su_entities = es\<rparr>"

text \<open>The identifiers it gives out depend on the number of observations that are left.\<close>

definition scripted_with :: "(nat \<Rightarrow> uuid) \<Rightarrow> ((ui_exn, ui_observation) result list) desktop" where
  "scripted_with ids = \<lparr>dt_observe = (\<lambda>u. case u of [] \<Rightarrow> (raise (ControlFailed ''end''), []) | r # rs \<Rightarrow> (r, rs)),
     dt_execute = (\<lambda>g u. (ok (), u)), dt_foreground = (\<lambda>u. (ok (), u)), dt_sleep = (\<lambda>s u. (ok (), u)),
     dt_now = (\<lambda>u. (10, u)), dt_uuid = (\<lambda>u. (ids (length u), u)), dt_ask = (\<lambda>i u. (ok True, u))\<rparr>"

abbreviation scripted :: "((ui_exn, ui_observation) result list) desktop" where
  "scripted \<equiv> scripted_with (\<lambda>_. 9)"

definition sample_frame :: desktop_frame where
  "sample_frame =
     \<lparr>df_id = ''f'', df_sequence = 1, df_captured = 0, df_process = 7, df_window = ''w'', df_title = ''Software Inc'',
      df_bounds = \<lparr>wb_x = 0, wb_y = 0, wb_width = 800, wb_height = 600\<rparr>, df_content = None, df_visible = [],
      df_displays = [], df_width = 800, df_height = 600, df_scale = 1, df_sha = ''f''\<rparr>"

definition sample_target :: "scene \<Rightarrow> string \<Rightarrow> visual_target" where
  "sample_target sc i =
     \<lparr>vt_id = i, vt_frame = ''f'', vt_point = Some \<lparr>sp_x = 10, sp_y = 10\<rparr>, vt_region = None, vt_scene = sc,
      vt_projection = ''p'', vt_confidence = 1, vt_evidence = [], vt_expires = 100\<rparr>"

definition seen_as :: "scene \<Rightarrow> string list \<Rightarrow> game_snapshot \<Rightarrow> ui_observation" where
  "seen_as sc targets s =
     \<lparr>ui_before = s, ui_after = s, ui_frame = sample_frame, ui_scene = sc, ui_modal = NoModal, ui_projection = ''p'',
      ui_targets = map (sample_target sc) targets, ui_started = 0, ui_completed = 0\<rparr>"

lemma seen_simps [simp]:
  "ui_after (seen_as sc ts s) = s" "ui_scene (seen_as sc ts s) = sc" "ui_modal (seen_as sc ts s) = NoModal"
  "ui_frame (seen_as sc ts s) = sample_frame" "ui_targets (seen_as sc ts s) = map (sample_target sc) ts"
  by (simp_all add: seen_as_def)

lemma scripted_run [simp]:
  "observe (scripted_with ids) w = (case ow_desktop w of [] \<Rightarrow> (raise (ControlFailed ''end''), w) | r # rs \<Rightarrow>
     (r, w\<lparr>ow_desktop := rs, ow_trace := (case r of Inl _ \<Rightarrow> ow_trace w | Inr o' \<Rightarrow> Observed o' # ow_trace w)\<rparr>))"
  "read_clock (scripted_with ids) w = (ok 10, w)" "uuid4 (scripted_with ids) w = (ok (ids (length (ow_desktop w))), w)"
  "settle_for (scripted_with ids) s w = (ok (), w)" "keep_foreground (scripted_with ids) w = (ok (), w)"
  "send_gesture (scripted_with ids) g w = (ok (), w\<lparr>ow_trace := Sent g # ow_trace w\<rparr>)"
  "ask (scripted_with ids) i w = (ok True, w\<lparr>ow_trace := Asked i True # ow_trace w\<rparr>)"
  by (simp_all add: scripted_with_def observe_def read_clock_def uuid4_def settle_for_def keep_foreground_def send_gesture_def
    ask_def on_desktop_def split: list.splits sum.splits)

lemma scripted_find [simp]:
  "find_target (scripted_with ids) subject (seen_as sc [i] s) i w = (ok (sample_target sc i), w)"
proof -
  have "fl (4 / 5) \<le> 1" using fl_mono [of "4 / 5" 1] by simp
  then show ?thesis
    by (simp add: find_target_def prog_defs the_one_def sample_target_def sample_frame_def)
qed

lemma press_valid:
  assumes "bounded_text 512 effect" "bounded_text 256 i" "bounded_text 128 (scene_text sc)"
  shows "valid_gesture ((bound_gesture (seen_as sc ts s) i effect 10)\<lparr>ge_point := Some p\<rparr>)"
  using assms
  by (simp add: valid_gesture_def bound_gesture_def Let_def sample_frame_def within_opt_def bounded_opt_def
    bounded_text_def gesture_shape_def)

end
