(* ===== verification/TrainingProperties.thy ===== *)
theory TrainingProperties
  imports TrainingOperator ScriptedDesktop
begin

text \<open>
  What the education modules guarantee: which employee is recommended, what holds of a workflow in whatever order it is
  approved and synchronised, that nothing is committed without the approval, and that the game is paused again.
\<close>

section \<open>The recommendation\<close>

text \<open>An employee who can take three courses in a row without touching the reserve or any assigned work\<close>

definition suitable :: "rat \<Rightarrow> rat \<Rightarrow> string list \<Rightarrow> employee_training \<Rightarrow> bool" where
  "suitable cash reserve displaced e \<longleftrightarrow>
     et_level e = 0 \<and> \<not> et_taking e \<and> et_courses e = [] \<and> et_cost e = 600 \<and> displaced = [] \<and> reserve \<le> dsub cash 7600"

lemma course_total: "decimal_sum [600, 2000, 5000] = 7600"
  using dec_of_int [of 600] dec_of_int [of 2600] dec_of_int [of 7600] by (simp add: decimal_sum_def dadd_def)

lemma candidate_employee_level:
  assumes "training_candidates s team role spec = ok es" and "e \<in> set es"
  shows "0 \<le> et_level e \<and> 0 \<le> et_cost e \<and> 0 \<le> et_salary e \<and> 0 \<le> et_skill e"
proof -
  from assms(1) obtain u and v :: surface and fs where "rcollect (observe_candidate u team role spec) (su_entities v) = ok fs"
    and "es = sort_key et_id fs"
    unfolding training_candidates_def rbind_Inr_iff by blast
  with rcollect_all [of "observe_candidate u team role spec" "su_entities v" fs e] assms(2) obtain x where "observe_candidate u team role spec x = ok (Some e)"
    by auto
  then show ?thesis
    by (auto simp: observe_candidate_def read_employee_def check_employee_def rbind_Inr_iff
      split: if_split_asm option.split_asm)
qed

lemma reasons_empty_iff:
  assumes "0 \<le> et_level e"
  shows "candidate_reasons e displaced cash reserve = [] \<longleftrightarrow> suitable cash reserve displaced e"
proof (cases "et_level e = 0")
  case True
  then have "projected_cost e = 7600"
    by (simp add: projected_cost_def requested_months_def maximum_level_def course_costs_def course_total
      numeral_3_eq_3)
  with True show ?thesis
    by (auto simp: candidate_reasons_def suitable_def requested_months_def maximum_level_def course_costs_def Let_def)
next
  case False
  with assms show ?thesis
    by (auto simp: candidate_reasons_def suitable_def requested_months_def maximum_level_def)
qed

lemma candidates_made:
  assumes "rcollect (\<lambda>e. rbind (make_candidate cash reserve capacity displaced e) (\<lambda>c. ok (Some c))) es = ok cs"
  shows "c \<in> set cs \<longleftrightarrow> (\<exists>e \<in> set es. make_candidate cash reserve capacity displaced e = ok c)"
  by (auto simp: rcollect_all [OF assms] rbind_Inr_iff)

lemma recommendation_characterised:
  assumes "recommend_training n now s team reserve months = ok r"
  shows "\<exists>es cash displaced. training_candidates s team ''Designer'' ''System'' = ok es \<and> current_cash s = ok cash \<and>
     assigned_active_work s team = ok displaced \<and> 0 \<le> reserve \<and> tr_sequence r = gs_sequence s \<and>
     (case tr_recommended r of
        None \<Rightarrow> \<forall>e \<in> set es. \<not> suitable cash reserve displaced e
      | Some c \<Rightarrow> tc_employee c \<in> set es \<and> suitable cash reserve displaced (tc_employee c) \<and>
          tc_reserve c = reserve \<and> tc_cash c = cash \<and> tc_cost c = 600 \<and> tc_projected c = 7600 \<and> tc_eligible c \<and>
          (\<forall>e \<in> set es. suitable cash reserve displaced e \<longrightarrow>
             (dec (- et_skill (tc_employee c)), et_id (tc_employee c)) \<le> (dec (- et_skill e), et_id e)))"
proof -
  from assms obtain duration capacity cash displaced es cs where
    es: "training_candidates s team ''Designer'' ''System'' = ok es" and
    facts: "current_cash s = ok cash" "assigned_active_work s team = ok displaced" "0 \<le> reserve" and
    cs: "rcollect (\<lambda>e. rbind (make_candidate cash reserve capacity displaced e) (\<lambda>c. ok (Some c))) es = ok cs" and
    r: "r = build_recommendation n now s team reserve duration cs"
    by (auto simp: recommend_training_def rbind_Inr_iff split: if_split_asm)
  note level = candidate_employee_level [OF es]
  have made: "tc_employee c = e \<and> tc_reserve c = reserve \<and> tc_cash c = cash \<and> tc_cost c = et_cost e \<and>
      tc_projected c = projected_cost e \<and> (tc_eligible c \<longleftrightarrow> suitable cash reserve displaced e)"
    if "make_candidate cash reserve capacity displaced e = ok c" and "e \<in> set es" for e c
    using that level [OF that(2)] reasons_empty_iff [of e displaced cash reserve]
    by (auto simp: make_candidate_def Let_def split: if_split_asm)
  have all: "\<exists>c. make_candidate cash reserve capacity displaced e = ok c \<and> c \<in> set cs" if "e \<in> set es" for e
    using rcollect_members [OF cs that] candidates_made [OF cs] that by (auto simp: rbind_Inr_iff)
  have price: "et_level e = 0 \<Longrightarrow> projected_cost e = 7600" for e
    by (simp add: projected_cost_def requested_months_def maximum_level_def course_costs_def course_total
      numeral_3_eq_3)
  have result: "tr_recommended r = (case ranked_candidates cs of [] \<Rightarrow> None | c # _ \<Rightarrow> Some c)"
      "tr_sequence r = gs_sequence s"
    by (simp_all add: r build_recommendation_def Let_def)
  show ?thesis
  proof (cases "ranked_candidates cs")
    case Nil
    then have "filter tc_eligible cs = []" by (metis ranked_candidates_def set_sort set_empty)
    then have "\<not> suitable cash reserve displaced e" if "e \<in> set es" for e
      using all [OF that] made that by (auto simp: filter_empty_conv)
    then show ?thesis using es facts result Nil by auto
  next
    case (Cons c rest)
    from first_of_sorted [OF Cons [unfolded ranked_candidates_def]]
    have c: "c \<in> set cs" "tc_eligible c" and best: "\<And>d. d \<in> set cs \<Longrightarrow> tc_eligible d \<Longrightarrow> candidate_key c \<le> candidate_key d"
      by auto
    from candidates_made [OF cs] c(1) obtain e where e: "e \<in> set es" "make_candidate cash reserve capacity displaced e = ok c"
      by blast
    note m = made [OF e(2,1)]
    have "(dec (- et_skill (tc_employee c)), et_id (tc_employee c)) \<le> (dec (- et_skill d), et_id d)"
      if d: "d \<in> set es" "suitable cash reserve displaced d" for d
    proof -
      obtain c' where c': "make_candidate cash reserve capacity displaced d = ok c'" "c' \<in> set cs" using all [OF d(1)] by blast
      note m' = made [OF c'(1) d(1)]
      have "candidate_key c \<le> candidate_key c'" using best c'(2) m' d(2) by blast
      moreover have "et_level d = 0" "et_level e = 0" using d(2) m c(2) by (auto simp: suitable_def)
      ultimately show ?thesis using m m' price by (auto simp: candidate_key_def)
    qed
    then show ?thesis
      using es facts result Cons m e c(2) price by (auto simp: suitable_def)
  qed
qed

lemma recommendation_facts:
  assumes "recommend_training n now s team reserve months = ok r" and "tr_recommended r = Some c"
  shows "suitable (tc_cash c) reserve [] (tc_employee c) \<and> et_level (tc_employee c) = 0 \<and> tc_reserve c = reserve \<and>
     tc_cost c = 600 \<and> tc_projected c = 7600 \<and> 0 \<le> reserve \<and> reserve \<le> dsub (tc_cash c) 7600 \<and> tc_eligible c \<and>
     current_cash s = ok (tc_cash c)"
  using recommendation_characterised [OF assms(1)] by (auto simp: assms(2) suitable_def)

text \<open>
  C13. The recommendation is exact. When one is computed, the recommended employee is among the Designer/System
  employees of the team, is at level zero and free, pays the pinned price of 600, displaces no work, and leaves the reserve
  after all three courses; no suitable employee comes before it (higher skill first, then the identifier). When none is
  recommended, no employee of the team is suitable.
\<close>

theorem recommendation_exact:
  assumes "recommend_training n now s team reserve months = ok r"
  shows "\<exists>es cash displaced. training_candidates s team ''Designer'' ''System'' = ok es \<and> current_cash s = ok cash \<and>
     assigned_active_work s team = ok displaced \<and> 0 \<le> reserve \<and> tr_sequence r = gs_sequence s \<and>
     (case tr_recommended r of
        None \<Rightarrow> \<forall>e \<in> set es. \<not> suitable cash reserve displaced e
      | Some c \<Rightarrow> tc_employee c \<in> set es \<and> suitable cash reserve displaced (tc_employee c) \<and>
          tc_reserve c = reserve \<and> tc_cash c = cash \<and> tc_cost c = 600 \<and> tc_projected c = 7600 \<and> tc_eligible c \<and>
          (\<forall>e \<in> set es. suitable cash reserve displaced e \<longrightarrow>
             (dec (- et_skill (tc_employee c)), et_id (tc_employee c)) \<le> (dec (- et_skill e), et_id e)))"
  using assms by (rule recommendation_characterised)

section \<open>A small school\<close>

text \<open>One team with one Designer at a level, some cash, and the courses that are taken\<close>

definition school :: "int \<Rightarrow> int \<Rightarrow> int \<Rightarrow> int \<Rightarrow> string \<Rightarrow> game_snapshot" where
  "school number level cost cash courses =
     \<lparr>gs_captured = 0, gs_started = ''a'', gs_completed = ''b'', gs_sequence = number, gs_instance = ''i'',
      gs_session = ''s'', gs_game = ''software_inc'', gs_version = ''1.8.41'', gs_adapter = ''9'', gs_platform = MacOS,
      gs_architecture = Arm64,
      gs_map = \<lparr>id_status = IdentityUnavailable, id_value = None, id_label = None, id_detail = None\<rparr>,
      gs_save = \<lparr>id_status = IdentityObserved, id_value = Some ''save'', id_label = None, id_detail = None\<rparr>,
      gs_state = [(''current_time'', JStr ''1-1-1990''), (''force_pause'', JBool True)],
      gs_surfaces =
       [observed_surface ''education''
          [\<lparr>en_type = ''education_rule'', en_id = ''rule'', en_values = [(''duration_months'', JInt 1)]\<rparr>,
           \<lparr>en_type = ''employee_specialization'', en_id = ''spec'', en_values =
             [(''employee_id'', JStr ''e1''), (''team'', JStr ''Core''), (''role'', JStr ''Designer''),
              (''specialization'', JStr ''System''), (''level'', JInt level), (''one_time_cost'', JInt cost)]\<rparr>],
        observed_surface ''employees''
          [\<lparr>en_type = ''employee'', en_id = ''e1'', en_values =
             [(''name'', JStr ''Ada''), (''team'', JStr ''Core''), (''courses'', JStr courses), (''salary'', JInt 4000),
              (''skill_designer'', JInt 1), (''taking_courses'', JBool (courses \<noteq> []))]\<rparr>],
        observed_surface ''finances'' [\<lparr>en_type = ''finance'', en_id = ''f'', en_values = [(''cash'', JInt cash)]\<rparr>],
        observed_surface ''teams''
          [\<lparr>en_type = ''team'', en_id = ''t'', en_values = [(''name'', JStr ''Core''), (''employee_count'', JInt 3)]\<rparr>],
        observed_surface ''work_items'' []],
      gs_warnings = [], gs_limitations = []\<rparr>"

definition ada :: "int \<Rightarrow> int \<Rightarrow> string \<Rightarrow> employee_training" where
  "ada level cost courses =
     \<lparr>et_id = ''e1'', et_name = ''Ada'', et_team = ''Core'', et_role = ''Designer'', et_specialization = ''System'',
      et_level = level, et_skill = 1, et_salary = 4000, et_taking = (courses \<noteq> []), et_courses = split_bars [] courses,
      et_cost = of_int cost\<rparr>"

definition plain_naming :: naming where
  "plain_naming = \<lparr>na_sha = (\<lambda>_. replicate 64 (CHR ''0'')), na_uuid5 = (\<lambda>_. 5)\<rparr>"

definition sample_candidate :: training_candidate where
  "sample_candidate =
     \<lparr>tc_employee = ada 0 600 [], tc_target = 3, tc_cost = 600, tc_projected = 7600, tc_payroll = 12000,
      tc_capacity_before = 3, tc_capacity_during = 2, tc_cash = 60000, tc_cash_after = 52400, tc_reserve = 50000,
      tc_displaced = [], tc_eligible = True, tc_reasons = []\<rparr>"

lemmas school_simps = school_def observed_surface_def complete_surface_def named_surface_def the_one_def
  typed_entities_def value_text_def value_integer_def value_decimal_def value_boolean_def jget_def

lemma core_folds: "casefold ''Core'' = ''core''" "casefold ''Designer'' = ''designer''" "casefold ''System'' = ''system''"
  "strip ''Core'' = ''Core''" "strip ''Designer'' = ''Designer''" "strip ''System'' = ''System''" "strip ''e1'' = ''e1''"
  "strip ''Ada'' = ''Ada''"
  by code_simp+

lemma school_employees:
  assumes "0 \<le> level" and "0 \<le> cost"
  shows "training_candidates (school number level cost cash courses) ''Core'' ''Designer'' ''System'' =
    ok [ada level cost courses]"
  using assms
  by (simp add: training_candidates_def school_simps observe_candidate_def employee_by_id_def read_employee_def
      check_employee_def core_folds ada_def)

lemma school_ada:
  assumes "0 \<le> level" and "0 \<le> cost"
  shows "exact_employee_training (school number level cost cash courses) ''e1'' ''Designer'' ''System'' =
    ok (ada level cost courses)"
proof -
  have "employee_team (school number level cost cash courses) ''e1'' = ok ''Core''"
    by (simp add: employee_team_def school_simps core_folds)
  then show ?thesis
    by (simp add: exact_employee_training_def school_employees [OF assms]) (simp add: the_one_def ada_def)
qed

lemma school_cash: "current_cash (school number level cost cash courses) = ok (of_int cash)"
  by (simp add: current_cash_def school_simps)

lemma school_fields [simp]:
  "gs_sequence (school number level cost cash courses) = number"
  "gs_session (school number level cost cash courses) = ''s''"
  by (simp_all add: school_def)

lemma school_save: "save_text (school number level cost cash courses) = save_text (school 1 0 600 60000 [])"
  by (simp add: save_text_def school_def)

lemma school_recommends:
  "\<exists>r c. recommend_training plain_naming 0 (school 1 0 600 60000 []) ''Core'' 50000 3 = ok r \<and>
     tr_recommended r = Some c \<and> tc_employee c = ada 0 600 [] \<and> tc_eligible c"
proof -
  let ?s = "school 1 0 600 60000 []"
  have "education_duration_months ?s = ok 1" "team_employee_count ?s ''Core'' = ok 3"
      "assigned_active_work ?s ''Core'' = ok []"
    by (simp_all add: education_duration_months_def team_employee_count_def assigned_active_work_def school_simps
      core_folds)
  moreover have "\<exists>c. rcollect (\<lambda>e. rbind (make_candidate 60000 50000 3 [] e) (\<lambda>c. ok (Some c))) [ada 0 600 []] = ok [c] \<and>
      tc_employee c = ada 0 600 [] \<and> tc_eligible c"
  proof -
    have "suitable 60000 50000 [] (ada 0 600 [])"
      using dec_of_int [of 52400] by (simp add: suitable_def ada_def dsub_def)
    then have "candidate_reasons (ada 0 600 []) [] 60000 50000 = []"
      by (subst reasons_empty_iff) (simp_all add: ada_def)
    then show ?thesis by (simp add: make_candidate_def Let_def)
  qed
  then obtain c where c: "rcollect (\<lambda>e. rbind (make_candidate 60000 50000 3 [] e) (\<lambda>c. ok (Some c))) [ada 0 600 []] = ok [c]"
    "tc_employee c = ada 0 600 []" "tc_eligible c" by blast
  ultimately have "recommend_training plain_naming 0 ?s ''Core'' 50000 3 =
      ok (build_recommendation plain_naming 0 ?s ''Core'' 50000 1 [c])"
    using school_cash [of 1 0 600 60000 "[]"] school_employees [of 0 600 1 60000 "[]"] c(1)
    by (simp add: recommend_training_def del: rcollect.simps)
  moreover have "tr_recommended (build_recommendation plain_naming 0 ?s ''Core'' 50000 1 [c]) = Some c"
    by (simp add: build_recommendation_def ranked_candidates_def c(3) Let_def)
  ultimately show ?thesis using c(2,3) by blast
qed

lemma recommendation_exact_witness:
  "\<exists>r c. recommend_training plain_naming 0 (school 1 0 600 60000 []) ''Core'' 50000 3 = ok r \<and>
     tr_recommended r = Some c \<and> suitable 60000 50000 [] (tc_employee c)"
proof -
  obtain r c where run: "recommend_training plain_naming 0 (school 1 0 600 60000 []) ''Core'' 50000 3 = ok r"
    and c: "tr_recommended r = Some c" using school_recommends by blast
  have "assigned_active_work (school 1 0 600 60000 []) ''Core'' = ok []"
    by (simp add: assigned_active_work_def school_simps)
  with recommendation_exact [OF run] have "suitable 60000 50000 [] (tc_employee c)"
    by (auto simp: c school_cash)
  with run c show ?thesis by blast
qed

section \<open>The workflow\<close>

definition stage_ready :: "training_workflow \<Rightarrow> training_approval \<Rightarrow> bool" where
  "stage_ready w a \<longleftrightarrow> ta_stage a = tw_completed w + 1 \<and> ta_level_before a = tw_completed w \<and>
     ta_level_after a = tw_completed w + 1 \<and> ta_workflow a = tw_id w \<and> ta_employee a = tw_employee w \<and>
     ta_fingerprint a = tw_fingerprint w \<and> ta_reserve a = tw_reserve w \<and> tw_reserve w \<le> ta_cash_after a"

fun decision_fits :: "training_status \<Rightarrow> bool option \<Rightarrow> bool" where
  "decision_fits Planned d = (d = Some True)"
| "decision_fits TrainingBlocked d = (d = Some False)"
| "decision_fits WaitingForApproval d = (d = None)"
| "decision_fits _ d = True"

definition training_ok :: "training_workflow \<Rightarrow> bool" where
  "training_ok w \<longleftrightarrow> tw_initial_level w = 0 \<and> 0 \<le> tw_completed w \<and>
     (if tw_status w = TrainingCompleted then tw_completed w = 3 \<and> tw_approval w = None
      else tw_completed w \<le> 2 \<and>
        (\<exists>a. tw_approval w = Some a \<and> stage_ready w a \<and> decision_fits (tw_status w) (ta_approved a)))"

text \<open>One step of an operator: a decision, a synchronisation of an open workflow, or recording what was spent\<close>

inductive training_step :: "training_workflow \<Rightarrow> training_workflow \<Rightarrow> bool" where
  resolve: "resolve_training_approval time approved w = ok w' \<Longrightarrow> training_step w w'"
| synchronize: "is_open w \<Longrightarrow> synchronize_training fresh asked time w s = ok w' \<Longrightarrow> training_step w w'"
| spend: "tw_approval w = Some a \<Longrightarrow> training_step w (w\<lparr>tw_actual := dadd (tw_actual w) (ta_cost a)\<rparr>)"

text \<open>What no step changes\<close>

definition same_plan :: "training_workflow \<Rightarrow> training_workflow \<Rightarrow> bool" where
  "same_plan w w' \<longleftrightarrow> tw_id w' = tw_id w \<and> tw_session w' = tw_session w \<and> tw_save w' = tw_save w \<and>
     tw_employee w' = tw_employee w \<and> tw_reserve w' = tw_reserve w \<and> tw_projected w' = tw_projected w \<and>
     tw_initial_level w' = tw_initial_level w \<and> tw_fingerprint w' = tw_fingerprint w"

lemma resolve_keeps:
  assumes "resolve_training_approval time approved w = ok w'"
  shows "same_plan w w' \<and> tw_sequence w' = tw_sequence w \<and> (training_ok w \<longrightarrow> training_ok w')"
  using assms
  by (auto simp: resolve_training_approval_def same_plan_def training_ok_def stage_ready_def
      split: option.split_asm if_split_asm)

lemma make_approval_ok: "make_approval a = ok b \<Longrightarrow> b = a \<and> 0 \<le> ta_cost a"
  by (auto simp: make_approval_def split: if_split_asm)

lemma next_stage_ready:
  assumes "next_stage_approval fresh asked w level cost cash stage = ok a"
  shows "ta_stage a = stage \<and> ta_level_before a = level \<and> ta_level_after a = level + 1 \<and> ta_workflow a = tw_id w \<and>
     ta_employee a = tw_employee w \<and> ta_fingerprint a = tw_fingerprint w \<and> ta_reserve a = tw_reserve w \<and>
     ta_cash_after a = dsub cash cost \<and> tw_reserve w \<le> ta_cash_after a \<and> ta_approved a = None \<and> ta_cost a = cost"
  using assms by (auto simp: next_stage_approval_def Let_def dest!: make_approval_ok split: if_split_asm)

lemma progress_keeps:
  assumes "training_progress fresh asked w s e = ok w'"
  shows "same_plan w w' \<and> tw_sequence w' = tw_sequence w \<and> (is_open w \<longrightarrow> training_ok w \<longrightarrow> training_ok w')"
proof (cases "course_active e")
  case True
  with assms obtain t where "w' = w\<lparr>tw_status := Active, tw_started := t\<rparr>"
    by (auto simp: training_progress_def Let_def)
  then show ?thesis by (auto simp: training_ok_def same_plan_def stage_ready_def is_open_def)
next
  case idle: False
  show ?thesis
  proof (cases "tw_status w = Active")
    case False
    with assms idle show ?thesis by (simp add: training_progress_def Let_def same_plan_def)
  next
    case active: True
    with assms idle have level: "et_level e = tw_initial_level w + tw_completed w + 1"
      by (simp add: training_progress_def Let_def split: if_split_asm)
    show ?thesis
    proof (cases "3 \<le> et_level e")
      case True
      with assms idle active level obtain t where
        "w' = w\<lparr>tw_completed := tw_completed w + 1, tw_status := TrainingCompleted, tw_finished := t, tw_approval := None\<rparr>"
        by (auto simp: training_progress_def Let_def target_level_def)
      with active level True show ?thesis by (auto simp: training_ok_def same_plan_def)
    next
      case False
      with assms idle active level obtain a cash where
        w': "w' = w\<lparr>tw_completed := tw_completed w + 1, tw_status := WaitingForApproval, tw_approval := Some a\<rparr>"
        and "next_stage_approval fresh asked w (et_level e) (et_cost e) cash (tw_completed w + 1 + 1) = ok a"
        by (auto simp: training_progress_def Let_def target_level_def rbind_Inr_iff)
      from next_stage_ready [OF this(2)] active level False show ?thesis
        by (auto simp: w' training_ok_def same_plan_def stage_ready_def)
    qed
  qed
qed

lemma synchronize_keeps:
  assumes "synchronize_training fresh asked time w s = ok w'"
  shows "same_plan w w' \<and> tw_sequence w < tw_sequence w' \<and> (is_open w \<longrightarrow> training_ok w \<longrightarrow> training_ok w')"
proof -
  from assms obtain e v where fresh: "tw_sequence w < gs_sequence s"
    and progress: "training_progress fresh asked w s e = ok v"
    and w': "w' = v\<lparr>tw_level := et_level e, tw_sequence := gs_sequence s, tw_updated := time\<rparr>"
    by (auto simp: synchronize_training_def rbind_Inr_iff split: if_split_asm)
  have "training_ok w' = training_ok v" and "same_plan w w' = same_plan w v"
    by (simp_all add: w' training_ok_def stage_ready_def same_plan_def)
  with progress_keeps [OF progress] fresh show ?thesis by (simp add: w')
qed

lemma training_step_keeps:
  assumes "training_step w w'"
  shows "same_plan w w' \<and> tw_sequence w \<le> tw_sequence w' \<and> (training_ok w \<longrightarrow> training_ok w')"
  using assms
proof cases
  case (resolve time approved)
  then show ?thesis using resolve_keeps by fastforce
next
  case (synchronize fresh asked time s)
  then show ?thesis using synchronize_keeps by fastforce
next
  case (spend a)
  then show ?thesis by (auto simp: same_plan_def training_ok_def stage_ready_def)
qed

lemma training_steps_keep:
  assumes "training_step\<^sup>*\<^sup>* w w'"
  shows "same_plan w w' \<and> tw_sequence w \<le> tw_sequence w' \<and> (training_ok w \<longrightarrow> training_ok w')"
  using assms
proof (induction rule: rtranclp_induct)
  case base
  then show ?case by (simp add: same_plan_def)
next
  case (step v w')
  from training_step_keeps [OF step(2)] step(3) show ?case by (auto simp: same_plan_def)
qed

lemma created_workflow:
  assumes "create_training_workflow n fresh time s c = ok w" and "et_level (tc_employee c) = 0"
    and "tc_reserve c \<le> dsub (tc_cash c) (tc_cost c)"
  shows "training_ok w \<and> tw_reserve w = tc_reserve c \<and> tw_employee w = et_id (tc_employee c) \<and>
     tw_fingerprint w = plan_fingerprint n s c \<and> tw_save w = save_text s \<and> tw_status w = WaitingForApproval"
  using assms
  by (auto simp: create_training_workflow_def Let_def rbind_Inr_iff training_ok_def stage_ready_def
      dest!: make_approval_ok split: if_split_asm)

text \<open>
  C11. The life of a training workflow. Start from a recommended candidate and create its workflow; then, in whatever order
  it is approved or denied, synchronised with whatever snapshots while it is open, and charged, it never holds more than
  three courses, it is completed exactly with three, and until then its approval is for exactly the next course, from the
  level reached to the next one, for the same employee and plan, and leaves the recommended reserve. The decision on it fits
  the status. Identity, employee, reserve and plan stay, and the bridge sequence never falls.
\<close>

theorem training_workflow_invariant:
  assumes "recommend_training n t0 s0 team reserve months = ok r" and "tr_recommended r = Some c"
    and "create_training_workflow n fresh t s c = ok w0" and "training_step\<^sup>*\<^sup>* w0 w"
  shows "training_ok w \<and> same_plan w0 w \<and> tw_reserve w = reserve \<and> tw_fingerprint w = plan_fingerprint n s c \<and>
     tw_sequence w0 \<le> tw_sequence w"
proof -
  from recommendation_facts [OF assms(1,2)] have c: "et_level (tc_employee c) = 0" "tc_reserve c = reserve"
      "tc_cost c = 600" "reserve \<le> dsub (tc_cash c) 7600" by auto
  have "dsub (tc_cash c) 7600 \<le> dsub (tc_cash c) (tc_cost c)" by (simp add: c dsub_def dec_mono)
  with c created_workflow [OF assms(3)] training_steps_keep [OF assms(4)] show ?thesis
    by (auto simp: same_plan_def)
qed

lemma ada_created:
  assumes "tc_employee c = ada 0 600 []" and "tc_eligible c" and "tc_cost c = 600" and "0 \<le> tc_reserve c"
    and "length (first_summary c) \<le> 1024"
  shows "\<exists>w. create_training_workflow plain_naming 7 1 s c = ok w"
  using assms by (simp add: create_training_workflow_def Let_def make_approval_def bounded_text_def first_summary_def ada_def)

lemma training_workflow_invariant_witness:
  "\<exists>r c w0 w. recommend_training plain_naming 0 (school 1 0 600 60000 []) ''Core'' 50000 3 = ok r \<and>
     tr_recommended r = Some c \<and> create_training_workflow plain_naming 7 1 (school 2 0 600 60000 []) c = ok w0 \<and>
     training_step w0 w \<and> tw_status w = Planned \<and> training_ok w"
proof -
  obtain r c where run: "recommend_training plain_naming 0 (school 1 0 600 60000 []) ''Core'' 50000 3 = ok r"
    and c: "tr_recommended r = Some c" "tc_employee c = ada 0 600 []" "tc_eligible c" using school_recommends by blast
  from recommendation_facts [OF run c(1)] have f: "tc_cost c = 600" "tc_reserve c = 50000" "tc_cash c = 60000"
      "tc_projected c = 7600" by (auto simp: school_cash)
  have "length (first_summary c) \<le> 1024"
  proof -
    have "first_summary c = first_summary sample_candidate"
      by (simp add: first_summary_def Let_def c(2) f sample_candidate_def)
    moreover have "length (first_summary sample_candidate) \<le> 1024" by code_simp
    ultimately show ?thesis by simp
  qed
  from ada_created [OF c(2,3) f(1) _ this] f obtain w0 where
    w0: "create_training_workflow plain_naming 7 1 (school 2 0 600 60000 []) c = ok w0" by auto
  from w0 have "\<exists>a. tw_approval w0 = Some a \<and> ta_approved a = None"
    by (auto simp: create_training_workflow_def Let_def rbind_Inr_iff dest!: make_approval_ok split: if_split_asm)
  then obtain w where w: "resolve_training_approval 2 True w0 = ok w" "tw_status w = Planned"
    by (auto simp: resolve_training_approval_def)
  have step: "training_step w0 w" by (rule training_step.resolve [OF w(1)])
  then have "training_step\<^sup>*\<^sup>* w0 w" by blast
  from training_workflow_invariant [OF run c(1) w0 this] have "training_ok w" by blast
  with run c(1) w0 step w(2) show ?thesis by blast
qed

end
