(* ===== verification/TrainingSafety.thy ===== *)
theory TrainingSafety
  imports TrainingProperties
begin

text \<open>
  Safety of the education operator, in terms of the trace of what it observed, sent and was told, with the triples of
  InteractionTrace over the stages of \<open>start_training\<close> and \<open>advance_training\<close>.
\<close>

section \<open>Commitments of the education operator\<close>

fun is_commit :: "interaction \<Rightarrow> bool" where
  "is_commit (Sent g) = (ge_target g = ''commit_education'')"
| "is_commit _ = False"

definition quiet :: "interaction list \<Rightarrow> bool" where
  "quiet tr \<longleftrightarrow> (\<forall>x \<in> set tr. \<not> is_commit x)"

definition granted :: "training_approval \<Rightarrow> interaction list \<Rightarrow> bool" where
  "granted a tr \<longleftrightarrow> ta_approved a = Some True \<or> Asked (ta_id a) True \<in> set tr"

text \<open>
  At most one commitment, and that one directly after an observation that shows exactly the employee, the course and the
  cost of the approval, which had been granted before
\<close>

definition authorised :: "training_workflow \<Rightarrow> training_approval \<Rightarrow> interaction list \<Rightarrow> bool" where
  "authorised plan a tr \<longleftrightarrow> quiet tr \<or>
     (\<exists>pre g o' rest. tr = pre @ Sent g # Observed o' # rest \<and> ge_target g = ''commit_education'' \<and> quiet pre \<and>
        quiet rest \<and> shows_commitment plan a o' = ok True \<and> granted a rest)"

lemma quiet_authorised: "quiet tr \<Longrightarrow> authorised plan a tr"
  by (simp add: authorised_def)

lemma calm_simps [simp]:
  "quiet []" "quiet (x # tr) \<longleftrightarrow> \<not> is_commit x \<and> quiet tr"
  by (auto simp: quiet_def)

lemma silent_make_result [simp]: "silent (make_result D plan event n v p m)"
  unfolding make_result_def by (intro silent_seq silent_if silent_basic)

lemma silent_append_event [simp]: "silent (append_event D plan k b act d)"
  unfolding append_event_def Let_def by (intro silent_seq silent_if silent_basic)

lemma setup_never_commits:
  assumes "setup_choice_of plan selecting o' = ok (Press i effect selecting')"
  shows "i \<noteq> ''commit_education''"
  using assms
  by (auto simp: setup_choice_of_def education_choice_def rbind_Inr_iff split: scene.split_asm if_split_asm)

lemma commit_course_authorised:
  assumes "tw_employee plan' = tw_employee plan"
  shows "tracing (\<lambda>tr. quiet tr \<and> granted a tr) (authorised plan a) (commit_course D plan' a o' n) (\<lambda>_. authorised plan a)"
proof -
  have same: "shows_commitment plan' a ob = shows_commitment plan a ob" for ob
    by (simp add: shows_commitment_def assms)
  have after: "authorised plan a tr"
    if "clicked ''commit_education'' (\<lambda>tr. \<exists>rest. tr = Observed ob # rest \<and> quiet rest \<and> granted a rest) tr"
      and "shows_commitment plan a ob = ok True" for tr ob
  proof -
    from that(1) obtain g rest pre where "tr = pre @ Sent g # Observed ob # rest" "ge_target g = ''commit_education''"
        "quiet rest" "granted a rest" "quiet pre"
      unfolding clicked_def by (metis append_Cons append_Nil is_commit.simps(2) calm_simps)
    with that(2) show ?thesis unfolding authorised_def by blast
  qed
  show ?thesis
    unfolding commit_course_def
    apply (rule tracing_observe)
     apply (simp add: quiet_authorised)
    apply (rule tracing_lift, fastforce simp: quiet_authorised)
    apply (rule tracing_lift, fastforce simp: quiet_authorised)
    apply (rule tracing_lift, fastforce simp: quiet_authorised)
    apply (rule tracing_if)
     apply (rule tracing_throw, fastforce simp: quiet_authorised)
    apply (rule tracing_lift, fastforce simp: quiet_authorised)
    apply (rule tracing_find, fastforce simp: quiet_authorised)
    apply (rule tracing_click)
      apply (fastforce simp: quiet_authorised)
     apply (simp add: same, erule after, assumption)
    apply (rule tracing_pre [where P' = "authorised plan a"])
     apply (intro tracing_rules silent_seq silent_basic silent_make_result silent_append_event; assumption?)
    apply (simp add: same, erule after, assumption)
    done
qed

lemma resolved_plan:
  assumes "resolve_training_approval time approved plan = ok plan'" and "tw_status plan' \<noteq> TrainingBlocked"
  shows "approved \<and> tw_employee plan' = tw_employee plan"
  using assms by (auto simp: resolve_training_approval_def split: option.split_asm if_split_asm)

lemma approve_and_commit_authorised:
  assumes "tw_approval plan = Some a"
  shows "tracing quiet (authorised plan a) (approve_and_commit D provider dry_run plan o' n) (\<lambda>_. authorised plan a)"
proof -
  have commit: "tracing P (authorised plan a) (commit_course D plan' a o' n) (\<lambda>_. authorised plan a)"
    if "tw_employee plan' = tw_employee plan" and "\<And>tr. P tr \<Longrightarrow> quiet tr \<and> granted a tr" for plan' P
    using commit_course_authorised [OF that(1)] that(2) by (rule tracing_pre)
  show ?thesis
    unfolding approve_and_commit_def assms option.case
    apply (rule tracing_lift, erule quiet_authorised)
    apply (rule tracing_lift, erule quiet_authorised)
    apply (rule tracing_if)
     apply (rule tracing_throw, erule quiet_authorised)
    apply (rule tracing_if)
     apply (rule tracing_silent_end, simp, erule quiet_authorised)
    apply (rule tracing_if)
     apply (rule commit, simp, simp add: granted_def)
    apply (rule tracing_if)
     apply (rule tracing_silent_end, simp, erule quiet_authorised)
    apply (rule tracing_ask, erule quiet_authorised)
    apply (rule tracing_silent, simp, fastforce simp: quiet_authorised)
    apply (rule tracing_lift, fastforce simp: quiet_authorised)
    apply (rule tracing_silent, simp, fastforce simp: quiet_authorised)
    apply (rule tracing_if)
     apply (rule tracing_silent_end, simp, fastforce simp: quiet_authorised)
    apply (rule commit)
     apply (auto dest!: resolved_plan simp: granted_def)
    done
qed

lemma setup_course_authorised:
  assumes "tw_approval plan = Some a"
  shows "tracing quiet (authorised plan a) (setup_course cycles D provider dry_run plan selecting o' n) (\<lambda>_. authorised plan a)"
proof (induction cycles arbitrary: selecting o' n)
  case 0
  show ?case by (simp add: tracing_throw quiet_authorised)
next
  case (Suc cycles)
  show ?case
    unfolding setup_course.simps
  proof (intro tracing_lift)
    fix choice
    assume choice: "setup_choice_of plan selecting o' = ok choice"
    show "tracing quiet (authorised plan a)
       (case choice of
          Press i effect selecting' \<Rightarrow> seq (find_target D ''education'' o' i) (\<lambda>t.
            if dry_run then make_result D plan None n False True (''Dry run: would '' @ effect @ ''.'')
            else seq (click_target D settle_seconds o' t effect) (\<lambda>after.
              setup_course cycles D provider dry_run plan selecting' after (n + 1)))
        | Commit \<Rightarrow> approve_and_commit D provider dry_run plan o' n) (\<lambda>_. authorised plan a)"
    proof (cases choice)
      case Commit
      then show ?thesis by (simp add: approve_and_commit_authorised [OF assms])
    next
      case (Press i effect selecting')
      have i: "i \<noteq> ''commit_education''" using setup_never_commits choice Press by blast
      have quiet: "quiet tr" if "clicked i quiet tr" for tr
        using that i by (auto simp: clicked_def)
      show ?thesis
        unfolding Press setup_choice.case
      proof (rule tracing_find)
        fix t :: visual_target
        assume t: "vt_id t = i"
        show "tracing quiet (authorised plan a)
          (if dry_run then make_result D plan None n False True (''Dry run: would '' @ effect @ ''.'')
           else seq (click_target D settle_seconds o' t effect) (\<lambda>after.
             setup_course cycles D provider dry_run plan selecting' after (n + 1))) (\<lambda>_. authorised plan a)"
        proof (intro tracing_if tracing_click)
          show "tracing (clicked (vt_id t) quiet) (authorised plan a)
             (setup_course cycles D provider dry_run plan selecting' after (n + 1)) (\<lambda>_. authorised plan a)" for after
            using Suc.IH by (rule tracing_pre) (simp add: t quiet)
        qed (auto simp: t quiet quiet_authorised intro: tracing_silent_end)
      qed (erule quiet_authorised)
    qed
  qed (erule quiet_authorised)+
qed

section \<open>A day of education\<close>

definition with_window :: "string \<Rightarrow> int \<Rightarrow> game_snapshot \<Rightarrow> game_snapshot" where
  "with_window employee cost s = s\<lparr>gs_surfaces := gs_surfaces s @ [observed_surface ''education_ui''
     [\<lparr>en_type = ''education_ui_state'', en_id = ''current'', en_values =
        [(''selected_employees'', JStr employee), (''selected_role'', JStr ''Designer''),
         (''selected_specialization'', JStr ''System''), (''selected_cost'', JInt cost), (''duration_months'', JInt 1)]\<rparr>]]\<rparr>"

definition waiting_plan :: training_workflow where
  "waiting_plan =
     \<lparr>tw_id = 5, tw_session = ''s'', tw_save = save_text (school 1 0 600 60000 []), tw_employee = ''e1'', tw_name = ''Ada'',
      tw_team = ''Core'', tw_completed = 0, tw_projected = 7600, tw_actual = 0, tw_payroll = 12000, tw_reserve = 50000,
      tw_initial_cash = 60000, tw_initial_level = 0, tw_level = 0, tw_status = WaitingForApproval,
      tw_approval = Some \<lparr>ta_id = 9, ta_workflow = 5, ta_summary = ''Educate Ada'', ta_employee = ''e1'', ta_name = ''Ada'',
        ta_team = ''Core'', ta_stage = 1, ta_level_before = 0, ta_level_after = 1, ta_cost = 600, ta_payroll = 4000,
        ta_cash_after = 59400, ta_reserve = 50000, ta_fingerprint = [], ta_approved = None, ta_created = 0,
        ta_resolved = None\<rparr>,
      tw_fingerprint = [], tw_started = None, tw_finished = None, tw_sequence = 1, tw_created = 0, tw_updated = 0\<rparr>"

definition education_day :: "((ui_exn, ui_observation) result list, training_store) operating" where
  "education_day = \<lparr>ow_desktop =
      [ok (seen_as Education [''commit_education''] (with_window ''e1'' 600 (school 2 0 600 60000 []))),
       ok (seen_as Education [''commit_education''] (with_window ''e1'' 600 (school 3 0 600 50100 []))),
       ok (seen_as Education [] (with_window ''e1'' 600 (school 4 0 600 49500 ''Designer:System'')))],
     ow_store = \<lparr>ts_workflows = [(5, waiting_plan)], ts_events = []\<rparr>, ow_trace = []\<rparr>"

lemma window_surfaces [simp]:
  assumes "name \<noteq> ''education_ui''"
  shows "named_surface (with_window x c s) name = named_surface s name"
    and "complete_surface (with_window x c s) name = complete_surface s name"
  using assms by (simp_all add: complete_surface_def named_surface_def with_window_def observed_surface_def)

lemma window_projections [simp]:
  "training_candidates (with_window x c s) team role spec = training_candidates s team role spec"
  "employee_team (with_window x c s) i = employee_team s i"
  "exact_employee_training (with_window x c s) i role spec = exact_employee_training s i role spec"
  "current_cash (with_window x c s) = current_cash s"
  by (simp_all add: training_candidates_def employee_team_def exact_employee_training_def current_cash_def)

lemma window_fields [simp]:
  "gs_sequence (with_window x c s) = gs_sequence s" "gs_session (with_window x c s) = gs_session s"
  "gs_instance (with_window x c s) = gs_instance s" "gs_save (with_window x c s) = gs_save s"
  "gs_state (with_window x c s) = gs_state s" "save_text (with_window x c s) = save_text s"
  by (simp_all add: with_window_def save_text_def)

lemma window_state [simp]:
  "education_state (seen_as sc ts (with_window x c (school number level cost cash courses))) =
     ok \<lparr>en_type = ''education_ui_state'', en_id = ''current'', en_values =
        [(''selected_employees'', JStr x), (''selected_role'', JStr ''Designer''),
         (''selected_specialization'', JStr ''System''), (''selected_cost'', JInt c), (''duration_months'', JInt 1)]\<rparr>"
  by (simp add: education_state_def seen_as_def with_window_def school_def observed_surface_def typed_entities_def the_one_def)

lemma same_game_day [simp]:
  "same_game (seen_as sc ts (with_window x c (school m l k q r))) (seen_as sc' ts' (with_window x' c' (school m' l' k' q' r')))
     \<longleftrightarrow> m < m'"
  by (simp add: same_game_def Let_def school_def)

lemma scripted_click [simp]:
  assumes "i \<in> {''commit_education'', ''resume_button''}" and "bounded_text 512 effect" and "sc \<in> {Education, GameplayPaused}"
  shows "click_target scripted settle (seen_as sc ts s) (sample_target sc' i) effect w =
    perform_gesture scripted settle (seen_as sc ts s)
      ((bound_gesture (seen_as sc ts s) i effect 10)\<lparr>ge_point := Some \<lparr>sp_x = 10, sp_y = 10\<rparr>\<rparr>) w"
  by (simp add: click_target_def sample_target_def prog_defs)

lemma money_texts:
  "money_text 600 = ''600.00''" "money_text 50100 = ''50,100.00''" "money_text 49500 = ''49,500.00''"
  by code_simp+

lemma day_first_look:
  "resume_plan waiting_plan (seen_as Education [''commit_education''] (with_window ''e1'' 600 (school 2 0 600 60000 []))) =
     ok waiting_plan"
proof -
  have "dsub 60000 600 = 59400" using dec_of_int [of 59400] by (simp add: dsub_def)
  then show ?thesis
    by (simp add: resume_plan_def require_workflow_current_def waiting_plan_def same_save_def Let_def observed_employee_def
      school_ada school_cash school_save [of 2] ada_def)
qed

lemma day_window:
  "setup_choice_of waiting_plan None (seen_as Education ts (with_window ''e1'' 600 (school m l k q r))) = ok Commit"
  "education_decimal (seen_as Education ts (with_window ''e1'' 600 (school m l k q r))) ''selected_cost'' = ok 600"
  "education_integer (seen_as Education ts (with_window ''e1'' 600 (school m l k q r))) ''duration_months'' = ok 1"
  "require_actionable ''education'' (seen_as Education ts s) = ok ()"
  by (simp_all add: setup_choice_of_def education_choice_def education_text_def education_decimal_def education_integer_def
    require_actionable_def jget_def core_folds waiting_plan_def)

lemma active_course: "course_active (ada l c ''Designer:System'')" "\<not> course_active (ada l c [])"
proof -
  have "split_bars [] ''Designer:System'' = [''Designer:System'']" "casefold ''Designer:System'' = ''designer:system''"
    by code_simp+
  then show "course_active (ada l c ''Designer:System'')" "\<not> course_active (ada l c [])"
    by (simp_all add: course_active_def ada_def)
qed

definition sample_approval :: "bool option \<Rightarrow> training_approval" where
  "sample_approval d = \<lparr>ta_id = 9, ta_workflow = 5, ta_summary = ''Educate Ada'', ta_employee = ''e1'', ta_name = ''Ada'',
     ta_team = ''Core'', ta_stage = 1, ta_level_before = 0, ta_level_after = 1, ta_cost = 600, ta_payroll = 4000,
     ta_cash_after = 59400, ta_reserve = 50000, ta_fingerprint = [], ta_approved = d, ta_created = 0,
     ta_resolved = (if d = None then None else Some 10)\<rparr>"

definition approved_plan :: training_workflow where
  "approved_plan = waiting_plan\<lparr>tw_approval := Some (sample_approval (Some True)), tw_status := Planned, tw_updated := 10\<rparr>"

lemma plan_approvals: "tw_approval waiting_plan = Some (sample_approval None)"
  "resolve_training_approval 10 True waiting_plan = ok approved_plan"
  by (simp_all add: waiting_plan_def sample_approval_def resolve_training_approval_def approved_plan_def)

lemma day_commitment:
  "shows_commitment approved_plan (sample_approval d) (seen_as Education ts (with_window ''e1'' 600 (school m l k q r))) = ok True"
  by (simp add: shows_commitment_def education_text_def education_decimal_def jget_def core_folds approved_plan_def
    waiting_plan_def sample_approval_def)

lemma day_started:
  assumes "1 < m"
  shows "\<exists>v. synchronize_training 9 10 10 (approved_plan\<lparr>tw_actual := x\<rparr>)
      (with_window e c (school m 0 600 q ''Designer:System'')) = ok v \<and>
    tw_id v = 5 \<and> tw_name v = ''Ada'' \<and> tw_status v = Active \<and> tw_session v = ''s'' \<and> tw_reserve v = 50000 \<and>
    tw_save v = tw_save waiting_plan \<and> tw_actual v = x"
  using assms
  by (simp add: synchronize_training_def same_save_def approved_plan_def waiting_plan_def school_save [of m] school_ada
    training_progress_def active_course Let_def)

lemma day_commit:
  assumes "ow_desktop w = [ok (seen_as Education [''commit_education''] (with_window ''e1'' 600 (school 3 0 600 50100 []))),
       ok (seen_as Education [] (with_window ''e1'' 600 (school 4 0 600 49500 ''Designer:System'')))]"
    and "ow_store w = \<lparr>ts_workflows = [(5, v)], ts_events = []\<rparr>"
  shows "\<exists>r w' g. commit_course scripted approved_plan (sample_approval (Some True))
      (seen_as Education ts (with_window ''e1'' 600 (school 2 0 600 60000 []))) 0 w = (ok r, w') \<and>
    rs_verified r \<and> (\<exists>u. rs_workflow r = Some u \<and> tw_reserve u = 50000) \<and> ge_target g = ''commit_education'' \<and>
    ow_trace w' = Observed (seen_as Education [] (with_window ''e1'' 600 (school 4 0 600 49500 ''Designer:System''))) # Sent g #
      Observed (seen_as Education [''commit_education''] (with_window ''e1'' 600 (school 3 0 600 50100 []))) # ow_trace w"
proof -
  obtain u where u: "synchronize_training 9 10 10 (approved_plan\<lparr>tw_actual := dadd (tw_actual approved_plan) 600\<rparr>)
      (with_window ''e1'' 600 (school 4 0 600 49500 ''Designer:System'')) = ok u" "tw_id u = 5" "tw_name u = ''Ada''"
      "tw_status u = Active" "tw_reserve u = 50000"
    using day_started [of 4 "dadd (tw_actual approved_plan) 600" "''e1''" 600 49500] by auto
  have cash: "dsub (dsub 50100 49500) 600 = 0"
    using dec_of_int [of 600] by (simp add: dsub_def)
  have a: "ta_cost (sample_approval d) = 600" "ta_summary (sample_approval d) = ''Educate Ada''" "ta_stage (sample_approval d) = 1" for d
    by (simp_all add: sample_approval_def)
  have e: "tw_employee approved_plan = ''e1''" by (simp add: approved_plan_def waiting_plan_def)
  have texts: "int_text 1 = ''1''" by code_simp
  have shape: "valid_gesture ((bound_gesture (seen_as Education [''commit_education''] s) ''commit_education'' ''Educate Ada'' 10)
      \<lparr>ge_point := Some p\<rparr>)" for s p
    by (simp add: valid_gesture_def bound_gesture_def Let_def seen_as_def sample_frame_def within_opt_def bounded_opt_def
      bounded_text_def gesture_shape_def)
  show ?thesis
    using assms u
    by (simp add: commit_course_def prog_defs require_continuity_def day_window day_commitment school_cash a
        bounded_text_def perform_gesture_def shape observed_employee_def school_ada e active_course cash on_store_def
        save_workflow_def is_open_def append_event_def workflow_events_def append_training_event_def make_result_def
        money_texts texts Let_def)
      (simp add: bound_gesture_def Let_def)
qed

lemma day_run:
  "\<exists>r w' g rest o'. start_training scripted plain_naming None True False (Some waiting_plan) education_day = (ok r, w') \<and>
    rs_verified r \<and> (\<exists>u. rs_workflow r = Some u \<and> tw_reserve u = 50000) \<and> ge_target g = ''commit_education'' \<and>
    ow_trace w' = Observed o' # Sent g # rest \<and> current_cash (ui_after o') = ok 49500"
proof -
  let ?o1 = "seen_as Education [''commit_education''] (with_window ''e1'' 600 (school 2 0 600 60000 []))"
  let ?o2 = "seen_as Education [''commit_education''] (with_window ''e1'' 600 (school 3 0 600 50100 []))"
  let ?o3 = "seen_as Education [] (with_window ''e1'' 600 (school 4 0 600 49500 ''Designer:System''))"
  let ?w = "education_day\<lparr>ow_desktop := [ok ?o2, ok ?o3], ow_trace := [Asked 9 True, Observed ?o1],
     ow_store := \<lparr>ts_workflows = [(5, approved_plan)], ts_events = []\<rparr>\<rparr>"
  obtain r w' g where run: "commit_course scripted approved_plan (sample_approval (Some True)) ?o1 0 ?w = (ok r, w')"
      "rs_verified r" "\<exists>u. rs_workflow r = Some u \<and> tw_reserve u = 50000" "ge_target g = ''commit_education''"
      "ow_trace w' = Observed ?o3 # Sent g # Observed ?o2 # ow_trace ?w"
    using day_commit [of ?w approved_plan "[''commit_education'']"] by auto
  have plan: "tw_id approved_plan = 5" "tw_status approved_plan = Planned" "tw_employee waiting_plan = ''e1''"
    "ta_approved (sample_approval None) = None" "ta_id (sample_approval None) = 9" "ta_cost (sample_approval d) = 600" for d
    by (simp_all add: approved_plan_def waiting_plan_def sample_approval_def)
  have start: "start_cycles = Suc 19" by (simp add: start_cycles_def)
  have again: "commit_course D approved_plan (sample_approval None) o' n = commit_course D approved_plan (sample_approval (Some True)) o' n"
    for D :: "((ui_exn, ui_observation) result list) desktop" and o' n
  proof -
    have "ta_cost (sample_approval d) = 600" "ta_summary (sample_approval d) = ''Educate Ada''"
      "ta_stage (sample_approval d) = 1" for d by (simp_all add: sample_approval_def)
    then show ?thesis unfolding commit_course_def shows_commitment_def by (simp only:)
  qed
  have "start_training scripted plain_naming None True False (Some waiting_plan) education_day = (ok r, w')"
    using run(1) unfolding start_training_def start setup_course.simps
    by (simp add: education_day_def prog_defs day_window day_first_look plan observed_employee_def school_ada
      active_course approve_and_commit_def plan_approvals on_store_def save_workflow_def is_open_def again)
  moreover have "current_cash (ui_after ?o3) = ok 49500" by (simp add: school_cash)
  ultimately show ?thesis using run(2-5) by blast
qed

section \<open>Nothing is committed without an approval\<close>

text \<open>
  The plan of a run: the workflow it continues; or one for the recommended employee and plan, which is a workflow the store
  already held, or a new one for the recommended first course whose approval is undecided.
\<close>

definition first_course :: "training_candidate \<Rightarrow> training_workflow \<Rightarrow> training_approval \<Rightarrow> bool" where
  "first_course c plan a \<longleftrightarrow> tw_employee plan = et_id (tc_employee c) \<and> tw_completed plan = 0 \<and>
     tw_reserve plan = tc_reserve c \<and> ta_employee a = et_id (tc_employee c) \<and> ta_stage a = 1 \<and>
     ta_level_before a = et_level (tc_employee c) \<and> ta_cost a = tc_cost c \<and> ta_reserve a = tc_reserve c"

definition stored_plan :: "training_store \<Rightarrow> naming \<Rightarrow> training_candidate \<Rightarrow> training_workflow \<Rightarrow> bool" where
  "stored_plan st n c plan \<longleftrightarrow> plan \<in> snd ` set (ts_workflows st) \<and> tw_employee plan = et_id (tc_employee c) \<and>
     (\<exists>s. tw_fingerprint plan = plan_fingerprint n s c)"

definition recommends :: "training_recommendation option \<Rightarrow> training_candidate \<Rightarrow> bool" where
  "recommends recommendation c \<longleftrightarrow> (\<exists>r. recommendation = Some r \<and> tr_recommended r = Some c)"

definition plan_for ::
  "training_store \<Rightarrow> naming \<Rightarrow> training_recommendation option \<Rightarrow> training_workflow option \<Rightarrow> training_workflow \<Rightarrow> bool" where
  "plan_for st n recommendation existing plan \<longleftrightarrow> existing = Some plan \<or>
     existing = None \<and> (\<exists>c. recommends recommendation c \<and>
       (stored_plan st n c plan \<or>
        (\<exists>a. tw_approval plan = Some a \<and> first_course c plan a \<and> ta_approved a = None)))"

definition run_authorised :: "(training_workflow \<Rightarrow> bool) \<Rightarrow> interaction list \<Rightarrow> bool" where
  "run_authorised Pl tr \<longleftrightarrow> quiet tr \<or> (\<exists>plan a. Pl plan \<and> tw_approval plan = Some a \<and> authorised plan a tr)"

lemma created_first_course:
  "create_training_workflow n fresh t s c = ok plan \<Longrightarrow>
     (\<exists>a. tw_approval plan = Some a \<and> first_course c plan a \<and> ta_approved a = None) \<and>
     tw_employee plan = et_id (tc_employee c) \<and> tw_fingerprint plan = plan_fingerprint n s c"
  by (auto simp: create_training_workflow_def Let_def rbind_Inr_iff first_course_def make_approval_def
    split: if_split_asm)

lemma current_workflow_stored: "current_workflow session save st = ok (Some plan) \<Longrightarrow> plan \<in> snd ` set (ts_workflows st)"
  by (auto simp: current_workflow_def filter_eq_Cons_iff split: list.split_asm)
    (metis image_eqI image_set in_set_conv_decomp list.set_map snd_conv)

lemma begin_plan_silent: "silent (begin_plan D n r c o')"
  unfolding begin_plan_def require_recommendation_current_def Let_def
  by (intro silent_seq silent_if silent_basic) (auto split: option.split intro!: silent_seq silent_if silent_basic)

lemma recommendation_current_store:
  "require_recommendation_current D r o' w = (ok u, w1) \<Longrightarrow> ow_store w1 = ow_store w"
  by (auto simp: require_recommendation_current_def read_clock_def on_desktop_def seq_def Let_def throw_def ret_def
    split: if_split_asm prod.split_asm sum.split_asm)

text \<open>What \<open>begin_plan\<close> ends with: the workflow of the store, or a new one\<close>

lemma begin_plan_ends:
  assumes "current_workflow session save (ow_store w) = found"
    and "seq (lift_result found) (\<lambda>existing. case existing of
       Some plan \<Rightarrow>
         if tw_employee plan \<noteq> et_id (tc_employee c) then throw e1
         else seq (read_clock D) (\<lambda>time. seq (uuid4 D) (\<lambda>fresh.
           seq (lift_result (create_training_workflow n fresh time s c)) (\<lambda>proposed.
           if tw_fingerprint plan \<noteq> tw_fingerprint proposed then throw e2 else ret plan)))
     | None \<Rightarrow>
         seq (read_clock D) (\<lambda>time. seq (uuid4 D) (\<lambda>fresh.
         seq (lift_result (create_training_workflow n fresh time s c)) (\<lambda>plan.
         seq (on_store (save_workflow plan)) (\<lambda>_. ret plan))))) w1 = (ok plan, w')"
  shows "stored_plan (ow_store w) n c plan \<or> (\<exists>a. tw_approval plan = Some a \<and> first_course c plan a \<and> ta_approved a = None)"
proof (cases found)
  case (Inl e)
  with assms(2) show ?thesis by (simp add: seq_def lift_result_def)
next
  case (Inr existing)
  show ?thesis
  proof (cases existing)
    case None
    with assms(2) Inr show ?thesis
      by (auto simp: seq_ok lift_result_def ret_def dest!: created_first_course)
  next
    case (Some stored)
    with assms(2) Inr have "stored = plan" "tw_employee plan = et_id (tc_employee c)" "\<exists>s. tw_fingerprint plan = plan_fingerprint n s c"
      by (auto simp: seq_ok lift_result_def ret_def throw_def split: if_split_asm dest!: created_first_course)
    with Some Inr assms(1) current_workflow_stored show ?thesis by (auto simp: stored_plan_def)
  qed
qed

lemma begin_plan_for:
  assumes "begin_plan D n r c o' w = (ok plan, w')" and "recommends recommendation c"
  shows "plan_for (ow_store w) n recommendation None plan"
proof -
  have "stored_plan (ow_store w) n c plan \<or> (\<exists>a. tw_approval plan = Some a \<and> first_course c plan a \<and> ta_approved a = None)"
    using assms(1) unfolding begin_plan_def Let_def seq_ok [of "require_recommendation_current D r o'"]
      seq_ok [of "lift_result (observed_employee x y)" for x y] seq_ok [of "lift_result (current_cash x)" for x]
    apply -
    apply (elim exE conjE, drule recommendation_current_store)
    apply (clarsimp simp: throw_def lift_result_def seq_ok [of "lift_result (current_cash x)" for x] split: if_split_asm)
    apply (clarsimp simp: seq_def [of "gets x" for x] gets_def)
    apply (drule begin_plan_ends [rotated], rule refl)
    apply (elim disjE exE conjE)
     apply assumption
    apply simp
    done
  with assms(2) show ?thesis by (auto simp: plan_for_def)
qed

lemma split_unique:
  assumes "xs @ x # ys = us @ u # vs" and "P x" and "P u" and "\<forall>z \<in> set us. \<not> P z" and "\<forall>z \<in> set vs. \<not> P z"
  shows "xs = us \<and> ys = vs"
  using assms
  by (auto simp: append_eq_append_conv2 Cons_eq_append_conv append_eq_Cons_conv)

lemma setup_course_without_approval:
  assumes "tw_approval plan = None"
  shows "tracing quiet quiet (setup_course cycles D provider dry_run plan selecting o' n) (\<lambda>_. quiet)"
proof (induction cycles arbitrary: selecting o' n)
  case 0
  show ?case by (simp add: tracing_throw)
next
  case (Suc cycles)
  show ?case
    unfolding setup_course.simps
  proof (intro tracing_lift)
    fix choice
    assume choice: "setup_choice_of plan selecting o' = ok choice"
    show "tracing quiet quiet
       (case choice of
          Press i effect selecting' \<Rightarrow> seq (find_target D ''education'' o' i) (\<lambda>t.
            if dry_run then make_result D plan None n False True (''Dry run: would '' @ effect @ ''.'')
            else seq (click_target D settle_seconds o' t effect) (\<lambda>after.
              setup_course cycles D provider dry_run plan selecting' after (n + 1)))
        | Commit \<Rightarrow> approve_and_commit D provider dry_run plan o' n) (\<lambda>_. quiet)"
    proof (cases choice)
      case Commit
      then show ?thesis
        by (simp add: approve_and_commit_def assms) (intro tracing_lift tracing_throw; assumption)
    next
      case (Press i effect selecting')
      have quiet: "quiet tr" if "clicked i quiet tr" for tr
        using that setup_never_commits choice Press by (auto simp: clicked_def)
      show ?thesis
        unfolding Press setup_choice.case
      proof (rule tracing_find)
        fix t :: visual_target
        assume t: "vt_id t = i"
        show "tracing quiet quiet
          (if dry_run then make_result D plan None n False True (''Dry run: would '' @ effect @ ''.'')
           else seq (click_target D settle_seconds o' t effect) (\<lambda>after.
             setup_course cycles D provider dry_run plan selecting' after (n + 1))) (\<lambda>_. quiet)"
        proof (intro tracing_if tracing_click)
          show "tracing (clicked (vt_id t) quiet) quiet
             (setup_course cycles D provider dry_run plan selecting' after (n + 1)) (\<lambda>_. quiet)" for after
            using Suc.IH by (rule tracing_pre) (simp add: t quiet)
        qed (auto simp: t quiet intro: tracing_silent_end)
      qed
    qed
  qed
qed

lemma setup_course_run:
  assumes "Pl plan"
  shows "tracing quiet (run_authorised Pl) (setup_course cycles D provider dry_run plan selecting o' n) (\<lambda>_. run_authorised Pl)"
proof (cases "tw_approval plan")
  case None
  show ?thesis
    by (rule tracing_post [OF tracing_error [OF setup_course_without_approval [OF None]]]) (simp_all add: run_authorised_def)
next
  case (Some a)
  have run: "\<And>tr. authorised plan a tr \<Longrightarrow> run_authorised Pl tr"
    using assms Some by (auto simp: run_authorised_def)
  show ?thesis by (rule tracing_post [OF tracing_error [OF setup_course_authorised [OF Some]]]) (simp_all add: run)
qed

lemma tracing_triple: "tracing P S m (\<lambda>_. S) \<Longrightarrow> triple (\<lambda>w. P (ow_trace w)) m (\<lambda>_ w. S (ow_trace w)) (\<lambda>_ w. S (ow_trace w))"
  by (simp add: tracing_def)

text \<open>A run from a plan that is found without a trace, in a world that still has the store of the beginning\<close>

lemma planned_run:
  assumes "\<And>o'. silent (m o')" and "\<And>o' plan w w'. m o' w = (ok plan, w') \<Longrightarrow> Pl (ow_store w) plan"
  shows "triple (\<lambda>w. quiet (ow_trace w) \<and> ow_store w = st)
    (seq (observe D) (\<lambda>o'. seq (lift_result (require_actionable ''education'' o')) (\<lambda>_.
     seq (m o') (\<lambda>plan. seq (lift_result (observed_employee o' (tw_employee plan))) (\<lambda>e.
     if course_active e then make_result D plan None 0 True False (msg plan)
     else setup_course start_cycles D provider dry_run plan None o' 0)))))
    (\<lambda>_ w. run_authorised (Pl st) (ow_trace w)) (\<lambda>_ w. run_authorised (Pl st) (ow_trace w))"
    (is "triple ?P _ _ ?E")
proof (rule triple_seq)
  have quiet: "\<And>tr. quiet tr \<Longrightarrow> run_authorised (Pl st) tr" by (simp add: run_authorised_def)
  show "triple ?P (observe D) (\<lambda>_. ?P) ?E"
    by (auto simp: triple_def observe_def on_desktop_def quiet split: prod.splits sum.splits)
  fix o'
  have rest: "tracing quiet (run_authorised (Pl st)) (seq (lift_result (observed_employee o' (tw_employee plan))) (\<lambda>e.
      if course_active e then make_result D plan None 0 True False (msg plan)
      else setup_course start_cycles D provider dry_run plan None o' 0)) (\<lambda>_. run_authorised (Pl st))" if "Pl st plan" for plan
    by (intro tracing_lift tracing_if tracing_silent_end setup_course_run that silent_make_result) (simp_all add: quiet)
  have begun: "triple ?P (m o') (\<lambda>plan w. Pl st plan \<and> quiet (ow_trace w)) ?E"
  proof (rule tripleI)
    fix w plan w'
    assume w: "?P w" and run: "m o' w = (Inr plan, w')"
    moreover have "ow_trace w' = ow_trace w" using run assms(1) [of o'] unfolding silent_def by (metis snd_conv)
    ultimately show "Pl st plan \<and> quiet (ow_trace w')" using assms(2) [OF run] by simp
  next
    fix w e w'
    assume w: "?P w" and run: "m o' w = (Inl e, w')"
    moreover have "ow_trace w' = ow_trace w" using run assms(1) [of o'] unfolding silent_def by (metis snd_conv)
    ultimately show "run_authorised (Pl st) (ow_trace w')" using quiet by simp
  qed
  have goes_on: "triple (\<lambda>w. Pl st plan \<and> quiet (ow_trace w)) (seq (lift_result (observed_employee o' (tw_employee plan))) (\<lambda>e.
      if course_active e then make_result D plan None 0 True False (msg plan)
      else setup_course start_cycles D provider dry_run plan None o' 0)) (\<lambda>_. ?E undefined) ?E" for plan
    using tracing_triple [OF rest [of plan]] by (cases "Pl st plan") (simp_all add: triple_def)
  show "triple ?P (seq (lift_result (require_actionable ''education'' o')) (\<lambda>_.
     seq (m o') (\<lambda>plan. seq (lift_result (observed_employee o' (tw_employee plan))) (\<lambda>e.
     if course_active e then make_result D plan None 0 True False (msg plan)
     else setup_course start_cycles D provider dry_run plan None o' 0)))) (\<lambda>_. ?E undefined) ?E"
    by (rule triple_seq [OF _ triple_seq [OF begun goes_on]])
      (auto simp: triple_def lift_result_def quiet split: sum.splits)
qed

lemma start_training_run:
  "triple (\<lambda>w. quiet (ow_trace w) \<and> ow_store w = st) (start_training D n recommendation provider dry_run existing)
     (\<lambda>_ w. run_authorised (plan_for st n recommendation existing) (ow_trace w))
     (\<lambda>_ w. run_authorised (plan_for st n recommendation existing) (ow_trace w))"
proof -
  let ?Pl = "\<lambda>st. plan_for st n recommendation existing"
  note body = planned_run [where Pl = ?Pl and st = st]
  show ?thesis
  proof (cases existing)
    case (Some plan)
    have resumed: "lift_result (resume_plan plan o') w = (ok p, w') \<Longrightarrow> ?Pl (ow_store w) p"
      for o' p and w w' :: "('a, training_store) operating"
      by (auto simp: resume_plan_def rbind_Inr_iff plan_for_def Some lift_result_def split: option.split_asm if_split_asm)
    have "triple (\<lambda>w. quiet (ow_trace w) \<and> ow_store w = st)
      (seq (observe D) (\<lambda>o'. seq (lift_result (require_actionable ''education'' o')) (\<lambda>_.
        seq (lift_result (resume_plan plan o')) (\<lambda>plan. seq (lift_result (observed_employee o' (tw_employee plan))) (\<lambda>e.
        if course_active e then make_result D plan None 0 True False (msg plan)
        else setup_course start_cycles D provider dry_run plan None o' 0)))))
      (\<lambda>_ w. run_authorised (?Pl st) (ow_trace w)) (\<lambda>_ w. run_authorised (?Pl st) (ow_trace w))" for msg
      by (rule body) (simp_all add: resumed)
    then show ?thesis
      unfolding start_training_def Some
      by (cases "Option.bind recommendation (\<lambda>r. map_option (Pair r) (tr_recommended r))") (simp_all add: Some)
  next
    case None
    show ?thesis
    proof (cases "Option.bind recommendation (\<lambda>r. map_option (Pair r) (tr_recommended r))")
      case none: None
      show ?thesis unfolding start_training_def None none by (simp add: triple_def throw_def run_authorised_def)
    next
      case (Some rc)
      then obtain r c where rc: "recommendation = Some r" "tr_recommended r = Some c" "rc = (r, c)"
        by (cases recommendation) auto
      then have "recommends recommendation c" by (simp add: recommends_def)
      from begin_plan_for [OF _ this] show ?thesis
        unfolding start_training_def None Some rc(3) prod.case option.case
        by (intro body [unfolded None] begin_plan_silent)
    qed
  qed
qed

text \<open>What has to be shown before the click, without the operator's own check (\<open>shows_commitment\<close>)\<close>

definition course_shown :: "string \<Rightarrow> rat \<Rightarrow> ui_observation \<Rightarrow> bool" where
  "course_shown employee cost o' \<longleftrightarrow> ui_scene o' = Education \<and>
     education_text o' ''selected_employees'' = ok employee \<and>
     (\<exists>role. education_text o' ''selected_role'' = ok role \<and> casefold role = ''designer'') \<and>
     (\<exists>field. education_text o' ''selected_specialization'' = ok field \<and> casefold field = ''system'') \<and>
     education_decimal o' ''selected_cost'' = ok cost"

lemma commitment_course_shown: "shows_commitment plan a o' = ok True \<Longrightarrow> course_shown (tw_employee plan) (ta_cost a) o'"
  by (auto simp: shows_commitment_def course_shown_def rbind_Inr_iff split: if_split_asm)

text \<open>
  C6. Education is never bought without its approval. Whatever the desktop does, a click on the commit button that
  \<open>start_training\<close> sends is the only one of the run, and comes directly after an observation that shows the education window
  with exactly the plan's employee, the role of a designer, the system specialization and the cost of the plan's approval. When the run begins a new workflow, the plan
  is the first course of the recommended employee at the recommended cost and reserve, and a person said yes to its approval
  in this run, before that observation. Otherwise the plan is the workflow that the run was given, or one that the store held
  when the run began, for the recommended employee and plan; then its approval was granted in this run or is recorded as granted
  in that workflow.
\<close>

theorem training_commit_authorised:
  assumes "start_training D n recommendation provider dry_run existing w = (r, w')" and "ow_trace w = []"
    and "ow_trace w' = post @ Sent g # before" and "ge_target g = ''commit_education''"
  shows "\<exists>plan a o' seen. tw_approval plan = Some a \<and> before = Observed o' # seen \<and>
     course_shown (tw_employee plan) (ta_cost a) o' \<and> quiet seen \<and> quiet post \<and>
     ((existing = Some plan \<or>
       existing = None \<and> (\<exists>c. recommends recommendation c \<and> stored_plan (ow_store w) n c plan)) \<and>
        (Asked (ta_id a) True \<in> set seen \<or> ta_approved a = Some True) \<or>
      existing = None \<and> (\<exists>c. recommends recommendation c \<and> first_course c plan a) \<and> Asked (ta_id a) True \<in> set seen)"
proof -
  note run = start_training_run [of "ow_store w" D n recommendation provider dry_run existing]
  have start: "quiet (ow_trace w) \<and> ow_store w = ow_store w" using assms(2) by simp
  have "run_authorised (plan_for (ow_store w) n recommendation existing) (ow_trace w')"
    using triple_returns [OF run start] triple_raises [OF run start] assms(1) by (cases r) auto
  moreover have "\<not> quiet (ow_trace w')" using assms(3,4) by (auto simp: quiet_def)
  ultimately obtain plan a pre g' o' seen where plan: "plan_for (ow_store w) n recommendation existing plan" "tw_approval plan = Some a"
    and tr: "ow_trace w' = pre @ Sent g' # Observed o' # seen" and ok: "ge_target g' = ''commit_education''" "quiet pre" "quiet seen"
      "shows_commitment plan a o' = ok True" "granted a seen"
    by (auto simp: run_authorised_def authorised_def)
  have commits: "is_commit (Sent g)" "is_commit (Sent g')" using assms(4) ok(1) by simp_all
  have "quiet (Observed o' # seen)" using ok(3) by simp
  with split_unique [of post "Sent g" before pre "Sent g'" "Observed o' # seen" is_commit] assms(3) tr ok(2) commits
  have here: "post = pre" "before = Observed o' # seen" by (auto simp: quiet_def)
  have granted: "Asked (ta_id a) True \<in> set seen \<or> ta_approved a = Some True" using ok(5) by (auto simp: granted_def)
  from plan granted have "(existing = Some plan \<or>
       existing = None \<and> (\<exists>c. recommends recommendation c \<and> stored_plan (ow_store w) n c plan)) \<and>
        (Asked (ta_id a) True \<in> set seen \<or> ta_approved a = Some True) \<or>
      existing = None \<and> (\<exists>c. recommends recommendation c \<and> first_course c plan a) \<and> Asked (ta_id a) True \<in> set seen"
    by (auto simp: plan_for_def)
  with plan(2) here ok(2,3) commitment_course_shown [OF ok(4)] show ?thesis by blast
qed

lemma training_commit_authorised_witness:
  "\<exists>r w' g o' before. start_training scripted plain_naming None True False (Some waiting_plan) education_day = (ok r, w') \<and>
     ow_trace w' = [o'] @ Sent g # before \<and> Asked 9 True \<in> set before"
proof -
  obtain r w' g before o' where
    run: "start_training scripted plain_naming None True False (Some waiting_plan) education_day = (ok r, w')"
    and g: "ge_target g = ''commit_education''" and tr: "ow_trace w' = Observed o' # Sent g # before"
    using day_run by blast
  have "ow_trace education_day = []" by (simp add: education_day_def)
  from training_commit_authorised [OF run this _ g, of "[Observed o']" before] tr obtain a where
    "tw_approval waiting_plan = Some a" "Asked (ta_id a) True \<in> set (tl before) \<or> ta_approved a = Some True" by auto
  then have "Asked 9 True \<in> set (tl before)"
    by (auto simp: plan_approvals sample_approval_def)
  then have "Asked 9 True \<in> set before" by (cases before) auto
  with run tr show ?thesis by auto
qed

section \<open>The game is paused again\<close>

definition seen_paused :: "interaction list \<Rightarrow> bool" where
  "seen_paused tr \<longleftrightarrow> (\<exists>o' rest. tr = Observed o' # rest \<and> is_paused o')"

lemma pause_ends_paused: "tracing P (\<lambda>_. True) (pause_after_interval D) (\<lambda>_. seen_paused)"
proof -
  have click: "tracing P' (\<lambda>_. True) (click_target D settle o' t effect) (\<lambda>after tr. \<exists>rest. tr = Observed after # rest)"
    for P' settle and o' :: ui_observation and t effect
  proof (cases "vt_point t")
    case None
    then show ?thesis by (simp add: click_target_def tracing_throw)
  next
    case (Some p)
    have "tracing P' (\<lambda>_. True) (perform_gesture D settle o' g) (\<lambda>after tr. \<exists>rest. tr = Observed after # rest)" for g
      unfolding perform_gesture_def
    proof (intro tracing_if tracing_throw)
      show "tracing P' (\<lambda>_. True) (seq (send_gesture D g) (\<lambda>_. seq (settle_for D settle) (\<lambda>_. seq (observe D) (\<lambda>after.
          seq (lift_result (require_continuity o' after)) (\<lambda>_. ret after))))) (\<lambda>after tr. \<exists>rest. tr = Observed after # rest)"
      proof (rule tracing_seq [where R = "\<lambda>_ _. True"])
        show "tracing P' (\<lambda>_. True) (send_gesture D g) (\<lambda>_ _. True)"
          by (auto simp: tracing_defs split: prod.splits sum.splits)
        show "tracing (\<lambda>_. True) (\<lambda>_. True) (seq (settle_for D settle) (\<lambda>_. seq (observe D) (\<lambda>after.
          seq (lift_result (require_continuity o' after)) (\<lambda>_. ret after)))) (\<lambda>after tr. \<exists>rest. tr = Observed after # rest)"
          by (intro tracing_silent tracing_observe tracing_lift tracing_ret silent_basic) auto
      qed
    qed simp
    then show ?thesis unfolding click_target_def Some option.case by (intro tracing_silent silent_basic) auto
  qed
  show ?thesis
    unfolding pause_after_interval_def
    by (intro tracing_observe tracing_lift tracing_if tracing_ret tracing_find tracing_seq [OF click] tracing_throw)
      (auto simp: seen_paused_def)
qed

lemma silent_finish [simp]: "silent (finish_advance D seconds plan o' n)"
  unfolding finish_advance_def Let_def
  by (intro silent_seq silent_basic silent_append_event silent_make_result)

lemma run_interval_paused: "tracing P (\<lambda>_. True) (run_interval D seconds plan o' n) (\<lambda>_. seen_paused)"
proof -
  have post: "tracing seen_paused (\<lambda>_. True) (finish_advance D seconds plan p k) (\<lambda>_. seen_paused)" for p k
    using silent_finish [of D seconds plan p k] unfolding tracing_def silent_def by (intro tripleI) (metis snd_conv)+
  show ?thesis
    unfolding run_interval_def
    by (intro tracing_find tracing_click tracing_if tracing_throw tracing_seq [OF finally_keeps [OF pause_ends_paused]])
      (auto intro: post split: prod.split)
qed

text \<open>
  C16. Advancing ends paused. If \<open>advance_training\<close> returns a result, then either it sent no input at all, or the last thing
  it did with the desktop was to observe the game paused, whatever happened while time ran.
\<close>

theorem advance_ends_paused:
  assumes "advance_training D seconds dry_run plan w = (ok r, w')" and "ow_trace w = []"
  shows "sends_nothing (ow_trace w') \<or> seen_paused (ow_trace w')"
proof -
  let ?R = "\<lambda>tr. sends_nothing tr \<or> seen_paused tr"
  let ?Q = "\<lambda>tr. sends_nothing tr"
  have calm: "tracing ?Q (\<lambda>_. True) m (\<lambda>_. ?R)" if "silent m" for m :: "('a, training_store, training_result) operation"
    using that unfolding tracing_def silent_def by (intro tripleI) (metis snd_conv)+
  have go: "tracing P (\<lambda>_. True) (run_interval D seconds v o' n) (\<lambda>_. ?R)" for P v o' n
    by (rule tracing_post [OF run_interval_paused]) simp
  have windows: "tracing ?Q (\<lambda>_. True) (close_windows D dry_run v o')
      (\<lambda>c tr. case c of Inl _ \<Rightarrow> sends_nothing tr | Inr _ \<Rightarrow> dry_run \<longrightarrow> sends_nothing tr)" for v o'
  proof (cases "dry_run \<or> ui_scene o' = GameplayPaused")
    case True
    have "silent (close_windows D dry_run v o')"
      using True unfolding close_windows_def by (auto intro!: silent_seq)
    then show ?thesis unfolding tracing_def silent_def by (intro tripleI) (auto split: sum.splits, metis snd_conv, metis snd_conv)
  next
    case False
    then have "case r of Inl _ \<Rightarrow> False | Inr _ \<Rightarrow> True" if "close_windows D dry_run v o' w = (ok r, w')" for r w w'
      using that by (auto simp: close_windows_def seq_ok throw_def ret_def split: if_split_asm)
    then show ?thesis
      using False unfolding tracing_def by (intro tripleI) (fastforce split: sum.splits)+
  qed
  have "tracing (\<lambda>tr. tr = []) (\<lambda>_. True) (advance_training D seconds dry_run plan) (\<lambda>_. ?R)"
    unfolding advance_training_def
  proof (intro tracing_if tracing_throw tracing_observe tracing_lift tracing_basic)
    fix o' i asked time current
    let ?P = "\<lambda>tr. \<exists>rest. tr = Observed o' # rest \<and> rest = []"
    have P: "\<And>tr. ?P tr \<Longrightarrow> ?Q tr" by (auto simp: sends_nothing_def)
    show "tracing ?P (\<lambda>_. True) (make_result D current None 0 True False m) (\<lambda>_. ?R)" for m
      by (rule tracing_pre [OF calm P]) simp_all
    show "tracing ?P (\<lambda>_. True) (case tw_approval current of None \<Rightarrow> throw (ControlFailed ''AssertionError'')
        | Some a \<Rightarrow> make_result D current None 0 True True (msg a)) (\<lambda>_. ?R)" for msg
      by (rule tracing_pre [OF calm P]) (auto split: option.split)
    show "tracing ?P (\<lambda>_. True) (seq (close_windows D dry_run current o') (\<lambda>closed. case closed of Inl r \<Rightarrow> ret r
        | Inr (before, gestures) \<Rightarrow> if dry_run then make_result D current None gestures False True msg
            else run_interval D seconds current before gestures)) (\<lambda>_. ?R)" for msg
    proof (rule tracing_pre [OF tracing_seq [OF windows] P])
      fix c
      show "tracing (\<lambda>tr. case c of Inl _ \<Rightarrow> sends_nothing tr | Inr _ \<Rightarrow> dry_run \<longrightarrow> sends_nothing tr) (\<lambda>_. True)
        (case c of Inl r \<Rightarrow> ret r | Inr (before, gestures) \<Rightarrow>
          if dry_run then make_result D current None gestures False True msg
          else run_interval D seconds current before gestures) (\<lambda>_. ?R)"
        by (auto split: sum.split intro: calm go tracing_ret)
    qed
  qed simp_all
  from triple_returns [OF this [unfolded tracing_def] _ assms(1)] assms(2) show ?thesis by simp
qed

definition active_plan :: training_workflow where
  "active_plan = waiting_plan\<lparr>tw_approval := Some (sample_approval (Some True)), tw_status := Active\<rparr>"

lemma active_sync:
  assumes "1 < m"
  shows "\<exists>v. synchronize_training 9 10 10 active_plan (school m 0 600 q ''Designer:System'') = ok v \<and>
    tw_status v = Active \<and> tw_employee v = ''e1'' \<and> tw_id v = 5"
  using assms
  by (simp add: synchronize_training_def same_save_def active_plan_def waiting_plan_def school_save [of m] school_ada
    training_progress_def active_course Let_def)

lemma paused_school: "is_paused (seen_as sc ts (school m l k q r))"
  by (simp add: is_paused_def school_def jget_def)

lemma day_actionable:
  "sc \<notin> {UnknownScene, BlockingModal} \<Longrightarrow> require_actionable ''education'' (seen_as sc ts s) = ok ()"
  by (simp add: require_actionable_def)

lemma advance_ends_paused_witness:
  "\<exists>r w'. advance_training scripted 10 True active_plan
      \<lparr>ow_desktop = [ok (seen_as GameplayPaused [] (school 2 0 600 60000 ''Designer:System''))],
       ow_store = \<lparr>ts_workflows = [(5, active_plan)], ts_events = []\<rparr>, ow_trace = []\<rparr> = (ok r, w') \<and>
     (sends_nothing (ow_trace w') \<or> seen_paused (ow_trace w'))"
proof -
  let ?w = "\<lparr>ow_desktop = [ok (seen_as GameplayPaused [] (school 2 0 600 60000 ''Designer:System''))],
       ow_store = \<lparr>ts_workflows = [(5, active_plan)], ts_events = []\<rparr>, ow_trace = []\<rparr> ::
       ((ui_exn, ui_observation) result list, training_store) operating"
  obtain v where v: "synchronize_training 9 10 10 active_plan (school 2 0 600 60000 ''Designer:System'') = ok v"
    "tw_status v = Active" "tw_employee v = ''e1''" using active_sync [of 2] by auto
  have "float_1f 10 = ''10.0''" by code_simp
  then have "\<exists>r w'. advance_training scripted 10 True active_plan ?w = (ok r, w')"
    by (simp add: advance_training_def prog_defs day_actionable v observed_employee_def school_ada active_course
      close_windows_def make_result_def bounded_text_def)
  then obtain r w' where run: "advance_training scripted 10 True active_plan ?w = (ok r, w')" by blast
  from advance_ends_paused [OF run] run show ?thesis by auto
qed

section \<open>Where the code falls short\<close>



text \<open>
  The reserve is not checked again at the commitment: the plan requires 50,000 to stay, the first look finds 60,000, the
  observation right before the click 50,100, and the course for 600 is bought and reported as verified with 49,500 left.
\<close>

theorem reserve_not_rechecked:
  "\<exists>r w' v g rest o'. start_training scripted plain_naming None True False (Some waiting_plan) education_day = (ok r, w') \<and>
    rs_verified r \<and> rs_workflow r = Some v \<and> tw_reserve v = 50000 \<and> ge_target g = ''commit_education'' \<and>
    ow_trace w' = Observed o' # Sent g # rest \<and> current_cash (ui_after o') = ok 49500"
  using day_run by blast

text \<open>
  A course that was never approved is credited. The workflow waits for its first approval; the player starts the course
  in the game, and it ends: the workflow counts it as completed and asks for the second one. Nobody decided on the first,
  and nothing is recorded as spent.
\<close>

theorem unapproved_course_credited:
  "\<exists>w1 w2 a. synchronize_training 8 3 3 waiting_plan (school 3 0 600 60000 ''Designer:System'') = ok w1 \<and>
     tw_approval w1 = tw_approval waiting_plan \<and> tw_approval waiting_plan = Some a \<and> ta_approved a = None \<and>
     synchronize_training 9 4 4 w1 (school 4 1 2000 60000 []) = ok w2 \<and>
     tw_completed w2 = 1 \<and> tw_status w2 = WaitingForApproval \<and> tw_actual w2 = 0"
proof -
  obtain w1 where w1: "synchronize_training 8 3 3 waiting_plan (school 3 0 600 60000 ''Designer:System'') = ok w1"
      "tw_approval w1 = tw_approval waiting_plan" "tw_status w1 = Active" "tw_completed w1 = 0" "tw_initial_level w1 = 0"
      "tw_session w1 = ''s''" "tw_save w1 = tw_save waiting_plan" "tw_sequence w1 = 3" "tw_employee w1 = ''e1''"
      "tw_reserve w1 = 50000" "tw_payroll w1 = 12000" "tw_actual w1 = 0" "tw_name w1 = ''Ada''"
    by (simp add: synchronize_training_def same_save_def waiting_plan_def school_save [of 3] school_ada
      training_progress_def active_course Let_def)
  have "dsub 60000 2000 = 58000" "dec 4000 = 4000"
    using dec_of_int [of 58000] dec_of_int [of 4000] by (simp_all add: dsub_def)
  moreover have "money_text 2000 = ''2,000.00''" "money_text 4000 = ''4,000.00''" "money_text 58000 = ''58,000.00''"
    "money_text 50000 = ''50,000.00''" "int_text 2 = ''2''" "int_text 1 = ''1''" "str_repr ''Ada'' = [CHR 0x27] @ ''Ada'' @ [CHR 0x27]"
    by code_simp+
  ultimately have "\<exists>b. next_stage_approval 9 4 w1 1 2000 60000 2 = ok b"
    using w1 by (simp add: next_stage_approval_def make_approval_def bounded_text_def next_summary_def requested_months_def Let_def)
  then obtain b where b: "next_stage_approval 9 4 w1 1 2000 60000 2 = ok b" by blast
  have "\<exists>w2. synchronize_training 9 4 4 w1 (school 4 1 2000 60000 []) = ok w2 \<and> tw_completed w2 = 1 \<and>
      tw_status w2 = WaitingForApproval \<and> tw_actual w2 = 0"
    using w1 b
    by (simp add: synchronize_training_def same_save_def waiting_plan_def school_save [of 4] school_ada school_cash
      training_progress_def active_course target_level_def ada_def Let_def course_active_def)
  with w1 show ?thesis by (auto simp: plan_approvals sample_approval_def)
qed

text \<open>
  The pause is only guaranteed once the game has been seen running. If the observation after the resume click fails, the
  failure is raised at once: resuming is the last input that was sent, and the game is left running.
\<close>

theorem failed_look_leaves_running:
  "\<exists>w' g rest. advance_training scripted 10 False active_plan
      \<lparr>ow_desktop = [ok (seen_as GameplayPaused [''resume_button''] (school 2 0 600 60000 ''Designer:System'')),
         raise (UIObservationError ''lost'')],
       ow_store = \<lparr>ts_workflows = [(5, active_plan)], ts_events = []\<rparr>, ow_trace = []\<rparr> =
     (Inl (UIObservationError ''lost''), w') \<and>
     ow_trace w' = Sent g # rest \<and> ge_target g = ''resume_button''"
proof -
  obtain v where v: "synchronize_training 9 10 10 active_plan (school 2 0 600 60000 ''Designer:System'') = ok v"
    "tw_status v = Active" "tw_employee v = ''e1''" using active_sync [of 2] by auto
  have shape: "valid_gesture ((bound_gesture (seen_as GameplayPaused ts s) ''resume_button''
      ''resume bounded education time'' 10)\<lparr>ge_point := Some p\<rparr>)" for s p ts
    by (simp add: valid_gesture_def bound_gesture_def Let_def seen_as_def sample_frame_def within_opt_def bounded_opt_def
      bounded_text_def gesture_shape_def)
  show ?thesis
    by (simp add: advance_training_def prog_defs day_actionable v observed_employee_def school_ada active_course
      close_windows_def run_interval_def perform_gesture_def shape bounded_text_def) (simp add: bound_gesture_def Let_def)
qed

end
