(* ===== verification/OperatorInvariants.thy ===== *)
theory OperatorInvariants
  imports InteractionTrace
begin

text \<open>
  Invariants of the operators of ScreenControl. \<open>stays Q m\<close>: \<open>m\<close> never leaves \<open>Q\<close>, whether it returns or raises. The
  locale \<open>permitted\<close> is the interface of an invariant on the trace that allows observations, questions, and input to some
  targets; it gives one rule per operation, from which the invariance of a whole operator follows by going through it.
\<close>

section \<open>Invariants of operations\<close>

definition stays :: "(('u, 's) operating \<Rightarrow> bool) \<Rightarrow> ('u, 's, 'a) operation \<Rightarrow> bool" where
  "stays Q m \<longleftrightarrow> (\<forall>w. Q w \<longrightarrow> Q (snd (m w)))"

named_theorems stays_rules "one rule per combinator and operation"

lemma staysD: "stays Q m \<Longrightarrow> Q w \<Longrightarrow> m w = (r, w') \<Longrightarrow> Q w'"
  by (auto simp: stays_def)

lemma stays_seq [stays_rules]: "stays Q m \<Longrightarrow> (\<And>a. stays Q (f a)) \<Longrightarrow> stays Q (seq m f)"
  by (auto simp: stays_def seq_def split: prod.splits sum.splits)

lemma stays_if [stays_rules]: "(b \<Longrightarrow> stays Q m) \<Longrightarrow> (\<not> b \<Longrightarrow> stays Q m') \<Longrightarrow> stays Q (if b then m else m')"
  by simp

lemma stays_cases [stays_rules]:
  "(x = None \<Longrightarrow> stays Q m) \<Longrightarrow> (\<And>a. x = Some a \<Longrightarrow> stays Q (f a)) \<Longrightarrow> stays Q (case x of None \<Rightarrow> m | Some a \<Rightarrow> f a)"
  "(\<And>l. y = Inl l \<Longrightarrow> stays Q (g l)) \<Longrightarrow> (\<And>r. y = Inr r \<Longrightarrow> stays Q (h r)) \<Longrightarrow> stays Q (case y of Inl l \<Rightarrow> g l | Inr r \<Rightarrow> h r)"
  "(\<And>a b. p = (a, b) \<Longrightarrow> stays Q (k a b)) \<Longrightarrow> stays Q (case p of (a, b) \<Rightarrow> k a b)"
  by (auto split: option.split sum.split prod.split)

lemma stays_basic [stays_rules]:
  "stays Q (gets f)" "stays Q (ret a)" "stays Q (throw e)" "stays Q (lift_result r)"
  by (simp_all add: stays_def prog_defs)

lemma stays_lift [stays_rules]:
  "(\<And>a. r = ok a \<Longrightarrow> stays Q (f a)) \<Longrightarrow> stays Q (seq (lift_result r) f)"
  by (cases r) (simp_all add: stays_def prog_defs)

text \<open>\<open>gives Q m R\<close>: moreover a value that \<open>m\<close> returns is in \<open>R\<close>.\<close>

definition gives :: "(('u, 's) operating \<Rightarrow> bool) \<Rightarrow> ('u, 's, 'a) operation \<Rightarrow> ('a \<Rightarrow> bool) \<Rightarrow> bool" where
  "gives Q m R \<longleftrightarrow> stays Q m \<and> (\<forall>w a w'. m w = (ok a, w') \<longrightarrow> R a)"

lemma stays_gives: "gives Q m R \<Longrightarrow> (\<And>a. R a \<Longrightarrow> stays Q (f a)) \<Longrightarrow> stays Q (seq m f)"
  by (fastforce simp: gives_def stays_def seq_def split: prod.splits sum.splits)

lemma gives_seq:
  assumes "gives Q m R" and "\<And>a. R a \<Longrightarrow> gives Q (f a) R'"
  shows "gives Q (seq m f) R'"
proof -
  have "stays Q (seq m f)" using assms by (intro stays_gives [of Q m R]) (auto simp: gives_def)
  moreover have "R' b" if "seq m f w = (ok b, w')" for b w w'
    using that assms unfolding gives_def seq_ok by blast
  ultimately show ?thesis by (simp add: gives_def)
qed

lemma gives_any: "stays Q m \<Longrightarrow> (\<And>w a w'. m w = (ok a, w') \<Longrightarrow> R a) \<Longrightarrow> gives Q m R"
  by (simp add: gives_def)

lemma gives_stays_seq: "stays Q m \<Longrightarrow> (\<And>a. gives Q (f a) R) \<Longrightarrow> gives Q (seq m f) R"
  by (rule gives_seq [of Q m "\<lambda>_. True"]) (simp_all add: gives_def)

lemma gives_ret: "R a \<Longrightarrow> gives Q (ret a) R"
  by (simp add: gives_def stays_basic) (simp add: ret_def)

lemma gives_throw: "gives Q (throw e) R"
  by (simp add: gives_def stays_basic) (simp add: throw_def)

lemma gives_if: "(b \<Longrightarrow> gives Q m R) \<Longrightarrow> (\<not> b \<Longrightarrow> gives Q m' R) \<Longrightarrow> gives Q (if b then m else m') R"
  by simp

text \<open>An operation that leaves no trace keeps every invariant of the trace.\<close>

lemma stays_silent: "silent m \<Longrightarrow> stays (\<lambda>w. P (ow_trace w)) m"
  by (simp add: stays_def silent_def)

lemma stays_from_empty: "stays (\<lambda>w. P (ow_trace w)) m \<Longrightarrow> P [] \<Longrightarrow> P (ow_trace (snd (m (w\<lparr>ow_trace := []\<rparr>))))"
  by (simp add: stays_def)

text \<open>What follows an operation, pushed into its branches\<close>

lemma seq_assoc: "seq (seq m g) f = seq m (\<lambda>a. seq (g a) f)"
  by (rule ext) (auto simp: seq_def split: prod.splits sum.splits)

lemma seq_ends: "seq (ret a) f = f a" "seq (throw e) f = throw e"
  by (rule ext, simp add: seq_def ret_def throw_def)+

lemma seq_branches:
  "seq (if b then m else m') f = (if b then seq m f else seq m' f)"
  "seq (case x of None \<Rightarrow> m | Some a \<Rightarrow> g a) f = (case x of None \<Rightarrow> seq m f | Some a \<Rightarrow> seq (g a) f)"
  "seq (case p of (a, b) \<Rightarrow> k a b) f = (case p of (a, b) \<Rightarrow> seq (k a b) f)"
  by (auto split: option.split prod.split)

lemmas seq_push = seq_assoc seq_ends seq_branches

section \<open>Invariants of the trace\<close>

locale permitted =
  fixes P :: "interaction list \<Rightarrow> bool" and free :: "string \<Rightarrow> bool"
  assumes observed: "P tr \<Longrightarrow> P (Observed o' # tr)"
    and asked: "P tr \<Longrightarrow> P (Asked i b # tr)"
    and sent: "P tr \<Longrightarrow> free (ge_target g) \<Longrightarrow> P (Sent g # tr)"
begin

abbreviation holds :: "('u, 's) operating \<Rightarrow> bool" where
  "holds w \<equiv> P (ow_trace w)"

lemma look: "stays holds (observe D)"
  using observed by (auto simp: stays_def observe_def on_desktop_def split: prod.splits sum.splits)

lemma question: "stays holds (ask D i)"
  using asked by (auto simp: stays_def ask_def on_desktop_def split: prod.splits sum.splits)

lemma calm:
  "stays holds (read_clock D)" "stays holds (uuid4 D)" "stays holds (settle_for D seconds)"
  "stays holds (keep_foreground D)" "stays holds (on_store f)" "stays holds (find_target D subject o' i)"
  by (simp_all add: stays_silent)

lemma send: "free (ge_target g) \<Longrightarrow> stays holds (send_gesture D g)"
  using sent by (auto simp: stays_def send_gesture_def on_desktop_def split: prod.splits sum.splits)

lemma perform: "free (ge_target g) \<Longrightarrow> stays holds (perform_gesture D settle o' g)"
  unfolding perform_gesture_def by (intro stays_rules look calm send)

lemma click: "free (vt_id t) \<Longrightarrow> stays holds (click_target D settle o' t effect)"
  unfolding click_target_def
  by (intro stays_rules calm perform) (simp add: bound_gesture_def Let_def)

text \<open>A target that is found has the name it was looked up by.\<close>

lemma found: "(\<And>t. vt_id t = i \<Longrightarrow> stays holds (f t)) \<Longrightarrow> stays holds (seq (find_target D subject o' i) f)"
proof -
  assume f: "\<And>t. vt_id t = i \<Longrightarrow> stays holds (f t)"
  have "holds (snd (seq (find_target D subject o' i) f w))" if w: "holds w" for w
  proof (cases "find_target D subject o' i w")
    case (Pair r w')
    have w': "holds w'" using staysD [OF calm(6) w Pair] .
    show ?thesis
    proof (cases r)
      case (Inr t)
      with find_target_id Pair have "vt_id t = i" by fastforce
      from f [OF this] w' show ?thesis by (simp add: seq_def Pair Inr stays_def)
    qed (simp add: seq_def Pair w')
  qed
  then show ?thesis by (simp add: stays_def)
qed

lemmas rules = found stays_seq stays_if stays_cases stays_basic look question calm click

end

text \<open>Nothing is sent.\<close>

lemma sends_nothing_simps [simp]:
  "sends_nothing []" "sends_nothing (Sent g # tr) \<longleftrightarrow> False" "sends_nothing (Observed o' # tr) \<longleftrightarrow> sends_nothing tr"
  "sends_nothing (Asked i b # tr) \<longleftrightarrow> sends_nothing tr"
  by (auto simp: sends_nothing_def)

interpretation hands_off: permitted sends_nothing "\<lambda>_. False"
  by unfold_locales simp_all

text \<open>Input, except to some free targets, is only sent after a yes.\<close>

definition said_yes :: "interaction list \<Rightarrow> bool" where
  "said_yes tr \<longleftrightarrow> (\<exists>i. Asked i True \<in> set tr)"

definition follows_approval :: "(string \<Rightarrow> bool) \<Rightarrow> interaction list \<Rightarrow> bool" where
  "follows_approval free tr \<longleftrightarrow> (\<forall>pre g rest. tr = pre @ Sent g # rest \<longrightarrow> free (ge_target g) \<or> said_yes rest)"

lemma said_yes_simps [simp]:
  "said_yes [] \<longleftrightarrow> False" "said_yes (Asked i b # tr) \<longleftrightarrow> b \<or> said_yes tr" "said_yes (Sent g # tr) \<longleftrightarrow> said_yes tr"
  "said_yes (Observed o' # tr) \<longleftrightarrow> said_yes tr"
  by (auto simp: said_yes_def)

lemma follows_approval_simps [simp]:
  "follows_approval free []"
  "follows_approval free (Sent g # tr) \<longleftrightarrow> (free (ge_target g) \<or> said_yes tr) \<and> follows_approval free tr"
  "follows_approval free (Observed o' # tr) \<longleftrightarrow> follows_approval free tr"
  "follows_approval free (Asked i b # tr) \<longleftrightarrow> follows_approval free tr"
  by (auto simp: follows_approval_def Cons_eq_append_conv)

interpretation before_yes: permitted "follows_approval free" free for free
  by unfold_locales simp_all

interpretation after_yes: permitted "\<lambda>tr. follows_approval free tr \<and> said_yes tr" "\<lambda>_. True" for free
  by unfold_locales simp_all

abbreviation unasked :: "(string \<Rightarrow> bool) \<Rightarrow> ('u, 's) operating \<Rightarrow> bool" where
  "unasked free w \<equiv> follows_approval free (ow_trace w)"

abbreviation approved :: "(string \<Rightarrow> bool) \<Rightarrow> ('u, 's) operating \<Rightarrow> bool" where
  "approved free w \<equiv> follows_approval free (ow_trace w) \<and> said_yes (ow_trace w)"

text \<open>After a yes every target is free; after a no only the free ones are.\<close>

lemma ask_switch:
  assumes yes: "stays (approved free) (f True)" and no: "stays (unasked free) (f False)"
  shows "stays (unasked free) (seq (ask D i) f)"
proof -
  have "unasked free (snd (seq (ask D i) f w))" if w: "unasked free w" for w
  proof (cases "ask D i w")
    case (Pair r w')
    show ?thesis
    proof (cases r)
      case (Inl e)
      then show ?thesis using staysD [OF before_yes.question w Pair] by (simp add: seq_def Pair)
    next
      case (Inr b)
      then have "ow_trace w' = Asked i b # ow_trace w"
        using Pair by (auto simp: ask_def on_desktop_def split: prod.splits sum.splits)
      with w yes no show ?thesis by (cases b) (simp_all add: seq_def Pair Inr stays_def)
    qed
  qed
  then show ?thesis by (simp add: stays_def)
qed

end
