(* ===== verification/WorkflowRows.thy ===== *)
theory WorkflowRows
  imports OperatorInvariants
begin

text \<open>
  The rows that the stores of workflows keep: one per workflow, and at most one open workflow per game session and save;
  and what the operations of the desktop do to a store, as an interface that every store of an operator gives.
\<close>

section \<open>Rows\<close>

definition rows_ok :: "('w \<Rightarrow> uuid) \<Rightarrow> ('w \<Rightarrow> bool) \<Rightarrow> ('w \<Rightarrow> 'p) \<Rightarrow> (uuid \<times> 'w) list \<Rightarrow> bool" where
  "rows_ok key opened place rows \<longleftrightarrow> distinct (map fst rows) \<and> (\<forall>(i, v) \<in> set rows. key v = i) \<and>
     (\<forall>(i, v) \<in> set rows. \<forall>(j, u) \<in> set rows. opened v \<and> opened u \<and> place v = place u \<longrightarrow> i = j)"

lemma rows_one_open:
  assumes "rows_ok key opened place rows" and "(i, v) \<in> set rows" and "(j, u) \<in> set rows"
    and "opened v" and "opened u" and "place v = place u"
  shows "i = j"
proof -
  have "\<forall>p \<in> set rows. \<forall>q \<in> set rows. opened (snd p) \<and> opened (snd q) \<and> place (snd p) = place (snd q) \<longrightarrow> fst p = fst q"
    using assms(1) unfolding rows_ok_def case_prod_unfold by (elim conjE) assumption
  from bspec [OF bspec [OF this assms(2)] assms(3)] assms(4-) show ?thesis by simp
qed

lemma rows_update:
  assumes ok: "rows_ok key opened place rows"
    and free: "\<And>j u. opened w \<Longrightarrow> (j, u) \<in> set rows \<Longrightarrow> opened u \<Longrightarrow> place u = place w \<Longrightarrow> j = key w"
  shows "rows_ok key opened place (AList.update (key w) w rows)"
proof -
  let ?rows = "AList.update (key w) w rows"
  from ok have distinct: "distinct (map fst rows)" and keys: "\<And>i v. (i, v) \<in> set rows \<Longrightarrow> key v = i"
    unfolding rows_ok_def by blast+
  have row: "(i, v) \<in> set ?rows \<longleftrightarrow> (i = key w \<and> v = w) \<or> (i \<noteq> key w \<and> (i, v) \<in> set rows)" for i v
  proof -
    have "(i, v) \<in> set ?rows \<longleftrightarrow> map_of ?rows i = Some v"
      by (simp add: map_of_eq_Some_iff distinct_update distinct)
    also have "\<dots> \<longleftrightarrow> (if i = key w then v = w else map_of rows i = Some v)" by (auto simp: update_conv')
    finally show ?thesis using distinct by (auto simp: map_of_eq_Some_iff)
  qed
  have "i = j" if "(i, v) \<in> set ?rows" "(j, u) \<in> set ?rows" "opened v" "opened u" "place v = place u" for i v j u
  proof -
    from that(1,2) consider "i = key w" "j = key w" | "i = key w" "v = w" "(j, u) \<in> set rows"
        | "j = key w" "u = w" "(i, v) \<in> set rows" | "(i, v) \<in> set rows" "(j, u) \<in> set rows"
      by (auto simp: row)
    then show ?thesis
    proof cases
      case 2
      then show ?thesis using free [of j u] that(3-) by simp
    next
      case 3
      then show ?thesis using free [of i v] that(3-) by simp
    next
      case 4
      then show ?thesis using rows_one_open [OF ok] that(3-) by blast
    qed simp
  qed
  moreover have "key v = i" if "(i, v) \<in> set ?rows" for i v using that keys by (auto simp: row)
  moreover have "distinct (map fst ?rows)" by (simp add: distinct_update distinct)
  ultimately show ?thesis unfolding rows_ok_def by blast
qed

text \<open>The look-up of the open workflow of a place finds at most one.\<close>

lemma rows_lookup:
  assumes "rows_ok key opened place rows"
  shows "length (filter (\<lambda>v. opened v \<and> place v = p) (map snd rows)) \<le> 1"
proof (rule ccontr)
  let ?own = "filter (\<lambda>r. opened (snd r) \<and> place (snd r) = p) rows"
  assume "\<not> ?thesis"
  then have "\<not> length ?own \<le> 1" by (simp add: filter_map comp_def)
  then obtain r q rs where two: "?own = r # q # rs"
    by (cases ?own rule: remdups_adj.cases) auto
  have members: "r \<in> set ?own" "q \<in> set ?own" unfolding two by simp_all
  then have "(fst r, snd r) \<in> set rows" "(fst q, snd q) \<in> set rows" by simp_all
  from rows_one_open [OF assms this] members have "fst r = fst q" by simp
  moreover have "distinct (map fst (r # q # rs))"
  proof -
    have "distinct (map fst rows)" using assms unfolding rows_ok_def by (elim conjE) assumption
    then show ?thesis by (subst two [symmetric]) (rule distinct_map_filter)
  qed
  ultimately show False by simp
qed

section \<open>Operations and the store\<close>

locale workflow_store =
  fixes sound :: "'s \<Rightarrow> bool" and put :: "'w \<Rightarrow> 's \<Rightarrow> (ui_exn, 's) result"
  assumes put: "sound st \<Longrightarrow> put w st = ok st' \<Longrightarrow> sound st'"
begin

abbreviation keeps :: "('u, 's, 'a) operation \<Rightarrow> bool" where
  "keeps m \<equiv> stays (\<lambda>w. sound (ow_store w)) m"

lemma desktop:
  "keeps (observe D)" "keeps (ask D i)" "keeps (send_gesture D g)" "keeps (read_clock D)" "keeps (uuid4 D)"
  "keeps (settle_for D seconds)" "keeps (keep_foreground D)" "keeps (gets f)"
  by (auto simp: stays_def observe_def ask_def send_gesture_def read_clock_def uuid4_def settle_for_def keep_foreground_def
    on_desktop_def prog_defs split: prod.splits sum.splits)

lemma save: "keeps (on_store (put w))"
  by (auto simp: stays_def on_store_def split: sum.splits intro: put)

lemmas base = stays_rules desktop save

lemma clicks:
  "keeps (find_target D subject o' i)" "keeps (perform_gesture D settle o' g)" "keeps (click_target D settle o' t effect)"
  "keeps (escape_key D settle o' effect)"
  unfolding find_target_def perform_gesture_def click_target_def escape_key_def by (intro base)+

lemma after_all: "keeps m \<Longrightarrow> keeps c \<Longrightarrow> keeps (finally_do m c)"
  by (auto simp: stays_def finally_do_def split: prod.splits sum.splits)

lemmas rules = base clicks after_all

end

text \<open>A store that also takes events\<close>

locale event_store = workflow_store sound put
  for sound :: "'s \<Rightarrow> bool" and put :: "'w \<Rightarrow> 's \<Rightarrow> (ui_exn, 's) result" +
  fixes add :: "'e \<Rightarrow> 's \<Rightarrow> (ui_exn, 's) result"
  assumes add: "sound st \<Longrightarrow> add e st = ok st' \<Longrightarrow> sound st'"
begin

lemma event: "keeps (on_store (add e))"
  by (auto simp: stays_def on_store_def split: sum.splits intro: add)

end

end
