(* ===== verification/TrainingStore.thy ===== *)
theory TrainingStore
  imports TrainingSafety WorkflowRows
begin

text \<open>
  The store of education workflows: what a sound store is, that the two operations of the operator keep it sound, and that
  the look-up of the open workflow then never fails.
\<close>

section \<open>The store\<close>

text \<open>
  Every row has its own key, a save has at most one open workflow, and the events of a workflow are numbered from one
  without gaps, in the order they were added.
\<close>

definition training_store_ok :: "training_store \<Rightarrow> bool" where
  "training_store_ok st \<longleftrightarrow> rows_ok tw_id is_open (\<lambda>v. (tw_session v, tw_save v)) (ts_workflows st) \<and>
     (\<forall>i. map te_sequence (filter (\<lambda>e. te_workflow e = i) (ts_events st)) =
        map int [1..<Suc (length (filter (\<lambda>e. te_workflow e = i) (ts_events st)))])"

lemma save_workflow_ok:
  assumes "training_store_ok st" and "save_workflow w st = ok st'"
  shows "training_store_ok st'"
proof -
  from assms(2) have st': "st' = st\<lparr>ts_workflows := AList.update (tw_id w) w (ts_workflows st)\<rparr>"
    and free: "is_open w \<Longrightarrow> (j, u) \<in> set (ts_workflows st) \<Longrightarrow> owns_save (tw_session w) (tw_save w) u \<Longrightarrow> j = tw_id w" for j u
    by (auto simp: save_workflow_def split: if_split_asm)
  have "rows_ok tw_id is_open (\<lambda>v. (tw_session v, tw_save v)) (AList.update (tw_id w) w (ts_workflows st))"
    using assms(1) free by (intro rows_update) (auto simp: training_store_ok_def owns_save_def)
  then show ?thesis using assms(1) by (simp add: training_store_ok_def st')
qed

interpretation training_rows: workflow_store training_store_ok save_workflow
  by unfold_locales (rule save_workflow_ok)

abbreviation store_keeps :: "('u, 'a) training_operation \<Rightarrow> bool" where
  "store_keeps \<equiv> training_rows.keeps"

lemma sorted_events:
  assumes "training_store_ok st"
  shows "workflow_events i st = filter (\<lambda>e. te_workflow e = i) (ts_events st)"
proof -
  let ?es = "filter (\<lambda>e. te_workflow e = i) (ts_events st)"
  have "map te_sequence ?es = map int [1..<Suc (length ?es)]" using assms by (simp add: training_store_ok_def)
  moreover have "sorted (map int [1..<Suc (length ?es)])" by (simp add: sorted_iff_nth_mono del: upt_Suc)
  ultimately have "sorted (map te_sequence ?es)" by metis
  then show ?thesis by (simp add: workflow_events_def sort_key_id_if_sorted)
qed

lemma append_training_event_ok:
  assumes "training_store_ok st" and "append_training_event e st = ok st'"
    and "te_sequence e = int (length (workflow_events (te_workflow e) st)) + 1"
  shows "training_store_ok st'"
proof -
  have st': "st' = st\<lparr>ts_events := ts_events st @ [e]\<rparr>"
    using assms(2) by (auto simp: append_training_event_def split: if_split_asm)
  have "map te_sequence (filter (\<lambda>e. te_workflow e = i) (ts_events st @ [e])) =
      map int [1..<Suc (length (filter (\<lambda>e. te_workflow e = i) (ts_events st @ [e])))]" for i
    using assms(1,3) by (auto simp: training_store_ok_def sorted_events)
  then show ?thesis using assms(1) unfolding training_store_ok_def st' by simp
qed

named_theorems store_rules "operations that keep the store sound"

declare training_rows.rules [store_rules]

lemma store_append [store_rules]: "store_keeps (append_event D plan kind bridge action detail)"
proof -
  have "training_store_ok (ow_store w')"
    if ok: "training_store_ok (ow_store w)" and run: "append_event D plan kind bridge action detail w = (r, w')" for w r w'
  proof -
    obtain i u where i: "dt_uuid D (ow_desktop w) = (i, u)" by fastforce
    obtain t u' where t: "dt_now D u = (t, u')" by fastforce
    let ?e = "\<lparr>te_id = i, te_workflow = tw_id plan, te_sequence = int (length (workflow_events (tw_id plan) (ow_store w))) + 1,
      te_type = kind, te_bridge = bridge, te_action = Some action, te_input_sent = True, te_verified = True,
      te_detail = detail, te_recorded = t\<rparr>"
    have "ow_store w' = ow_store w \<or> append_training_event ?e (ow_store w) = ok (ow_store w')"
      using run
      by (auto simp: append_event_def prog_defs uuid4_def read_clock_def on_desktop_def i t on_store_def Let_def
        split: if_split_asm sum.split_asm)
    then show ?thesis using ok append_training_event_ok [OF ok, of ?e] by auto
  qed
  then show ?thesis unfolding stays_def by (metis prod.collapse)
qed

lemma store_result [store_rules]: "store_keeps (make_result D plan event n v p m)"
  unfolding make_result_def by (intro store_rules)

lemma store_commit [store_rules]: "store_keeps (commit_course D plan a o' n)"
  unfolding commit_course_def by (intro store_rules)

lemma store_approve [store_rules]: "store_keeps (approve_and_commit D provider dry_run plan o' n)"
  unfolding approve_and_commit_def by (cases "tw_approval plan"; simp only: option.case; intro store_rules)

lemma store_setup [store_rules]: "store_keeps (setup_course cycles D provider dry_run plan selecting o' n)"
proof (induction cycles arbitrary: selecting o' n)
  case 0
  show ?case by (simp add: store_rules)
next
  case (Suc cycles)
  show ?case
    unfolding setup_course.simps
  proof (intro store_rules)
    fix choice
    show "store_keeps (case choice of
        Press i effect selecting' \<Rightarrow> seq (find_target D ''education'' o' i) (\<lambda>t.
          if dry_run then make_result D plan None n False True (''Dry run: would '' @ effect @ ''.'')
          else seq (click_target D settle_seconds o' t effect) (\<lambda>after.
            setup_course cycles D provider dry_run plan selecting' after (n + 1)))
      | Commit \<Rightarrow> approve_and_commit D provider dry_run plan o' n)"
      by (cases choice; simp only: setup_choice.case; intro store_rules Suc.IH)
  qed
qed

lemma store_begin [store_rules]: "store_keeps (begin_plan D n r c o')"
  unfolding begin_plan_def require_recommendation_current_def Let_def
  by (auto split: option.split intro!: store_rules)

lemma store_start: "store_keeps (start_training D n recommendation provider dry_run existing)"
  unfolding start_training_def by (auto split: option.split prod.split intro!: store_rules)

lemma store_advance_parts [store_rules]:
  "store_keeps (pause_after_interval D)" "store_keeps (close_windows D dry_run plan o')"
  "store_keeps (finish_advance D seconds plan o' n)"
  unfolding pause_after_interval_def close_windows_def finish_advance_def Let_def by (intro store_rules)+

lemma store_interval [store_rules]: "store_keeps (run_interval D seconds plan o' n)"
  unfolding run_interval_def by (auto split: prod.split intro!: store_rules)

lemma store_advance: "store_keeps (advance_training D seconds dry_run plan)"
  unfolding advance_training_def by (auto split: option.split sum.split intro!: store_rules)

text \<open>
  C17. The store of education workflows stays sound under both operations, whatever the desktop does and wherever they fail:
  rows keep their keys, a save has at most one open workflow, and the events of a workflow are numbered from one without
  gaps. In a sound store the look-up of the open workflow of a save never fails.
\<close>

theorem training_store_sound:
  assumes "training_store_ok (ow_store w)"
  shows "training_store_ok (ow_store (snd (start_training D n recommendation provider dry_run existing w))) \<and>
    training_store_ok (ow_store (snd (advance_training D seconds dry_run plan w))) \<and>
    (\<exists>found. current_workflow session save (ow_store w) = ok found)"
proof -
  have "owns_save session save = (\<lambda>v. is_open v \<and> (tw_session v, tw_save v) = (session, save))"
    by (auto simp: owns_save_def)
  then obtain own where own: "filter (owns_save session save) (map snd (ts_workflows (ow_store w))) = own" and "length own \<le> 1"
    using assms rows_lookup [where p = "(session, save)"] unfolding training_store_ok_def by fastforce
  then have "\<exists>found. current_workflow session save (ow_store w) = ok found"
    unfolding current_workflow_def own by (auto split: list.split)
  with assms store_start store_advance show ?thesis unfolding stays_def by blast
qed

lemma training_store_sound_witness:
  "training_store_ok (ow_store (snd (start_training scripted plain_naming None True False (Some waiting_plan) education_day)))"
proof -
  have "training_store_ok (ow_store education_day)"
    by (simp add: training_store_ok_def rows_ok_def education_day_def waiting_plan_def)
  from training_store_sound [OF this] show ?thesis by blast
qed

end
