(* ===== verification/TextParsing.thy ===== *)
theory TextParsing
  imports JsonText
begin

text \<open>
  What the contract and product modules of Software Inc use of Python's strings: \<open>Decimal(text)\<close>, \<open>in\<close> on strings,
  \<open>" ".join(s.casefold().split())\<close>, \<open>split\<close> at a character, and the two regular expressions of the review cost.
\<close>

section \<open>Words and parts\<close>

fun occurs_in :: "string \<Rightarrow> string \<Rightarrow> bool" where
  "occurs_in p [] \<longleftrightarrow> p = []"
| "occurs_in p (c # s) \<longleftrightarrow> take (length p) (c # s) = p \<or> occurs_in p s"

definition starts_with :: "string \<Rightarrow> string \<Rightarrow> bool" where
  "starts_with p s \<longleftrightarrow> take (length p) s = p"

text \<open>\<open>s.split()\<close>: the words between white space\<close>

fun words_of :: "string \<Rightarrow> string \<Rightarrow> string list" where
  "words_of word [] = (if word = [] then [] else [rev word])"
| "words_of word (c # s) =
     (if is_space c then (if word = [] then [] else [rev word]) @ words_of [] s else words_of (c # word) s)"

definition fold_words :: "string \<Rightarrow> string" where
  "fold_words s = join '' '' (words_of [] (casefold s))"

text \<open>\<open>s.split(sep)\<close> without its empty parts\<close>

fun split_parts :: "char \<Rightarrow> string \<Rightarrow> string \<Rightarrow> string list" where
  "split_parts sep part [] = (if part = [] then [] else [rev part])"
| "split_parts sep part (c # s) =
     (if c = sep then (if part = [] then [] else [rev part]) @ split_parts sep [] s else split_parts sep (c # part) s)"

lemma split_bars_parts: "split_bars part s = split_parts CHR ''|'' part s"
  by (induction s arbitrary: part) auto

text \<open>\<open>s.rsplit(" ", 1)[-1]\<close>\<close>

definition last_word :: "string \<Rightarrow> string" where
  "last_word s = rev (takeWhile (\<lambda>c. c \<noteq> CHR '' '') (rev s))"

lemma occurs_in_iff: "occurs_in p s \<longleftrightarrow> (\<exists>a b. s = a @ p @ b)"
proof (induction s)
  case (Cons c s)
  have "take (length p) (c # s) = p \<longleftrightarrow> (\<exists>b. c # s = p @ b)"
    by (metis append_eq_conv_conj append_take_drop_id)
  moreover have "(\<exists>a b. c # s = a @ p @ b) \<longleftrightarrow> (\<exists>b. c # s = p @ b) \<or> (\<exists>a b. s = a @ p @ b)"
    by (auto simp: Cons_eq_append_conv)
  ultimately show ?case using Cons.IH by simp
qed simp

section \<open>Decimals\<close>

definition dec_digit :: "char \<Rightarrow> bool" where
  "dec_digit c \<longleftrightarrow> 48 \<le> (of_char c :: nat) \<and> (of_char c :: nat) \<le> 57"

definition digits_number :: "string \<Rightarrow> int" where
  "digits_number ds = foldl (\<lambda>n c. n * 10 + (of_char c - 48)) 0 ds"

datatype decimal_value = FiniteDecimal rat | NotFinite

definition special_decimal :: "string \<Rightarrow> bool" where
  "special_decimal s \<longleftrightarrow> s \<in> {''inf'', ''infinity''} \<or> starts_with ''nan'' s \<and> list_all dec_digit (drop 3 s) \<or>
     starts_with ''snan'' s \<and> list_all dec_digit (drop 4 s)"

definition exponent_of :: "string \<Rightarrow> int option" where
  "exponent_of s = (case s of
     [] \<Rightarrow> Some 0
   | e # t \<Rightarrow>
       (let ds = (case t of [] \<Rightarrow> [] | c # r \<Rightarrow> if c = CHR ''-'' \<or> c = CHR ''+'' then r else t) in
        if e \<noteq> CHR ''e'' \<or> ds = [] \<or> \<not> list_all dec_digit ds then None
        else Some (if hd t = CHR ''-'' then - digits_number ds else digits_number ds)))"

text \<open>\<open>Decimal(s)\<close>: \<open>None\<close> is \<open>InvalidOperation\<close>. White space around and underscores anywhere are dropped.\<close>

definition parse_decimal :: "string \<Rightarrow> decimal_value option" where
  "parse_decimal s =
     (let t = casefold (filter (\<lambda>c. c \<noteq> CHR ''_'') (strip s));
          signed = (t \<noteq> [] \<and> (hd t = CHR ''-'' \<or> hd t = CHR ''+''));
          u = (if signed then tl t else t);
          whole = takeWhile dec_digit u; r = dropWhile dec_digit u;
          dot = (r \<noteq> [] \<and> hd r = CHR ''.'');
          frac = (if dot then takeWhile dec_digit (tl r) else []);
          tail = (if dot then dropWhile dec_digit (tl r) else r)
      in if special_decimal u then Some NotFinite
         else if whole @ frac = [] then None
         else case exponent_of tail of
             None \<Rightarrow> None
           | Some e \<Rightarrow> (let x = of_int (digits_number (whole @ frac)) * 10 powi (e - int (length frac)) in
               Some (FiniteDecimal (if signed \<and> hd t = CHR ''-'' then - x else x))))"

section \<open>Dollar amounts\<close>

text \<open>A sign, digits with commas, and at most two digits of cents at the start of a text: the value without commas, and the rest\<close>

definition amount_digits :: "string \<Rightarrow> (string \<times> string) option" where
  "amount_digits s =
     (if s = [] \<or> \<not> dec_digit (hd s) then None
      else Some (takeWhile (\<lambda>c. dec_digit c \<or> c = CHR '','') s, dropWhile (\<lambda>c. dec_digit c \<or> c = CHR '','') s))"

definition plain_number :: "string \<Rightarrow> int" where
  "plain_number s = digits_number (filter (\<lambda>c. c \<noteq> CHR '','') s)"

definition amount_prefix :: "string \<Rightarrow> (rat \<times> string) option" where
  "amount_prefix s =
     (let neg = (s \<noteq> [] \<and> hd s = CHR ''-''); sign = (if neg then -1 else 1) in
      case amount_digits (if neg then tl s else s) of
        None \<Rightarrow> None
      | Some (ds, r) \<Rightarrow>
          (let cents = (if r \<noteq> [] \<and> hd r = CHR ''.'' then takeWhile dec_digit (take 2 (tl r)) else []) in
           if cents = [] then Some (sign * of_int (plain_number ds), r)
           else Some (sign * of_int (plain_number ds * 10 ^ length cents + digits_number cents) / 10 ^ length cents,
             drop (Suc (length cents)) r)))"

definition skip_spaces :: "string \<Rightarrow> string" where
  "skip_spaces s = dropWhile is_space s"

definition after_char :: "char \<Rightarrow> string \<Rightarrow> string option" where
  "after_char c s = (case skip_spaces s of [] \<Rightarrow> None | d # r \<Rightarrow> if d = c then Some r else None)"

definition dollar_amount :: "string \<Rightarrow> (rat \<times> string) option" where
  "dollar_amount s = Option.bind (after_char CHR ''$'' s) (\<lambda>r. amount_prefix (skip_spaces r))"

text \<open>The whole of \<open>Cost: n x $ unit = $ total\<close>\<close>

definition cost_formula :: "string \<Rightarrow> (rat \<times> rat \<times> rat) option" where
  "cost_formula s =
     (if casefold (take 5 s) \<noteq> ''cost:'' then None
      else Option.bind (amount_digits (skip_spaces (drop 5 s))) (\<lambda>(n, r1).
        (case skip_spaces r1 of [] \<Rightarrow> None | c # r2 \<Rightarrow>
           if c \<noteq> CHR ''x'' \<and> c \<noteq> CHR ''X'' then None
           else Option.bind (dollar_amount r2) (\<lambda>(unit_price, r3).
             Option.bind (after_char CHR ''='' r3) (\<lambda>r4.
             Option.bind (dollar_amount r4) (\<lambda>(total, r5).
               if r5 = [] then Some (of_int (plain_number n), unit_price, total) else None))))))"

text \<open>All dollar amounts in a text, as \<open>re.findall\<close> finds them: after a match the search goes on behind it.\<close>

function dollar_amounts :: "string \<Rightarrow> rat list" where
  "dollar_amounts s =
     (case dropWhile (\<lambda>c. c \<noteq> CHR ''$'') s of
        [] \<Rightarrow> []
      | _ # r \<Rightarrow>
          (case amount_prefix (skip_spaces r) of
             None \<Rightarrow> dollar_amounts r
           | Some (x, rest) \<Rightarrow> x # dollar_amounts rest))"
  by pat_completeness auto

lemma length_dropWhile_Cons: "dropWhile P s = c # r \<Longrightarrow> length r < length s"
  by (metis length_Cons length_dropWhile_le less_eq_Suc_le)

lemma amount_prefix_shorter: "amount_prefix s = Some (x, r) \<Longrightarrow> length r \<le> length s"
proof -
  have digits: "amount_digits t = Some (ds, r) \<Longrightarrow> length r \<le> length t" for t ds r
    by (auto simp: amount_digits_def length_dropWhile_le split: if_split_asm)
  have "length (if b then tl t else t) \<le> length t" for b :: bool and t :: string by simp
  then show "amount_prefix s = Some (x, r) \<Longrightarrow> length r \<le> length s"
    using digits by (fastforce simp: amount_prefix_def Let_def split: option.split_asm prod.split_asm if_split_asm)
qed

termination dollar_amounts
proof (relation "measure length")
  fix s c r and v :: "rat \<times> string" and x rest
  assume "dropWhile (\<lambda>c. c \<noteq> CHR ''$'') s = c # r"
  note shorter = length_dropWhile_Cons [OF this]
  then show "(r, s) \<in> measure length" by simp
  assume v: "amount_prefix (skip_spaces r) = Some v" "(x, rest) = v"
  then have "length rest \<le> length (skip_spaces r)" using amount_prefix_shorter by blast
  also have "\<dots> \<le> length r" by (simp add: skip_spaces_def length_dropWhile_le)
  finally show "(rest, s) \<in> measure length" using shorter by simp
qed simp

declare dollar_amounts.simps [simp del]

end
