(* ===== verification/Contracts.thy ===== *)
theory Contracts
  imports Training TextParsing
begin

text \<open>
  Development contracts, \<open>software_inc/contracts/\<close>: the models (\<open>models.py\<close>), the projections from a snapshot
  (\<open>projection.py\<close>), the recommendation (\<open>policy.py\<close>) and the workflow with its separate approvals (\<open>workflow.py\<close>).
  SHA-256 and \<open>uuid5\<close> are the parameter \<open>naming\<close>; identifiers from \<open>uuid4\<close> and times are arguments.
\<close>

section \<open>Models\<close>

datatype contract_stage =
  Available | Design | Development | Alpha | Beta | Released | StageCompleted | StageFailed | StageUnknown

fun stage_text :: "contract_stage \<Rightarrow> string" where
  "stage_text Available = ''available''"
| "stage_text Design = ''design''"
| "stage_text Development = ''development''"
| "stage_text Alpha = ''alpha''"
| "stage_text Beta = ''beta''"
| "stage_text Released = ''released''"
| "stage_text StageCompleted = ''completed''"
| "stage_text StageFailed = ''failed''"
| "stage_text StageUnknown = ''unknown''"

datatype commitment = Accept | DeadlineRisk | Review | Promote | Release

fun commitment_text :: "commitment \<Rightarrow> string" where
  "commitment_text Accept = ''accept''"
| "commitment_text DeadlineRisk = ''deadline_risk''"
| "commitment_text Review = ''review''"
| "commitment_text Promote = ''promote''"
| "commitment_text Release = ''release''"

datatype contract_status =
  ContractPlanned | ContractWaiting | ContractActive | ContractBlocked | ContractCompleted | ContractFailed

record contract =
  co_id :: string
  co_index :: int
  co_name :: string
  co_client :: string
  co_type :: string
  co_category :: string
  co_features :: "string list"
  co_months :: int
  co_dev_time :: rat
  co_difficulty :: rat
  co_art :: rat
  co_progress :: rat
  co_quality :: rat
  co_reward :: rat
  co_penalty :: rat
  co_bug_penalty :: rat
  co_deadline :: string
  co_days :: rat
  co_status :: string

definition make_contract :: "contract \<Rightarrow> (ui_exn, contract) result" where
  "make_contract c =
     (if bounded_text 512 (co_id c) \<and> 0 \<le> co_index c \<and> bounded_text 256 (co_name c) \<and> bounded_text 256 (co_client c) \<and>
         bounded_text 256 (co_type c) \<and> 0 \<le> co_months c \<and> 0 \<le> co_dev_time c \<and> 0 \<le> co_difficulty c \<and> 0 \<le> co_art c \<and>
         0 \<le> co_progress c \<and> 0 \<le> co_quality c \<and> 0 \<le> co_reward c \<and> 0 \<le> co_penalty c \<and> 0 \<le> co_bug_penalty c \<and>
         co_deadline c \<noteq> []
      then ok c else raise (ModelRejected ''ContractObservation''))"

record contract_work =
  cw_item :: string
  cw_contract :: string
  cw_name :: string
  cw_client :: string
  cw_deadline :: string
  cw_deadline_seen :: "bool option"
  cw_days :: rat
  cw_started :: "bool option"
  cw_reward :: rat
  cw_penalty :: rat
  cw_stage :: contract_stage
  cw_stage_text :: string
  cw_progress :: rat
  cw_minimum :: rat
  cw_teams :: "string list"
  cw_employees :: int
  cw_paused :: bool
  cw_done :: bool
  cw_bugs :: "rat option"
  cw_fixed :: "rat option"
  cw_quality :: "rat option"
  cw_score :: "rat option"
  cw_reviews :: "int option"
  cw_beta :: "bool option"
  cw_released :: "bool option"

fun opt_ge0 :: "('a :: {zero, ord}) option \<Rightarrow> bool" where
  "opt_ge0 None = True"
| "opt_ge0 (Some x) = (0 \<le> x)"

definition make_work :: "contract_work \<Rightarrow> (ui_exn, contract_work) result" where
  "make_work w =
     (if cw_item w \<noteq> [] \<and> cw_contract w \<noteq> [] \<and> cw_name w \<noteq> [] \<and> 0 \<le> cw_reward w \<and> 0 \<le> cw_penalty w \<and>
         0 \<le> cw_progress w \<and> 0 \<le> cw_minimum w \<and> 0 \<le> cw_employees w \<and> opt_ge0 (cw_bugs w) \<and> opt_ge0 (cw_fixed w) \<and>
         opt_ge0 (cw_quality w) \<and> opt_ge0 (cw_score w) \<and> opt_ge0 (cw_reviews w) \<and>
         \<not> (cw_deadline_seen w = Some True \<and> strip (cw_deadline w) = []) \<and>
         \<not> (cw_deadline_seen w = Some False \<and> (strip (cw_deadline w) \<noteq> [] \<or> cw_days w \<noteq> 0))
      then ok w else raise (ModelRejected ''ContractWorkObservation''))"

record team_assessment =
  as_id :: string
  as_name :: string
  as_employees :: int
  as_required :: "string list"
  as_observed :: "string list"
  as_missing :: "string list"
  as_active :: "string list"
  as_capacity :: "int option"
  as_needed :: int
  as_days :: rat
  as_buffer :: rat
  as_suitable :: bool
  as_reasons :: "string list"

record contract_candidate =
  cc_contract :: contract
  cc_team :: team_assessment
  cc_cash :: rat
  cc_worst :: rat
  cc_minimum :: rat
  cc_reserve :: rat
  cc_eligible :: bool
  cc_reasons :: "string list"

record contract_recommendation =
  cr_id :: string
  cr_session :: string
  cr_save :: string
  cr_sequence :: int
  cr_fingerprint :: string
  cr_recommended :: "contract_candidate option"
  cr_alternatives :: "contract_candidate list"
  cr_rejected :: int
  cr_rejections :: "string list"
  cr_unknowns :: "string list"
  cr_created :: int
  cr_expires :: int

record contract_approval =
  ca_id :: uuid
  ca_workflow :: uuid
  ca_commitment :: commitment
  ca_summary :: string
  ca_contract :: string
  ca_team :: string
  ca_reward :: rat
  ca_penalty :: rat
  ca_cost :: rat
  ca_configuration :: "string option"
  ca_deadline :: string
  ca_fingerprint :: string
  ca_approved :: "bool option"
  ca_created :: int
  ca_resolved :: "int option"

definition make_contract_approval :: "contract_approval \<Rightarrow> (ui_exn, contract_approval) result" where
  "make_contract_approval a =
     (if bounded_text 1024 (ca_summary a) \<and> 0 \<le> ca_reward a \<and> 0 \<le> ca_penalty a \<and> 0 \<le> ca_cost a \<and>
         bounded_opt 512 (ca_configuration a) \<and> (ca_approved a = None \<longleftrightarrow> ca_resolved a = None) \<and>
         (ca_commitment a = Review \<longleftrightarrow> ca_configuration a \<noteq> None) \<and> (ca_commitment a \<noteq> Review \<longrightarrow> ca_cost a = 0)
      then ok a else raise (ModelRejected ''ContractApproval''))"

record contract_workflow =
  kw_id :: uuid
  kw_session :: string
  kw_save :: string
  kw_contract :: string
  kw_name :: string
  kw_client :: string
  kw_team :: string
  kw_minimum :: rat
  kw_reserve :: rat
  kw_reward :: rat
  kw_penalty :: rat
  kw_deadline :: string
  kw_status :: contract_status
  kw_stage :: contract_stage
  kw_item :: "string option"
  kw_approval :: "contract_approval option"
  kw_fingerprint :: string
  kw_accepted :: "int option"
  kw_completed :: "int option"
  kw_sequence :: int
  kw_created :: int
  kw_updated :: int

section \<open>Reading values\<close>

text \<open>\<open>_decimal\<close> of \<open>projection.py\<close>: a number, or a text that \<open>Decimal\<close> reads as a finite one\<close>

definition contract_decimal :: "entity \<Rightarrow> string \<Rightarrow> (ui_exn, rat) result" where
  "contract_decimal e field = (case jget (en_values e) field of
       JStr s \<Rightarrow> (case parse_decimal s of
           None \<Rightarrow> raise (UIValidationError (en_id e @ ''.'' @ field @ '' is invalid''))
         | Some NotFinite \<Rightarrow> raise (UIValidationError (en_id e @ ''.'' @ field @ '' is not finite''))
         | Some (FiniteDecimal x) \<Rightarrow> ok x)
     | v \<Rightarrow> (case as_decimal v of Some x \<Rightarrow> ok x
         | None \<Rightarrow> raise (UIValidationError (en_id e @ ''.'' @ field @ '' is not numeric''))))"

definition has_field :: "entity \<Rightarrow> string \<Rightarrow> bool" where
  "has_field e field \<longleftrightarrow> map_of (en_values e) field \<noteq> None"

definition optional_value ::
  "(entity \<Rightarrow> string \<Rightarrow> (ui_exn, 'a) result) \<Rightarrow> entity \<Rightarrow> string \<Rightarrow> (ui_exn, 'a option) result" where
  "optional_value read e field = (if has_field e field then rbind (read e field) (\<lambda>x. ok (Some x)) else ok None)"

definition require_complete_surface :: "game_snapshot \<Rightarrow> string \<Rightarrow> (ui_exn, surface) result" where
  "require_complete_surface s name =
     (case filter (\<lambda>u. fc_surface (su_coverage u) = name) (gs_surfaces s) of
        [u] \<Rightarrow> if fc_status (su_coverage u) = ObservedComplete then ok u
          else raise (UIValidationError (name @ '' is not completely observed: '' @
            (case fc_detail (su_coverage u) of None \<Rightarrow> ''None'' | Some d \<Rightarrow> d)))
      | _ \<Rightarrow> raise (UIValidationError (name @ '' is not completely observed: surface missing or duplicated'')))"

definition positive_days_per_month :: "game_snapshot \<Rightarrow> string \<Rightarrow> (ui_exn, int) result" where
  "positive_days_per_month s message = (case as_int (jget (gs_state s) ''days_per_month'') of
     Some i \<Rightarrow> if 0 < i then ok i else raise (UIValidationError message)
   | None \<Rightarrow> raise (UIValidationError message))"

section \<open>Projections\<close>

definition deadline_text :: "int \<Rightarrow> int \<Rightarrow> string" where
  "deadline_text months days = int_text months @ '' in-game '' @ (if months = 1 then ''month'' else ''months'') @
     '' after work starts ('' @ int_text days @ '' in-game '' @ (if days = 1 then ''day'' else ''days'') @ '')''"

definition read_contract :: "game_snapshot \<Rightarrow> entity \<Rightarrow> (ui_exn, contract) result" where
  "read_contract s e =
     (if en_type e \<noteq> ''available_contract''
      then raise (UIValidationError ''contract market contains an unexpected entity type'')
      else rbind (value_integer e ''months'') (\<lambda>months.
        rbind (positive_days_per_month s ''days_per_month is not observed as a positive integer from the current save'') (\<lambda>dpm.
        rbind (value_integer e ''display_index'') (\<lambda>index.
        rbind (value_text e ''name'' False) (\<lambda>name.
        rbind (value_text e ''client'' False) (\<lambda>client.
        rbind (value_text e ''software_type'' False) (\<lambda>software.
        rbind (value_text e ''software_category'' True) (\<lambda>category.
        rbind (value_text e ''features'' True) (\<lambda>features.
        rbind (contract_decimal e ''dev_time'') (\<lambda>dev_time.
        rbind (contract_decimal e ''difficulty'') (\<lambda>difficulty.
        rbind (contract_decimal e ''art_ratio'') (\<lambda>art.
        rbind (contract_decimal e ''minimum_progress'') (\<lambda>progress.
        rbind (contract_decimal e ''quality_target'') (\<lambda>quality.
        rbind (contract_decimal e ''reward'') (\<lambda>reward.
        rbind (contract_decimal e ''penalty'') (\<lambda>penalty.
        rbind (contract_decimal e ''per_bug_penalty'') (\<lambda>bug.
        rbind (value_text e ''status'' True) (\<lambda>status.
        make_contract \<lparr>co_id = en_id e, co_index = index, co_name = name, co_client = client, co_type = software,
          co_category = category, co_features = split_parts CHR ''|'' [] features, co_months = months,
          co_dev_time = dev_time, co_difficulty = difficulty, co_art = art, co_progress = progress,
          co_quality = quality, co_reward = reward, co_penalty = penalty, co_bug_penalty = bug,
          co_deadline = deadline_text months (months * dpm), co_days = of_int (months * dpm),
          co_status = status\<rparr>))))))))))))))))))"

definition available_contracts :: "game_snapshot \<Rightarrow> (ui_exn, contract list) result" where
  "available_contracts s =
     rbind (require_complete_surface s ''contract_market'') (\<lambda>u.
     rbind (rcollect (\<lambda>e. rbind (read_contract s e) (\<lambda>c. ok (Some c))) (su_entities u)) (\<lambda>cs.
     if \<not> distinct (map co_id cs) then raise (UIValidationError ''available contract identities are not unique'')
     else ok (sort_key co_index cs)))"

definition read_stage :: "entity \<Rightarrow> (ui_exn, contract_stage) result" where
  "read_stage e =
     (if jget (en_values e) ''released'' = JBool True then ok Released
      else if jget (en_values e) ''done'' = JBool True then ok StageCompleted
      else if jget (en_values e) ''in_beta'' = JBool True then ok Beta
      else rbind (value_text e ''work_type'' True) (\<lambda>kind. rbind (value_text e ''stage'' True) (\<lambda>stage.
        let work_type = casefold kind; st = casefold stage in
        ok (if occurs_in ''design'' work_type \<or> occurs_in ''design'' st then Design
            else if occurs_in ''alpha'' work_type \<or> occurs_in ''alpha'' st then Alpha
            else if occurs_in ''develop'' st \<or> occurs_in ''code'' st \<or> occurs_in ''art'' st then Development
            else StageUnknown))))"

definition read_work :: "entity \<Rightarrow> (ui_exn, contract_work) result" where
  "read_work e =
     rbind (value_text e ''contract_identity'' False) (\<lambda>contract.
     rbind (value_text e ''contract_name'' False) (\<lambda>name.
     rbind (value_text e ''contract_client'' True) (\<lambda>client.
     rbind (value_text e ''contract_deadline'' True) (\<lambda>deadline.
     rbind (optional_value value_boolean e ''contract_deadline_observed'') (\<lambda>seen.
     rbind (contract_decimal e ''contract_days_remaining'') (\<lambda>days.
     rbind (optional_value value_boolean e ''contract_started'') (\<lambda>started.
     rbind (contract_decimal e ''contract_reward'') (\<lambda>reward.
     rbind (contract_decimal e ''contract_penalty'') (\<lambda>penalty.
     rbind (read_stage e) (\<lambda>stage.
     rbind (value_text e ''stage'' True) (\<lambda>stage_label.
     rbind (contract_decimal e ''progress'') (\<lambda>progress.
     rbind (if is_null (jget (en_values e) ''minimum_progress'') then ok 0 else contract_decimal e ''minimum_progress'') (\<lambda>minimum.
     rbind (value_text e ''assigned_teams'' True) (\<lambda>teams.
     rbind (value_integer e ''employee_count'') (\<lambda>employees.
     rbind (value_boolean e ''paused'') (\<lambda>paused.
     rbind (value_boolean e ''done'') (\<lambda>finished.
     rbind (optional_value contract_decimal e ''bugs'') (\<lambda>bugs.
     rbind (optional_value contract_decimal e ''fixed_bugs'') (\<lambda>fixed.
     rbind (optional_value contract_decimal e ''quality'') (\<lambda>quality.
     rbind (optional_value contract_decimal e ''review_score'') (\<lambda>score.
     rbind (optional_value value_integer e ''reviews_done'') (\<lambda>reviews.
     rbind (optional_value value_boolean e ''in_beta'') (\<lambda>beta.
     rbind (optional_value value_boolean e ''released'') (\<lambda>released.
     make_work \<lparr>cw_item = en_id e, cw_contract = contract, cw_name = name, cw_client = client, cw_deadline = deadline,
       cw_deadline_seen = seen, cw_days = days, cw_started = started, cw_reward = reward, cw_penalty = penalty,
       cw_stage = stage, cw_stage_text = stage_label, cw_progress = progress, cw_minimum = minimum,
       cw_teams = split_parts CHR ''|'' [] teams, cw_employees = employees, cw_paused = paused, cw_done = finished,
       cw_bugs = bugs, cw_fixed = fixed, cw_quality = quality, cw_score = score, cw_reviews = reviews,
       cw_beta = beta, cw_released = released\<rparr>))))))))))))))))))))))))"

definition active_contract_work :: "game_snapshot \<Rightarrow> (ui_exn, contract_work list) result" where
  "active_contract_work s =
     rbind (require_complete_surface s ''work_items'') (\<lambda>u.
     rbind (rcollect (\<lambda>e.
       if en_type e \<noteq> ''work_item'' \<or> jget (en_values e) ''is_contract'' \<noteq> JBool True then ok None
       else rbind (read_work e) (\<lambda>w. ok (Some w))) (su_entities u)) (\<lambda>ws.
     ok (sort_key cw_item ws)))"

definition find_contract :: "contract list \<Rightarrow> string \<Rightarrow> (ui_exn, contract) result" where
  "find_contract cs reference =
     (case filter (\<lambda>c. fold_words reference \<in> {fold_words (co_id c), fold_words (co_name c), fold_words (co_client c)}) cs of
        [] \<Rightarrow> raise (UIValidationError (''no available contract exactly matches '' @ str_repr reference))
      | [c] \<Rightarrow> ok c
      | _ \<Rightarrow> raise (UIValidationError (''contract reference '' @ str_repr reference @ '' is ambiguous'')))"

section \<open>The recommendation\<close>

definition contract_ttl :: int where "contract_ttl = 180000000"

definition required_roles :: "contract \<Rightarrow> string list" where
  "required_roles c = ''Designer'' # (if co_art c < 1 then [''Programmer''] else []) @ (if 0 < co_art c then [''Artist''] else [])"

definition skill_fields :: "(string \<times> string) list" where
  "skill_fields =
     [(''Designer'', ''skill_designer''), (''Programmer'', ''skill_programmer''), (''Artist'', ''skill_artist''),
      (''Lead'', ''skill_lead''), (''Service'', ''skill_service'')]"

definition nonnegative_number :: "entity \<Rightarrow> string \<Rightarrow> (ui_exn, rat) result" where
  "nonnegative_number e field = (case as_decimal (jget (en_values e) field) of
     None \<Rightarrow> raise (UIValidationError (en_id e @ ''.'' @ field @ '' is not observed numeric''))
   | Some x \<Rightarrow> if x < 0 then raise (UIValidationError (en_id e @ ''.'' @ field @ '' is invalid'')) else ok x)"

text \<open>The roles that an employee covers: by positive skills when any role is assigned, else by the name of the role\<close>

definition observed_roles :: "entity \<Rightarrow> (ui_exn, string list) result" where
  "observed_roles e = rbind (value_text e ''role'' False) (\<lambda>role.
     if occurs_in ''any role'' (casefold role)
     then rbind (rcollect (\<lambda>(name, field). rbind (nonnegative_number e field) (\<lambda>x.
            ok (if 0 < x then Some name else None))) skill_fields) (\<lambda>names.
          ok (if names = [] then [role] else names))
     else (let names = filter (\<lambda>name. occurs_in (casefold name) (casefold role))
            [''Lead'', ''Programmer'', ''Designer'', ''Artist'', ''Service''] in
          ok (if names = [] then [role] else names)))"

definition unique_named_team :: "game_snapshot \<Rightarrow> string \<Rightarrow> (ui_exn, entity) result" where
  "unique_named_team s team_name = rbind (require_complete_surface s ''teams'') (\<lambda>u.
     rbind (rcollect (\<lambda>e. if en_type e \<noteq> ''team'' then ok None
        else rbind (value_text e ''name'' False) (\<lambda>n.
          ok (if fold_words n = fold_words team_name then Some e else None))) (su_entities u)) (\<lambda>es.
     the_one (UIValidationError (''team '' @ str_repr team_name @ '' did not resolve exactly once in complete observations'')) es))"

definition team_employees :: "game_snapshot \<Rightarrow> string \<Rightarrow> (ui_exn, entity list) result" where
  "team_employees s team_name = rbind (require_complete_surface s ''employees'') (\<lambda>u.
     rcollect (\<lambda>e. if en_type e \<noteq> ''employee'' then ok None
        else rbind (value_text e ''team'' True) (\<lambda>t.
          ok (if casefold t = casefold team_name \<and> jget (en_values e) ''dismissed'' = JBool False then Some e else None)))
       (su_entities u))"

text \<open>The sum of the workstations in the rooms of a team, if it has any room\<close>

definition workspace_capacity :: "game_snapshot \<Rightarrow> string \<Rightarrow> (ui_exn, int option) result" where
  "workspace_capacity s team_name = rbind (require_complete_surface s ''offices'') (\<lambda>u.
     rbind (rcollect (\<lambda>e. if en_type e \<noteq> ''office_room'' then ok None
        else rbind (value_text e ''assigned_teams'' True) (\<lambda>teams.
          if casefold team_name \<notin> set (map casefold (split_parts CHR ''|'' [] teams)) then ok None
          else rbind (value_integer e ''valid_workstations'') (\<lambda>n. ok (Some n)))) (su_entities u)) (\<lambda>ns.
     ok (if ns = [] then None else Some (sum_list ns))))"

definition contract_cash :: "game_snapshot \<Rightarrow> (ui_exn, rat) result" where
  "contract_cash s =
     (case filter (\<lambda>u. fc_surface (su_coverage u) = ''finances'') (gs_surfaces s) of
        [u] \<Rightarrow>
          if fc_status (su_coverage u) \<notin> {ObservedComplete, ObservedPartial}
          then raise (UIValidationError ''current finances are not observed'')
          else (case su_entities u of
              [e] \<Rightarrow> (case as_decimal (jget (en_values e) ''cash'') of
                  Some x \<Rightarrow> ok x | None \<Rightarrow> raise (UIValidationError ''current cash is not observed''))
            | _ \<Rightarrow> raise (UIValidationError ''current cash did not resolve exactly once''))
      | _ \<Rightarrow> raise (UIValidationError ''current finances are not observed''))"

text \<open>Everything that is observed about a team\<close>

record team_view =
  tv_team :: entity
  tv_name :: string
  tv_roles :: "string list"
  tv_active :: "string list"
  tv_employees :: int
  tv_capacity :: "int option"
  tv_dpm :: int

definition view_team :: "game_snapshot \<Rightarrow> string \<Rightarrow> (ui_exn, team_view) result" where
  "view_team s team_name =
     rbind (unique_named_team s team_name) (\<lambda>team.
     rbind (team_employees s team_name) (\<lambda>employees.
     rbind (rcollect (\<lambda>e. rbind (observed_roles e) (\<lambda>rs. ok (Some rs))) employees) (\<lambda>roles.
     rbind (active_contract_work s) (\<lambda>work.
     rbind (value_integer team ''employee_count'') (\<lambda>count.
     rbind (workspace_capacity s team_name) (\<lambda>capacity.
     rbind (positive_days_per_month s ''days_per_month is not observed from the current save'') (\<lambda>dpm.
     rbind (value_text team ''name'' False) (\<lambda>name.
     ok \<lparr>tv_team = team, tv_name = name, tv_roles = sort (remdups (concat roles)),
       tv_active = map cw_name (filter (\<lambda>w. casefold team_name \<in> set (map casefold (cw_teams w)) \<and> \<not> cw_done w) work),
       tv_employees = count, tv_capacity = capacity, tv_dpm = dpm\<rparr>))))))))"

definition missing_roles :: "contract \<Rightarrow> string list \<Rightarrow> string list" where
  "missing_roles c observed = filter (\<lambda>role. casefold role \<notin> set (map casefold observed)) (required_roles c)"

text \<open>\<open>(development_time * days_per_month).to_integral_value(rounding=ROUND_CEILING)\<close>\<close>

definition conservative_days :: "contract \<Rightarrow> int \<Rightarrow> rat" where
  "conservative_days c dpm = of_int \<lceil>dec (co_dev_time c * of_int dpm)\<rceil>"

definition deadline_buffer :: "contract \<Rightarrow> int \<Rightarrow> rat" where
  "deadline_buffer c dpm = dsub (co_days c) (conservative_days c dpm)"

definition team_reasons :: "contract \<Rightarrow> team_view \<Rightarrow> string list" where
  "team_reasons c v =
     (if tv_employees v < 1 then [''the team has no observed employees''] else []) @
     (if missing_roles c (tv_roles v) \<noteq> []
      then [''missing required observed roles: '' @ join '', '' (missing_roles c (tv_roles v))] else []) @
     (if tv_active v \<noteq> []
      then [''higher-priority existing work would be displaced: '' @ join '', '' (tv_active v)] else []) @
     (case tv_capacity v of
        None \<Rightarrow> [''workspace capacity is not completely attributable to the team'']
      | Some n \<Rightarrow> if n < tv_employees v
          then [''workspace capacity '' @ int_text n @ '' is below employee count '' @ int_text (tv_employees v)] else []) @
     (if deadline_buffer c (tv_dpm v) < 0
      then [''completion window has '' @ decimal_text (co_days c) @ '' in-game days but the conservative budget is '' @
        decimal_text (conservative_days c (tv_dpm v)) @ '' days''] else [])"

definition assess_team :: "contract \<Rightarrow> team_view \<Rightarrow> (ui_exn, team_assessment) result" where
  "assess_team c v =
     (if tv_employees v < 0 \<or> \<not> opt_ge0 (tv_capacity v) then raise (ModelRejected ''TeamContractAssessment'')
      else ok \<lparr>as_id = en_id (tv_team v), as_name = tv_name v, as_employees = tv_employees v,
        as_required = required_roles c, as_observed = tv_roles v, as_missing = missing_roles c (tv_roles v),
        as_active = tv_active v, as_capacity = tv_capacity v, as_needed = tv_employees v,
        as_days = conservative_days c (tv_dpm v), as_buffer = deadline_buffer c (tv_dpm v),
        as_suitable = (team_reasons c v = []), as_reasons = team_reasons c v\<rparr>)"

definition money_reasons :: "contract \<Rightarrow> rat \<Rightarrow> rat \<Rightarrow> rat \<Rightarrow> string list" where
  "money_reasons c cash minimum reserve =
     (if co_reward c < minimum
      then [''reward $'' @ money_text (co_reward c) @ '' is below the requested $'' @ money_text minimum @ '' minimum''] else []) @
     (if dsub cash (co_penalty c) < reserve
      then [''reserving the full $'' @ money_text (co_penalty c) @ '' penalty leaves $'' @
        money_text (dsub cash (co_penalty c)) @ '', below the $'' @ money_text reserve @ '' reserve''] else []) @
     (if co_days c \<le> 0 then [''the observed relative completion window is not positive''] else [])"

definition assess_contract ::
  "game_snapshot \<Rightarrow> string \<Rightarrow> rat \<Rightarrow> rat \<Rightarrow> contract \<Rightarrow> (ui_exn, contract_candidate) result" where
  "assess_contract s team_name minimum reserve c =
     rbind (view_team s team_name) (\<lambda>v.
     rbind (assess_team c v) (\<lambda>team.
     rbind (contract_cash s) (\<lambda>cash.
     let reasons = team_reasons c v @ money_reasons c cash minimum reserve in
     if minimum < 0 \<or> reserve < 0 then raise (ModelRejected ''ContractCandidate'')
     else ok \<lparr>cc_contract = c, cc_team = team, cc_cash = cash, cc_worst = dsub cash (co_penalty c),
       cc_minimum = minimum, cc_reserve = reserve, cc_eligible = (reasons = []), cc_reasons = reasons\<rparr>)))"

definition contract_key :: "contract_candidate \<Rightarrow> rat \<times> rat \<times> rat \<times> string" where
  "contract_key k = (dec (- co_reward (cc_contract k)), dec (- as_buffer (cc_team k)), co_difficulty (cc_contract k),
     co_id (cc_contract k))"

definition ranked_contracts :: "contract_candidate list \<Rightarrow> contract_candidate list" where
  "ranked_contracts ks = sort_key contract_key (filter cc_eligible ks)"

definition strs :: "string list \<Rightarrow> json" where
  "strs xs = JList (map JStr xs)"

definition contract_json :: "contract \<Rightarrow> json" where
  "contract_json c = JObj
     [(''contract_id'', JStr (co_id c)), (''display_index'', JInt (co_index c)), (''name'', JStr (co_name c)),
      (''client'', JStr (co_client c)), (''software_type'', JStr (co_type c)), (''software_category'', JStr (co_category c)),
      (''features'', strs (co_features c)), (''months'', JInt (co_months c)), (''development_time'', JDec (co_dev_time c)),
      (''difficulty'', JDec (co_difficulty c)), (''art_ratio'', JDec (co_art c)), (''minimum_progress'', JDec (co_progress c)),
      (''quality_target'', JDec (co_quality c)), (''reward'', JDec (co_reward c)), (''penalty'', JDec (co_penalty c)),
      (''per_bug_penalty'', JDec (co_bug_penalty c)), (''deadline'', JStr (co_deadline c)),
      (''days_remaining'', JDec (co_days c)), (''game_status'', JStr (co_status c))]"

definition assessment_json :: "team_assessment \<Rightarrow> json" where
  "assessment_json a = JObj
     [(''team_id'', JStr (as_id a)), (''team_name'', JStr (as_name a)), (''employee_count'', JInt (as_employees a)),
      (''required_roles'', strs (as_required a)), (''observed_roles'', strs (as_observed a)),
      (''missing_roles'', strs (as_missing a)), (''active_work_items'', strs (as_active a)),
      (''current_workspace_capacity'', opt_json JInt (as_capacity a)), (''required_workspace_capacity'', JInt (as_needed a)),
      (''conservative_required_days'', JDec (as_days a)), (''deadline_buffer_days'', JDec (as_buffer a)),
      (''suitable'', JBool (as_suitable a)), (''reasons'', strs (as_reasons a))]"

definition contract_candidate_json :: "contract_candidate \<Rightarrow> json" where
  "contract_candidate_json k = JObj
     [(''contract'', contract_json (cc_contract k)), (''team'', assessment_json (cc_team k)),
      (''observed_cash'', JDec (cc_cash k)), (''worst_case_cash_after_penalty'', JDec (cc_worst k)),
      (''minimum_reward'', JDec (cc_minimum k)), (''minimum_cash_reserve'', JDec (cc_reserve k)),
      (''eligible'', JBool (cc_eligible k)), (''reasons'', strs (cc_reasons k))]"

definition contract_unknowns :: "string list" where
  "contract_unknowns =
     [''Before acceptance, Software Inc. exposes a relative completion window rather than '' @
      ''an absolute deadline. The estimate compares that generated window with the '' @
      ''observed employee-month workload and current days-per-month setting; it does not '' @
      ''predict interruptions or employee effectiveness.'',
      ''Detailed future operating cash flow is unavailable, so the policy reserves '' @
      ''the full observed contract penalty.'']"

definition contract_recommendation_of ::
  "naming \<Rightarrow> int \<Rightarrow> game_snapshot \<Rightarrow> string \<Rightarrow> rat \<Rightarrow> rat \<Rightarrow> contract_candidate list \<Rightarrow> contract_recommendation" where
  "contract_recommendation_of n now s team_name minimum reserve ks =
     (let eligible = ranked_contracts ks; rejected = filter (\<lambda>k. \<not> cc_eligible k) ks;
          print = na_sha n (compact_text (JObj
            [(''adapter'', JStr (gs_adapter s)), (''game_session_id'', JStr (gs_session s)),
             (''save_identity'', JStr (save_text s)), (''sequence'', JInt (gs_sequence s)), (''team'', JStr team_name),
             (''minimum_reward'', JStr (decimal_text minimum)), (''minimum_cash_reserve'', JStr (decimal_text reserve)),
             (''candidates'', JList (map contract_candidate_json ks))])) in
      \<lparr>cr_id = ''contract-recommendation:'' @ take 24 print, cr_session = gs_session s, cr_save = save_text s,
        cr_sequence = gs_sequence s, cr_fingerprint = print,
        cr_recommended = (case eligible of [] \<Rightarrow> None | k # _ \<Rightarrow> Some k), cr_alternatives = take 2 (drop 1 eligible),
        cr_rejected = int (length rejected), cr_rejections = sort (remdups (concat (map cc_reasons rejected))),
        cr_unknowns = contract_unknowns, cr_created = now, cr_expires = now + contract_ttl\<rparr>)"

definition recommend_contracts ::
  "naming \<Rightarrow> int \<Rightarrow> game_snapshot \<Rightarrow> string \<Rightarrow> rat \<Rightarrow> rat \<Rightarrow> (ui_exn, contract_recommendation) result" where
  "recommend_contracts n now s team_name minimum reserve =
     (if minimum < 0 \<or> reserve < 0
      then raise (UIValidationError ''reward and cash reserve constraints cannot be negative'')
      else rbind (available_contracts s) (\<lambda>cs.
        rbind (rcollect (\<lambda>c. rbind (assess_contract s team_name minimum reserve c) (\<lambda>k. ok (Some k))) cs) (\<lambda>ks.
        ok (contract_recommendation_of n now s team_name minimum reserve ks))))"

section \<open>The workflow\<close>

definition contract_material :: "game_snapshot \<Rightarrow> contract_candidate \<Rightarrow> json" where
  "contract_material s k = JObj
     [(''contract_id'', JStr (co_id (cc_contract k))), (''game_session_id'', JStr (gs_session s)),
      (''save_identity'', JStr (save_text s)), (''team'', JStr (as_name (cc_team k))),
      (''minimum_reward'', JStr (decimal_text (cc_minimum k))),
      (''minimum_cash_reserve'', JStr (decimal_text (cc_reserve k)))]"

definition approval_summary :: "contract_workflow \<Rightarrow> commitment \<Rightarrow> rat \<Rightarrow> string option \<Rightarrow> string" where
  "approval_summary w c cost configuration = (let name = str_repr (kw_name w) in case c of
       Accept \<Rightarrow> ''Accept '' @ name @ '' from '' @ kw_client w @ '' for '' @ kw_team w @ ''; reward $'' @
         money_text (kw_reward w) @ '', maximum observed penalty $'' @ money_text (kw_penalty w) @ '', deadline '' @
         kw_deadline w @ ''.''
     | DeadlineRisk \<Rightarrow> ''Start or continue '' @ name @ '' with deadline '' @ kw_deadline w @ ''; reward $'' @
         money_text (kw_reward w) @ '', maximum observed penalty $'' @ money_text (kw_penalty w) @
         ''; no other commitment is authorized.''
     | Review \<Rightarrow> ''Start the currently configured review for '' @ name @ ''; configuration '' @
         (case configuration of None \<Rightarrow> ''None'' | Some t \<Rightarrow> t) @ ''; the exact observed one-time cost is $'' @
         money_text cost @ ''.''
     | Promote \<Rightarrow> ''Promote '' @ name @ '' from '' @ stage_text (kw_stage w) @
         ''; this irreversible stage transition is the only authorized action.''
     | Release \<Rightarrow> ''Release '' @ name @ ''; reward and reputation outcome remain subject to Software Inc.'' @
         [CHR 0x27] @ ''s observed contract rules.'')"

definition approval_for ::
  "uuid \<Rightarrow> int \<Rightarrow> contract_workflow \<Rightarrow> commitment \<Rightarrow> rat \<Rightarrow> string option \<Rightarrow> (ui_exn, contract_approval) result" where
  "approval_for fresh now w c cost configuration = make_contract_approval
     \<lparr>ca_id = fresh, ca_workflow = kw_id w, ca_commitment = c, ca_summary = approval_summary w c cost configuration,
      ca_contract = kw_contract w, ca_team = kw_team w, ca_reward = kw_reward w, ca_penalty = kw_penalty w,
      ca_cost = cost, ca_configuration = configuration, ca_deadline = kw_deadline w, ca_fingerprint = kw_fingerprint w,
      ca_approved = None, ca_created = now, ca_resolved = None\<rparr>"

definition create_contract_workflow ::
  "naming \<Rightarrow> uuid \<Rightarrow> int \<Rightarrow> game_snapshot \<Rightarrow> contract_candidate \<Rightarrow> (ui_exn, contract_workflow) result" where
  "create_contract_workflow n fresh now s k =
     (if \<not> cc_eligible k then raise (UIValidationError ''an ineligible contract cannot create a workflow'')
      else let c = cc_contract k; print = na_sha n (compact_text (contract_material s k));
          w = \<lparr>kw_id = na_uuid5 n (''sim-pilot:software-inc:contract:'' @ print), kw_session = gs_session s,
            kw_save = save_text s, kw_contract = co_id c, kw_name = co_name c, kw_client = co_client c,
            kw_team = as_name (cc_team k), kw_minimum = cc_minimum k, kw_reserve = cc_reserve k,
            kw_reward = co_reward c, kw_penalty = co_penalty c, kw_deadline = co_deadline c, kw_status = ContractWaiting,
            kw_stage = Available, kw_item = None, kw_approval = None, kw_fingerprint = print, kw_accepted = None,
            kw_completed = None, kw_sequence = gs_sequence s, kw_created = now, kw_updated = now\<rparr> in
        rbind (approval_for fresh now w Accept 0 None) (\<lambda>a. ok (w\<lparr>kw_approval := Some a\<rparr>)))"

definition resolve_approval :: "int \<Rightarrow> bool \<Rightarrow> contract_workflow \<Rightarrow> (ui_exn, contract_workflow) result" where
  "resolve_approval now approved w = (case kw_approval w of
       Some a \<Rightarrow> if ca_approved a \<noteq> None then raise (UIValidationError ''the workflow has no pending approval'')
         else ok (w\<lparr>kw_approval := Some (a\<lparr>ca_approved := Some approved, ca_resolved := Some now\<rparr>),
                kw_status := (if approved then ContractActive else ContractBlocked), kw_updated := now\<rparr>)
     | None \<Rightarrow> raise (UIValidationError ''the workflow has no pending approval''))"

definition is_work_of :: "contract_workflow \<Rightarrow> contract_work \<Rightarrow> bool" where
  "is_work_of w i \<longleftrightarrow> cw_contract i = kw_contract w \<or> cw_name i = kw_name w \<and> cw_client i = kw_client w"

definition same_contract_save :: "contract_workflow \<Rightarrow> game_snapshot \<Rightarrow> bool" where
  "same_contract_save w s \<longleftrightarrow> kw_session w = gs_session s \<and> kw_save w = save_text s"

text \<open>What one observed work item changes in the workflow\<close>

definition synchronized_with :: "int \<Rightarrow> contract_workflow \<Rightarrow> game_snapshot \<Rightarrow> contract_work \<Rightarrow> contract_workflow" where
  "synchronized_with now w s i =
     (let finished = (cw_stage i \<in> {StageCompleted, Released} \<or> cw_done i);
          deadline = (if cw_started i = Some False
            then (case kw_approval w of
                Some a \<Rightarrow> if ca_commitment a = Accept \<and> ca_deadline a \<noteq> [] then ca_deadline a else kw_deadline w
              | None \<Rightarrow> kw_deadline w)
            else if cw_deadline i \<noteq> [] then cw_deadline i else kw_deadline w) in
      w\<lparr>kw_accepted := (case kw_accepted w of None \<Rightarrow> Some now | Some t \<Rightarrow> Some t),
        kw_completed := (if finished then Some now else kw_completed w), kw_deadline := deadline,
        kw_sequence := gs_sequence s, kw_stage := cw_stage i,
        kw_status := (if finished then ContractCompleted else kw_status w), kw_item := Some (cw_item i),
        kw_updated := now\<rparr>)"

definition synchronize_workflow :: "int \<Rightarrow> contract_workflow \<Rightarrow> game_snapshot \<Rightarrow> (ui_exn, contract_workflow) result" where
  "synchronize_workflow now w s =
     (if \<not> same_contract_save w s
      then raise (UIValidationError ''contract workflow save or session identity is stale'')
      else if gs_sequence s \<le> kw_sequence w
      then raise (UIValidationError ''contract workflow requires a fresh bridge sequence'')
      else rbind (active_contract_work s) (\<lambda>items. case filter (is_work_of w) items of
          [] \<Rightarrow> ok (w\<lparr>kw_sequence := gs_sequence s, kw_updated := now\<rparr>)
        | [i] \<Rightarrow> ok (synchronized_with now w s i)
        | _ \<Rightarrow> raise (UIValidationError ''active contract work identity is ambiguous'')))"

end
