(* ===== verification/ContractOperator.thy ===== *)
theory ContractOperator
  imports Contracts ScreenControl
begin

text \<open>
  The operator of one development contract, \<open>software_inc/contracts/operator.py\<close>, over the desktop of ScreenControl, with
  the store of its workflows, \<open>software_inc/contracts/store.py\<close>: browsing the market, accepting a recommendation, reviewing,
  promoting and releasing the work, and advancing the game for a bounded time. An approval provider that is missing is the
  argument \<open>provider = False\<close>; one that is there is the person behind \<open>dt_ask\<close>.
\<close>

section \<open>The store\<close>

record contract_event =
  ce_id :: uuid
  ce_workflow :: uuid
  ce_sequence :: int
  ce_type :: string
  ce_bridge :: int
  ce_before :: contract_stage
  ce_after :: contract_stage
  ce_action :: "string option"
  ce_input_sent :: bool
  ce_verified :: bool
  ce_detail :: string
  ce_recorded :: int

definition make_contract_event :: "contract_event \<Rightarrow> (ui_exn, contract_event) result" where
  "make_contract_event e =
     (if 1 \<le> ce_sequence e \<and> bounded_text 64 (ce_type e) \<and> 1 \<le> ce_bridge e \<and> bounded_text 2048 (ce_detail e)
      then ok e else raise (ModelRejected ''ContractCycleEvent''))"

record contract_store =
  ks_workflows :: "(uuid \<times> contract_workflow) list"
  ks_events :: "contract_event list"

definition contract_open :: "contract_workflow \<Rightarrow> bool" where
  "contract_open w \<longleftrightarrow> kw_status w \<notin> {ContractCompleted, ContractFailed}"

definition owns_contract_save :: "string \<Rightarrow> string \<Rightarrow> contract_workflow \<Rightarrow> bool" where
  "owns_contract_save session save w \<longleftrightarrow> kw_session w = session \<and> kw_save w = save \<and> contract_open w"

definition save_contract :: "contract_workflow \<Rightarrow> contract_store \<Rightarrow> (ui_exn, contract_store) result" where
  "save_contract w st =
     (if contract_open w \<and> (\<exists>(i, v) \<in> set (ks_workflows st). owns_contract_save (kw_session w) (kw_save w) v \<and> i \<noteq> kw_id w)
      then raise (UIValidationError ''another open contract workflow already owns the current save'')
      else ok (st\<lparr>ks_workflows := AList.update (kw_id w) w (ks_workflows st)\<rparr>))"

definition append_contract_event :: "contract_event \<Rightarrow> contract_store \<Rightarrow> (ui_exn, contract_store) result" where
  "append_contract_event e st =
     (if (\<exists>d \<in> set (ks_events st). ce_id d = ce_id e \<or> ce_workflow d = ce_workflow e \<and> ce_sequence d = ce_sequence e) \<or>
         ce_workflow e \<notin> fst ` set (ks_workflows st)
      then raise (StoreFailed ''constraint failed'')
      else ok (st\<lparr>ks_events := ks_events st @ [e]\<rparr>))"

definition get_contract :: "uuid \<Rightarrow> contract_store \<Rightarrow> contract_workflow option" where
  "get_contract i st = map_of (ks_workflows st) i"

definition current_contract :: "string \<Rightarrow> string \<Rightarrow> contract_store \<Rightarrow> (ui_exn, contract_workflow option) result" where
  "current_contract session save st =
     (case filter (owns_contract_save session save) (map snd (ks_workflows st)) of
        [] \<Rightarrow> ok None
      | [w] \<Rightarrow> ok (Some w)
      | _ \<Rightarrow> raise (StoreFailed ''multiple open contract workflows exist for the current save''))"

definition contract_events :: "uuid \<Rightarrow> contract_store \<Rightarrow> contract_event list" where
  "contract_events i st = sort_key ce_sequence (filter (\<lambda>e. ce_workflow e = i) (ks_events st))"

type_synonym ('u, 'a) contract_operation = "('u, contract_store, 'a) operation"

section \<open>Results and events\<close>

record contract_result =
  kr_workflow :: "contract_workflow option"
  kr_gestures :: int
  kr_verified :: bool
  kr_partial :: bool
  kr_message :: string
  kr_completed :: int

definition contract_result_of ::
  "'u desktop \<Rightarrow> contract_workflow option \<Rightarrow> nat \<Rightarrow> bool \<Rightarrow> bool \<Rightarrow> string \<Rightarrow> ('u, contract_result) contract_operation" where
  "contract_result_of D w gestures verified partial message = seq (read_clock D) (\<lambda>time.
     if bounded_text 2048 message
     then ret \<lparr>kr_workflow = w, kr_gestures = int gestures, kr_verified = verified, kr_partial = partial,
       kr_message = message, kr_completed = time\<rparr>
     else throw (ModelRejected ''ContractOperationResult''))"

definition store_contract :: "contract_workflow \<Rightarrow> ('u, unit) contract_operation" where
  "store_contract w = on_store (save_contract w)"

text \<open>An event with a given number, and the one of \<open>_append_event\<close> that counts the events there are\<close>

definition record_event ::
  "'u desktop \<Rightarrow> contract_workflow \<Rightarrow> int \<Rightarrow> string \<Rightarrow> int \<Rightarrow> contract_stage \<Rightarrow> contract_stage \<Rightarrow> string option \<Rightarrow> bool \<Rightarrow> bool \<Rightarrow>
     string \<Rightarrow> ('u, unit) contract_operation" where
  "record_event D w number kind bridge before after action sent verified detail =
     seq (uuid4 D) (\<lambda>i. seq (read_clock D) (\<lambda>time.
     seq (lift_result (make_contract_event
       \<lparr>ce_id = i, ce_workflow = kw_id w, ce_sequence = number, ce_type = kind, ce_bridge = bridge, ce_before = before,
        ce_after = after, ce_action = action, ce_input_sent = sent, ce_verified = verified, ce_detail = detail,
        ce_recorded = time\<rparr>)) (\<lambda>e. on_store (append_contract_event e))))"

definition next_number :: "contract_workflow \<Rightarrow> ('u, int) contract_operation" where
  "next_number w = gets (\<lambda>world. int (length (contract_events (kw_id w) (ow_store world))) + 1)"

definition append_contract ::
  "'u desktop \<Rightarrow> contract_workflow \<Rightarrow> string \<Rightarrow> int \<Rightarrow> contract_stage \<Rightarrow> contract_stage \<Rightarrow> string option \<Rightarrow> bool \<Rightarrow> bool \<Rightarrow>
     string \<Rightarrow> ('u, unit) contract_operation" where
  "append_contract D w kind bridge before after action sent verified detail =
     seq (next_number w) (\<lambda>number. record_event D w number kind bridge before after action sent verified detail)"

section \<open>Reading the contract windows\<close>

definition contract_ui_states :: "game_snapshot \<Rightarrow> (ui_exn, entity list) result" where
  "contract_ui_states s =
     (case filter (\<lambda>u. fc_surface (su_coverage u) = ''contract_ui'') (gs_surfaces s) of
        [u] \<Rightarrow> if fc_status (su_coverage u) = ObservedComplete then ok (typed_entities ''contract_ui_state'' u)
          else raise (UIValidationError ''contract UI state is incomplete'')
      | _ \<Rightarrow> raise (UIValidationError ''contract UI state is incomplete''))"

definition contract_ui_value :: "game_snapshot \<Rightarrow> string \<Rightarrow> (ui_exn, json) result" where
  "contract_ui_value s field = rbind (contract_ui_states s) (\<lambda>es.
     case es of
       [e] \<Rightarrow> (case map_of (en_values e) field of Some v \<Rightarrow> ok v
         | None \<Rightarrow> raise (UIValidationError (''contract UI field '' @ str_repr field @ '' is unavailable'')))
     | _ \<Rightarrow> raise (UIValidationError (''contract UI field '' @ str_repr field @ '' is unavailable'')))"

definition contract_ui_text :: "game_snapshot \<Rightarrow> string \<Rightarrow> (ui_exn, string) result" where
  "contract_ui_text s field = rbind (contract_ui_value s field) (\<lambda>v. case as_str v of Some t \<Rightarrow> ok t
     | None \<Rightarrow> raise (UIValidationError (''contract UI field '' @ str_repr field @ '' is unavailable'')))"

definition matching_work :: "game_snapshot \<Rightarrow> contract_workflow \<Rightarrow> (ui_exn, contract_work option) result" where
  "matching_work s w = rbind (active_contract_work s) (\<lambda>items. case filter (is_work_of w) items of
     [] \<Rightarrow> ok None
   | [i] \<Rightarrow> ok (Some i)
   | _ \<Rightarrow> raise (UIValidationError ''active contract work identity is ambiguous''))"

text \<open>The only entity of a kind in a completely observed surface; none if the surface is not\<close>

definition sole_entity ::
  "game_snapshot \<Rightarrow> string \<Rightarrow> (entity \<Rightarrow> bool) \<Rightarrow> string \<Rightarrow> (ui_exn, entity option) result" where
  "sole_entity s name P message =
     (case filter (\<lambda>u. fc_surface (su_coverage u) = name) (gs_surfaces s) of
        [u] \<Rightarrow> if fc_status (su_coverage u) \<noteq> ObservedComplete then ok None
          else (case filter P (su_entities u) of
              [] \<Rightarrow> ok None
            | [e] \<Rightarrow> ok (Some e)
            | _ \<Rightarrow> raise (UIValidationError message))
      | _ \<Rightarrow> ok None)"

definition matching_result :: "game_snapshot \<Rightarrow> contract_workflow \<Rightarrow> (ui_exn, entity option) result" where
  "matching_result s w = sole_entity s ''contract_results''
     (\<lambda>e. en_type e = ''contract_result'' \<and> jget (en_values e) ''name'' = JStr (kw_name w) \<and>
        jget (en_values e) ''client'' = JStr (kw_client w)) ''completed contract result is ambiguous''"

definition matching_review_work :: "game_snapshot \<Rightarrow> string \<Rightarrow> (ui_exn, entity option) result" where
  "matching_review_work s i = sole_entity s ''work_items''
     (\<lambda>e. en_type e = ''work_item'' \<and> jget (en_values e) ''review_target_work_item_id'' = JStr i \<and>
        jget (en_values e) ''done'' = JBool False) ''linked contract review work is ambiguous''"

definition completed_review_work :: "game_snapshot \<Rightarrow> string \<Rightarrow> (ui_exn, entity option) result" where
  "completed_review_work s i = rbind (matching_review_work s i) (\<lambda>found. ok (case found of
     None \<Rightarrow> None
   | Some e \<Rightarrow> (case (as_num (jget (en_values e) ''progress''), as_str (jget (en_values e) ''stage'')) of
         (Some progress, Some stage) \<Rightarrow>
           if 1 \<le> progress \<and> occurs_in ''reviews finished'' (fold_words stage) then Some e else None
       | _ \<Rightarrow> None)))"

definition single_number :: "game_snapshot \<Rightarrow> string \<Rightarrow> string \<Rightarrow> rat option" where
  "single_number s name field = (case filter (\<lambda>u. fc_surface (su_coverage u) = name) (gs_surfaces s) of
     [u] \<Rightarrow> (case su_entities u of [e] \<Rightarrow> as_decimal (jget (en_values e) field) | _ \<Rightarrow> None)
   | _ \<Rightarrow> None)"

definition entity_number :: "entity \<Rightarrow> string \<Rightarrow> (ui_exn, rat) result" where
  "entity_number e field = (case as_decimal (jget (en_values e) field) of Some x \<Rightarrow> ok x
     | None \<Rightarrow> raise (UIVerificationError (''completed contract field '' @ str_repr field @ '' is not numeric'')))"

text \<open>
  The cost that the review window shows. \<open>quantize\<close> to cents raises when the result does not fit into the 28 digits of the
  decimal context.
\<close>

definition quantize_cents :: "rat \<Rightarrow> (ui_exn, rat) result" where
  "quantize_cents x = (let c = rhe (x * 100) in
     if 10 ^ 28 \<le> \<bar>c\<bar> then raise (ControlFailed ''InvalidOperation'') else ok (of_int c / 100))"

definition review_cost :: "game_snapshot \<Rightarrow> (ui_exn, rat) result" where
  "review_cost s = rbind (contract_ui_value s ''review_cost_text'') (\<lambda>v. case as_str v of
       None \<Rightarrow> raise (UIValidationError ''review cost is not visibly observed'')
     | Some text' \<Rightarrow>
       (let shown = strip (map (\<lambda>c. if c = CHR 0xA0 then CHR '' '' else c) text') in
        if strip text' = [] then raise (UIValidationError ''review cost is not visibly observed'')
        else case cost_formula shown of
            Some (count, unit_price, amount) \<Rightarrow>
              if dec \<bar>dec (count * unit_price)\<bar> \<noteq> dec \<bar>amount\<bar>
              then raise (UIValidationError ''review cost formula total is inconsistent'')
              else quantize_cents (dec \<bar>amount\<bar>)
          | None \<Rightarrow> (case dollar_amounts shown of
                [x] \<Rightarrow> quantize_cents (dec \<bar>x\<bar>)
              | _ \<Rightarrow> raise (UIValidationError
                  (''review cost text '' @ str_repr text' @ '' does not contain one exact USD total'')))))"

definition review_configuration :: "game_snapshot \<Rightarrow> (ui_exn, string) result" where
  "review_configuration s =
     rbind (contract_ui_value s ''review_client'') (\<lambda>client.
     rbind (contract_ui_value s ''review_internal'') (\<lambda>internal.
     rbind (contract_ui_value s ''review_outsource'') (\<lambda>outsource.
     rbind (contract_ui_value s ''review_slider_value'') (\<lambda>count.
     case (as_bool client, as_bool internal, as_bool outsource) of
       (Some c, Some i, Some out) \<Rightarrow>
         (case as_num count of
            None \<Rightarrow> raise (UIValidationError ''review count is not observed'')
          | Some n \<Rightarrow>
            if i = out then raise (UIValidationError ''review internal/outsource mode is ambiguous'')
            else ok (''mode='' @ (if c then ''client'' else if out then ''outsource'' else ''internal'') @
              '', review_count='' @ float_g n))
     | _ \<Rightarrow> raise (UIValidationError ''review mode is not completely observed'')))))"

section \<open>Targets and clicks\<close>

definition contract_settle :: rat where "contract_settle = 1 / 10"

definition optional_target :: "'u desktop \<Rightarrow> ui_observation \<Rightarrow> string \<Rightarrow> ('u, 's, visual_target option) operation" where
  "optional_target D o' i = (case filter (\<lambda>t. vt_id t = i) (ui_targets o') of
     [t] \<Rightarrow> if vt_confidence t < fl (8 / 10) \<or> vt_frame t \<noteq> df_id (ui_frame o')
       then throw (UIValidationError ''contract target is stale or ambiguous'')
       else seq (read_clock D) (\<lambda>time.
         if vt_expires t \<le> time then throw (UIValidationError ''contract target is stale or ambiguous'') else ret (Some t))
   | _ \<Rightarrow> ret None)"

text \<open>Resolve a target in the observation and click it\<close>

definition press :: "'u desktop \<Rightarrow> ui_observation \<Rightarrow> string \<Rightarrow> string \<Rightarrow> ('u, 's, ui_observation) operation" where
  "press D o' i effect = seq (find_target D ''contract'' o' i) (\<lambda>t. click_target D contract_settle o' t effect)"

definition work_target :: "string \<Rightarrow> string \<Rightarrow> string" where
  "work_target i suffix = ''work-item-'' @ i @ ''-'' @ suffix"

text \<open>Synchronise with what is seen, at the current time\<close>

definition synchronize_now ::
  "'u desktop \<Rightarrow> contract_workflow \<Rightarrow> ui_observation \<Rightarrow> ('u, 's, contract_workflow) operation" where
  "synchronize_now D w o' = seq (read_clock D) (\<lambda>time. lift_result (synchronize_workflow time w (ui_after o')))"

text \<open>A workflow that waits for a fresh approval\<close>

definition request_commitment ::
  "'u desktop \<Rightarrow> contract_workflow \<Rightarrow> commitment \<Rightarrow> rat \<Rightarrow> string option \<Rightarrow>
     ('u, contract_workflow \<times> contract_approval) contract_operation" where
  "request_commitment D w c cost configuration =
     seq (read_clock D) (\<lambda>asked. seq (uuid4 D) (\<lambda>fresh.
     seq (lift_result (approval_for fresh asked w c cost configuration)) (\<lambda>a.
     seq (read_clock D) (\<lambda>time.
     let w' = w\<lparr>kw_approval := Some a, kw_status := ContractWaiting, kw_updated := time\<rparr> in
     seq (store_contract w') (\<lambda>_. ret (w', a))))))"

definition decide_commitment ::
  "'u desktop \<Rightarrow> contract_workflow \<Rightarrow> contract_approval \<Rightarrow> ('u, contract_workflow) contract_operation" where
  "decide_commitment D w a =
     seq (ask D (ca_id a)) (\<lambda>approved.
     seq (read_clock D) (\<lambda>time.
     seq (lift_result (resolve_approval time approved w)) (\<lambda>w'.
     seq (store_contract w') (\<lambda>_. ret w'))))"

section \<open>Browsing\<close>

definition browse_choice :: "ui_observation \<Rightarrow> (ui_exn, string \<times> string) result" where
  "browse_choice o' = (case ui_scene o' of
       GameplayRunning \<Rightarrow> ok (''pause_button'', ''pause before browsing contracts'')
     | GameplayPaused \<Rightarrow> ok (''open_contracts'', ''open the visible Contracts window'')
     | sc \<Rightarrow> raise (UIValidationError
         (''close the current management window before browsing contracts; scene='' @ scene_text sc)))"

fun browse_cycles :: "nat \<Rightarrow> 'u desktop \<Rightarrow> bool \<Rightarrow> ui_observation \<Rightarrow> nat \<Rightarrow> ('u, contract_result) contract_operation" where
  "browse_cycles 0 D dry_run o' gestures =
     throw (UIVerificationError ''Contracts window did not become observable within bounds'')"
| "browse_cycles (Suc cycles) D dry_run o' gestures =
     seq (lift_result (require_actionable ''contracts'' o')) (\<lambda>_.
     if ui_scene o' = ContractBrowser
     then seq (lift_result (available_contracts (ui_after o'))) (\<lambda>_. contract_result_of D None gestures True False
       ''Contracts are visibly open and every available row is semantically observed.'')
     else seq (lift_result (browse_choice o')) (\<lambda>(i, effect).
       seq (find_target D ''contract'' o' i) (\<lambda>t.
       if dry_run then contract_result_of D None 0 False True (''Dry run: next verified gesture would '' @ effect @ ''.'')
       else seq (click_target D contract_settle o' t effect) (\<lambda>after.
         browse_cycles cycles D dry_run after (gestures + 1)))))"

definition browse_contracts :: "'u desktop \<Rightarrow> bool \<Rightarrow> ('u, contract_result) contract_operation" where
  "browse_contracts D dry_run = seq (observe D) (\<lambda>o'. browse_cycles 3 D dry_run o' 0)"

section \<open>Accepting\<close>

definition accept_cycles :: nat where "accept_cycles = 16"

datatype accept_step = AcceptPress string string "string option" | AcceptCommit

definition team_picker_choice ::
  "contract_workflow \<Rightarrow> string option \<Rightarrow> game_snapshot \<Rightarrow> (ui_exn, accept_step) result" where
  "team_picker_choice w configuring s = rbind (contract_ui_text s ''team_picker_selected'') (\<lambda>shown.
     let selected = split_parts CHR ''|'' [] shown;
         unwanted = sort (remdups (filter (\<lambda>v. casefold v \<noteq> casefold (kw_team w)) selected)) in
     ok (case unwanted of
         t # _ \<Rightarrow> AcceptPress (''contract_team_'' @ t) (''remove unapproved team '' @ t @ '' from the contract'') configuring
       | [] \<Rightarrow>
         if casefold (kw_team w) \<notin> set (map casefold selected)
         then AcceptPress (''contract_team_'' @ kw_team w)
           (''select only '' @ kw_team w @ '' in the contract team picker'') configuring
         else AcceptPress ''apply_contract_teams''
           (''apply '' @ kw_team w @ '' as the '' @ (case configuring of None \<Rightarrow> ''contract'' | Some t \<Rightarrow> t) @ '' team'') configuring))"

text \<open>The rows and teams that the window shows as selected are exactly the approved ones.\<close>

definition only_row :: "int \<Rightarrow> string \<Rightarrow> bool" where
  "only_row index shown \<longleftrightarrow> set (split_parts CHR '','' [] shown) = {int_text index}"

definition only_team :: "contract_workflow \<Rightarrow> string \<Rightarrow> bool" where
  "only_team w shown \<longleftrightarrow> set (map casefold (split_parts CHR ''|'' [] shown)) = {casefold (kw_team w)}"

definition browser_choice ::
  "contract_workflow \<Rightarrow> string option \<Rightarrow> game_snapshot \<Rightarrow> (ui_exn, accept_step) result" where
  "browser_choice w configuring s =
     rbind (available_contracts s) (\<lambda>cs.
     rbind (the_one (UIValidationError ''the approved contract disappeared or became ambiguous before acceptance'')
       (filter (\<lambda>c. co_id c = kw_contract w) cs)) (\<lambda>c.
     rbind (contract_ui_text s ''selected_available_indices'') (\<lambda>selected.
     rbind (contract_ui_text s ''design_teams'') (\<lambda>design.
     rbind (contract_ui_text s ''development_teams'') (\<lambda>development.
     ok (if \<not> only_row (co_index c) selected
         then AcceptPress (''contract_row_'' @ int_text (co_index c))
           (''select only exact contract row '' @ int_text (co_index c)) configuring
         else if \<not> only_team w design
         then AcceptPress ''pick_contract_design_team'' ''open design-team selection'' (Some ''design'')
         else if \<not> only_team w development
         then AcceptPress ''pick_contract_development_team'' ''open development-team selection'' (Some ''development'')
         else AcceptCommit))))))"

definition acceptance_choice ::
  "contract_workflow \<Rightarrow> string option \<Rightarrow> ui_observation \<Rightarrow> (ui_exn, accept_step) result" where
  "acceptance_choice w configuring o' =
     (if \<not> is_paused o' then ok (AcceptPress ''pause_button'' ''pause before contract configuration'' configuring)
      else case ui_scene o' of
          GameplayPaused \<Rightarrow> ok (AcceptPress ''open_contracts'' ''open Contracts'' configuring)
        | ContractTeamSelection \<Rightarrow> team_picker_choice w configuring (ui_after o')
        | ContractBrowser \<Rightarrow> browser_choice w configuring (ui_after o')
        | sc \<Rightarrow> raise (UIValidationError (''contract acceptance cannot continue from scene '' @ scene_text sc)))"

text \<open>The last look before the commitment: the terms and the selections are still the approved ones.\<close>

definition acceptance_current :: "contract_workflow \<Rightarrow> ui_observation \<Rightarrow> (ui_exn, unit) result" where
  "acceptance_current w o' = (let s = ui_after o' in
     if \<not> is_paused o' \<or> ui_scene o' \<noteq> ContractBrowser
     then raise (UIValidationError ''contract scene changed while approval was pending; no acceptance input was sent'')
     else rbind (available_contracts s) (\<lambda>cs.
       rbind (the_one (UIValidationError ''approved contract disappeared or became ambiguous while approval was pending'')
         (filter (\<lambda>c. co_id c = kw_contract w) cs)) (\<lambda>c.
       if co_name c \<noteq> kw_name w \<or> co_client c \<noteq> kw_client w \<or> co_reward c \<noteq> kw_reward w \<or> co_penalty c \<noteq> kw_penalty w \<or>
          co_deadline c \<noteq> kw_deadline w
       then raise (UIValidationError ''contract economics or deadline changed while approval was pending'')
       else rbind (contract_ui_text s ''selected_available_indices'') (\<lambda>selected.
         rbind (contract_ui_text s ''design_teams'') (\<lambda>design.
         rbind (contract_ui_text s ''development_teams'') (\<lambda>development.
         if \<not> only_row (co_index c) selected \<or> \<not> only_team w design \<or> \<not> only_team w development
         then raise (UIValidationError ''contract or team selection changed while approval was pending'')
         else ok ()))))))"

text \<open>What the gesture must have achieved, told from its effect text\<close>

definition gesture_achieved :: "contract_workflow \<Rightarrow> string \<Rightarrow> ui_observation \<Rightarrow> (ui_exn, unit) result" where
  "gesture_achieved w effect after =
     (if starts_with ''select only exact contract row '' effect
      then rbind (contract_ui_text (ui_after after) ''selected_available_indices'') (\<lambda>selected.
        if set (split_parts CHR '','' [] selected) \<noteq> {last_word effect}
        then raise (UIVerificationError
          ''the exact contract-row input did not replace the observed selection; it will not be retried'')
        else ok ())
      else if starts_with ''accept exact contract '' effect
      then rbind (matching_work (ui_after after) w) (\<lambda>found.
        if found = None
        then raise (UIVerificationError
          ''the approved acceptance input did not create the exact contract work item; it will not be retried'')
        else ok ())
      else ok ())"

definition acceptance_gesture ::
  "'u desktop \<Rightarrow> contract_workflow \<Rightarrow> ui_observation \<Rightarrow> visual_target \<Rightarrow> string \<Rightarrow> int \<Rightarrow>
     ('u, ui_observation \<times> contract_workflow) contract_operation" where
  "acceptance_gesture D w o' t effect number =
     seq (click_target D contract_settle o' t effect) (\<lambda>after.
     seq (lift_result (gesture_achieved w effect after)) (\<lambda>_.
     seq (read_clock D) (\<lambda>time.
     let w' = w\<lparr>kw_sequence := gs_sequence (ui_after after), kw_updated := time\<rparr> in
     seq (store_contract w') (\<lambda>_.
     seq (record_event D w' number ''ui_gesture'' (gs_sequence (ui_after after)) (kw_stage w) (kw_stage w') (Some effect)
       True True (''fresh synchronized observation completed after exactly one gesture; prior bridge sequence='' @
         int_text (gs_sequence (ui_after o')))) (\<lambda>_.
     ret (after, w'))))))"

definition reusable_approval :: "contract_workflow \<Rightarrow> bool" where
  "reusable_approval w \<longleftrightarrow> (case kw_approval w of None \<Rightarrow> False
     | Some a \<Rightarrow> ca_commitment a = Accept \<and> ca_approved a = Some True \<and> ca_fingerprint a = kw_fingerprint w)"

text \<open>The approval of the acceptance; a result ends the operation.\<close>

definition approve_acceptance ::
  "'u desktop \<Rightarrow> bool \<Rightarrow> bool \<Rightarrow> contract_workflow \<Rightarrow> nat \<Rightarrow>
     ('u, contract_result + contract_workflow) contract_operation" where
  "approve_acceptance D provider dry_run w gestures =
     (let finish = (\<lambda>w' verified partial message.
        seq (contract_result_of D (Some w') gestures verified partial message) (\<lambda>r. ret (Inl r)));
          dry = ''Dry run: team assignments are valid; the next irreversible step is the exact acceptance approval.'' in
      if reusable_approval w then (if dry_run then finish w False True dry else ret (Inr w))
      else seq (request_commitment D w Accept 0 None) (\<lambda>(waiting, a).
        if dry_run then finish waiting False True dry
        else if \<not> provider then finish waiting False True (ca_summary a)
        else seq (decide_commitment D waiting a) (\<lambda>decided.
          if kw_status decided = ContractBlocked
          then finish decided False False ''Contract acceptance was denied; no acceptance input was sent.''
          else ret (Inr decided))))"

definition already_accepted ::
  "'u desktop \<Rightarrow> contract_workflow \<Rightarrow> ui_observation \<Rightarrow> contract_work \<Rightarrow> nat \<Rightarrow> ('u, contract_result) contract_operation" where
  "already_accepted D w o' i gestures =
     seq (case kw_accepted w of Some t \<Rightarrow> ret t | None \<Rightarrow> read_clock D) (\<lambda>accepted.
     seq (read_clock D) (\<lambda>time.
     let w' = w\<lparr>kw_accepted := Some accepted, kw_sequence := gs_sequence (ui_after o'), kw_stage := cw_stage i,
       kw_status := ContractActive, kw_item := Some (cw_item i), kw_updated := time\<rparr> in
     seq (store_contract w') (\<lambda>_.
     contract_result_of D (Some w') gestures True False (''Accepted '' @ str_repr (kw_name w') @
       ''; exact active work item '' @ cw_item i @ '' is assigned to '' @ kw_team w' @ ''.''))))"

fun acceptance_cycles ::
  "nat \<Rightarrow> 'u desktop \<Rightarrow> bool \<Rightarrow> bool \<Rightarrow> contract_workflow \<Rightarrow> string option \<Rightarrow> ui_observation \<Rightarrow> nat \<Rightarrow> int \<Rightarrow>
     ('u, contract_result) contract_operation" where
  "acceptance_cycles 0 D provider dry_run w configuring o' gestures number =
     throw (UIVerificationError ''contract acceptance exceeded the bounded cycle limit'')"
| "acceptance_cycles (Suc cycles) D provider dry_run w configuring o' gestures number =
     seq (lift_result (require_actionable ''contracts'' o')) (\<lambda>_.
     seq (lift_result (matching_work (ui_after o') w)) (\<lambda>active.
     case active of
       Some i \<Rightarrow> already_accepted D w o' i gestures
     | None \<Rightarrow>
       seq (lift_result (acceptance_choice w configuring o')) (\<lambda>step.
       case step of
         AcceptPress i effect configuring' \<Rightarrow>
           seq (find_target D ''contract'' o' i) (\<lambda>t.
           if dry_run then contract_result_of D (Some w) gestures False True (''Dry run: would '' @ effect @ ''.'')
           else seq (acceptance_gesture D w o' t effect number) (\<lambda>(after, w').
             acceptance_cycles cycles D provider dry_run w' configuring' after (gestures + 1) (number + 1)))
       | AcceptCommit \<Rightarrow>
           seq (approve_acceptance D provider dry_run w gestures) (\<lambda>decision.
           case decision of
             Inl r \<Rightarrow> ret r
           | Inr approved \<Rightarrow>
             seq (observe D) (\<lambda>fresh.
             seq (lift_result (require_continuity o' fresh)) (\<lambda>_.
             seq (lift_result (require_actionable ''contracts'' fresh)) (\<lambda>_.
             seq (lift_result (acceptance_current approved fresh)) (\<lambda>_.
             seq (find_target D ''contract'' fresh ''commit_contract'') (\<lambda>t.
             seq (acceptance_gesture D approved fresh t (''accept exact contract '' @ str_repr (kw_name approved)) number)
               (\<lambda>(after, w'). acceptance_cycles cycles D provider dry_run w' configuring after (gestures + 1) (number + 1)))))))))))"

definition recommendation_current :: "int \<Rightarrow> contract_recommendation \<Rightarrow> game_snapshot \<Rightarrow> (ui_exn, unit) result" where
  "recommendation_current time r s =
     (if cr_expires r \<le> time \<or> cr_session r \<noteq> gs_session s \<or> cr_save r \<noteq> save_text s \<or> gs_sequence s < cr_sequence r
      then raise (UIValidationError ''contract recommendation is expired or stale'') else ok ())"

definition same_acceptance :: "contract_workflow \<Rightarrow> contract_workflow \<Rightarrow> (ui_exn, unit) result" where
  "same_acceptance v w =
     (if kw_fingerprint v \<noteq> kw_fingerprint w \<or> kw_session v \<noteq> kw_session w \<or> kw_save v \<noteq> kw_save w \<or>
         kw_contract v \<noteq> kw_contract w \<or> kw_name v \<noteq> kw_name w \<or> kw_client v \<noteq> kw_client w \<or> kw_team v \<noteq> kw_team w \<or>
         kw_minimum v \<noteq> kw_minimum w \<or> kw_reserve v \<noteq> kw_reserve w \<or> kw_reward v \<noteq> kw_reward w \<or>
         kw_penalty v \<noteq> kw_penalty w \<or> kw_deadline v \<noteq> kw_deadline w
      then raise (UIValidationError ''persisted contract approval does not match the fresh exact recommendation'')
      else if kw_item v = None \<and> kw_stage v \<noteq> Available
      then raise (UIValidationError ''persisted contract workflow cannot safely resume acceptance'')
      else ok ())"

definition accept_recommended_contract ::
  "'u desktop \<Rightarrow> naming \<Rightarrow> contract_recommendation \<Rightarrow> bool \<Rightarrow> bool \<Rightarrow> ('u, contract_result) contract_operation" where
  "accept_recommended_contract D n r provider dry_run =
     (case cr_recommended r of
        None \<Rightarrow> throw (UIValidationError ''there is no eligible contract to accept'')
      | Some k \<Rightarrow>
        seq (observe D) (\<lambda>o'.
        seq (read_clock D) (\<lambda>time.
        seq (lift_result (recommendation_current time r (ui_after o'))) (\<lambda>_.
        seq (read_clock D) (\<lambda>created. seq (uuid4 D) (\<lambda>fresh.
        seq (lift_result (create_contract_workflow n fresh created (ui_after o') k)) (\<lambda>proposed.
        seq (gets (\<lambda>world. get_contract (kw_id proposed) (ow_store world))) (\<lambda>persisted.
        seq (lift_result (case persisted of None \<Rightarrow> ok proposed
           | Some v \<Rightarrow> rbind (same_acceptance v proposed) (\<lambda>_. ok v))) (\<lambda>w.
        seq (store_contract w) (\<lambda>_.
        seq (next_number w) (\<lambda>number.
        acceptance_cycles accept_cycles D provider dry_run w None o' 0 number)))))))))))"

section \<open>Opening the controls of a work item\<close>

definition open_work_item ::
  "'u desktop \<Rightarrow> contract_workflow \<Rightarrow> string \<Rightarrow> contract_work \<Rightarrow> ui_observation \<Rightarrow> string \<Rightarrow>
     ('u, ui_observation \<times> contract_workflow) contract_operation" where
  "open_work_item D w i item o' message =
     seq (press D o' (work_target i ''open'') (''open the exact '' @ str_repr (kw_name w) @ '' work-item controls'')) (\<lambda>opened.
     if \<not> is_paused opened
     then throw (UIVerificationError ''opening the contract work-item controls resumed game time'')
     else seq (synchronize_now D w opened) (\<lambda>w'.
       seq (lift_result (matching_work (ui_after opened) w')) (\<lambda>found.
       if (case found of None \<Rightarrow> True
           | Some v \<Rightarrow> cw_item v \<noteq> cw_item item \<or> cw_stage v \<noteq> cw_stage item \<or> cw_progress v \<noteq> cw_progress item)
       then throw (UIVerificationError message)
       else ret (opened, w'))))"

text \<open>The work item is still there, and the same one in the same stage.\<close>

definition same_work :: "contract_work option \<Rightarrow> string \<Rightarrow> contract_stage \<Rightarrow> bool" where
  "same_work found i stage \<longleftrightarrow> (case found of None \<Rightarrow> False | Some v \<Rightarrow> cw_item v = i \<and> cw_stage v = stage)"

section \<open>Promoting and releasing\<close>

definition promotion_offered :: "'u desktop \<Rightarrow> ui_observation \<Rightarrow> ('u, 's, bool) operation" where
  "promotion_offered D o' =
     (if ui_scene o' = ContractReviewResult
      then seq (optional_target D o' ''review_result_promote'') (\<lambda>found. ret (found \<noteq> None)) else ret False)"

definition promotion_short :: "commitment \<Rightarrow> contract_work \<Rightarrow> bool \<Rightarrow> bool" where
  "promotion_short c item offered \<longleftrightarrow> c = Promote \<and> cw_progress item < cw_minimum item \<and> \<not> offered"

text \<open>A release that was completed before is closed from its result, without input.\<close>

definition release_fields :: "entity \<Rightarrow> (ui_exn, rat \<times> rat \<times> rat) result" where
  "release_fields e = rbind (entity_number e ''income'') (\<lambda>income. rbind (entity_number e ''final_result'') (\<lambda>final.
     rbind (entity_number e ''reputation_change'') (\<lambda>change. ok (income, final, change))))"

definition reconcile_release ::
  "'u desktop \<Rightarrow> contract_workflow \<Rightarrow> game_snapshot \<Rightarrow> entity \<Rightarrow> ('u, contract_result) contract_operation" where
  "reconcile_release D w s e =
     seq (lift_result (entity_number e ''income'')) (\<lambda>income.
     seq (lift_result (entity_number e ''final_result'')) (\<lambda>final.
     seq (lift_result (entity_number e ''late_penalty'')) (\<lambda>late.
     seq (lift_result (entity_number e ''reputation_change'')) (\<lambda>change.
     case (single_number s ''finances'' ''cash'', single_number s ''company'' ''business_reputation'',
           as_str (jget (en_values e) ''status'')) of
       (Some cash, Some reputation, Some (c # cs)) \<Rightarrow>
         seq (read_clock D) (\<lambda>time.
         let w' = w\<lparr>kw_completed := Some time, kw_sequence := gs_sequence s, kw_stage := StageCompleted,
               kw_approval := None, kw_status := ContractCompleted, kw_updated := time\<rparr>;
             detail = ''Recovered an already-completed exact contract result without retrying release; status='' @
               (c # cs) @ ''; payout=$'' @ money_text income @ ''; final_result=$'' @ money_text final @
               ''; late_penalty=$'' @ money_text late @ ''; cash=$'' @ money_text cash @ ''; reputation='' @
               decimal_text reputation @ '' (result change='' @ decimal_text change @ '').'' in
         seq (store_contract w') (\<lambda>_.
         seq (append_contract D w' ''release_reconciled'' (gs_sequence s) (kw_stage w) StageCompleted None False True detail) (\<lambda>_.
         contract_result_of D (Some w') 0 True False detail)))
     | _ \<Rightarrow> throw (UIVerificationError
         ''completed contract result lacks current cash, reputation, or deadline outcome'')))))"

text \<open>What a release must have achieved: a result, and the payout as the difference in cash\<close>

definition release_outcome ::
  "contract_workflow \<Rightarrow> contract_workflow \<Rightarrow> rat option \<Rightarrow> rat option \<Rightarrow> game_snapshot \<Rightarrow> (ui_exn, string) result" where
  "release_outcome w updated cash_before reputation_before s =
     rbind (matching_result s w) (\<lambda>found.
     case found of
       None \<Rightarrow> raise (UIVerificationError (if kw_status updated \<noteq> ContractCompleted
         then ''release input did not produce a completed result; no retry attempted''
         else ''completed contract result is unavailable''))
     | Some e \<Rightarrow>
       rbind (release_fields e) (\<lambda>(income, final, change).
       let cash_after = single_number s ''finances'' ''cash'';
           reputation_after = single_number s ''company'' ''business_reputation'' in
       case (cash_before, cash_after) of
         (Some before, Some after) \<Rightarrow>
           if \<bar>dsub (dsub after before) income\<bar> > 2 / 100
           then raise (UIVerificationError ''release cash delta does not match the completed contract payout'')
           else (case (reputation_before, reputation_after) of
               (Some _, Some reputation) \<Rightarrow>
                 rbind (entity_number e ''late_penalty'') (\<lambda>late.
                 case as_str (jget (en_values e) ''status'') of
                   Some (c # cs) \<Rightarrow> ok ('' status='' @ (c # cs) @ ''; payout=$'' @ money_text income @
                     ''; final_result=$'' @ money_text final @ ''; late_penalty=$'' @ money_text late @ ''; cash=$'' @
                     money_text after @ ''; reputation='' @ decimal_text reputation @ '' (result change='' @
                     decimal_text change @ '')'')
                 | _ \<Rightarrow> raise (UIVerificationError ''release deadline outcome is unavailable''))
             | _ \<Rightarrow> raise (UIVerificationError ''release reputation outcome is not observed''))
       | _ \<Rightarrow> raise (UIVerificationError ''release cash outcome is not observed'')))"

definition commitment_title :: "commitment \<Rightarrow> string" where
  "commitment_title c = (case c of Accept \<Rightarrow> ''Accept'' | DeadlineRisk \<Rightarrow> ''Deadline_Risk'' | Review \<Rightarrow> ''Review''
     | Promote \<Rightarrow> ''Promote'' | Release \<Rightarrow> ''Release'')"

text \<open>The target of the commitment, perhaps after the controls of the work item have been opened\<close>

definition reach_commitment ::
  "'u desktop \<Rightarrow> commitment \<Rightarrow> string \<Rightarrow> contract_workflow \<Rightarrow> string \<Rightarrow> contract_work \<Rightarrow> ui_observation \<Rightarrow>
     ('u, ui_observation \<times> contract_workflow \<times> visual_target \<times> nat) contract_operation" where
  "reach_commitment D c suffix w i item fresh =
     seq (optional_target D fresh (if c = Promote \<and> ui_scene fresh = ContractReviewResult
        then ''review_result_promote'' else work_target i suffix)) (\<lambda>found.
     case found of
       Some t \<Rightarrow> ret (fresh, w, t, 0)
     | None \<Rightarrow>
       seq (open_work_item D w i item fresh ''contract identity, stage, or progress changed while opening its controls'')
         (\<lambda>(opened, w').
       seq (find_target D ''contract'' opened (work_target i suffix)) (\<lambda>t. ret (opened, w', t, 1))))"

text \<open>The click of the commitment, and of its confirmation if a dialog opens\<close>

definition click_commitment ::
  "'u desktop \<Rightarrow> commitment \<Rightarrow> contract_workflow \<Rightarrow> contract_work \<Rightarrow> contract_approval \<Rightarrow> ui_observation \<Rightarrow> visual_target \<Rightarrow>
     ('u, ui_observation \<times> nat) contract_operation" where
  "click_commitment D c w item a o' t =
     seq (click_target D contract_settle o' t (ca_summary a)) (\<lambda>after.
     if ui_modal after \<noteq> ModalBlocking then ret (after, 1)
     else seq (lift_result (matching_work (ui_after after) w)) (\<lambda>found.
       if \<not> same_work found (cw_item item) (cw_stage item)
       then throw (UIVerificationError ''contract identity or stage changed before the commitment confirmation'')
       else seq (press D after ''confirm_dialog_yes''
           (''confirm the already-approved '' @ commitment_text c @ '' commitment'')) (\<lambda>confirmed. ret (confirmed, 2))))"

text \<open>The commitment once it has been approved: look again, reach the control, click, and verify\<close>

definition perform_commitment ::
  "'u desktop \<Rightarrow> commitment \<Rightarrow> string \<Rightarrow> contract_workflow \<Rightarrow> string \<Rightarrow> contract_work \<Rightarrow> contract_approval \<Rightarrow> ui_observation \<Rightarrow>
     ('u, contract_result) contract_operation" where
  "perform_commitment D c suffix w i item a before =
     seq (observe D) (\<lambda>fresh.
     seq (lift_result (require_continuity before fresh)) (\<lambda>_.
     seq (lift_result (require_actionable ''contracts'' fresh)) (\<lambda>_.
     if \<not> is_paused fresh
     then throw (UIValidationError (''game resumed while '' @ commitment_text c @ '' approval was pending; no input was sent''))
     else
     seq (synchronize_now D w fresh) (\<lambda>current.
     seq (lift_result (matching_work (ui_after fresh) current)) (\<lambda>found.
     case found of
       None \<Rightarrow> throw (UIValidationError (''contract work changed while '' @ commitment_text c @ '' approval was pending''))
     | Some fresh_item \<Rightarrow>
       if \<not> same_work found (cw_item item) (cw_stage item)
       then throw (UIValidationError (''contract work changed while '' @ commitment_text c @ '' approval was pending''))
       else
       seq (promotion_offered D fresh) (\<lambda>offered.
       if promotion_short c fresh_item offered
       then throw (UIValidationError ''promotion eligibility changed while approval was pending'')
       else
       seq (reach_commitment D c suffix current (case kw_item current of None \<Rightarrow> i | Some j \<Rightarrow> j) fresh_item fresh)
         (\<lambda>(seen, reached, t, opened).
       let s = ui_after seen; cash = single_number s ''finances'' ''cash'';
           reputation = single_number s ''company'' ''business_reputation'' in
       seq (click_commitment D c reached fresh_item a seen t) (\<lambda>(after, clicks).
       seq (synchronize_now D reached after) (\<lambda>updated.
       if c = Promote \<and> kw_stage updated = cw_stage item
       then throw (UIVerificationError ''promotion input was not verified by a stage transition'')
       else
       seq (if c \<noteq> Release then ret (updated, [])
            else seq (lift_result (release_outcome reached updated cash reputation (ui_after after))) (\<lambda>detail.
              seq (read_clock D) (\<lambda>completed. seq (read_clock D) (\<lambda>time.
              ret (updated\<lparr>kw_status := ContractCompleted, kw_completed := Some completed, kw_updated := time\<rparr>, detail)))))
         (\<lambda>(final, detail).
       seq (store_contract final) (\<lambda>_.
       seq (append_contract D final (commitment_text c @ ''_completed'') (gs_sequence (ui_after after)) (cw_stage item)
         (kw_stage final) (Some (ca_summary a)) True True
         (''visible work-item commitment verified by fresh semantic lifecycle and result state'' @ detail)) (\<lambda>_.
       contract_result_of D (Some final) (opened + clicks) True False
         (commitment_title c @ '' completed through the visible UI and verified semantically.'' @ detail)))))))))))))"

definition commit_work_item_action ::
  "'u desktop \<Rightarrow> commitment \<Rightarrow> string \<Rightarrow> bool \<Rightarrow> bool \<Rightarrow> contract_workflow \<Rightarrow> ('u, contract_result) contract_operation" where
  "commit_work_item_action D c suffix provider dry_run w =
     seq (observe D) (\<lambda>before.
     seq (lift_result (require_actionable ''contracts'' before)) (\<lambda>_.
     if \<not> is_paused before
     then throw (UIValidationError (''pause the game before '' @ commitment_text c @ ''; no commitment input was sent''))
     else
     seq (synchronize_now D w before) (\<lambda>current.
     seq (lift_result (matching_work (ui_after before) current)) (\<lambda>found.
     seq (lift_result (if found = None \<and> c = Release then matching_result (ui_after before) current else ok None)) (\<lambda>completed.
     case completed of
       Some e \<Rightarrow> reconcile_release D current (ui_after before) e
     | None \<Rightarrow> (case (found, kw_item current) of
         (Some item, Some i) \<Rightarrow>
           seq (promotion_offered D before) (\<lambda>offered.
           if promotion_short c item offered
           then throw (UIValidationError (''promotion rejected: observed progress '' @ decimal_text (cw_progress item) @
             '' is below the contract minimum '' @ decimal_text (cw_minimum item)))
           else
           seq (request_commitment D current c 0 None) (\<lambda>(waiting, a).
           if dry_run \<or> \<not> provider then contract_result_of D (Some waiting) 0 False True (ca_summary a)
           else seq (decide_commitment D waiting a) (\<lambda>decided.
             if kw_status decided = ContractBlocked
             then contract_result_of D (Some decided) 0 False False (commitment_title c @ '' was denied; no input was sent.'')
             else perform_commitment D c suffix decided i item a before)))
       | _ \<Rightarrow> throw (UIValidationError ''the exact active contract work item is unavailable'')))))))"

definition promote_contract :: "'u desktop \<Rightarrow> bool \<Rightarrow> bool \<Rightarrow> contract_workflow \<Rightarrow> ('u, contract_result) contract_operation" where
  "promote_contract D provider dry_run w = commit_work_item_action D Promote ''promote'' provider dry_run w"

definition release_contract :: "'u desktop \<Rightarrow> bool \<Rightarrow> bool \<Rightarrow> contract_workflow \<Rightarrow> ('u, contract_result) contract_operation" where
  "release_contract D provider dry_run w = commit_work_item_action D Release ''release'' provider dry_run w"

section \<open>Reviewing\<close>

definition review_open_effect :: string where
  "review_open_effect = ''open exact contract review setup''"

text \<open>Opening the review window: where it ends up, the workflow, the gestures, and whether it was open already\<close>

definition review_setup ::
  "'u desktop \<Rightarrow> bool \<Rightarrow> contract_workflow \<Rightarrow> contract_work \<Rightarrow> string \<Rightarrow> ui_observation \<Rightarrow>
     ('u, contract_result + ui_observation \<times> contract_workflow \<times> nat \<times> bool) contract_operation" where
  "review_setup D dry_run w item i before =
     (if ui_scene before = ContractReviewSetup then ret (Inr (before, w, 0, True))
      else
      seq (optional_target D before (work_target i ''review'')) (\<lambda>found.
      seq (case found of
          Some t \<Rightarrow> ret (Inr (before, w, t, 0))
        | None \<Rightarrow>
          if dry_run
          then seq (find_target D ''contract'' before (work_target i ''open'')) (\<lambda>_.
            seq (contract_result_of D (Some w) 0 False True
              (''Dry run: would open the exact contract work-item controls before the safe review action. '' @
               ''No input was sent.'')) (\<lambda>r. ret (Inl r)))
          else seq (open_work_item D w i item before
              ''contract identity, stage, or progress changed while opening review controls'') (\<lambda>(opened, w').
            seq (find_target D ''contract'' opened (work_target i ''review'')) (\<lambda>t. ret (Inr (opened, w', t, 1))))) (\<lambda>ready.
      case ready of
        Inl r \<Rightarrow> ret (Inl r)
      | Inr (seen, w', t, gestures) \<Rightarrow>
        if dry_run
        then seq (contract_result_of D (Some w') 0 False True
          (''Dry run: the current frame exposes a safe review control; opening the review configuration would be '' @
           ''the next reversible gesture. No input was sent.'')) (\<lambda>r. ret (Inl r))
        else seq (click_target D contract_settle seen t review_open_effect) (\<lambda>setup_seen.
          if ui_scene setup_seen \<noteq> ContractReviewSetup
          then throw (UIVerificationError ''the review control did not open the observed review configuration'')
          else seq (synchronize_now D w' setup_seen) (\<lambda>w''. ret (Inr (setup_seen, w'', gestures + 1, False)))))))"

definition more_reviews :: "contract_work \<Rightarrow> contract_work option \<Rightarrow> bool" where
  "more_reviews before after = (case after of None \<Rightarrow> False
     | Some v \<Rightarrow> (case (cw_reviews before, cw_reviews v) of (Some m, Some n) \<Rightarrow> m < n | _ \<Rightarrow> False))"

text \<open>The review once its cost and configuration have been approved\<close>

definition perform_review ::
  "'u desktop \<Rightarrow> contract_workflow \<Rightarrow> string \<Rightarrow> contract_work \<Rightarrow> contract_approval \<Rightarrow> rat \<Rightarrow> string \<Rightarrow> ui_observation \<Rightarrow> nat \<Rightarrow>
     ('u, contract_result) contract_operation" where
  "perform_review D w i item a cost configuration setup_seen gestures =
     seq (observe D) (\<lambda>fresh.
     seq (lift_result (require_continuity setup_seen fresh)) (\<lambda>_.
     seq (lift_result (require_actionable ''contracts'' fresh)) (\<lambda>_.
     if ui_scene fresh \<noteq> ContractReviewSetup
     then throw (UIValidationError ''review configuration closed while approval was pending; no review input was sent'')
     else
     seq (lift_result (review_cost (ui_after fresh))) (\<lambda>fresh_cost.
     seq (lift_result (review_configuration (ui_after fresh))) (\<lambda>fresh_configuration.
     if fresh_cost \<noteq> cost \<or> fresh_configuration \<noteq> configuration
     then throw (UIValidationError ''review cost or configuration changed while approval was pending'')
     else
     seq (synchronize_now D w fresh) (\<lambda>current.
     seq (lift_result (matching_work (ui_after fresh) current)) (\<lambda>found.
     if \<not> same_work found i (cw_stage item)
     then throw (UIValidationError ''contract work changed while review approval was pending'')
     else
     seq (press D fresh ''commit_contract_review'' (ca_summary a)) (\<lambda>after.
     seq (synchronize_now D current after) (\<lambda>updated.
     seq (lift_result (matching_work (ui_after after) updated)) (\<lambda>item_after.
     seq (lift_result (matching_review_work (ui_after after) i)) (\<lambda>review_work.
     if review_work = None \<and> \<not> more_reviews item item_after
     then throw (UIVerificationError
       ''review commitment produced neither linked review work nor an increased review count'')
     else
     seq (store_contract updated) (\<lambda>_.
     seq (append_contract D updated ''review_started'' (gs_sequence (ui_after after)) (cw_stage item) (kw_stage updated)
       (Some (ca_summary a)) True True (''review configuration '' @ configuration @ ''; observed one-time cost $'' @
         money_text cost @ ''; linked_review_work='' @ py_repr (JBool (review_work \<noteq> None)))) (\<lambda>_.
     contract_result_of D (Some updated) (gestures + 1) True False
       (''Review started and verified; configuration '' @ configuration @ ''; one-time cost $'' @ money_text cost @
        ''.''))))))))))))))"

definition approve_review ::
  "'u desktop \<Rightarrow> bool \<Rightarrow> contract_workflow \<Rightarrow> string \<Rightarrow> contract_work \<Rightarrow> ui_observation \<Rightarrow> nat \<Rightarrow> bool \<Rightarrow>
     ('u, contract_result) contract_operation" where
  "approve_review D provider w i item setup_seen gestures existing =
     seq (store_contract w) (\<lambda>_.
     seq (append_contract D w (if existing then ''review_setup_resumed'' else ''review_setup_opened'')
       (gs_sequence (ui_after setup_seen)) (cw_stage item) (kw_stage w) (if existing then None else Some review_open_effect)
       (\<not> existing) True ''fresh review setup was observed before any spending approval'') (\<lambda>_.
     seq (lift_result (review_cost (ui_after setup_seen))) (\<lambda>cost.
     seq (lift_result (review_configuration (ui_after setup_seen))) (\<lambda>configuration.
     seq (request_commitment D w Review cost (Some configuration)) (\<lambda>(waiting, a).
     if \<not> provider then contract_result_of D (Some waiting) gestures False True (ca_summary a)
     else seq (decide_commitment D waiting a) (\<lambda>decided.
       if kw_status decided = ContractBlocked
       then contract_result_of D (Some decided) gestures False False
         ''Review spending was denied; the configuration was opened but no review was started.''
       else perform_review D decided i item a cost configuration setup_seen gestures))))))"

definition review_contract :: "'u desktop \<Rightarrow> bool \<Rightarrow> bool \<Rightarrow> contract_workflow \<Rightarrow> ('u, contract_result) contract_operation" where
  "review_contract D provider dry_run w =
     seq (observe D) (\<lambda>before.
     seq (lift_result (require_actionable ''contracts'' before)) (\<lambda>_.
     if \<not> is_paused before
     then throw (UIValidationError ''pause the game before opening a contract review; no input was sent'')
     else
     seq (synchronize_now D w before) (\<lambda>current.
     seq (lift_result (matching_work (ui_after before) current)) (\<lambda>found.
     case (found, kw_item current) of
       (Some item, Some i) \<Rightarrow>
         if cw_stage item \<noteq> Alpha \<and> cw_stage item \<noteq> Beta
         then throw (UIValidationError ''review is supported only when the observed contract is in alpha or beta'')
         else seq (review_setup D dry_run current item i before) (\<lambda>opened.
           case opened of
             Inl r \<Rightarrow> ret r
           | Inr (setup_seen, reached, gestures, existing) \<Rightarrow>
             approve_review D provider reached i item setup_seen gestures existing)
     | _ \<Rightarrow> throw (UIValidationError ''the exact active contract work item is unavailable'')))))"

section \<open>Advancing the game\<close>

definition preflight_choice :: "scene \<Rightarrow> (string \<times> string) option" where
  "preflight_choice sc = (case sc of
       ContractBrowser \<Rightarrow> Some (''close_contract_browser'', ''close the Contracts window before bounded progression'')
     | FurniturePlacement \<Rightarrow> Some (''open_build_mode'', ''cancel the furniture preview before bounded progression'')
     | BuildMode \<Rightarrow> Some (''open_build_mode'', ''close Build mode before bounded progression'')
     | _ \<Rightarrow> None)"

text \<open>At most three gestures that close a window\<close>

fun preflight ::
  "nat \<Rightarrow> 'u desktop \<Rightarrow> bool \<Rightarrow> contract_workflow \<Rightarrow> contract_work \<Rightarrow> ui_observation \<Rightarrow> nat \<Rightarrow>
     ('u, contract_result + ui_observation \<times> contract_workflow \<times> contract_work \<times> nat) contract_operation" where
  "preflight steps D dry_run w item o' gestures =
     (case preflight_choice (ui_scene o') of
        None \<Rightarrow> ret (Inr (o', w, item, gestures))
      | Some (i, effect) \<Rightarrow>
        (case steps of
           0 \<Rightarrow> throw (UIVerificationError ''bounded contract preflight exceeded three reversible UI gestures'')
         | Suc remaining \<Rightarrow>
           if dry_run
           then seq (contract_result_of D (Some w) 0 False True (''Dry run: would '' @ effect @ ''.'')) (\<lambda>r. ret (Inl r))
           else seq (press D o' i effect) (\<lambda>after.
             if ui_scene after \<noteq> GameplayPaused \<and> ui_scene after \<noteq> BuildMode
             then throw (UIVerificationError
               ''reversible preflight did not reach paused gameplay or the next expected Build-mode step'')
             else seq (synchronize_now D w after) (\<lambda>w'.
               seq (lift_result (matching_work (ui_after after) w')) (\<lambda>found.
               case found of
                 None \<Rightarrow> throw (UIVerificationError ''contract work changed while closing the Contracts window'')
               | Some v \<Rightarrow>
                 if cw_item v \<noteq> cw_item item
                 then throw (UIVerificationError ''contract work changed while closing the Contracts window'')
                 else preflight remaining D dry_run w' v after (gestures + 1))))))"

definition opt_decimal_text :: "rat option \<Rightarrow> string" where
  "opt_decimal_text v = (case v of None \<Rightarrow> ''None'' | Some x \<Rightarrow> decimal_text x)"

definition finish_review ::
  "'u desktop \<Rightarrow> bool \<Rightarrow> contract_workflow \<Rightarrow> contract_work \<Rightarrow> entity \<Rightarrow> ui_observation \<Rightarrow> nat \<Rightarrow>
     ('u, contract_result) contract_operation" where
  "finish_review D dry_run w item review before gestures =
     seq (find_target D ''contract'' before (work_target (en_id review) ''finish-review'')) (\<lambda>t.
     if dry_run
     then contract_result_of D (Some w) gestures False True
       ''Dry run: would finish the exact completed review and observe its result; no input was sent.''
     else
     seq (click_target D contract_settle before t (''finish the completed review of '' @ str_repr (kw_name w))) (\<lambda>after.
     seq (synchronize_now D w after) (\<lambda>updated.
     seq (lift_result (matching_work (ui_after after) updated)) (\<lambda>item_after.
     seq (lift_result (completed_review_work (ui_after after) (cw_item item))) (\<lambda>review_after.
     let score_changed = (case item_after of None \<Rightarrow> False
           | Some v \<Rightarrow> cw_score v \<noteq> None \<and> cw_score v \<noteq> cw_score item) in
     if review_after \<noteq> None \<and> \<not> more_reviews item item_after \<and> \<not> score_changed
     then throw (UIVerificationError (''finishing the completed review produced no verified review outcome; '' @
       ''the finish input will not be retried''))
     else
     seq (store_contract updated) (\<lambda>_.
     seq (append_contract D updated ''review_finished'' (gs_sequence (ui_after after)) (cw_stage item) (kw_stage updated)
       (Some (''finish completed review work item '' @ en_id review)) True True
       (''linked_review_removed='' @ py_repr (JBool (review_after = None)) @ ''; reviews_done='' @
        (case Option.bind item_after cw_reviews of None \<Rightarrow> ''None'' | Some n \<Rightarrow> int_text n) @ ''; review_score='' @
        opt_decimal_text (Option.bind item_after cw_score))) (\<lambda>_.
     contract_result_of D (Some updated) (gestures + 1) True True
       ''Completed review was finished and its outcome was verified; no game time was advanced.'')))))))"

text \<open>The approval of going on near the deadline\<close>

definition approve_deadline ::
  "'u desktop \<Rightarrow> bool \<Rightarrow> contract_workflow \<Rightarrow> contract_work \<Rightarrow> ui_observation \<Rightarrow>
     ('u, contract_result + ui_observation \<times> contract_workflow \<times> contract_work) contract_operation" where
  "approve_deadline D provider w item before =
     (if cw_started item \<noteq> Some False \<and> 5 < cw_days item then ret (Inr (before, w, item))
      else
      seq (request_commitment D w DeadlineRisk 0 None) (\<lambda>(waiting, a).
      if \<not> provider
      then seq (contract_result_of D (Some waiting) 0 False True
        ''Deadline risk requires separate approval; no time-control input was sent.'') (\<lambda>r. ret (Inl r))
      else
      seq (decide_commitment D waiting a) (\<lambda>decided.
      if kw_status decided = ContractBlocked
      then seq (contract_result_of D (Some decided) 0 False False
        ''Deadline-risk continuation was denied; no time-control input was sent.'') (\<lambda>r. ret (Inl r))
      else
      seq (observe D) (\<lambda>fresh.
      seq (lift_result (require_continuity before fresh)) (\<lambda>_.
      seq (lift_result (require_actionable ''contracts'' fresh)) (\<lambda>_.
      if \<not> is_paused fresh
      then throw (UIValidationError ''game resumed while deadline-risk approval was pending; no input was sent'')
      else
      seq (synchronize_now D decided fresh) (\<lambda>current.
      seq (lift_result (matching_work (ui_after fresh) current)) (\<lambda>found.
      case found of
        None \<Rightarrow> throw (UIValidationError ''contract work changed while deadline-risk approval was pending'')
      | Some v \<Rightarrow>
        if cw_item v \<noteq> cw_item item
        then throw (UIValidationError ''contract work changed while deadline-risk approval was pending'')
        else ret (Inr (fresh, current, v))))))))))"

definition activate_effect :: string where
  "activate_effect = ''activate the accepted contract work item''"

text \<open>Unpausing the work item of a contract that has not been started\<close>

definition activate_work ::
  "'u desktop \<Rightarrow> bool \<Rightarrow> contract_workflow \<Rightarrow> contract_work \<Rightarrow> ui_observation \<Rightarrow> nat \<Rightarrow>
     ('u, contract_result + ui_observation \<times> contract_workflow \<times> contract_work \<times> nat) contract_operation" where
  "activate_work D dry_run w item before gestures =
     (if cw_started item \<noteq> Some False \<or> \<not> cw_paused item then ret (Inr (before, w, item, gestures))
      else if dry_run
      then seq (contract_result_of D (Some w) gestures False True
        (''Dry run: would activate the exact accepted work item and begin its approved deadline; '' @
         ''no project or time-control input was sent.'')) (\<lambda>r. ret (Inl r))
      else
      seq (press D before (work_target (cw_item item) ''toggle-pause'') activate_effect) (\<lambda>activated.
      seq (synchronize_now D w activated) (\<lambda>w'.
      seq (lift_result (matching_work (ui_after activated) w')) (\<lambda>found.
      case found of
        None \<Rightarrow> throw (UIVerificationError ''the accepted contract work identity changed during activation'')
      | Some v \<Rightarrow>
        if cw_item v \<noteq> cw_item item
        then throw (UIVerificationError ''the accepted contract work identity changed during activation'')
        else if cw_paused v
        then throw (UIVerificationError (''the verified project-level activation input did not unpause the work item; '' @
          ''it will not be retried''))
        else
        seq (store_contract w') (\<lambda>_.
        seq (append_contract D w' ''contract_work_enabled'' (gs_sequence (ui_after activated)) (cw_stage item) (cw_stage v)
          (Some activate_effect) True True (''project-level activation unpaused the exact work item; the deadline '' @
           ''remains pending until the first observed employee work'')) (\<lambda>_.
        ret (Inr (activated, w', v, gestures + 1))))))))"

text \<open>A click on a time control, after which the workflow is synchronised and stored\<close>

definition time_control ::
  "'u desktop \<Rightarrow> contract_workflow \<Rightarrow> ui_observation \<Rightarrow> string \<Rightarrow> string \<Rightarrow> contract_stage \<Rightarrow> (ui_observation \<Rightarrow> bool) \<Rightarrow> string \<Rightarrow>
     ('u, ui_observation \<times> contract_workflow) contract_operation" where
  "time_control D w o' i effect stage achieved detail =
     seq (press D o' i effect) (\<lambda>after.
     seq (synchronize_now D w after) (\<lambda>w'.
     seq (store_contract w') (\<lambda>_.
     seq (append_contract D w' ''ui_gesture'' (gs_sequence (ui_after after)) stage (kw_stage w') (Some effect) True
       (achieved after) detail) (\<lambda>_. ret (after, w')))))"

definition pause_interval ::
  "'u desktop \<Rightarrow> contract_workflow \<Rightarrow> ui_observation \<Rightarrow> ('u, ui_observation \<times> contract_workflow \<times> nat) contract_operation" where
  "pause_interval D w o' =
     (if is_paused o' then ret (o', w, 0)
      else seq (lift_result (matching_work (ui_after o') w)) (\<lambda>found.
        seq (time_control D w o' ''pause_button'' ''pause after bounded contract work''
          (case found of None \<Rightarrow> kw_stage w | Some v \<Rightarrow> cw_stage v) is_paused
          ''fresh synchronized paused state followed the pause gesture'') (\<lambda>(after, w'). ret (after, w', 1))))"

definition progress_text :: "contract_work \<Rightarrow> contract_work \<Rightarrow> string \<Rightarrow> string \<Rightarrow> string" where
  "progress_text before after sep1 sep2 =
     ''progress '' @ decimal_text (cw_progress before) @ ''->'' @ decimal_text (cw_progress after) @ sep1 @ ''bugs '' @
     opt_decimal_text (cw_bugs before) @ ''->'' @ opt_decimal_text (cw_bugs after) @ sep2 @ ''fixed '' @
     opt_decimal_text (cw_fixed before) @ ''->'' @ opt_decimal_text (cw_fixed after)"

text \<open>The report of an interval that is over\<close>

definition report_interval ::
  "'u desktop \<Rightarrow> contract_workflow \<Rightarrow> contract_work \<Rightarrow> ui_observation \<Rightarrow> nat \<Rightarrow> ('u, contract_result) contract_operation" where
  "report_interval D w item o' gestures =
     seq (if kw_sequence w < gs_sequence (ui_after o') then synchronize_now D w o' else ret w) (\<lambda>updated.
     seq (lift_result (matching_work (ui_after o') updated)) (\<lambda>found.
     case found of
       None \<Rightarrow> throw (UIVerificationError ''contract work disappeared without a completion result'')
     | Some v \<Rightarrow>
       if cw_started item = Some False \<and> cw_started v \<noteq> Some True
       then throw (UIVerificationError (''the bounded interval did not produce the first observed employee work, so the '' @
         ''contract deadline is still unstarted''))
       else
       let changed = (cw_progress v \<noteq> cw_progress item \<or> cw_bugs v \<noteq> cw_bugs item \<or> cw_fixed v \<noteq> cw_fixed item \<or>
             cw_stage v \<noteq> cw_stage item) in
       seq (store_contract updated) (\<lambda>_.
       seq (append_contract D updated ''work_interval_verified'' (gs_sequence (ui_after o')) (cw_stage item) (cw_stage v)
         None False True (progress_text item v ''; '' ''; '')) (\<lambda>_.
       contract_result_of D (Some updated) gestures True (\<not> changed)
         (''Bounded work interval finished paused; '' @ progress_text item v '', '' '', '' @ ''.'')))))"

definition run_contract_interval ::
  "'u desktop \<Rightarrow> rat \<Rightarrow> contract_workflow \<Rightarrow> contract_work \<Rightarrow> ui_observation \<Rightarrow> nat \<Rightarrow> ('u, contract_result) contract_operation" where
  "run_contract_interval D seconds w item before gestures =
     seq (if is_paused before
          then seq (time_control D w before ''resume_button'' ''resume bounded contract work'' (cw_stage item)
            (\<lambda>after. \<not> is_paused after) ''fresh synchronized running state followed the resume gesture'') (\<lambda>(after, w').
            ret (w', 1))
          else ret (w, 0)) (\<lambda>(running, resumed).
     seq (keep_foreground D) (\<lambda>_.
     seq (settle_for D seconds) (\<lambda>_.
     seq (observe D) (\<lambda>o'.
     seq (pause_interval D running o') (\<lambda>(ended, paused, stopped).
     report_interval D paused item ended (gestures + resumed + stopped))))))"

definition advance_contract ::
  "'u desktop \<Rightarrow> rat \<Rightarrow> bool \<Rightarrow> bool \<Rightarrow> contract_workflow \<Rightarrow> ('u, contract_result) contract_operation" where
  "advance_contract D seconds provider dry_run w =
     (if seconds \<le> 0 \<or> 30 < seconds
      then throw (UIValidationError ''contract run interval must be between 0 and 30 seconds'')
      else
      seq (observe D) (\<lambda>first.
      seq (synchronize_now D w first) (\<lambda>current.
      seq (lift_result (matching_work (ui_after first) current)) (\<lambda>found.
      case found of
        None \<Rightarrow> throw (UIValidationError ''the active contract work item is not observed'')
      | Some item \<Rightarrow>
        seq (preflight 3 D dry_run current item first 0) (\<lambda>ready.
        case ready of
          Inl r \<Rightarrow> ret r
        | Inr (before, w1, item1, gestures) \<Rightarrow>
          if ui_scene before \<noteq> GameplayPaused
          then throw (UIValidationError
            ''bounded contract progression requires paused gameplay after reversible preflight'')
          else
          seq (lift_result (completed_review_work (ui_after before) (cw_item item1))) (\<lambda>review.
          case review of
            Some e \<Rightarrow> finish_review D dry_run w1 item1 e before gestures
          | None \<Rightarrow>
            seq (approve_deadline D provider w1 item1 before) (\<lambda>decision.
            case decision of
              Inl r \<Rightarrow> ret r
            | Inr (seen, w2, item2) \<Rightarrow>
              seq (activate_work D dry_run w2 item2 seen gestures) (\<lambda>activated.
              case activated of
                Inl r \<Rightarrow> ret r
              | Inr (start, w3, item3, sent) \<Rightarrow>
                if dry_run
                then contract_result_of D (Some w3) 0 False True (''Dry run: would resume for at most '' @
                  float_g seconds @ '' real seconds, then pause and re-observe.'')
                else run_contract_interval D seconds w3 item3 start sent))))))))"

end
