(* ===== verification/ContractSafety.thy ===== *)
theory ContractSafety
  imports ContractOperator OperatorInvariants
begin

text \<open>
  Safety of the contract operator in terms of its trace: dry runs send nothing, the commitments of promoting, releasing and
  reviewing follow an approval, and the acceptance is clicked only directly after an observation of exactly the approved
  terms.
\<close>

section \<open>Operations without a trace\<close>

named_theorems silent_contract "operations of the contract operator that leave no trace"

lemma silent_result [silent_contract, simp]: "silent (contract_result_of D w n v p m)"
  unfolding contract_result_of_def by (intro silent_seq silent_if silent_basic)

lemma silent_store [silent_contract, simp]: "silent (store_contract w)"
  by (simp add: store_contract_def)

lemma silent_record [silent_contract, simp]:
  "silent (record_event D w number kind bridge before after action sent verified detail)"
  unfolding record_event_def by (intro silent_seq silent_if silent_basic)

lemma silent_number [silent_contract, simp]: "silent (next_number w)"
  by (simp add: next_number_def)

lemma silent_append [silent_contract, simp]:
  "silent (append_contract D w kind bridge before after action sent verified detail)"
  unfolding append_contract_def by (intro silent_seq silent_number silent_record)

lemma silent_synchronize [silent_contract, simp]: "silent (synchronize_now D w o')"
  unfolding synchronize_now_def by (intro silent_seq silent_basic)

lemma silent_request [silent_contract, simp]: "silent (request_commitment D w c cost configuration)"
  unfolding request_commitment_def Let_def by (intro silent_seq silent_basic silent_store)

lemma silent_optional [silent_contract, simp]: "silent (optional_target D o' i)"
  unfolding optional_target_def
  by (auto split: list.split intro!: silent_seq silent_if)

lemma silent_offered [silent_contract, simp]: "silent (promotion_offered D o')"
  unfolding promotion_offered_def by (intro silent_if silent_seq silent_optional silent_basic)

lemma silent_reconcile [silent_contract, simp]: "silent (reconcile_release D w s e)"
  unfolding reconcile_release_def Let_def
  by (intro silent_seq silent_basic) (auto split: option.split list.split intro!: silent_seq)

lemma silent_accepted [silent_contract, simp]: "silent (already_accepted D w o' i n)"
  unfolding already_accepted_def Let_def by (intro silent_seq silent_option silent_contract silent_basic)

lemma silent_report [silent_contract, simp]: "silent (report_interval D w item o' n)"
  unfolding report_interval_def Let_def by (intro silent_seq silent_if silent_option silent_contract silent_basic)

lemmas stays_contract = silent_contract [THEN stays_silent]

section \<open>Any invariant of the trace\<close>

context permitted
begin

lemma press: "free i \<Longrightarrow> stays holds (press D o' i effect)"
  unfolding press_def by (intro rules) simp_all

lemma decide: "stays holds (decide_commitment D w a)"
  unfolding decide_commitment_def by (intro rules stays_contract)

lemma approve: "stays holds (approve_acceptance D provider dry_run w n)"
  unfolding approve_acceptance_def Let_def by (intro rules stays_contract decide)

lemma open_controls:
  assumes "free (work_target i ''open'')"
  shows "stays holds (open_work_item D w i item o' message)"
  unfolding open_work_item_def by (intro rules stays_contract press assms)

text \<open>An optional target that is found has the name it was looked up by.\<close>

lemma optional: "gives holds (optional_target D o' i) (\<lambda>found. \<forall>t. found = Some t \<longrightarrow> vt_id t = i)"
  unfolding optional_target_def
  by (intro gives_any stays_silent)
    (auto simp: silent_optional [unfolded optional_target_def] prog_defs filter_eq_Cons_iff
      split: list.split_asm if_split_asm prod.split_asm sum.split_asm)

lemma open_review:
  assumes "dry_run \<or> free (work_target i ''open'') \<and> free (work_target i ''review'')"
  shows "stays holds (review_setup D dry_run w item i o')"
proof -
  let ?ready = "\<lambda>v. case v of Inl r \<Rightarrow> True | Inr (seen, w', t, n) \<Rightarrow> vt_id t = work_target i ''review''"
  have target: "gives holds (find_target D ''contract'' seen (work_target i ''review''))
      (\<lambda>t. vt_id t = work_target i ''review'')" for seen
    by (rule gives_any [OF calm(6)]) (use find_target_id in blast)
  show ?thesis
    unfolding review_setup_def
    apply (intro stays_if stays_basic)
    apply (rule stays_gives [OF optional])
    apply (rule stays_gives [where R = ?ready])
    subgoal for found
      using assms
      by (cases found; simp only: option.case)
        (intro gives_if gives_stays_seq [OF calm(6)] gives_stays_seq [OF open_controls]
          gives_stays_seq [OF stays_contract(1)] gives_ret, auto split: prod.split intro!: gives_seq [OF target] gives_ret)
    subgoal for found ready
      using assms
      by (auto split: sum.split prod.split intro!: rules stays_contract click)
    done
qed

text \<open>Once every target is free, as after an approval\<close>

lemma commitment_after:
  assumes free: "\<And>i. free i"
  shows "stays holds (perform_commitment D c suffix w i item a o')"
proof -
  have reach: "stays holds (reach_commitment D c suffix w i item o')" for w i item o'
    unfolding reach_commitment_def by (intro rules stays_contract open_controls free)
  have click: "stays holds (click_commitment D c w item a o' t)" for w item o' t
    unfolding click_commitment_def by (intro rules stays_contract press free)
  show ?thesis
    unfolding perform_commitment_def Let_def by (intro rules stays_contract reach click)
qed

lemma review_after:
  assumes free: "\<And>i. free i"
  shows "stays holds (perform_review D w i item a cost configuration o' n)"
  unfolding perform_review_def by (intro rules stays_contract press free)

text \<open>Dry runs send no input at all, so they keep every such invariant.\<close>

lemma browse_dry: "stays holds (browse_cycles cycles D True o' n)"
  by (cases cycles; simp only: browse_cycles.simps) (intro rules stays_contract; simp)+

lemma approval_dry: "gives holds (approve_acceptance D provider True w n) (\<lambda>d. \<exists>r. d = Inl r)"
proof (rule gives_any [OF approve])
  fix world d world'
  assume "approve_acceptance D provider True w n world = (ok d, world')"
  then show "\<exists>r. d = Inl r"
    by (auto simp: approve_acceptance_def Let_def seq_ok ret_def split: if_split_asm prod.split_asm)
qed

lemma acceptance_dry: "stays holds (acceptance_cycles cycles D provider True w configuring o' n number)"
proof (cases cycles)
  case (Suc k)
  show ?thesis
    unfolding Suc acceptance_cycles.simps
  proof (intro stays_lift stays_cases stays_contract)
    fix step
    show "stays holds (case step of
        AcceptPress i effect configuring' \<Rightarrow> seq (find_target D ''contract'' o' i) (\<lambda>t.
          if True then contract_result_of D (Some w) n False True (''Dry run: would '' @ effect @ ''.'')
          else seq (acceptance_gesture D w o' t effect number) (\<lambda>(after, w').
            acceptance_cycles k D provider True w' configuring' after (n + 1) (number + 1)))
      | AcceptCommit \<Rightarrow> seq (approve_acceptance D provider True w n) (\<lambda>decision. case decision of Inl r \<Rightarrow> ret r
          | Inr agreed \<Rightarrow> go agreed))" for go
      by (cases step) (auto intro!: rules stays_contract stays_gives [OF approval_dry])
  qed
qed (simp add: stays_basic)

lemma commitment_dry: "stays holds (commit_work_item_action D c suffix provider True w)"
  unfolding commit_work_item_action_def by (intro rules stays_contract) simp_all

lemma advance_dry: "stays holds (advance_contract D seconds provider True w)"
proof -
  have deadline: "stays holds (approve_deadline D provider w item o')" for w item o'
    unfolding approve_deadline_def by (intro rules stays_contract decide)
  have preflight: "gives holds (preflight steps D True w item o' n) (\<lambda>r. True)" for steps w item o' n
    by (cases steps; subst preflight.simps; simp add: gives_def) (intro conjI rules stays_contract; simp)+
  have activate: "stays holds (activate_work D True w item o' n)" for w item o' n
    unfolding activate_work_def by (intro rules stays_contract) simp_all
  have review: "stays holds (finish_review D True w item e o' n)" for w item e o' n
    unfolding finish_review_def by (intro rules stays_contract) simp_all
  show ?thesis
    unfolding advance_contract_def
    by (intro rules stays_contract deadline preflight [unfolded gives_def, THEN conjunct1] activate review) simp_all
qed

end

section \<open>The approval of a commitment\<close>

lemma decide_yes:
  assumes "decide_commitment D w a world = (ok w', world')"
  shows "\<exists>b. ow_trace world' = Asked (ca_id a) b # ow_trace world \<and> (kw_status w' = ContractBlocked \<longleftrightarrow> \<not> b) \<and>
    (\<exists>time. resolve_approval time b w = ok w')"
proof -
  from assms obtain b time w1 w2 w3 where
    ask: "ask D (ca_id a) world = (ok b, w1)" and clock: "read_clock D w1 = (ok time, w2)" and
    res: "lift_result (resolve_approval time b w) w2 = (ok w', w3)" and store: "store_contract w' w3 = (ok (), world')"
    unfolding decide_commitment_def seq_ok ret_def by auto
  have "ow_trace w1 = Asked (ca_id a) b # ow_trace world"
    using ask by (auto simp: ask_def on_desktop_def split: prod.splits sum.splits)
  moreover have "ow_trace w2 = ow_trace w1" "ow_trace world' = ow_trace w3"
    using clock store silent_basic(1) silent_store unfolding silent_def by (metis snd_conv)+
  moreover from res have "resolve_approval time b w = ok w'" "w3 = w2" by (simp_all add: lift_result_def)
  moreover from this(1) have "kw_status w' = ContractBlocked \<longleftrightarrow> \<not> b"
    by (auto simp: resolve_approval_def split: option.split_asm if_split_asm)
  ultimately show ?thesis by metis
qed

text \<open>What comes after a no keeps to the free targets; what comes after a yes may send everything.\<close>

lemma decide_switch:
  assumes blocked: "\<And>w'. kw_status w' = ContractBlocked \<Longrightarrow> stays (unasked free) (f w')"
    and decided: "\<And>w'. kw_status w' \<noteq> ContractBlocked \<Longrightarrow> stays (approved free) (f w')"
  shows "stays (unasked free) (seq (decide_commitment D w a) f)"
proof -
  have status: "resolve_approval time b w = ok w' \<Longrightarrow> kw_status w' = ContractBlocked \<longleftrightarrow> \<not> b" for time b w'
    by (auto simp: resolve_approval_def split: option.split_asm if_split_asm)
  show ?thesis
    unfolding decide_commitment_def seq_push
    by (rule ask_switch; intro stays_seq [OF after_yes.calm(1)] stays_seq [OF before_yes.calm(1)] stays_lift)
      (auto simp: status intro!: after_yes.rules before_yes.rules stays_contract decided blocked)
qed

lemma commitment_follows: "stays (unasked free) (commit_work_item_action D c suffix provider dry_run w)"
  unfolding commit_work_item_action_def
  by (intro before_yes.rules stays_contract decide_switch stays_if after_yes.commitment_after after_yes.rules) simp_all

definition opens_review :: "string \<Rightarrow> bool" where
  "opens_review i \<longleftrightarrow> (\<exists>j. i = work_target j ''open'' \<or> i = work_target j ''review'')"

lemma opens_review_targets: "opens_review (work_target i ''open'')" "opens_review (work_target i ''review'')"
  "\<not> opens_review ''commit_contract_review''"
  by (auto simp: opens_review_def work_target_def)

lemma review_follows: "stays (unasked opens_review) (review_contract D provider dry_run w)"
proof -
  have approve: "stays (unasked opens_review) (approve_review D provider w i item o' n existing)" for w i item o' n existing
    unfolding approve_review_def
    by (intro before_yes.rules stays_contract decide_switch stays_if after_yes.review_after after_yes.rules) simp_all
  have "stays (unasked opens_review) (review_setup D dry_run w item i o')" for w item i o'
    by (rule before_yes.open_review) (simp add: opens_review_targets)
  then show ?thesis
    unfolding review_contract_def by (intro before_yes.rules stays_contract approve)
qed

text \<open>Advancing: the work item of a contract that has not been started is only activated after a yes.\<close>

definition not_activation :: "string \<Rightarrow> bool" where
  "not_activation i \<longleftrightarrow> (\<forall>j. i \<noteq> work_target j ''toggle-pause'')"

lemma deadline_switch:
  assumes finished: "\<And>r. stays (unasked free) (f (Inl r))"
    and far: "\<And>seen w' item'. cw_started item' \<noteq> Some False \<Longrightarrow> stays (unasked free) (f (Inr (seen, w', item')))"
    and decided: "\<And>v. stays (approved free) (f v)"
  shows "stays (unasked free) (seq (approve_deadline D provider w item o') f)"
proof (cases "cw_started item \<noteq> Some False \<and> 5 < cw_days item")
  case True
  with far show ?thesis by (simp add: approve_deadline_def seq_ends)
next
  case False
  show ?thesis
    unfolding approve_deadline_def if_not_P [OF False] seq_push
  proof (intro stays_seq [OF stays_contract(7)] stays_cases(3) stays_if stays_seq [OF stays_contract(1)] finished,
      rule decide_switch)
    fix waiting decided' :: contract_workflow
    assume "kw_status decided' = ContractBlocked"
    then show "stays (unasked free) (if kw_status decided' = ContractBlocked
        then seq (contract_result_of D (Some decided') 0 False False message) (\<lambda>r. f (Inl r)) else m)" for message m
      by (simp, intro stays_seq [OF stays_contract(1)] finished)
  next
    fix waiting decided' :: contract_workflow and m
    assume "kw_status decided' \<noteq> ContractBlocked"
    then show "stays (approved free) (if kw_status decided' = ContractBlocked then m else
      seq (observe D) (\<lambda>fresh. seq (lift_result (require_continuity o' fresh)) (\<lambda>_.
      seq (lift_result (require_actionable ''contracts'' fresh)) (\<lambda>_.
      if \<not> is_paused fresh then throw e1 else
      seq (synchronize_now D decided' fresh) (\<lambda>current.
      seq (lift_result (matching_work (ui_after fresh) current)) (\<lambda>found.
      case found of None \<Rightarrow> throw e2 | Some v \<Rightarrow> if cw_item v \<noteq> cw_item item then throw e2
        else f (Inr (fresh, current, v))))))))" for e1 e2
      by (simp, intro after_yes.rules stays_contract decided)
  qed
qed

lemma advance_follows: "stays (unasked not_activation) (advance_contract D seconds provider dry_run w)"
proof -
  have targets: "not_activation ''close_contract_browser''" "not_activation ''open_build_mode''"
    "not_activation ''resume_button''" "not_activation ''pause_button''" "not_activation (work_target i ''finish-review'')" for i
    by (auto simp: not_activation_def work_target_def)
  have preflight: "stays (unasked not_activation) (preflight steps D dry w item o' n)" for steps dry w item o' n
  proof (induction steps arbitrary: w item o' n)
    case 0
    show ?case by (subst preflight.simps, simp only: nat.case, intro before_yes.rules stays_contract)
  next
    case (Suc steps)
    have choice: "preflight_choice sc = Some (i, effect) \<Longrightarrow> not_activation i" for sc i effect
      by (auto simp: preflight_choice_def targets split: scene.split_asm)
    show ?case
      by (subst preflight.simps, simp only: nat.case, intro before_yes.rules stays_contract before_yes.press Suc.IH)
        (auto intro: choice)
  qed
  have review: "stays (unasked not_activation) (finish_review D dry w item e o' n)" for dry w item e o' n
    unfolding finish_review_def Let_def
    by (intro before_yes.rules stays_contract) (simp_all add: targets)
  have time: "stays (unasked not_activation) (time_control D w o' i effect stage achieved detail)"
    if "not_activation i" for w o' i effect stage achieved detail
    unfolding time_control_def by (intro before_yes.rules stays_contract before_yes.press that)
  have interval: "stays (unasked not_activation) (run_contract_interval D s w item o' n)" for s w item o' n
    unfolding run_contract_interval_def pause_interval_def
    by (intro before_yes.rules stays_contract time targets)
  have later: "stays (approved not_activation) (activate_work D dry w item o' n)"
    "stays (approved not_activation) (run_contract_interval D s w item o' n)" for dry w item o' n s
    unfolding activate_work_def run_contract_interval_def pause_interval_def time_control_def
    by (intro after_yes.rules stays_contract after_yes.press TrueI)+
  have idle: "stays (unasked not_activation) (activate_work D dry w item o' n)" if "cw_started item \<noteq> Some False" for dry w item o' n
    using that by (simp add: activate_work_def stays_basic)
  have rest: "stays (unasked not_activation) (seq (approve_deadline D provider w item o') (\<lambda>decision. case decision of
      Inl r \<Rightarrow> ret r
    | Inr (seen, w', item') \<Rightarrow> seq (activate_work D dry w' item' seen n) (\<lambda>activated. case activated of
        Inl r \<Rightarrow> ret r
      | Inr (start, w'', item'', sent) \<Rightarrow>
        if dry then contract_result_of D (Some w'') 0 False True message
        else run_contract_interval D seconds w'' item'' start sent)))" for w item o' dry n message
  proof (rule deadline_switch)
    fix v :: "contract_result + ui_observation \<times> contract_workflow \<times> contract_work"
    show "stays (approved not_activation) (case v of Inl r \<Rightarrow> ret r
      | Inr (seen, w', item') \<Rightarrow> seq (activate_work D dry w' item' seen n) (\<lambda>activated. case activated of
        Inl r \<Rightarrow> ret r
      | Inr (start, w'', item'', sent) \<Rightarrow>
        if dry then contract_result_of D (Some w'') 0 False True message
        else run_contract_interval D seconds w'' item'' start sent))"
      by (intro after_yes.rules stays_contract later)
  next
    fix seen and w' :: contract_workflow and item' :: contract_work
    assume "cw_started item' \<noteq> Some False"
    then show "stays (unasked not_activation) (case Inr (seen, w', item') of Inl r \<Rightarrow> ret r
      | Inr (seen, w', item') \<Rightarrow> seq (activate_work D dry w' item' seen n) (\<lambda>activated. case activated of
        Inl r \<Rightarrow> ret r
      | Inr (start, w'', item'', sent) \<Rightarrow>
        if dry then contract_result_of D (Some w'') 0 False True message
        else run_contract_interval D seconds w'' item'' start sent))"
      by (simp, intro stays_seq idle before_yes.rules stays_contract interval)
  qed (simp add: stays_basic)
  show ?thesis
    unfolding advance_contract_def
    by (intro stays_if stays_lift stays_cases before_yes.look stays_seq [OF before_yes.look]
        stays_seq [OF preflight] stays_seq [OF stays_contract(6)] stays_basic review rest)
qed

section \<open>What the operations promise\<close>

lemma ow_trace_reset: "ow_trace (w\<lparr>ow_trace := []\<rparr>) = []"
  by simp

lemma accept_dry: "stays (\<lambda>w. sends_nothing (ow_trace w)) (accept_recommended_contract D n r provider True)"
  unfolding accept_recommended_contract_def
  by (intro hands_off.rules stays_contract hands_off.acceptance_dry)

text \<open>
  A dry run of browsing, accepting, promoting, releasing or advancing sends no input at all, whatever the desktop, the
  workflow and the recommendation are and whether the run ends well or in an error. (Reviewing is not among them.)
\<close>

theorem contract_dry_runs_send_nothing:
  "sends_nothing (ow_trace (snd (browse_contracts D True (w\<lparr>ow_trace := []\<rparr>)))) \<and>
    sends_nothing (ow_trace (snd (accept_recommended_contract D n r provider True (w\<lparr>ow_trace := []\<rparr>)))) \<and>
    sends_nothing (ow_trace (snd (promote_contract D provider True v (w\<lparr>ow_trace := []\<rparr>)))) \<and>
    sends_nothing (ow_trace (snd (release_contract D provider True v (w\<lparr>ow_trace := []\<rparr>)))) \<and>
    sends_nothing (ow_trace (snd (advance_contract D seconds provider True v (w\<lparr>ow_trace := []\<rparr>))))"
proof -
  have "stays (\<lambda>w. sends_nothing (ow_trace w)) (browse_contracts D True)"
    unfolding browse_contracts_def by (intro hands_off.rules hands_off.browse_dry)
  with accept_dry hands_off.commitment_dry hands_off.advance_dry show ?thesis
    unfolding promote_contract_def release_contract_def stays_def by (metis ow_trace_reset sends_nothing_simps(1))
qed

text \<open>
  C8. No commitment without a yes. In a run of promoting or releasing, every gesture comes after a person said yes in that
  run; in a run of reviewing, every gesture but those that open the controls and the review window, so also the one that
  spends; and in a run of advancing, the gesture that activates the work and with it starts the deadline.
\<close>

theorem contract_commitments_approved:
  "follows_approval (\<lambda>_. False) (ow_trace (snd (promote_contract D provider dry_run v (w\<lparr>ow_trace := []\<rparr>)))) \<and>
    follows_approval (\<lambda>_. False) (ow_trace (snd (release_contract D provider dry_run v (w\<lparr>ow_trace := []\<rparr>)))) \<and>
    follows_approval opens_review (ow_trace (snd (review_contract D provider dry_run v (w\<lparr>ow_trace := []\<rparr>)))) \<and>
    \<not> opens_review ''commit_contract_review'' \<and>
    follows_approval not_activation (ow_trace (snd (advance_contract D seconds provider dry_run v (w\<lparr>ow_trace := []\<rparr>))))"
  using commitment_follows review_follows advance_follows opens_review_targets(3)
  unfolding promote_contract_def release_contract_def stays_def
  by (metis ow_trace_reset follows_approval_simps(1))

text \<open>
  The report at the end of an interval, which says that the interval finished paused and is verified, does not depend
  on whether the game is paused: it is the same operation whatever the state of the game in the last observation is.
\<close>

theorem report_ignores_pause:
  "report_interval D w item (o'\<lparr>ui_after := s\<lparr>gs_state := a\<rparr>\<rparr>) n = report_interval D w item (o'\<lparr>ui_after := s\<lparr>gs_state := b\<rparr>\<rparr>) n"
proof -
  let ?o = "\<lambda>x. o'\<lparr>ui_after := s\<lparr>gs_state := x\<rparr>\<rparr>"
  have look: "ui_after (?o x) = s\<lparr>gs_state := x\<rparr>" "gs_sequence (s\<lparr>gs_state := x\<rparr>) = gs_sequence s"
    "active_contract_work (s\<lparr>gs_state := x\<rparr>) = active_contract_work s"
    "same_contract_save v (s\<lparr>gs_state := x\<rparr>) = same_contract_save v s"
    "synchronized_with time v (s\<lparr>gs_state := x\<rparr>) i = synchronized_with time v s i" for x v time i
    by (simp_all add: active_contract_work_def require_complete_surface_def same_contract_save_def save_text_def
      synchronized_with_def)
  show ?thesis
    unfolding report_interval_def synchronize_now_def synchronize_workflow_def matching_work_def look by (rule refl)
qed

end
