(* ===== verification/ContractSamples.thy ===== *)
theory ContractSamples
  imports ContractOperator ScriptedDesktop
begin

text \<open>
  A small studio with one contract on the market, as concrete input for the contract operator: what its projections read
  from the snapshots, and the days on which the contract is accepted and reviewed.
\<close>

section \<open>The studio\<close>

definition job_entity :: entity where
  "job_entity = \<lparr>en_type = ''available_contract'', en_id = ''c1'', en_values =
     [(''months'', JInt 2), (''display_index'', JInt 0), (''name'', JStr ''Job''), (''client'', JStr ''Ann''),
      (''software_type'', JStr ''Tool''), (''software_category'', JStr []), (''features'', JStr []), (''dev_time'', JInt 1),
      (''difficulty'', JInt 0), (''art_ratio'', JInt 0), (''minimum_progress'', JInt 1), (''quality_target'', JInt 0),
      (''reward'', JInt 1000), (''penalty'', JInt 500), (''per_bug_penalty'', JInt 0), (''status'', JStr [])]\<rparr>"

definition window_entity :: entity where
  "window_entity = \<lparr>en_type = ''contract_ui_state'', en_id = ''current'', en_values =
     [(''selected_available_indices'', JStr ''0''), (''design_teams'', JStr ''Core''), (''development_teams'', JStr ''Core''),
      (''review_cost_text'', JStr ''Cost: $250''), (''review_client'', JBool False), (''review_internal'', JBool True),
      (''review_outsource'', JBool False), (''review_slider_value'', JInt 1)]\<rparr>"

definition work_entity :: entity where
  "work_entity = \<lparr>en_type = ''work_item'', en_id = ''w1'', en_values =
     [(''is_contract'', JBool True), (''contract_identity'', JStr ''c1''), (''contract_name'', JStr ''Job''),
      (''contract_client'', JStr ''Ann''), (''contract_deadline'', JStr []), (''contract_days_remaining'', JInt 20),
      (''contract_reward'', JInt 1000), (''contract_penalty'', JInt 500), (''work_type'', JStr ''Software''),
      (''stage'', JStr ''Alpha''), (''progress'', JInt 1), (''minimum_progress'', JInt 1), (''assigned_teams'', JStr ''Core''),
      (''employee_count'', JInt 3), (''paused'', JBool False), (''done'', JBool False)]\<rparr>"

definition review_entity :: entity where
  "review_entity = \<lparr>en_type = ''work_item'', en_id = ''w2'', en_values =
     [(''review_target_work_item_id'', JStr ''w1''), (''done'', JBool False)]\<rparr>"

text \<open>The team, its employee, its office and the cash\<close>

definition team_entity :: entity where
  "team_entity = \<lparr>en_type = ''team'', en_id = ''t'', en_values = [(''name'', JStr ''Core''), (''employee_count'', JInt 3)]\<rparr>"

definition employee_entity :: entity where
  "employee_entity = \<lparr>en_type = ''employee'', en_id = ''e1'', en_values =
     [(''team'', JStr ''Core''), (''dismissed'', JBool False), (''role'', JStr ''Designer, Programmer'')]\<rparr>"

definition office_entity :: entity where
  "office_entity = \<lparr>en_type = ''office_room'', en_id = ''r1'', en_values =
     [(''assigned_teams'', JStr ''Core''), (''valid_workstations'', JInt 3)]\<rparr>"

definition finance_entity :: entity where
  "finance_entity = \<lparr>en_type = ''finance'', en_id = ''f'', en_values = [(''cash'', JInt 10000)]\<rparr>"

definition studio_identity :: identity where
  "studio_identity = \<lparr>id_status = IdentityObserved, id_value = Some ''save'', id_label = None, id_detail = None\<rparr>"

definition studio :: "int \<Rightarrow> bool \<Rightarrow> entity list \<Rightarrow> game_snapshot" where
  "studio number paused work =
     \<lparr>gs_captured = 0, gs_started = ''a'', gs_completed = ''b'', gs_sequence = number, gs_instance = ''i'',
      gs_session = ''s'', gs_game = ''software_inc'', gs_version = ''1.8.41'', gs_adapter = ''8'', gs_platform = MacOS,
      gs_architecture = Arm64,
      gs_map = \<lparr>id_status = IdentityUnavailable, id_value = None, id_label = None, id_detail = None\<rparr>,
      gs_save = studio_identity,
      gs_state = [(''force_pause'', JBool paused), (''days_per_month'', JInt 1)],
      gs_surfaces = [observed_surface ''contract_market'' [job_entity], observed_surface ''contract_ui'' [window_entity],
        observed_surface ''work_items'' work, observed_surface ''teams'' [team_entity],
        observed_surface ''employees'' [employee_entity], observed_surface ''offices'' [office_entity],
        observed_surface ''finances'' [finance_entity]],
      gs_warnings = [], gs_limitations = []\<rparr>"

definition studio_save :: string where
  "studio_save = save_text (studio 0 True [])"

definition job :: contract where
  "job = \<lparr>co_id = ''c1'', co_index = 0, co_name = ''Job'', co_client = ''Ann'', co_type = ''Tool'', co_category = [],
     co_features = [], co_months = 2, co_dev_time = 1, co_difficulty = 0, co_art = 0, co_progress = 1, co_quality = 0,
     co_reward = 1000, co_penalty = 500, co_bug_penalty = 0, co_deadline = deadline_text 2 2, co_days = 2, co_status = []\<rparr>"

definition job_work :: contract_work where
  "job_work = \<lparr>cw_item = ''w1'', cw_contract = ''c1'', cw_name = ''Job'', cw_client = ''Ann'', cw_deadline = [],
     cw_deadline_seen = None, cw_days = 20, cw_started = None, cw_reward = 1000, cw_penalty = 500, cw_stage = Alpha,
     cw_stage_text = ''Alpha'', cw_progress = 1, cw_minimum = 1, cw_teams = [''Core''], cw_employees = 3,
     cw_paused = False, cw_done = False, cw_bugs = None, cw_fixed = None, cw_quality = None, cw_score = None,
     cw_reviews = None, cw_beta = None, cw_released = None\<rparr>"

lemma strip_texts: "strip ''c1'' = ''c1''" "strip ''Job'' = ''Job''" "strip ''Ann'' = ''Ann''" "strip ''Tool'' = ''Tool''"
  "strip ''Cost: $250'' = ''Cost: $250''"
  by code_simp+

lemma studio_market: "available_contracts (studio m p work) = ok [job]"
proof -
  have "read_contract (studio m p work) job_entity = ok job"
    by (simp add: read_contract_def job_entity_def studio_def value_integer_def value_text_def jget_def strip_texts
      positive_days_per_month_def contract_decimal_def make_contract_def bounded_text_def job_def)
      (simp add: deadline_text_def)
  then show ?thesis
    by (simp add: available_contracts_def require_complete_surface_def studio_def observed_surface_def)
qed

lemma studio_window:
  "contract_ui_text (studio m p work) ''selected_available_indices'' = ok ''0''"
  "contract_ui_text (studio m p work) ''design_teams'' = ok ''Core''"
  "contract_ui_text (studio m p work) ''development_teams'' = ok ''Core''"
  by (simp_all add: contract_ui_text_def contract_ui_value_def contract_ui_states_def studio_def observed_surface_def
    typed_entities_def window_entity_def)

lemma work_stage: "read_stage work_entity = ok Alpha"
proof -
  have "casefold ''Software'' = ''software''" "casefold ''Alpha'' = ''alpha''" by code_simp+
  then show ?thesis by (simp add: read_stage_def work_entity_def value_text_def jget_def)
qed

lemma studio_work:
  "active_contract_work (studio m p []) = ok []"
  "active_contract_work (studio m p [work_entity]) = ok [job_work]"
  "active_contract_work (studio m p [work_entity, review_entity]) = ok [job_work]"
proof -
  have "read_work work_entity = ok job_work"
    by (simp add: read_work_def work_stage)
      (simp add: work_entity_def value_text_def value_boolean_def value_integer_def jget_def
        strip_texts optional_value_def has_field_def contract_decimal_def make_work_def job_work_def)
  moreover have "jget (en_values work_entity) ''is_contract'' = JBool True" "en_type work_entity = ''work_item''"
    "jget (en_values review_entity) ''is_contract'' = JNull"
    by (simp_all add: work_entity_def review_entity_def jget_def)
  ultimately show "active_contract_work (studio m p []) = ok []"
    "active_contract_work (studio m p [work_entity]) = ok [job_work]"
    "active_contract_work (studio m p [work_entity, review_entity]) = ok [job_work]"
    by (simp_all add: active_contract_work_def require_complete_surface_def studio_def observed_surface_def)
qed

lemma studio_review:
  "review_cost (studio m p work) = ok 250"
  "review_configuration (studio m p work) = ok ''mode=internal, review_count=1''"
proof -
  have "cost_formula ''Cost: $250'' = None" "dollar_amounts ''Cost: $250'' = [250]" "float_g 1 = ''1''" by code_simp+
  moreover have "contract_ui_value (studio m p work) ''review_cost_text'' = ok (JStr ''Cost: $250'')"
    "contract_ui_value (studio m p work) ''review_client'' = ok (JBool False)"
    "contract_ui_value (studio m p work) ''review_internal'' = ok (JBool True)"
    "contract_ui_value (studio m p work) ''review_outsource'' = ok (JBool False)"
    "contract_ui_value (studio m p work) ''review_slider_value'' = ok (JInt 1)"
    by (simp_all add: contract_ui_value_def contract_ui_states_def studio_def observed_surface_def typed_entities_def window_entity_def)
  moreover have "dec 250 = 250" using dec_of_int [of 250] by simp
  moreover have "rhe 25000 = 25000" by (simp add: rhe_numeral)
  ultimately show "review_cost (studio m p work) = ok 250"
    "review_configuration (studio m p work) = ok ''mode=internal, review_count=1''"
    by (simp_all add: review_cost_def strip_texts quantize_cents_def review_configuration_def)
qed

lemma studio_fields [simp]:
  "gs_sequence (studio m p work) = m" "gs_session (studio m p work) = ''s''" "gs_instance (studio m p work) = ''i''"
  "gs_save (studio m p work) = studio_identity" "save_text (studio m p work) = studio_save"
  by (simp_all add: studio_def save_text_def studio_save_def)

lemma studio_paused [simp]: "is_paused (seen_as sc ts (studio m p work)) = p"
  by (simp add: is_paused_def studio_def jget_def)

lemma studio_same [simp]:
  "same_game (seen_as sc ts (studio m p work)) (seen_as sc' ts' (studio m' p' work')) \<longleftrightarrow> m < m'"
  by (simp add: same_game_def Let_def studio_def)

lemma studio_actionable [simp]:
  "sc \<notin> {UnknownScene, BlockingModal} \<Longrightarrow> require_actionable subject (seen_as sc ts s) = ok ()"
  by (simp add: require_actionable_def)

section \<open>A day on which the contract is accepted\<close>

definition studio_naming :: naming where
  "studio_naming = \<lparr>na_sha = (\<lambda>_. ''p''), na_uuid5 = (\<lambda>_. 5)\<rparr>"

definition job_team :: team_assessment where
  "job_team = \<lparr>as_id = ''t'', as_name = ''Core'', as_employees = 3, as_required = [''Designer'', ''Programmer''],
     as_observed = [''Designer'', ''Programmer''], as_missing = [], as_active = [], as_capacity = Some 3, as_needed = 3,
     as_days = 1, as_buffer = 1, as_suitable = True, as_reasons = []\<rparr>"

definition job_candidate :: contract_candidate where
  "job_candidate = \<lparr>cc_contract = job, cc_team = job_team, cc_cash = 10000, cc_worst = 9500, cc_minimum = 100,
     cc_reserve = 5000, cc_eligible = True, cc_reasons = []\<rparr>"

definition job_recommendation :: contract_recommendation where
  "job_recommendation = \<lparr>cr_id = [], cr_session = ''s'', cr_save = studio_save, cr_sequence = 1,
     cr_fingerprint = [], cr_recommended = Some job_candidate, cr_alternatives = [], cr_rejected = 0, cr_rejections = [],
     cr_unknowns = [], cr_created = 0, cr_expires = 100\<rparr>"

definition acceptance_day :: "((ui_exn, ui_observation) result list, contract_store) operating" where
  "acceptance_day = \<lparr>ow_desktop =
      [ok (seen_as ContractBrowser [''commit_contract''] (studio 2 True [])),
       ok (seen_as ContractBrowser [''commit_contract''] (studio 3 True [])),
       ok (seen_as GameplayPaused [] (studio 4 True [work_entity]))],
     ow_store = \<lparr>ks_workflows = [], ks_events = []\<rparr>, ow_trace = []\<rparr>"

definition job_workflow :: "contract_status \<Rightarrow> contract_approval option \<Rightarrow> int \<Rightarrow> int \<Rightarrow> contract_workflow" where
  "job_workflow status a number time =
     \<lparr>kw_id = 5, kw_session = ''s'', kw_save = studio_save, kw_contract = ''c1'', kw_name = ''Job'',
      kw_client = ''Ann'', kw_team = ''Core'', kw_minimum = 100, kw_reserve = 5000, kw_reward = 1000, kw_penalty = 500,
      kw_deadline = deadline_text 2 2, kw_status = status, kw_stage = Available, kw_item = None, kw_approval = a,
      kw_fingerprint = ''p'', kw_accepted = None, kw_completed = None, kw_sequence = number,
      kw_created = 10, kw_updated = time\<rparr>"

definition job_approval :: "bool option \<Rightarrow> contract_approval" where
  "job_approval d =
     \<lparr>ca_id = 9, ca_workflow = 5, ca_commitment = Accept,
      ca_summary = approval_summary (job_workflow ContractWaiting None 2 10) Accept 0 None, ca_contract = ''c1'',
      ca_team = ''Core'', ca_reward = 1000, ca_penalty = 500, ca_cost = 0, ca_configuration = None,
      ca_deadline = deadline_text 2 2, ca_fingerprint = ''p'', ca_approved = d, ca_created = 10,
      ca_resolved = (if d = None then None else Some 10)\<rparr>"

lemma job_texts:
  "money_text 1000 = ''1,000.00''" "money_text 500 = ''500.00''" "money_text 0 = ''0.00''" "money_text 250 = ''250.00''"
  "str_repr ''Job'' = [CHR 0x27] @ ''Job'' @ [CHR 0x27]" "casefold ''Core'' = ''core''"
  "deadline_text 2 2 = ''2 in-game months after work starts (2 in-game days)''" "int_text 0 = ''0''"
  "int_text 3 = ''3''"
  by code_simp+

lemma job_approval_made:
  "approval_for 9 10 (job_workflow status a 2 10) Accept 0 None = ok (job_approval None)"
proof -
  have same: "approval_summary (job_workflow status a 2 10) Accept 0 None = ca_summary (job_approval None)"
    by (simp add: job_approval_def approval_summary_def job_workflow_def Let_def)
  have "bounded_text 1024 (ca_summary (job_approval None))"
    by (simp add: job_approval_def approval_summary_def job_workflow_def Let_def job_texts bounded_text_def)
  with same show ?thesis
    by (simp add: approval_for_def make_contract_approval_def job_workflow_def job_approval_def bounded_opt_def)
qed

lemma job_created:
  "create_contract_workflow studio_naming 9 10 (studio 2 p work) job_candidate =
     ok (job_workflow ContractWaiting (Some (job_approval None)) 2 10)"
proof -
  have "approval_for 9 10 (job_workflow ContractWaiting None 2 10) Accept 0 None = ok (job_approval None)"
    by (rule job_approval_made)
  then show ?thesis
    by (simp add: create_contract_workflow_def job_candidate_def job_def job_team_def studio_naming_def Let_def job_workflow_def)
qed

lemma job_choice:
  "acceptance_choice (job_workflow status a m t) c (seen_as ContractBrowser ts (studio n True [])) = ok AcceptCommit"
  "acceptance_current (job_workflow status a m t) (seen_as ContractBrowser ts (studio n True [])) = ok ()"
  by (simp_all add: acceptance_choice_def browser_choice_def studio_market studio_window the_one_def job_def
    job_workflow_def only_row_def only_team_def job_texts acceptance_current_def Let_def)

lemma job_matching:
  "matching_work (studio n p []) w = ok None"
  "matching_work (studio n p [work_entity]) (job_workflow status a m t) = ok (Some job_work)"
  by (simp_all add: matching_work_def studio_work is_work_of_def job_work_def job_workflow_def)

lemma scripted_press:
  "click_target (scripted_with ids) settle (seen_as sc ts s) (sample_target sc' i) effect w =
    perform_gesture (scripted_with ids) settle (seen_as sc ts s)
      ((bound_gesture (seen_as sc ts s) i effect 10)\<lparr>ge_point := Some \<lparr>sp_x = 10, sp_y = 10\<rparr>\<rparr>) w"
  by (simp add: click_target_def sample_target_def prog_defs)

lemma job_request:
  "request_commitment scripted (job_workflow status a 2 10) Accept 0 None w =
     (case save_contract (job_workflow ContractWaiting (Some (job_approval None)) 2 10) (ow_store w) of
        Inl e \<Rightarrow> (raise e, w)
      | Inr st \<Rightarrow> (ok (job_workflow ContractWaiting (Some (job_approval None)) 2 10, job_approval None), w\<lparr>ow_store := st\<rparr>))"
proof -
  have "(job_workflow status a 2 10)\<lparr>kw_approval := Some b, kw_status := ContractWaiting, kw_updated := 10\<rparr> =
      job_workflow ContractWaiting (Some b) 2 10" for b
    by (simp add: job_workflow_def)
  then show ?thesis
    by (simp add: request_commitment_def prog_defs job_approval_made store_contract_def on_store_def Let_def split: sum.split)
qed

lemma job_decision:
  "decide_commitment scripted (job_workflow ContractWaiting (Some (job_approval None)) 2 10) (job_approval None) w =
     (case save_contract (job_workflow ContractActive (Some (job_approval (Some True))) 2 10) (ow_store w) of
        Inl e \<Rightarrow> (raise e, w\<lparr>ow_trace := Asked 9 True # ow_trace w\<rparr>)
      | Inr st \<Rightarrow> (ok (job_workflow ContractActive (Some (job_approval (Some True))) 2 10),
          w\<lparr>ow_trace := Asked 9 True # ow_trace w, ow_store := st\<rparr>))"
proof -
  have "resolve_approval 10 True (job_workflow ContractWaiting (Some (job_approval None)) 2 10) =
      ok (job_workflow ContractActive (Some (job_approval (Some True))) 2 10)"
    by (simp add: resolve_approval_def job_workflow_def job_approval_def)
  moreover have "ca_id (job_approval d) = 9" for d by (simp add: job_approval_def)
  ultimately show ?thesis
    by (simp add: decide_commitment_def prog_defs store_contract_def on_store_def split: sum.split)
qed

definition one_row :: "contract_workflow \<Rightarrow> contract_event list \<Rightarrow> contract_store" where
  "one_row w es = \<lparr>ks_workflows = [(5, w)], ks_events = es\<rparr>"

lemma one_row_save:
  assumes "kw_id w = 5"
  shows "save_contract w \<lparr>ks_workflows = [], ks_events = es\<rparr> = ok (one_row w es)"
    and "save_contract w (one_row v es) = ok (one_row w es)"
  using assms by (simp_all add: save_contract_def one_row_def)

lemma job_id [simp]: "kw_id (job_workflow status a n t) = 5"
  by (simp add: job_workflow_def)

lemma job_approved:
  assumes "ow_store w = one_row (job_workflow ContractWaiting (Some (job_approval None)) 2 10) es"
  shows "approve_acceptance scripted True False (job_workflow ContractWaiting (Some (job_approval None)) 2 10) n w =
    (ok (Inr (job_workflow ContractActive (Some (job_approval (Some True))) 2 10)),
     w\<lparr>ow_trace := Asked 9 True # ow_trace w,
       ow_store := one_row (job_workflow ContractActive (Some (job_approval (Some True))) 2 10) es\<rparr>)"
proof -
  have "\<not> reusable_approval (job_workflow ContractWaiting (Some (job_approval None)) 2 10)"
    by (simp add: reusable_approval_def job_workflow_def job_approval_def)
  moreover have "kw_status (job_workflow ContractActive a m t) \<noteq> ContractBlocked" for a m t by (simp add: job_workflow_def)
  ultimately show ?thesis
    by (simp add: approve_acceptance_def prog_defs job_request job_decision assms one_row_save Let_def)
qed

text \<open>A click that is followed by an observation of the same game\<close>

lemma scripted_gesture:
  assumes "ow_desktop w = ok after # rest" and "same_game (seen_as sc ts s) after"
    and "bounded_text 512 effect" "bounded_text 256 i" "bounded_text 128 (scene_text sc)"
  shows "\<exists>g. click_target (scripted_with ids) settle (seen_as sc ts s) (sample_target sc' i) effect w =
      (ok after, w\<lparr>ow_desktop := rest, ow_trace := Observed after # Sent g # ow_trace w\<rparr>) \<and> ge_target g = i"
proof -
  let ?g = "(bound_gesture (seen_as sc ts s) i effect 10)\<lparr>ge_point := Some \<lparr>sp_x = 10, sp_y = 10\<rparr>\<rparr>"
  have "ge_target ?g = i" by (simp add: bound_gesture_def Let_def)
  then show ?thesis
    by (intro exI [of _ ?g])
      (simp add: scripted_press perform_gesture_def press_valid assms require_continuity_def prog_defs)
qed

lemma scripted_acceptance:
  assumes "click_target scripted contract_settle o' t effect w = (ok after, w1)"
    and "gesture_achieved v effect after = ok ()"
    and "v\<lparr>kw_sequence := gs_sequence (ui_after after), kw_updated := 10\<rparr> = v'" and "kw_id v' = 5"
    and "ow_store w1 = one_row u []" and "1 \<le> gs_sequence (ui_after after)" and "int_text (gs_sequence (ui_after o')) = ''3''"
  shows "\<exists>e. acceptance_gesture scripted v o' t effect 1 w = (ok (after, v'), w1\<lparr>ow_store := one_row v' [e]\<rparr>)"
proof -
  have save: "store_contract v' w1 = (ok (), w1\<lparr>ow_store := one_row v' []\<rparr>)"
    by (simp add: store_contract_def on_store_def assms(4,5) one_row_save)
  have event: "\<exists>e. record_event scripted v' 1 ''ui_gesture'' (gs_sequence (ui_after after)) before later (Some effect) True True
      (''fresh synchronized observation completed after exactly one gesture; prior bridge sequence='' @
         int_text (gs_sequence (ui_after o'))) (w1\<lparr>ow_store := one_row v' []\<rparr>) =
      (ok (), w1\<lparr>ow_store := one_row v' [e]\<rparr>)" for before later
    using assms(6)
    by (simp add: record_event_def prog_defs make_contract_event_def bounded_text_def assms(4,7) on_store_def
      append_contract_event_def one_row_def) blast
  from event [of "kw_stage v" "kw_stage v'"] obtain e where e: "record_event scripted v' 1 ''ui_gesture''
      (gs_sequence (ui_after after)) (kw_stage v) (kw_stage v') (Some effect) True True
      (''fresh synchronized observation completed after exactly one gesture; prior bridge sequence='' @
         int_text (gs_sequence (ui_after o'))) (w1\<lparr>ow_store := one_row v' []\<rparr>) =
      (ok (), w1\<lparr>ow_store := one_row v' [e]\<rparr>)" by blast
  show ?thesis
    by (rule exI [of _ e])
      (simp only: acceptance_gesture_def Let_def seq_def assms(1,2,3) prod.case sum.case lift_result_def scripted_run save e ret_def)
qed

lemma job_selectors:
  "kw_name (job_workflow status a m t) = ''Job''" "kw_team (job_workflow status a m t) = ''Core''"
  "kw_accepted (job_workflow status a m t) = None" "kw_item (job_workflow status a m t) = None"
  by (simp_all add: job_workflow_def)

lemma job_settled:
  assumes "ow_store w = one_row v es"
  shows "\<exists>r w'. already_accepted scripted (job_workflow s a m t) o' job_work n w = (ok r, w') \<and> kr_verified r \<and>
    ow_trace w' = ow_trace w"
proof -
  have "kw_id (job_workflow s a m t\<lparr>kw_accepted := p, kw_sequence := q, kw_stage := l, kw_status := u, kw_item := i, kw_updated := x\<rparr>) = 5"
    for p q l u i x by (simp add: job_workflow_def)
  moreover have "bounded_text 2048 (''Accepted '' @ str_repr ''Job'' @
      ''; exact active work item '' @ cw_item job_work @ '' is assigned to '' @ ''Core'' @ ''.'')"
    by (simp add: job_texts bounded_text_def job_work_def)
  ultimately show ?thesis
    by (simp add: already_accepted_def Let_def job_selectors prog_defs store_contract_def on_store_def assms one_row_save
      contract_result_of_def)
qed

lemma job_settles:
  assumes "ow_store w = one_row v es"
  shows "\<exists>r w'. acceptance_cycles (Suc c) scripted True False (job_workflow s a m t) d
      (seen_as GameplayPaused [] (studio k True [work_entity])) n l w = (ok r, w') \<and> kr_verified r \<and> ow_trace w' = ow_trace w"
  using job_settled [OF assms, of s a m t "seen_as GameplayPaused [] (studio k True [work_entity])" n]
  by (simp add: job_matching seq_def lift_result_def)

lemma commit_cycle:
  assumes "require_actionable ''contracts'' o' = ok ()" "matching_work (ui_after o') w = ok None"
    and "acceptance_choice w d o' = ok AcceptCommit"
    and "approve_acceptance D p dry w n world = (ok (Inr approved), world1)"
    and "observe D world1 = (ok fresh, world2)" "require_continuity o' fresh = ok ()"
    and "require_actionable ''contracts'' fresh = ok ()" "acceptance_current approved fresh = ok ()"
    and "find_target D ''contract'' fresh ''commit_contract'' world2 = (ok t, world3)"
    and "acceptance_gesture D approved fresh t (''accept exact contract '' @ str_repr (kw_name approved)) l world3 =
      (ok (after, w'), world4)"
  shows "acceptance_cycles (Suc c) D p dry w d o' n l world = acceptance_cycles c D p dry w' d after (n + 1) (l + 1) world4"
  by (simp only: acceptance_cycles.simps seq_def lift_result_def assms prod.case sum.case option.case accept_step.case)

lemma acceptance_run:
  "\<exists>v w'. accept_recommended_contract scripted studio_naming job_recommendation True False acceptance_day = (ok v, w') \<and>
     kr_verified v \<and> (\<exists>g. Sent g \<in> set (ow_trace w') \<and> ge_target g = ''commit_contract'')"
proof -
  let ?active = "job_workflow ContractActive (Some (job_approval (Some True))) 2 10"
  let ?waiting = "job_workflow ContractWaiting (Some (job_approval None)) 2 10"
  let ?v = "job_workflow ContractActive (Some (job_approval (Some True))) 4 10"
  let ?A = "seen_as ContractBrowser [''commit_contract''] (studio 2 True [])"
  let ?B = "seen_as ContractBrowser [''commit_contract''] (studio 3 True [])"
  let ?C = "seen_as GameplayPaused [] (studio 4 True [work_entity])"
  let ?effect = "''accept exact contract '' @ str_repr (kw_name ?active)"
  let ?start = "acceptance_day\<lparr>ow_desktop := [ok ?B, ok ?C], ow_store := one_row ?waiting [], ow_trace := [Observed ?A]\<rparr>"
  let ?asked = "?start\<lparr>ow_trace := [Asked 9 True, Observed ?A], ow_store := one_row ?active []\<rparr>"
  let ?w = "?asked\<lparr>ow_desktop := [ok ?C], ow_trace := [Observed ?B, Asked 9 True, Observed ?A]\<rparr>"
  have "bounded_text 512 ?effect" by (simp add: job_selectors job_texts bounded_text_def)
  then obtain g where g: "click_target scripted contract_settle ?B (sample_target ContractBrowser ''commit_contract'') ?effect ?w =
      (ok ?C, ?w\<lparr>ow_desktop := [], ow_trace := Observed ?C # Sent g # ow_trace ?w\<rparr>)"
    and target: "ge_target g = ''commit_contract''"
    using scripted_gesture [of ?w ?C "[]" ContractBrowser "[''commit_contract'']" "studio 3 True []" ?effect
      "''commit_contract''" "\<lambda>_. 9" contract_settle ContractBrowser]
    by (auto simp: bounded_text_def)
  have moved: "?active\<lparr>kw_sequence := gs_sequence (ui_after ?C), kw_updated := 10\<rparr> = ?v" by (simp add: job_workflow_def)
  have achieved: "gesture_achieved ?active ?effect ?C = ok ()"
    by (simp add: gesture_achieved_def starts_with_def job_matching)
  obtain e where e: "acceptance_gesture scripted ?active ?B (sample_target ContractBrowser ''commit_contract'') ?effect 1 ?w =
      (ok (?C, ?v), ?w\<lparr>ow_desktop := [], ow_trace := Observed ?C # Sent g # ow_trace ?w, ow_store := one_row ?v [e]\<rparr>)"
    using scripted_acceptance [OF g achieved moved, of ?active] by (auto simp: job_texts)
  let ?fin = "?w\<lparr>ow_desktop := [], ow_trace := Observed ?C # Sent g # ow_trace ?w, ow_store := one_row ?v [e]\<rparr>"
  have first: "acceptance_cycles (Suc 15) scripted True False ?waiting None ?A 0 1 ?start =
      acceptance_cycles 15 scripted True False ?v None ?C (0 + 1) (1 + 1) ?fin"
    by (rule commit_cycle [OF _ _ _ job_approved [where es = "[]"] _ _ _ _ _ e])
      (simp_all add: job_matching job_choice scripted_run scripted_find require_continuity_def)
  obtain r w' where settled: "acceptance_cycles (Suc 14) scripted True False ?v None ?C (0 + 1) (1 + 1) ?fin = (ok r, w')"
    "kr_verified r" "ow_trace w' = ow_trace ?fin"
    using job_settles [of ?fin ?v "[e]" 14 ContractActive "Some (job_approval (Some True))" 4 10 None 4 "0 + 1" "1 + 1"] by auto
  have start: "accept_recommended_contract scripted studio_naming job_recommendation True False acceptance_day =
      acceptance_cycles 16 scripted True False ?waiting None ?A 0 1 ?start"
    by (simp add: accept_recommended_contract_def job_recommendation_def prog_defs acceptance_day_def recommendation_current_def
      job_created get_contract_def store_contract_def on_store_def one_row_save next_number_def contract_events_def one_row_def accept_cycles_def)
  have sixteen: "(16 :: nat) = Suc 15" and fifteen: "(15 :: nat) = Suc 14" by simp_all
  have "accept_recommended_contract scripted studio_naming job_recommendation True False acceptance_day = (ok r, w')"
    unfolding start sixteen first unfolding fifteen by (rule settled(1))
  with settled(2,3) target show ?thesis by (auto intro!: exI [of _ g])
qed

end
