(* ===== verification/ContractAcceptance.thy ===== *)
theory ContractAcceptance
  imports ContractSafety ContractSamples
begin

text \<open>
  The acceptance of a contract: the click that accepts is the only one of its run, directly follows an observation that
  shows exactly the recommended terms and only the recommended row and team, and its approval had been given. What is
  shown and what counts as given is stated without the operator's own checks (\<open>acceptance_current\<close>,
  \<open>reusable_approval\<close>).
\<close>

section \<open>The click that accepts\<close>

definition accept_quiet :: "interaction list \<Rightarrow> bool" where
  "accept_quiet tr \<longleftrightarrow> (\<forall>g. Sent g \<in> set tr \<longrightarrow> ge_target g \<noteq> ''commit_contract'')"

lemma accept_quiet_simps [simp]:
  "accept_quiet []" "accept_quiet (Observed o' # tr) \<longleftrightarrow> accept_quiet tr" "accept_quiet (Asked i b # tr) \<longleftrightarrow> accept_quiet tr"
  "accept_quiet (Sent g # tr) \<longleftrightarrow> ge_target g \<noteq> ''commit_contract'' \<and> accept_quiet tr"
  by (auto simp: accept_quiet_def)

text \<open>The terms of a workflow are those of the candidate it was made from.\<close>

definition agreed_terms :: "contract_candidate \<Rightarrow> contract_workflow \<Rightarrow> bool" where
  "agreed_terms k v \<longleftrightarrow> (let c = cc_contract k in
     kw_contract v = co_id c \<and> kw_name v = co_name c \<and> kw_client v = co_client c \<and> kw_reward v = co_reward c \<and>
     kw_penalty v = co_penalty c \<and> kw_deadline v = co_deadline c \<and> kw_team v = as_name (cc_team k))"

text \<open>
  What the last look before the acceptance has to show: the paused contract browser with one offer of the candidate's
  identity, at exactly its terms, only that offer's row selected, and exactly its team, up to the case of letters, chosen
  for both parts of the work.
\<close>

definition offer_shown :: "contract_candidate \<Rightarrow> ui_observation \<Rightarrow> bool" where
  "offer_shown k o' \<longleftrightarrow> is_paused o' \<and> ui_scene o' = ContractBrowser \<and>
     (\<exists>offers c rows design development.
        available_contracts (ui_after o') = ok offers \<and> [x \<leftarrow> offers. co_id x = co_id (cc_contract k)] = [c] \<and>
        co_name c = co_name (cc_contract k) \<and> co_client c = co_client (cc_contract k) \<and>
        co_reward c = co_reward (cc_contract k) \<and> co_penalty c = co_penalty (cc_contract k) \<and>
        co_deadline c = co_deadline (cc_contract k) \<and>
        contract_ui_text (ui_after o') ''selected_available_indices'' = ok rows \<and>
        set (split_parts CHR '','' [] rows) = {int_text (co_index c)} \<and>
        contract_ui_text (ui_after o') ''design_teams'' = ok design \<and>
        contract_ui_text (ui_after o') ''development_teams'' = ok development \<and>
        casefold ` set (split_parts CHR ''|'' [] design) = {casefold (as_name (cc_team k))} \<and>
        casefold ` set (split_parts CHR ''|'' [] development) = {casefold (as_name (cc_team k))})"

text \<open>A workflow with the candidate's terms whose acceptance, and nothing else, a person has already granted\<close>

definition granted_before :: "contract_candidate \<Rightarrow> contract_store \<Rightarrow> bool" where
  "granted_before k st \<longleftrightarrow> (\<exists>v a. v \<in> snd ` set (ks_workflows st) \<and> agreed_terms k v \<and> kw_approval v = Some a \<and>
     ca_commitment a = Accept \<and> ca_approved a = Some True \<and> ca_fingerprint a = kw_fingerprint v)"

lemma reusable_granted:
  "reusable_approval v \<Longrightarrow> agreed_terms k v \<Longrightarrow> v \<in> snd ` set (ks_workflows st) \<Longrightarrow> granted_before k st"
  by (auto simp: reusable_approval_def granted_before_def split: option.split_asm)

lemma current_shown: "acceptance_current v o' = ok () \<Longrightarrow> agreed_terms k v \<Longrightarrow> offer_shown k o'"
  by (auto simp: acceptance_current_def agreed_terms_def offer_shown_def Let_def rbind_Inr_iff the_one_ok
      only_row_def only_team_def split: if_split_asm)

definition acceptance_authorised :: "contract_candidate \<Rightarrow> bool \<Rightarrow> interaction list \<Rightarrow> bool" where
  "acceptance_authorised k prior tr \<longleftrightarrow> accept_quiet tr \<or>
     (\<exists>pre g o' rest. tr = pre @ Sent g # Observed o' # rest \<and> ge_target g = ''commit_contract'' \<and> accept_quiet pre \<and>
        accept_quiet rest \<and> offer_shown k o' \<and> (prior \<or> said_yes rest))"

lemma quiet_accepts: "accept_quiet tr \<Longrightarrow> acceptance_authorised k prior tr"
  by (simp add: acceptance_authorised_def)

lemma clicked_quiet: "clicked i accept_quiet tr \<Longrightarrow> i \<noteq> ''commit_contract'' \<Longrightarrow> accept_quiet tr"
  by (auto simp: clicked_def)

lemma clicked_pair:
  "clicked i (\<lambda>tr. P tr \<and> Q tr) tr \<Longrightarrow> clicked i P tr"
  by (auto simp: clicked_def)

lemma choice_not_commit: "acceptance_choice w configuring o' = ok (AcceptPress i effect c') \<Longrightarrow> i \<noteq> ''commit_contract''"
  by (auto simp: acceptance_choice_def team_picker_choice_def browser_choice_def Let_def rbind_Inr_iff
    split: scene.split_asm if_split_asm list.split_asm)

lemma tracing_gesture:
  assumes "\<And>tr. P tr \<Longrightarrow> S tr" and "\<And>tr. clicked (vt_id t) P tr \<Longrightarrow> S tr"
  shows "tracing P S (acceptance_gesture D w o' t effect number) (\<lambda>(after, w') tr.
     (gesture_achieved w effect after = ok () \<and>
       (\<exists>time. w' = w\<lparr>kw_sequence := gs_sequence (ui_after after), kw_updated := time\<rparr>)) \<and> clicked (vt_id t) P tr)"
proof -
  have "tracing P S (acceptance_gesture D w o' t effect number) (\<lambda>_. clicked (vt_id t) P)"
    unfolding acceptance_gesture_def Let_def
    by (intro tracing_click tracing_lift tracing_silent tracing_ret silent_basic silent_store silent_record)
      (use assms in auto)
  then have "tracing P S (acceptance_gesture D w o' t effect number) (\<lambda>p tr.
     (case p of (after, w') \<Rightarrow> gesture_achieved w effect after = ok () \<and>
       (\<exists>time. w' = w\<lparr>kw_sequence := gs_sequence (ui_after after), kw_updated := time\<rparr>)) \<and> clicked (vt_id t) P tr)"
    by (rule tracing_facts) (auto simp: acceptance_gesture_def Let_def seq_ok lift_result_def ret_def)
  then show ?thesis by (simp add: case_prod_unfold)
qed

lemma settled_silent:
  assumes "matching_work (ui_after o') w = ok (Some i)"
  shows "silent (acceptance_cycles cycles D provider dry_run w configuring o' n number)"
  by (cases cycles)
    (auto simp: assms silent_accepted [unfolded silent_def] silent_def lift_result_def seq_def throw_def
      split: prod.splits sum.splits)

interpretation declining: permitted accept_quiet "\<lambda>i. i \<noteq> ''commit_contract''"
  by unfold_locales simp_all

lemma request_terms:
  assumes "request_commitment D w c cost configuration world = (ok (w', a), world')"
  shows "\<exists>time. w' = w\<lparr>kw_approval := Some a, kw_status := ContractWaiting, kw_updated := time\<rparr>"
  using assms by (auto simp: request_commitment_def Let_def seq_ok ret_def)

lemma resolved_terms:
  assumes "resolve_approval time b w = ok w'"
  shows "agreed_terms k w' \<longleftrightarrow> agreed_terms k w"
  using assms by (auto simp: resolve_approval_def agreed_terms_def Let_def split: option.split_asm if_split_asm)

text \<open>When the approval stage lets the acceptance go on, the terms are unchanged and there has been a yes.\<close>

lemma approval_stage:
  assumes terms: "agreed_terms k w" and start: "accept_quiet (ow_trace world)"
    "reusable_approval w \<Longrightarrow> prior \<or> said_yes (ow_trace world)"
    and run: "approve_acceptance D provider dry_run w n world = (ok (Inr v), world')"
  shows "agreed_terms k v \<and> (prior \<or> said_yes (ow_trace world'))"
proof (cases "reusable_approval w")
  case True
  with run have "v = w" "world' = world"
    by (auto simp: approve_acceptance_def seq_ok ret_def split: if_split_asm)
  with True start(2) terms show ?thesis by simp
next
  case False
  with run obtain waiting a w1 w2 decided where
    request: "request_commitment D w Accept 0 None world = (ok (waiting, a), w1)" and
    decide: "decide_commitment D waiting a w1 = (ok decided, w2)" and
    last: "kw_status decided \<noteq> ContractBlocked" "v = decided" "world' = w2"
    by (auto simp: approve_acceptance_def Let_def seq_ok ret_def split: if_split_asm prod.split_asm)
  from request_terms [OF request] terms have "agreed_terms k waiting" by (auto simp: agreed_terms_def Let_def)
  with decide_yes [OF decide] last show ?thesis by (auto simp: resolved_terms)
qed

definition ready_to_accept :: "bool \<Rightarrow> contract_workflow \<Rightarrow> interaction list \<Rightarrow> bool" where
  "ready_to_accept prior w tr \<longleftrightarrow> accept_quiet tr \<and> (reusable_approval w \<longrightarrow> prior \<or> said_yes tr)"

lemma tracing_approval_stage:
  assumes "agreed_terms k w"
  shows "tracing (ready_to_accept prior w) (acceptance_authorised k prior)
    (approve_acceptance D provider dry_run w n)
    (\<lambda>d tr. accept_quiet tr \<and> (\<forall>v. d = Inr v \<longrightarrow> agreed_terms k v \<and> (prior \<or> said_yes tr)))"
  unfolding tracing_def
proof (rule tripleI)
  fix world d world'
  assume "ready_to_accept prior w (ow_trace world)"
    and run: "approve_acceptance D provider dry_run w n world = (Inr d, world')"
  then show "accept_quiet (ow_trace world') \<and>
      (\<forall>v. d = Inr v \<longrightarrow> agreed_terms k v \<and> (prior \<or> said_yes (ow_trace world')))"
    using approval_stage [OF assms] staysD [OF declining.approve _ run] unfolding ready_to_accept_def by blast
next
  fix world and e :: ui_exn and world'
  assume "ready_to_accept prior w (ow_trace world)"
    and run: "approve_acceptance D provider dry_run w n world = (Inl e, world')"
  then show "acceptance_authorised k prior (ow_trace world')"
    using staysD [OF declining.approve _ run] unfolding ready_to_accept_def by (blast intro: quiet_accepts)
qed

text \<open>The click after the last look\<close>

lemma commit_click:
  assumes terms: "agreed_terms k v" and ok: "acceptance_current v o' = ok ()"
    and click: "clicked ''commit_contract'' (\<lambda>tr. \<exists>rest. tr = Observed o' # rest \<and> accept_quiet rest \<and> (prior \<or> said_yes rest)) tr"
  shows "acceptance_authorised k prior tr"
proof -
  from click obtain g rest pre where "tr = pre @ Sent g # Observed o' # rest" "ge_target g = ''commit_contract''"
      "accept_quiet rest" "prior \<or> said_yes rest" "accept_quiet pre"
    unfolding clicked_def by (metis append_Cons append_Nil accept_quiet_simps(1,2))
  with current_shown [OF ok terms] show ?thesis unfolding acceptance_authorised_def by blast
qed

section \<open>The cycles\<close>

lemma ready_quiet: "ready_to_accept prior w tr \<Longrightarrow> acceptance_authorised k prior tr"
  by (simp add: ready_to_accept_def quiet_accepts)

lemma press_stage:
  assumes i: "i \<noteq> ''commit_contract''" and terms: "agreed_terms k w"
    and continues: "\<And>after w'. agreed_terms k w' \<Longrightarrow>
      tracing (ready_to_accept prior w') (acceptance_authorised k prior) (go after w') (\<lambda>_. acceptance_authorised k prior)"
  shows "tracing (ready_to_accept prior w) (acceptance_authorised k prior)
    (seq (find_target D ''contract'' o' i) (\<lambda>t.
       if dry_run then contract_result_of D (Some w) n False True message
       else seq (acceptance_gesture D w o' t effect number) (\<lambda>(after, w'). go after w')))
    (\<lambda>_. acceptance_authorised k prior)"
proof (rule tracing_find)
  fix t :: visual_target
  assume t: "vt_id t = i"
  have quiet: "clicked (vt_id t) (ready_to_accept prior w) tr \<Longrightarrow> ready_to_accept prior w tr" for tr
    using i t by (auto simp: clicked_def ready_to_accept_def)
  have next_step: "tracing ((\<lambda>(after, w') tr. (gesture_achieved w effect after = ok () \<and>
        (\<exists>time. w' = w\<lparr>kw_sequence := gs_sequence (ui_after after), kw_updated := time\<rparr>)) \<and>
        clicked (vt_id t) (ready_to_accept prior w) tr) p) (acceptance_authorised k prior)
      (case p of (after, w') \<Rightarrow> go after w') (\<lambda>_. acceptance_authorised k prior)" for p
  proof (cases p)
    case (Pair after w')
    show ?thesis
      unfolding Pair prod.case
    proof (rule tracing_fact)
      assume "gesture_achieved w effect after = ok () \<and>
        (\<exists>time. w' = w\<lparr>kw_sequence := gs_sequence (ui_after after), kw_updated := time\<rparr>)"
      then obtain time where "w' = w\<lparr>kw_sequence := gs_sequence (ui_after after), kw_updated := time\<rparr>" by blast
      moreover from this have "reusable_approval w' = reusable_approval w"
        by (simp add: reusable_approval_def split: option.split)
      ultimately have w': "agreed_terms k w'" "ready_to_accept prior w' = ready_to_accept prior w"
        using terms by (simp_all add: agreed_terms_def Let_def ready_to_accept_def fun_eq_iff)
      from continues [OF w'(1), of after]
      show "tracing (clicked (vt_id t) (ready_to_accept prior w)) (acceptance_authorised k prior) (go after w')
          (\<lambda>_. acceptance_authorised k prior)"
        unfolding w'(2) by (rule tracing_pre) (rule quiet)
    qed
  qed
  show "tracing (ready_to_accept prior w) (acceptance_authorised k prior)
     (if dry_run then contract_result_of D (Some w) n False True message
      else seq (acceptance_gesture D w o' t effect number) (\<lambda>(after, w'). go after w')) (\<lambda>_. acceptance_authorised k prior)"
    by (intro tracing_if tracing_silent_end silent_result tracing_seq [OF tracing_gesture] next_step)
      (auto intro: ready_quiet quiet)
qed (rule ready_quiet)

lemma achieved_work:
  assumes "gesture_achieved v (''accept exact contract '' @ name) after = ok ()"
  shows "\<exists>i. matching_work (ui_after after) v = ok (Some i)"
  using assms by (auto simp: gesture_achieved_def starts_with_def rbind_Inr_iff split: if_split_asm)

lemma commit_stage:
  assumes terms: "agreed_terms k v"
    and settled: "\<And>after w' i. matching_work (ui_after after) w' = ok (Some i) \<Longrightarrow> silent (go after w')"
  shows "tracing (\<lambda>tr. accept_quiet tr \<and> (prior \<or> said_yes tr)) (acceptance_authorised k prior)
    (seq (observe D) (\<lambda>fresh.
     seq (lift_result (require_continuity o' fresh)) (\<lambda>_.
     seq (lift_result (require_actionable ''contracts'' fresh)) (\<lambda>_.
     seq (lift_result (acceptance_current v fresh)) (\<lambda>_.
     seq (find_target D ''contract'' fresh ''commit_contract'') (\<lambda>t.
     seq (acceptance_gesture D v fresh t (''accept exact contract '' @ name) number) (\<lambda>(after, w'). go after w')))))))
    (\<lambda>_. acceptance_authorised k prior)"
proof -
  let ?S = "acceptance_authorised k prior"
  let ?A = "\<lambda>tr. accept_quiet tr \<and> (prior \<or> said_yes tr)"
  let ?O = "\<lambda>fresh tr. \<exists>rest. tr = Observed fresh # rest \<and> ?A rest"
  have seen: "?O fresh tr \<Longrightarrow> ?S tr" for fresh tr by (auto simp: quiet_accepts)
  have last: "tracing (?O fresh) ?S (seq (acceptance_gesture D v fresh t (''accept exact contract '' @ name) number)
      (\<lambda>(after, w'). go after w')) (\<lambda>_. ?S)"
    if ok: "acceptance_current v fresh = ok ()" and t: "vt_id t = ''commit_contract''" for fresh and t :: visual_target
  proof -
    have commit: "clicked (vt_id t) (?O fresh) tr \<Longrightarrow> ?S tr" for tr
      unfolding t by (rule commit_click [OF terms ok])
    have finish: "tracing ((\<lambda>(after, w') tr. (gesture_achieved v (''accept exact contract '' @ name) after = ok () \<and>
          (\<exists>time. w' = v\<lparr>kw_sequence := gs_sequence (ui_after after), kw_updated := time\<rparr>)) \<and> clicked (vt_id t) (?O fresh) tr) p)
        ?S (case p of (after, w') \<Rightarrow> go after w') (\<lambda>_. ?S)" for p
    proof (cases p)
      case (Pair after w')
      show ?thesis
        unfolding Pair prod.case
      proof (rule tracing_fact)
        assume facts: "gesture_achieved v (''accept exact contract '' @ name) after = ok () \<and>
            (\<exists>time. w' = v\<lparr>kw_sequence := gs_sequence (ui_after after), kw_updated := time\<rparr>)"
        then obtain i where "matching_work (ui_after after) v = ok (Some i)" using achieved_work by blast
        moreover have "is_work_of w' = is_work_of v" using facts by (auto simp: is_work_of_def fun_eq_iff)
        ultimately have "silent (go after w')" by (intro settled) (simp add: matching_work_def)
        then show "tracing (clicked (vt_id t) (?O fresh)) ?S (go after w') (\<lambda>_. ?S)"
          by (intro tracing_pre [OF tracing_silent_end, of _ ?S]) (auto intro: commit)
      qed
    qed
    show ?thesis
      by (rule tracing_seq [OF tracing_gesture finish]) (fact seen, fact commit)
  qed
  show ?thesis
    by (intro tracing_observe tracing_lift tracing_find last) (auto intro: quiet_accepts seen)
qed

lemma acceptance_cycles_authorised:
  assumes "agreed_terms k w"
  shows "tracing (ready_to_accept prior w) (acceptance_authorised k prior)
    (acceptance_cycles cycles D provider dry_run w configuring o' n number) (\<lambda>_. acceptance_authorised k prior)"
  using assms
proof (induction cycles arbitrary: w configuring o' n number)
  case 0
  show ?case unfolding acceptance_cycles.simps by (intro tracing_throw ready_quiet)
next
  case (Suc cycles)
  show ?case
    unfolding acceptance_cycles.simps
    apply (rule tracing_lift, erule ready_quiet)
    apply (rule tracing_lift, erule ready_quiet)
    subgoal for u active
      apply (cases active; simp only: option.case)
       apply (rule tracing_lift, erule ready_quiet)
      subgoal for step
        apply (cases step; simp only: accept_step.case)
         apply (rule press_stage [OF _ Suc.prems Suc.IH], erule choice_not_commit, assumption)
        apply (rule tracing_seq [OF tracing_approval_stage [OF Suc.prems]])
        subgoal for d
          apply (cases d; simp only: sum.case)
           apply (rule tracing_ret, simp add: quiet_accepts)
          apply (rule tracing_pre [where P' = "\<lambda>tr. agreed_terms k (projr d) \<and> accept_quiet tr \<and> (prior \<or> said_yes tr)"])
           apply (rule tracing_fact)
           apply (rule commit_stage)
            apply simp
           apply (erule settled_silent)
          apply simp
          done
        done
      apply (rule tracing_silent_end [OF silent_accepted], erule ready_quiet)
      done
    done
qed

section \<open>The whole operation\<close>

lemma created_terms:
  assumes "create_contract_workflow n fresh now s k = ok w"
  shows "agreed_terms k w \<and> \<not> reusable_approval w"
  using assms
  by (auto simp: create_contract_workflow_def Let_def rbind_Inr_iff approval_for_def make_contract_approval_def
    agreed_terms_def reusable_approval_def split: if_split_asm)

lemma resumed_terms:
  assumes "same_acceptance v w = ok u" and "agreed_terms k w"
  shows "agreed_terms k v"
  using assms by (auto simp: same_acceptance_def agreed_terms_def Let_def split: if_split_asm)

lemma clock_total: "\<exists>time w'. read_clock D w = (ok time, w') \<and> ow_trace w' = ow_trace w \<and> ow_store w' = ow_store w"
  by (cases "dt_now D (ow_desktop w)") (simp add: read_clock_def on_desktop_def)

lemma uuid_total: "\<exists>i w'. uuid4 D w = (ok i, w') \<and> ow_trace w' = ow_trace w \<and> ow_store w' = ow_store w"
  by (cases "dt_uuid D (ow_desktop w)") (simp add: uuid4_def on_desktop_def)

text \<open>Either the run ends before anything but the first observation, or it is the cycles from a workflow of these terms.\<close>

lemma acceptance_starts:
  assumes "cr_recommended r = Some k" and "accept_recommended_contract D n r provider dry_run world = (res, world')"
  shows "(\<exists>seen. ow_trace world' = seen @ ow_trace world \<and> accept_quiet seen) \<or>
    (\<exists>w o' number world1. ow_trace world1 = Observed o' # ow_trace world \<and> agreed_terms k w \<and>
       (reusable_approval w \<longrightarrow> w \<in> snd ` set (ks_workflows (ow_store world))) \<and>
       acceptance_cycles accept_cycles D provider dry_run w None o' 0 number world1 = (res, world'))"
proof -
  let ?quiet = "\<exists>seen. ow_trace world' = seen @ ow_trace world \<and> accept_quiet seen"
  obtain look w1 where look: "observe D world = (look, w1)" by fastforce
  show ?thesis
  proof (cases look)
    case (Inl e)
    then have "ow_trace world' = ow_trace world" using assms look
      by (auto simp: accept_recommended_contract_def seq_def observe_def on_desktop_def split: prod.splits sum.splits)
    then show ?thesis by (intro disjI1 exI [of _ "[]"]) simp
  next
    case (Inr o')
    have first: "ow_trace w1 = Observed o' # ow_trace world" "ow_store w1 = ow_store world"
      using look Inr by (auto simp: observe_def on_desktop_def split: prod.splits sum.splits)
    obtain time w2 where clock: "read_clock D w1 = (ok time, w2)" "ow_trace w2 = ow_trace w1" "ow_store w2 = ow_store w1"
      using clock_total by blast
    obtain created w3 where clock': "read_clock D w2 = (ok created, w3)" "ow_trace w3 = ow_trace w2" "ow_store w3 = ow_store w2"
      using clock_total by blast
    obtain fresh w4 where uuid: "uuid4 D w3 = (ok fresh, w4)" "ow_trace w4 = ow_trace w3" "ow_store w4 = ow_store w3"
      using uuid_total by blast
    note trace = clock(2) clock'(2) uuid(2) first(1)
    have seen: "ow_trace world' = Observed o' # ow_trace world \<Longrightarrow> ?quiet"
      by (intro exI [of _ "[Observed o']"]) simp
    let ?found = "\<lambda>p. get_contract (kw_id p) (ow_store w4)"
    let ?plan = "\<lambda>p. case ?found p of None \<Rightarrow> ok p | Some v \<Rightarrow> rbind (same_acceptance v p) (\<lambda>_. ok v)"
    show ?thesis
    proof (cases "recommendation_current time r (ui_after o')")
      case (Inl e)
      with assms look \<open>look = Inr o'\<close> clock have "world' = w2"
        by (simp add: accept_recommended_contract_def seq_def lift_result_def)
      with seen trace show ?thesis by simp
    next
      case current: (Inr u)
      show ?thesis
      proof (cases "rbind (create_contract_workflow n fresh created (ui_after o') k) ?plan")
        case (Inl e)
        with assms look \<open>look = Inr o'\<close> clock clock' uuid current have "world' = w4"
          by (cases "create_contract_workflow n fresh created (ui_after o') k")
            (simp_all add: accept_recommended_contract_def seq_def lift_result_def gets_def)
        with seen trace show ?thesis by simp
      next
        case (Inr w)
        then obtain p where p: "create_contract_workflow n fresh created (ui_after o') k = ok p" "?plan p = ok w"
          by (auto simp: rbind_Inr_iff)
        have terms: "agreed_terms k w" "reusable_approval w \<longrightarrow> w \<in> snd ` set (ks_workflows (ow_store world))"
          using p(2) created_terms [OF p(1)] resumed_terms uuid(3) clock(3) clock'(3) first(2)
          by (auto simp: rbind_Inr_iff get_contract_def split: option.split_asm dest!: map_of_SomeD intro!: rev_image_eqI)
        have run: "seq (store_contract w) (\<lambda>_. seq (next_number w) (\<lambda>number.
            acceptance_cycles accept_cycles D provider dry_run w None o' 0 number)) w4 = (res, world')"
          using assms look \<open>look = Inr o'\<close> clock clock' uuid current p
          by (simp add: accept_recommended_contract_def seq_def lift_result_def gets_def)
        obtain stored w5 where store: "store_contract w w4 = (stored, w5)" by fastforce
        have w5: "ow_trace w5 = Observed o' # ow_trace world"
          using store silent_store trace unfolding silent_def by (metis snd_conv)
        show ?thesis
        proof (cases stored)
          case (Inl e)
          with run store have "world' = w5" by (simp add: seq_def)
          with w5 seen show ?thesis by simp
        next
          case (Inr v)
          with run store obtain number where
            "acceptance_cycles accept_cycles D provider dry_run w None o' 0 number w5 = (res, world')"
            by (auto simp: seq_def next_number_def gets_def)
          with w5 terms show ?thesis by blast
        qed
      qed
    qed
  qed
qed

text \<open>
  C7. Accepting a contract. Whatever the desktop does, a run of the acceptance clicks the accepting control at most once.
  That click directly follows an observation in which the game is paused, the contract is listed with exactly the name,
  client, reward, penalty and deadline of the recommendation, and only its row and only the recommended team are selected;
  and before it a person had said yes in this run, or the store the run began with held a workflow with these very terms
  whose approval is one of an acceptance, was answered with yes and has the workflow's fingerprint. A denied, an undecided
  or another kind of approval does not count.
\<close>

theorem contract_acceptance_authorised:
  assumes "cr_recommended r = Some k"
  shows "acceptance_authorised k (granted_before k (ow_store world))
    (ow_trace (snd (accept_recommended_contract D n r provider dry_run (world\<lparr>ow_trace := []\<rparr>))))"
proof -
  let ?prior = "granted_before k (ow_store world)"
  obtain res world' where run: "accept_recommended_contract D n r provider dry_run (world\<lparr>ow_trace := []\<rparr>) = (res, world')"
    by fastforce
  from acceptance_starts [OF assms run] show ?thesis
  proof (elim disjE exE conjE)
    fix seen
    assume "ow_trace world' = seen @ ow_trace (world\<lparr>ow_trace := []\<rparr>)" "accept_quiet seen"
    then show ?thesis by (simp add: run quiet_accepts)
  next
    fix w o' number and world1 :: "('a, contract_store) operating"
    assume start: "ow_trace world1 = Observed o' # ow_trace (world\<lparr>ow_trace := []\<rparr>)" and terms: "agreed_terms k w"
      and prior: "reusable_approval w \<longrightarrow> w \<in> snd ` set (ks_workflows (ow_store (world\<lparr>ow_trace := []\<rparr>)))"
      and cycles: "acceptance_cycles accept_cycles D provider dry_run w None o' 0 number world1 = (res, world')"
    have "ready_to_accept ?prior w (ow_trace world1)"
      using start prior reusable_granted [OF _ terms, of "ow_store world"] by (auto simp: ready_to_accept_def)
    from tracing_result [OF acceptance_cycles_authorised [OF terms] this cycles] run show ?thesis by simp
  qed
qed

lemma contract_acceptance_authorised_witness:
  "acceptance_authorised job_candidate (granted_before job_candidate (ow_store acceptance_day))
     (ow_trace (snd (accept_recommended_contract scripted studio_naming job_recommendation True False
       (acceptance_day\<lparr>ow_trace := []\<rparr>)))) \<and>
   (\<exists>g. Sent g \<in> set (ow_trace (snd (accept_recommended_contract scripted studio_naming job_recommendation True False
       (acceptance_day\<lparr>ow_trace := []\<rparr>)))) \<and> ge_target g = ''commit_contract'')"
proof -
  have "acceptance_day\<lparr>ow_trace := []\<rparr> = acceptance_day" by (simp add: acceptance_day_def)
  moreover have "cr_recommended job_recommendation = Some job_candidate" by (simp add: job_recommendation_def)
  ultimately show ?thesis
    using acceptance_run contract_acceptance_authorised [of job_recommendation job_candidate acceptance_day scripted
      studio_naming True False] by auto
qed

end
