(* ===== verification/ContractRecommendation.thy ===== *)
theory ContractRecommendation
  imports ContractSamples
begin

text \<open>
  What the contract policy recommends: exactly the first contract, in the order of the policy, among those that the team
  can finish, the constraints allow and the cash reserve survives.
\<close>

section \<open>Which contracts fit\<close>

text \<open>
  A team fits a contract if it has an employee, covers every required role, has no other contract work, has a workstation
  for every employee, and the conservative budget of days ends within the completion window; and the contract fits the
  money if its reward is at least the requested one, the whole penalty leaves the reserve, and it has a window at all.
\<close>

definition contract_fits :: "contract \<Rightarrow> team_view \<Rightarrow> rat \<Rightarrow> rat \<Rightarrow> rat \<Rightarrow> bool" where
  "contract_fits c v cash minimum reserve \<longleftrightarrow>
     1 \<le> tv_employees v \<and>
     (\<forall>role \<in> set (required_roles c). casefold role \<in> casefold ` set (tv_roles v)) \<and> tv_active v = [] \<and>
     (\<exists>n. tv_capacity v = Some n \<and> tv_employees v \<le> n) \<and> 0 \<le> deadline_buffer c (tv_dpm v) \<and>
     minimum \<le> co_reward c \<and> reserve \<le> dsub cash (co_penalty c) \<and> 0 < co_days c"

lemma no_reasons: "team_reasons c v @ money_reasons c cash minimum reserve = [] \<longleftrightarrow> contract_fits c v cash minimum reserve"
  by (auto simp: team_reasons_def money_reasons_def contract_fits_def missing_roles_def filter_empty_conv
    split: option.splits)

text \<open>The order: higher reward, then more days to spare, then less difficulty, then the identifier\<close>

definition contract_order :: "contract \<Rightarrow> int \<Rightarrow> rat \<times> rat \<times> rat \<times> string" where
  "contract_order c dpm = (dec (- co_reward c), dec (- deadline_buffer c dpm), co_difficulty c, co_id c)"

lemma assessed:
  assumes "assess_contract s team minimum reserve c = ok k"
  shows "\<exists>v cash. view_team s team = ok v \<and> contract_cash s = ok cash \<and> cc_contract k = c \<and>
    as_name (cc_team k) = tv_name v \<and> cc_cash k = cash \<and> cc_worst k = dsub cash (co_penalty c) \<and> cc_minimum k = minimum \<and>
    cc_reserve k = reserve \<and> (cc_eligible k \<longleftrightarrow> contract_fits c v cash minimum reserve) \<and>
    contract_key k = contract_order c (tv_dpm v)"
  using assms no_reasons [of c _ _ minimum reserve]
  by (auto simp: assess_contract_def assess_team_def rbind_Inr_iff Let_def contract_key_def contract_order_def
    split: if_split_asm)

text \<open>
  C14. The recommendation of a contract is exact. When one is computed, the recommended contract is on the market, fits the
  team and the money, and no contract of the market that fits comes before it in the policy's order; what is recorded of it
  is what was observed: the team, the cash, and the cash left after the whole penalty, which is not below the reserve.
  When none is recommended, no contract of the market fits.
\<close>

theorem contract_recommendation_exact:
  assumes "recommend_contracts n now s team minimum reserve = ok r"
  shows "\<exists>cs. available_contracts s = ok cs \<and>
    (case cr_recommended r of
       None \<Rightarrow> \<forall>c \<in> set cs. \<exists>v cash. view_team s team = ok v \<and> contract_cash s = ok cash \<and>
         \<not> contract_fits c v cash minimum reserve
     | Some k \<Rightarrow> cc_contract k \<in> set cs \<and> (\<exists>v cash. view_team s team = ok v \<and> contract_cash s = ok cash \<and>
         contract_fits (cc_contract k) v cash minimum reserve \<and> as_name (cc_team k) = tv_name v \<and> cc_cash k = cash \<and>
         cc_worst k = dsub cash (co_penalty (cc_contract k)) \<and> reserve \<le> cc_worst k \<and> cc_reserve k = reserve \<and>
         (\<forall>c \<in> set cs. contract_fits c v cash minimum reserve \<longrightarrow>
            contract_order (cc_contract k) (tv_dpm v) \<le> contract_order c (tv_dpm v))))"
proof -
  let ?assess = "\<lambda>c. rbind (assess_contract s team minimum reserve c) (\<lambda>k. ok (Some k))"
  from assms obtain cs ks where cs: "available_contracts s = ok cs" and ks: "rcollect ?assess cs = ok ks"
    and r: "r = contract_recommendation_of n now s team minimum reserve ks"
    by (auto simp: recommend_contracts_def rbind_Inr_iff split: if_split_asm)
  have made: "k \<in> set ks \<longleftrightarrow> (\<exists>c \<in> set cs. assess_contract s team minimum reserve c = ok k)" for k
    by (auto simp: rcollect_all [OF ks] rbind_Inr_iff)
  have all: "\<exists>k. assess_contract s team minimum reserve c = ok k \<and> k \<in> set ks" if "c \<in> set cs" for c
    using rcollect_members [OF ks that] made that by (auto simp: rbind_Inr_iff)
  have best: "cr_recommended r = (case ranked_contracts ks of [] \<Rightarrow> None | k # _ \<Rightarrow> Some k)"
    by (simp add: r contract_recommendation_of_def Let_def)
  show ?thesis
  proof (cases "ranked_contracts ks")
    case Nil
    then have "filter cc_eligible ks = []" by (metis ranked_contracts_def set_sort set_empty)
    then have "\<exists>v cash. view_team s team = ok v \<and> contract_cash s = ok cash \<and> \<not> contract_fits c v cash minimum reserve"
      if "c \<in> set cs" for c
      using all [OF that] assessed by (fastforce simp: filter_empty_conv)
    then show ?thesis using cs best Nil by simp
  next
    case (Cons k rest)
    from first_of_sorted [OF Cons [unfolded ranked_contracts_def]]
    have k: "k \<in> set ks" "cc_eligible k" and first: "\<And>j. j \<in> set ks \<Longrightarrow> cc_eligible j \<Longrightarrow> contract_key k \<le> contract_key j"
      by auto
    from k(1) made obtain c where c: "c \<in> set cs" "assess_contract s team minimum reserve c = ok k" by blast
    from assessed [OF c(2)] obtain v cash where v: "view_team s team = ok v" "contract_cash s = ok cash" "cc_contract k = c"
      and facts: "as_name (cc_team k) = tv_name v" "cc_cash k = cash" "cc_worst k = dsub cash (co_penalty c)"
        "cc_reserve k = reserve" "contract_fits c v cash minimum reserve" "contract_key k = contract_order c (tv_dpm v)"
      using k(2) by auto
    have "contract_order c (tv_dpm v) \<le> contract_order d (tv_dpm v)"
      if d: "d \<in> set cs" "contract_fits d v cash minimum reserve" for d
    proof -
      from all [OF d(1)] obtain j where j: "assess_contract s team minimum reserve d = ok j" "j \<in> set ks" by blast
      from assessed [OF j(1)] v(1,2) d(2) have "cc_eligible j" "contract_key j = contract_order d (tv_dpm v)" by auto
      with first [OF j(2)] facts show ?thesis by simp
    qed
    moreover from facts have "reserve \<le> cc_worst k" by (simp add: contract_fits_def)
    ultimately show ?thesis using cs best Cons c v facts by auto
  qed
qed

section \<open>The recommendation in the studio\<close>

lemma studio_cash: "contract_cash (studio m p work) = ok 10000"
  by (simp add: contract_cash_def studio_def observed_surface_def finance_entity_def jget_def)

lemma studio_team:
  "view_team (studio m p []) ''Core'' = ok \<lparr>tv_team = team_entity, tv_name = ''Core'', tv_roles = [''Designer'', ''Programmer''],
     tv_active = [], tv_employees = 3, tv_capacity = Some 3, tv_dpm = 1\<rparr>"
proof -
  have words: "fold_words ''Core'' = ''core''" "strip ''Core'' = ''Core''" "casefold ''Core'' = ''core''"
    "split_parts CHR ''|'' [] ''Core'' = [''Core'']" "sort [''Programmer'', ''Designer''] = [''Designer'', ''Programmer'']"
    by code_simp+
  have roles: "observed_roles employee_entity = ok [''Programmer'', ''Designer'']"
  proof -
    have "value_text employee_entity ''role'' False = ok ''Designer, Programmer''" by code_simp
    moreover have "\<not> occurs_in ''any role'' (casefold ''Designer, Programmer'')" by code_simp
    moreover have "filter (\<lambda>name. occurs_in (casefold name) (casefold ''Designer, Programmer''))
        [''Lead'', ''Programmer'', ''Designer'', ''Artist'', ''Service''] = [''Programmer'', ''Designer'']" by code_simp
    ultimately show ?thesis by (simp only: observed_roles_def rbind.simps Let_def if_False) simp
  qed
  have "unique_named_team (studio m p []) ''Core'' = ok team_entity"
    by (simp add: unique_named_team_def require_complete_surface_def studio_def observed_surface_def team_entity_def
      value_text_def jget_def words the_one_def)
  moreover have "team_employees (studio m p []) ''Core'' = ok [employee_entity]"
    by (simp add: team_employees_def require_complete_surface_def studio_def observed_surface_def employee_entity_def
      value_text_def jget_def words)
  moreover have "workspace_capacity (studio m p []) ''Core'' = ok (Some 3)"
    by (simp add: workspace_capacity_def require_complete_surface_def studio_def observed_surface_def office_entity_def
      value_text_def value_integer_def jget_def words)
  moreover have "value_integer team_entity ''employee_count'' = ok 3" "value_text team_entity ''name'' False = ok ''Core''"
    by (simp_all add: team_entity_def value_integer_def value_text_def jget_def words)
  moreover have "positive_days_per_month (studio m p []) message = ok 1" for message
    by (simp add: positive_days_per_month_def studio_def jget_def)
  ultimately show ?thesis by (simp add: view_team_def roles studio_work words)
qed

lemma studio_recommends:
  "\<exists>r. recommend_contracts studio_naming 10 (studio m p []) ''Core'' 100 5000 = ok r \<and> cr_recommended r = Some job_candidate"
proof -
  let ?v = "\<lparr>tv_team = team_entity, tv_name = ''Core'', tv_roles = [''Designer'', ''Programmer''], tv_active = [],
    tv_employees = 3, tv_capacity = Some 3, tv_dpm = 1\<rparr>"
  have job: "co_dev_time job = 1" "co_days job = 2" "co_art job = 0" "co_reward job = 1000" "co_penalty job = 500"
    by (simp_all add: job_def)
  have days: "conservative_days job 1 = 1" "deadline_buffer job 1 = 1"
    using dec_of_int [of 1] by (simp_all add: conservative_days_def deadline_buffer_def job dsub_def)
  have cash: "dsub 10000 500 = 9500"
    using dec_of_int [of 9500] by (simp add: dsub_def)
  have required: "required_roles job = [''Designer'', ''Programmer'']" by (simp add: required_roles_def job)
  have missing: "missing_roles job [''Designer'', ''Programmer''] = []" by (simp add: missing_roles_def required)
  have "contract_fits job ?v 10000 100 5000" by (simp add: contract_fits_def required days job cash)
  then have fits: "team_reasons job ?v = []" "money_reasons job 10000 100 5000 = []"
    by (simp_all only: no_reasons [symmetric] append_is_Nil_conv)
  have "assess_team job ?v = ok job_team"
    by (simp add: assess_team_def fits days missing required job_team_def) (simp add: team_entity_def)
  then have "assess_contract (studio m p []) ''Core'' 100 5000 job = ok job_candidate"
    by (simp add: assess_contract_def studio_team studio_cash fits job_candidate_def job cash)
  then show ?thesis
    by (simp add: recommend_contracts_def studio_market contract_recommendation_of_def Let_def ranked_contracts_def
      job_candidate_def)
qed

lemma contract_recommendation_exact_witness:
  "\<exists>cs. available_contracts (studio 1 True []) = ok cs \<and> cc_contract job_candidate \<in> set cs \<and>
     (\<exists>v cash. view_team (studio 1 True []) ''Core'' = ok v \<and> contract_fits job v cash 100 5000 \<and>
        5000 \<le> cc_worst job_candidate)"
proof -
  obtain r where "recommend_contracts studio_naming 10 (studio 1 True []) ''Core'' 100 5000 = ok r"
    "cr_recommended r = Some job_candidate" using studio_recommends by blast
  moreover have "cc_contract job_candidate = job" by (simp add: job_candidate_def)
  ultimately show ?thesis
    using contract_recommendation_exact [of studio_naming 10 "studio 1 True []" "''Core''" 100 5000 r] by auto
qed

end
