(* ===== verification/ContractReview.thy ===== *)
theory ContractReview
  imports ContractSafety ContractSamples
begin

text \<open>
  Reviewing a contract: a dry run that finds the review window already open is a real run, and it spends.
\<close>

section \<open>A day on which the review window is open\<close>

definition reviewed_workflow :: "contract_status \<Rightarrow> contract_approval option \<Rightarrow> int \<Rightarrow> contract_workflow" where
  "reviewed_workflow status a number =
     (job_workflow status a number 10)\<lparr>kw_stage := Alpha, kw_item := Some ''w1'', kw_accepted := Some 10\<rparr>"

abbreviation review_desktop :: "((ui_exn, ui_observation) result list) desktop" where
  "review_desktop \<equiv> scripted_with word_of_nat"

definition review_text :: string where
  "review_text = ''mode=internal, review_count=1''"

definition review_approval :: "bool option \<Rightarrow> contract_approval" where
  "review_approval d =
     \<lparr>ca_id = 2, ca_workflow = 5, ca_commitment = Review,
      ca_summary = approval_summary (reviewed_workflow ContractActive None 4) Review 250 (Some review_text),
      ca_contract = ''c1'', ca_team = ''Core'', ca_reward = 1000, ca_penalty = 500, ca_cost = 250,
      ca_configuration = Some review_text, ca_deadline = deadline_text 2 2, ca_fingerprint = ''p'', ca_approved = d,
      ca_created = 10, ca_resolved = (if d = None then None else Some 10)\<rparr>"

abbreviation review_first :: ui_observation where
  "review_first \<equiv> seen_as ContractReviewSetup [] (studio 4 True [work_entity])"

abbreviation review_fresh :: ui_observation where
  "review_fresh \<equiv> seen_as ContractReviewSetup [''commit_contract_review''] (studio 5 True [work_entity])"

abbreviation review_after :: ui_observation where
  "review_after \<equiv> seen_as GameplayPaused [] (studio 6 True [work_entity, review_entity])"

definition review_start :: contract_workflow where
  "review_start = reviewed_workflow ContractActive (Some (job_approval (Some True))) 3"

definition review_day :: "((ui_exn, ui_observation) result list, contract_store) operating" where
  "review_day = \<lparr>ow_desktop = [ok review_first, ok review_fresh, ok review_after], ow_store = one_row review_start [],
     ow_trace = []\<rparr>"

lemma reviewed_selectors [simp]:
  "kw_id (reviewed_workflow status a n) = 5" "kw_item (reviewed_workflow status a n) = Some ''w1''"
  "kw_stage (reviewed_workflow status a n) = Alpha" "kw_status (reviewed_workflow status a n) = status"
  by (simp_all add: reviewed_workflow_def job_workflow_def)

lemma reviewed_matching:
  "matching_work (studio n p [work_entity]) (reviewed_workflow status a m) = ok (Some job_work)"
  "matching_work (studio n p [work_entity, review_entity]) (reviewed_workflow status a m) = ok (Some job_work)"
  by (simp_all add: matching_work_def studio_work is_work_of_def job_work_def reviewed_workflow_def job_workflow_def)

lemma review_work_found: "matching_review_work (studio n p [work_entity, review_entity]) ''w1'' = ok (Some review_entity)"
  by (simp add: matching_review_work_def sole_entity_def studio_def observed_surface_def work_entity_def review_entity_def jget_def)

lemma reviewed_synchronized:
  assumes "m < n" and "work = [work_entity] \<or> work = [work_entity, review_entity]"
  shows "synchronize_now (scripted_with ids) (reviewed_workflow status a m) (seen_as sc ts (studio n p work)) w =
    (ok (reviewed_workflow status a n), w)"
proof -
  have "synchronized_with 10 (reviewed_workflow status a m) (studio n p work) job_work = reviewed_workflow status a n"
    by (simp add: synchronized_with_def job_work_def reviewed_workflow_def job_workflow_def)
  moreover have "active_contract_work (studio n p work) = ok [job_work]" using assms(2) studio_work by auto
  moreover have "is_work_of (reviewed_workflow status a m) job_work"
    by (simp add: is_work_of_def job_work_def reviewed_workflow_def job_workflow_def)
  moreover have "same_contract_save (reviewed_workflow status a m) (studio n p work)" "kw_sequence (reviewed_workflow status a m) = m"
    by (simp_all add: same_contract_save_def reviewed_workflow_def job_workflow_def)
  ultimately show ?thesis
    using assms(1) by (simp add: synchronize_now_def synchronize_workflow_def prog_defs)
qed

lemma review_approval_made:
  "approval_for 2 10 (reviewed_workflow status a n) Review 250 (Some review_text) = ok (review_approval None)"
proof -
  have same: "approval_summary (reviewed_workflow status a n) Review 250 (Some review_text) = ca_summary (review_approval None)"
    by (simp add: review_approval_def approval_summary_def reviewed_workflow_def job_workflow_def Let_def)
  have "bounded_text 1024 (ca_summary (review_approval None))" "bounded_text 512 review_text"
    by (simp_all add: review_approval_def approval_summary_def reviewed_workflow_def job_workflow_def Let_def job_texts
      bounded_text_def review_text_def)
  with same show ?thesis
    by (simp add: approval_for_def make_contract_approval_def reviewed_workflow_def job_workflow_def review_approval_def
      bounded_opt_def)
qed

text \<open>The two writes of the run, and the approval\<close>

lemma one_row_event:
  assumes "kw_id v = 5" and "\<And>e. e \<in> set es \<Longrightarrow> ce_id e \<noteq> word_of_nat (length (ow_desktop w)) \<and> ce_sequence e \<noteq> int (length es) + 1"
    and "\<And>e. e \<in> set es \<Longrightarrow> ce_workflow e = 5"
    and "ow_store w = one_row u es" "1 \<le> bridge" "bounded_text 64 kind" "bounded_text 2048 detail"
  shows "\<exists>e. append_contract review_desktop v kind bridge before after action sent verified detail w =
      (ok (), w\<lparr>ow_store := one_row u (es @ [e])\<rparr>) \<and> ce_id e = word_of_nat (length (ow_desktop w)) \<and>
      ce_sequence e = int (length es) + 1 \<and> ce_workflow e = 5"
proof -
  have "filter (\<lambda>e. ce_workflow e = 5) es = es" using assms(3) by (simp add: filter_id_conv)
  then have number: "next_number v w = (ok (int (length es) + 1), w)"
    by (simp add: next_number_def prog_defs contract_events_def assms(1,4) one_row_def)
  let ?e = "\<lparr>ce_id = word_of_nat (length (ow_desktop w)), ce_workflow = 5, ce_sequence = int (length es) + 1, ce_type = kind,
    ce_bridge = bridge, ce_before = before, ce_after = after, ce_action = action, ce_input_sent = sent, ce_verified = verified,
    ce_detail = detail, ce_recorded = 10\<rparr>"
  have "append_contract_event ?e (one_row u es) = ok (one_row u (es @ [?e]))"
    using assms(2) by (auto simp: append_contract_event_def one_row_def)
  then show ?thesis
    by (intro exI [of _ ?e])
      (simp add: append_contract_def seq_def number record_event_def assms(1,4-7) make_contract_event_def on_store_def
        lift_result_def)
qed

lemma one_row_store:
  "kw_id v = 5 \<Longrightarrow> ow_store w = one_row u es \<Longrightarrow> store_contract v w = (ok (), w\<lparr>ow_store := one_row v es\<rparr>)"
  by (simp add: store_contract_def on_store_def one_row_save)

lemma review_requested:
  assumes "ow_store w = one_row u es" and "length (ow_desktop w) = 2"
  shows "request_commitment review_desktop (reviewed_workflow status a n) Review 250 (Some review_text) w =
    (ok (reviewed_workflow ContractWaiting (Some (review_approval None)) n, review_approval None),
     w\<lparr>ow_store := one_row (reviewed_workflow ContractWaiting (Some (review_approval None)) n) es\<rparr>)"
proof -
  have "(reviewed_workflow status a n)\<lparr>kw_approval := Some b, kw_status := ContractWaiting, kw_updated := 10\<rparr> =
      reviewed_workflow ContractWaiting (Some b) n" for b
    by (simp add: reviewed_workflow_def job_workflow_def)
  then show ?thesis
    by (simp add: request_commitment_def prog_defs assms review_approval_made one_row_store Let_def)
qed

lemma review_decided:
  assumes "ow_store w = one_row u es"
  shows "decide_commitment review_desktop (reviewed_workflow ContractWaiting (Some (review_approval None)) n) (review_approval None) w =
    (ok (reviewed_workflow ContractActive (Some (review_approval (Some True))) n),
     w\<lparr>ow_trace := Asked 2 True # ow_trace w,
       ow_store := one_row (reviewed_workflow ContractActive (Some (review_approval (Some True))) n) es\<rparr>)"
proof -
  have "resolve_approval 10 True (reviewed_workflow ContractWaiting (Some (review_approval None)) n) =
      ok (reviewed_workflow ContractActive (Some (review_approval (Some True))) n)"
    by (simp add: resolve_approval_def reviewed_workflow_def job_workflow_def review_approval_def)
  moreover have "ca_id (review_approval d) = 2" for d by (simp add: review_approval_def)
  ultimately show ?thesis by (simp add: decide_commitment_def prog_defs assms one_row_store)
qed

lemma review_pressed:
  assumes "ow_desktop w = [ok review_after]"
  shows "\<exists>g. press review_desktop review_fresh ''commit_contract_review'' (ca_summary (review_approval None)) w =
      (ok review_after, w\<lparr>ow_desktop := [], ow_trace := Observed review_after # Sent g # ow_trace w\<rparr>) \<and>
      ge_target g = ''commit_contract_review''"
proof -
  have "bounded_text 512 (ca_summary (review_approval None))"
    by (simp add: review_approval_def approval_summary_def reviewed_workflow_def job_workflow_def Let_def job_texts
      bounded_text_def review_text_def)
  then show ?thesis
    using scripted_gesture [of w review_after "[]" ContractReviewSetup "[''commit_contract_review'']" "studio 5 True [work_entity]"
      "ca_summary (review_approval None)" "''commit_contract_review''" word_of_nat contract_settle ContractReviewSetup] assms
    by (auto simp: press_def prog_defs bounded_text_def)
qed

text \<open>The operation along its successful path\<close>

lemma perform_review_steps:
  assumes "observe D w0 = (ok fresh, w1)" "require_continuity seen fresh = ok ()" "require_actionable ''contracts'' fresh = ok ()"
    and "ui_scene fresh = ContractReviewSetup" "review_cost (ui_after fresh) = ok cost"
    and "review_configuration (ui_after fresh) = ok text'" "synchronize_now D v fresh w1 = (ok v1, w2)"
    and "matching_work (ui_after fresh) v1 = ok found" "same_work found i (cw_stage item)"
    and "press D fresh ''commit_contract_review'' (ca_summary a) w2 = (ok after, w3)"
    and "synchronize_now D v1 after w3 = (ok v2, w4)" "matching_work (ui_after after) v2 = ok item'"
    and "matching_review_work (ui_after after) i = ok (Some r)" "store_contract v2 w4 = (ok (), w5)"
    and "append_contract D v2 ''review_started'' (gs_sequence (ui_after after)) (cw_stage item) (kw_stage v2)
      (Some (ca_summary a)) True True (''review configuration '' @ text' @ ''; observed one-time cost $'' @
        money_text cost @ ''; linked_review_work='' @ py_repr (JBool True)) w5 = (ok (), w6)"
  shows "perform_review D v i item a cost text' seen n w0 = contract_result_of D (Some v2) (n + 1) True False
    (''Review started and verified; configuration '' @ text' @ ''; one-time cost $'' @ money_text cost @ ''.'') w6"
  by (simp only: perform_review_def seq_def lift_result_def prod.case sum.case assms if_False if_True option.distinct simp_thms)

lemma approve_review_steps:
  assumes "store_contract v w0 = (ok (), w1)"
    and "append_contract D v ''review_setup_resumed'' (gs_sequence (ui_after seen)) (cw_stage item) (kw_stage v) None False True
      ''fresh review setup was observed before any spending approval'' w1 = (ok (), w2)"
    and "review_cost (ui_after seen) = ok cost" "review_configuration (ui_after seen) = ok text'"
    and "request_commitment D v Review cost (Some text') w2 = (ok (waiting, a), w3)"
    and "decide_commitment D waiting a w3 = (ok decided, w4)" "kw_status decided \<noteq> ContractBlocked"
  shows "approve_review D True v i item seen n True w0 = perform_review D decided i item a cost text' seen n w4"
  by (simp only: approve_review_def seq_def lift_result_def prod.case sum.case assms if_False if_True simp_thms)

lemma review_steps:
  assumes "observe D w0 = (ok seen, w1)" "require_actionable ''contracts'' seen = ok ()" "is_paused seen"
    and "ui_scene seen = ContractReviewSetup" "synchronize_now D v seen w1 = (ok v1, w2)"
    and "matching_work (ui_after seen) v1 = ok (Some item)" "kw_item v1 = Some i" "cw_stage item = Alpha"
  shows "review_contract D provider dry_run v w0 = approve_review D provider v1 i item seen 0 True w2"
  by (simp only: review_contract_def review_setup_def seq_def ret_def lift_result_def prod.case sum.case option.case assms if_False if_True
    contract_stage.distinct simp_thms)

section \<open>The run\<close>

lemma review_run:
  "\<exists>v w'. review_contract review_desktop True False review_start review_day = (ok v, w') \<and> kr_verified v \<and>
     (\<exists>g. Sent g \<in> set (ow_trace w') \<and> ge_target g = ''commit_contract_review'')"
proof -
  let ?active = "reviewed_workflow ContractActive (Some (job_approval (Some True))) 4"
  let ?yes = "reviewed_workflow ContractActive (Some (review_approval (Some True)))"
  let ?a = "review_approval None"
  let ?w1 = "review_day\<lparr>ow_desktop := [ok review_fresh, ok review_after], ow_trace := [Observed review_first]\<rparr>"
  have first: "observe review_desktop review_day = (ok review_first, ?w1)"
    "is_paused review_first" "require_actionable ''contracts'' review_first = ok ()"
    "synchronize_now review_desktop review_start review_first ?w1 = (ok ?active, ?w1)"
    by (simp_all add: review_day_def review_start_def reviewed_synchronized)
  let ?w2 = "?w1\<lparr>ow_store := one_row ?active []\<rparr>"
  have opened: "store_contract ?active ?w1 = (ok (), ?w2)"
    by (simp add: one_row_store [where u = review_start and es = "[]"] review_day_def)
  obtain e where e: "append_contract review_desktop ?active ''review_setup_resumed'' 4 Alpha Alpha None False True
      ''fresh review setup was observed before any spending approval'' ?w2 = (ok (), ?w2\<lparr>ow_store := one_row ?active [e]\<rparr>)"
    "ce_id e = 2" "ce_sequence e = 1" "ce_workflow e = 5"
    using one_row_event [of ?active "[]" ?w2 ?active 4 "''review_setup_resumed''"
      "''fresh review setup was observed before any spending approval''" Alpha Alpha None False True]
    by (auto simp: bounded_text_def review_day_def)
  let ?w3 = "?w2\<lparr>ow_store := one_row ?active [e]\<rparr>"
  let ?waiting = "reviewed_workflow ContractWaiting (Some ?a) 4"
  let ?w4 = "?w3\<lparr>ow_store := one_row ?waiting [e]\<rparr>"
  let ?w5 = "?w4\<lparr>ow_trace := Asked 2 True # ow_trace ?w4, ow_store := one_row (?yes 4) [e]\<rparr>"
  have asked: "request_commitment review_desktop ?active Review 250 (Some review_text) ?w3 = (ok (?waiting, ?a), ?w4)"
    "decide_commitment review_desktop ?waiting ?a ?w4 = (ok (?yes 4), ?w5)"
    by (simp_all add: review_requested [where u = ?active and es = "[e]"] review_decided [where u = ?waiting and es = "[e]"])
  let ?w6 = "?w5\<lparr>ow_desktop := [ok review_after], ow_trace := Observed review_fresh # ow_trace ?w5\<rparr>"
  have fresh: "observe review_desktop ?w5 = (ok review_fresh, ?w6)" "require_continuity review_first review_fresh = ok ()"
    "require_actionable ''contracts'' review_fresh = ok ()"
    "synchronize_now review_desktop (?yes 4) review_fresh ?w6 = (ok (?yes 5), ?w6)"
    by (simp_all add: require_continuity_def reviewed_synchronized)
  obtain g where g: "press review_desktop review_fresh ''commit_contract_review'' (ca_summary ?a) ?w6 =
      (ok review_after, ?w6\<lparr>ow_desktop := [], ow_trace := Observed review_after # Sent g # ow_trace ?w6\<rparr>)"
    and target: "ge_target g = ''commit_contract_review''" using review_pressed [of ?w6] by auto
  let ?w7 = "?w6\<lparr>ow_desktop := [], ow_trace := Observed review_after # Sent g # ow_trace ?w6\<rparr>"
  let ?w8 = "?w7\<lparr>ow_store := one_row (?yes 6) [e]\<rparr>"
  have settled: "synchronize_now review_desktop (?yes 5) review_after ?w7 = (ok (?yes 6), ?w7)"
    "store_contract (?yes 6) ?w7 = (ok (), ?w8)"
    by (simp_all add: reviewed_synchronized one_row_store [where u = "?yes 4" and es = "[e]"])
  let ?detail = "''review configuration '' @ review_text @ ''; observed one-time cost $'' @ money_text 250 @
    ''; linked_review_work='' @ py_repr (JBool True)"
  have "bounded_text 2048 ?detail" by (simp add: review_text_def job_texts bounded_text_def)
  then obtain e' where e': "append_contract review_desktop (?yes 6) ''review_started'' 6 Alpha Alpha (Some (ca_summary ?a)) True True
      ?detail ?w8 = (ok (), ?w8\<lparr>ow_store := one_row (?yes 6) [e, e']\<rparr>)"
    using one_row_event [of "?yes 6" "[e]" ?w8 "?yes 6" 6 "''review_started''" ?detail Alpha Alpha "Some (ca_summary ?a)" True True] e
    by (auto simp: bounded_text_def)
  let ?message = "''Review started and verified; configuration '' @ review_text @ ''; one-time cost $'' @ money_text 250 @ ''.''"
  have done': "\<exists>v. contract_result_of review_desktop (Some (?yes 6)) 1 True False ?message w = (ok v, w) \<and> kr_verified v" for w
    by (simp add: contract_result_of_def prog_defs review_text_def job_texts bounded_text_def)
  let ?fin = "?w8\<lparr>ow_store := one_row (?yes 6) [e, e']\<rparr>"
  have work: "same_work (Some job_work) ''w1'' Alpha" "cw_stage job_work = Alpha"
    by (simp_all add: same_work_def job_work_def)
  have performed: "perform_review review_desktop (?yes 4) ''w1'' job_work ?a 250 review_text review_first 0 ?w5 =
      contract_result_of review_desktop (Some (?yes 6)) (0 + 1) True False ?message ?fin"
    by (rule perform_review_steps [OF fresh(1-3) _ _ _ fresh(4) _ _ g settled(1) _ _ settled(2)])
      (use work studio_review e' in \<open>simp_all add: reviewed_matching review_work_found review_text_def\<close>)
  have approved: "approve_review review_desktop True ?active ''w1'' job_work review_first 0 True ?w1 =
      perform_review review_desktop (?yes 4) ''w1'' job_work ?a 250 review_text review_first 0 ?w5"
    by (rule approve_review_steps [OF opened _ _ _ asked])
      (use work studio_review e in \<open>simp_all add: review_text_def\<close>)
  have "review_contract review_desktop True False review_start review_day =
      approve_review review_desktop True ?active ''w1'' job_work review_first 0 True ?w1"
    by (rule review_steps [OF first(1,3,2) _ first(4)]) (simp_all add: reviewed_matching work)
  with done' [of ?fin] target show ?thesis unfolding approved performed by (auto intro!: exI [of _ g])
qed

section \<open>The dry run\<close>

text \<open>
  C30. Where the review window is already open at the first observation, a dry run of reviewing is not dry: it is the same
  run as without the flag, whatever the provider, the workflow and the rest of the desktop are. In the studio this run asks
  for the approval, sends the click that spends, and reports a started review as verified.
\<close>

theorem review_ignores_dry_run:
  assumes "dt_observe D (ow_desktop w) = (ok o', u)" and "ui_scene o' = ContractReviewSetup"
  shows "review_contract D provider True v w = review_contract D provider False v w"
proof -
  have ready: "review_setup D dry c item i o' = ret (Inr (o', c, 0, True))" for dry c item i
    by (simp add: review_setup_def assms(2))
  have look: "observe D w = (ok o', w\<lparr>ow_desktop := u, ow_trace := Observed o' # ow_trace w\<rparr>)"
    by (simp add: observe_def on_desktop_def assms(1))
  show ?thesis by (simp only: review_contract_def seq_def [of "observe D"] look prod.case sum.case ready)
qed

lemma review_ignores_dry_run_witness:
  "\<exists>v w'. review_contract review_desktop True True review_start review_day = (ok v, w') \<and> kr_verified v \<and>
     (\<exists>g. Sent g \<in> set (ow_trace w') \<and> ge_target g = ''commit_contract_review'')"
proof -
  have "dt_observe review_desktop (ow_desktop review_day) = (ok review_first, [ok review_fresh, ok review_after])"
    by (simp add: scripted_with_def review_day_def)
  from review_ignores_dry_run [OF this] have "review_contract review_desktop True True review_start review_day =
      review_contract review_desktop True False review_start review_day" by simp
  with review_run show ?thesis by simp
qed

end
