(* ===== verification/ContractStore.thy ===== *)
theory ContractStore
  imports ContractSafety ContractSamples WorkflowRows
begin

text \<open>
  The store of contract workflows: what a sound store is, that every operation of the operator keeps it sound, and what one
  open workflow does to the acceptance of the others.
\<close>

section \<open>The store\<close>

text \<open>
  Every row has its own key, a save has at most one open workflow, events have their own identifiers and numbers, and every
  event belongs to a workflow that is there.
\<close>

definition contract_store_ok :: "contract_store \<Rightarrow> bool" where
  "contract_store_ok st \<longleftrightarrow> rows_ok kw_id contract_open (\<lambda>v. (kw_session v, kw_save v)) (ks_workflows st) \<and>
     distinct (map ce_id (ks_events st)) \<and> distinct (map (\<lambda>e. (ce_workflow e, ce_sequence e)) (ks_events st)) \<and>
     ce_workflow ` set (ks_events st) \<subseteq> fst ` set (ks_workflows st)"

lemma save_contract_ok:
  assumes "contract_store_ok st" and "save_contract w st = ok st'"
  shows "contract_store_ok st'"
proof -
  from assms(2) have st': "st' = st\<lparr>ks_workflows := AList.update (kw_id w) w (ks_workflows st)\<rparr>"
    and free: "contract_open w \<Longrightarrow> (j, u) \<in> set (ks_workflows st) \<Longrightarrow> owns_contract_save (kw_session w) (kw_save w) u \<Longrightarrow>
      j = kw_id w" for j u
    by (auto simp: save_contract_def split: if_split_asm)
  have "rows_ok kw_id contract_open (\<lambda>v. (kw_session v, kw_save v)) (AList.update (kw_id w) w (ks_workflows st))"
    using assms(1) free by (intro rows_update) (auto simp: contract_store_ok_def owns_contract_save_def)
  moreover have "fst ` set (AList.update (kw_id w) w (ks_workflows st)) = insert (kw_id w) (fst ` set (ks_workflows st))"
    by (simp add: dom_update)
  ultimately show ?thesis using assms(1) by (auto simp: contract_store_ok_def st')
qed

lemma append_contract_event_ok:
  assumes "contract_store_ok st" and "append_contract_event e st = ok st'"
  shows "contract_store_ok st'"
proof -
  from assms(2) have st': "st' = st\<lparr>ks_events := ks_events st @ [e]\<rparr>"
    and fresh: "\<forall>d \<in> set (ks_events st). ce_id d \<noteq> ce_id e \<and> (ce_workflow d, ce_sequence d) \<noteq> (ce_workflow e, ce_sequence e)"
    and row: "ce_workflow e \<in> fst ` set (ks_workflows st)"
    by (auto simp: append_contract_event_def split: if_split_asm)
  have "ce_id e \<notin> ce_id ` set (ks_events st)"
    "(ce_workflow e, ce_sequence e) \<notin> (\<lambda>e. (ce_workflow e, ce_sequence e)) ` set (ks_events st)"
    using fresh by force+
  with assms(1) row show ?thesis by (simp add: contract_store_ok_def st')
qed

interpretation contract_rows: event_store contract_store_ok save_contract append_contract_event
  by unfold_locales (fact save_contract_ok, fact append_contract_event_ok)

section \<open>Every operation keeps it sound\<close>

named_theorems contract_rules "operations that keep the contract store sound"

declare contract_rows.rules [contract_rules] contract_rows.event [contract_rules]

lemma sound_parts [contract_rules]:
  "contract_rows.keeps (contract_result_of D found n v p m)" "contract_rows.keeps (store_contract w)"
  "contract_rows.keeps (next_number w)" "contract_rows.keeps (press D o' i effect)"
  "contract_rows.keeps (synchronize_now D w o')"
  unfolding contract_result_of_def store_contract_def next_number_def press_def synchronize_now_def
  by (intro contract_rules)+

lemma sound_record [contract_rules]:
  "contract_rows.keeps (record_event D w number kind bridge before after action sent verified detail)"
  unfolding record_event_def by (intro contract_rules)

lemma sound_append [contract_rules]:
  "contract_rows.keeps (append_contract D w kind bridge before after action sent verified detail)"
  unfolding append_contract_def by (intro contract_rules)

lemma sound_approval [contract_rules]:
  "contract_rows.keeps (request_commitment D w c cost configuration)" "contract_rows.keeps (decide_commitment D w a)"
  unfolding request_commitment_def decide_commitment_def Let_def by (intro contract_rules)+

lemma sound_optional [contract_rules]: "contract_rows.keeps (optional_target D o' i)"
  unfolding optional_target_def by (auto split: list.split intro!: contract_rules)

lemma sound_acceptance [contract_rules]:
  "contract_rows.keeps (acceptance_gesture D w o' t effect number)"
  "contract_rows.keeps (approve_acceptance D provider dry_run w n)"
  "contract_rows.keeps (already_accepted D w o' i n)"
  unfolding acceptance_gesture_def approve_acceptance_def already_accepted_def Let_def by (intro contract_rules)+

lemma sound_cycles [contract_rules]: "contract_rows.keeps (acceptance_cycles cycles D provider dry_run w configuring o' n number)"
proof (induction cycles arbitrary: w configuring o' n number)
  case (Suc cycles)
  show ?case
    unfolding acceptance_cycles.simps
  proof (intro contract_rules)
    fix step
    show "contract_rows.keeps (case step of
        AcceptPress i effect configuring' \<Rightarrow> seq (find_target D ''contract'' o' i) (\<lambda>t.
          if dry_run then contract_result_of D (Some w) n False True (''Dry run: would '' @ effect @ ''.'')
          else seq (acceptance_gesture D w o' t effect number) (\<lambda>(after, w').
            acceptance_cycles cycles D provider dry_run w' configuring' after (n + 1) (number + 1)))
      | AcceptCommit \<Rightarrow> seq (approve_acceptance D provider dry_run w n) (\<lambda>decision. case decision of Inl r \<Rightarrow> ret r
          | Inr agreed \<Rightarrow> seq (observe D) (\<lambda>fresh.
              seq (lift_result (require_continuity o' fresh)) (\<lambda>_.
              seq (lift_result (require_actionable ''contracts'' fresh)) (\<lambda>_.
              seq (lift_result (acceptance_current agreed fresh)) (\<lambda>_.
              seq (find_target D ''contract'' fresh ''commit_contract'') (\<lambda>t.
              seq (acceptance_gesture D agreed fresh t (''accept exact contract '' @ str_repr (kw_name agreed)) number)
                (\<lambda>(after, w'). acceptance_cycles cycles D provider dry_run w' configuring after (n + 1) (number + 1)))))))))"
      by (cases step; simp only: accept_step.case; intro contract_rules Suc.IH)
  qed
qed (simp add: contract_rules)

lemma sound_controls [contract_rules]:
  "contract_rows.keeps (open_work_item D w i item o' message)" "contract_rows.keeps (promotion_offered D o')"
  "contract_rows.keeps (reach_commitment D c suffix w i item o')" "contract_rows.keeps (click_commitment D c w item a o' t)"
  unfolding open_work_item_def promotion_offered_def reach_commitment_def click_commitment_def by (intro contract_rules)+

lemma sound_commitment [contract_rules]:
  "contract_rows.keeps (perform_commitment D c suffix w i item a o')"
  unfolding perform_commitment_def Let_def by (intro contract_rules)

lemma sound_reconcile [contract_rules]: "contract_rows.keeps (reconcile_release D w s e)"
  unfolding reconcile_release_def Let_def
  by (intro contract_rules) (auto split: option.split list.split intro!: contract_rules)

lemma sound_work_item [contract_rules]: "contract_rows.keeps (commit_work_item_action D c suffix provider dry_run w)"
  unfolding commit_work_item_action_def by (intro contract_rules)

lemma sound_review [contract_rules]:
  "contract_rows.keeps (perform_review D w i item a cost configuration o' n)"
  "contract_rows.keeps (approve_review D provider w i item o' n existing)"
  "contract_rows.keeps (review_setup D dry_run w item i o')"
  unfolding perform_review_def approve_review_def review_setup_def by (intro contract_rules)+

lemma sound_preflight [contract_rules]: "contract_rows.keeps (preflight steps D dry_run w item o' n)"
proof (induction steps arbitrary: w item o' n)
  case 0
  show ?case by (subst preflight.simps, simp only: nat.case, intro contract_rules)
next
  case (Suc steps)
  show ?case by (subst preflight.simps, simp only: nat.case, intro contract_rules Suc.IH)
qed

lemma sound_interval [contract_rules]:
  "contract_rows.keeps (finish_review D dry_run w item e o' n)"
  "contract_rows.keeps (approve_deadline D provider w item o')"
  "contract_rows.keeps (activate_work D dry_run w item o' n)"
  "contract_rows.keeps (time_control D w o' i effect stage achieved detail)"
  "contract_rows.keeps (report_interval D w item o' n)"
  unfolding finish_review_def approve_deadline_def activate_work_def time_control_def report_interval_def Let_def
  by (intro contract_rules)+

lemma sound_run [contract_rules]: "contract_rows.keeps (run_contract_interval D seconds w item o' n)"
  unfolding run_contract_interval_def pause_interval_def by (intro contract_rules)

lemma sound_operations:
  "contract_rows.keeps (accept_recommended_contract D n r provider dry_run)"
  "contract_rows.keeps (review_contract D provider dry_run w)"
  "contract_rows.keeps (advance_contract D seconds provider dry_run w)"
  unfolding accept_recommended_contract_def review_contract_def advance_contract_def by (intro contract_rules)+

text \<open>
  C18. The store of contract workflows stays sound under every operation of the operator, whatever the desktop does and
  wherever the operation fails: rows keep their keys, a save has at most one open workflow, no event is recorded twice, and
  every event belongs to a stored workflow. In a sound store the look-up of the open workflow of a save never fails.
\<close>

theorem contract_store_sound:
  assumes "contract_store_ok (ow_store w)"
  shows "contract_store_ok (ow_store (snd (accept_recommended_contract D n r provider dry_run w))) \<and>
    contract_store_ok (ow_store (snd (promote_contract D provider dry_run v w))) \<and>
    contract_store_ok (ow_store (snd (release_contract D provider dry_run v w))) \<and>
    contract_store_ok (ow_store (snd (review_contract D provider dry_run v w))) \<and>
    contract_store_ok (ow_store (snd (advance_contract D seconds provider dry_run v w))) \<and>
    (\<exists>found. current_contract session save (ow_store w) = ok found)"
proof -
  have "owns_contract_save session save = (\<lambda>v. contract_open v \<and> (kw_session v, kw_save v) = (session, save))"
    by (auto simp: owns_contract_save_def)
  then obtain own where own: "filter (owns_contract_save session save) (map snd (ks_workflows (ow_store w))) = own"
    and "length own \<le> 1"
    using assms rows_lookup [where p = "(session, save)"] unfolding contract_store_ok_def by fastforce
  then have "\<exists>found. current_contract session save (ow_store w) = ok found"
    unfolding current_contract_def own by (auto split: list.split)
  moreover have "contract_rows.keeps m \<Longrightarrow> contract_store_ok (ow_store (snd (m w)))" for m :: "('a, contract_result) contract_operation"
    using assms by (simp add: stays_def)
  ultimately show ?thesis
    unfolding promote_contract_def release_contract_def by (intro conjI) (simp_all add: sound_operations sound_work_item)
qed

lemma contract_store_sound_witness:
  "contract_store_ok (ow_store (snd (accept_recommended_contract scripted studio_naming job_recommendation True False acceptance_day)))"
proof -
  have "contract_store_ok (ow_store acceptance_day)" by (simp add: contract_store_ok_def rows_ok_def acceptance_day_def)
  from contract_store_sound [OF this] show ?thesis by blast
qed

section \<open>A contract that was denied\<close>

text \<open>\<open>fails Q m\<close>: from \<open>Q\<close>, \<open>m\<close> raises, and it stays in \<open>Q\<close>.\<close>

definition fails :: "(('u, 's) operating \<Rightarrow> bool) \<Rightarrow> ('u, 's, 'a) operation \<Rightarrow> bool" where
  "fails Q m \<longleftrightarrow> (\<forall>w. Q w \<longrightarrow> (\<exists>e w'. m w = (Inl e, w') \<and> Q w'))"

lemma fails_seq: "stays Q m \<Longrightarrow> (\<And>a. fails Q (f a)) \<Longrightarrow> fails Q (seq m f)"
  by (fastforce simp: fails_def stays_def seq_def split: prod.splits sum.splits)

lemma fails_at: "fails Q m \<Longrightarrow> fails Q (seq m f)"
  by (fastforce simp: fails_def seq_def)

lemma fails_lift: "(\<And>a. r = ok a \<Longrightarrow> fails Q (f a)) \<Longrightarrow> fails Q (seq (lift_result r) f)"
  by (cases r) (auto simp: fails_def seq_def lift_result_def)

lemma fails_gets: "(\<And>w. Q w \<Longrightarrow> fails Q (f (h w))) \<Longrightarrow> fails Q (seq (gets h) f)"
  by (auto simp: fails_def prog_defs)

lemma created_place:
  "create_contract_workflow n fresh now s k = ok u \<Longrightarrow>
     kw_session u = gs_session s \<and> kw_save u = save_text s \<and> kw_status u = ContractWaiting \<and>
     kw_id u \<in> range (na_uuid5 n)"
  by (auto simp: create_contract_workflow_def Let_def rbind_Inr_iff split: if_split_asm)

text \<open>
  C31. A contract whose acceptance was denied, or only asked for in a dry run, shuts out every other one: while its workflow
  is blocked or waiting, accepting any contract that is new to the store, in the same save, fails without sending anything
  and without changing the store. (No operation closes such a workflow, other than accepting and finishing the same
  contract.)
\<close>

theorem open_contract_blocks_others:
  assumes "(i, v) \<in> set (ks_workflows (ow_store w))" and "kw_status v \<in> {ContractWaiting, ContractBlocked}"
    and "cr_recommended r = Some k" and "cr_session r = kw_session v" and "cr_save r = kw_save v"
    and "\<forall>fresh now s u. create_contract_workflow n fresh now s k = ok u \<longrightarrow> kw_id u \<notin> fst ` set (ks_workflows (ow_store w))"
  shows "\<exists>e w'. accept_recommended_contract D n r provider dry_run (w\<lparr>ow_trace := []\<rparr>) = (Inl e, w') \<and>
    ow_store w' = ow_store w \<and> sends_nothing (ow_trace w')"
proof -
  let ?Q = "\<lambda>w'. ow_store w' = ow_store w \<and> sends_nothing (ow_trace w')"
  have taken: "fails ?Q (store_contract u)"
    if new: "kw_id u \<notin> fst ` set (ks_workflows (ow_store w))" and place: "kw_session u = kw_session v" "kw_save u = kw_save v"
      and status: "kw_status u = ContractWaiting" for u
  proof -
    have "contract_open u" "owns_contract_save (kw_session u) (kw_save u) v"
      using assms(2) place status by (auto simp: contract_open_def owns_contract_save_def)
    moreover have "i \<noteq> kw_id u" using assms(1) new by force
    ultimately have "\<exists>e. save_contract u (ow_store w) = Inl e"
      using assms(1) unfolding save_contract_def by auto
    then show ?thesis by (auto simp: fails_def store_contract_def on_store_def)
  qed
  have quiet: "stays ?Q (observe D)" "stays ?Q (read_clock D)" "stays ?Q (uuid4 D)"
    by (auto simp: stays_def observe_def read_clock_def uuid4_def on_desktop_def split: prod.splits sum.splits)
  have "fails ?Q (accept_recommended_contract D n r provider dry_run)"
    unfolding accept_recommended_contract_def assms(3) option.case
  proof (intro fails_seq [OF quiet(1)] fails_seq [OF quiet(2)] fails_seq [OF quiet(3)] fails_lift fails_gets fails_at)
    fix o' time and fresh :: uuid and created u and world :: "('a, contract_store) operating" and x
    assume current: "recommendation_current time r (ui_after o') = ok x"
      and made: "create_contract_workflow n fresh created (ui_after o') k = ok u" and world: "?Q world"
    have new: "kw_id u \<notin> fst ` set (ks_workflows (ow_store w))" using assms(6) made by blast
    then have none: "get_contract (kw_id u) (ow_store world) = None"
      using world by (auto simp: get_contract_def map_of_eq_None_iff)
    have "kw_session u = kw_session v" "kw_save u = kw_save v"
      using created_place [OF made] current assms(4,5) by (auto simp: recommendation_current_def split: if_split_asm)
    from taken [OF new this] created_place [OF made] none
    show "fails ?Q (store_contract u')" if "(case get_contract (kw_id u) (ow_store world) of None \<Rightarrow> ok u
        | Some v \<Rightarrow> rbind (same_acceptance v u) (\<lambda>_. ok v)) = ok u'" for u'
      using that by simp
  qed
  then show ?thesis by (simp add: fails_def)
qed

lemma open_contract_blocks_others_witness:
  "\<exists>e w'. accept_recommended_contract scripted studio_naming job_recommendation True False
     (acceptance_day\<lparr>ow_store := \<lparr>ks_workflows = [(6, (job_workflow ContractBlocked None 1 10)\<lparr>kw_id := 6, kw_contract := ''c0''\<rparr>)],
        ks_events = []\<rparr>, ow_trace := []\<rparr>) = (Inl e, w')"
proof -
  let ?v = "(job_workflow ContractBlocked None 1 10)\<lparr>kw_id := 6, kw_contract := ''c0''\<rparr>"
  let ?w = "acceptance_day\<lparr>ow_store := \<lparr>ks_workflows = [(6, ?v)], ks_events = []\<rparr>\<rparr>"
  have "(6, ?v) \<in> set (ks_workflows (ow_store ?w))" "kw_status ?v \<in> {ContractWaiting, ContractBlocked}"
    "cr_recommended job_recommendation = Some job_candidate" "cr_session job_recommendation = kw_session ?v"
    "cr_save job_recommendation = kw_save ?v"
    by (simp_all add: job_workflow_def job_recommendation_def)
  moreover have "\<forall>fresh now s u. create_contract_workflow studio_naming fresh now s job_candidate = ok u \<longrightarrow>
      kw_id u \<notin> fst ` set (ks_workflows (ow_store ?w))"
  proof (intro allI impI)
    fix fresh now s u
    assume "create_contract_workflow studio_naming fresh now s job_candidate = ok u"
    then have "kw_id u = 5" using created_place by (fastforce simp: studio_naming_def)
    then show "kw_id u \<notin> fst ` set (ks_workflows (ow_store ?w))" by simp
  qed
  ultimately show ?thesis
    using open_contract_blocks_others [of 6 ?v ?w job_recommendation job_candidate studio_naming scripted True False]
    by fastforce
qed

end
