(* ===== verification/Products.thy ===== *)
theory Products
  imports Training TextParsing
begin

text \<open>
  Products, \<open>software_inc/products/\<close>: the models (\<open>models.py\<close>) with the pinned design of the one product Atlas
  (\<open>contract.py\<close>), the projections from a snapshot (\<open>projection.py\<close>), the recommendation with its runway (\<open>policy.py\<close>)
  and the workflow with its approvals (\<open>workflow.py\<close>). SHA-256 and \<open>uuid5\<close> are the parameter \<open>naming\<close>; identifiers from
  \<open>uuid4\<close> and times are arguments.
\<close>

section \<open>Models\<close>

datatype product_stage = AtConfiguration | AtDesign | AtAlpha | AtBeta

fun product_stage_text :: "product_stage \<Rightarrow> string" where
  "product_stage_text AtConfiguration = ''configuration''"
| "product_stage_text AtDesign = ''design''"
| "product_stage_text AtAlpha = ''alpha''"
| "product_stage_text AtBeta = ''beta''"

datatype product_status =
  ProductWaiting | ProductActive | ProductHeld | BetaReached | ProductBlocked | ProductFailed

datatype product_commitment = CreateProduct | ReviewProduct | IterateProduct | PromoteProduct

record product_feature =
  fe_id :: string
  fe_name :: string
  fe_specialization :: string
  fe_dependencies :: "string list"
  fe_time :: rat
  fe_art :: rat
  fe_server :: rat
  fe_unlocked :: bool

record product_kind =
  kd_name :: string
  kd_description :: string
  kd_categories :: "string list"
  kd_unlocked :: bool
  kd_in_house :: bool
  kd_os_specific :: bool
  kd_time :: rat

record product_class =
  cl_type :: string
  cl_name :: string
  cl_description :: string
  cl_price :: rat
  cl_default :: bool
  cl_unlocked :: bool

record system_option =
  so_id :: string
  so_name :: string
  so_users :: int
  so_released :: string
  so_selected :: bool

record product_configuration =
  cf_name :: string
  cf_type :: string
  cf_category :: string
  cf_features :: "string list"
  cf_systems :: "string list"
  cf_design :: "string list"
  cf_development :: "string list"
  cf_price :: rat
  cf_server :: rat
  cf_months :: rat
  cf_issue :: string

definition make_configuration :: "product_configuration \<Rightarrow> (ui_exn, product_configuration) result" where
  "make_configuration c =
     (if bounded_text 64 (cf_name c) \<and> cf_features c \<noteq> [] \<and> cf_systems c \<noteq> [] \<and> cf_design c \<noteq> [] \<and>
         cf_development c \<noteq> [] \<and> 0 \<le> cf_price c \<and> 0 \<le> cf_server c \<and> 0 < cf_months c
      then ok c else raise (ModelRejected ''ProductConfiguration''))"

record product_runway =
  ru_cash :: rat
  ru_reserve :: rat
  ru_payroll :: rat
  ru_infrastructure :: rat
  ru_months :: rat
  ru_recurring :: rat
  ru_one_time :: rat
  ru_after :: rat

definition make_runway :: "product_runway \<Rightarrow> (ui_exn, product_runway) result" where
  "make_runway r =
     (if 0 \<le> ru_reserve r \<and> 0 \<le> ru_payroll r \<and> 0 \<le> ru_infrastructure r \<and> 0 < ru_months r \<and> 0 \<le> ru_recurring r \<and>
         0 \<le> ru_one_time r
      then ok r else raise (ModelRejected ''ProductRunway''))"

record team_suitability =
  sb_team :: string
  sb_employees :: int
  sb_programmer :: rat
  sb_designer :: rat
  sb_artist :: rat
  sb_specializations :: "string list"
  sb_roles :: "string list"
  sb_active :: "string list"
  sb_suitable :: bool
  sb_reasons :: "string list"

definition make_suitability :: "team_suitability \<Rightarrow> (ui_exn, team_suitability) result" where
  "make_suitability t =
     (if 0 \<le> sb_employees t \<and> 0 \<le> sb_programmer t \<and> 0 \<le> sb_designer t \<and> 0 \<le> sb_artist t
      then ok t else raise (ModelRejected ''TeamSuitability''))"

record product_recommendation =
  pr_id :: string
  pr_session :: string
  pr_save :: string
  pr_sequence :: int
  pr_fingerprint :: string
  pr_configuration :: product_configuration
  pr_runway :: product_runway
  pr_team :: team_suitability
  pr_recommended :: bool
  pr_reasons :: "string list"
  pr_unknowns :: "string list"
  pr_created :: int
  pr_expires :: int

record product_approval =
  pa_id :: uuid
  pa_workflow :: uuid
  pa_commitment :: product_commitment
  pa_summary :: string
  pa_product :: string
  pa_before :: product_stage
  pa_after :: product_stage
  pa_fingerprint :: string
  pa_cash :: rat
  pa_projected :: rat
  pa_reserve :: rat
  pa_cost :: rat
  pa_approved :: "bool option"
  pa_created :: int
  pa_resolved :: "int option"

definition make_product_approval :: "product_approval \<Rightarrow> (ui_exn, product_approval) result" where
  "make_product_approval a =
     (if bounded_text 2048 (pa_summary a) \<and> 0 \<le> pa_reserve a \<and> 0 \<le> pa_cost a \<and>
         (pa_approved a = None \<longleftrightarrow> pa_resolved a = None)
      then ok a else raise (ModelRejected ''ProductApproval''))"

record product_workflow =
  pw_id :: uuid
  pw_session :: string
  pw_save :: string
  pw_name :: string
  pw_type :: string
  pw_category :: string
  pw_features :: "string list"
  pw_systems :: "string list"
  pw_team :: string
  pw_price :: rat
  pw_reserve :: rat
  pw_initial :: rat
  pw_projected :: rat
  pw_stage :: product_stage
  pw_status :: product_status
  pw_item :: "string option"
  pw_held :: bool
  pw_iteration :: int
  pw_progress :: rat
  pw_accuracy :: "rat option"
  pw_score :: "rat option"
  pw_approval :: "product_approval option"
  pw_fingerprint :: string
  pw_sequence :: int
  pw_created :: int
  pw_updated :: int

section \<open>The pinned design\<close>

definition atlas_name :: string where "atlas_name = ''Atlas''"

definition atlas_type :: string where "atlas_type = ''2D Editor''"

definition atlas_category :: string where "atlas_category = ''Default''"

definition atlas_features :: "string list" where "atlas_features = [''2D graphics'', ''System'']"

definition atlas_team :: string where "atlas_team = ''Core''"

section \<open>Reading values\<close>

text \<open>\<open>str(values.get(field, default))\<close>\<close>

definition shown_value :: "entity \<Rightarrow> string \<Rightarrow> string \<Rightarrow> string" where
  "shown_value e field default' = (case map_of (en_values e) field of None \<Rightarrow> default' | Some v \<Rightarrow> py_str v)"

definition product_surface :: "game_snapshot \<Rightarrow> string \<Rightarrow> (ui_exn, surface) result" where
  "product_surface s name = the_one (UIValidationError (name @ '' surface is unavailable or ambiguous''))
     (filter (\<lambda>u. fc_surface (su_coverage u) = name) (gs_surfaces s))"

definition read_decimal :: "json \<Rightarrow> string \<Rightarrow> (ui_exn, rat) result" where
  "read_decimal v label = (case as_decimal v of Some x \<Rightarrow> ok x
     | None \<Rightarrow> raise (UIValidationError (label @ '' is not observed numeric data'')))"

definition read_text :: "json \<Rightarrow> string \<Rightarrow> bool \<Rightarrow> (ui_exn, string) result" where
  "read_text v label empty' = (case as_str v of
       Some t \<Rightarrow> if \<not> empty' \<and> strip t = [] then raise (UIValidationError (label @ '' is not observed text'')) else ok (strip t)
     | None \<Rightarrow> raise (UIValidationError (label @ '' is not observed text'')))"

definition bar_set :: "string \<Rightarrow> string list" where
  "bar_set t = sort (remdups (filter (\<lambda>p. p \<noteq> []) (map strip (split_parts CHR ''|'' [] t))))"

definition read_parts :: "json \<Rightarrow> string \<Rightarrow> bool \<Rightarrow> (ui_exn, string list) result" where
  "read_parts v label empty' = rbind (read_text v label empty') (\<lambda>t. ok (bar_set t))"

definition read_flag :: "entity \<Rightarrow> string \<Rightarrow> string \<Rightarrow> (ui_exn, bool) result" where
  "read_flag e field message = (case as_bool (jget (en_values e) field) of Some b \<Rightarrow> ok b
     | None \<Rightarrow> raise (UIValidationError message))"

section \<open>Projections\<close>

definition product_cash :: "game_snapshot \<Rightarrow> (ui_exn, rat) result" where
  "product_cash s = rbind (product_surface s ''finances'') (\<lambda>u.
     rbind (the_one (UIValidationError ''current company cash is ambiguous'') (su_entities u)) (\<lambda>e.
     read_decimal (jget (en_values e) ''cash'') ''finances.cash''))"

definition product_kind_of :: "game_snapshot \<Rightarrow> string \<Rightarrow> (ui_exn, product_kind) result" where
  "product_kind_of s name = rbind (product_surface s ''product_catalog'') (\<lambda>u.
     rbind (the_one (UIValidationError (''product type '' @ str_repr name @ '' is unavailable or ambiguous''))
       (filter (\<lambda>e. casefold (shown_value e ''name'' []) = casefold name) (typed_entities ''software_type'' u))) (\<lambda>e.
     rbind (read_flag e ''unlocked'' ''product type availability is not observed'') (\<lambda>unlocked.
     rbind (read_flag e ''in_house'' ''product type availability is not observed'') (\<lambda>in_house.
     rbind (read_flag e ''os_specific'' ''product type availability is not observed'') (\<lambda>os_specific.
     rbind (read_text (jget (en_values e) ''name'') ''software_type.name'' False) (\<lambda>n.
     rbind (read_text (jget (en_values e) ''description'') ''software_type.description'' False) (\<lambda>description.
     rbind (read_parts (jget (en_values e) ''categories'') ''software_type.categories'' False) (\<lambda>categories.
     rbind (read_decimal (jget (en_values e) ''optimal_development_time'') ''software_type.optimal_development_time'') (\<lambda>time.
     if time < 0 then raise (ModelRejected ''ProductTypeObservation'')
     else ok \<lparr>kd_name = n, kd_description = description, kd_categories = categories, kd_unlocked = unlocked,
       kd_in_house = in_house, kd_os_specific = os_specific, kd_time = time\<rparr>)))))))))"

definition product_class_of :: "game_snapshot \<Rightarrow> string \<Rightarrow> string \<Rightarrow> (ui_exn, product_class) result" where
  "product_class_of s kind category = rbind (product_surface s ''product_catalog'') (\<lambda>u.
     rbind (the_one (UIValidationError (''product category '' @ str_repr kind @ ''/'' @ str_repr category @
         '' is unavailable or ambiguous''))
       (filter (\<lambda>e. casefold (shown_value e ''product_type'' []) = casefold kind \<and>
          casefold (shown_value e ''name'' []) = casefold category) (typed_entities ''software_category'' u))) (\<lambda>e.
     rbind (read_flag e ''is_default'' ''product category availability is not observed'') (\<lambda>is_default.
     rbind (read_flag e ''unlocked'' ''product category availability is not observed'') (\<lambda>unlocked.
     rbind (read_text (jget (en_values e) ''product_type'') ''software_category.product_type'' False) (\<lambda>t.
     rbind (read_text (jget (en_values e) ''name'') ''software_category.name'' False) (\<lambda>n.
     rbind (read_text (jget (en_values e) ''description'') ''software_category.description'' True) (\<lambda>description.
     rbind (read_decimal (jget (en_values e) ''ideal_price'') ''software_category.ideal_price'') (\<lambda>price.
     if price < 0 then raise (ModelRejected ''ProductCategoryObservation'')
     else ok \<lparr>cl_type = t, cl_name = n, cl_description = description, cl_price = price, cl_default = is_default,
       cl_unlocked = unlocked\<rparr>))))))))"

definition read_feature :: "entity \<Rightarrow> (ui_exn, product_feature) result" where
  "read_feature e =
     rbind (read_flag e ''unlocked'' ''feature availability is not observed'') (\<lambda>unlocked.
     rbind (read_text (jget (en_values e) ''localized_name'') ''software_feature.localized_name'' False) (\<lambda>n.
     rbind (read_text (jget (en_values e) ''specialization'') ''software_feature.specialization'' True) (\<lambda>special.
     rbind (read_parts (jget (en_values e) ''dependencies'') ''software_feature.dependencies'' True) (\<lambda>dependencies.
     rbind (read_decimal (jget (en_values e) ''development_time'') ''software_feature.development_time'') (\<lambda>time.
     rbind (read_decimal (jget (en_values e) ''code_art_ratio'') ''software_feature.code_art_ratio'') (\<lambda>art.
     rbind (read_decimal (jget (en_values e) ''server_requirement'') ''software_feature.server_requirement'') (\<lambda>server.
     if time < 0 \<or> art < 0 \<or> server < 0 then raise (ModelRejected ''ProductFeatureObservation'')
     else ok \<lparr>fe_id = en_id e, fe_name = n, fe_specialization = special, fe_dependencies = dependencies,
       fe_time = time, fe_art = art, fe_server = server, fe_unlocked = unlocked\<rparr>)))))))"

definition product_features :: "game_snapshot \<Rightarrow> string \<Rightarrow> (ui_exn, product_feature list) result" where
  "product_features s kind = rbind (product_surface s ''product_catalog'') (\<lambda>u.
     rbind (rcollect (\<lambda>e. if en_type e \<noteq> ''software_feature'' \<or> casefold (shown_value e ''product_type'' []) \<noteq> casefold kind
        then ok None else rbind (read_feature e) (\<lambda>f. ok (Some f))) (su_entities u)) (\<lambda>fs.
     ok (sort_key (\<lambda>f. casefold (fe_name f)) fs)))"

definition product_ui_state :: "game_snapshot \<Rightarrow> (ui_exn, entity) result" where
  "product_ui_state s = rbind (product_surface s ''product_ui'') (\<lambda>u.
     the_one (UIValidationError ''product UI state is unavailable or ambiguous'')
       (filter (\<lambda>e. en_id e = ''current'') (typed_entities ''product_ui_state'' u)))"

definition read_system :: "entity \<Rightarrow> (ui_exn, system_option) result" where
  "read_system e = (case (as_bool (jget (en_values e) ''selected''), as_int (jget (en_values e) ''userbase'')) of
       (Some selected, Some users) \<Rightarrow>
         rbind (read_text (jget (en_values e) ''name'') ''operating_system.name'' False) (\<lambda>n.
         rbind (read_text (jget (en_values e) ''release_date'') ''operating_system.release_date'' False) (\<lambda>released.
         if users < 0 then raise (ModelRejected ''ProductOperatingSystemObservation'')
         else ok \<lparr>so_id = en_id e, so_name = n, so_users = users, so_released = released, so_selected = selected\<rparr>))
     | _ \<Rightarrow> raise (UIValidationError ''operating-system selection or audience is not observed''))"

definition operating_system_options :: "game_snapshot \<Rightarrow> (ui_exn, system_option list) result" where
  "operating_system_options s = rbind (product_surface s ''product_ui'') (\<lambda>u.
     rbind (rcollect (\<lambda>e. rbind (read_system e) (\<lambda>x. ok (Some x))) (typed_entities ''operating_system_option'' u)) (\<lambda>xs.
     ok (sort_key (\<lambda>x. (- so_users x, so_id x)) xs)))"

text \<open>Later features win a shared name, as in a dictionary.\<close>

definition feature_named :: "product_feature list \<Rightarrow> string \<Rightarrow> product_feature option" where
  "feature_named fs name = map_of (rev (map (\<lambda>f. (casefold (fe_name f), f)) fs)) (casefold name)"

text \<open>\<open>feature_id.split(":", 1)[-1]\<close>\<close>

definition after_colon :: "string \<Rightarrow> string" where
  "after_colon s = (case dropWhile (\<lambda>c. c \<noteq> CHR '':'') s of [] \<Rightarrow> s | _ # r \<Rightarrow> r)"

definition missing_dependencies :: "product_feature list \<Rightarrow> string list" where
  "missing_dependencies fs =
     (let internal = map (\<lambda>f. casefold (after_colon (fe_id f))) fs in
      sort_key casefold (sort (remdups (filter (\<lambda>d. casefold d \<notin> set internal) (concat (map fe_dependencies fs))))))"

definition visible_product_configuration :: "game_snapshot \<Rightarrow> (ui_exn, product_configuration) result" where
  "visible_product_configuration s =
     rbind (product_ui_state s) (\<lambda>state. let get = jget (en_values state) in
     if get ''scene'' \<noteq> JStr ''product_configuration''
     then raise (UIValidationError ''the visible product configuration window is not open'')
     else
     rbind (read_text (get ''selected_type'') ''product_ui.selected_type'' False) (\<lambda>kind.
     rbind (read_parts (get ''selected_features'') ''product_ui.selected_features'' False) (\<lambda>selected.
     rbind (product_features s kind) (\<lambda>features.
     if \<exists>n \<in> set selected. feature_named features n = None
     then raise (UIValidationError ''selected product features are not present in the version-pinned catalog'')
     else let chosen = map (\<lambda>n. the (feature_named features n)) selected; missing = missing_dependencies chosen in
     if missing \<noteq> []
     then raise (UIValidationError (''selected product features omit declared dependencies: '' @ join '', '' missing))
     else let server = decimal_sum (map fe_server chosen); expected = decimal_sum (map fe_time chosen) in
     rbind (if expected \<le> 0 then rbind (product_kind_of s kind) (\<lambda>k. ok (kd_time k)) else ok expected) (\<lambda>months.
     rbind (read_text (get ''product_name'') ''product_ui.product_name'' False) (\<lambda>name.
     rbind (read_text (get ''selected_category'') ''product_ui.selected_category'' False) (\<lambda>category.
     rbind (read_parts (get ''selected_operating_systems'') ''product_ui.selected_operating_systems'' False) (\<lambda>systems.
     rbind (read_parts (get ''design_teams'') ''product_ui.design_teams'' False) (\<lambda>design.
     rbind (read_parts (get ''development_teams'') ''product_ui.development_teams'' False) (\<lambda>development.
     rbind (read_decimal (get ''price'') ''product_ui.price'') (\<lambda>price.
     rbind (read_text (get ''team_issue'') ''product_ui.team_issue'' True) (\<lambda>issue.
     make_configuration \<lparr>cf_name = name, cf_type = kind, cf_category = category, cf_features = selected,
       cf_systems = systems, cf_design = design, cf_development = development, cf_price = price, cf_server = server,
       cf_months = months, cf_issue = issue\<rparr>))))))))))))"

text \<open>\<open>text.split(sep)\<close>, with its empty parts\<close>

fun split_at :: "char \<Rightarrow> string \<Rightarrow> string \<Rightarrow> string list" where
  "split_at sep part [] = [rev part]"
| "split_at sep part (c # s) = (if c = sep then rev part # split_at sep [] s else split_at sep (c # part) s)"

definition employee_skill :: "string \<Rightarrow> entity list \<Rightarrow> (ui_exn, rat) result" where
  "employee_skill field es = rbind (rcollect (\<lambda>e.
     rbind (read_decimal (jget (en_values e) field) (''employee.'' @ field)) (\<lambda>x. ok (Some x))) es) (\<lambda>xs. ok (decimal_sum xs))"

definition suitability_reasons :: "entity list \<Rightarrow> rat \<Rightarrow> rat \<Rightarrow> string list \<Rightarrow> string list" where
  "suitability_reasons employees programmer designer active =
     (if employees = [] then [''team has no observed employees''] else []) @
     (if programmer \<le> 0 then [''team has no observed Programmer skill''] else []) @
     (if designer \<le> 0 then [''team has no observed Designer skill''] else []) @
     (if active \<noteq> [] then [''team has existing active work''] else [])"

text \<open>The education entries of some employees with a positive level\<close>

definition learned :: "entity list \<Rightarrow> entity list \<Rightarrow> entity list" where
  "learned employees es = filter (\<lambda>e. en_type e = ''employee_specialization'' \<and>
     shown_value e ''employee_id'' ''None'' \<in> set (map en_id employees) \<and>
     (case as_int (jget (en_values e) ''level'') of Some i \<Rightarrow> 0 < i | None \<Rightarrow> False)) es"

definition role_specializations :: "entity list \<Rightarrow> string list" where
  "role_specializations es = sort (remdups (map
     (\<lambda>e. shown_value e ''role'' ''None'' @ '':'' @ shown_value e ''specialization'' ''None'')
     (filter (\<lambda>e. strip (shown_value e ''role'' []) \<noteq> [] \<and> strip (shown_value e ''specialization'' []) \<noteq> []) es)))"

definition suitability_of :: "game_snapshot \<Rightarrow> string \<Rightarrow> (ui_exn, team_suitability) result" where
  "suitability_of s team_name =
     rbind (product_surface s ''teams'') (\<lambda>teams.
     rbind (the_one (UIValidationError (''team '' @ str_repr team_name @ '' is unavailable or ambiguous''))
       (filter (\<lambda>e. casefold (shown_value e ''name'' []) = casefold team_name) (su_entities teams))) (\<lambda>_.
     rbind (product_surface s ''employees'') (\<lambda>staff.
     let employees = filter (\<lambda>e. casefold (shown_value e ''team'' []) = casefold team_name) (su_entities staff) in
     rbind (employee_skill ''skill_programmer'' employees) (\<lambda>programmer.
     rbind (employee_skill ''skill_designer'' employees) (\<lambda>designer.
     rbind (employee_skill ''skill_artist'' employees) (\<lambda>artist.
     rbind (product_surface s ''work_items'') (\<lambda>work.
     let active = sort (map (\<lambda>e. shown_value e ''name'' ''None'') (filter (\<lambda>e.
       team_name \<in> set (split_at CHR ''|'' [] (shown_value e ''assigned_teams'' [])) \<and>
       jget (en_values e) ''done'' \<noteq> JBool True) (su_entities work))) in
     rbind (product_surface s ''education'') (\<lambda>lessons.
     let education = learned employees (su_entities lessons);
       reasons = suitability_reasons employees programmer designer active in
     make_suitability \<lparr>sb_team = team_name, sb_employees = int (length employees), sb_programmer = programmer,
       sb_designer = designer, sb_artist = artist,
       sb_specializations = sort (remdups (map (\<lambda>e. shown_value e ''specialization'' ''None'') education)),
       sb_roles = role_specializations education, sb_active = active, sb_suitable = (reasons = []),
       sb_reasons = reasons\<rparr>))))))))"

definition product_work :: "game_snapshot \<Rightarrow> string \<Rightarrow> (ui_exn, entity option) result" where
  "product_work s name = rbind (product_surface s ''work_items'') (\<lambda>u.
     case filter (\<lambda>e. jget (en_values e) ''is_contract'' = JBool False \<and>
         casefold (shown_value e ''name'' []) = casefold name) (typed_entities ''work_item'' u) of
       [] \<Rightarrow> ok None
     | [e] \<Rightarrow> ok (Some e)
     | _ \<Rightarrow> raise (UIValidationError (''product work '' @ str_repr name @ '' is ambiguous'')))"

definition product_stage_of :: "entity \<Rightarrow> (ui_exn, product_stage) result" where
  "product_stage_of e =
     (if jget (en_values e) ''in_beta'' = JBool True then ok AtBeta
      else let kind = casefold (shown_value e ''work_type'' []) in
        if occurs_in ''design'' kind then ok AtDesign
        else if occurs_in ''alpha'' kind \<or> occurs_in ''development'' kind \<or> occurs_in ''software'' kind then ok AtAlpha
        else raise (UIValidationError ''product work stage is not recognized''))"

section \<open>The recommendation\<close>

definition product_ttl :: int where "product_ttl = 180000000"

definition numeric_sum :: "game_snapshot \<Rightarrow> string \<Rightarrow> string \<Rightarrow> (ui_exn, rat) result" where
  "numeric_sum s name field =
     rbind (the_one (UIValidationError (name @ '' is unavailable or ambiguous''))
       (filter (\<lambda>u. fc_surface (su_coverage u) = name) (gs_surfaces s))) (\<lambda>u.
     rbind (rcollect (\<lambda>e. let v = jget (en_values e) field in
       if is_null v then ok None
       else case as_decimal v of Some x \<Rightarrow> ok (Some x)
         | None \<Rightarrow> raise (UIValidationError (name @ ''.'' @ field @ '' is not numeric''))) (su_entities u)) (\<lambda>xs.
     ok (decimal_sum xs)))"

definition project_runway :: "rat \<Rightarrow> rat \<Rightarrow> rat \<Rightarrow> rat \<Rightarrow> rat \<Rightarrow> product_runway" where
  "project_runway cash reserve payroll infrastructure expected =
     (let months = max 1 (of_int \<lceil>expected\<rceil>); recurring = dec (dadd payroll infrastructure * months) in
      \<lparr>ru_cash = cash, ru_reserve = reserve, ru_payroll = payroll, ru_infrastructure = infrastructure,
       ru_months = months, ru_recurring = recurring, ru_one_time = 0, ru_after = dsub (dsub cash recurring) 0\<rparr>)"

definition runway_of :: "game_snapshot \<Rightarrow> rat \<Rightarrow> rat \<Rightarrow> (ui_exn, product_runway) result" where
  "runway_of s reserve expected =
     rbind (product_cash s) (\<lambda>cash.
     rbind (numeric_sum s ''employees'' ''salary'') (\<lambda>payroll.
     rbind (numeric_sum s ''infrastructure'' ''recurring_cost'') (\<lambda>infrastructure.
     make_runway (project_runway cash reserve payroll infrastructure expected))))"

text \<open>What is missing from a list of names, in the order of the folded names\<close>

definition missing_names :: "string list \<Rightarrow> string list \<Rightarrow> string list" where
  "missing_names required available = sort_key casefold (sort (remdups (filter (\<lambda>n. n \<notin> set available) required)))"

definition required_specializations :: "product_feature list \<Rightarrow> string list \<Rightarrow> string list" where
  "required_specializations fs names = sort (remdups (filter (\<lambda>t. strip t \<noteq> [])
     (map fe_specialization (List.map_filter (feature_named fs) names))))"

definition required_role_names :: "string list \<Rightarrow> string list" where
  "required_role_names specials = map (\<lambda>t. ''Designer:'' @ t) specials @ map (\<lambda>t. ''Programmer:'' @ t) specials"

text \<open>The name under which an operating system is selected, and the one that has to be\<close>

definition system_label :: "system_option \<Rightarrow> string" where
  "system_label x = so_id x @ '':'' @ so_name x"

definition expected_systems :: "bool \<Rightarrow> system_option list \<Rightarrow> string list" where
  "expected_systems os_specific options = (case options of x # _ \<Rightarrow> if os_specific then [system_label x] else [] | [] \<Rightarrow> [])"

definition required_products :: "surface \<Rightarrow> product_configuration \<Rightarrow> string list" where
  "required_products u c = map (\<lambda>e. shown_value e ''required_product_type'' [])
     (filter (\<lambda>e. casefold (shown_value e ''product_type'' []) = casefold (cf_type c) \<and>
        casefold (shown_value e ''category'' []) = casefold (cf_category c)) (typed_entities ''product_prerequisite'' u))"

definition released_products :: "game_snapshot \<Rightarrow> string list" where
  "released_products s = map (\<lambda>e. shown_value e ''type'' []) (concat (map (typed_entities ''product'')
     (filter (\<lambda>u. fc_surface (su_coverage u) = ''products'') (gs_surfaces s))))"

text \<open>Everything that the recommendation is made from\<close>

record product_view =
  vw_kind :: product_kind
  vw_class :: product_class
  vw_configuration :: product_configuration
  vw_team :: team_suitability
  vw_runway :: product_runway
  vw_features :: "product_feature list"
  vw_systems :: "system_option list"
  vw_required :: "string list"
  vw_released :: "string list"

definition view_product :: "game_snapshot \<Rightarrow> string \<Rightarrow> rat \<Rightarrow> (ui_exn, product_view) result" where
  "view_product s team_name reserve =
     rbind (product_kind_of s atlas_type) (\<lambda>kind.
     rbind (product_class_of s atlas_type atlas_category) (\<lambda>class'.
     rbind (visible_product_configuration s) (\<lambda>configuration.
     rbind (suitability_of s team_name) (\<lambda>team.
     rbind (runway_of s reserve (cf_months configuration)) (\<lambda>runway.
     rbind (product_features s (cf_type configuration)) (\<lambda>features.
     rbind (operating_system_options s) (\<lambda>options.
     rbind (product_surface s ''product_catalog'') (\<lambda>catalog.
     ok \<lparr>vw_kind = kind, vw_class = class', vw_configuration = configuration, vw_team = team, vw_runway = runway,
       vw_features = features, vw_systems = options, vw_required = required_products catalog configuration,
       vw_released = released_products s\<rparr>))))))))"

text \<open>The reasons against, in three groups: the design that is shown, the team, and the money and prerequisites\<close>

definition design_reasons :: "string \<Rightarrow> product_view \<Rightarrow> string list" where
  "design_reasons team_name v = (let c = vw_configuration v; price = cl_price (vw_class v) in
     (if \<not> kd_unlocked (vw_kind v) then [atlas_type @ '' is not unlocked in the observed year''] else []) @
     (if \<not> kd_in_house (vw_kind v) then [atlas_type @ '' is not observed as an in-house development tool''] else []) @
     (if \<not> cl_unlocked (vw_class v) then [atlas_type @ ''/'' @ atlas_category @ '' is not unlocked''] else []) @
     (if casefold (cf_name c) \<noteq> casefold atlas_name then [''visible product name is not exactly Atlas''] else []) @
     (if casefold (cf_type c) \<noteq> casefold atlas_type then [''visible product type is not '' @ atlas_type] else []) @
     (if casefold (cf_category c) \<noteq> casefold atlas_category then [''visible product category is not '' @ atlas_category] else []) @
     (if cf_features c \<noteq> atlas_features
      then [''visible feature set is not the exact bounded set '' @ join '', '' atlas_features] else []) @
     (if cf_price c \<noteq> price
      then [''visible price $'' @ money_text (cf_price c) @ '' is not the observed ideal price $'' @ money_text price] else []) @
     (if set (map casefold (cf_design c)) \<noteq> {casefold team_name} then [''design team selection is not exactly Core''] else []) @
     (if set (map casefold (cf_development c)) \<noteq> {casefold team_name}
      then [''development team selection is not exactly Core''] else []) @
     (if strip (cf_issue c) \<noteq> [] then [''the game reports a team issue: '' @ strip (cf_issue c)] else []))"

definition staff_reasons :: "product_view \<Rightarrow> string list" where
  "staff_reasons v = (let team = vw_team v;
       required = required_specializations (vw_features v) (cf_features (vw_configuration v));
       missing = missing_names required (sb_specializations team);
       roles = missing_names (required_role_names required) (sb_roles team) in
     (if \<not> sb_suitable team then sb_reasons team else []) @
     (if missing \<noteq> []
      then [''Core has no observed positive specialization level for selected feature domain(s): '' @ join '', '' missing]
      else []) @
     (if roles \<noteq> [] then [''Core lacks observed positive role specialization(s): '' @ join '', '' roles] else []))"

definition money_product_reasons :: "product_view \<Rightarrow> string list" where
  "money_product_reasons v = (let c = vw_configuration v; missing = missing_names (vw_required v) (vw_released v);
       after = ru_after (vw_runway v); reserve = ru_reserve (vw_runway v) in
     (if cf_systems c \<noteq> expected_systems (kd_os_specific (vw_kind v)) (vw_systems v)
      then [''visible operating-system set is not the one exact highest-userbase observed option''] else []) @
     (if missing \<noteq> [] then [''selected category has unresolved product prerequisite(s): '' @ join '', '' missing] else []) @
     (if 0 < cf_server c
      then [''selected features have a non-zero server requirement that Prompt 7 cannot yet '' @
        ''bind to a verified product server''] else []) @
     (if after < reserve
      then [''conservative runway projects $'' @ money_text after @ '', below the $'' @ money_text reserve @ '' reserve'']
      else []))"

definition product_reasons :: "string \<Rightarrow> product_view \<Rightarrow> string list" where
  "product_reasons team_name v = design_reasons team_name v @ staff_reasons v @ money_product_reasons v"

definition configuration_json :: "product_configuration \<Rightarrow> json" where
  "configuration_json c = JObj
     [(''name'', JStr (cf_name c)), (''product_type'', JStr (cf_type c)), (''category'', JStr (cf_category c)),
      (''features'', JList (map JStr (cf_features c))), (''operating_systems'', JList (map JStr (cf_systems c))),
      (''design_teams'', JList (map JStr (cf_design c))), (''development_teams'', JList (map JStr (cf_development c))),
      (''price'', JDec (cf_price c)), (''server_requirement'', JDec (cf_server c)),
      (''expected_development_months'', JDec (cf_months c)), (''team_issue'', JStr (cf_issue c))]"

definition suitability_json :: "team_suitability \<Rightarrow> json" where
  "suitability_json t = JObj
     [(''team_name'', JStr (sb_team t)), (''employee_count'', JInt (sb_employees t)),
      (''programmer_skill'', JDec (sb_programmer t)), (''designer_skill'', JDec (sb_designer t)),
      (''artist_skill'', JDec (sb_artist t)), (''relevant_specializations'', JList (map JStr (sb_specializations t))),
      (''role_specializations'', JList (map JStr (sb_roles t))), (''active_work'', JList (map JStr (sb_active t))),
      (''suitable'', JBool (sb_suitable t)), (''reasons'', JList (map JStr (sb_reasons t)))]"

definition runway_json :: "product_runway \<Rightarrow> json" where
  "runway_json r = JObj
     [(''observed_cash'', JDec (ru_cash r)), (''minimum_cash_reserve'', JDec (ru_reserve r)),
      (''observed_monthly_payroll'', JDec (ru_payroll r)), (''observed_monthly_infrastructure'', JDec (ru_infrastructure r)),
      (''conservative_months'', JDec (ru_months r)), (''conservative_recurring_cost'', JDec (ru_recurring r)),
      (''known_one_time_cost'', JDec (ru_one_time r)), (''projected_cash_after'', JDec (ru_after r)),
      (''forecast_revenue_included'', JBool False)]"

definition product_unknowns :: "string list" where
  "product_unknowns =
     [''The estimate treats observed payroll and server-group cost as continuing for every '' @
      ''conservative development month.'',
      ''Forecast sales and other future revenue are excluded.'',
      ''Licensing and operating-system costs are not counted unless the current design UI '' @
      ''exposes them as an exact charge; creation must stop if the game presents one.'',
      ''The selected feature development-time value is treated as game-owned development '' @
      ''months; the public SoftwareType API names its related specialization projection '' @
      ''GetSpecializationMonths.'',
      ''Software Inc. 1.8.41 transitions from Design to Alpha; Alpha is its development '' @
      ''phase, so no separate invented Development stage is claimed.'']"

definition product_material :: "game_snapshot \<Rightarrow> product_view \<Rightarrow> json" where
  "product_material s v = JObj
     [(''adapter'', JStr (gs_adapter s)), (''session'', JStr (gs_session s)), (''save'', JStr (save_text s)),
      (''sequence'', JInt (gs_sequence s)), (''configuration'', configuration_json (vw_configuration v)),
      (''team'', suitability_json (vw_team v)), (''runway'', runway_json (vw_runway v))]"

definition build_product_recommendation ::
  "naming \<Rightarrow> int \<Rightarrow> game_snapshot \<Rightarrow> string \<Rightarrow> product_view \<Rightarrow> product_recommendation" where
  "build_product_recommendation n now s team_name v =
     (let reasons = product_reasons team_name v; print = na_sha n (compact_text (product_material s v)) in
      \<lparr>pr_id = ''product-recommendation:'' @ take 24 print, pr_session = gs_session s, pr_save = save_text s,
        pr_sequence = gs_sequence s, pr_fingerprint = print, pr_configuration = vw_configuration v,
        pr_runway = vw_runway v, pr_team = vw_team v, pr_recommended = (reasons = []), pr_reasons = reasons,
        pr_unknowns = product_unknowns, pr_created = now, pr_expires = now + product_ttl\<rparr>)"

definition recommend_atlas ::
  "naming \<Rightarrow> int \<Rightarrow> game_snapshot \<Rightarrow> string \<Rightarrow> string \<Rightarrow> rat \<Rightarrow> (ui_exn, product_recommendation) result" where
  "recommend_atlas n now s name team_name reserve =
     (if fold_words name \<noteq> casefold atlas_name
      then raise (UIValidationError ''Prompt 7 supports only the exact product name Atlas'')
      else if reserve < 0 then raise (UIValidationError ''minimum cash reserve cannot be negative'')
      else rbind (view_product s team_name reserve) (\<lambda>v. ok (build_product_recommendation n now s team_name v)))"

section \<open>The workflow\<close>

text \<open>The stage that a stage leads to\<close>

fun following_stage :: "product_stage \<Rightarrow> product_stage" where
  "following_stage AtConfiguration = AtDesign"
| "following_stage AtDesign = AtAlpha"
| "following_stage AtAlpha = AtBeta"
| "following_stage AtBeta = AtBeta"

definition commitment_summary ::
  "product_workflow \<Rightarrow> product_commitment \<Rightarrow> product_stage \<Rightarrow> rat \<Rightarrow> rat \<Rightarrow> rat \<Rightarrow> string" where
  "commitment_summary w c target cost cash projected = (case c of
       CreateProduct \<Rightarrow>
         ''Create '' @ str_repr (pw_name w) @ '' as '' @ pw_type w @ ''/'' @ pw_category w @ ''; features '' @
         join '', '' (pw_features w) @ ''; operating systems '' @ join '', '' (pw_systems w) @
         ''; design and development team '' @ pw_team w @ ''; price $'' @ money_text (pw_price w) @
         ''; projected conservative cash $'' @ money_text (pw_projected w) @ '', reserve $'' @
         money_text (pw_reserve w) @ ''.''
     | ReviewProduct \<Rightarrow>
         ''Start the exact visible review for '' @ str_repr (pw_name w) @ ''; observed one-time cost $'' @ money_text cost @
         ''; current cash $'' @ money_text cash @ ''; projected conservative cash $'' @ money_text projected @
         ''; reserve $'' @ money_text (pw_reserve w) @ ''.''
     | IterateProduct \<Rightarrow>
         ''Iterate '' @ str_repr (pw_name w) @ '' after the observed review; preserve the exact '' @
         ''approved configuration; projected conservative cash $'' @ money_text projected @
         '' remains above the $'' @ money_text (pw_reserve w) @ '' reserve; leave the game paused.''
     | PromoteProduct \<Rightarrow>
         ''Promote '' @ str_repr (pw_name w) @ '' from '' @ product_stage_text (pw_stage w) @ '' to '' @
         product_stage_text target @ ''; current cash $'' @ money_text cash @ ''; projected conservative cash $'' @
         money_text projected @ '' remains above the $'' @ money_text (pw_reserve w) @ '' reserve.'')"

definition product_approval_for ::
  "uuid \<Rightarrow> int \<Rightarrow> product_workflow \<Rightarrow> product_commitment \<Rightarrow> product_stage option \<Rightarrow> rat \<Rightarrow> rat option \<Rightarrow> rat option \<Rightarrow>
     (ui_exn, product_approval) result" where
  "product_approval_for fresh now w c expected cost cash projected =
     (let target = (case expected of Some st \<Rightarrow> st | None \<Rightarrow> following_stage (pw_stage w));
          current = (case cash of Some x \<Rightarrow> x | None \<Rightarrow> pw_initial w);
          after = (case projected of Some x \<Rightarrow> x | None \<Rightarrow> pw_projected w) in
      make_product_approval
        \<lparr>pa_id = fresh, pa_workflow = pw_id w, pa_commitment = c,
         pa_summary = commitment_summary w c target cost current after, pa_product = pw_name w, pa_before = pw_stage w,
         pa_after = target, pa_fingerprint = pw_fingerprint w, pa_cash = current, pa_projected = after,
         pa_reserve = pw_reserve w, pa_cost = cost, pa_approved = None, pa_created = now, pa_resolved = None\<rparr>)"

definition workflow_material :: "game_snapshot \<Rightarrow> product_recommendation \<Rightarrow> json" where
  "workflow_material s r = JObj
     [(''recommendation'', JStr (pr_fingerprint r)), (''session'', JStr (gs_session s)), (''save'', JStr (pr_save r))]"

definition create_product_workflow ::
  "naming \<Rightarrow> uuid \<Rightarrow> int \<Rightarrow> int \<Rightarrow> game_snapshot \<Rightarrow> product_recommendation \<Rightarrow> (ui_exn, product_workflow) result" where
  "create_product_workflow n fresh asked now s r =
     (if \<not> pr_recommended r then raise (UIValidationError ''a rejected Atlas recommendation cannot be committed'')
      else let c = pr_configuration r; print = na_sha n (compact_text (workflow_material s r));
          w = \<lparr>pw_id = na_uuid5 n (''sim-pilot:software-inc:product:'' @ print), pw_session = gs_session s,
            pw_save = pr_save r, pw_name = cf_name c, pw_type = cf_type c, pw_category = cf_category c,
            pw_features = cf_features c, pw_systems = cf_systems c, pw_team = sb_team (pr_team r), pw_price = cf_price c,
            pw_reserve = ru_reserve (pr_runway r), pw_initial = ru_cash (pr_runway r),
            pw_projected = ru_after (pr_runway r), pw_stage = AtConfiguration, pw_status = ProductWaiting, pw_item = None,
            pw_held = False, pw_iteration = 0, pw_progress = 0, pw_accuracy = None, pw_score = None, pw_approval = None,
            pw_fingerprint = print, pw_sequence = gs_sequence s, pw_created = now, pw_updated = now\<rparr> in
        rbind (product_approval_for fresh asked w CreateProduct None 0 None None) (\<lambda>a. ok (w\<lparr>pw_approval := Some a\<rparr>)))"

definition resolve_product_approval ::
  "int \<Rightarrow> bool \<Rightarrow> product_workflow \<Rightarrow> (ui_exn, product_workflow) result" where
  "resolve_product_approval now approved w =
     (case pw_approval w of
        Some a \<Rightarrow>
          if pa_approved a \<noteq> None then raise (UIValidationError ''Atlas workflow has no pending approval'')
          else ok (w\<lparr>pw_approval := Some (a\<lparr>pa_approved := Some approved, pa_resolved := Some now\<rparr>),
                 pw_status := (if approved then ProductActive else ProductBlocked), pw_updated := now\<rparr>)
      | None \<Rightarrow> raise (UIValidationError ''Atlas workflow has no pending approval''))"

text \<open>What a work item says about the workflow\<close>

definition product_progress :: "product_workflow \<Rightarrow> entity \<Rightarrow> (ui_exn, product_workflow) result" where
  "product_progress w e = (let get = jget (en_values e) in
     rbind (product_stage_of e) (\<lambda>stage.
     case as_bool (get ''paused'') of
       None \<Rightarrow> raise (UIValidationError ''Atlas project pause state is not observed'')
     | Some paused \<Rightarrow> (case as_decimal (get ''progress'') of
         None \<Rightarrow> raise (UIValidationError ''Atlas project progress is not observed'')
       | Some progress \<Rightarrow>
         (case (case map_of (en_values e) ''iteration'' of None \<Rightarrow> Some (pw_iteration w) | Some v \<Rightarrow> as_int v) of
            None \<Rightarrow> raise (UIValidationError ''Atlas project iteration is not observed'')
          | Some iteration \<Rightarrow>
              ok (w\<lparr>pw_stage := stage,
                pw_status := (if stage = AtBeta then BetaReached else if paused then ProductHeld else ProductActive),
                pw_item := Some (en_id e), pw_held := paused, pw_iteration := iteration, pw_progress := progress,
                pw_accuracy := as_decimal (get ''review_accuracy''), pw_score := as_decimal (get ''review_score'')\<rparr>)))))"

definition same_product_save :: "product_workflow \<Rightarrow> game_snapshot \<Rightarrow> bool" where
  "same_product_save w s \<longleftrightarrow> pw_session w = gs_session s \<and> pw_save w = save_text s"

definition synchronize_product :: "int \<Rightarrow> product_workflow \<Rightarrow> game_snapshot \<Rightarrow> (ui_exn, product_workflow) result" where
  "synchronize_product now w s =
     (if \<not> same_product_save w s then raise (UIValidationError ''Atlas workflow save or session identity is stale'')
      else if gs_sequence s \<le> pw_sequence w
      then raise (UIValidationError ''Atlas workflow requires a fresh bridge sequence'')
      else rbind (product_work s (pw_name w)) (\<lambda>found.
        rbind (case found of None \<Rightarrow> ok w | Some e \<Rightarrow> product_progress w e) (\<lambda>w'.
        ok (w'\<lparr>pw_sequence := gs_sequence s, pw_updated := now\<rparr>))))"

end
