(* ===== verification/ProductIntent.thy ===== *)
theory ProductIntent
  imports Products
begin

text \<open>
  The request for the product Atlas in plain English, \<open>software_inc/products/intent.py\<close>, with its regular expression for the
  reserve: \<open>(?:keep|reserve|maintain)[^$]*\$?([0-9][0-9,]*)\<close>.
\<close>

section \<open>The reserve\<close>

text \<open>What follows one of the words that announce a reserve\<close>

definition after_reserve_word :: "string \<Rightarrow> string option" where
  "after_reserve_word s =
     (if starts_with ''keep'' s then Some (drop 4 s)
      else if starts_with ''reserve'' s then Some (drop 7 s)
      else if starts_with ''maintain'' s then Some (drop 8 s) else None)"

definition number_chars :: "string \<Rightarrow> string" where
  "number_chars s = takeWhile (\<lambda>c. dec_digit c \<or> c = CHR '','') s"

text \<open>
  \<open>[^$]*\$?([0-9][0-9,]*)\<close> from the start of a text. The first part is greedy: it runs to the next dollar sign, after which
  a number may stand; if none does, it gives back one character after the other until a digit follows.
\<close>

fun last_number :: "string \<Rightarrow> string option" where
  "last_number [] = None"
| "last_number (c # s) =
     (if c = CHR ''$'' then None
      else case last_number s of Some g \<Rightarrow> Some g | None \<Rightarrow> if dec_digit c then Some (number_chars (c # s)) else None)"

definition announced_number :: "string \<Rightarrow> string option" where
  "announced_number s = (case dropWhile (\<lambda>c. c \<noteq> CHR ''$'') s of
       [] \<Rightarrow> last_number s
     | _ # r \<Rightarrow> if r \<noteq> [] \<and> dec_digit (hd r) then Some (number_chars r) else last_number s)"

fun reserve_number :: "string \<Rightarrow> string option" where
  "reserve_number [] = None"
| "reserve_number (c # s) = (case Option.bind (after_reserve_word (c # s)) announced_number of
     Some g \<Rightarrow> Some g | None \<Rightarrow> reserve_number s)"

definition atlas_reserve :: rat where "atlas_reserve = 50000"

definition requested_reserve :: "string \<Rightarrow> rat" where
  "requested_reserve folded = (case reserve_number folded of Some g \<Rightarrow> of_int (plain_number g) | None \<Rightarrow> atlas_reserve)"

section \<open>The request\<close>

datatype product_action =
  DoCreate | DoStatus | DoAdvance | DoReview | DoIterate | DoPromote | DoHold | DoResume

record product_intent =
  pi_action :: product_action
  pi_name :: string
  pi_type :: string
  pi_requested :: string
  pi_note :: string
  pi_team :: string
  pi_reserve :: rat

definition plain_intent :: "product_action \<Rightarrow> product_intent" where
  "plain_intent a = \<lparr>pi_action = a, pi_name = atlas_name, pi_type = atlas_type, pi_requested = atlas_type, pi_note = [],
     pi_team = atlas_team, pi_reserve = atlas_reserve\<rparr>"

definition asks_creation :: "string \<Rightarrow> bool" where
  "asks_creation folded \<longleftrightarrow> occurs_in ''atlas'' folded \<and>
     (\<exists>word \<in> set [''begin'', ''create'', ''make'', ''start'', ''develop'']. occurs_in word folded)"

definition requested_type :: "string \<Rightarrow> string" where
  "requested_type folded =
     (if occurs_in ''game engine'' folded then ''Game Engine''
      else if occurs_in ''2d editor'' folded \<or> occurs_in ''2-d editor'' folded then atlas_type else [])"

definition exact_requests :: "(string \<times> product_action) list" where
  "exact_requests =
     [(''status atlas'', DoStatus), (''show atlas'', DoStatus), (''advance atlas'', DoAdvance), (''review atlas'', DoReview),
      (''iterate atlas'', DoIterate), (''promote atlas'', DoPromote), (''hold atlas'', DoHold), (''pause atlas'', DoHold),
      (''resume atlas'', DoResume)]"

definition parse_product_intent :: "string \<Rightarrow> (ui_exn, product_intent) result" where
  "parse_product_intent text' = (let folded = fold_words text' in
     if folded = [] then raise (UIValidationError ''product intent cannot be empty'')
     else if asks_creation folded
     then (let kind = requested_type folded in
       if kind = []
       then raise (UIValidationError (''Prompt 7 creation requires the explicit product type '' @ atlas_type))
       else ok ((plain_intent DoCreate)\<lparr>pi_requested := kind,
         pi_note := (if kind = ''Game Engine''
           then ''Software Inc. 1.8.41 has no Game Engine product type; the user-approved current '' @
             ''equivalent is the in-house 2D Editor type.'' else []),
         pi_reserve := requested_reserve folded\<rparr>))
     else (case map_of exact_requests folded of
         Some a \<Rightarrow> ok (plain_intent a)
       | None \<Rightarrow> raise (UIValidationError
           (''unsupported product intent; use create, status, advance, review, iterate, promote, '' @
            ''hold, or resume Atlas''))))"

section \<open>A reserve without a dollar sign\<close>

lemma last_number_none: "CHR ''$'' \<notin> set s \<Longrightarrow> last_number s = None \<Longrightarrow> \<forall>c \<in> set s. \<not> dec_digit c"
  by (induction s) (auto split: option.split_asm if_split_asm)

lemma no_digits_left: "\<forall>c \<in> set s. \<not> dec_digit c \<Longrightarrow> filter (\<lambda>c. c \<noteq> CHR '','') (number_chars s) = []"
  by (induction s) (auto simp: number_chars_def)

text \<open>The number that the expression finds is then the last digit of the text, with the commas that follow it.\<close>

lemma last_number_digit:
  "CHR ''$'' \<notin> set s \<Longrightarrow> last_number s = Some g \<Longrightarrow> 0 \<le> plain_number g \<and> plain_number g \<le> 9"
proof (induction s)
  case (Cons c s)
  show ?case
  proof (cases "last_number s")
    case None
    with Cons.prems have digit: "dec_digit c" and g: "g = number_chars (c # s)" by (auto split: if_split_asm)
    have "filter (\<lambda>c. c \<noteq> CHR '','') (number_chars s) = []"
      using Cons.prems None by (intro no_digits_left last_number_none) auto
    moreover have "c \<noteq> CHR '',''" using digit by (auto simp: dec_digit_def)
    ultimately have "filter (\<lambda>c. c \<noteq> CHR '','') g = [c]" using digit by (simp add: g number_chars_def)
    then have "plain_number g = of_char c - 48" by (simp add: plain_number_def digits_number_def)
    moreover have "int (of_char c) = of_char c" by (rule of_nat_of_char)
    ultimately show ?thesis using digit unfolding dec_digit_def by linarith
  next
    case (Some h)
    with Cons show ?thesis by (auto split: if_split_asm)
  qed
qed simp

lemma announced_digit:
  assumes "CHR ''$'' \<notin> set s" and "announced_number s = Some g"
  shows "0 \<le> plain_number g \<and> plain_number g \<le> 9"
proof -
  have "dropWhile (\<lambda>c. c \<noteq> CHR ''$'') s = []" using assms(1) by (auto simp: dropWhile_eq_Nil_conv)
  with assms(2) have "last_number s = Some g" by (simp add: announced_number_def)
  with assms(1) show ?thesis by (rule last_number_digit)
qed

lemma reserve_digit:
  "CHR ''$'' \<notin> set s \<Longrightarrow> reserve_number s = Some g \<Longrightarrow> 0 \<le> plain_number g \<and> plain_number g \<le> 9"
proof (induction s)
  case (Cons c s)
  have inside: "CHR ''$'' \<notin> set t" if "after_reserve_word (c # s) = Some t" for t
    using that Cons.prems(1) by (auto simp: after_reserve_word_def split: if_split_asm dest: in_set_dropD)
  show ?case
  proof (cases "Option.bind (after_reserve_word (c # s)) announced_number")
    case None
    with Cons show ?thesis by simp
  next
    case (Some h)
    then obtain t where "after_reserve_word (c # s) = Some t" "announced_number t = Some h"
      by (auto simp: bind_eq_Some_conv)
    with announced_digit inside Some Cons.prems(2) show ?thesis by auto
  qed
qed simp

text \<open>Folding the words of a text brings in no dollar sign.\<close>

lemma casefold_dollar: "CHR ''$'' \<in> set (casefold s) \<Longrightarrow> CHR ''$'' \<in> set s"
proof -
  have lower: "CHR ''$'' \<noteq> char_of (n + 32)" if "65 \<le> n" "n \<le> 222" for n :: nat
  proof
    assume "CHR ''$'' = char_of (n + 32)"
    then have "(of_char (CHR ''$'') :: nat) = (n + 32) mod 256" by (metis of_char_of)
    then show False using that by simp
  qed
  let ?f = "\<lambda>c. let n = (of_char c :: nat) in
     if (65 \<le> n \<and> n \<le> 90) \<or> (192 \<le> n \<and> n \<le> 222 \<and> n \<noteq> 215) then [char_of (n + 32)]
     else if n = 223 then ''ss'' else [c]"
  have "c = CHR ''$''" if "CHR ''$'' \<in> set (?f c)" for c
    using that lower [of "of_char c"] unfolding Let_def by (auto split: if_split_asm)
  moreover assume "CHR ''$'' \<in> set (casefold s)"
  then obtain c where "c \<in> set s" "CHR ''$'' \<in> set (?f c)" unfolding casefold_def set_concat set_map by blast
  ultimately show "CHR ''$'' \<in> set s" by blast
qed

lemma words_dollar: "w \<in> set (words_of word s) \<Longrightarrow> CHR ''$'' \<in> set w \<Longrightarrow> CHR ''$'' \<in> set word \<or> CHR ''$'' \<in> set s"
proof (induction s arbitrary: word)
  case (Cons c s)
  from Cons.prems consider "w = rev word" | "w \<in> set (words_of [] s)" | "w \<in> set (words_of (c # word) s)"
    by (auto split: if_split_asm)
  then show ?case
    using Cons.IH Cons.prems(2) by cases fastforce+
qed (auto split: if_split_asm)

lemma join_dollar: "CHR ''$'' \<in> set (join '' '' ws) \<Longrightarrow> \<exists>w \<in> set ws. CHR ''$'' \<in> set w"
  by (induction ws rule: induct_list012) auto

lemma fold_words_dollar: "CHR ''$'' \<notin> set s \<Longrightarrow> CHR ''$'' \<notin> set (fold_words s)"
  unfolding fold_words_def using join_dollar words_dollar casefold_dollar by fastforce

text \<open>
  C32. A request to create Atlas whose text has no dollar sign never sets a reserve of more than nine dollars: either no
  reserve is announced and it is the default, or the amount that was asked for is cut to its last digit. (The regular
  expression gives up the greedy part before the amount one character at a time.)
\<close>

theorem reserve_without_dollar_sign:
  assumes "parse_product_intent text' = ok i" and "CHR ''$'' \<notin> set text'"
  shows "pi_reserve i = atlas_reserve \<or> 0 \<le> pi_reserve i \<and> pi_reserve i \<le> 9"
proof -
  have "requested_reserve (fold_words text') = atlas_reserve \<or>
      0 \<le> requested_reserve (fold_words text') \<and> requested_reserve (fold_words text') \<le> 9"
  proof (cases "reserve_number (fold_words text')")
    case (Some g)
    with reserve_digit [OF fold_words_dollar [OF assms(2)]] have "0 \<le> plain_number g" "plain_number g \<le> 9" by blast+
    then have "(0 :: rat) \<le> of_int (plain_number g)" "(of_int (plain_number g) :: rat) \<le> of_int 9"
      unfolding of_int_0_le_iff of_int_le_iff .
    then show ?thesis by (simp add: requested_reserve_def Some)
  qed (simp add: requested_reserve_def)
  moreover have "pi_reserve i \<in> {atlas_reserve, requested_reserve (fold_words text')}"
    using assms(1)
    by (auto simp: parse_product_intent_def Let_def plain_intent_def split: if_split_asm option.split_asm)
  ultimately show ?thesis by auto
qed

lemma reserve_without_dollar_sign_witness:
  "\<exists>i. parse_product_intent ''Create Atlas as a 2D editor, keep 75,000'' = ok i \<and> pi_reserve i = 0 \<and>
     (pi_reserve i = atlas_reserve \<or> 0 \<le> pi_reserve i \<and> pi_reserve i \<le> 9)"
proof -
  have "parse_product_intent ''Create Atlas as a 2D editor, keep 75,000'' =
      ok ((plain_intent DoCreate)\<lparr>pi_requested := atlas_type, pi_note := [], pi_reserve := 0\<rparr>)"
    by code_simp
  moreover from reserve_without_dollar_sign [OF this]
  have "pi_reserve ((plain_intent DoCreate)\<lparr>pi_requested := atlas_type, pi_note := [], pi_reserve := 0\<rparr>) = atlas_reserve \<or>
      0 \<le> pi_reserve ((plain_intent DoCreate)\<lparr>pi_requested := atlas_type, pi_note := [], pi_reserve := 0\<rparr>) \<and>
      pi_reserve ((plain_intent DoCreate)\<lparr>pi_requested := atlas_type, pi_note := [], pi_reserve := 0\<rparr>) \<le> 9"
    by simp
  ultimately show ?thesis by simp
qed

end
