(* ===== verification/ProductOperator.thy ===== *)
theory ProductOperator
  imports Products ScreenControl "HOL-Library.AList"
begin

text \<open>
  The operator of the product Atlas, \<open>software_inc/products/operator.py\<close>, over the desktop of ScreenControl, with the store
  of its workflows, \<open>software_inc/products/store.py\<close>: setting up the design window and creating the product, holding it,
  letting the game run for a bounded time, and the approved reviews, iterations and promotions. An approval provider that is
  missing is the argument \<open>provider = False\<close>; one that is there is the person behind \<open>dt_ask\<close>.
\<close>

section \<open>The store\<close>

record product_event =
  pe_id :: uuid
  pe_workflow :: uuid
  pe_sequence :: int
  pe_type :: string
  pe_bridge :: int
  pe_before :: product_stage
  pe_after :: product_stage
  pe_action :: "string option"
  pe_input_sent :: bool
  pe_verified :: bool
  pe_detail :: string
  pe_recorded :: int

definition make_product_event :: "product_event \<Rightarrow> (ui_exn, product_event) result" where
  "make_product_event e =
     (if 1 \<le> pe_sequence e \<and> bounded_text 64 (pe_type e) \<and> 1 \<le> pe_bridge e \<and> bounded_text 2048 (pe_detail e)
      then ok e else raise (ModelRejected ''ProductCycleEvent''))"

record product_store =
  qs_workflows :: "(uuid \<times> product_workflow) list"
  qs_events :: "product_event list"

definition product_open :: "product_workflow \<Rightarrow> bool" where
  "product_open w \<longleftrightarrow> pw_status w \<notin> {BetaReached, ProductFailed}"

definition owns_product_save :: "string \<Rightarrow> string \<Rightarrow> product_workflow \<Rightarrow> bool" where
  "owns_product_save session save w \<longleftrightarrow> pw_session w = session \<and> pw_save w = save \<and> product_open w"

definition save_product :: "product_workflow \<Rightarrow> product_store \<Rightarrow> (ui_exn, product_store) result" where
  "save_product w st =
     (if product_open w \<and> (\<exists>(i, v) \<in> set (qs_workflows st). owns_product_save (pw_session w) (pw_save w) v \<and> i \<noteq> pw_id w)
      then raise (UIValidationError ''another open product workflow already owns the current save'')
      else ok (st\<lparr>qs_workflows := AList.update (pw_id w) w (qs_workflows st)\<rparr>))"

definition append_product_event :: "product_event \<Rightarrow> product_store \<Rightarrow> (ui_exn, product_store) result" where
  "append_product_event e st =
     (if (\<exists>d \<in> set (qs_events st). pe_id d = pe_id e \<or> pe_workflow d = pe_workflow e \<and> pe_sequence d = pe_sequence e) \<or>
         pe_workflow e \<notin> fst ` set (qs_workflows st)
      then raise (StoreFailed ''constraint failed'')
      else ok (st\<lparr>qs_events := qs_events st @ [e]\<rparr>))"

definition get_product :: "uuid \<Rightarrow> product_store \<Rightarrow> product_workflow option" where
  "get_product i st = map_of (qs_workflows st) i"

definition current_product :: "string \<Rightarrow> string \<Rightarrow> product_store \<Rightarrow> (ui_exn, product_workflow option) result" where
  "current_product session save st =
     (case filter (owns_product_save session save) (map snd (qs_workflows st)) of
        [] \<Rightarrow> ok None
      | [w] \<Rightarrow> ok (Some w)
      | _ \<Rightarrow> raise (StoreFailed ''multiple open Atlas workflows exist for the current save''))"

definition product_events :: "uuid \<Rightarrow> product_store \<Rightarrow> product_event list" where
  "product_events i st = sort_key pe_sequence (filter (\<lambda>e. pe_workflow e = i) (qs_events st))"

type_synonym ('u, 'a) product_operation = "('u, product_store, 'a) operation"

section \<open>Results and events\<close>

record product_result =
  pq_workflow :: "product_workflow option"
  pq_recommendation :: "product_recommendation option"
  pq_event :: "product_event option"
  pq_gestures :: int
  pq_verified :: bool
  pq_partial :: bool
  pq_message :: string
  pq_completed :: int

definition product_outcome ::
  "'u desktop \<Rightarrow> product_workflow option \<Rightarrow> product_recommendation option \<Rightarrow> product_event option \<Rightarrow> nat \<Rightarrow> bool \<Rightarrow> bool \<Rightarrow>
     string \<Rightarrow> ('u, product_result) product_operation" where
  "product_outcome D w r e gestures verified partial message = seq (read_clock D) (\<lambda>time.
     if bounded_text 2048 message
     then ret \<lparr>pq_workflow = w, pq_recommendation = r, pq_event = e, pq_gestures = int gestures, pq_verified = verified,
       pq_partial = partial, pq_message = message, pq_completed = time\<rparr>
     else throw (ModelRejected ''ProductOperationResult''))"

definition product_report ::
  "'u desktop \<Rightarrow> product_workflow option \<Rightarrow> nat \<Rightarrow> bool \<Rightarrow> bool \<Rightarrow> string \<Rightarrow> ('u, product_result) product_operation" where
  "product_report D w gestures verified partial message = product_outcome D w None None gestures verified partial message"

definition store_product :: "product_workflow \<Rightarrow> ('u, unit) product_operation" where
  "store_product w = on_store (save_product w)"

definition append_product ::
  "'u desktop \<Rightarrow> product_workflow \<Rightarrow> string \<Rightarrow> product_stage \<Rightarrow> product_stage \<Rightarrow> string \<Rightarrow> string \<Rightarrow>
     ('u, product_event) product_operation" where
  "append_product D w kind before after action detail =
     seq (uuid4 D) (\<lambda>i.
     seq (gets (\<lambda>world. int (length (product_events (pw_id w) (ow_store world))) + 1)) (\<lambda>number.
     seq (read_clock D) (\<lambda>time.
     seq (lift_result (make_product_event
       \<lparr>pe_id = i, pe_workflow = pw_id w, pe_sequence = number, pe_type = kind, pe_bridge = pw_sequence w,
        pe_before = before, pe_after = after, pe_action = Some action, pe_input_sent = True, pe_verified = True,
        pe_detail = detail, pe_recorded = time\<rparr>)) (\<lambda>e.
     seq (on_store (append_product_event e)) (\<lambda>_. ret e)))))"

section \<open>Targets and gestures\<close>

definition atlas_settle :: rat where "atlas_settle = 1 / 4"

definition atlas_continuity :: "ui_observation \<Rightarrow> ui_observation \<Rightarrow> (ui_exn, unit) result" where
  "atlas_continuity before after =
     (if same_game before after then ok ()
      else raise (UIVerificationError ''Atlas save, session, bridge, window, or sequence changed''))"

text \<open>The common part of \<open>_click\<close>, \<open>_key\<close> and \<open>_text\<close>\<close>

definition atlas_gesture :: "'u desktop \<Rightarrow> ui_observation \<Rightarrow> gesture \<Rightarrow> ('u, 's, ui_observation) operation" where
  "atlas_gesture D before g =
     (if \<not> valid_gesture g then throw (ModelRejected ''InputGesture'')
      else seq (send_gesture D g) (\<lambda>_. seq (settle_for D atlas_settle) (\<lambda>_. seq (observe D) (\<lambda>after.
        seq (lift_result (atlas_continuity before after)) (\<lambda>_. ret after)))))"

definition atlas_click ::
  "'u desktop \<Rightarrow> ui_observation \<Rightarrow> visual_target \<Rightarrow> string \<Rightarrow> ('u, 's, ui_observation) operation" where
  "atlas_click D before t effect =
     (case vt_point t of None \<Rightarrow> throw (UIValidationError ''current-frame product target has no point'')
      | Some p \<Rightarrow> seq (read_clock D) (\<lambda>time.
          atlas_gesture D before ((bound_gesture before (vt_id t) effect time)\<lparr>ge_point := Some p\<rparr>)))"

definition atlas_key ::
  "'u desktop \<Rightarrow> ui_observation \<Rightarrow> int \<Rightarrow> key_modifier list \<Rightarrow> string \<Rightarrow> string \<Rightarrow> ('u, 's, ui_observation) operation" where
  "atlas_key D before code modifiers i effect = seq (read_clock D) (\<lambda>time.
     atlas_gesture D before
       ((bound_gesture before i effect time)\<lparr>ge_kind := Key, ge_key := Some code, ge_modifiers := modifiers\<rparr>))"

definition atlas_text ::
  "'u desktop \<Rightarrow> ui_observation \<Rightarrow> string \<Rightarrow> string \<Rightarrow> string \<Rightarrow> ('u, 's, ui_observation) operation" where
  "atlas_text D before v i effect = seq (read_clock D) (\<lambda>time.
     atlas_gesture D before ((bound_gesture before i effect time)\<lparr>ge_kind := TextInput, ge_text := Some v\<rparr>))"

definition atlas_target :: "'u desktop \<Rightarrow> ui_observation \<Rightarrow> string \<Rightarrow> ('u, 's, visual_target) operation" where
  "atlas_target D o' i = find_target D ''product'' o' i"

definition atlas_target_opt :: "'u desktop \<Rightarrow> ui_observation \<Rightarrow> string \<Rightarrow> ('u, 's, visual_target option) operation" where
  "atlas_target_opt D o' i = (case filter (\<lambda>t. vt_id t = i) (ui_targets o') of
       [] \<Rightarrow> ret None
     | [_] \<Rightarrow> seq (atlas_target D o' i) (\<lambda>t. ret (Some t))
     | _ \<Rightarrow> throw (UIValidationError (''product target '' @ str_repr i @ '' is ambiguous'')))"

definition has_target :: "'u desktop \<Rightarrow> ui_observation \<Rightarrow> string \<Rightarrow> ('u, 's, bool) operation" where
  "has_target D o' i = seq (atlas_target_opt D o' i) (\<lambda>t. ret (t \<noteq> None))"

text \<open>Resolve a target in the observation and click it\<close>

definition atlas_press :: "'u desktop \<Rightarrow> ui_observation \<Rightarrow> string \<Rightarrow> string \<Rightarrow> ('u, 's, ui_observation) operation" where
  "atlas_press D o' i effect = seq (atlas_target D o' i) (\<lambda>t. atlas_click D o' t effect)"

definition product_item_target :: "string \<Rightarrow> string \<Rightarrow> string" where
  "product_item_target i suffix = ''work-item-'' @ i @ ''-'' @ suffix"

text \<open>The card of a work item, from the name of one of its targets: \<open>target_id.removeprefix("work-item-").split("-", 1)[0]\<close>\<close>

definition card_target :: "string \<Rightarrow> string" where
  "card_target i = (let r = (if starts_with ''work-item-'' i then drop 10 i else i) in
     product_item_target (takeWhile (\<lambda>c. c \<noteq> CHR ''-'') r) ''open'')"

definition ensure_target ::
  "'u desktop \<Rightarrow> bool \<Rightarrow> ui_observation \<Rightarrow> string \<Rightarrow> ('u, 's, ui_observation \<times> nat) operation" where
  "ensure_target D dry_run o' i =
     seq (has_target D o' i) (\<lambda>there.
     if there then ret (o', 0)
     else if dry_run then seq (atlas_target D o' (card_target i)) (\<lambda>_. ret (o', 0))
     else
     seq (atlas_press D o' (card_target i) ''open exact Atlas work-item controls'') (\<lambda>opened.
     seq (has_target D opened i) (\<lambda>shown.
     if \<not> shown
     then throw (UIVerificationError (''opening Atlas controls did not expose '' @ str_repr i))
     else ret (opened, 1))))"

section \<open>Reading the design window\<close>

definition shown_text :: "ui_observation \<Rightarrow> string \<Rightarrow> (ui_exn, string) result" where
  "shown_text o' field = rbind (product_ui_state (ui_after o')) (\<lambda>e. case as_str (jget (en_values e) field) of
       Some t \<Rightarrow> ok (strip t)
     | None \<Rightarrow> raise (UIValidationError (''product_ui.'' @ field @ '' is not observed text'')))"

definition shown_value_of :: "ui_observation \<Rightarrow> string \<Rightarrow> (ui_exn, json) result" where
  "shown_value_of o' field = rbind (product_ui_state (ui_after o')) (\<lambda>e. ok (jget (en_values e) field))"

text \<open>The names in a field, without the empty ones, in order\<close>

definition shown_names :: "ui_observation \<Rightarrow> string \<Rightarrow> (ui_exn, string list) result" where
  "shown_names o' field = rbind (shown_text o' field) (\<lambda>t. ok (sort (remdups (split_parts CHR ''|'' [] t))))"

definition shown_page :: "ui_observation \<Rightarrow> (ui_exn, int) result" where
  "shown_page o' = rbind (shown_value_of o' ''current_page'') (\<lambda>v. case as_int v of Some i \<Rightarrow> ok i
     | None \<Rightarrow> raise (UIValidationError ''product_ui.current_page is not an observed integer''))"

text \<open>\<open>names ^ {name}\<close>\<close>

definition toggled :: "string \<Rightarrow> string list \<Rightarrow> string set" where
  "toggled name names = (if name \<in> set names then set names - {name} else insert name (set names))"

definition reserve_left :: "product_workflow \<Rightarrow> rat \<Rightarrow> rat" where
  "reserve_left w cash = dsub cash (max 0 (dsub (pw_initial w) (pw_projected w)))"

definition require_reserve :: "product_workflow \<Rightarrow> game_snapshot \<Rightarrow> (ui_exn, rat) result" where
  "require_reserve w s = rbind (product_cash s) (\<lambda>cash. let projected = reserve_left w cash in
     if projected < pw_reserve w
     then raise (UIValidationError (''Atlas transition rejected: conservative projected cash $'' @ money_text projected @
       '' is below the $'' @ money_text (pw_reserve w) @ '' reserve''))
     else ok projected)"

text \<open>All amounts \<open>\$\s*([0-9][0-9,]*(?:\.[0-9]{1,2})?)\<close> of a text, which have no sign\<close>

definition unsigned_amount :: "string \<Rightarrow> (rat \<times> string) option" where
  "unsigned_amount s = (if s \<noteq> [] \<and> hd s = CHR ''-'' then None else amount_prefix s)"

function unsigned_amounts :: "string \<Rightarrow> rat list" where
  "unsigned_amounts s =
     (case dropWhile (\<lambda>c. c \<noteq> CHR ''$'') s of
        [] \<Rightarrow> []
      | _ # r \<Rightarrow>
          (case unsigned_amount (skip_spaces r) of
             None \<Rightarrow> unsigned_amounts r
           | Some (x, rest) \<Rightarrow> x # unsigned_amounts rest))"
  by pat_completeness auto

termination unsigned_amounts
proof (relation "measure length")
  fix s c r and v :: "rat \<times> string" and x rest
  assume "dropWhile (\<lambda>c. c \<noteq> CHR ''$'') s = c # r"
  note shorter = length_dropWhile_Cons [OF this]
  then show "(r, s) \<in> measure length" by simp
  assume v: "unsigned_amount (skip_spaces r) = Some v" "(x, rest) = v"
  then have "length rest \<le> length (skip_spaces r)"
    using amount_prefix_shorter by (auto simp: unsigned_amount_def split: if_split_asm)
  also have "\<dots> \<le> length r" by (simp add: skip_spaces_def length_dropWhile_le)
  finally show "(rest, s) \<in> measure length" using shorter by simp
qed simp

declare unsigned_amounts.simps [simp del]

definition product_review_cost :: "game_snapshot \<Rightarrow> (ui_exn, rat) result" where
  "product_review_cost s =
     (case map (\<lambda>e. as_str (jget (en_values e) ''review_cost_text''))
         (filter (\<lambda>e. en_type e = ''contract_ui_state'' \<and> en_id e = ''current'')
           (concat (map su_entities (filter (\<lambda>u. fc_surface (su_coverage u) = ''contract_ui'') (gs_surfaces s))))) of
        [Some text'] \<Rightarrow>
          (case unsigned_amounts text' of
             [] \<Rightarrow> if strip text' \<in> {[], ''$0'', ''$0.00''} then ok 0
               else raise (UIValidationError ''visible Atlas review cost is not exact USD'')
           | xs \<Rightarrow> ok (last xs))
      | _ \<Rightarrow> raise (UIValidationError ''visible Atlas review cost is unavailable''))"

definition linked_review :: "game_snapshot \<Rightarrow> string option \<Rightarrow> (ui_exn, entity option) result" where
  "linked_review s item =
     (case filter (\<lambda>e. en_type e = ''work_item'' \<and>
           jget (en_values e) ''review_target_work_item_id'' = opt_json JStr item)
         (concat (map su_entities (filter (\<lambda>u. fc_surface (su_coverage u) = ''work_items'') (gs_surfaces s)))) of
        [] \<Rightarrow> ok None
      | [e] \<Rightarrow> ok (Some e)
      | _ \<Rightarrow> raise (UIValidationError ''linked Atlas review work is ambiguous''))"

definition completed_review :: "game_snapshot \<Rightarrow> string option \<Rightarrow> (ui_exn, entity option) result" where
  "completed_review s item = rbind (linked_review s item) (\<lambda>found. ok (case found of
     None \<Rightarrow> None
   | Some e \<Rightarrow> if as_num_or_bool (jget (en_values e) ''progress'') = Some 1 \<or>
         occurs_in ''reviews finished'' (casefold (shown_value e ''stage'' [])) then Some e else None))"

section \<open>The steps of the set-up\<close>

datatype setup_input = ClickOn string | PressKey int "key_modifier list" string | TypeIn string string

text \<open>What is remembered from one cycle to the next: the kind of team being selected, and which text is selected\<close>

record setup_memory =
  sm_selecting :: "string option"
  sm_name :: bool
  sm_price :: bool

text \<open>One step: the input with its effect, what a dry run says, what has to hold afterwards, and what is remembered\<close>

record ('u, 's) setup_step =
  ss_input :: setup_input
  ss_effect :: string
  ss_dry :: string
  ss_check :: "ui_observation \<Rightarrow> ('u, 's, unit) operation"
  ss_memory :: setup_memory

definition make_step ::
  "setup_input \<Rightarrow> string \<Rightarrow> string \<Rightarrow> setup_memory \<Rightarrow> (ui_observation \<Rightarrow> ('u, 's, unit) operation) \<Rightarrow>
     ('u, 's, ('u, 's) setup_step option) operation" where
  "make_step input effect dry mem check = ret (Some
     \<lparr>ss_input = input, ss_effect = effect, ss_dry = ''Dry run: would '' @ dry, ss_check = check, ss_memory = mem\<rparr>)"

definition expect :: "bool \<Rightarrow> string \<Rightarrow> (ui_exn, unit) result" where
  "expect b message = (if b then ok () else raise (UIVerificationError (message @ ''; no retry attempted'')))"

definition first_step ::
  "('u, 's, ('u, 's) setup_step option) operation \<Rightarrow> ('u, 's, ('u, 's) setup_step option) operation \<Rightarrow>
     ('u, 's, ('u, 's) setup_step option) operation" where
  "first_step m f = seq m (\<lambda>found. case found of Some st \<Rightarrow> ret (Some st) | None \<Rightarrow> f)"

definition expect_scene :: "scene \<Rightarrow> string \<Rightarrow> ui_observation \<Rightarrow> ('u, 's, unit) operation" where
  "expect_scene sc message after = lift_result (expect (ui_scene after = sc) message)"

definition expect_names :: "string \<Rightarrow> string set \<Rightarrow> string \<Rightarrow> ui_observation \<Rightarrow> ('u, 's, unit) operation" where
  "expect_names field names message after =
     lift_result (rbind (shown_names after field) (\<lambda>xs. expect (set xs = names) message))"

definition open_design_step :: "setup_memory \<Rightarrow> ('u, 's, ('u, 's) setup_step option) operation" where
  "open_design_step mem = make_step (ClickOn ''open_product_design'') ''open the visible New software design window''
     ''open the current-frame New software design window; no input sent.'' mem
     (expect_scene ProductConfiguration ''open product-design input did not produce the exact configuration scene'')"

text \<open>The team picker: one toggle towards exactly Core, or apply\<close>

definition check_applied :: "string option \<Rightarrow> ui_observation \<Rightarrow> ('u, 's, unit) operation" where
  "check_applied selecting after =
     seq (expect_scene ProductConfiguration ''applying product teams did not return to product configuration'' after) (\<lambda>_.
     case selecting of
       None \<Rightarrow> throw (ControlFailed ''AssertionError'')
     | Some kind \<Rightarrow> expect_names (kind @ ''_teams'') {atlas_team}
         (''applying '' @ kind @ '' team did not produce exact Core assignment'') after)"

definition picker_step :: "setup_memory \<Rightarrow> ui_observation \<Rightarrow> ('u, 's, ('u, 's) setup_step option) operation" where
  "picker_step mem o' =
     seq (lift_result (shown_names o' ''team_picker_selected'')) (\<lambda>selected.
     if set selected \<noteq> {atlas_team}
     then (let name = (case filter (\<lambda>t. t \<noteq> atlas_team) selected of t # _ \<Rightarrow> t | [] \<Rightarrow> atlas_team) in
       make_step (ClickOn (''product_team_'' @ name))
         (''set exact product team selection to Core by toggling '' @ str_repr name)
         (''select exact team set Core by toggling '' @ str_repr name @ ''.'') mem
         (expect_names ''team_picker_selected'' (toggled name selected)
           ''team-selection toggle did not produce the exact expected set''))
     else make_step (ClickOn ''apply_product_teams'') ''apply exact Core product team selection''
       ''apply exact Core team selection.'' (mem\<lparr>sm_selecting := None\<rparr>) (check_applied (sm_selecting mem)))"

text \<open>A choice in a menu: the item if it is offered, else the menu itself\<close>

definition combo_step ::
  "'u desktop \<Rightarrow> setup_memory \<Rightarrow> ui_observation \<Rightarrow> string \<Rightarrow> string \<Rightarrow> string \<Rightarrow> string \<Rightarrow> string \<Rightarrow> string \<Rightarrow>
     ('u, 's, ('u, 's) setup_step option) operation" where
  "combo_step D mem o' field wanted item combo effect label =
     seq (lift_result (shown_text o' field)) (\<lambda>v.
     if casefold v = casefold wanted then ret None
     else seq (has_target D o' item) (\<lambda>offered. let i = (if offered then item else combo) in
       make_step (ClickOn i) effect (''click '' @ i @ ''.'') mem (\<lambda>after.
         if i = combo
         then seq (has_target D after item) (\<lambda>b.
           lift_result (expect b (label @ '' menu did not expose exact '' @ wanted)))
         else lift_result (rbind (shown_text after field) (\<lambda>v.
           expect (casefold v = casefold wanted) (label @ '' selection did not become exact '' @ wanted))))))"

definition type_step :: "'u desktop \<Rightarrow> setup_memory \<Rightarrow> ui_observation \<Rightarrow> ('u, 's, ('u, 's) setup_step option) operation" where
  "type_step D mem o' = combo_step D mem o' ''selected_type'' atlas_type ''product_combo_item:2d editor''
     ''product_type_combo'' (''select exact '' @ atlas_type @ '' type'') ''product-type''"

definition category_step :: "'u desktop \<Rightarrow> setup_memory \<Rightarrow> ui_observation \<Rightarrow> ('u, 's, ('u, 's) setup_step option) operation" where
  "category_step D mem o' = combo_step D mem o' ''selected_category'' atlas_category ''product_combo_item:default''
     ''product_category_combo'' (''select exact '' @ atlas_category @ '' product category'') ''product-category''"

text \<open>Editing a text field: focus it, select what is there, clear it; \<open>None\<close> once the new text can be typed\<close>

definition expect_focus :: "string \<Rightarrow> string \<Rightarrow> ui_observation \<Rightarrow> ('u, 's, unit) operation" where
  "expect_focus field message after =
     lift_result (rbind (shown_value_of after field) (\<lambda>v. expect (v = JBool True) message))"

definition edit_step ::
  "string \<Rightarrow> string \<Rightarrow> string \<Rightarrow> string \<Rightarrow> (bool \<Rightarrow> setup_memory) \<Rightarrow> bool \<Rightarrow> string \<Rightarrow> ui_observation \<Rightarrow>
     ('u, 's, ('u, 's) setup_step option) operation" where
  "edit_step label target focus_field text_field remember selected current o' =
     seq (lift_result (shown_value_of o' focus_field)) (\<lambda>focused.
     if focused \<noteq> JBool True
     then make_step (ClickOn target) (''focus the exact product-'' @ label @ '' field'') (''focus product '' @ label @ ''.'')
       (remember selected) (expect_focus focus_field (''product-'' @ label @ '' field did not receive focus''))
     else if current \<noteq> [] \<and> \<not> selected
     then make_step (PressKey 0 [Command] target) (''select existing product-'' @ label @ '' text'')
       (''select existing '' @ label @ '' text.'') (remember True)
       (expect_focus focus_field (''product-'' @ label @ '' selection lost exact field focus''))
     else if selected
     then make_step (PressKey 51 [] target) (''clear selected product-'' @ label @ '' text'')
       (''clear selected '' @ label @ '' text.'') (remember False) (\<lambda>after.
         lift_result (rbind (shown_text after text_field) (\<lambda>v.
           expect (v = []) (''selected product-'' @ label @ '' text did not clear''))))
     else ret None)"

definition name_step :: "setup_memory \<Rightarrow> ui_observation \<Rightarrow> ('u, 's, ('u, 's) setup_step option) operation" where
  "name_step mem o' =
     seq (lift_result (shown_text o' ''product_name'')) (\<lambda>name.
     if name = atlas_name then ret None
     else first_step
       (edit_step ''name'' ''product_name_input'' ''product_name_focused'' ''product_name'' (\<lambda>b. mem\<lparr>sm_name := b\<rparr>)
         (sm_name mem) name o')
       (make_step (TypeIn atlas_name ''product_name_input'') ''type exact product name Atlas'' ''type Atlas.''
         (mem\<lparr>sm_name := False\<rparr>) (\<lambda>after. lift_result (rbind (shown_text after ''product_name'') (\<lambda>v.
           expect (v = atlas_name) ''product name did not become exact Atlas'')))))"

definition shown_price :: "ui_observation \<Rightarrow> (ui_exn, rat option) result" where
  "shown_price o' = rbind (shown_value_of o' ''price'') (\<lambda>v. ok (as_decimal v))"

definition price_step :: "setup_memory \<Rightarrow> ui_observation \<Rightarrow> ('u, 's, ('u, 's) setup_step option) operation" where
  "price_step mem o' =
     seq (lift_result (product_class_of (ui_after o') atlas_type atlas_category)) (\<lambda>class'.
     seq (lift_result (shown_price o')) (\<lambda>observed.
     case observed of
       None \<Rightarrow> throw (UIValidationError ''product_ui.price is not observed numeric data'')
     | Some price \<Rightarrow>
       if price = cl_price class' then ret None
       else
       seq (lift_result (shown_text o' ''price_text'')) (\<lambda>current.
       first_step
         (edit_step ''price'' ''product_price_input'' ''price_focused'' ''price_text'' (\<lambda>b. mem\<lparr>sm_price := b\<rparr>)
           (sm_price mem) current o')
         (make_step (TypeIn (decimal_text (cl_price class')) ''product_price_input'')
           (''set exact observed ideal price $'' @ money_text (cl_price class'))
           (''set the observed ideal price $'' @ money_text (cl_price class') @ ''.'') (mem\<lparr>sm_price := False\<rparr>) (\<lambda>after.
             lift_result (rbind (shown_price after) (\<lambda>v. expect (v = Some (cl_price class'))
               ''product price did not become the exact observed ideal price'')))))))"

text \<open>Turning a page\<close>

definition page_step ::
  "setup_memory \<Rightarrow> ui_observation \<Rightarrow> string \<Rightarrow> string \<Rightarrow> string \<Rightarrow> ('u, 's, ('u, 's) setup_step option) operation" where
  "page_step mem o' direction effect dry =
     make_step (ClickOn (''product_'' @ direction @ ''_page'')) effect dry mem (\<lambda>after.
       lift_result (rbind (shown_page after) (\<lambda>a. rbind (shown_page o') (\<lambda>b.
         expect (a \<noteq> b) (direction @ '' product page input did not change the observed page'')))))"

definition assign_step :: "'u desktop \<Rightarrow> setup_memory \<Rightarrow> ui_observation \<Rightarrow> ('u, 's, ('u, 's) setup_step option) operation" where
  "assign_step D mem o' =
     seq (lift_result (shown_names o' ''design_teams'')) (\<lambda>design.
     seq (lift_result (shown_names o' ''development_teams'')) (\<lambda>development.
     case (if set design \<noteq> {atlas_team} then Some ''design''
         else if set development \<noteq> {atlas_team} then Some ''development'' else None) of
       None \<Rightarrow>
         (case sm_selecting mem of
            None \<Rightarrow> ret None
          | Some _ \<Rightarrow> throw (UIVerificationError ''team selection closed without changing the exact team''))
     | Some kind \<Rightarrow>
       (let i = ''choose_product_'' @ kind @ ''_team'' in
        seq (has_target D o' i) (\<lambda>offered.
        if offered
        then make_step (ClickOn i) (''open exact '' @ kind @ '' team selection'') (''click '' @ i @ ''.'')
          (mem\<lparr>sm_selecting := Some kind\<rparr>)
          (expect_scene ProductTeamSelection ''product team picker did not open'')
        else
        seq (has_target D o' ''product_next_page'') (\<lambda>more.
        if more
        then page_step mem o' ''next'' ''advance to the next reversible product configuration page''
          ''open the next configuration page.''
        else throw (UIValidationError (''exact '' @ kind @ '' team selection is unavailable on the visible pages'')))))))"

text \<open>A step for a target that may be on the page before\<close>

definition toggle_step ::
  "'u desktop \<Rightarrow> setup_memory \<Rightarrow> ui_observation \<Rightarrow> string \<Rightarrow> string \<Rightarrow> string \<Rightarrow>
     ('u, 's, ('u, 's) setup_step option) operation \<Rightarrow> ('u, 's, ('u, 's) setup_step option) operation" where
  "toggle_step D mem o' i page unavailable step =
     seq (has_target D o' i) (\<lambda>offered.
     if offered then step
     else seq (has_target D o' ''product_previous_page'') (\<lambda>more.
       if more
       then page_step mem o' ''previous'' (''return to the reversible '' @ page @ '' page'') (''return to the '' @ page @ '' page.'')
       else throw (UIValidationError unavailable)))"

definition feature_to_toggle :: "string list \<Rightarrow> string" where
  "feature_to_toggle selected = (case filter (\<lambda>f. f \<notin> set atlas_features) selected of
       f # _ \<Rightarrow> f
     | [] \<Rightarrow> (case filter (\<lambda>f. f \<notin> set selected) (sort (remdups atlas_features)) of f # _ \<Rightarrow> f | [] \<Rightarrow> []))"

definition feature_step :: "'u desktop \<Rightarrow> setup_memory \<Rightarrow> ui_observation \<Rightarrow> ('u, 's, ('u, 's) setup_step option) operation" where
  "feature_step D mem o' =
     seq (lift_result (shown_names o' ''selected_features'')) (\<lambda>selected.
     if set selected = set atlas_features then ret None
     else
     seq (lift_result (product_features (ui_after o') atlas_type)) (\<lambda>fs. let name = feature_to_toggle selected in
     case map_of (rev (map (\<lambda>f. (fe_name f, f)) fs)) name of
       None \<Rightarrow> throw (UIValidationError (''exact bounded '' @ atlas_type @ '' feature '' @ str_repr name @ '' is unavailable''))
     | Some f \<Rightarrow>
       if \<not> fe_unlocked f \<or> fe_dependencies f \<noteq> [] \<or> fe_server f \<noteq> 0
       then throw (UIValidationError (''exact bounded '' @ atlas_type @ '' feature '' @ str_repr name @ '' is unavailable''))
       else (let i = ''product_feature_'' @ after_colon (fe_id f) in
         toggle_step D mem o' i ''feature configuration''
           (''exact feature target for '' @ str_repr name @ '' is unavailable on visible pages'')
           (make_step (ClickOn i) (''toggle exact bounded dependency-free feature '' @ str_repr name)
             (''toggle bounded feature '' @ str_repr name @ ''.'') mem
             (expect_names ''selected_features'' (toggled name selected)
               ''feature toggle did not produce the exact expected set'')))))"

text \<open>The option to toggle: one that is selected and should not be, else the one with the most users\<close>

definition system_to_toggle :: "system_option \<Rightarrow> system_option list \<Rightarrow> string list \<Rightarrow> string" where
  "system_to_toggle best options selected =
     (case sort (map so_id (filter (\<lambda>x. system_label x \<in> set selected \<and> so_id x \<noteq> so_id best) options)) of
        i # _ \<Rightarrow> i | [] \<Rightarrow> so_id best)"

definition system_step :: "'u desktop \<Rightarrow> setup_memory \<Rightarrow> ui_observation \<Rightarrow> ('u, 's, ('u, 's) setup_step option) operation" where
  "system_step D mem o' =
     seq (lift_result (shown_names o' ''selected_operating_systems'')) (\<lambda>selected.
     seq (lift_result (operating_system_options (ui_after o'))) (\<lambda>options.
     case options of
       [] \<Rightarrow> throw (UIValidationError ''no exact available operating-system row is observed'')
     | best # _ \<Rightarrow>
       if set selected = {system_label best} then ret None
       else (let chosen = system_to_toggle best options selected; i = ''product_os_'' @ chosen in
         toggle_step D mem o' i ''operating-system'' ''exact operating-system target is unavailable on visible pages''
           (make_step (ClickOn i)
             (''set exact current operating system '' @ str_repr (so_name best) @ '' with the largest '' @ ''observed userbase'')
             (''set operating system '' @ str_repr (so_name best) @ '' with observed userbase '' @
              rev (grouped (rev (digits_text (so_users best)))) @ ''.'') mem
             (\<lambda>after. case find (\<lambda>x. so_id x = chosen) options of
                None \<Rightarrow> throw (UIVerificationError ''operating-system target no longer maps to an observed option'')
              | Some x \<Rightarrow> expect_names ''selected_operating_systems'' (toggled (system_label x) selected)
                  ''operating-system toggle did not produce the exact expected set'' after)))))"

text \<open>Once everything is chosen: the page with the commitment\<close>

definition complete_step :: "'u desktop \<Rightarrow> setup_memory \<Rightarrow> ui_observation \<Rightarrow> ('u, 's, ('u, 's) setup_step option) operation" where
  "complete_step D mem o' =
     seq (lift_result (shown_text o' ''selected_category'')) (\<lambda>category.
     seq (lift_result (shown_text o' ''selected_features'')) (\<lambda>features.
     seq (lift_result (shown_text o' ''selected_operating_systems'')) (\<lambda>systems.
     seq (if category \<noteq> [] \<and> features \<noteq> [] \<and> systems \<noteq> [] then has_target D o' ''commit_product_design'' else ret False) (\<lambda>ready.
     if ready then ret None
     else seq (has_target D o' ''product_next_page'') (\<lambda>more.
       if more
       then page_step mem o' ''next'' ''inspect the next reversible product configuration page'' ''inspect the next product page.''
       else throw (UIValidationError ''feature, operating-system, or final design commitment state is incomplete''))))))"

definition configuration_step ::
  "'u desktop \<Rightarrow> setup_memory \<Rightarrow> ui_observation \<Rightarrow> ('u, 's, ('u, 's) setup_step option) operation" where
  "configuration_step D mem o' =
     (let named = mem\<lparr>sm_name := False\<rparr>; priced = named\<lparr>sm_price := False\<rparr> in
      first_step (type_step D mem o') (first_step (category_step D mem o') (first_step (name_step mem o')
     (first_step (price_step named o') (first_step (assign_step D priced o') (first_step (feature_step D priced o')
     (first_step (system_step D priced o') (complete_step D priced o'))))))))"

text \<open>The next step in a scene; \<open>None\<close> when the design is complete and can be committed\<close>

definition setup_step_of ::
  "'u desktop \<Rightarrow> setup_memory \<Rightarrow> ui_observation \<Rightarrow> ('u, 's, ('u, 's) setup_step option) operation" where
  "setup_step_of D mem o' =
     (if ui_scene o' = GameplayPaused then open_design_step mem
      else if ui_scene o' = ProductTeamSelection then picker_step mem o'
      else if ui_scene o' = ProductConfiguration then configuration_step D mem o'
      else throw (UIValidationError (''Atlas configuration cannot continue from '' @ scene_text (ui_scene o') @
        ''; close unrelated UI'')))"

definition take_step :: "'u desktop \<Rightarrow> ('u, 's) setup_step \<Rightarrow> ui_observation \<Rightarrow> ('u, 's, ui_observation) operation" where
  "take_step D st o' =
     seq (case ss_input st of
            ClickOn i \<Rightarrow> atlas_press D o' i (ss_effect st)
          | PressKey code modifiers i \<Rightarrow> atlas_key D o' code modifiers i (ss_effect st)
          | TypeIn v i \<Rightarrow> atlas_text D o' v i (ss_effect st)) (\<lambda>after.
     seq (ss_check st after) (\<lambda>_. ret after))"

section \<open>Closing the window and creating the product\<close>

definition close_product_configuration :: "'u desktop \<Rightarrow> bool \<Rightarrow> ('u, product_result) product_operation" where
  "close_product_configuration D dry_run =
     seq (observe D) (\<lambda>before.
     seq (lift_result (require_actionable ''Atlas'' before)) (\<lambda>_.
     if ui_scene before = GameplayPaused
     then product_report D None 0 True False ''Product configuration is already closed; no input was sent.''
     else if ui_scene before \<noteq> ProductConfiguration
     then throw (UIValidationError (''cannot close product configuration from '' @ scene_text (ui_scene before)))
     else
     seq (atlas_target D before ''close_product_configuration'') (\<lambda>t.
     if dry_run
     then product_report D None 0 False True
       ''Dry run: would close the reversible product configuration window; no input sent.''
     else
     seq (atlas_click D before t ''close the reversible product configuration window'') (\<lambda>after.
     if ui_scene after \<noteq> GameplayPaused
     then throw (UIVerificationError ''product configuration did not close to paused gameplay; no retry attempted'')
     else product_report D None 1 True False ''Product configuration closed and pause verified.''))))"

definition recommend_now ::
  "'u desktop \<Rightarrow> naming \<Rightarrow> rat \<Rightarrow> ui_observation \<Rightarrow> ('u, 's, product_recommendation) operation" where
  "recommend_now D n reserve o' = seq (read_clock D) (\<lambda>time.
     lift_result (recommend_atlas n time (ui_after o') atlas_name atlas_team reserve))"

definition synchronize_product_now ::
  "'u desktop \<Rightarrow> product_workflow \<Rightarrow> ui_observation \<Rightarrow> ('u, 's, product_workflow) operation" where
  "synchronize_product_now D w o' = seq (read_clock D) (\<lambda>time. lift_result (synchronize_product time w (ui_after o')))"

text \<open>Ask the person about an approval; the answer becomes part of the workflow.\<close>

definition decide_product ::
  "'u desktop \<Rightarrow> product_workflow \<Rightarrow> product_approval \<Rightarrow> ('u, 's, product_workflow) operation" where
  "decide_product D w a = seq (ask D (pa_id a)) (\<lambda>b. seq (read_clock D) (\<lambda>time.
     lift_result (resolve_product_approval time b w)))"

text \<open>The commitment: observe once more, recommend again, click, and verify the new work item and the cash.\<close>

definition commit_creation ::
  "'u desktop \<Rightarrow> naming \<Rightarrow> rat \<Rightarrow> product_workflow \<Rightarrow> product_approval \<Rightarrow> product_recommendation \<Rightarrow> ui_observation \<Rightarrow> nat \<Rightarrow>
     ('u, product_result) product_operation" where
  "commit_creation D n reserve w a r o' gestures =
     seq (observe D) (\<lambda>fresh.
     seq (lift_result (atlas_continuity o' fresh)) (\<lambda>_.
     seq (lift_result (require_actionable ''Atlas'' fresh)) (\<lambda>_.
     seq (recommend_now D n reserve fresh) (\<lambda>r'.
     if \<not> pr_recommended r' \<or> pr_configuration r' \<noteq> pr_configuration r \<or> pr_runway r' \<noteq> pr_runway r \<or> pr_team r' \<noteq> pr_team r
     then throw (UIValidationError ''Atlas configuration, runway, or team suitability changed during approval'')
     else
     seq (lift_result (product_cash (ui_after fresh))) (\<lambda>cash_before.
     seq (atlas_press D fresh ''commit_product_design'' (pa_summary a)) (\<lambda>after.
     if ui_modal after \<noteq> NoModal
     then throw (UIVerificationError
       ''the game presented an unapproved product warning or charge; it was left untouched'')
     else
     seq (lift_result (product_work (ui_after after) ''Atlas'')) (\<lambda>found.
     seq (case found of None \<Rightarrow> ret None | Some e \<Rightarrow> seq (lift_result (product_stage_of e)) (\<lambda>st. ret (Some (e, st)))) (\<lambda>made.
     case made of
       None \<Rightarrow> throw (UIVerificationError (''Atlas creation input did not produce one exact Design work item; '' @
         ''no retry attempted''))
     | Some (e, st) \<Rightarrow>
       if st \<noteq> AtDesign
       then throw (UIVerificationError (''Atlas creation input did not produce one exact Design work item; '' @
         ''no retry attempted''))
       else
       seq (lift_result (product_cash (ui_after after))) (\<lambda>cash_after.
       if cash_after < reserve \<or> cash_before < cash_after
       then throw (UIVerificationError (''Atlas creation cash outcome violated the approved reserve or increased '' @
         ''unexpectedly''))
       else
       seq (synchronize_product_now D w after) (\<lambda>created.
       seq (store_product created) (\<lambda>_.
       seq (append_product D created ''product_created'' AtConfiguration AtDesign (pa_summary a)
         (''work_item_id='' @ en_id e @ ''; cash $'' @ money_text cash_before @ '' -> $'' @ money_text cash_after)) (\<lambda>event.
       product_outcome D (Some created) (Some r) (Some event) (gestures + 1) True False
         ''Atlas design was created and verified; the game remains paused.''))))))))))))"

definition approve_creation ::
  "'u desktop \<Rightarrow> naming \<Rightarrow> rat \<Rightarrow> bool \<Rightarrow> bool \<Rightarrow> ui_observation \<Rightarrow> nat \<Rightarrow> ('u, product_result) product_operation" where
  "approve_creation D n reserve provider dry_run o' gestures =
     seq (recommend_now D n reserve o') (\<lambda>r.
     if \<not> pr_recommended r
     then product_outcome D None (Some r) None gestures True True (''Atlas is not safe to create: '' @ join ''; '' (pr_reasons r))
     else
     seq (read_clock D) (\<lambda>time. seq (read_clock D) (\<lambda>asked. seq (uuid4 D) (\<lambda>i.
     seq (lift_result (create_product_workflow n i asked time (ui_after o') r)) (\<lambda>w.
     case pw_approval w of
       None \<Rightarrow> throw (ControlFailed ''AssertionError'')
     | Some a \<Rightarrow>
       if dry_run then product_outcome D (Some w) (Some r) None gestures False True (pa_summary a)
       else
       seq (store_product w) (\<lambda>_.
       if \<not> provider then product_outcome D (Some w) (Some r) None gestures False True (pa_summary a)
       else
       seq (decide_product D w a) (\<lambda>decided.
       if pw_status decided = ProductBlocked
       then
       seq (read_clock D) (\<lambda>ended. let failed = decided\<lparr>pw_status := ProductFailed, pw_updated := ended\<rparr> in
       seq (store_product failed) (\<lambda>_.
       product_report D (Some failed) gestures False False ''Atlas creation was denied; no commitment input sent.''))
       else
       seq (store_product decided) (\<lambda>_. commit_creation D n reserve decided a r o' gestures))))))))"

fun setup_atlas ::
  "nat \<Rightarrow> 'u desktop \<Rightarrow> naming \<Rightarrow> rat \<Rightarrow> bool \<Rightarrow> bool \<Rightarrow> setup_memory \<Rightarrow> ui_observation \<Rightarrow> nat \<Rightarrow>
     ('u, product_result) product_operation" where
  "setup_atlas 0 D n reserve provider dry_run mem o' gestures =
     throw (UIVerificationError ''Atlas setup exceeded the bounded cycle limit'')"
| "setup_atlas (Suc cycles) D n reserve provider dry_run mem o' gestures =
     seq (setup_step_of D mem o') (\<lambda>step. case step of
       None \<Rightarrow> approve_creation D n reserve provider dry_run o' gestures
     | Some st \<Rightarrow>
       if dry_run then product_report D None gestures False True (ss_dry st)
       else seq (take_step D st o') (\<lambda>after.
         setup_atlas cycles D n reserve provider dry_run (ss_memory st) after (gestures + 1)))"

definition setup_cycles :: nat where "setup_cycles = 36"

definition uncommitted :: "product_workflow \<Rightarrow> bool" where
  "uncommitted w \<longleftrightarrow> (case pw_approval w of None \<Rightarrow> False
     | Some a \<Rightarrow> pa_commitment a = CreateProduct \<and> pa_approved a \<in> {None, Some False})"

definition existing_product ::
  "'u desktop \<Rightarrow> game_snapshot \<Rightarrow> ('u, product_workflow) product_operation" where
  "existing_product D s =
     seq (gets (\<lambda>world. current_product (gs_session s) (save_text s) (ow_store world))) (\<lambda>found.
     seq (lift_result found) (\<lambda>existing.
     case existing of
       None \<Rightarrow> throw (UIValidationError
         ''Atlas exists without a persisted Sim Pilot workflow; adopt/recovery is not authorized'')
     | Some w \<Rightarrow>
       if pw_sequence w = gs_sequence s then ret w
       else seq (read_clock D) (\<lambda>time. lift_result (synchronize_product time w s))))"

text \<open>An earlier workflow that was never committed is given up; a dry run stops here.\<close>

definition expire_uncommitted ::
  "'u desktop \<Rightarrow> bool \<Rightarrow> game_snapshot \<Rightarrow> ('u, product_result option) product_operation" where
  "expire_uncommitted D dry_run s =
     seq (gets (\<lambda>world. current_product (gs_session s) (save_text s) (ow_store world))) (\<lambda>found.
     seq (lift_result found) (\<lambda>existing.
     case existing of
       None \<Rightarrow> ret None
     | Some w \<Rightarrow>
       if \<not> uncommitted w
       then throw (UIValidationError (''an approved or active Atlas workflow exists but its exact product work is not '' @
         ''observed; commitment outcome is ambiguous and will not be retried''))
       else if dry_run
       then seq (product_report D (Some w) 0 False True
         (''A prior uncommitted Atlas approval is pending or denied; a live start would '' @
          ''expire it and rebind a fresh configuration. No input or persistence changed.'')) (\<lambda>r. ret (Some r))
       else seq (read_clock D) (\<lambda>time.
         seq (store_product (w\<lparr>pw_status := ProductFailed, pw_updated := time\<rparr>)) (\<lambda>_. ret None))))"

definition start_atlas ::
  "'u desktop \<Rightarrow> naming \<Rightarrow> rat \<Rightarrow> bool \<Rightarrow> bool \<Rightarrow> ('u, product_result) product_operation" where
  "start_atlas D n reserve provider dry_run =
     seq (observe D) (\<lambda>o'.
     seq (lift_result (require_actionable ''Atlas'' o')) (\<lambda>_.
     if \<not> is_paused o'
     then throw (UIValidationError ''pause the game before configuring Atlas; no product input was sent'')
     else
     seq (lift_result (product_work (ui_after o') atlas_name)) (\<lambda>work.
     if work \<noteq> None
     then seq (existing_product D (ui_after o')) (\<lambda>w.
       product_report D (Some w) 0 True False
         ''Atlas already exists in this save; duplicate creation was rejected with no input.'')
     else
     seq (expire_uncommitted D dry_run (ui_after o')) (\<lambda>stopped.
     case stopped of
       Some r \<Rightarrow> ret r
     | None \<Rightarrow> setup_atlas setup_cycles D n reserve provider dry_run
         \<lparr>sm_selecting = None, sm_name = False, sm_price = False\<rparr> o' 0))))"

section \<open>Holding and advancing\<close>

definition item_of :: "product_workflow \<Rightarrow> (ui_exn, string) result" where
  "item_of w = (case pw_item w of Some i \<Rightarrow> ok i | None \<Rightarrow> raise (ControlFailed ''AssertionError''))"

definition set_product_hold ::
  "'u desktop \<Rightarrow> bool \<Rightarrow> bool \<Rightarrow> product_workflow \<Rightarrow> ('u, product_result) product_operation" where
  "set_product_hold D held dry_run w = (let verb = (if held then ''hold'' else ''resume'') in
     seq (observe D) (\<lambda>seen.
     seq (lift_result (require_actionable ''Atlas'' seen)) (\<lambda>_.
     if \<not> is_paused seen then throw (UIValidationError ''pause game time before changing Atlas hold state'')
     else
     seq (synchronize_product_now D w seen) (\<lambda>current.
     if pw_held current = held
     then seq (store_product current) (\<lambda>_. product_report D (Some current) 0 True False
       (''Atlas is already '' @ (if held then ''held'' else ''resumed'') @ ''; no input was sent.''))
     else
     seq (lift_result (item_of current)) (\<lambda>i. let t = product_item_target i ''toggle-pause'' in
     seq (ensure_target D dry_run seen t) (\<lambda>(before, opened).
     if dry_run then product_report D (Some current) opened False True (''Dry run: would '' @ verb @ '' Atlas.'')
     else
     seq (atlas_press D before t (verb @ '' Atlas work'')) (\<lambda>after.
     seq (synchronize_product_now D current after) (\<lambda>updated.
     if pw_held updated \<noteq> held
     then throw (UIVerificationError ''Atlas hold input did not produce the exact pause state'')
     else
     seq (store_product updated) (\<lambda>_.
     seq (append_product D updated (if held then ''product_held'' else ''product_resumed'') (pw_stage current)
       (pw_stage updated) (verb @ '' exact Atlas work item'')
       (''project_paused='' @ py_repr (JBool (pw_held updated)) @ ''; game_paused=true'')) (\<lambda>event.
     product_outcome D (Some updated) None (Some event) (opened + 1) True False
       (''Atlas '' @ (if held then ''held'' else ''resumed'') @ '' and verified.'')))))))))))"

definition pause_product_interval :: "'u desktop \<Rightarrow> ('u, 's, ui_observation \<times> nat) operation" where
  "pause_product_interval D =
     seq (observe D) (\<lambda>o'.
     seq (lift_result (require_actionable ''Atlas'' o')) (\<lambda>_.
     if is_paused o' then ret (o', 0)
     else seq (atlas_press D o' ''pause_button'' ''pause after bounded Atlas work'') (\<lambda>after.
       if \<not> is_paused after
       then throw (UIVerificationError ''bounded Atlas cleanup could not verify pause'')
       else ret (after, 1))))"

text \<open>Opening the result of a review that is complete\<close>

definition open_review_result ::
  "'u desktop \<Rightarrow> bool \<Rightarrow> product_workflow \<Rightarrow> entity \<Rightarrow> ui_observation \<Rightarrow> ('u, product_result) product_operation" where
  "open_review_result D dry_run w review o' = (let t = product_item_target (en_id review) ''finish-review'' in
     seq (ensure_target D dry_run o' t) (\<lambda>(before, opened).
     if dry_run
     then product_report D (Some w) opened False True ''Dry run: would finish the exact completed Atlas review.''
     else
     seq (atlas_press D before t ''finish exact completed Atlas review'') (\<lambda>_.
     product_report D (Some w) (opened + 1) True True
       ''Completed Atlas review opened; choose iterate or promote while paused.'')))"

text \<open>Work that is held is resumed; a dry run stops here with a result.\<close>

definition resume_work ::
  "'u desktop \<Rightarrow> bool \<Rightarrow> product_workflow \<Rightarrow> ui_observation \<Rightarrow>
     ('u, product_result + product_workflow \<times> ui_observation \<times> nat) product_operation" where
  "resume_work D dry_run w o' =
     (if \<not> pw_held w then ret (Inr (w, o', 0))
      else
      seq (lift_result (item_of w)) (\<lambda>i. let t = product_item_target i ''toggle-pause'' in
      seq (ensure_target D dry_run o' t) (\<lambda>(before, opened).
      if dry_run
      then seq (product_report D (Some w) opened False True ''Dry run: would resume Atlas project work.'') (\<lambda>r. ret (Inl r))
      else
      seq (atlas_press D before t ''resume exact Atlas project work'') (\<lambda>after.
      seq (synchronize_product_now D w after) (\<lambda>current.
      if pw_held current then throw (UIVerificationError ''Atlas project did not resume'')
      else seq (store_product current) (\<lambda>_. ret (Inr (current, after, opened + 1))))))))"

text \<open>Back to paused gameplay\<close>

definition close_product_windows ::
  "'u desktop \<Rightarrow> bool \<Rightarrow> product_workflow \<Rightarrow> ui_observation \<Rightarrow> nat \<Rightarrow>
     ('u, product_result + ui_observation \<times> nat) product_operation" where
  "close_product_windows D dry_run w o' gestures =
     (if ui_scene o' = GameplayPaused then ret (Inr (o', gestures))
      else if dry_run
      then seq (product_report D (Some w) gestures False True ''Dry run: would close reversible product UI.'') (\<lambda>r. ret (Inl r))
      else seq (atlas_key D o' 53 [] ''escape_to_gameplay'' ''close reversible product UI'') (\<lambda>after.
        if ui_scene after \<noteq> GameplayPaused
        then throw (UIVerificationError ''product UI did not return to paused gameplay'')
        else ret (Inr (after, gestures + 1))))"

text \<open>Whether anything moved between two looks at the work item\<close>

definition work_changed :: "entity option \<Rightarrow> entity option \<Rightarrow> (ui_exn, bool) result" where
  "work_changed before after = (case (before, after) of
       (Some a, Some b) \<Rightarrow>
         (let differs = (\<lambda>field. \<not> py_eq (jget (en_values a) field) (jget (en_values b) field)) in
          if differs ''progress'' then ok True
          else rbind (product_stage_of a) (\<lambda>x. rbind (product_stage_of b) (\<lambda>y. ok (x \<noteq> y \<or> differs ''iteration''))))
     | _ \<Rightarrow> ok False)"

definition finish_interval ::
  "'u desktop \<Rightarrow> rat \<Rightarrow> product_workflow \<Rightarrow> entity option \<Rightarrow> ui_observation \<Rightarrow> nat \<Rightarrow> ('u, product_result) product_operation" where
  "finish_interval D seconds w work paused gestures =
     seq (synchronize_product_now D w paused) (\<lambda>updated.
     seq (store_product updated) (\<lambda>_.
     seq (lift_result (product_work (ui_after paused) (pw_name w))) (\<lambda>work'.
     seq (lift_result (work_changed work work')) (\<lambda>changed.
     let moved = decimal_text (pw_progress w) @ ''->'' @ decimal_text (pw_progress updated) in
     seq (append_product D updated ''product_advanced'' (pw_stage w) (pw_stage updated) ''bounded Atlas time progression''
       (''progress '' @ moved @ ''; game_paused=true'')) (\<lambda>event.
     product_outcome D (Some updated) None (Some event) gestures True (\<not> changed)
       (''Atlas advanced for '' @ float_g seconds @ ''s and is paused; progress '' @ moved @ ''.''))))))"

definition run_product_interval ::
  "'u desktop \<Rightarrow> rat \<Rightarrow> product_workflow \<Rightarrow> ui_observation \<Rightarrow> nat \<Rightarrow> ('u, product_result) product_operation" where
  "run_product_interval D seconds w o' gestures =
     seq (atlas_press D o' ''resume_button'' ''resume bounded Atlas work'') (\<lambda>running.
     if is_paused running
     then throw (UIVerificationError ''bounded Atlas progression did not resume game time'')
     else
     seq (lift_result (product_work (ui_after running) (pw_name w))) (\<lambda>work.
     seq (finally_do (seq (keep_foreground D) (\<lambda>_. settle_for D seconds)) (pause_product_interval D)) (\<lambda>(paused, stopped).
     finish_interval D seconds w work paused (gestures + 1 + stopped))))"

definition advance_product ::
  "'u desktop \<Rightarrow> rat \<Rightarrow> bool \<Rightarrow> product_workflow \<Rightarrow> ('u, product_result) product_operation" where
  "advance_product D seconds dry_run w =
     (if seconds \<le> 0 \<or> 30 < seconds
      then throw (UIValidationError ''product run interval must be between 0 and 30 seconds'')
      else
      seq (observe D) (\<lambda>seen.
      seq (lift_result (require_actionable ''Atlas'' seen)) (\<lambda>_.
      if \<not> is_paused seen then throw (UIValidationError ''Atlas progression must begin from paused game time'')
      else
      seq (synchronize_product_now D w seen) (\<lambda>current.
      if pw_stage current = AtBeta
      then seq (store_product current) (\<lambda>_. product_report D (Some current) 0 True False
        ''Atlas has reached beta; no time was advanced.'')
      else
      seq (lift_result (require_reserve current (ui_after seen))) (\<lambda>_.
      seq (lift_result (completed_review (ui_after seen) (pw_item current))) (\<lambda>review.
      case review of
        Some e \<Rightarrow> open_review_result D dry_run current e seen
      | None \<Rightarrow>
        seq (resume_work D dry_run current seen) (\<lambda>resumed.
        case resumed of
          Inl r \<Rightarrow> ret r
        | Inr (working, before, gestures) \<Rightarrow>
          seq (close_product_windows D dry_run working before gestures) (\<lambda>closed.
          case closed of
            Inl r \<Rightarrow> ret r
          | Inr (ready, sent) \<Rightarrow>
            if dry_run
            then product_report D (Some working) sent False True
              (''Dry run: would run Atlas for '' @ float_g seconds @ ''s and guarantee pause.'')
            else run_product_interval D seconds working ready sent))))))))"

section \<open>Promoting, reviewing and iterating\<close>

text \<open>A commitment that waits for its approval\<close>

definition request_product ::
  "'u desktop \<Rightarrow> product_workflow \<Rightarrow> product_commitment \<Rightarrow> product_stage \<Rightarrow> rat \<Rightarrow> rat \<Rightarrow> rat \<Rightarrow>
     ('u, 's, product_approval) operation" where
  "request_product D w c expected cost cash projected =
     seq (read_clock D) (\<lambda>time. seq (uuid4 D) (\<lambda>i.
     lift_result (product_approval_for i time w c (Some expected) cost (Some cash) (Some projected))))"

definition waiting_for :: "product_approval \<Rightarrow> product_workflow \<Rightarrow> product_workflow" where
  "waiting_for a w = w\<lparr>pw_approval := Some a, pw_status := ProductWaiting\<rparr>"

text \<open>
  The decision about a waiting workflow: a dry run reports it, a missing provider leaves it waiting in the store, and an
  answer is stored with it; \<open>then_do\<close> goes on with a workflow that was approved.
\<close>

definition decide_commitment_of ::
  "'u desktop \<Rightarrow> bool \<Rightarrow> bool \<Rightarrow> product_workflow \<Rightarrow> product_approval \<Rightarrow> nat \<Rightarrow> string \<Rightarrow>
     (product_workflow \<Rightarrow> ('u, product_result) product_operation) \<Rightarrow> ('u, product_result) product_operation" where
  "decide_commitment_of D provider dry_run w a gestures denied then_do =
     (if dry_run then product_report D (Some w) gestures False True (pa_summary a)
      else
      seq (store_product w) (\<lambda>_.
      if \<not> provider then product_report D (Some w) gestures False True (pa_summary a)
      else
      seq (decide_product D w a) (\<lambda>decided.
      seq (store_product decided) (\<lambda>_.
      if pw_status decided = ProductBlocked
      then product_report D (Some decided) gestures False False denied
      else then_do decided))))"

definition promoted_stage :: "product_workflow \<Rightarrow> product_stage" where
  "promoted_stage w = (if pw_stage w = AtDesign then AtAlpha else AtBeta)"

text \<open>The click on the promotion, and on the confirmation if the game asks for one\<close>

definition click_promotion ::
  "'u desktop \<Rightarrow> string \<Rightarrow> product_approval \<Rightarrow> ui_observation \<Rightarrow> ('u, 's, ui_observation \<times> nat) operation" where
  "click_promotion D i a o' =
     seq (atlas_target_opt D o' ''review_result_promote'') (\<lambda>shown.
     seq (case shown of Some t \<Rightarrow> ret (Some t) | None \<Rightarrow> atlas_target_opt D o' i) (\<lambda>found.
     seq (case found of Some t \<Rightarrow> ret (o', 0, t)
       | None \<Rightarrow> seq (ensure_target D False o' i) (\<lambda>(before, opened). seq (atlas_target D before i) (\<lambda>t. ret (before, opened, t))))
     (\<lambda>(before, opened, t).
     seq (atlas_click D before t (pa_summary a)) (\<lambda>after.
     if ui_modal after = ModalBlocking
     then seq (atlas_press D after ''confirm_dialog_yes'' (pa_summary a)) (\<lambda>confirmed. ret (confirmed, opened + 2))
     else ret (after, opened + 1)))))"

definition commit_promotion ::
  "'u desktop \<Rightarrow> product_stage \<Rightarrow> rat \<Rightarrow> product_approval \<Rightarrow> ui_observation \<Rightarrow> product_workflow \<Rightarrow>
     ('u, product_result) product_operation" where
  "commit_promotion D expected projected a o' w =
     seq (observe D) (\<lambda>fresh.
     seq (lift_result (atlas_continuity o' fresh)) (\<lambda>_.
     seq (lift_result (require_actionable ''Atlas'' fresh)) (\<lambda>_.
     seq (synchronize_product_now D w fresh) (\<lambda>current.
     seq (if pw_stage current \<noteq> pa_before a then ret True
       else seq (lift_result (product_cash (ui_after fresh))) (\<lambda>cash.
         if cash \<noteq> pa_cash a then ret True
         else seq (lift_result (require_reserve current (ui_after fresh))) (\<lambda>left'. ret (left' \<noteq> pa_projected a)))) (\<lambda>changed.
     if changed then throw (UIValidationError ''Atlas stage or reserve changed during promotion approval'')
     else
     seq (lift_result (item_of current)) (\<lambda>i.
     seq (click_promotion D (product_item_target i ''promote'') a fresh) (\<lambda>(after, gestures).
     seq (synchronize_product_now D current after) (\<lambda>promoted.
     if pw_stage promoted \<noteq> expected
     then throw (UIVerificationError (''Atlas promotion did not reach '' @ product_stage_text expected @ ''; no retry attempted''))
     else (let updated = promoted\<lparr>pw_projected := projected\<rparr> in
     seq (store_product updated) (\<lambda>_.
     seq (append_product D updated ''product_promoted'' (pw_stage current) (pw_stage updated) (pa_summary a)
       (''stage='' @ product_stage_text (pw_stage updated) @ ''; projected_cash_after=$'' @ money_text projected @
        ''; game_paused=true'')) (\<lambda>event.
     product_outcome D (Some updated) None (Some event) gestures True False
       (''Atlas promoted to '' @ product_stage_text (pw_stage updated) @ '' and verified paused.''))))))))))))"

definition promote_product ::
  "'u desktop \<Rightarrow> bool \<Rightarrow> bool \<Rightarrow> product_workflow \<Rightarrow> ('u, product_result) product_operation" where
  "promote_product D provider dry_run w =
     seq (observe D) (\<lambda>before.
     seq (lift_result (require_actionable ''Atlas'' before)) (\<lambda>_.
     if \<not> is_paused before
     then throw (UIValidationError ''pause before an irreversible Atlas stage transition'')
     else
     seq (synchronize_product_now D w before) (\<lambda>current.
     if pw_stage current = AtBeta
     then product_report D (Some current) 0 True False ''Atlas is already in beta; release is outside Prompt 7.''
     else
     seq (lift_result (require_reserve current (ui_after before))) (\<lambda>projected.
     seq (lift_result (product_cash (ui_after before))) (\<lambda>cash. let expected = promoted_stage current in
     seq (request_product D current PromoteProduct expected 0 cash projected) (\<lambda>a.
     seq (read_clock D) (\<lambda>time.
     decide_commitment_of D provider dry_run ((waiting_for a current)\<lparr>pw_updated := time\<rparr>) a 0
       ''Atlas promotion was denied; no input sent.'' (commit_promotion D expected projected a before))))))))"

definition opened_review ::
  "'u desktop \<Rightarrow> bool \<Rightarrow> product_workflow \<Rightarrow> ui_observation \<Rightarrow>
     ('u, product_result + ui_observation \<times> nat) product_operation" where
  "opened_review D dry_run w o' =
     seq (lift_result (item_of w)) (\<lambda>i. let t = product_item_target i ''review'' in
     if ui_scene o' = ContractReviewSetup then ret (Inr (o', 0))
     else
     seq (ensure_target D dry_run o' t) (\<lambda>(before, opened).
     if dry_run
     then seq (product_report D (Some w) opened False True ''Dry run: would open exact Atlas review setup.'') (\<lambda>r. ret (Inl r))
     else
     seq (atlas_press D before t ''open exact Atlas review setup'') (\<lambda>after.
     if ui_scene after \<noteq> ContractReviewSetup
     then throw (UIVerificationError ''Atlas review setup did not open'')
     else ret (Inr (after, opened + 1)))))"

text \<open>Whether the review window, the cash and the reserve are as they were approved\<close>

definition review_changed ::
  "product_workflow \<Rightarrow> product_approval \<Rightarrow> rat \<Rightarrow> ui_observation \<Rightarrow> (ui_exn, bool) result" where
  "review_changed w a cost o' =
     (if ui_scene o' \<noteq> ContractReviewSetup then ok True
      else rbind (product_review_cost (ui_after o')) (\<lambda>c.
        if c \<noteq> cost then ok True
        else rbind (product_cash (ui_after o')) (\<lambda>cash.
        if cash \<noteq> pa_cash a then ok True
        else rbind (require_reserve w (ui_after o')) (\<lambda>left'. ok (dsub left' cost \<noteq> pa_projected a)))))"

definition commit_product_review ::
  "'u desktop \<Rightarrow> rat \<Rightarrow> rat \<Rightarrow> rat \<Rightarrow> product_approval \<Rightarrow> ui_observation \<Rightarrow> nat \<Rightarrow> product_workflow \<Rightarrow>
     ('u, product_result) product_operation" where
  "commit_product_review D cost cash projected a o' gestures w =
     seq (observe D) (\<lambda>fresh.
     seq (lift_result (atlas_continuity o' fresh)) (\<lambda>_.
     seq (lift_result (review_changed w a cost fresh)) (\<lambda>changed.
     if changed then throw (UIValidationError ''Atlas review configuration changed during approval'')
     else
     seq (atlas_press D fresh ''commit_contract_review'' (pa_summary a)) (\<lambda>after.
     seq (lift_result (linked_review (ui_after after) (pw_item w))) (\<lambda>review.
     if review = None then throw (UIVerificationError ''Atlas review commitment produced no linked review work'')
     else
     seq (lift_result (product_cash (ui_after after))) (\<lambda>cash_after.
     if cash_after \<noteq> dsub cash cost
     then throw (UIVerificationError ''Atlas review cash outcome did not equal the exact approved cost'')
     else
     seq (synchronize_product_now D w after) (\<lambda>reviewed. let updated = reviewed\<lparr>pw_projected := projected\<rparr> in
     seq (store_product updated) (\<lambda>_.
     seq (append_product D updated ''product_review_started'' (pw_stage w) (pw_stage updated) (pa_summary a)
       (''review_cost=$'' @ money_text cost @ ''; cash $'' @ money_text cash @ '' -> $'' @ money_text cash_after)) (\<lambda>event.
     product_outcome D (Some updated) None (Some event) (gestures + 1) True True
       ''Atlas review started and verified.'')))))))))"

definition review_product ::
  "'u desktop \<Rightarrow> bool \<Rightarrow> bool \<Rightarrow> product_workflow \<Rightarrow> ('u, product_result) product_operation" where
  "review_product D provider dry_run w =
     seq (observe D) (\<lambda>seen.
     seq (lift_result (require_actionable ''Atlas'' seen)) (\<lambda>_.
     if \<not> is_paused seen then throw (UIValidationError ''pause before configuring an Atlas review'')
     else
     seq (synchronize_product_now D w seen) (\<lambda>current.
     seq (opened_review D dry_run current seen) (\<lambda>window.
     case window of
       Inl r \<Rightarrow> ret r
     | Inr (before, gestures) \<Rightarrow>
       seq (lift_result (product_review_cost (ui_after before))) (\<lambda>cost.
       seq (lift_result (product_cash (ui_after before))) (\<lambda>cash.
       seq (lift_result (require_reserve current (ui_after before))) (\<lambda>left'. let projected = dsub left' cost in
       if projected < pw_reserve current
       then throw (UIValidationError ''Atlas review would violate the minimum cash reserve'')
       else
       seq (request_product D current ReviewProduct (pw_stage current) cost cash projected) (\<lambda>a.
       decide_commitment_of D provider dry_run (waiting_for a current) a gestures
         ''Atlas review was denied; no review input sent.''
         (commit_product_review D cost cash projected a before gestures)))))))))"

text \<open>Whether the review result, the cash and the reserve are as they were approved\<close>

definition iteration_changed ::
  "product_workflow \<Rightarrow> product_approval \<Rightarrow> ui_observation \<Rightarrow> (ui_exn, bool) result" where
  "iteration_changed w a o' =
     (if ui_scene o' \<noteq> ContractReviewResult then ok True
      else rbind (product_cash (ui_after o')) (\<lambda>cash.
        if cash \<noteq> pa_cash a then ok True
        else rbind (require_reserve w (ui_after o')) (\<lambda>left'. ok (left' \<noteq> pa_projected a))))"

definition commit_iteration_of ::
  "'u desktop \<Rightarrow> int \<Rightarrow> rat \<Rightarrow> product_approval \<Rightarrow> ui_observation \<Rightarrow> product_workflow \<Rightarrow>
     ('u, product_result) product_operation" where
  "commit_iteration_of D iteration projected a o' w =
     seq (observe D) (\<lambda>fresh.
     seq (lift_result (atlas_continuity o' fresh)) (\<lambda>_.
     seq (lift_result (iteration_changed w a fresh)) (\<lambda>changed.
     if changed then throw (UIValidationError ''Atlas review result changed during approval'')
     else
     seq (atlas_press D fresh ''review_result_iterate'' (pa_summary a)) (\<lambda>after.
     seq (synchronize_product_now D w after) (\<lambda>iterated.
     if pw_iteration iterated \<le> iteration
     then throw (UIVerificationError ''Atlas iteration did not increase the observed iteration'')
     else (let updated = iterated\<lparr>pw_projected := projected\<rparr> in
     seq (store_product updated) (\<lambda>_.
     seq (append_product D updated ''product_iterated'' (pw_stage w) (pw_stage updated) (pa_summary a)
       (''iteration '' @ int_text iteration @ ''->'' @ int_text (pw_iteration updated))) (\<lambda>event.
     product_outcome D (Some updated) None (Some event) 1 True False
       (''Atlas iteration '' @ int_text (pw_iteration updated) @ '' started and verified.'')))))))))"

definition iterate_product ::
  "'u desktop \<Rightarrow> bool \<Rightarrow> bool \<Rightarrow> product_workflow \<Rightarrow> ('u, product_result) product_operation" where
  "iterate_product D provider dry_run w =
     seq (observe D) (\<lambda>before.
     seq (lift_result (require_actionable ''Atlas'' before)) (\<lambda>_.
     if \<not> is_paused before \<or> ui_scene before \<noteq> ContractReviewResult
     then throw (UIValidationError ''iterate requires the exact paused Atlas review result'')
     else
     seq (synchronize_product_now D w before) (\<lambda>current.
     seq (lift_result (require_reserve current (ui_after before))) (\<lambda>projected.
     seq (lift_result (product_cash (ui_after before))) (\<lambda>cash.
     seq (request_product D current IterateProduct (pw_stage current) 0 cash projected) (\<lambda>a.
     decide_commitment_of D provider dry_run (waiting_for a current) a 0
       ''Atlas iteration was denied; no input sent.''
       (commit_iteration_of D (pw_iteration w) projected a before)))))))"

end
