(* ===== verification/ProductRecommendation.thy ===== *)
theory ProductRecommendation
  imports ProductOperator
begin

text \<open>
  What a recommendation of Atlas rests on: the lists of reasons are empty exactly when design, team and money fit; and how
  the remaining budget of a workflow counts the cash that was spent.
\<close>

section \<open>The team\<close>

lemma suitable_team:
  assumes "suitability_of s team_name = ok t"
  shows "sb_suitable t \<longleftrightarrow> 0 < sb_employees t \<and> 0 < sb_programmer t \<and> 0 < sb_designer t \<and> sb_active t = []"
    and "sb_suitable t \<longleftrightarrow> sb_reasons t = []"
proof -
  from assms obtain employees :: "entity list" and programmer designer artist active specials roles where
    made: "make_suitability \<lparr>sb_team = team_name, sb_employees = int (length employees), sb_programmer = programmer,
       sb_designer = designer, sb_artist = artist, sb_specializations = specials, sb_roles = roles, sb_active = active,
       sb_suitable = (suitability_reasons employees programmer designer active = []),
       sb_reasons = suitability_reasons employees programmer designer active\<rparr> = ok t"
    unfolding suitability_of_def Let_def rbind_Inr_iff by (elim exE conjE)
  then show "sb_suitable t \<longleftrightarrow> 0 < sb_employees t \<and> 0 < sb_programmer t \<and> 0 < sb_designer t \<and> sb_active t = []"
    by (auto simp: make_suitability_def suitability_reasons_def split: if_split_asm)
  from made show "sb_suitable t \<longleftrightarrow> sb_reasons t = []" by (auto simp: make_suitability_def split: if_split_asm)
qed

section \<open>Fitting\<close>

text \<open>The specializations of the features that are chosen\<close>

definition chosen_specializations :: "product_view \<Rightarrow> string set" where
  "chosen_specializations v = {fe_specialization f |f name. name \<in> set (cf_features (vw_configuration v)) \<and>
     feature_named (vw_features v) name = Some f \<and> strip (fe_specialization f) \<noteq> []}"

definition design_fits :: "string \<Rightarrow> product_view \<Rightarrow> bool" where
  "design_fits team_name v \<longleftrightarrow> (let c = vw_configuration v in
     kd_unlocked (vw_kind v) \<and> kd_in_house (vw_kind v) \<and> cl_unlocked (vw_class v) \<and>
     casefold (cf_name c) = casefold atlas_name \<and> casefold (cf_type c) = casefold atlas_type \<and>
     casefold (cf_category c) = casefold atlas_category \<and> cf_features c = atlas_features \<and>
     cf_price c = cl_price (vw_class v) \<and> casefold ` set (cf_design c) = {casefold team_name} \<and>
     casefold ` set (cf_development c) = {casefold team_name} \<and> strip (cf_issue c) = [])"

definition staff_fits :: "product_view \<Rightarrow> bool" where
  "staff_fits v \<longleftrightarrow> (let t = vw_team v in
     0 < sb_employees t \<and> 0 < sb_programmer t \<and> 0 < sb_designer t \<and> sb_active t = [] \<and>
     (\<forall>special \<in> chosen_specializations v. special \<in> set (sb_specializations t) \<and>
        ''Designer:'' @ special \<in> set (sb_roles t) \<and> ''Programmer:'' @ special \<in> set (sb_roles t)))"

definition money_fits :: "product_view \<Rightarrow> bool" where
  "money_fits v \<longleftrightarrow> (let c = vw_configuration v in
     cf_systems c = expected_systems (kd_os_specific (vw_kind v)) (vw_systems v) \<and>
     set (vw_required v) \<subseteq> set (vw_released v) \<and> cf_server c \<le> 0 \<and> ru_reserve (vw_runway v) \<le> ru_after (vw_runway v))"

lemma missing_names_Nil: "missing_names required available = [] \<longleftrightarrow> set required \<subseteq> set available"
proof -
  have "set (missing_names required available) = set required - set available"
    by (auto simp: missing_names_def)
  then show ?thesis by (metis Diff_eq_empty_iff set_empty)
qed

lemma set_required_specializations:
  "set (required_specializations (vw_features v) (cf_features (vw_configuration v))) = chosen_specializations v"
  unfolding required_specializations_def chosen_specializations_def List.map_filter_def
  by (force split: option.split_asm)

lemma design_reasons_Nil: "design_reasons team_name v = [] \<longleftrightarrow> design_fits team_name v"
  unfolding design_reasons_def design_fits_def Let_def append_is_Nil_conv set_map by (simp split: if_split)

lemma staff_reasons_Nil:
  assumes "suitability_of s team_name = ok (vw_team v)"
  shows "staff_reasons v = [] \<longleftrightarrow> staff_fits v"
proof -
  let ?special = "required_specializations (vw_features v) (cf_features (vw_configuration v))"
  have roles: "set (required_role_names xs) \<subseteq> A \<longleftrightarrow> (\<forall>x \<in> set xs. ''Designer:'' @ x \<in> A \<and> ''Programmer:'' @ x \<in> A)" for xs A
    unfolding required_role_names_def by auto
  have "staff_reasons v = [] \<longleftrightarrow> sb_suitable (vw_team v) \<and> missing_names ?special (sb_specializations (vw_team v)) = [] \<and>
      missing_names (required_role_names ?special) (sb_roles (vw_team v)) = []"
    using suitable_team(2) [OF assms] unfolding staff_reasons_def Let_def append_is_Nil_conv by auto
  then show ?thesis
    unfolding missing_names_Nil roles set_required_specializations suitable_team(1) [OF assms] staff_fits_def Let_def by blast
qed

lemma money_product_reasons_Nil: "money_product_reasons v = [] \<longleftrightarrow> money_fits v"
  unfolding money_product_reasons_def money_fits_def Let_def append_is_Nil_conv missing_names_Nil by (auto split: if_split)

section \<open>The recommendation\<close>

lemma view_runway:
  assumes "view_product s team_name reserve = ok v"
  shows "suitability_of s team_name = ok (vw_team v)"
    and "\<exists>cash payroll infrastructure. product_cash s = ok cash \<and> numeric_sum s ''employees'' ''salary'' = ok payroll \<and>
      numeric_sum s ''infrastructure'' ''recurring_cost'' = ok infrastructure \<and>
      vw_runway v = project_runway cash reserve payroll infrastructure (cf_months (vw_configuration v))"
proof -
  from assms obtain kind class' configuration team runway features options catalog where
    team: "suitability_of s team_name = ok team" and runway: "runway_of s reserve (cf_months configuration) = ok runway" and
    v: "ok \<lparr>vw_kind = kind, vw_class = class', vw_configuration = configuration, vw_team = team, vw_runway = runway,
       vw_features = features, vw_systems = options, vw_required = required_products catalog configuration,
       vw_released = released_products s\<rparr> = ok v"
    unfolding view_product_def rbind_Inr_iff by (elim exE conjE) blast
  from team v show "suitability_of s team_name = ok (vw_team v)" by auto
  from runway v show "\<exists>cash payroll infrastructure. product_cash s = ok cash \<and>
      numeric_sum s ''employees'' ''salary'' = ok payroll \<and>
      numeric_sum s ''infrastructure'' ''recurring_cost'' = ok infrastructure \<and>
      vw_runway v = project_runway cash reserve payroll infrastructure (cf_months (vw_configuration v))"
    unfolding runway_of_def rbind_Inr_iff make_runway_def by (auto split: if_split_asm)
qed

section \<open>The remaining budget\<close>

text \<open>
  After a promotion, a review or an iteration the projected cash of the workflow becomes what was left then, while the
  initial cash stays. The remaining budget is their difference, so that cash which was spent since the creation is counted a
  second time, as if it were still to be spent.
\<close>

lemma spent_cash_counted_twice:
  assumes "pw_initial w = of_int initial" and "pw_projected w = of_int projected" and "projected \<le> initial" and "cash \<le> initial"
    and "\<bar>initial\<bar> \<le> 10 ^ 27" and "\<bar>projected\<bar> \<le> 10 ^ 27" and "\<bar>cash\<bar> \<le> 10 ^ 27"
  shows "reserve_left (w\<lparr>pw_projected := reserve_left w (of_int cash)\<rparr>) (of_int cash) =
    reserve_left w (of_int cash) - (pw_initial w - of_int cash)"
proof -
  have whole: "dsub (of_int a) (of_int b) = of_int (a - b)" if "\<bar>a - b\<bar> \<le> 10 ^ 28" for a b
    unfolding dsub_def of_int_diff [symmetric] by (rule dec_of_int [OF that])
  have positive: "max 0 (of_int a :: rat) = of_int a" if "0 \<le> a" for a using that by simp
  have left: "reserve_left u (of_int cash) = of_int (cash - (initial - p))"
    if "pw_initial u = of_int initial" "pw_projected u = of_int p" "p \<le> initial" "\<bar>p\<bar> \<le> 4 * 10 ^ 27" for u p
  proof -
    have 1: "\<bar>initial - p\<bar> \<le> 10 ^ 28" "0 \<le> initial - p" "\<bar>cash - (initial - p)\<bar> \<le> 10 ^ 28" using assms that by simp_all
    show ?thesis unfolding reserve_left_def that(1,2) whole [OF 1(1)] positive [OF 1(2)] whole [OF 1(3)] by (rule refl)
  qed
  have 1: "reserve_left w (of_int cash) = of_int (cash - (initial - projected))" using assms by (intro left) simp_all
  have "reserve_left (w\<lparr>pw_projected := of_int (cash - (initial - projected))\<rparr>) (of_int cash) =
      of_int (cash - (initial - (cash - (initial - projected))))"
    using assms by (intro left) simp_all
  then show ?thesis unfolding 1 assms(1) by simp
qed

end
