(* ===== verification/ProductSamples.thy ===== *)
theory ProductSamples
  imports ProductRecommendation ScriptedDesktop
begin

text \<open>
  A small company with the design of Atlas in its window, as concrete input for the product operator: the snapshots, the
  recommendation on them, and the day on which Atlas is created.
\<close>

section \<open>The company\<close>

definition shop_catalog :: "entity list" where
  "shop_catalog =
     [\<lparr>en_type = ''software_type'', en_id = ''t'', en_values =
        [(''name'', JStr ''2D Editor''), (''description'', JStr ''Editor''), (''categories'', JStr ''Default''),
         (''unlocked'', JBool True), (''in_house'', JBool True), (''os_specific'', JBool True),
         (''optimal_development_time'', JInt 2)]\<rparr>,
      \<lparr>en_type = ''software_category'', en_id = ''c'', en_values =
        [(''product_type'', JStr ''2D Editor''), (''name'', JStr ''Default''), (''description'', JStr []),
         (''ideal_price'', JInt 30), (''is_default'', JBool True), (''unlocked'', JBool True)]\<rparr>,
      \<lparr>en_type = ''software_feature'', en_id = ''f:1'', en_values =
        [(''product_type'', JStr ''2D Editor''), (''localized_name'', JStr ''2D graphics''), (''specialization'', JStr ''2D''),
         (''dependencies'', JStr []), (''development_time'', JInt 1), (''code_art_ratio'', JInt 1),
         (''server_requirement'', JInt 0), (''unlocked'', JBool True)]\<rparr>,
      \<lparr>en_type = ''software_feature'', en_id = ''f:2'', en_values =
        [(''product_type'', JStr ''2D Editor''), (''localized_name'', JStr ''System''), (''specialization'', JStr []),
         (''dependencies'', JStr []), (''development_time'', JInt 1), (''code_art_ratio'', JInt 1),
         (''server_requirement'', JInt 0), (''unlocked'', JBool True)]\<rparr>]"

definition shop_window :: "entity list" where
  "shop_window =
     [\<lparr>en_type = ''product_ui_state'', en_id = ''current'', en_values =
        [(''scene'', JStr ''product_configuration''), (''selected_type'', JStr ''2D Editor''),
         (''selected_category'', JStr ''Default''), (''selected_features'', JStr ''2D graphics|System''),
         (''selected_operating_systems'', JStr ''p1:OS''), (''design_teams'', JStr ''Core''),
         (''development_teams'', JStr ''Core''), (''product_name'', JStr ''Atlas''), (''price'', JInt 30),
         (''team_issue'', JStr []), (''current_page'', JInt 1)]\<rparr>,
      \<lparr>en_type = ''operating_system_option'', en_id = ''p1'', en_values =
        [(''name'', JStr ''OS''), (''userbase'', JInt 900), (''release_date'', JStr ''1980''), (''selected'', JBool True)]\<rparr>]"

definition shop_staff :: "entity list" where
  "shop_staff = [\<lparr>en_type = ''employee'', en_id = ''e1'', en_values =
     [(''team'', JStr ''Core''), (''skill_programmer'', JInt 1), (''skill_designer'', JInt 1), (''skill_artist'', JInt 0),
      (''salary'', JInt 3000)]\<rparr>]"

definition shop_lessons :: "entity list" where
  "shop_lessons =
     [\<lparr>en_type = ''employee_specialization'', en_id = ''l1'', en_values =
        [(''employee_id'', JStr ''e1''), (''level'', JInt 1), (''role'', JStr ''Designer''), (''specialization'', JStr ''2D'')]\<rparr>,
      \<lparr>en_type = ''employee_specialization'', en_id = ''l2'', en_values =
        [(''employee_id'', JStr ''e1''), (''level'', JInt 1), (''role'', JStr ''Programmer''), (''specialization'', JStr ''2D'')]\<rparr>]"

definition shop_work :: entity where
  "shop_work = \<lparr>en_type = ''work_item'', en_id = ''7'', en_values =
     [(''is_contract'', JBool False), (''name'', JStr ''Atlas''), (''work_type'', JStr ''Design''), (''paused'', JBool False),
      (''progress'', JInt 0), (''iteration'', JInt 0), (''assigned_teams'', JStr ''Core'')]\<rparr>"

definition shop :: "int \<Rightarrow> int \<Rightarrow> entity list \<Rightarrow> game_snapshot" where
  "shop number cash work =
     \<lparr>gs_captured = 0, gs_started = ''a'', gs_completed = ''b'', gs_sequence = number, gs_instance = ''i'',
      gs_session = ''s'', gs_game = ''software_inc'', gs_version = ''1.8.41'', gs_adapter = ''10'', gs_platform = MacOS,
      gs_architecture = Arm64,
      gs_map = \<lparr>id_status = IdentityUnavailable, id_value = None, id_label = None, id_detail = None\<rparr>,
      gs_save = \<lparr>id_status = IdentityObserved, id_value = Some ''save'', id_label = None, id_detail = None\<rparr>,
      gs_state = [(''force_pause'', JBool True)],
      gs_surfaces = [observed_surface ''product_catalog'' shop_catalog, observed_surface ''product_ui'' shop_window,
        observed_surface ''work_items'' work,
        observed_surface ''teams'' [\<lparr>en_type = ''team'', en_id = ''t'', en_values = [(''name'', JStr ''Core'')]\<rparr>],
        observed_surface ''employees'' shop_staff, observed_surface ''education'' shop_lessons,
        observed_surface ''infrastructure'' [],
        observed_surface ''finances'' [\<lparr>en_type = ''finance'', en_id = ''f'', en_values = [(''cash'', JInt cash)]\<rparr>]],
      gs_warnings = [], gs_limitations = []\<rparr>"

section \<open>What is read from the snapshots\<close>

lemma shop_surfaces:
  "product_surface (shop m c work) ''product_catalog'' = ok (observed_surface ''product_catalog'' shop_catalog)"
  "product_surface (shop m c work) ''product_ui'' = ok (observed_surface ''product_ui'' shop_window)"
  "product_surface (shop m c work) ''work_items'' = ok (observed_surface ''work_items'' work)"
  "product_surface (shop m c work) ''teams'' =
     ok (observed_surface ''teams'' [\<lparr>en_type = ''team'', en_id = ''t'', en_values = [(''name'', JStr ''Core'')]\<rparr>])"
  "product_surface (shop m c work) ''employees'' = ok (observed_surface ''employees'' shop_staff)"
  "product_surface (shop m c work) ''education'' = ok (observed_surface ''education'' shop_lessons)"
  by (simp_all add: product_surface_def shop_def observed_surface_def the_one_def)

lemma whole_sum: "decimal_sum [] = 0" "\<bar>i\<bar> \<le> 10 ^ 28 \<Longrightarrow> decimal_sum [of_int i] = of_int i"
  using dec_of_int [of i] by (simp_all add: decimal_sum_def dadd_def)

lemma shop_texts:
  "casefold ''Core'' = ''core''" "casefold ''Atlas'' = ''atlas''" "casefold ''2D Editor'' = ''2d editor''"
  "casefold ''Default'' = ''default''" "casefold ''Design'' = ''design''" "casefold ''2D graphics'' = ''2d graphics''"
  "casefold ''System'' = ''system''" "strip ''2D Editor'' = ''2D Editor''" "strip ''Default'' = ''Default''" "strip ''Atlas'' = ''Atlas''"
  "strip ''Editor'' = ''Editor''" "strip ''2D graphics'' = ''2D graphics''" "strip ''System'' = ''System''" "strip ''2D'' = ''2D''"
  "strip ''OS'' = ''OS''" "strip ''1980'' = ''1980''" "strip [] = []" "strip ''Designer'' = ''Designer''" "strip ''Programmer'' = ''Programmer''"
  "strip ''2D graphics|System'' = ''2D graphics|System''" "strip ''p1:OS'' = ''p1:OS''" "strip ''Core'' = ''Core''"
  by code_simp+

lemma shop_bars:
  "bar_set ''Default'' = [''Default'']" "bar_set ''2D graphics|System'' = [''2D graphics'', ''System'']" "bar_set [] = []"
  "bar_set ''p1:OS'' = [''p1:OS'']" "bar_set ''Core'' = [''Core'']"
  by code_simp+

definition atlas_group :: team_suitability where
  "atlas_group = \<lparr>sb_team = ''Core'', sb_employees = 1, sb_programmer = 1, sb_designer = 1, sb_artist = 0,
     sb_specializations = [''2D''], sb_roles = [''Designer:2D'', ''Programmer:2D''], sb_active = [], sb_suitable = True,
     sb_reasons = []\<rparr>"

lemma shop_team: "suitability_of (shop m c []) ''Core'' = ok atlas_group"
proof -
  have learned: "learned shop_staff shop_lessons = shop_lessons"
    by (simp add: learned_def shop_staff_def shop_lessons_def shown_value_def jget_def)
  have roles: "role_specializations shop_lessons = [''Designer:2D'', ''Programmer:2D'']"
    "sort (remdups (map (\<lambda>e. shown_value e ''specialization'' ''None'') shop_lessons)) = [''2D'']"
    by code_simp+
  have members: "filter (\<lambda>e. casefold (shown_value e ''team'' []) = casefold ''Core'') shop_staff = shop_staff"
    by (simp add: shop_staff_def shown_value_def shop_texts)
  have "employee_skill ''skill_programmer'' shop_staff = ok 1" "employee_skill ''skill_designer'' shop_staff = ok 1"
    "employee_skill ''skill_artist'' shop_staff = ok 0"
    using whole_sum(2) [of 1] whole_sum(2) [of 0] by (simp_all add: employee_skill_def shop_staff_def read_decimal_def jget_def)
  then show ?thesis
    by (simp add: suitability_of_def shop_surfaces observed_surface_def the_one_def shown_value_def shop_texts
      members [unfolded shown_value_def shop_texts] learned roles [unfolded shown_value_def] suitability_reasons_def make_suitability_def atlas_group_def)
      (simp add: shop_staff_def)
qed

definition atlas_parts :: "product_feature list" where
  "atlas_parts =
     [\<lparr>fe_id = ''f:1'', fe_name = ''2D graphics'', fe_specialization = ''2D'', fe_dependencies = [], fe_time = 1, fe_art = 1,
       fe_server = 0, fe_unlocked = True\<rparr>,
      \<lparr>fe_id = ''f:2'', fe_name = ''System'', fe_specialization = [], fe_dependencies = [], fe_time = 1, fe_art = 1,
       fe_server = 0, fe_unlocked = True\<rparr>]"

definition atlas_kind :: product_kind where
  "atlas_kind = \<lparr>kd_name = ''2D Editor'', kd_description = ''Editor'', kd_categories = [''Default''], kd_unlocked = True,
     kd_in_house = True, kd_os_specific = True, kd_time = 2\<rparr>"

definition atlas_class :: product_class where
  "atlas_class = \<lparr>cl_type = ''2D Editor'', cl_name = ''Default'', cl_description = [], cl_price = 30, cl_default = True,
     cl_unlocked = True\<rparr>"

definition atlas_system :: system_option where
  "atlas_system = \<lparr>so_id = ''p1'', so_name = ''OS'', so_users = 900, so_released = ''1980'', so_selected = True\<rparr>"

lemma shop_kind: "product_kind_of (shop m c work) atlas_type = ok atlas_kind"
  by (simp add: product_kind_of_def atlas_type_def shop_surfaces shop_catalog_def observed_surface_def typed_entities_def
    the_one_def shown_value_def read_flag_def read_text_def read_parts_def read_decimal_def jget_def shop_texts shop_bars atlas_kind_def)

lemma shop_class: "product_class_of (shop m c work) atlas_type atlas_category = ok atlas_class"
  by (simp add: product_class_of_def atlas_type_def atlas_category_def shop_surfaces shop_catalog_def observed_surface_def
    typed_entities_def the_one_def shown_value_def read_flag_def read_text_def read_decimal_def jget_def shop_texts atlas_class_def)

lemma shop_features: "product_features (shop m c work) ''2D Editor'' = ok atlas_parts"
proof -
  have "sort_key (\<lambda>f. casefold (fe_name f)) atlas_parts = atlas_parts" by code_simp
  moreover have "rcollect (\<lambda>e. if en_type e \<noteq> ''software_feature'' \<or>
      casefold (shown_value e ''product_type'' []) \<noteq> casefold ''2D Editor''
        then ok None else rbind (read_feature e) (\<lambda>f. ok (Some f))) shop_catalog = ok atlas_parts"
    by (simp add: shop_catalog_def shown_value_def shop_texts read_feature_def read_flag_def read_text_def read_parts_def
      read_decimal_def jget_def shop_bars atlas_parts_def)
  ultimately show ?thesis by (simp add: product_features_def shop_surfaces observed_surface_def)
qed

lemma shop_systems: "operating_system_options (shop m c work) = ok [atlas_system]"
  by (simp add: operating_system_options_def shop_surfaces shop_window_def observed_surface_def typed_entities_def
    read_system_def read_text_def jget_def shop_texts atlas_system_def)

definition atlas_configuration :: product_configuration where
  "atlas_configuration = \<lparr>cf_name = ''Atlas'', cf_type = ''2D Editor'', cf_category = ''Default'',
     cf_features = [''2D graphics'', ''System''], cf_systems = [''p1:OS''], cf_design = [''Core''], cf_development = [''Core''],
     cf_price = 30, cf_server = 0, cf_months = 2, cf_issue = []\<rparr>"

lemma shop_state: "product_ui_state (shop m c work) = ok (hd shop_window)"
  by (simp add: product_ui_state_def shop_surfaces shop_window_def observed_surface_def typed_entities_def the_one_def)

lemma shop_configuration: "visible_product_configuration (shop m c work) = ok atlas_configuration"
proof -
  have named: "feature_named atlas_parts ''2D graphics'' = Some (hd atlas_parts)"
    "feature_named atlas_parts ''System'' = Some (hd (tl atlas_parts))"
    by (simp_all add: feature_named_def atlas_parts_def shop_texts)
  have whole: "missing_dependencies atlas_parts = []" by code_simp
  have sums: "decimal_sum [0, 0] = 0" "decimal_sum [1, 1] = 2"
    using dec_of_int [of 1] dec_of_int [of 2] by (simp_all add: decimal_sum_def dadd_def)
  have parts: "[hd atlas_parts, hd (tl atlas_parts)] = atlas_parts" by (simp add: atlas_parts_def)
  have maps: "map fe_server atlas_parts = [0, 0]" "map fe_time atlas_parts = [1, 1]" by (simp_all add: atlas_parts_def)
  show ?thesis
    by (simp add: visible_product_configuration_def shop_state read_text_def read_parts_def read_decimal_def
      shop_window_def jget_def shop_texts shop_bars shop_features named parts whole maps sums Let_def make_configuration_def
      bounded_text_def atlas_configuration_def)
qed

definition atlas_runway :: "int \<Rightarrow> product_runway" where
  "atlas_runway c = \<lparr>ru_cash = of_int c, ru_reserve = 50000, ru_payroll = 3000, ru_infrastructure = 0, ru_months = 2,
     ru_recurring = 6000, ru_one_time = 0, ru_after = of_int (c - 6000)\<rparr>"

lemma shop_cash: "product_cash (shop m c work) = ok (of_int c)"
  by (simp add: product_cash_def product_surface_def shop_def observed_surface_def the_one_def read_decimal_def jget_def)

lemma shop_runway:
  assumes "\<bar>c\<bar> \<le> 10 ^ 27"
  shows "runway_of (shop m c work) 50000 2 = ok (atlas_runway c)"
proof -
  have sums: "numeric_sum (shop m c work) ''employees'' ''salary'' = ok 3000"
    "numeric_sum (shop m c work) ''infrastructure'' ''recurring_cost'' = ok 0"
    using whole_sum(2) [of 3000]
    by (simp_all add: numeric_sum_def shop_def observed_surface_def the_one_def shop_staff_def jget_def whole_sum(1))
  have "dadd 3000 0 = 3000" "dec 6000 = 6000" "dsub (of_int c) 6000 = of_int (c - 6000)"
    "dsub (of_int (c - 6000)) 0 = of_int (c - 6000)"
    using dec_of_int [of 3000] dec_of_int [of 6000] dec_of_int [of "c - 6000"] assms by (simp_all add: dadd_def dsub_def)
  then have "project_runway (of_int c) 50000 3000 0 2 = atlas_runway c"
    by (simp add: project_runway_def Let_def atlas_runway_def)
  moreover have "make_runway (atlas_runway c) = ok (atlas_runway c)" by (simp add: make_runway_def atlas_runway_def)
  ultimately show ?thesis by (simp add: runway_of_def shop_cash sums)
qed

definition atlas_view :: "int \<Rightarrow> product_view" where
  "atlas_view c = \<lparr>vw_kind = atlas_kind, vw_class = atlas_class, vw_configuration = atlas_configuration,
     vw_team = atlas_group, vw_runway = atlas_runway c, vw_features = atlas_parts, vw_systems = [atlas_system],
     vw_required = [], vw_released = []\<rparr>"

lemma shop_view:
  assumes "\<bar>c\<bar> \<le> 10 ^ 27"
  shows "view_product (shop m c []) ''Core'' 50000 = ok (atlas_view c)"
proof -
  have "cf_months atlas_configuration = 2" "cf_type atlas_configuration = ''2D Editor''" by (simp_all add: atlas_configuration_def)
  moreover have "required_products (observed_surface ''product_catalog'' shop_catalog) atlas_configuration = []"
    by (simp add: required_products_def typed_entities_def observed_surface_def shop_catalog_def)
  moreover have "released_products (shop m c []) = []"
    by (simp add: released_products_def shop_def observed_surface_def)
  ultimately show ?thesis
    using shop_runway [OF assms]
    by (simp add: view_product_def shop_kind shop_class shop_configuration shop_team shop_features shop_systems
      shop_surfaces atlas_view_def)
qed

text \<open>Atlas is recommended.\<close>

lemma shop_fits:
  assumes "56000 \<le> c"
  shows "product_reasons ''Core'' (atlas_view c) = []"
proof -
  have "design_fits ''Core'' (atlas_view c)"
    by (simp add: design_fits_def atlas_view_def atlas_kind_def atlas_class_def atlas_configuration_def atlas_name_def
      atlas_type_def atlas_category_def atlas_features_def shop_texts)
  moreover have "staff_reasons (atlas_view c) = []"
  proof -
    have "required_specializations atlas_parts [''2D graphics'', ''System''] = [''2D'']" by code_simp
    moreover have "missing_names [''2D''] [''2D''] = []"
      "missing_names (required_role_names [''2D'']) [''Designer:2D'', ''Programmer:2D''] = []"
      by (simp_all add: missing_names_Nil required_role_names_def)
    ultimately show ?thesis
      by (simp add: staff_reasons_def atlas_view_def atlas_configuration_def atlas_group_def)
  qed
  moreover have "money_fits (atlas_view c)"
    using assms
    by (simp add: money_fits_def atlas_view_def atlas_configuration_def expected_systems_def atlas_kind_def
      atlas_system_def system_label_def atlas_runway_def)
  ultimately show ?thesis
    by (simp add: product_reasons_def design_reasons_Nil money_product_reasons_Nil)
qed

section \<open>The day on which Atlas is created\<close>

definition shop_save :: string where
  "shop_save = save_text (shop 0 0 [])"

lemma shop_fields [simp]:
  "gs_sequence (shop m c work) = m" "gs_session (shop m c work) = ''s''" "gs_instance (shop m c work) = ''i''"
  "save_text (shop m c work) = shop_save"
  by (simp_all add: shop_def save_text_def shop_save_def)

lemma shop_paused [simp]: "is_paused (seen_as sc ts (shop m c work))"
  by (simp add: is_paused_def shop_def jget_def)

lemma shop_same [simp]:
  "same_game (seen_as sc ts (shop m c work)) (seen_as sc' ts' (shop m' c' work')) \<longleftrightarrow> m < m'"
  by (simp add: same_game_def Let_def shop_def)

lemma shop_actionable [simp]:
  "sc \<notin> {UnknownScene, BlockingModal} \<Longrightarrow> require_actionable subject (seen_as sc ts s) = ok ()"
  by (simp add: require_actionable_def)

lemma shop_project:
  "product_work (shop m c []) atlas_name = ok None" "product_work (shop m c [shop_work]) atlas_name = ok (Some shop_work)"
  "product_stage_of shop_work = ok AtDesign"
proof -
  show "product_work (shop m c []) atlas_name = ok None" "product_work (shop m c [shop_work]) atlas_name = ok (Some shop_work)"
    by (simp_all add: product_work_def shop_surfaces observed_surface_def typed_entities_def shop_work_def jget_def
      shown_value_def atlas_name_def shop_texts)
  have "occurs_in ''design'' ''design''" by code_simp
  then show "product_stage_of shop_work = ok AtDesign"
    by (simp add: product_stage_of_def shop_work_def jget_def shown_value_def shop_texts)
qed

text \<open>The window is complete: no step is left.\<close>

lemma shop_shown:
  "shown_text (seen_as sc ts (shop m c work)) ''selected_type'' = ok ''2D Editor''"
  "shown_text (seen_as sc ts (shop m c work)) ''selected_category'' = ok ''Default''"
  "shown_text (seen_as sc ts (shop m c work)) ''product_name'' = ok ''Atlas''"
  "shown_text (seen_as sc ts (shop m c work)) ''selected_features'' = ok ''2D graphics|System''"
  "shown_text (seen_as sc ts (shop m c work)) ''selected_operating_systems'' = ok ''p1:OS''"
  "shown_text (seen_as sc ts (shop m c work)) ''design_teams'' = ok ''Core''"
  "shown_text (seen_as sc ts (shop m c work)) ''development_teams'' = ok ''Core''"
  "shown_price (seen_as sc ts (shop m c work)) = ok (Some 30)"
  by (simp_all add: shown_text_def shown_price_def shown_value_of_def shop_state shop_window_def jget_def shop_texts)

lemma shop_names:
  "shown_names (seen_as sc ts (shop m c work)) ''selected_features'' = ok [''2D graphics'', ''System'']"
  "shown_names (seen_as sc ts (shop m c work)) ''selected_operating_systems'' = ok [''p1:OS'']"
  "shown_names (seen_as sc ts (shop m c work)) ''design_teams'' = ok [''Core'']"
  "shown_names (seen_as sc ts (shop m c work)) ''development_teams'' = ok [''Core'']"
proof -
  have "sort (remdups (split_parts CHR ''|'' [] ''2D graphics|System'')) = [''2D graphics'', ''System'']"
    "sort (remdups (split_parts CHR ''|'' [] ''p1:OS'')) = [''p1:OS'']" "sort (remdups (split_parts CHR ''|'' [] ''Core'')) = [''Core'']"
    by code_simp+
  then show "shown_names (seen_as sc ts (shop m c work)) ''selected_features'' = ok [''2D graphics'', ''System'']"
    "shown_names (seen_as sc ts (shop m c work)) ''selected_operating_systems'' = ok [''p1:OS'']"
    "shown_names (seen_as sc ts (shop m c work)) ''design_teams'' = ok [''Core'']"
    "shown_names (seen_as sc ts (shop m c work)) ''development_teams'' = ok [''Core'']"
    by (simp_all only: shown_names_def shop_shown rbind.simps)
qed

lemma no_step:
  "setup_step_of scripted \<lparr>sm_selecting = None, sm_name = a, sm_price = b\<rparr>
     (seen_as ProductConfiguration [''commit_product_design''] (shop m c [])) w = (ok None, w)"
proof -
  let ?o = "seen_as ProductConfiguration [''commit_product_design''] (shop m c [])"
  have skip: "first_step m f w = f w" if "m w = (ok None, w)"
    for m f :: "('u, 's, ('u, 's) setup_step option) operation" and w :: "('u, 's) operating"
    using that by (simp add: first_step_def prog_defs)
  have "type_step scripted mem ?o w = (ok None, w)" "category_step scripted mem ?o w = (ok None, w)" for mem
    by (simp_all add: type_step_def category_step_def combo_step_def shop_shown atlas_type_def atlas_category_def prog_defs)
  moreover have "name_step mem ?o w = (ok None, w)" for mem
    by (simp add: name_step_def shop_shown atlas_name_def prog_defs)
  moreover have "price_step mem ?o w = (ok None, w)" for mem
    by (simp add: price_step_def shop_shown shop_class atlas_class_def prog_defs)
  moreover have "assign_step scripted \<lparr>sm_selecting = None, sm_name = x, sm_price = y\<rparr> ?o w = (ok None, w)" for x y
    by (simp add: assign_step_def shop_names atlas_team_def prog_defs)
  moreover have "feature_step scripted mem ?o w = (ok None, w)" for mem
    by (simp add: feature_step_def shop_names atlas_features_def insert_commute prog_defs)
  moreover have "system_step scripted mem ?o w = (ok None, w)" for mem
    by (simp add: system_step_def shop_names shop_systems atlas_system_def system_label_def prog_defs)
  moreover have "complete_step scripted mem ?o w = (ok None, w)" for mem
    by (simp add: complete_step_def shop_shown has_target_def atlas_target_opt_def atlas_target_def prog_defs)
      (simp add: sample_target_def)
  ultimately show ?thesis
    by (simp add: setup_step_of_def configuration_step_def Let_def skip)
qed

text \<open>The recommendation, the workflow and its approval\<close>

definition atlas_naming :: naming where
  "atlas_naming = \<lparr>na_sha = (\<lambda>_. ''p''), na_uuid5 = (\<lambda>_. 5)\<rparr>"

definition atlas_recommendation :: "int \<Rightarrow> product_recommendation" where
  "atlas_recommendation m = build_product_recommendation atlas_naming 10 (shop m 60000 []) ''Core'' (atlas_view 60000)"

lemma recommendation_fields:
  "pr_configuration (build_product_recommendation n now s t v) = vw_configuration v"
  "pr_team (build_product_recommendation n now s t v) = vw_team v"
  "pr_runway (build_product_recommendation n now s t v) = vw_runway v"
  "pr_save (build_product_recommendation n now s t v) = save_text s"
  "pr_reasons (build_product_recommendation n now s t v) = product_reasons t v"
  "pr_recommended (build_product_recommendation n now s t v) \<longleftrightarrow> product_reasons t v = []"
  by (simp_all add: build_product_recommendation_def Let_def)

lemma atlas_recommended:
  "recommend_atlas atlas_naming 10 (shop m 60000 []) atlas_name atlas_team 50000 = ok (atlas_recommendation m)"
  "pr_recommended (atlas_recommendation m)"
proof -
  have "fold_words atlas_name = casefold atlas_name" by code_simp
  then show "recommend_atlas atlas_naming 10 (shop m 60000 []) atlas_name atlas_team 50000 = ok (atlas_recommendation m)"
    by (simp add: recommend_atlas_def shop_view atlas_team_def atlas_recommendation_def)
  show "pr_recommended (atlas_recommendation m)" unfolding atlas_recommendation_def recommendation_fields by (rule shop_fits) simp
qed

definition atlas_workflow :: "product_status \<Rightarrow> product_approval option \<Rightarrow> product_workflow" where
  "atlas_workflow status a = \<lparr>pw_id = 5, pw_session = ''s'', pw_save = shop_save, pw_name = ''Atlas'',
     pw_type = ''2D Editor'', pw_category = ''Default'', pw_features = [''2D graphics'', ''System''], pw_systems = [''p1:OS''],
     pw_team = ''Core'', pw_price = 30, pw_reserve = 50000, pw_initial = 60000, pw_projected = 54000,
     pw_stage = AtConfiguration, pw_status = status, pw_item = None, pw_held = False, pw_iteration = 0, pw_progress = 0,
     pw_accuracy = None, pw_score = None, pw_approval = a, pw_fingerprint = ''p'', pw_sequence = 1, pw_created = 10,
     pw_updated = 10\<rparr>"

definition atlas_approval :: "bool option \<Rightarrow> product_approval" where
  "atlas_approval d =
     \<lparr>pa_id = 9, pa_workflow = 5, pa_commitment = CreateProduct,
      pa_summary = commitment_summary (atlas_workflow ProductWaiting None) CreateProduct AtDesign 0 60000 54000,
      pa_product = ''Atlas'', pa_before = AtConfiguration, pa_after = AtDesign, pa_fingerprint = ''p'', pa_cash = 60000,
      pa_projected = 54000, pa_reserve = 50000, pa_cost = 0, pa_approved = d, pa_created = 10,
      pa_resolved = (if d = None then None else Some 10)\<rparr>"

lemma atlas_summary: "bounded_text 512 (pa_summary (atlas_approval d))"
proof -
  have "str_repr ''Atlas'' = [CHR 0x27] @ ''Atlas'' @ [CHR 0x27]" "money_text 30 = ''30.00''" "money_text 54000 = ''54,000.00''"
    "money_text 50000 = ''50,000.00''"
    by code_simp+
  then show ?thesis by (simp add: atlas_approval_def commitment_summary_def atlas_workflow_def bounded_text_def)
qed

lemma atlas_created:
  "create_product_workflow atlas_naming 9 10 10 (shop 1 60000 []) (atlas_recommendation 1) =
     ok (atlas_workflow ProductWaiting (Some (atlas_approval None)))"
proof -
  have "bounded_text 2048 (pa_summary (atlas_approval None))" using atlas_summary [of None] by (simp add: bounded_text_def)
  then have "product_approval_for 9 10 (atlas_workflow ProductWaiting None) CreateProduct None 0 None None = ok (atlas_approval None)"
    by (simp add: product_approval_for_def make_product_approval_def atlas_workflow_def atlas_approval_def)
  moreover have "pr_configuration (atlas_recommendation 1) = atlas_configuration" "pr_team (atlas_recommendation 1) = atlas_group"
    "pr_runway (atlas_recommendation 1) = atlas_runway 60000" "pr_save (atlas_recommendation 1) = shop_save"
    unfolding atlas_recommendation_def recommendation_fields by (simp_all add: atlas_view_def)
  ultimately show ?thesis
    using atlas_recommended(2) [of 1]
    by (simp add: create_product_workflow_def atlas_naming_def Let_def atlas_configuration_def atlas_group_def
      atlas_runway_def atlas_workflow_def)
qed

lemma atlas_resolved:
  "resolve_product_approval 10 True (atlas_workflow ProductWaiting (Some (atlas_approval None))) =
     ok (atlas_workflow ProductActive (Some (atlas_approval (Some True))))"
  by (simp add: resolve_product_approval_def atlas_workflow_def atlas_approval_def)

lemma atlas_unchanged:
  "pr_configuration (atlas_recommendation m) = pr_configuration (atlas_recommendation 1)"
  "pr_runway (atlas_recommendation m) = pr_runway (atlas_recommendation 1)"
  "pr_team (atlas_recommendation m) = pr_team (atlas_recommendation 1)"
  unfolding atlas_recommendation_def recommendation_fields by (rule refl)+

text \<open>The run\<close>

definition creation_day :: "((ui_exn, ui_observation) result list, product_store) operating" where
  "creation_day = \<lparr>ow_desktop =
      [ok (seen_as ProductConfiguration [''commit_product_design''] (shop 1 60000 [])),
       ok (seen_as ProductConfiguration [''commit_product_design''] (shop 2 60000 [])),
       ok (seen_as GameplayPaused [] (shop 3 60000 [shop_work]))],
     ow_store = \<lparr>qs_workflows = [], qs_events = []\<rparr>, ow_trace = []\<rparr>"

lemma creation_approved:
  fixes w :: "((ui_exn, ui_observation) result list, product_store) operating"
  assumes "ow_store w = \<lparr>qs_workflows = [], qs_events = []\<rparr>"
  shows "approve_creation scripted atlas_naming 50000 True False (seen_as sc ts (shop 1 60000 [])) 0 w =
    commit_creation scripted atlas_naming 50000 (atlas_workflow ProductActive (Some (atlas_approval (Some True))))
      (atlas_approval None) (atlas_recommendation 1) (seen_as sc ts (shop 1 60000 [])) 0
      (w\<lparr>ow_trace := Asked 9 True # ow_trace w, ow_store :=
        \<lparr>qs_workflows = [(5, atlas_workflow ProductActive (Some (atlas_approval (Some True))))], qs_events = []\<rparr>\<rparr>)"
proof -
  have fields: "pw_approval (atlas_workflow st a) = a" "pw_id (atlas_workflow st a) = 5" "pw_status (atlas_workflow st a) = st"
    "pa_id (atlas_approval d) = 9" for st a d
    by (simp_all add: atlas_workflow_def atlas_approval_def)
  show ?thesis
    using atlas_recommended(2) [of 1] assms
    by (simp add: approve_creation_def recommend_now_def atlas_recommended(1) atlas_created decide_product_def atlas_resolved
      store_product_def on_store_def save_product_def owns_product_save_def fields prog_defs)
qed

definition atlas_made :: product_workflow where
  "atlas_made = (atlas_workflow ProductActive (Some (atlas_approval (Some True))))
     \<lparr>pw_stage := AtDesign, pw_item := Some ''7'', pw_sequence := 3\<rparr>"

lemma atlas_followed:
  "synchronize_product 10 (atlas_workflow ProductActive (Some (atlas_approval (Some True)))) (shop 3 60000 [shop_work]) = ok atlas_made"
proof -
  have fields: "pw_session (atlas_workflow st a) = ''s''" "pw_save (atlas_workflow st a) = shop_save" "pw_sequence (atlas_workflow st a) = 1"
    "pw_name (atlas_workflow st a) = atlas_name" for st a
    by (simp_all add: atlas_workflow_def atlas_name_def)
  have "product_progress (atlas_workflow ProductActive a) shop_work =
      ok ((atlas_workflow ProductActive a)\<lparr>pw_stage := AtDesign, pw_item := Some ''7''\<rparr>)" for a
    by (simp add: product_progress_def shop_project(3)) (simp add: shop_work_def jget_def atlas_workflow_def)
  then show ?thesis
    by (simp add: synchronize_product_def same_product_save_def fields shop_project) (simp add: atlas_made_def atlas_workflow_def)
qed

definition creation_event :: "string \<Rightarrow> string \<Rightarrow> product_event" where
  "creation_event action detail = \<lparr>pe_id = 9, pe_workflow = 5, pe_sequence = 1, pe_type = ''product_created'', pe_bridge = 3,
     pe_before = AtConfiguration, pe_after = AtDesign, pe_action = Some action, pe_input_sent = True, pe_verified = True,
     pe_detail = detail, pe_recorded = 10\<rparr>"

lemma atlas_recorded:
  fixes w :: "((ui_exn, ui_observation) result list, product_store) operating"
  assumes "bounded_text 2048 detail" and "ow_store w = \<lparr>qs_workflows = [(5, atlas_made)], qs_events = []\<rparr>"
  shows "append_product scripted atlas_made ''product_created'' AtConfiguration AtDesign action detail w =
    (ok (creation_event action detail),
     w\<lparr>ow_store := \<lparr>qs_workflows = [(5, atlas_made)], qs_events = [creation_event action detail]\<rparr>\<rparr>)"
proof -
  have "pw_id atlas_made = 5" "pw_sequence atlas_made = 3" by (simp_all add: atlas_made_def atlas_workflow_def)
  moreover have "make_product_event (creation_event action detail) = ok (creation_event action detail)"
    using assms(1) by (simp add: make_product_event_def creation_event_def) (simp add: bounded_text_def)
  moreover have "pe_workflow (creation_event action detail) = 5" by (simp add: creation_event_def)
  ultimately show ?thesis
    using assms(2)
    by (simp add: append_product_def product_events_def append_product_event_def on_store_def creation_event_def [symmetric] prog_defs)
qed

lemma creation_committed:
  fixes w :: "((ui_exn, ui_observation) result list, product_store) operating"
  assumes "ow_desktop w = [ok (seen_as ProductConfiguration [''commit_product_design''] (shop 2 60000 [])),
      ok (seen_as GameplayPaused [] (shop 3 60000 [shop_work]))]"
    and "ow_store w = \<lparr>qs_workflows = [(5, v)], qs_events = []\<rparr>"
  shows "\<exists>r g w'. commit_creation scripted atlas_naming 50000 (atlas_workflow ProductActive (Some (atlas_approval (Some True))))
      (atlas_approval None) (atlas_recommendation 1) (seen_as ProductConfiguration ts (shop 1 60000 [])) 0 w = (ok r, w') \<and>
    pq_workflow r = Some atlas_made \<and> pq_verified r \<and> Sent g \<in> set (ow_trace w') \<and> ge_target g = ''commit_product_design''"
proof -
  let ?o = "seen_as ProductConfiguration [''commit_product_design''] (shop 2 60000 [])"
  let ?after = "seen_as GameplayPaused [] (shop 3 60000 [shop_work])"
  let ?effect = "pa_summary (atlas_approval None)"
  let ?g = "(bound_gesture ?o ''commit_product_design'' ?effect 10)\<lparr>ge_point := Some \<lparr>sp_x = 10, sp_y = 10\<rparr>\<rparr>"
  have "valid_gesture ?g"
    by (rule press_valid [OF atlas_summary]) (simp_all add: bounded_text_def)
  moreover have spot: "vt_id (sample_target sc i) = i" "vt_point (sample_target sc i) = Some \<lparr>sp_x = 10, sp_y = 10\<rparr>" for sc i
    by (simp_all add: sample_target_def)
  ultimately have press: "atlas_press scripted ?o ''commit_product_design'' ?effect u =
      (ok ?after, u\<lparr>ow_desktop := [], ow_trace := Observed ?after # Sent ?g # ow_trace u\<rparr>)"
    if "ow_desktop u = [ok ?after]" for u :: "((ui_exn, ui_observation) result list, product_store) operating"
    using that spot by (simp add: atlas_press_def atlas_target_def atlas_click_def atlas_gesture_def atlas_continuity_def prog_defs)
  have target: "ge_target ?g = ''commit_product_design''" by (simp add: bound_gesture_def Let_def)
  have made: "pw_id atlas_made = 5" "product_open atlas_made" "pw_sequence atlas_made = 3"
    by (simp_all add: atlas_made_def product_open_def atlas_workflow_def)
  have texts: "money_text 60000 = ''60,000.00''" by code_simp
  have "en_id shop_work = ''7''" by (simp add: shop_work_def)
  with assms target texts show ?thesis
    by (simp add: commit_creation_def recommend_now_def atlas_continuity_def atlas_recommended atlas_unchanged [of 2] shop_cash press
      shop_project atlas_name_def [symmetric] synchronize_product_now_def atlas_followed store_product_def on_store_def save_product_def
      atlas_recorded product_outcome_def made bounded_text_def prog_defs)
      (rule exI [of _ ?g], simp)
qed

lemma creation_run:
  "\<exists>r g w'. start_atlas scripted atlas_naming 50000 True False creation_day = (ok r, w') \<and>
    pq_workflow r = Some atlas_made \<and> pq_verified r \<and> Sent g \<in> set (ow_trace w') \<and> ge_target g = ''commit_product_design''"
proof -
  let ?o = "seen_as ProductConfiguration [''commit_product_design''] (shop 1 60000 [])"
  have cycles: "setup_cycles = Suc 35" by (simp add: setup_cycles_def)
  have set_up: "setup_atlas setup_cycles scripted atlas_naming 50000 True False \<lparr>sm_selecting = None, sm_name = False, sm_price = False\<rparr>
      ?o 0 w = approve_creation scripted atlas_naming 50000 True False ?o 0 w" for w
    unfolding cycles setup_atlas.simps by (simp add: no_step seq_def)
  have "start_atlas scripted atlas_naming 50000 True False creation_day =
      approve_creation scripted atlas_naming 50000 True False ?o 0
        (creation_day\<lparr>ow_desktop := tl (ow_desktop creation_day), ow_trace := [Observed ?o]\<rparr>)"
    by (simp add: start_atlas_def creation_day_def shop_project expire_uncommitted_def current_product_def set_up prog_defs)
  then show ?thesis
    using creation_committed by (simp add: creation_approved creation_day_def)
qed

end
