(* ===== verification/ProductSafety.thy ===== *)
theory ProductSafety
  imports ProductOperator OperatorInvariants
begin

text \<open>
  Safety of the product operator in terms of its trace: dry runs send nothing, and every commitment (creating, promoting,
  reviewing, iterating) follows an approval.
\<close>

section \<open>Operations that only look\<close>

text \<open>They leave no trace and do not change the store.\<close>

definition looks :: "('u, 's, 'a) operation \<Rightarrow> bool" where
  "looks m \<longleftrightarrow> (\<forall>w. ow_trace (snd (m w)) = ow_trace w \<and> ow_store (snd (m w)) = ow_store w)"

lemma looks_silent: "looks m \<Longrightarrow> silent m"
  by (simp add: looks_def silent_def)

lemma looks_stays: "looks m \<Longrightarrow> stays (\<lambda>w. P (ow_trace w) (ow_store w)) m"
  by (simp add: looks_def stays_def)

lemma looks_basic [simp]:
  "looks (read_clock D)" "looks (ret a)" "looks (throw e)" "looks (lift_result r)"
  by (auto simp: looks_def read_clock_def on_desktop_def prog_defs split: prod.splits sum.splits)

lemma looks_seq: "looks m \<Longrightarrow> (\<And>a. looks (f a)) \<Longrightarrow> looks (seq m f)"
  by (auto simp: looks_def seq_def split: prod.splits sum.splits) (metis snd_conv)+

lemma looks_if: "looks m \<Longrightarrow> looks m' \<Longrightarrow> looks (if b then m else m')"
  by simp

lemma looks_target [simp]:
  "looks (atlas_target D o' i)" "looks (atlas_target_opt D o' i)" "looks (has_target D o' i)"
proof -
  show target: "looks (atlas_target D o' i)"
    unfolding atlas_target_def find_target_def by (intro looks_seq looks_if looks_basic)
  show "looks (atlas_target_opt D o' i)"
    unfolding atlas_target_opt_def by (auto split: list.split intro!: looks_seq target)
  then show "looks (has_target D o' i)" unfolding has_target_def by (intro looks_seq looks_basic)
qed

section \<open>Operations without a trace\<close>

named_theorems silent_product "operations of the product operator that leave no trace"

lemma silent_outcome [silent_product, simp]:
  "silent (product_outcome D w r e n v p m)" "silent (product_report D w n v p m)"
  unfolding product_report_def product_outcome_def by (intro silent_seq silent_if silent_basic)+

lemma silent_store_product [silent_product, simp]: "silent (store_product w)"
  by (simp add: store_product_def)

lemma silent_append_product [silent_product, simp]: "silent (append_product D w kind before after action detail)"
  unfolding append_product_def by (intro silent_seq silent_basic)

lemmas silent_target [silent_product, simp] = looks_target [THEN looks_silent]

lemma silent_now [silent_product, simp]:
  "silent (synchronize_product_now D w o')" "silent (recommend_now D n reserve o')"
  "silent (request_product D w c expected cost cash projected)" "silent (existing_product D s)"
  unfolding synchronize_product_now_def recommend_now_def request_product_def
  by (intro silent_seq silent_basic)+
    (auto simp: existing_product_def split: option.split intro!: silent_seq silent_if)

lemma silent_expire [silent_product, simp]: "silent (expire_uncommitted D dry_run s)"
  unfolding expire_uncommitted_def by (auto split: option.split intro!: silent_seq silent_if silent_product)

lemma silent_finish_interval [silent_product, simp]: "silent (finish_interval D seconds w work paused n)"
  unfolding finish_interval_def Let_def by (intro silent_seq silent_product silent_basic)

lemmas stays_product = silent_product [THEN stays_silent]

section \<open>The steps of the set-up\<close>

fun input_target :: "setup_input \<Rightarrow> string" where
  "input_target (ClickOn i) = i"
| "input_target (PressKey code modifiers i) = i"
| "input_target (TypeIn v i) = i"

text \<open>A step that commits nothing and only looks afterwards\<close>

definition reversible :: "('u, 's) setup_step \<Rightarrow> bool" where
  "reversible st \<longleftrightarrow> input_target (ss_input st) \<noteq> ''commit_product_design'' \<and> (\<forall>o'. looks (ss_check st o'))"

text \<open>\<open>chooses m\<close>: \<open>m\<close> only looks, and chooses only reversible steps.\<close>

definition chooses :: "('u, 's, ('u, 's) setup_step option) operation \<Rightarrow> bool" where
  "chooses m \<longleftrightarrow> looks m \<and> (\<forall>w st w'. m w = (ok (Some st), w') \<longrightarrow> reversible st)"

lemma choosesI: "looks m \<Longrightarrow> (\<And>w st w'. m w = (ok (Some st), w') \<Longrightarrow> reversible st) \<Longrightarrow> chooses m"
  unfolding chooses_def by blast

lemma choosesD: "chooses m \<Longrightarrow> looks m" "chooses m \<Longrightarrow> m w = (ok (Some st), w') \<Longrightarrow> reversible st"
  unfolding chooses_def by blast+

lemma chooses_seq: "looks m \<Longrightarrow> (\<And>a. chooses (f a)) \<Longrightarrow> chooses (seq m f)"
  by (rule choosesI) (use looks_seq choosesD in \<open>unfold seq_ok, blast+\<close>)

lemma chooses_basic: "chooses (throw e)" "chooses (ret None)"
  by (simp_all add: chooses_def throw_def ret_def)

lemma chooses_if: "(b \<Longrightarrow> chooses m) \<Longrightarrow> (\<not> b \<Longrightarrow> chooses m') \<Longrightarrow> chooses (if b then m else m')"
  by simp

lemma chooses_option: "chooses m \<Longrightarrow> (\<And>a. chooses (f a)) \<Longrightarrow> chooses (case x of None \<Rightarrow> m | Some a \<Rightarrow> f a)"
  by (cases x) simp_all

lemma chooses_make:
  "input_target input \<noteq> ''commit_product_design'' \<Longrightarrow> (\<And>o'. looks (check o')) \<Longrightarrow> chooses (make_step input effect dry mem check)"
  by (simp add: chooses_def make_step_def reversible_def) (simp add: ret_def)

lemma chooses_first: "chooses m \<Longrightarrow> chooses f \<Longrightarrow> chooses (first_step m f)"
proof -
  assume m: "chooses m" and f: "chooses f"
  have "looks (first_step m f)"
    unfolding first_step_def using m f by (intro looks_seq) (auto split: option.split intro: choosesD(1))
  moreover have "reversible st" if "first_step m f w = (ok (Some st), w')" for w st w'
    using that m f unfolding first_step_def seq_ok by (auto simp: ret_def split: option.split_asm dest: choosesD(2))
  ultimately show "chooses (first_step m f)" by (rule choosesI)
qed

lemma looks_expect [simp]:
  "looks (expect_scene sc message o')" "looks (expect_names field names message o')" "looks (expect_focus field message o')"
  "looks (check_applied selecting o')"
  by (auto simp: expect_scene_def expect_names_def expect_focus_def check_applied_def split: option.split intro!: looks_seq)

lemmas chooses_rules = chooses_seq chooses_basic chooses_if chooses_option chooses_make chooses_first looks_basic looks_target

lemma chooses_page: "direction \<in> {''next'', ''previous''} \<Longrightarrow> chooses (page_step mem o' direction effect dry)"
  unfolding page_step_def by (intro chooses_make) auto

lemma chooses_combo:
  "item \<noteq> ''commit_product_design'' \<Longrightarrow> combo \<noteq> ''commit_product_design'' \<Longrightarrow>
     chooses (combo_step D mem o' field wanted item combo effect label)"
  unfolding combo_step_def Let_def by (intro chooses_rules) (auto intro!: looks_seq looks_target)

lemma chooses_edit:
  "target \<noteq> ''commit_product_design'' \<Longrightarrow>
     chooses (edit_step label target focus_field text_field remember selected current o')"
  unfolding edit_step_def by (intro chooses_rules) auto

lemma chooses_toggle:
  "chooses step \<Longrightarrow> chooses (toggle_step D mem o' i page unavailable step)"
  unfolding toggle_step_def by (intro chooses_rules chooses_page) simp_all

lemma chooses_steps:
  "chooses (open_design_step mem)" "chooses (picker_step mem o')" "chooses (type_step D mem o')"
  "chooses (category_step D mem o')" "chooses (name_step mem o')" "chooses (price_step mem o')"
  "chooses (assign_step D mem o')" "chooses (feature_step D mem o')" "chooses (complete_step D mem o')"
  unfolding open_design_step_def picker_step_def type_step_def category_step_def name_step_def price_step_def
    assign_step_def feature_step_def complete_step_def Let_def
  by (intro chooses_rules chooses_combo chooses_edit chooses_toggle chooses_page looks_if; simp)+

lemma chooses_system: "chooses (system_step D mem o')"
proof -
  have "looks (case find P xs of None \<Rightarrow> throw e
      | Some x \<Rightarrow> expect_names field (names x) message o')" for P and xs :: "system_option list" and e field names message o'
    by (cases "find P xs") simp_all
  note found = this
  show ?thesis
    unfolding system_step_def Let_def
    apply (intro chooses_seq looks_basic)
    subgoal for selected options
      by (cases options; simp only: list.case; intro chooses_basic chooses_if chooses_toggle chooses_make found) simp
    done
qed

lemma chooses_setup: "chooses (setup_step_of D mem o')"
  unfolding setup_step_of_def configuration_step_def Let_def
  by (intro chooses_if chooses_first chooses_steps chooses_system chooses_basic)

lemma looks_setup_step: "looks (setup_step_of D mem o')"
  by (rule choosesD(1) [OF chooses_setup])

lemma silent_setup_step [silent_product, simp]: "silent (setup_step_of D mem o')"
  by (rule looks_silent [OF looks_setup_step])

section \<open>Any invariant of the trace\<close>

context permitted
begin

lemma atlas_gestures:
  "free (ge_target g) \<Longrightarrow> stays holds (atlas_gesture D o' g)"
  "free (vt_id t) \<Longrightarrow> stays holds (atlas_click D o' t effect)"
  "free i \<Longrightarrow> stays holds (atlas_key D o' code modifiers i effect)"
  "free i \<Longrightarrow> stays holds (atlas_text D o' v i effect)"
proof -
  show gesture: "free (ge_target g) \<Longrightarrow> stays holds (atlas_gesture D o' g)" for g
    unfolding atlas_gesture_def by (intro stays_rules look calm send)
  show "free (vt_id t) \<Longrightarrow> stays holds (atlas_click D o' t effect)"
    "free i \<Longrightarrow> stays holds (atlas_key D o' code modifiers i effect)" "free i \<Longrightarrow> stays holds (atlas_text D o' v i effect)"
    unfolding atlas_click_def atlas_key_def atlas_text_def
    by (intro stays_rules calm gesture, simp add: bound_gesture_def Let_def)+
qed

lemma atlas_press: "free i \<Longrightarrow> stays holds (atlas_press D o' i effect)"
  unfolding atlas_press_def atlas_target_def by (intro found atlas_gestures) simp

lemma found_option:
  assumes "\<And>t. (\<And>u. t = Some u \<Longrightarrow> vt_id u = i) \<Longrightarrow> stays holds (f t)"
  shows "stays holds (seq (atlas_target_opt D o' i) f)"
proof (rule stays_gives)
  have "vt_id u = i" if "atlas_target_opt D o' i w = (ok (Some u), w')" for u w w'
    using that by (auto simp: atlas_target_opt_def atlas_target_def seq_ok ret_def throw_def split: list.split_asm dest: find_target_id)
  then show "gives holds (atlas_target_opt D o' i) (\<lambda>t. \<forall>u. t = Some u \<longrightarrow> vt_id u = i)"
    by (intro gives_any [OF stays_silent [OF silent_target(2)]]) blast
qed (use assms in blast)

lemma ensure:
  assumes "dry_run \<or> free (card_target i)"
  shows "stays holds (ensure_target D dry_run o' i)"
  using assms unfolding ensure_target_def
  by (cases dry_run) (simp_all only: if_True if_False, (intro rules stays_product atlas_press; simp)+)

lemmas product_rules = stays_seq stays_if stays_cases stays_basic look question calm stays_product

text \<open>Taking a reversible step, and the whole set-up up to the approval\<close>

lemma take_reversible:
  assumes "reversible st" and "\<And>i. i \<noteq> ''commit_product_design'' \<Longrightarrow> free i"
  shows "stays holds (take_step D st o')"
proof -
  have free: "free (input_target (ss_input st))" using assms by (simp add: reversible_def)
  have "stays holds (case ss_input st of ClickOn i \<Rightarrow> atlas_press D o' i (ss_effect st)
      | PressKey code modifiers i \<Rightarrow> atlas_key D o' code modifiers i (ss_effect st)
      | TypeIn v i \<Rightarrow> atlas_text D o' v i (ss_effect st))"
    using free by (cases "ss_input st") (simp_all add: atlas_press atlas_gestures)
  moreover have "stays holds (ss_check st after)" for after
    using assms(1) by (simp add: reversible_def stays_silent looks_silent)
  ultimately show ?thesis unfolding take_step_def by (intro stays_seq stays_basic)
qed

lemma set_up:
  assumes free: "dry_run \<or> (\<forall>i. i \<noteq> ''commit_product_design'' \<longrightarrow> free i)"
    and approve: "\<And>seen n. stays holds (approve_creation D names reserve provider dry_run seen n)"
  shows "stays holds (setup_atlas cycles D names reserve provider dry_run mem o' n)"
proof (induction cycles arbitrary: mem o' n)
  case (Suc cycles)
  have "gives holds (setup_step_of D mem o') (\<lambda>found. \<forall>st. found = Some st \<longrightarrow> reversible st)"
    by (rule gives_any [OF stays_silent [OF silent_setup_step]]) (use choosesD(2) [OF chooses_setup] in blast)
  then show ?case
    unfolding setup_atlas.simps
  proof (rule stays_gives)
    fix found :: "('a, product_store) setup_step option"
    assume found: "\<forall>st. found = Some st \<longrightarrow> reversible st"
    show "stays holds (case found of None \<Rightarrow> approve_creation D names reserve provider dry_run o' n
      | Some st \<Rightarrow> if dry_run then product_report D None n False True (ss_dry st)
        else seq (take_step D st o') (\<lambda>after. setup_atlas cycles D names reserve provider dry_run (ss_memory st) after (n + 1)))"
    proof (cases found)
      case (Some st)
      show ?thesis
        unfolding Some option.case
        by (intro stays_if stays_product stays_seq take_reversible Suc.IH) (use found Some free in auto)
    qed (simp add: approve)
  qed
qed (simp add: stays_basic)

end

section \<open>Dry runs\<close>

lemma dry_runs_quiet:
  "stays (\<lambda>w. sends_nothing (ow_trace w)) (close_product_configuration D True)"
  "stays (\<lambda>w. sends_nothing (ow_trace w)) (start_atlas D names reserve provider True)"
  "stays (\<lambda>w. sends_nothing (ow_trace w)) (set_product_hold D held True v)"
  "stays (\<lambda>w. sends_nothing (ow_trace w)) (advance_product D seconds True v)"
  "stays (\<lambda>w. sends_nothing (ow_trace w)) (promote_product D provider True v)"
  "stays (\<lambda>w. sends_nothing (ow_trace w)) (review_product D provider True v)"
  "stays (\<lambda>w. sends_nothing (ow_trace w)) (iterate_product D provider True v)"
proof -
  have ensure: "stays (\<lambda>w. sends_nothing (ow_trace w)) (ensure_target D True o' i)" for o' i
    by (rule hands_off.ensure) simp
  have approve: "stays (\<lambda>w. sends_nothing (ow_trace w)) (approve_creation D names reserve provider True o' n)" for o' n
    unfolding approve_creation_def if_True by (intro hands_off.product_rules)
  show "stays (\<lambda>w. sends_nothing (ow_trace w)) (close_product_configuration D True)"
    unfolding close_product_configuration_def if_True by (intro hands_off.product_rules)
  show "stays (\<lambda>w. sends_nothing (ow_trace w)) (start_atlas D names reserve provider True)"
    unfolding start_atlas_def by (intro hands_off.product_rules hands_off.set_up approve disjI1 TrueI)
  show "stays (\<lambda>w. sends_nothing (ow_trace w)) (set_product_hold D held True v)"
    unfolding set_product_hold_def Let_def if_True by (intro hands_off.product_rules ensure)
  show "stays (\<lambda>w. sends_nothing (ow_trace w)) (advance_product D seconds True v)"
    unfolding advance_product_def open_review_result_def resume_work_def close_product_windows_def Let_def if_True
    by (intro hands_off.product_rules ensure)
  show "stays (\<lambda>w. sends_nothing (ow_trace w)) (promote_product D provider True v)"
    unfolding promote_product_def decide_commitment_of_def Let_def if_True by (intro hands_off.product_rules)
  show "stays (\<lambda>w. sends_nothing (ow_trace w)) (review_product D provider True v)"
    unfolding review_product_def opened_review_def decide_commitment_of_def Let_def if_True
    by (intro hands_off.product_rules ensure)
  show "stays (\<lambda>w. sends_nothing (ow_trace w)) (iterate_product D provider True v)"
    unfolding iterate_product_def decide_commitment_of_def Let_def if_True by (intro hands_off.product_rules)
qed

section \<open>Approvals\<close>

lemma decide_product_switch:
  assumes blocked: "\<And>w'. pw_status w' = ProductBlocked \<Longrightarrow> stays (unasked free) (f w')"
    and decided: "\<And>w'. pw_status w' \<noteq> ProductBlocked \<Longrightarrow> stays (approved free) (f w')"
  shows "stays (unasked free) (seq (decide_product D w a) f)"
proof -
  have status: "resolve_product_approval time b w = ok w' \<Longrightarrow> pw_status w' = ProductBlocked \<longleftrightarrow> \<not> b" for time b w'
    by (auto simp: resolve_product_approval_def split: option.split_asm if_split_asm)
  show ?thesis
    unfolding decide_product_def seq_push
    by (rule ask_switch; intro stays_seq [OF after_yes.calm(1)] stays_seq [OF before_yes.calm(1)] stays_lift)
      (auto simp: status intro!: blocked decided)
qed

text \<open>After the yes everything may be sent.\<close>

lemma after_product_yes:
  "stays (approved free) (commit_creation D names reserve v a r o' n)"
  "stays (approved free) (commit_promotion D expected projected a o' v)"
  "stays (approved free) (commit_product_review D cost cash projected a o' n v)"
  "stays (approved free) (commit_iteration_of D iteration projected a o' v)"
proof -
  show "stays (approved free) (commit_creation D names reserve v a r o' n)"
    unfolding commit_creation_def by (intro after_yes.product_rules after_yes.atlas_press TrueI)
  have "stays (approved free) (click_promotion D i a seen)" for i seen
    unfolding click_promotion_def
    by (intro after_yes.product_rules after_yes.atlas_press after_yes.atlas_gestures after_yes.ensure TrueI disjI2)
  then show "stays (approved free) (commit_promotion D expected projected a o' v)"
    unfolding commit_promotion_def Let_def by (intro after_yes.product_rules)
  show "stays (approved free) (commit_product_review D cost cash projected a o' n v)"
    unfolding commit_product_review_def Let_def by (intro after_yes.product_rules after_yes.atlas_press TrueI)
  show "stays (approved free) (commit_iteration_of D iteration projected a o' v)"
    unfolding commit_iteration_of_def Let_def by (intro after_yes.product_rules after_yes.atlas_press TrueI)
qed

lemma decision_follows:
  assumes "\<And>w. stays (approved free) (then_do w)"
  shows "stays (unasked free) (decide_commitment_of D provider dry_run w a n denied then_do)"
  unfolding decide_commitment_of_def
  by (intro decide_product_switch stays_if stays_product stays_seq [OF stays_silent [OF silent_store_product]])
    (simp_all add: assms)

definition not_creation :: "string \<Rightarrow> bool" where
  "not_creation i \<longleftrightarrow> i \<noteq> ''commit_product_design''"

lemma creation_follows: "stays (unasked not_creation) (approve_creation D names reserve provider dry_run o' n)"
  unfolding approve_creation_def Let_def
  by (intro decide_product_switch before_yes.product_rules)
    (simp_all add: before_yes.product_rules after_product_yes stays_seq [OF after_yes.product_rules(11)])

definition opens_product_review :: "string \<Rightarrow> bool" where
  "opens_product_review i \<longleftrightarrow> (\<exists>j. i = product_item_target j ''open'' \<or> i = product_item_target j ''review'')"

lemma commitments_follow:
  "stays (unasked not_creation) (start_atlas D names reserve provider dry_run)"
  "stays (unasked (\<lambda>_. False)) (promote_product D provider dry_run v)"
  "stays (unasked opens_product_review) (review_product D provider dry_run v)"
  "stays (unasked (\<lambda>_. False)) (iterate_product D provider dry_run v)"
proof -
  show "stays (unasked not_creation) (start_atlas D names reserve provider dry_run)"
    unfolding start_atlas_def
    by (intro before_yes.product_rules before_yes.set_up creation_follows) (simp add: not_creation_def)
  show "stays (unasked (\<lambda>_. False)) (promote_product D provider dry_run v)"
    unfolding promote_product_def Let_def by (intro before_yes.product_rules decision_follows after_product_yes)
  have "stays (unasked opens_product_review) (opened_review D dry_run v o')" for v o'
    unfolding opened_review_def Let_def
    by (intro before_yes.product_rules before_yes.ensure before_yes.atlas_press)
      (auto simp: opens_product_review_def card_target_def Let_def)
  then show "stays (unasked opens_product_review) (review_product D provider dry_run v)"
    unfolding review_product_def Let_def
    by (intro before_yes.product_rules decision_follows after_product_yes)
  show "stays (unasked (\<lambda>_. False)) (iterate_product D provider dry_run v)"
    unfolding iterate_product_def Let_def by (intro before_yes.product_rules decision_follows after_product_yes)
qed

section \<open>What the operations promise\<close>

text \<open>
  A dry run of any operation on the product (closing the design window, starting, holding, advancing, promoting,
  reviewing, iterating) sends no input at all, whatever the desktop and the workflow are and however the run ends.
\<close>

theorem product_dry_runs_send_nothing:
  "sends_nothing (ow_trace (snd (close_product_configuration D True (w\<lparr>ow_trace := []\<rparr>)))) \<and>
    sends_nothing (ow_trace (snd (start_atlas D names reserve provider True (w\<lparr>ow_trace := []\<rparr>)))) \<and>
    sends_nothing (ow_trace (snd (set_product_hold D held True v (w\<lparr>ow_trace := []\<rparr>)))) \<and>
    sends_nothing (ow_trace (snd (advance_product D seconds True v (w\<lparr>ow_trace := []\<rparr>)))) \<and>
    sends_nothing (ow_trace (snd (promote_product D provider True v (w\<lparr>ow_trace := []\<rparr>)))) \<and>
    sends_nothing (ow_trace (snd (review_product D provider True v (w\<lparr>ow_trace := []\<rparr>)))) \<and>
    sends_nothing (ow_trace (snd (iterate_product D provider True v (w\<lparr>ow_trace := []\<rparr>))))"
  by (intro conjI stays_from_empty [where P = sends_nothing] dry_runs_quiet sends_nothing_simps(1))

text \<open>
  C10. No commitment to the product without a yes. In a run of promoting or iterating, every gesture comes after a person said
  yes in that run; in a run of reviewing, every gesture but those that open the controls and the review window, so also
  the one that spends; and in a run of starting, the gesture that creates the product.
\<close>

theorem product_commitments_approved:
  "follows_approval not_creation (ow_trace (snd (start_atlas D names reserve provider dry_run (w\<lparr>ow_trace := []\<rparr>)))) \<and>
    follows_approval (\<lambda>_. False) (ow_trace (snd (promote_product D provider dry_run v (w\<lparr>ow_trace := []\<rparr>)))) \<and>
    follows_approval opens_product_review (ow_trace (snd (review_product D provider dry_run v (w\<lparr>ow_trace := []\<rparr>)))) \<and>
    \<not> opens_product_review ''commit_contract_review'' \<and>
    follows_approval (\<lambda>_. False) (ow_trace (snd (iterate_product D provider dry_run v (w\<lparr>ow_trace := []\<rparr>))))"
proof -
  have "\<not> opens_product_review ''commit_contract_review''"
    by (auto simp: opens_product_review_def product_item_target_def)
  then show ?thesis
    by (intro conjI stays_from_empty [where P = "follows_approval f" for f] commitments_follow follows_approval_simps(1))
qed

end
