(* ===== verification/ProductStore.thy ===== *)
theory ProductStore
  imports ProductSafety WorkflowRows
begin

text \<open>
  The store of product workflows: what a sound store is, and that every operation of the operator keeps it sound, as an
  instance of the interfaces of WorkflowRows.
\<close>

section \<open>The store\<close>

definition product_store_ok :: "product_store \<Rightarrow> bool" where
  "product_store_ok st \<longleftrightarrow> rows_ok pw_id product_open (\<lambda>v. (pw_session v, pw_save v)) (qs_workflows st) \<and>
     distinct (map pe_id (qs_events st)) \<and> distinct (map (\<lambda>e. (pe_workflow e, pe_sequence e)) (qs_events st)) \<and>
     pe_workflow ` set (qs_events st) \<subseteq> fst ` set (qs_workflows st)"

lemma save_product_ok:
  assumes "product_store_ok st" and "save_product w st = ok st'"
  shows "product_store_ok st'"
proof -
  from assms(2) have st': "st' = st\<lparr>qs_workflows := AList.update (pw_id w) w (qs_workflows st)\<rparr>"
    and free: "product_open w \<Longrightarrow> (j, u) \<in> set (qs_workflows st) \<Longrightarrow> owns_product_save (pw_session w) (pw_save w) u \<Longrightarrow>
      j = pw_id w" for j u
    by (auto simp: save_product_def split: if_split_asm)
  have "rows_ok pw_id product_open (\<lambda>v. (pw_session v, pw_save v)) (AList.update (pw_id w) w (qs_workflows st))"
    using assms(1) free by (intro rows_update) (auto simp: product_store_ok_def owns_product_save_def)
  moreover have "fst ` set (AList.update (pw_id w) w (qs_workflows st)) = insert (pw_id w) (fst ` set (qs_workflows st))"
    by (simp add: dom_update)
  ultimately show ?thesis using assms(1) by (auto simp: product_store_ok_def st')
qed

lemma append_product_event_ok:
  assumes "product_store_ok st" and "append_product_event e st = ok st'"
  shows "product_store_ok st'"
proof -
  from assms(2) have st': "st' = st\<lparr>qs_events := qs_events st @ [e]\<rparr>"
    and fresh: "\<forall>d \<in> set (qs_events st). pe_id d \<noteq> pe_id e \<and> (pe_workflow d, pe_sequence d) \<noteq> (pe_workflow e, pe_sequence e)"
    and row: "pe_workflow e \<in> fst ` set (qs_workflows st)"
    by (auto simp: append_product_event_def split: if_split_asm)
  have "pe_id e \<notin> pe_id ` set (qs_events st)"
    "(pe_workflow e, pe_sequence e) \<notin> (\<lambda>e. (pe_workflow e, pe_sequence e)) ` set (qs_events st)"
    using fresh by force+
  with assms(1) row show ?thesis by (simp add: product_store_ok_def st')
qed

interpretation product_rows: event_store product_store_ok save_product append_product_event
  by unfold_locales (fact save_product_ok, fact append_product_event_ok)

section \<open>Every operation keeps it sound\<close>

named_theorems sound_product "operations that keep the product store sound"

declare product_rows.rules [sound_product] product_rows.event [sound_product]

lemma keeps_parts [sound_product]:
  "product_rows.keeps (product_outcome D found r e n v p m)" "product_rows.keeps (product_report D found n v p m)"
  "product_rows.keeps (store_product w)" "product_rows.keeps (append_product D w kind before after action detail)"
  unfolding product_report_def product_outcome_def store_product_def append_product_def by (intro sound_product)+

lemma keeps_gestures [sound_product]:
  "product_rows.keeps (atlas_gesture D o' g)" "product_rows.keeps (atlas_click D o' t effect)"
  "product_rows.keeps (atlas_key D o' code modifiers i effect)" "product_rows.keeps (atlas_text D o' v i effect)"
  unfolding atlas_click_def atlas_key_def atlas_text_def atlas_gesture_def by (intro sound_product)+

lemma keeps_targets [sound_product]:
  "product_rows.keeps (atlas_target D o' i)" "product_rows.keeps (atlas_target_opt D o' i)"
  "product_rows.keeps (has_target D o' i)" "product_rows.keeps (atlas_press D o' i effect)"
proof -
  show target: "product_rows.keeps (atlas_target D o' i)" unfolding atlas_target_def by (intro sound_product)
  show optional: "product_rows.keeps (atlas_target_opt D o' i)"
    unfolding atlas_target_opt_def by (auto split: list.split intro!: sound_product target)
  show "product_rows.keeps (has_target D o' i)" unfolding has_target_def by (intro sound_product optional)
  show "product_rows.keeps (atlas_press D o' i effect)" unfolding atlas_press_def by (intro sound_product target)
qed

lemma keeps_ensure [sound_product]: "product_rows.keeps (ensure_target D dry_run o' i)"
  unfolding ensure_target_def by (intro sound_product)

lemma keeps_now [sound_product]:
  "product_rows.keeps (synchronize_product_now D w o')" "product_rows.keeps (recommend_now D n reserve o')"
  "product_rows.keeps (request_product D w c expected cost cash projected)" "product_rows.keeps (decide_product D w a)"
  "product_rows.keeps (existing_product D s)" "product_rows.keeps (expire_uncommitted D dry_run s)"
  unfolding synchronize_product_now_def recommend_now_def request_product_def decide_product_def existing_product_def
    expire_uncommitted_def
  by (intro sound_product)+

text \<open>The set-up: looking for a step, and taking it\<close>

lemma keeps_step [sound_product]: "product_rows.keeps (setup_step_of D mem o')"
  by (rule looks_stays [OF looks_setup_step])

lemma keeps_take:
  assumes "reversible st"
  shows "product_rows.keeps (take_step D st o')"
proof -
  have "product_rows.keeps (ss_check st after)" for after
    using assms by (intro looks_stays) (simp add: reversible_def)
  moreover have "product_rows.keeps (case ss_input st of ClickOn i \<Rightarrow> atlas_press D o' i (ss_effect st)
      | PressKey code modifiers i \<Rightarrow> atlas_key D o' code modifiers i (ss_effect st)
      | TypeIn v i \<Rightarrow> atlas_text D o' v i (ss_effect st))"
    by (cases "ss_input st") (simp_all add: sound_product)
  ultimately show ?thesis unfolding take_step_def by (intro stays_seq stays_basic)
qed

lemma keeps_creation [sound_product]:
  "product_rows.keeps (commit_creation D n reserve w a r o' gestures)"
  "product_rows.keeps (approve_creation D n reserve provider dry_run o' gestures)"
proof -
  show commit: "product_rows.keeps (commit_creation D n reserve w a r o' gestures)" for w a r
    unfolding commit_creation_def by (intro sound_product)
  show "product_rows.keeps (approve_creation D n reserve provider dry_run o' gestures)"
    unfolding approve_creation_def Let_def by (intro sound_product commit)
qed

lemma keeps_setup [sound_product]: "product_rows.keeps (setup_atlas cycles D n reserve provider dry_run mem o' gestures)"
proof (induction cycles arbitrary: mem o' gestures)
  case (Suc cycles)
  have "gives (\<lambda>w. product_store_ok (ow_store w)) (setup_step_of D mem o') (\<lambda>found. \<forall>st. found = Some st \<longrightarrow> reversible st)"
    by (rule gives_any [OF keeps_step]) (use choosesD(2) [OF chooses_setup] in blast)
  then show ?case
    unfolding setup_atlas.simps
  proof (rule stays_gives)
    fix found :: "('a, product_store) setup_step option"
    assume "\<forall>st. found = Some st \<longrightarrow> reversible st"
    then show "product_rows.keeps (case found of None \<Rightarrow> approve_creation D n reserve provider dry_run o' gestures
      | Some st \<Rightarrow> if dry_run then product_report D None gestures False True (ss_dry st)
        else seq (take_step D st o') (\<lambda>after. setup_atlas cycles D n reserve provider dry_run (ss_memory st) after (gestures + 1)))"
      by (intro stays_cases stays_if keeps_creation keeps_parts stays_seq [OF keeps_take] Suc.IH) simp_all
  qed
qed (simp add: stays_basic)

lemma keeps_decision:
  "(\<And>w. product_rows.keeps (then_do w)) \<Longrightarrow>
     product_rows.keeps (decide_commitment_of D provider dry_run w a n denied then_do)"
  unfolding decide_commitment_of_def by (intro sound_product)

lemma keeps_commitments [sound_product]:
  "product_rows.keeps (click_promotion D i a o')"
  "product_rows.keeps (opened_review D dry_run w o')"
  "product_rows.keeps (commit_product_review D cost cash projected a o' gestures w)"
  "product_rows.keeps (commit_iteration_of D iteration projected a o' w)"
  unfolding click_promotion_def opened_review_def commit_product_review_def commit_iteration_of_def Let_def
  by (intro sound_product)+

lemma keeps_promotion [sound_product]: "product_rows.keeps (commit_promotion D expected projected a o' w)"
  unfolding commit_promotion_def Let_def by (intro sound_product)

lemma keeps_interval [sound_product]:
  "product_rows.keeps (pause_product_interval D)" "product_rows.keeps (open_review_result D dry_run w review o')"
  "product_rows.keeps (resume_work D dry_run w o')" "product_rows.keeps (close_product_windows D dry_run w o' gestures)"
  "product_rows.keeps (finish_interval D seconds w work paused gestures)"
  unfolding pause_product_interval_def open_review_result_def resume_work_def close_product_windows_def finish_interval_def
    Let_def
  by (intro sound_product)+

lemma keeps_run [sound_product]: "product_rows.keeps (run_product_interval D seconds w o' gestures)"
  unfolding run_product_interval_def by (intro sound_product)

lemma keeps_operations:
  "product_rows.keeps (close_product_configuration D dry_run)"
  "product_rows.keeps (start_atlas D n reserve provider dry_run)"
  "product_rows.keeps (set_product_hold D held dry_run v)"
  "product_rows.keeps (advance_product D seconds dry_run v)"
  "product_rows.keeps (promote_product D provider dry_run v)"
  "product_rows.keeps (review_product D provider dry_run v)"
  "product_rows.keeps (iterate_product D provider dry_run v)"
  unfolding close_product_configuration_def start_atlas_def set_product_hold_def advance_product_def promote_product_def
    review_product_def iterate_product_def Let_def
  by (intro sound_product keeps_decision)+

end
