(* ===== verification/ProductCreation.thy ===== *)
theory ProductCreation
  imports ProductSafety
begin

text \<open>
  The creation of the product: the click that commits the design is the only one of its run, directly follows an
  observation on which the recommendation still holds unchanged, and is what a person said yes to right before.
\<close>

section \<open>The click that creates\<close>

definition creation_quiet :: "interaction list \<Rightarrow> bool" where
  "creation_quiet tr \<longleftrightarrow> (\<forall>g. Sent g \<in> set tr \<longrightarrow> ge_target g \<noteq> ''commit_product_design'')"

lemma creation_quiet_simps [simp]:
  "creation_quiet []" "creation_quiet (Observed o' # tr) \<longleftrightarrow> creation_quiet tr"
  "creation_quiet (Asked i b # tr) \<longleftrightarrow> creation_quiet tr"
  "creation_quiet (Sent g # tr) \<longleftrightarrow> ge_target g \<noteq> ''commit_product_design'' \<and> creation_quiet tr"
  by (auto simp: creation_quiet_def)

text \<open>A look on which Atlas is recommended, as it was on an earlier one\<close>

definition recommended_on :: "naming \<Rightarrow> rat \<Rightarrow> ui_observation \<Rightarrow> product_recommendation \<Rightarrow> bool" where
  "recommended_on n reserve o' r \<longleftrightarrow>
     (\<exists>time. recommend_atlas n time (ui_after o') atlas_name atlas_team reserve = ok r) \<and> pr_recommended r"

definition unchanged_recommendation :: "product_recommendation \<Rightarrow> product_recommendation \<Rightarrow> bool" where
  "unchanged_recommendation r r' \<longleftrightarrow> pr_configuration r' = pr_configuration r \<and> pr_runway r' = pr_runway r \<and> pr_team r' = pr_team r"

text \<open>The question to the person was the approval made from the recommendation.\<close>

definition asked_for :: "naming \<Rightarrow> ui_observation \<Rightarrow> product_recommendation \<Rightarrow> uuid \<Rightarrow> string \<Rightarrow> bool" where
  "asked_for n o' r i summary \<longleftrightarrow> (\<exists>fresh asked now w a. create_product_workflow n fresh asked now (ui_after o') r = ok w \<and>
     pw_approval w = Some a \<and> pa_id a = i \<and> pa_summary a = summary)"

definition creation_authorised :: "naming \<Rightarrow> rat \<Rightarrow> interaction list \<Rightarrow> bool" where
  "creation_authorised n reserve tr \<longleftrightarrow> creation_quiet tr \<or>
     (\<exists>pre g fresh i seen rest r r'. tr = pre @ Sent g # Observed fresh # Asked i True # Observed seen # rest \<and>
        ge_target g = ''commit_product_design'' \<and> creation_quiet pre \<and> creation_quiet rest \<and>
        recommended_on n reserve seen r \<and> asked_for n seen r i (ge_effect g) \<and>
        recommended_on n reserve fresh r' \<and> unchanged_recommendation r r' \<and> same_game seen fresh \<and> ui_modal fresh = NoModal)"

lemma creation_quiet_authorised: "creation_quiet tr \<Longrightarrow> creation_authorised n reserve tr"
  by (simp add: creation_authorised_def)

section \<open>Gestures\<close>

text \<open>After a gesture the trace ends with it and with what was seen then.\<close>

definition shown_after :: "string \<Rightarrow> string \<Rightarrow> (interaction list \<Rightarrow> bool) \<Rightarrow> ui_observation \<Rightarrow> interaction list \<Rightarrow> bool" where
  "shown_after i effect P after tr \<longleftrightarrow>
     (\<exists>g rest. tr = Observed after # Sent g # rest \<and> ge_target g = i \<and> ge_effect g = effect \<and> P rest)"

definition allows :: "string \<Rightarrow> string \<Rightarrow> (interaction list \<Rightarrow> bool) \<Rightarrow> (interaction list \<Rightarrow> bool) \<Rightarrow> bool" where
  "allows i effect P S \<longleftrightarrow> (\<forall>tr. P tr \<longrightarrow> S tr) \<and>
     (\<forall>g rest. ge_target g = i \<longrightarrow> ge_effect g = effect \<longrightarrow> P rest \<longrightarrow> S (Sent g # rest) \<and> (\<forall>x. S (Observed x # Sent g # rest)))"

lemma allowsD: "allows i effect P S \<Longrightarrow> P tr \<Longrightarrow> S tr"
  by (simp add: allows_def)

lemma tracing_atlas_gesture:
  assumes "allows (ge_target g) (ge_effect g) P S"
  shows "tracing P S (atlas_gesture D o' g) (shown_after (ge_target g) (ge_effect g) P)"
proof -
  let ?sent = "\<lambda>tr. \<exists>rest. tr = Sent g # rest \<and> P rest"
  have send: "tracing P S (send_gesture D g) (\<lambda>_. ?sent)"
    using assms by (fastforce simp: tracing_defs send_gesture_def allows_def split: prod.splits sum.splits)
  show ?thesis
    unfolding atlas_gesture_def
    by (intro tracing_if tracing_throw tracing_seq [OF send] tracing_silent tracing_observe tracing_lift tracing_ret silent_basic)
      (use assms in \<open>auto simp: allows_def shown_after_def\<close>)
qed

lemma tracing_atlas_click:
  assumes "allows (vt_id t) effect P S"
  shows "tracing P S (atlas_click D o' t effect) (shown_after (vt_id t) effect P)"
proof (cases "vt_point t")
  case None
  then show ?thesis using allowsD [OF assms] by (simp add: atlas_click_def tracing_throw)
next
  case (Some p)
  have gesture: "tracing P S (atlas_gesture D o' ((bound_gesture o' (vt_id t) effect time)\<lparr>ge_point := Some p\<rparr>))
      (shown_after (vt_id t) effect P)" for time
    using tracing_atlas_gesture [of "(bound_gesture o' (vt_id t) effect time)\<lparr>ge_point := Some p\<rparr>" P S D o'] assms
    by (simp add: bound_gesture_def Let_def)
  show ?thesis
    unfolding atlas_click_def Some option.case
    by (intro tracing_silent silent_basic gesture) (rule allowsD [OF assms])
qed

lemma tracing_atlas_press:
  assumes "allows i effect P S"
  shows "tracing P S (atlas_press D o' i effect) (shown_after i effect P)"
  unfolding atlas_press_def atlas_target_def
proof (rule tracing_find)
  fix t :: visual_target
  assume "vt_id t = i"
  with tracing_atlas_click [of t effect P S] assms
  show "tracing P S (atlas_click D o' t effect) (shown_after i effect P)" by simp
qed (rule allowsD [OF assms])

lemma tracing_atlas_input:
  assumes "allows i effect P S"
  shows "tracing P S (atlas_key D o' code modifiers i effect) (shown_after i effect P)"
    "tracing P S (atlas_text D o' v i effect) (shown_after i effect P)"
proof -
  have gesture: "tracing P S (atlas_gesture D o' g) (shown_after i effect P)" if "ge_target g = i" "ge_effect g = effect" for g
    using tracing_atlas_gesture [of g P S D o'] assms that by simp
  show "tracing P S (atlas_key D o' code modifiers i effect) (shown_after i effect P)"
    "tracing P S (atlas_text D o' v i effect) (shown_after i effect P)"
    unfolding atlas_key_def atlas_text_def
    by (intro tracing_silent silent_basic gesture; simp add: allowsD [OF assms] bound_gesture_def Let_def)+
qed

section \<open>The set-up\<close>

definition seen_quiet :: "ui_observation \<Rightarrow> interaction list \<Rightarrow> bool" where
  "seen_quiet o' tr \<longleftrightarrow> (\<exists>rest. tr = Observed o' # rest \<and> creation_quiet rest)"

lemma seen_authorised: "seen_quiet o' tr \<Longrightarrow> creation_authorised n reserve tr"
  by (auto simp: seen_quiet_def creation_quiet_authorised)

lemma step_keeps:
  assumes "reversible st"
  shows "tracing (seen_quiet o') (creation_authorised n reserve) (take_step D st o') seen_quiet"
proof -
  let ?i = "input_target (ss_input st)"
  have i: "?i \<noteq> ''commit_product_design''" and check: "silent (ss_check st after)" for after
    using assms looks_silent by (auto simp: reversible_def)
  have allowed: "allows ?i (ss_effect st) (seen_quiet o') (creation_authorised n reserve)"
    using i by (auto simp: allows_def seen_quiet_def intro!: creation_quiet_authorised)
  have shown: "shown_after ?i (ss_effect st) (seen_quiet o') after tr \<Longrightarrow> seen_quiet after tr" for after tr
    using i by (auto simp: shown_after_def seen_quiet_def)
  have "tracing (seen_quiet o') (creation_authorised n reserve)
      (case ss_input st of ClickOn i \<Rightarrow> atlas_press D o' i (ss_effect st)
      | PressKey code modifiers i \<Rightarrow> atlas_key D o' code modifiers i (ss_effect st)
      | TypeIn v i \<Rightarrow> atlas_text D o' v i (ss_effect st)) (shown_after ?i (ss_effect st) (seen_quiet o'))"
    using allowed by (cases "ss_input st") (simp_all add: tracing_atlas_press tracing_atlas_input)
  then show ?thesis
    unfolding take_step_def
    by (rule tracing_seq) (intro tracing_silent tracing_ret check; auto intro: shown seen_authorised dest: shown)
qed

text \<open>The commitment, once everything was checked\<close>

lemma creation_click:
  assumes facts: "recommended_on n reserve seen r" "asked_for n seen r i summary" "recommended_on n reserve fresh r'"
      "unchanged_recommendation r r'" "same_game seen fresh" "ui_modal fresh = NoModal"
    and after: "\<And>after. silent (f after)"
  shows "tracing (\<lambda>tr. \<exists>rest. tr = Observed fresh # Asked i True # Observed seen # rest \<and> creation_quiet rest)
    (creation_authorised n reserve) (seq (atlas_press D fresh ''commit_product_design'' summary) f)
    (\<lambda>_. creation_authorised n reserve)"
proof -
  let ?P = "\<lambda>tr. \<exists>rest. tr = Observed fresh # Asked i True # Observed seen # rest \<and> creation_quiet rest"
  have authorised: "creation_authorised n reserve (pre @ Sent g # tr)"
    if "ge_target g = ''commit_product_design''" "ge_effect g = summary" "?P tr" "creation_quiet pre" for pre g tr
    using that facts unfolding creation_authorised_def by blast
  have allowed: "allows ''commit_product_design'' summary ?P (creation_authorised n reserve)"
    unfolding allows_def using authorised [of _ _ "[]"] authorised [of _ _ "[Observed x]" for x]
    by (auto intro!: creation_quiet_authorised)
  have shown: "shown_after ''commit_product_design'' summary ?P after tr \<Longrightarrow> creation_authorised n reserve tr" for after tr
    using authorised [of _ _ "[Observed after]"] by (auto simp: shown_after_def)
  show ?thesis
    by (rule tracing_seq [OF tracing_atlas_press [OF allowed]])
      (rule tracing_pre [where P' = "creation_authorised n reserve"], rule tracing_silent_end [OF after], auto intro: shown)
qed

lemma commit_authorised:
  assumes r: "recommended_on n reserve seen r" and asked: "asked_for n seen r i (pa_summary a)"
  shows "tracing (\<lambda>tr. \<exists>rest. tr = Asked i True # Observed seen # rest \<and> creation_quiet rest) (creation_authorised n reserve)
    (commit_creation D n reserve w a r seen gestures) (\<lambda>_. creation_authorised n reserve)"
proof -
  let ?asked = "\<lambda>tr. \<exists>rest. tr = Asked i True # Observed seen # rest \<and> creation_quiet rest"
  let ?P = "\<lambda>fresh tr. \<exists>rest. tr = Observed fresh # Asked i True # Observed seen # rest \<and> creation_quiet rest"
  have quiet: "?asked tr \<Longrightarrow> creation_authorised n reserve tr" "?P fresh tr \<Longrightarrow> creation_authorised n reserve tr" for tr fresh
    by (auto intro!: creation_quiet_authorised)
  have looked: "tracing (\<lambda>tr. \<exists>rest. tr = Observed fresh # rest \<and> ?asked rest) S m R" if "tracing (?P fresh) S m R"
    for fresh S and m :: "('c, 'd, 'e) operation" and R
    using that by (rule tracing_pre) auto
  show ?thesis
    unfolding commit_creation_def recommend_now_def seq_push
  proof (rule tracing_observe [OF quiet(1)], assumption, rule looked, rule tracing_lift [OF quiet(2)], assumption,
      rule tracing_lift [OF quiet(2)], assumption, rule tracing_silent [OF silent_basic(1) quiet(2)], assumption,
      rule tracing_lift [OF quiet(2)], assumption, rule tracing_if, rule tracing_throw [OF quiet(2)], assumption,
      rule tracing_lift [OF quiet(2)], assumption, rule creation_click [OF r asked])
    fix fresh u v time r'
    assume "atlas_continuity seen fresh = ok u" "require_actionable ''Atlas'' fresh = ok v"
      "recommend_atlas n time (ui_after fresh) atlas_name atlas_team reserve = ok r'"
      "\<not> (\<not> pr_recommended r' \<or> pr_configuration r' \<noteq> pr_configuration r \<or> pr_runway r' \<noteq> pr_runway r \<or> pr_team r' \<noteq> pr_team r)"
    then show "recommended_on n reserve fresh r'" "unchanged_recommendation r r'" "same_game seen fresh" "ui_modal fresh = NoModal"
      by (auto simp: recommended_on_def unchanged_recommendation_def atlas_continuity_def require_actionable_def split: if_split_asm)
  qed (intro silent_seq silent_if silent_basic silent_product silent_option silent_pair)
qed

section \<open>The whole run\<close>

lemma resolved_status: "resolve_product_approval time b w = ok w' \<Longrightarrow> pw_status w' = ProductBlocked \<longleftrightarrow> \<not> b"
  by (auto simp: resolve_product_approval_def split: option.split_asm if_split_asm)

lemma approval_authorised:
  "tracing (seen_quiet seen) (creation_authorised n reserve) (approve_creation D n reserve provider dry_run seen gestures)
     (\<lambda>_. creation_authorised n reserve)"
proof -
  have answer: "tracing (\<lambda>tr. \<exists>rest. tr = Asked (pa_id a) b # rest \<and> seen_quiet seen rest) (creation_authorised n reserve)
      (seq (read_clock D) (\<lambda>time. seq (lift_result (resolve_product_approval time b w)) (\<lambda>decided.
        if pw_status decided = ProductBlocked
        then seq (read_clock D) (\<lambda>ended. seq (store_product (decided\<lparr>pw_status := ProductFailed, pw_updated := ended\<rparr>)) (\<lambda>_.
          product_report D (Some (decided\<lparr>pw_status := ProductFailed, pw_updated := ended\<rparr>)) gestures False False message))
        else seq (store_product decided) (\<lambda>_. commit_creation D n reserve decided a r seen gestures))))
      (\<lambda>_. creation_authorised n reserve)"
    if r: "recommended_on n reserve seen r" and asked: "asked_for n seen r (pa_id a) (pa_summary a)" for a b w r message
  proof -
    have quiet: "\<exists>rest. tr = Asked (pa_id a) b # rest \<and> seen_quiet seen rest \<Longrightarrow> creation_authorised n reserve tr" for tr
      by (auto simp: seen_quiet_def intro!: creation_quiet_authorised)
    have go: "tracing (\<lambda>tr. \<exists>rest. tr = Asked (pa_id a) b # rest \<and> seen_quiet seen rest) (creation_authorised n reserve)
        (commit_creation D n reserve decided a r seen gestures) (\<lambda>_. creation_authorised n reserve)" if b for decided
      by (rule tracing_pre [OF commit_authorised [OF r asked]]) (use that in \<open>auto simp: seen_quiet_def\<close>)
    show ?thesis
      apply (rule tracing_silent [OF silent_basic(1) quiet], assumption)
      apply (rule tracing_lift [OF quiet], assumption)
      apply (rule tracing_if)
       apply (rule tracing_silent [OF silent_basic(1) quiet], assumption)
       apply (rule tracing_silent [OF silent_store_product quiet], assumption)
       apply (rule tracing_silent_end [OF silent_outcome(2) quiet], assumption)
      apply (rule tracing_silent [OF silent_store_product quiet], assumption)
      apply (rule go, simp add: resolved_status)
      done
  qed
  show ?thesis
    unfolding approve_creation_def recommend_now_def decide_product_def seq_push Let_def
    apply (rule tracing_silent [OF silent_basic(1) seen_authorised], assumption)
    apply (rule tracing_lift [OF seen_authorised], assumption)
    apply (rule tracing_if, rule tracing_silent_end [OF silent_outcome(1) seen_authorised], assumption)
    apply (rule tracing_silent [OF silent_basic(1) seen_authorised], assumption)+
    apply (rule tracing_silent [OF silent_basic(2) seen_authorised], assumption)
    apply (rule tracing_lift [OF seen_authorised], assumption)
    subgoal for time r now asked i w
      apply (cases "pw_approval w"; simp only: option.case)
       apply (rule tracing_throw [OF seen_authorised], assumption)
      subgoal for a
        apply (rule tracing_if, rule tracing_silent_end [OF silent_outcome(1) seen_authorised], assumption)
        apply (rule tracing_silent [OF silent_store_product seen_authorised], assumption)
        apply (rule tracing_if, rule tracing_silent_end [OF silent_outcome(1) seen_authorised], assumption)
        apply (rule tracing_ask [OF seen_authorised], assumption)
        apply (rule answer)
         apply (auto simp: recommended_on_def) [1]
        apply (unfold asked_for_def, blast)
        done
      done
    done
qed

lemma set_up_authorised:
  "tracing (seen_quiet o') (creation_authorised n reserve) (setup_atlas cycles D n reserve provider dry_run mem o' gestures)
     (\<lambda>_. creation_authorised n reserve)"
proof (induction cycles arbitrary: mem o' gestures)
  case 0
  show ?case unfolding setup_atlas.simps by (rule tracing_throw) (rule seen_authorised)
next
  case (Suc cycles)
  have step: "tracing (seen_quiet o') (creation_authorised n reserve) (setup_step_of D mem o')
      (\<lambda>found tr. (\<forall>st. found = Some st \<longrightarrow> reversible st) \<and> seen_quiet o' tr)"
  proof (rule tracing_facts)
    show "tracing (seen_quiet o') (creation_authorised n reserve) (setup_step_of D mem o') (\<lambda>_. seen_quiet o')"
      by (rule tracing_error [OF tracing_silent_end [OF silent_setup_step]]) (auto intro: seen_authorised)
  qed (use choosesD(2) [OF chooses_setup] in blast)
  show ?case
    unfolding setup_atlas.simps
  proof (rule tracing_seq [OF step], rule tracing_fact)
    fix found :: "('a, product_store) setup_step option"
    assume found: "\<forall>st. found = Some st \<longrightarrow> reversible st"
    show "tracing (seen_quiet o') (creation_authorised n reserve)
      (case found of None \<Rightarrow> approve_creation D n reserve provider dry_run o' gestures
       | Some st \<Rightarrow> if dry_run then product_report D None gestures False True (ss_dry st)
         else seq (take_step D st o') (\<lambda>after. setup_atlas cycles D n reserve provider dry_run (ss_memory st) after (gestures + 1)))
      (\<lambda>_. creation_authorised n reserve)"
    proof (cases found)
      case (Some st)
      with found have "reversible st" by simp
      show ?thesis
        unfolding Some option.case
        by (rule tracing_if, rule tracing_silent_end [OF silent_outcome(2) seen_authorised], assumption)
          (rule tracing_seq [OF step_keeps [OF \<open>reversible st\<close>] Suc.IH])
    qed (simp add: approval_authorised)
  qed
qed

end
