(* ===== verification/ProductProperties.thy ===== *)
theory ProductProperties
  imports ProductSamples ProductStore ProductCreation
begin

text \<open>
  What holds of the product operator as a whole: when Atlas is recommended, that its creation is authorised, and that its
  store stays sound; each with the small company as a concrete case.
\<close>

section \<open>The recommendation\<close>

text \<open>
  C15. Atlas is recommended exactly when the design that is shown, the team and the money fit: the design is the pinned one
  at the ideal price with only the team assigned; the team has people, both skills, no other work, and every specialization
  and role that the chosen features need; the operating system is the one with most users, every prerequisite is released
  and no server is needed; and the cash less payroll and infrastructure for all (rounded up, at least one) months of
  development keeps the reserve. A reason is given exactly when it is not recommended.
\<close>

theorem product_recommendation_exact:
  assumes "recommend_atlas n now s name team_name reserve = ok r"
  shows "\<exists>v cash payroll infrastructure. view_product s team_name reserve = ok v \<and>
    pr_configuration r = vw_configuration v \<and> pr_team r = vw_team v \<and> pr_runway r = vw_runway v \<and>
    (pr_recommended r \<longleftrightarrow> design_fits team_name v \<and> staff_fits v \<and> money_fits v) \<and> (pr_recommended r \<longleftrightarrow> pr_reasons r = []) \<and>
    product_cash s = ok cash \<and> numeric_sum s ''employees'' ''salary'' = ok payroll \<and>
    numeric_sum s ''infrastructure'' ''recurring_cost'' = ok infrastructure \<and> ru_reserve (pr_runway r) = reserve \<and>
    ru_after (pr_runway r) =
      dsub (dsub cash (dec (dadd payroll infrastructure * max 1 (of_int \<lceil>cf_months (pr_configuration r)\<rceil>)))) 0"
proof -
  from assms obtain v where v: "view_product s team_name reserve = ok v"
    and r: "r = build_product_recommendation n now s team_name v"
    by (auto simp: recommend_atlas_def rbind_Inr_iff split: if_split_asm)
  have fields: "pr_configuration r = vw_configuration v" "pr_team r = vw_team v" "pr_runway r = vw_runway v"
    "pr_reasons r = product_reasons team_name v" "pr_recommended r \<longleftrightarrow> product_reasons team_name v = []"
    by (simp_all add: r build_product_recommendation_def Let_def)
  have "product_reasons team_name v = [] \<longleftrightarrow> design_fits team_name v \<and> staff_fits v \<and> money_fits v"
    using design_reasons_Nil staff_reasons_Nil [OF view_runway(1) [OF v]] money_product_reasons_Nil
    by (simp add: product_reasons_def)
  moreover obtain cash payroll infrastructure where money: "product_cash s = ok cash"
    "numeric_sum s ''employees'' ''salary'' = ok payroll" "numeric_sum s ''infrastructure'' ''recurring_cost'' = ok infrastructure"
    "vw_runway v = project_runway cash reserve payroll infrastructure (cf_months (vw_configuration v))"
    using view_runway(2) [OF v] by blast
  ultimately show ?thesis
    using v fields
    by (intro exI [of _ v] exI [of _ cash] exI [of _ payroll] exI [of _ infrastructure])
      (simp add: project_runway_def Let_def)
qed

lemma product_recommendation_exact_witness:
  "\<exists>r v. recommend_atlas atlas_naming 10 (shop 1 60000 []) atlas_name atlas_team 50000 = ok r \<and> pr_recommended r \<and>
     view_product (shop 1 60000 []) atlas_team 50000 = ok v \<and> design_fits atlas_team v \<and> staff_fits v \<and> money_fits v \<and>
     ru_reserve (pr_runway r) = 50000"
  using product_recommendation_exact [OF atlas_recommended(1) [of 1]] atlas_recommended by blast


section \<open>The creation\<close>

text \<open>
  C9. Creating the product. Whatever the desktop does, a run of \<open>start_atlas\<close> clicks the creating control at most once.
  Right before that click the game was observed, without a modal window, with a design that is recommended; right before
  that a person said yes to the approval made from the recommendation on the look before, which the click names; and
  design, runway and team of the two recommendations are equal.
\<close>

theorem product_creation_authorised:
  "creation_authorised n reserve (ow_trace (snd (start_atlas D n reserve provider dry_run (world\<lparr>ow_trace := []\<rparr>))))"
proof -
  let ?S = "creation_authorised n reserve"
  let ?seen = "\<lambda>o' tr. \<exists>rest. tr = Observed o' # rest \<and> rest = []"
  have quiet: "?seen o' tr \<Longrightarrow> ?S tr" for o' tr by (auto intro: creation_quiet_authorised)
  have set_up: "tracing (?seen o') ?S (setup_atlas setup_cycles D n reserve provider dry_run mem o' 0) (\<lambda>_. ?S)" for o' mem
    by (rule tracing_pre [OF set_up_authorised]) (auto simp: seen_quiet_def)
  have "tracing (\<lambda>tr. tr = []) ?S (start_atlas D n reserve provider dry_run) (\<lambda>_. ?S)"
    unfolding start_atlas_def
  proof (rule tracing_observe)
    fix o'
    show "tracing (?seen o') ?S (seq (lift_result (require_actionable ''Atlas'' o')) (\<lambda>_.
       if \<not> is_paused o'
       then throw (UIValidationError ''pause the game before configuring Atlas; no product input was sent'')
       else
       seq (lift_result (product_work (ui_after o') atlas_name)) (\<lambda>work.
       if work \<noteq> None
       then seq (existing_product D (ui_after o')) (\<lambda>w. product_report D (Some w) 0 True False
           ''Atlas already exists in this save; duplicate creation was rejected with no input.'')
       else
       seq (expire_uncommitted D dry_run (ui_after o')) (\<lambda>stopped.
       case stopped of Some r \<Rightarrow> ret r
       | None \<Rightarrow> setup_atlas setup_cycles D n reserve provider dry_run
           \<lparr>sm_selecting = None, sm_name = False, sm_price = False\<rparr> o' 0)))) (\<lambda>_. ?S)"
      apply (rule tracing_lift [OF quiet], assumption)
      apply (rule tracing_if, rule tracing_throw [OF quiet], assumption)
      apply (rule tracing_lift [OF quiet], assumption)
      apply (rule tracing_if, rule tracing_silent_end [OF silent_seq [OF silent_now(4) silent_outcome(2)] quiet], assumption)
      apply (rule tracing_silent [OF silent_expire quiet], assumption)
      subgoal for _ _ stopped
        by (cases stopped; simp only: option.case; (rule set_up | rule tracing_ret, erule quiet))
      done
  qed (auto intro: creation_quiet_authorised)
  then show ?thesis
    using tracing_result [of "\<lambda>tr. tr = []" ?S "start_atlas D n reserve provider dry_run" "world\<lparr>ow_trace := []\<rparr>"]
    by (metis (no_types, lifting) operating.select_convs(3) operating.surjective operating.update_convs(3) prod.collapse)
qed

lemma product_creation_authorised_witness:
  "creation_authorised atlas_naming 50000 (ow_trace (snd (start_atlas scripted atlas_naming 50000 True False
     (creation_day\<lparr>ow_trace := []\<rparr>)))) \<and>
   (\<exists>g. Sent g \<in> set (ow_trace (snd (start_atlas scripted atlas_naming 50000 True False (creation_day\<lparr>ow_trace := []\<rparr>)))) \<and>
     ge_target g = ''commit_product_design'')"
proof -
  have "creation_day\<lparr>ow_trace := []\<rparr> = creation_day" by (simp add: creation_day_def)
  then show ?thesis using creation_run product_creation_authorised [of atlas_naming 50000 scripted True False creation_day]
    by auto
qed


section \<open>The store\<close>

text \<open>
  C19. The store of product workflows stays sound under every operation of the operator, whatever the desktop does and
  wherever the operation fails: rows keep their keys, a save has at most one open workflow, no event is recorded twice, and
  every event belongs to a stored workflow. In a sound store the look-up of the open workflow of a save never fails.
\<close>

theorem product_store_sound:
  assumes "product_store_ok (ow_store w)"
  shows "product_store_ok (ow_store (snd (start_atlas D n reserve provider dry_run w))) \<and>
    product_store_ok (ow_store (snd (set_product_hold D held dry_run v w))) \<and>
    product_store_ok (ow_store (snd (advance_product D seconds dry_run v w))) \<and>
    product_store_ok (ow_store (snd (promote_product D provider dry_run v w))) \<and>
    product_store_ok (ow_store (snd (review_product D provider dry_run v w))) \<and>
    product_store_ok (ow_store (snd (iterate_product D provider dry_run v w))) \<and>
    (\<exists>found. current_product session save (ow_store w) = ok found)"
proof -
  have "owns_product_save session save = (\<lambda>v. product_open v \<and> (pw_session v, pw_save v) = (session, save))"
    by (auto simp: owns_product_save_def)
  then obtain own where own: "filter (owns_product_save session save) (map snd (qs_workflows (ow_store w))) = own"
    and "length own \<le> 1"
    using assms rows_lookup [where p = "(session, save)"] unfolding product_store_ok_def by fastforce
  then have "\<exists>found. current_product session save (ow_store w) = ok found"
    unfolding current_product_def own by (auto split: list.split)
  moreover have "product_rows.keeps m \<Longrightarrow> product_store_ok (ow_store (snd (m w)))" for m :: "('a, product_result) product_operation"
    using assms by (simp add: stays_def)
  ultimately show ?thesis by (intro conjI) (simp_all add: keeps_operations)
qed

lemma product_store_sound_witness:
  "\<exists>v. product_store_ok (ow_store (snd (start_atlas scripted atlas_naming 50000 True False creation_day))) \<and>
     product_store_ok (ow_store (snd (promote_product scripted True False v creation_day)))"
proof -
  have "product_store_ok (ow_store creation_day)" by (simp add: product_store_ok_def rows_ok_def creation_day_def)
  from product_store_sound [OF this] show ?thesis by blast
qed

end
