(* ===== verification/Spec2Isabelle.thy ===== *)
theory Spec2Isabelle
  imports RuntimeProperties RefProperties StoreProperties CommandProperties Authority IntentProperties
    GameDate ClientProperties OpenTTDRecovery OpenTTDActions TrainingStore
    ContractAcceptance ContractRecommendation ContractReview ContractStore
    ProductIntent ProductProperties
begin

text \<open>
  Sim Pilot (\<open>src/sim_pilot\<close>) runs tasks against economic simulations: a decision provider proposes
  actions, a deterministic runtime checks them against the task's authority, executes them through an
  adapter, verifies their effect, and makes every step durable before it takes the next one. This development
  models the Python code of that runtime, of its in-memory persistence, of the reference simulation with its
  adapter, of the intent compiler, of the OpenTTD network protocol and client, and of the operators that educate an
  employee, carry out a contract and develop a product in the game Software Inc., and proves what makes each of them
  correct.

  \<^bold>\<open>The parts and how they interact.\<close>
  \<open>RuntimeEngine\<close> creates a task, reconstructs its context from the store, and in \<open>run_runtime\<close> initialises
  the adapter and enters the loop \<open>run_iterations\<close>. A pass evaluates progress on the latest observation,
  projects a bounded context, asks the provider, validates its decision, evaluates the policy, perhaps asks
  for approval, executes and verifies the action, and commits the events it drafted together with the task
  record and a checkpoint in one transaction. After a crash, reconstruction validates the records, and the
  action journal says whether an action was in flight; reconcilers then compare the checkpoint with the
  current state. Before all this the intent compiler turns a request into the specification of a task: it
  validates what a provider answers against the capability catalog of an adapter. The OpenTTD client speaks the
  binary Admin Network protocol, from which its adapter takes observations and through which it sends commands.
  Apart from the runtime, Software Inc. is played through its screen: an operator observes a frame together with the
  game's state, decides, asks a person before anything irreversible, sends one gesture, and observes again; its
  workflow is kept in a store, so that a later command goes on where the last one ended.

  \<^bold>\<open>Theories.\<close> Each opens with a text of its own.
  \<^item> Prelude, Numeric, Json, Uuid: results and exceptions (\<open>'e + 'a\<close>), dictionaries as association lists,
    state-and-exception programs with their triples, Python's floats (a double is the rational that it
    denotes, every operation rounds to 53 bits), decimals (28 digits) and JSON values, 128 bit identifiers.
  \<^item> Domain (\<open>domain/models.py\<close>, \<open>domain/types.py\<close>), RuntimeModels (\<open>runtime/models.py\<close>,
    \<open>adapters/base.py\<close>), Lifecycle (\<open>runtime/lifecycle.py\<close>): the data, as records and datatypes with the
    source's constructors, their validators, and the functions that dump and load them.
  \<^item> Policy, Evaluator, Verification, Attempts, DecisionContext, DecisionValidation, Recovery: the modules of
    \<open>runtime/\<close> of these names; pure functions.
  \<^item> Persistence, EventLog (\<open>persistence/in_memory.py\<close>, \<open>runtime/events.py\<close>): the store as a record of
    association lists, the repositories, and the unit of work as a copy that is committed or dropped.
    Integrity and History: the invariant \<open>store_ok\<close> and the order \<open>store_extends\<close> on stores.
  \<^item> World, RuntimePersistence, Reconstruction, Engine, ActionExecution, Iteration, Execution: the stateful
    runtime (\<open>execution_services.py\<close>, \<open>persistence.py\<close>, \<open>reconstruction.py\<close>, \<open>engine.py\<close>,
    \<open>engine_support.py\<close>, \<open>action_execution.py\<close>, \<open>iteration.py\<close>, \<open>execution.py\<close>) as programs over a world of
    store, clock, adapter and provider.
  \<^item> RefSim, RefAdapter (\<open>reference_simulation/\<close>, \<open>adapters/reference/\<close>, \<open>reconciliation/reference.py\<close>): the
    deterministic simulation, its adapter and its reconciler. RefSimSafety, RefRestore and RefVerified:
    soundness of its states, restart from a snapshot, and the agreement of its results with the verifier.
  \<^item> Commits: what a successful commit writes and when a task loads again. Authority: the loop cannot tell
    an adapter from one whose unauthorised executions are replaced.
  \<^item> IntentCompiler (\<open>intent_compiler/\<close>, \<open>adapter_registry.py\<close>): the catalogs, the validation of a specification,
    and \<open>compile\<close> with any provider. IntentProperties: where it agrees with the evaluator and the
    policy engine, and where it does not.
  \<^item> Utf8, GameDate, OpenTTDProtocol (\<open>openttd/protocol.py\<close>, \<open>openttd/errors.py\<close>): the codec, dates, packets, readers over
    a rest of bytes, encoders. ProtocolProperties: the wire format as a specification, and its round trip.
  \<^item> OpenTTDClient (\<open>openttd/client.py\<close>, \<open>openttd/models.py\<close>, \<open>openttd/config.py\<close>): the client as programs over its state,
    with the incoming bytes and the sent ones; ClientProperties. OpenTTDActions: the two actions of
    \<open>adapters/openttd/adapter.py\<close>. OpenTTDRecovery: \<open>reconciliation/openttd.py\<close> and the default dispatcher.
  \<^item> JsonText, TextParsing: \<open>json.dumps\<close>, and what the operators use of Python's strings. GameSnapshot
    (\<open>game_bridge/models.py\<close>, \<open>software_inc/errors.py\<close>), ScreenControl (\<open>computer_control/models.py\<close>,
    \<open>software_inc/ui/models.py\<close>): the snapshots and their validators, frames, targets and gestures, and the desktop over
    which operators run, with the trace of what they observed, sent and were told.
  \<^item> Training, TrainingOperator (\<open>software_inc/training/\<close>): recommendation, workflow with its approvals, store, and the
    commands that start and advance it. TrainingProperties, TrainingSafety, TrainingStore: their properties.
  \<^item> Contracts, ContractOperator (\<open>software_inc/contracts/\<close>): models, projections, recommendation, workflow, store, and
    the six commands. ContractRecommendation, ContractAcceptance, ContractSafety, ContractReview, ContractStore: what is
    recommended, that nothing irreversible is sent unapproved, dry runs, and the store.
  \<^item> Products, ProductOperator, ProductIntent (\<open>software_inc/products/\<close>): models, projections, recommendation and workflow of
    the product Atlas; its store, the set-up of the design window step by step, and the seven commands; the parser of requests.
    ProductRecommendation, ProductSafety, ProductCreation, ProductStore: what a recommendation rests on, approvals and dry
    runs, the triples for the creating click, and the store. ProductProperties: the properties that rest on them.
  \<^item> InteractionTrace, OperatorInvariants, WorkflowRows: triples and invariants over the trace and over a store, with one
    rule per operation of the desktop, from which whole operators are proved by going through them. ScriptedDesktop,
    ContractSamples, ProductSamples: concrete desktops, games and runs.
  \<^item> RuntimeProperties, RefProperties, StoreProperties, CommandProperties, and the end of Authority: the
    properties, each after a text that states it. Samples holds the concrete tasks and observations of their witnesses.

  \<^bold>\<open>Interfaces.\<close> A locale stands for each contract that one part relies on: \<open>event_log\<close> (an append-only
  stream; both event stores interpret it), \<open>store_invariant\<close> (whatever the two transaction bodies keep, every
  operation of the runtime keeps; interpreted for \<open>store_ok\<close> and for \<open>store_extends\<close>), \<open>restorable\<close>
  (an adapter restored from its snapshot is accepted; interpreted for the reference adapter), \<open>permitted\<close> (an invariant of
  the trace that allows looks, questions and some clicks; interpreted for sending nothing and for sending only after a yes),
  and \<open>workflow_store\<close> with \<open>event_store\<close> (a store that stays sound; interpreted for all three stores of workflows).

  \<^bold>\<open>Parameters.\<close> What is not code under \<open>src/\<close> is an argument: the clock, \<open>uuid5\<close> and SHA-256, the
  decision provider, the cancellation check and the crash hook (fields of \<open>env\<close>), and the adapter's operations,
  for which the reference adapter is one instance. The record \<open>network\<close> gives the client its clock readings, what
  connecting yields (an error or the bytes that will arrive), whether a wait for missing bytes stalls or
  disconnects, and which writes fail. For the operators the record \<open>desktop\<close> gives the observations, the execution of a
  gesture, the foreground check, waiting, the clock, fresh identifiers and the person who approves, over any state; the record
  \<open>naming\<close> gives SHA-256 and \<open>uuid5\<close>.

  \<^bold>\<open>Bounds.\<close> No fuel is used. The run loop is a total function: every pass that goes on has counted an
  iteration below \<open>max_iterations\<close>. The shrinking of a context ends because it drops one event each time,
  and \<open>advance_ticks\<close> recurses on the number of ticks. The receive loops of the client end because every packet
  read shortens the rest of the stream; the loop over the years of a date ends after four of them.
  The cycles of the operators are counted by the code itself (20 for starting a course, 16 for accepting a contract, 36 for
  setting up a product, 3 for browsing and for closing windows), and the model recurses on the same numbers.

  \<^bold>\<open>What the lemmas show.\<close> Validators, the policy engine, the evaluator, the verifier and the reconstructor
  are equivalent to declarative specifications. The store stays intact and history is never rewritten
  whatever is performed in whatever order; transactions are atomic. The lifecycle and the action journal are
  step relations that the code follows. Simulation states stay sound; a restart is invisible to later actions;
  accepted actions of a visible amount are verified, and a crash is classified correctly on both sides of their execution.
  The packet decoder inverts the wire format; a date is the right one; connecting is all or nothing, and observing only
  polls; what the compiler validates against the reference catalog the runtime can evaluate, maintaining at equality
  excepted. A recommended course or contract is the best that fits,
  and the product is recommended exactly when it fits; a click that buys, accepts, creates, promotes, releases or spends
  follows an approval, and the buying, accepting and creating clicks directly follow an observation of exactly the approved
  terms; what counts as an approval, as an authorised execution and as a verified effect is stated apart from the checks of
  the code; dry runs send nothing, with the exception that is proved too.

  \<^bold>\<open>Not modelled.\<close> The command line and configuration files (input and output), the SQLite repositories
  (SQL text run by a database), the OpenAI and Codex providers (network and processes), the bridges, the recognition of
  screens and the mouse, the other operators of Software Inc. (staffing, office, workstations), Rail Route, the
  world model, and the analysis and guidance services. Of the three stores of workflows the look-up of the latest row; of the product operator
  the messages about its progress.
  Decimals are their values: the trailing zeros that Python keeps in a printed decimal are dropped, also
  in the price that is typed. The clock reading that
  a synchronisation makes after its checks is made before them.
  Of the floats, infinities and NaN are not modelled: the models of the source reject them. Messages of
  validation errors are abbreviated to the name of the field.
\<close>

end
